(* ===== verification/Prelude.thy ===== *)
theory Prelude
  imports
    Main
    "HOL-Library.AList"
    "HOL-Library.Char_ord"
    "HOL-Library.List_Lexorder"
    "HOL-Library.Product_Lexorder"
begin

text \<open>
  Shared vocabulary of the development: the exceptions the program raises, operations as
  state transformers that may raise, tables as lists of rows with the queries and updates
  the services issue, and the generic lemmas every component uses.
\<close>

section \<open>Collections of hints\<close>

named_theorems keeps_intros \<open>rules that propagate a relation through an operation\<close>
named_theorems table_simps \<open>lookup, update and insertion laws of tables\<close>

section \<open>Exceptions and operations\<close>

text \<open>
  The exception classes the modelled modules raise or catch, each with the message the code
  builds. Only the class decides which handler catches.
\<close>

datatype exn =
    KeyError string
  | ValueError string
  | TypeError string
  | RuntimeError string
  | IntegrityError
  | ToolAdapterError string
  | HostHelperError string
  | AttributeError
  | RecoveryPersistenceError string
  | ChatAccessDenied string
  | ChatModelError string
  | PermissionError string
  | OSError string

text \<open>
  An operation reads and writes the persisted state. A raised exception keeps the state
  reached so far: what was committed before the exception stays committed.
\<close>

type_synonym ('s, 'a) op = "'s \<Rightarrow> (exn + 'a) \<times> 's"

definition returnE :: "'a \<Rightarrow> ('s, 'a) op" where
  "returnE x s = (Inr x, s)"

definition raiseE :: "exn \<Rightarrow> ('s, 'a) op" where
  "raiseE e s = (Inl e, s)"

definition bindE :: "('s, 'a) op \<Rightarrow> ('a \<Rightarrow> ('s, 'b) op) \<Rightarrow> ('s, 'b) op" where
  "bindE m f s = (case m s of (r, s1) \<Rightarrow> (case r of Inl e \<Rightarrow> (Inl e, s1) | Inr x \<Rightarrow> f x s1))"

definition readE :: "('s \<Rightarrow> 'a) \<Rightarrow> ('s, 'a) op" where
  "readE f s = (Inr (f s), s)"

definition writeE :: "('s \<Rightarrow> 's) \<Rightarrow> ('s, unit) op" where
  "writeE f s = (Inr (), f s)"

definition liftE :: "exn + 'a \<Rightarrow> ('s, 'a) op" where
  "liftE r s = (r, s)"

lemma returnE_simp [simp]: "returnE x s = (Inr x, s)"
  by (simp add: returnE_def)

lemma raiseE_simp [simp]: "raiseE e s = (Inl e, s)"
  by (simp add: raiseE_def)

lemma readE_simp [simp]: "readE f s = (Inr (f s), s)"
  by (simp add: readE_def)

lemma writeE_simp [simp]: "writeE f s = (Inr (), f s)"
  by (simp add: writeE_def)

lemma liftE_simp [simp]: "liftE r s = (r, s)"
  by (simp add: liftE_def)

lemma bindE_Inr [simp]: "m s = (Inr x, s1) \<Longrightarrow> bindE m f s = f x s1"
  by (simp add: bindE_def)

lemma bindE_Inl [simp]: "m s = (Inl e, s1) \<Longrightarrow> bindE m f s = (Inl e, s1)"
  by (simp add: bindE_def)

lemma bindE_split:
  "P (bindE m f s) \<longleftrightarrow>
     (\<forall>e s1. m s = (Inl e, s1) \<longrightarrow> P (Inl e, s1)) \<and> (\<forall>x s1. m s = (Inr x, s1) \<longrightarrow> P (f x s1))"
  by (cases "m s") (auto simp: bindE_def split: sum.splits)

lemma bindE_InrE:
  assumes "bindE m f s = (Inr y, s2)"
  obtains x s1 where "m s = (Inr x, s1)" and "f x s1 = (Inr y, s2)"
  using assms by (auto simp: bindE_def split: prod.splits sum.splits)

lemma bindE_read [simp]: "bindE (readE g) f s = f (g s) s"
  by simp

text \<open>
  \<open>keeps R m\<close>: whatever \<open>m\<close> returns or raises, the state after it is related to the state
  before it by \<open>R\<close>. With \<open>R\<close> reflexive and transitive this is the frame rule used
  throughout: a composed operation keeps what each of its parts keeps.
\<close>

definition keeps :: "('s \<Rightarrow> 's \<Rightarrow> bool) \<Rightarrow> ('s, 'a) op \<Rightarrow> bool" where
  "keeps R m \<longleftrightarrow> (\<forall>s. R s (snd (m s)))"

lemma keepsI [intro?]: "(\<And>s. R s (snd (m s))) \<Longrightarrow> keeps R m"
  by (simp add: keeps_def)

lemma keepsD: "keeps R m \<Longrightarrow> R s (snd (m s))"
  by (simp add: keeps_def)

lemma keepsD': "keeps R m \<Longrightarrow> m s = (r, s') \<Longrightarrow> R s s'"
  by (metis keeps_def snd_conv)

lemma keeps_bindE:
  assumes "transp R" and "keeps R m" and "\<And>x. keeps R (f x)"
  shows "keeps R (bindE m f)"
proof (rule keepsI)
  fix s
  obtain r s1 where m: "m s = (r, s1)" by (cases "m s")
  then have s1: "R s s1" using assms(2) by (rule keepsD'[rotated])
  show "R s (snd (bindE m f s))"
  proof (cases r)
    case (Inl e)
    with m s1 show ?thesis by simp
  next
    case (Inr x)
    have "R s1 (snd (f x s1))" using assms(3) by (rule keepsD)
    with m Inr s1 assms(1) show ?thesis by (auto dest: transpD)
  qed
qed

lemma keeps_returnE: "reflp R \<Longrightarrow> keeps R (returnE x)"
  by (simp add: keeps_def reflpD)

lemma keeps_raiseE: "reflp R \<Longrightarrow> keeps R (raiseE e)"
  by (simp add: keeps_def reflpD)

lemma keeps_readE: "reflp R \<Longrightarrow> keeps R (readE f)"
  by (simp add: keeps_def reflpD)

lemma keeps_liftE: "reflp R \<Longrightarrow> keeps R (liftE r)"
  by (simp add: keeps_def reflpD)

text \<open>The most used instance: a field (or any projection) of the state is unchanged.\<close>

definition same :: "('s \<Rightarrow> 'b) \<Rightarrow> 's \<Rightarrow> 's \<Rightarrow> bool" where
  "same f s t \<longleftrightarrow> f t = f s"

lemma reflp_same [simp, intro!]: "reflp (same f)"
  by (simp add: reflp_def same_def)

lemma transp_same [simp, intro!]: "transp (same f)"
  by (simp add: transp_def same_def)

lemma keeps_same_bindE [keeps_intros]:
  "keeps (same g) m \<Longrightarrow> (\<And>x. keeps (same g) (f x)) \<Longrightarrow> keeps (same g) (bindE m f)"
  by (rule keeps_bindE) simp_all

lemma keeps_same_basic [keeps_intros]:
  "keeps (same g) (returnE x)" "keeps (same g) (raiseE e)"
  "keeps (same g) (readE h)" "keeps (same g) (liftE r)"
  by (simp_all add: keeps_returnE keeps_raiseE keeps_readE keeps_liftE)

lemma keeps_if [keeps_intros]:
  "(b \<Longrightarrow> keeps R m) \<Longrightarrow> (\<not> b \<Longrightarrow> keeps R n) \<Longrightarrow> keeps R (if b then m else n)"
  by simp

lemma keeps_case_option [keeps_intros]:
  "(v = None \<Longrightarrow> keeps R m) \<Longrightarrow> (\<And>x. v = Some x \<Longrightarrow> keeps R (f x)) \<Longrightarrow>
   keeps R (case v of None \<Rightarrow> m | Some x \<Rightarrow> f x)"
  by (cases v) simp_all

lemma keeps_case_sum [keeps_intros]:
  "(\<And>x. keeps R (f x)) \<Longrightarrow> (\<And>x. keeps R (g x)) \<Longrightarrow>
   keeps R (case v of Inl x \<Rightarrow> f x | Inr x \<Rightarrow> g x)"
  by (cases v) simp_all

section \<open>Triples\<close>

text \<open>
  \<open>ensures P m Q E\<close>: from a state with \<open>P\<close>, \<open>m\<close> returns a value and a state with \<open>Q\<close>, or raises
  in a state with \<open>E\<close>.
\<close>

definition ensures ::
  "('s \<Rightarrow> bool) \<Rightarrow> ('s, 'a) op \<Rightarrow> ('a \<Rightarrow> 's \<Rightarrow> bool) \<Rightarrow> ('s \<Rightarrow> bool) \<Rightarrow> bool" where
  "ensures P m Q E \<longleftrightarrow>
     (\<forall>s. P s \<longrightarrow> (case m s of (Inl e, t) \<Rightarrow> E t | (Inr x, t) \<Rightarrow> Q x t))"

lemma ensuresI:
  "(\<And>s e t. P s \<Longrightarrow> m s = (Inl e, t) \<Longrightarrow> E t) \<Longrightarrow>
   (\<And>s x t. P s \<Longrightarrow> m s = (Inr x, t) \<Longrightarrow> Q x t) \<Longrightarrow> ensures P m Q E"
  by (auto simp: ensures_def split: prod.split sum.split)

lemma ensures_Inr: "ensures P m Q E \<Longrightarrow> P s \<Longrightarrow> m s = (Inr x, t) \<Longrightarrow> Q x t"
  by (auto simp: ensures_def split: prod.splits sum.splits)

lemma ensures_snd: "ensures P m (\<lambda>_. E) E \<Longrightarrow> P s \<Longrightarrow> E (snd (m s))"
  by (cases "m s") (auto simp: ensures_def split: prod.splits sum.splits)

lemma ensures_bindE:
  "ensures P m R E \<Longrightarrow> (\<And>x. ensures (R x) (f x) Q E) \<Longrightarrow> ensures P (bindE m f) Q E"
  by (fastforce simp: ensures_def bindE_def split: prod.splits sum.splits)

lemma ensures_weaken:
  "ensures P' m Q' E \<Longrightarrow> (\<And>s. P s \<Longrightarrow> P' s) \<Longrightarrow> (\<And>x s. Q' x s \<Longrightarrow> Q x s) \<Longrightarrow> ensures P m Q E"
  by (fastforce simp: ensures_def split: prod.splits sum.splits)

lemma ensures_returnE: "(\<And>s. P s \<Longrightarrow> Q x s) \<Longrightarrow> ensures P (returnE x) Q E"
  by (simp add: ensures_def)

lemma ensures_raiseE: "(\<And>s. P s \<Longrightarrow> E s) \<Longrightarrow> ensures P (raiseE e) Q E"
  by (simp add: ensures_def)

lemma ensures_liftE:
  "(\<And>s. P s \<Longrightarrow> E s) \<Longrightarrow> (\<And>x s. r = Inr x \<Longrightarrow> P s \<Longrightarrow> Q x s) \<Longrightarrow> ensures P (liftE r) Q E"
  by (auto simp: ensures_def split: sum.splits)

section \<open>Time stamps\<close>

text \<open>
  A stored \<open>datetime\<close>: some database drivers return it without a time zone. The number is
  the instant in microseconds, read as UTC where no zone is attached.
\<close>

datatype stamp = Naive int | Aware int

fun stamp_instant :: "stamp \<Rightarrow> int" where
  "stamp_instant (Naive t) = t"
| "stamp_instant (Aware t) = t"

definition seconds :: "int \<Rightarrow> int" where
  "seconds n = n * 1000000"

section \<open>Optional and short-circuit helpers\<close>

definition override :: "'a option \<Rightarrow> 'a option \<Rightarrow> 'a option" where
  "override new old = (case new of None \<Rightarrow> old | Some v \<Rightarrow> Some v)"

lemma override_simps [simp]: "override None old = old" "override (Some v) old = Some v"
  by (simp_all add: override_def)

section \<open>Strings\<close>

text \<open>Python's \<open>str.isspace\<close> and \<open>str.strip\<close> on code points below 256.\<close>

definition is_space :: "char \<Rightarrow> bool" where
  "is_space c \<longleftrightarrow> (of_char c :: nat) \<in> {9, 10, 11, 12, 13, 28, 29, 30, 31, 32, 133, 160}"

definition strip :: "string \<Rightarrow> string" where
  "strip s = rev (dropWhile is_space (rev (dropWhile is_space s)))"

text \<open>\<open>str.split()\<close> and \<open>str.splitlines()\<close>.\<close>

fun split_ws_from :: "string \<Rightarrow> string \<Rightarrow> string list" where
  "split_ws_from acc [] = (if acc = [] then [] else [rev acc])"
| "split_ws_from acc (c # cs) =
     (if is_space c then (if acc = [] then split_ws_from [] cs else rev acc # split_ws_from [] cs)
      else split_ws_from (c # acc) cs)"

definition split_ws :: "string \<Rightarrow> string list" where
  "split_ws s = split_ws_from [] s"

definition is_line_break :: "char \<Rightarrow> bool" where
  "is_line_break c \<longleftrightarrow> (of_char c :: nat) \<in> {10, 11, 12, 13, 28, 29, 30, 133}"

fun splitlines_from :: "string \<Rightarrow> string \<Rightarrow> string list" where
  "splitlines_from acc [] = (if acc = [] then [] else [rev acc])"
| "splitlines_from acc (c # cs) =
     (if c = CHR 0x0D \<and> cs \<noteq> [] \<and> hd cs = CHR 0x0A then rev acc # splitlines_from [] (tl cs)
      else if is_line_break c then rev acc # splitlines_from [] cs
      else splitlines_from (c # acc) cs)"

definition splitlines :: "string \<Rightarrow> string list" where
  "splitlines s = splitlines_from [] s"

text \<open>\<open>str.casefold\<close>; the micro sign, whose folding is outside the range, is left alone.\<close>

definition fold_char :: "char \<Rightarrow> string" where
  "fold_char c =
     (let n = (of_char c :: nat) in
      if (65 \<le> n \<and> n \<le> 90) \<or> (192 \<le> n \<and> n \<le> 222 \<and> n \<noteq> 215) then [char_of (n + 32)]
      else if n = 223 then ''ss''
      else [c])"

definition casefold :: "string \<Rightarrow> string" where
  "casefold s = concat (map fold_char s)"

definition is_ascii :: "string \<Rightarrow> bool" where
  "is_ascii s \<longleftrightarrow> (\<forall>c \<in> set s. (of_char c :: nat) < 128)"

definition ascii_alnum :: "char \<Rightarrow> bool" where
  "ascii_alnum c \<longleftrightarrow>
     (let n = (of_char c :: nat) in
      (48 \<le> n \<and> n \<le> 57) \<or> (65 \<le> n \<and> n \<le> 90) \<or> (97 \<le> n \<and> n \<le> 122))"

definition is_infix :: "string \<Rightarrow> string \<Rightarrow> bool" where
  "is_infix p s \<longleftrightarrow> (\<exists>i \<in> set [0..<Suc (length s)]. take (length p) (drop i s) = p)"

lemma find_Some_in: "find P xs = Some x \<Longrightarrow> x \<in> set xs \<and> P x"
  by (induction xs) (auto split: if_splits)

lemma map_cong_set: "(\<And>x. x \<in> set xs \<Longrightarrow> f x = g x) \<Longrightarrow> map f xs = map g xs"
  by simp

end
