(* ===== verification/Store.thy ===== *)
theory Store
  imports Prelude
begin

text \<open>
  Tables as lists of rows: \<open>db.get\<close>, \<open>SELECT ... WHERE ... ORDER BY ... LIMIT 1\<close>,
  \<open>UPDATE ... WHERE\<close> with its row count, writing a loaded row back at commit, and inserting
  under a primary key. The laws they satisfy are the contract \<open>entity_store\<close>, which every
  component's table interprets.
\<close>

section \<open>Queries and updates on a table\<close>

definition row_of :: "('r \<Rightarrow> 'k) \<Rightarrow> 'k \<Rightarrow> 'r list \<Rightarrow> 'r option" where
  "row_of key k rows = find (\<lambda>r. key r = k) rows"

definition update_where :: "('r \<Rightarrow> bool) \<Rightarrow> ('r \<Rightarrow> 'r) \<Rightarrow> 'r list \<Rightarrow> 'r list" where
  "update_where P f rows = map (\<lambda>r. if P r then f r else r) rows"

definition rowcount :: "('r \<Rightarrow> bool) \<Rightarrow> 'r list \<Rightarrow> nat" where
  "rowcount P rows = length (filter P rows)"

definition save_row :: "('r \<Rightarrow> 'k) \<Rightarrow> 'r \<Rightarrow> 'r list \<Rightarrow> 'r list" where
  "save_row key r rows = update_where (\<lambda>x. key x = key r) (\<lambda>_. r) rows"

definition insert_row :: "('r \<Rightarrow> 'k) \<Rightarrow> 'r \<Rightarrow> 'r list \<Rightarrow> exn + 'r list" where
  "insert_row key r rows =
     (if key r \<in> key ` set rows then Inl IntegrityError else Inr (rows @ [r]))"

definition first_by :: "('r \<Rightarrow> 'o::linorder) \<Rightarrow> 'r list \<Rightarrow> 'r option" where
  "first_by ord rows = (case sort_key ord rows of [] \<Rightarrow> None | r # _ \<Rightarrow> Some r)"

abbreviation unique_keys :: "('r \<Rightarrow> 'k) \<Rightarrow> 'r list \<Rightarrow> bool" where
  "unique_keys key rows \<equiv> distinct (map key rows)"

section \<open>Laws\<close>

lemma row_of_Nil [simp]: "row_of key k [] = None"
  by (simp add: row_of_def)

lemma row_of_Cons [simp]:
  "row_of key k (r # rows) = (if key r = k then Some r else row_of key k rows)"
  by (simp add: row_of_def)

lemma row_of_SomeD: "row_of key k rows = Some r \<Longrightarrow> r \<in> set rows \<and> key r = k"
  by (auto simp: row_of_def find_Some_iff)

lemma row_of_NoneD: "row_of key k rows = None \<Longrightarrow> r \<in> set rows \<Longrightarrow> key r \<noteq> k"
  by (auto simp: row_of_def find_None_iff)

lemma row_of_None_iff: "row_of key k rows = None \<longleftrightarrow> k \<notin> key ` set rows"
  by (auto simp: row_of_def find_None_iff)

lemma row_of_unique: "unique_keys key rows \<Longrightarrow> r \<in> set rows \<Longrightarrow> row_of key (key r) rows = Some r"
  by (induction rows) auto

lemma row_of_eq_iff:
  assumes "unique_keys key rows" and "row_of key k rows = Some r" and "x \<in> set rows"
  shows "key x = k \<longleftrightarrow> x = r"
proof
  assume "key x = k"
  with row_of_unique[OF assms(1,3)] assms(2) show "x = r" by simp
next
  assume "x = r"
  with row_of_SomeD[OF assms(2)] show "key x = k" by simp
qed

lemma update_where_Nil [simp]: "update_where P f [] = []"
  by (simp add: update_where_def)

lemma update_where_Cons [simp]:
  "update_where P f (r # rows) = (if P r then f r else r) # update_where P f rows"
  by (simp add: update_where_def)

lemma update_where_none: "(\<And>r. r \<in> set rows \<Longrightarrow> \<not> P r) \<Longrightarrow> update_where P f rows = rows"
  by (induction rows) auto

lemma length_update_where [simp]: "length (update_where P f rows) = length rows"
  by (simp add: update_where_def)

lemma map_key_update_where [simp]:
  "(\<And>r. key (f r) = key r) \<Longrightarrow> map key (update_where P f rows) = map key rows"
  by (induction rows) auto

lemma row_of_update_where:
  assumes "\<And>r. key (f r) = key r"
  shows "row_of key k (update_where P f rows) =
         map_option (\<lambda>r. if P r then f r else r) (row_of key k rows)"
  using assms by (induction rows) auto

lemma rowcount_0_iff: "rowcount P rows = 0 \<longleftrightarrow> (\<forall>r \<in> set rows. \<not> P r)"
  by (simp add: rowcount_def filter_empty_conv)

lemma rowcount_unique_le:
  assumes "unique_keys key rows" and "\<And>r. P r \<Longrightarrow> key r = k"
  shows "rowcount P rows \<le> 1"
  using assms
proof (induction rows)
  case Nil
  then show ?case by (simp add: rowcount_def)
next
  case (Cons a rows)
  show ?case
  proof (cases "P a")
    case True
    then have "\<not> P r" if "r \<in> set rows" for r
      using that Cons.prems by (force dest: Cons.prems(2))
    then have "rowcount P rows = 0" by (simp add: rowcount_0_iff)
    then show ?thesis by (simp add: rowcount_def)
  next
    case False
    with Cons show ?thesis by (simp add: rowcount_def)
  qed
qed

lemma rowcount_key:
  assumes "unique_keys key rows"
  shows "rowcount (\<lambda>r. key r = k \<and> Q r) rows =
         (case row_of key k rows of None \<Rightarrow> 0 | Some r \<Rightarrow> if Q r then 1 else 0)"
  using assms
proof (induction rows)
  case Nil
  then show ?case by (simp add: rowcount_def)
next
  case (Cons a rows)
  then have IH: "rowcount (\<lambda>r. key r = k \<and> Q r) rows =
     (case row_of key k rows of None \<Rightarrow> 0 | Some r \<Rightarrow> if Q r then 1 else 0)" by simp
  show ?case
  proof (cases "key a = k")
    case True
    with Cons.prems have "row_of key k rows = None"
      by (auto simp: row_of_None_iff)
    with IH True show ?thesis by (simp add: rowcount_def)
  next
    case False
    with IH show ?thesis by (simp add: rowcount_def)
  qed
qed

lemma save_row_Cons [simp]:
  "save_row key r (x # rows) = (if key x = key r then r else x) # save_row key r rows"
  by (simp add: save_row_def)

lemma save_row_Nil [simp]: "save_row key r [] = []"
  by (simp add: save_row_def)

lemma map_key_save_row [simp]: "map key (save_row key r rows) = map key rows"
  by (induction rows) auto

lemma length_save_row [simp]: "length (save_row key r rows) = length rows"
  by (simp add: save_row_def)

lemma key_image_save_row [simp]: "key ` set (save_row key r rows) = key ` set rows"
  by (metis list.set_map map_key_save_row)

lemma row_of_save_row [table_simps]:
  "row_of key k (save_row key r rows) =
     (if k = key r \<and> row_of key k rows \<noteq> None then Some r else row_of key k rows)"
  by (induction rows) auto

lemma save_row_absent: "row_of key (key r) rows = None \<Longrightarrow> save_row key r rows = rows"
  by (induction rows) (auto split: if_splits)

lemma set_save_row_subset: "set (save_row key r rows) \<subseteq> insert r (set rows)"
  by (induction rows) auto

lemma in_set_save_row:
  "x \<in> set (save_row key r rows) \<Longrightarrow> x = r \<or> (x \<in> set rows \<and> key x \<noteq> key r)"
  by (induction rows) (auto split: if_splits)

lemma save_row_self:
  "unique_keys key rows \<Longrightarrow> r \<in> set rows \<Longrightarrow> save_row key r rows = rows"
proof (induction rows)
  case Nil
  then show ?case by simp
next
  case (Cons a rows)
  show ?case
  proof (cases "r \<in> set rows")
    case True
    with Cons show ?thesis by auto
  next
    case False
    with Cons have "a = r" and "row_of key (key r) rows = None"
      by (auto simp: row_of_None_iff)
    then show ?thesis by (simp add: save_row_absent)
  qed
qed

lemma rowcount_save_row_le:
  assumes "unique_keys key rows" and "row_of key (key r') rows = Some r" and "Q r' \<Longrightarrow> Q r"
  shows "rowcount Q (save_row key r' rows) \<le> rowcount Q rows"
  using assms
proof (induction rows)
  case Nil
  then show ?case by simp
next
  case (Cons a rows)
  show ?case
  proof (cases "key a = key r'")
    case True
    with Cons.prems have "row_of key (key r') rows = None"
      by (auto simp: row_of_None_iff)
    then have "save_row key r' rows = rows" by (rule save_row_absent)
    with Cons.prems True show ?thesis by (auto simp: rowcount_def)
  next
    case False
    with Cons show ?thesis by (simp add: rowcount_def)
  qed
qed

lemma insert_row_Inr: "insert_row key r rows = Inr rows' \<Longrightarrow> rows' = rows @ [r] \<and> key r \<notin> key ` set rows"
  by (auto simp: insert_row_def split: if_splits)

lemma insert_row_unique: "insert_row key r rows = Inr rows' \<Longrightarrow> unique_keys key rows \<Longrightarrow> unique_keys key rows'"
  by (auto dest!: insert_row_Inr)

lemma row_of_append:
  "row_of key k (xs @ ys) = (case row_of key k xs of None \<Rightarrow> row_of key k ys | Some r \<Rightarrow> Some r)"
  by (induction xs) auto

section \<open>First row of an ordering\<close>

lemma first_by_None_iff [simp]: "first_by ord rows = None \<longleftrightarrow> rows = []"
proof -
  have "sort_key ord rows = [] \<longleftrightarrow> rows = []"
    by (metis length_0_conv length_sort)
  then show ?thesis by (cases "sort_key ord rows") (auto simp: first_by_def)
qed

lemma first_by_Nil [simp]: "first_by ord [] = None"
  by simp

lemma first_by_SomeD:
  assumes "first_by ord rows = Some r"
  shows "r \<in> set rows" and "\<And>x. x \<in> set rows \<Longrightarrow> ord r \<le> ord x"
proof -
  from assms obtain rs where s: "sort_key ord rows = r # rs"
    by (auto simp: first_by_def split: list.splits)
  then have set: "set rows = insert r (set rs)"
    by (metis list.simps(15) set_sort)
  have "sorted (map ord (r # rs))" using s by (metis sorted_sort_key)
  with set show "r \<in> set rows" and "\<And>x. x \<in> set rows \<Longrightarrow> ord r \<le> ord x"
    by auto
qed

lemma first_by_min:
  assumes "r \<in> set rows" and "\<And>x. x \<in> set rows \<Longrightarrow> x \<noteq> r \<Longrightarrow> ord r < ord x"
  shows "first_by ord rows = Some r"
proof -
  from assms(1) obtain q where q: "first_by ord rows = Some q"
    by (cases "first_by ord rows") auto
  with first_by_SomeD[OF q] assms have "q = r"
    by (metis leD)
  with q show ?thesis by simp
qed

section \<open>The contract of an entity store\<close>

text \<open>
  \<open>get\<close> is \<open>db.get(Model, id)\<close>, \<open>put\<close> writes a loaded entity back, \<open>add\<close> inserts a new
  one or fails on its primary key. What a client relies on: reading back what it wrote,
  every other entity untouched, keys stable.
\<close>

locale entity_store =
  fixes get :: "'k \<Rightarrow> 's \<Rightarrow> 'r option"
    and put :: "'r \<Rightarrow> 's \<Rightarrow> 's"
    and key :: "'r \<Rightarrow> 'k"
  assumes get_key: "get k s = Some r \<Longrightarrow> key r = k"
    and get_put_same: "get (key r) s \<noteq> None \<Longrightarrow> get (key r) (put r s) = Some r"
    and get_put_other: "k \<noteq> key r \<Longrightarrow> get k (put r s) = get k s"
    and put_absent: "get (key r) s = None \<Longrightarrow> get k (put r s) = get k s"
begin

lemma get_put: "get (key r) s \<noteq> None \<Longrightarrow> get k (put r s) = (if k = key r then Some r else get k s)"
  by (simp add: get_put_same get_put_other)

lemma get_update:
  "get k s = Some r \<Longrightarrow> key r' = key r \<Longrightarrow> get k (put r' s) = Some r'"
  by (metis get_key get_put_same option.distinct(1))

lemma get_update_other:
  "get k s = Some r \<Longrightarrow> key r' = key r \<Longrightarrow> j \<noteq> k \<Longrightarrow> get j (put r' s) = get j s"
  by (metis get_key get_put_other)

lemma domain_put: "get k (put r s) = None \<longleftrightarrow> get k s = None"
  by (cases "get (key r) s") (simp_all add: put_absent get_put)

lemma put_put:
  "key r = key r' \<Longrightarrow> get k (put r' (put r s)) = get k (put r' s)"
  by (cases "get (key r') s") (auto simp: get_put put_absent domain_put)

end

end
