(* ===== verification/Json.thy ===== *)
theory Json
  imports Prelude
begin

text \<open>
  The values that cross the program's boundaries (tool arguments, conditions, action plans,
  readiness payloads) as one datatype, with Python's equality on them and the canonical text
  that \<open>json.dumps(..., sort_keys=True, separators=(",", ":"))\<close> writes. Objects are
  association lists: the order is the insertion order of the Python dict. Floating point
  numbers are not modelled.
\<close>

section \<open>Values\<close>

datatype json =
    JNull
  | JBool bool
  | JInt int
  | JStr string
  | JList "json list"
  | JObj "(string \<times> json) list"

type_synonym dict = "(string \<times> json) list"

text \<open>\<open>d.get(key)\<close> is \<open>None\<close> for a missing key, \<open>JNull\<close> here.\<close>

definition dict_get :: "dict \<Rightarrow> string \<Rightarrow> json" where
  "dict_get d k = (case map_of d k of None \<Rightarrow> JNull | Some v \<Rightarrow> v)"

definition dict_get_default :: "dict \<Rightarrow> string \<Rightarrow> json \<Rightarrow> json" where
  "dict_get_default d k v = (case map_of d k of None \<Rightarrow> v | Some w \<Rightarrow> w)"

definition dict_keys :: "dict \<Rightarrow> string set" where
  "dict_keys d = fst ` set d"

text \<open>What is left of a dict after \<open>d.pop(key, ...)\<close>.\<close>

definition dict_pop :: "string \<Rightarrow> dict \<Rightarrow> dict" where
  "dict_pop k d = filter (\<lambda>kv. fst kv \<noteq> k) d"

lemma dict_get_Nil [simp]: "dict_get [] k = JNull"
  by (simp add: dict_get_def)

lemma dict_get_Cons [simp]: "dict_get ((a, v) # d) k = (if a = k then v else dict_get d k)"
  by (simp add: dict_get_def)

text \<open>Python's truth value of a value.\<close>

fun truthy :: "json \<Rightarrow> bool" where
  "truthy JNull = False"
| "truthy (JBool b) = b"
| "truthy (JInt i) = (i \<noteq> 0)"
| "truthy (JStr s) = (s \<noteq> [])"
| "truthy (JList xs) = (xs \<noteq> [])"
| "truthy (JObj d) = (d \<noteq> [])"

text \<open>
  Python's \<open>==\<close>: booleans are integers, dictionaries compare without regard to order.
\<close>

fun py_eq :: "json \<Rightarrow> json \<Rightarrow> bool" where
  "py_eq JNull w = (w = JNull)"
| "py_eq (JBool b) w = (case w of JBool c \<Rightarrow> b = c | JInt i \<Rightarrow> i = (if b then 1 else 0) | _ \<Rightarrow> False)"
| "py_eq (JInt i) w = (case w of JBool c \<Rightarrow> i = (if c then 1 else 0) | JInt j \<Rightarrow> i = j | _ \<Rightarrow> False)"
| "py_eq (JStr s) w = (w = JStr s)"
| "py_eq (JList xs) w = (case w of JList ys \<Rightarrow> list_all2 py_eq xs ys | _ \<Rightarrow> False)"
| "py_eq (JObj d) w =
     (case w of
        JObj e \<Rightarrow> length d = length e \<and>
          list_all (\<lambda>(k, v). case map_of e k of None \<Rightarrow> False | Some u \<Rightarrow> py_eq v u) d
      | _ \<Rightarrow> False)"

text \<open>Objects built by Python have distinct keys at every level.\<close>

fun json_wf :: "json \<Rightarrow> bool" where
  "json_wf (JList xs) = list_all json_wf xs"
| "json_wf (JObj d) = (distinct (map fst d) \<and> list_all (\<lambda>(k, v). json_wf v) d)"
| "json_wf _ = True"

lemma py_eq_refl: "json_wf v \<Longrightarrow> py_eq v v"
proof (induction v)
  case (JList xs)
  then show ?case by (auto simp: list_all2_same list_all_iff)
next
  case (JObj d)
  have "map_of d k = Some v" if "(k, v) \<in> set d" for k v
    using that JObj.prems by simp
  with JObj show ?case by (fastforce simp: list_all_iff)
qed simp_all

section \<open>Decimal numerals\<close>

definition digit_char :: "nat \<Rightarrow> char" where
  "digit_char n = char_of (48 + n)"

definition is_digit :: "char \<Rightarrow> bool" where
  "is_digit c \<longleftrightarrow> 48 \<le> (of_char c :: nat) \<and> (of_char c :: nat) \<le> 57"

fun nat_repr :: "nat \<Rightarrow> string" where
  "nat_repr n = (if n < 10 then [digit_char n] else nat_repr (n div 10) @ [digit_char (n mod 10)])"

declare nat_repr.simps [simp del]

definition int_repr :: "int \<Rightarrow> string" where
  "int_repr i = (if i < 0 then CHR ''-'' # nat_repr (nat (- i)) else nat_repr (nat i))"

definition digits_value :: "string \<Rightarrow> nat" where
  "digits_value s = foldl (\<lambda>acc c. 10 * acc + (of_char c - 48)) 0 s"

lemma of_char_digit_char [simp]: "n < 10 \<Longrightarrow> (of_char (digit_char n) :: nat) = 48 + n"
  by (simp add: digit_char_def of_char_of)

lemma is_digit_digit_char [simp]: "n < 10 \<Longrightarrow> is_digit (digit_char n)"
  by (simp add: is_digit_def)

lemma nat_repr_digits: "\<forall>c \<in> set (nat_repr n). is_digit c"
proof (induction n rule: nat_repr.induct)
  case (1 n)
  then show ?case by (cases "n < 10") (simp_all add: nat_repr.simps[of n])
qed

lemma nat_repr_nonempty [simp]: "nat_repr n \<noteq> []"
  by (simp add: nat_repr.simps[of n])

lemma digits_value_nat_repr [simp]: "digits_value (nat_repr n) = n"
proof (induction n rule: nat_repr.induct)
  case (1 n)
  show ?case
  proof (cases "n < 10")
    case True
    then show ?thesis by (simp add: nat_repr.simps[of n] digits_value_def)
  next
    case False
    with 1 have "digits_value (nat_repr (n div 10)) = n div 10" by simp
    with False show ?thesis by (simp add: nat_repr.simps[of n] digits_value_def)
  qed
qed

lemma hd_nat_repr_digit: "is_digit (hd (nat_repr n))"
  by (meson hd_in_set nat_repr_digits nat_repr_nonempty)

lemma nat_repr_prefix:
  assumes "nat_repr m @ r = nat_repr n @ r'"
    and "r = [] \<or> \<not> is_digit (hd r)" and "r' = [] \<or> \<not> is_digit (hd r')"
  shows "m = n \<and> r = r'"
proof -
  have tw: "takeWhile is_digit (nat_repr k @ t) = nat_repr k" if "t = [] \<or> \<not> is_digit (hd t)" for k t
    using that nat_repr_digits[of k] by (cases t) (auto simp: takeWhile_append2 takeWhile_append)
  from assms tw[of r m] tw[of r' n] have "nat_repr m = nat_repr n" by metis
  then have "m = n" by (metis digits_value_nat_repr)
  with assms(1) show ?thesis by simp
qed

lemma int_repr_prefix:
  assumes eq: "int_repr i @ r = int_repr j @ r'"
    and r: "r = [] \<or> \<not> is_digit (hd r)" and r': "r' = [] \<or> \<not> is_digit (hd r')"
  shows "i = j \<and> r = r'"
proof -
  have minus: "\<not> is_digit (CHR ''-'')" by (simp add: is_digit_def)
  have clash: "CHR ''-'' # x \<noteq> nat_repr k @ t" for x k t
    using hd_nat_repr_digit[of k] minus by (cases "nat_repr k") auto
  note clash' = clash[symmetric]
  show ?thesis
  proof (cases "i < 0 \<longleftrightarrow> j < 0")
    case True
    then have "nat_repr (nat \<bar>i\<bar>) @ r = nat_repr (nat \<bar>j\<bar>) @ r'"
      using eq by (auto simp: int_repr_def split: if_splits)
    from nat_repr_prefix[OF this r r'] True show ?thesis by auto
  next
    case False
    then show ?thesis
      using eq clash clash' by (auto simp: int_repr_def split: if_splits)
  qed
qed

lemma int_repr_nonempty [simp]: "int_repr i \<noteq> []"
  by (simp add: int_repr_def)

lemma int_repr_inject [simp]: "int_repr i = int_repr j \<longleftrightarrow> i = j"
  using int_repr_prefix[of i "[]" j "[]"] by auto

lemma hd_int_repr: "hd (int_repr i) = CHR ''-'' \<or> is_digit (hd (int_repr i))"
  by (simp add: int_repr_def hd_nat_repr_digit)

section \<open>Canonical text\<close>

text \<open>
  The encoder's string escapes: quote, backslash and the five named control characters by
  name, every other character outside the printable ASCII range as \<open>\u00xx\<close>.
\<close>

definition hex_char :: "nat \<Rightarrow> char" where
  "hex_char n = (if n < 10 then char_of (48 + n) else char_of (87 + n))"

definition hex_value :: "char \<Rightarrow> nat" where
  "hex_value c = (if (of_char c :: nat) < 58 then of_char c - 48 else of_char c - 87)"

definition esc_char :: "char \<Rightarrow> string" where
  "esc_char c =
     (if c = CHR 0x22 then [CHR 0x5C, CHR 0x22]
      else if c = CHR 0x5C then [CHR 0x5C, CHR 0x5C]
      else if c = CHR 0x08 then [CHR 0x5C, CHR ''b'']
      else if c = CHR 0x0C then [CHR 0x5C, CHR ''f'']
      else if c = CHR 0x0A then [CHR 0x5C, CHR ''n'']
      else if c = CHR 0x0D then [CHR 0x5C, CHR ''r'']
      else if c = CHR 0x09 then [CHR 0x5C, CHR ''t'']
      else if 32 \<le> (of_char c :: nat) \<and> (of_char c :: nat) \<le> 126 then [c]
      else [CHR 0x5C, CHR ''u'', CHR ''0'', CHR ''0'',
            hex_char (of_char c div 16), hex_char (of_char c mod 16)])"

fun unesc :: "string \<Rightarrow> (char \<times> string) option" where
  "unesc [] = None"
| "unesc (a # s) =
     (if a \<noteq> CHR 0x5C then Some (a, s)
      else case s of
        [] \<Rightarrow> None
      | b # t \<Rightarrow>
          if b = CHR ''b'' then Some (CHR 0x08, t)
          else if b = CHR ''f'' then Some (CHR 0x0C, t)
          else if b = CHR ''n'' then Some (CHR 0x0A, t)
          else if b = CHR ''r'' then Some (CHR 0x0D, t)
          else if b = CHR ''t'' then Some (CHR 0x09, t)
          else if b = CHR ''u'' then
            (case t of
               z1 # z2 # h # l # u \<Rightarrow> Some (char_of (16 * hex_value h + hex_value l), u)
             | _ \<Rightarrow> None)
          else Some (b, t))"

definition quote :: "string \<Rightarrow> string" where
  "quote s = CHR 0x22 # concat (map esc_char s) @ [CHR 0x22]"

fun join :: "string \<Rightarrow> string list \<Rightarrow> string" where
  "join sep [] = []"
| "join sep [x] = x"
| "join sep (x # y # xs) = x @ sep @ join sep (y # xs)"

fun json_text :: "json \<Rightarrow> string" where
  "json_text JNull = ''null''"
| "json_text (JBool b) = (if b then ''true'' else ''false'')"
| "json_text (JInt i) = int_repr i"
| "json_text (JStr s) = quote s"
| "json_text (JList xs) = ''['' @ join '','' (map json_text xs) @ '']''"
| "json_text (JObj d) =
     ''{'' @ join '','' (map (\<lambda>(k, v). quote k @ '':'' @ json_text v) d) @ ''}''"

text \<open>Sorting the keys at every level; \<open>json_dumps\<close> is \<open>json.dumps\<close> with \<open>sort_keys\<close>.\<close>

fun json_canon :: "json \<Rightarrow> json" where
  "json_canon (JList xs) = JList (map json_canon xs)"
| "json_canon (JObj d) = JObj (sort_key fst (map (\<lambda>(k, v). (k, json_canon v)) d))"
| "json_canon v = v"

definition json_dumps :: "json \<Rightarrow> string" where
  "json_dumps v = json_text (json_canon v)"

subsection \<open>The text determines the value\<close>

lemma hex_value_hex_char [simp]: "n < 16 \<Longrightarrow> hex_value (hex_char n) = n"
  by (simp add: hex_value_def hex_char_def of_char_of)

lemma unesc_esc_char [simp]: "unesc (esc_char c @ s) = Some (c, s)"
proof -
  have "(of_char c :: nat) div 16 < 16" by (simp add: less_mult_imp_div_less)
  then show ?thesis by (simp add: esc_char_def)
qed

lemma esc_char_nonempty [simp]: "esc_char c \<noteq> []"
  by (simp add: esc_char_def)

lemma hd_esc_char [simp]: "hd (esc_char c) \<noteq> CHR 0x22"
  by (auto simp: esc_char_def)

lemma esc_char_not_quote: "esc_char c @ s \<noteq> CHR 0x22 # t"
  using hd_esc_char[of c] by (cases "esc_char c") auto

lemma concat_esc_prefix:
  "concat (map esc_char s) @ CHR 0x22 # r = concat (map esc_char t) @ CHR 0x22 # r' \<Longrightarrow> s = t \<and> r = r'"
proof (induction s arbitrary: t)
  case Nil
  then show ?case by (cases t) (auto dest: sym simp: esc_char_not_quote esc_char_not_quote[symmetric])
next
  case (Cons c s)
  show ?case
  proof (cases t)
    case Nil
    with Cons.prems show ?thesis by (simp add: esc_char_not_quote)
  next
    case (Cons d u)
    let ?a = "concat (map esc_char s) @ CHR 0x22 # r"
    let ?b = "concat (map esc_char u) @ CHR 0x22 # r'"
    have "esc_char c @ ?a = esc_char d @ ?b" using Cons.prems Cons by simp
    then have "unesc (esc_char c @ ?a) = unesc (esc_char d @ ?b)" by (rule arg_cong)
    then have "c = d" and "?a = ?b" by simp_all
    with Cons.IH Cons show ?thesis by blast
  qed
qed

lemma quote_prefix: "quote s @ r = quote t @ r' \<Longrightarrow> s = t \<and> r = r'"
  using concat_esc_prefix[of s r t r'] by (simp add: quote_def)

text \<open>What may follow a value inside a larger text.\<close>

definition stops :: "string \<Rightarrow> bool" where
  "stops r \<longleftrightarrow> r = [] \<or> hd r \<in> {CHR '','', CHR '']'', CHR ''}''}"

lemma stops_simps [simp]: "stops []" "stops (CHR '','' # r)" "stops (CHR '']'' # r)" "stops (CHR ''}'' # r)"
  by (simp_all add: stops_def)

lemma stops_not_digit: "stops r \<Longrightarrow> r = [] \<or> \<not> is_digit (hd r)"
  by (auto simp: stops_def is_digit_def)

definition prefix_free :: "('a \<Rightarrow> string) \<Rightarrow> 'a \<Rightarrow> bool" where
  "prefix_free e x \<longleftrightarrow>
     (\<forall>y r r'. stops r \<longrightarrow> stops r' \<longrightarrow> e x @ r = e y @ r' \<longrightarrow> x = y \<and> r = r')"

lemma prefix_freeD:
  "prefix_free e x \<Longrightarrow> e x @ r = e y @ r' \<Longrightarrow> stops r \<Longrightarrow> stops r' \<Longrightarrow> x = y \<and> r = r'"
  by (simp add: prefix_free_def)

lemma join_Cons: "join sep (x # xs) = x @ concat (map (\<lambda>y. sep @ y) xs)"
  by (induction xs arbitrary: x) auto

lemma join_tail_prefix:
  assumes "c \<in> {CHR '']'', CHR ''}''}" and "\<And>x. x \<in> set xs \<Longrightarrow> prefix_free e x"
    and "concat (map (\<lambda>x. '','' @ e x) xs) @ c # r = concat (map (\<lambda>x. '','' @ e x) ys) @ c # r'"
  shows "xs = ys \<and> r = r'"
  using assms(2,3)
proof (induction xs arbitrary: ys)
  case Nil
  with assms(1) show ?case by (cases ys) auto
next
  case (Cons x xs)
  have st: "stops (concat (map (\<lambda>x. '','' @ e x) zs) @ c # q)" for zs q
    using assms(1) by (cases zs) auto
  show ?case
  proof (cases ys)
    case Nil
    with Cons.prems assms(1) show ?thesis by auto
  next
    case ys: (Cons y zs)
    have a: "e x @ (concat (map (\<lambda>x. '','' @ e x) xs) @ c # r) =
          e y @ (concat (map (\<lambda>x. '','' @ e x) zs) @ c # r')"
      using Cons.prems(2) ys by simp
    have p: "prefix_free e x" using Cons.prems(1) by simp
    from prefix_freeD[OF p a st st] have "x = y"
      and "concat (map (\<lambda>x. '','' @ e x) xs) @ c # r = concat (map (\<lambda>x. '','' @ e x) zs) @ c # r'"
      by simp_all
    with Cons.IH[of zs] Cons.prems(1) ys show ?thesis by simp
  qed
qed

lemma join_prefix:
  assumes c: "c \<in> {CHR '']'', CHR ''}''}" and pf: "\<And>x. x \<in> set xs \<Longrightarrow> prefix_free e x"
    and ne: "\<And>x. e x \<noteq> [] \<and> hd (e x) \<noteq> c"
    and eq: "join '','' (map e xs) @ c # r = join '','' (map e ys) @ c # r'"
  shows "xs = ys \<and> r = r'"
proof -
  have clash: "e x @ t \<noteq> c # q" for x t q
    using ne[of x] by (cases "e x") auto
  have st: "stops (concat (map (\<lambda>x. '','' @ e x) zs) @ c # q)" for zs q
    using c by (cases zs) auto
  show ?thesis
  proof (cases xs; cases ys)
    fix x xs' y ys'
    assume xs: "xs = x # xs'" and ys: "ys = y # ys'"
    have a: "e x @ (concat (map (\<lambda>x. '','' @ e x) xs') @ c # r) =
          e y @ (concat (map (\<lambda>x. '','' @ e x) ys') @ c # r')"
      using eq xs ys by (simp add: join_Cons comp_def)
    have p: "prefix_free e x" using pf xs by simp
    from prefix_freeD[OF p a st st] have "x = y"
      and "concat (map (\<lambda>x. '','' @ e x) xs') @ c # r = concat (map (\<lambda>x. '','' @ e x) ys') @ c # r'"
      by simp_all
    with join_tail_prefix[OF c, of xs' e r ys' r'] pf xs ys show ?thesis by simp
  next
    assume "xs = []" "ys = []"
    with eq show ?thesis by simp
  next
    fix y ys'
    assume "xs = []" "ys = y # ys'"
    with eq clash show ?thesis by (simp add: join_Cons) metis
  next
    fix x xs'
    assume "xs = x # xs'" "ys = []"
    with eq clash show ?thesis by (simp add: join_Cons)
  qed
qed

text \<open>The first character of a text tells the constructor.\<close>

fun lead_ok :: "json \<Rightarrow> char \<Rightarrow> bool" where
  "lead_ok JNull c = (c = CHR ''n'')"
| "lead_ok (JBool b) c = (c = (if b then CHR ''t'' else CHR ''f''))"
| "lead_ok (JInt i) c = (c = CHR ''-'' \<or> is_digit c)"
| "lead_ok (JStr s) c = (c = CHR 0x22)"
| "lead_ok (JList xs) c = (c = CHR ''['')"
| "lead_ok (JObj d) c = (c = CHR ''{'')"

lemma json_text_nonempty [simp]: "json_text v \<noteq> []"
  by (cases v) (simp_all add: quote_def)

lemma json_text_lead: "lead_ok v (hd (json_text v))"
  using hd_int_repr by (cases v) (simp_all add: quote_def)

lemma json_text_clash:
  assumes "json_text v @ r = json_text w @ r'"
  shows "\<exists>c. lead_ok v c \<and> lead_ok w c"
proof -
  have "hd (json_text v) = hd (json_text w)"
    using assms by (metis hd_append2 json_text_nonempty)
  then show ?thesis using json_text_lead by metis
qed

lemma json_text_hd: "hd (json_text v) \<noteq> CHR '']'' \<and> hd (json_text v) \<noteq> CHR ''}''"
  using json_text_lead[of v] by (cases v) (auto simp: is_digit_def)

lemma prefix_free_pair:
  assumes "prefix_free json_text v"
  shows "prefix_free (\<lambda>(k, v). quote k @ '':'' @ json_text v) (k, v)"
  unfolding prefix_free_def
proof (intro allI impI)
  fix y :: "string \<times> json" and r r'
  obtain k' v' where y: "y = (k', v')" by (cases y)
  assume st: "stops r" "stops r'"
    and "(case (k, v) of (k, v) \<Rightarrow> quote k @ '':'' @ json_text v) @ r =
         (case y of (k, v) \<Rightarrow> quote k @ '':'' @ json_text v) @ r'"
  then have "quote k @ ('':'' @ json_text v @ r) = quote k' @ ('':'' @ json_text v' @ r')"
    by (simp add: y)
  then have "k = k'" and "json_text v @ r = json_text v' @ r'"
    by (auto dest: quote_prefix)
  with assms st y show "(k, v) = y \<and> r = r'" by (auto simp: prefix_free_def)
qed

lemma lead_same:
  assumes "lead_ok v c" and "lead_ok w c"
  shows "(v = JNull \<longrightarrow> w = JNull) \<and> (\<forall>b. v = JBool b \<longrightarrow> w = JBool b) \<and>
         (\<forall>i. v = JInt i \<longrightarrow> (\<exists>j. w = JInt j)) \<and> (\<forall>s. v = JStr s \<longrightarrow> (\<exists>t. w = JStr t)) \<and>
         (\<forall>xs. v = JList xs \<longrightarrow> (\<exists>ys. w = JList ys)) \<and> (\<forall>d. v = JObj d \<longrightarrow> (\<exists>e. w = JObj e))"
  using assms by (cases v; cases w) (auto simp: is_digit_def split: if_splits)

lemma prefix_free_json_textI:
  assumes "\<And>w r r'. (\<exists>c. lead_ok v c \<and> lead_ok w c) \<Longrightarrow> stops r \<Longrightarrow> stops r' \<Longrightarrow>
             json_text v @ r = json_text w @ r' \<Longrightarrow> v = w \<and> r = r'"
  shows "prefix_free json_text v"
  using assms json_text_clash by (auto simp: prefix_free_def)

lemma json_text_prefix_free: "prefix_free json_text v"
proof (induction v)
  case JNull
  have "w = JNull" if "\<exists>c. lead_ok JNull c \<and> lead_ok w c" for w
    using that lead_same by blast
  then show ?case by (fastforce intro: prefix_free_json_textI)
next
  case (JBool b)
  have "w = JBool b" if "\<exists>c. lead_ok (JBool b) c \<and> lead_ok w c" for w
    using that lead_same by blast
  then show ?case by (fastforce intro: prefix_free_json_textI)
next
  case (JInt i)
  show ?case
  proof (rule prefix_free_json_textI)
    fix w r r'
    assume st: "stops r" "stops r'" and eq: "json_text (JInt i) @ r = json_text w @ r'"
    assume "\<exists>c. lead_ok (JInt i) c \<and> lead_ok w c"
    then obtain j where "w = JInt j" using lead_same by blast
    with eq int_repr_prefix[of i r j r'] st show "JInt i = w \<and> r = r'"
      by (simp add: stops_not_digit)
  qed
next
  case (JStr s)
  show ?case
  proof (rule prefix_free_json_textI)
    fix w r r'
    assume eq: "json_text (JStr s) @ r = json_text w @ r'"
    assume "\<exists>c. lead_ok (JStr s) c \<and> lead_ok w c"
    then obtain t where "w = JStr t" using lead_same by blast
    with eq quote_prefix[of s r t r'] show "JStr s = w \<and> r = r'" by simp
  qed
next
  case (JList xs)
  show ?case
  proof (rule prefix_free_json_textI)
    fix w r r'
    assume eq: "json_text (JList xs) @ r = json_text w @ r'"
    assume "\<exists>c. lead_ok (JList xs) c \<and> lead_ok w c"
    then obtain ys where w: "w = JList ys" using lead_same by blast
    have "xs = ys \<and> r = r'"
      using eq w json_text_hd JList.IH
      by (intro join_prefix[where e = json_text and c = "CHR '']''"]) simp_all
    with w show "JList xs = w \<and> r = r'" by simp
  qed
next
  case (JObj d)
  let ?e = "\<lambda>(k, v). quote k @ '':'' @ json_text v"
  show ?case
  proof (rule prefix_free_json_textI)
    fix w r r'
    assume eq: "json_text (JObj d) @ r = json_text w @ r'"
    assume "\<exists>c. lead_ok (JObj d) c \<and> lead_ok w c"
    then obtain e where w: "w = JObj e" using lead_same by blast
    have pf: "prefix_free ?e x" if "x \<in> set d" for x
    proof -
      obtain k v where x: "x = (k, v)" by (cases x)
      with JObj.IH[OF that, of v] have "prefix_free json_text v" by simp
      then show ?thesis unfolding x by (rule prefix_free_pair)
    qed
    have ne: "?e x \<noteq> [] \<and> hd (?e x) \<noteq> CHR ''}''" for x
      by (cases x) (simp add: quote_def)
    have "join '','' (map ?e d) @ CHR ''}'' # r = join '','' (map ?e e) @ CHR ''}'' # r'"
      using eq w by simp
    from join_prefix[OF _ pf ne this] w show "JObj d = w \<and> r = r'" by simp
  qed
qed

lemma json_text_inject: "json_text v = json_text w \<longleftrightarrow> v = w"
proof
  assume "json_text v = json_text w"
  then have "json_text v @ [] = json_text w @ []" by simp
  with json_text_prefix_free[of v] stops_simps(1) show "v = w"
    unfolding prefix_free_def by blast
qed simp

lemma json_dumps_inject: "json_dumps v = json_dumps w \<longleftrightarrow> json_canon v = json_canon w"
  by (simp add: json_dumps_def json_text_inject)

text \<open>Sorting keys loses nothing of an object but their order.\<close>

lemma map_of_canon:
  assumes "distinct (map fst d)"
  shows "map_of (sort_key fst (map (\<lambda>(k, v). (k, f v)) d)) k = map_option f (map_of d k)"
proof -
  let ?d' = "map (\<lambda>(k, v). (k, f v)) d"
  have fst': "map fst ?d' = map fst d" by (induction d) auto
  have "distinct (map fst (sort_key fst ?d'))"
    using assms fst' by (metis distinct_map distinct_sort set_sort)
  moreover have "set (sort_key fst ?d') = set ?d'" by simp
  ultimately have "map_of (sort_key fst ?d') = map_of ?d'"
    using assms fst' by (metis map_of_inject_set)
  moreover have "map_of ?d' k = map_option f (map_of d k)" by (induction d) auto
  ultimately show ?thesis by simp
qed

lemma json_canon_obj_lookup:
  assumes "json_canon (JObj d) = json_canon (JObj e)" and "json_wf (JObj d)" and "json_wf (JObj e)"
  shows "map_option json_canon (map_of d k) = map_option json_canon (map_of e k)"
proof -
  from assms(1) have "sort_key fst (map (\<lambda>(k, v). (k, json_canon v)) d) =
      sort_key fst (map (\<lambda>(k, v). (k, json_canon v)) e)" by simp
  with map_of_canon[of d json_canon k] map_of_canon[of e json_canon k] assms(2,3) show ?thesis
    by simp
qed

end
