(* ===== verification/Ledger.thy ===== *)
theory Ledger
  imports Store Json
begin

text \<open>
  The operations ledger (\<open>ledger/models.py\<close>, \<open>ledger/service.py\<close>): an append-only list of
  events. The database gives each event its \<open>sequence\<close>; the surrogate \<open>id\<close> and
  \<open>created_at\<close> columns, which no code reads, are left out.
\<close>

datatype ledger_event_type =
    MISSION_CREATED
  | MISSION_STATUS_CHANGED
  | ACTION_PROPOSED
  | PERMISSION_CHECKED
  | RISK_CHECKED
  | APPROVAL_RECORDED
  | TOOL_EXECUTED
  | RESULT_RECORDED

record ledger_event =
  ev_sequence :: nat
  ev_mission :: string
  ev_agent :: "string option"
  ev_type :: ledger_event_type
  ev_summary :: string
  ev_data :: dict

record ledger_db =
  ledger :: "ledger_event list"

definition next_sequence :: "ledger_event list \<Rightarrow> nat" where
  "next_sequence evs = Suc (fold (\<lambda>e n. max (ev_sequence e) n) evs 0)"

definition add_to_session ::
  "string \<Rightarrow> string option \<Rightarrow> ledger_event_type \<Rightarrow> string \<Rightarrow> dict \<Rightarrow>
   'a ledger_db_scheme \<Rightarrow> 'a ledger_db_scheme" where
  "add_to_session mission agent ty summary data s =
     s\<lparr>ledger := ledger s @
         [\<lparr>ev_sequence = next_sequence (ledger s), ev_mission = mission, ev_agent = agent,
           ev_type = ty, ev_summary = summary, ev_data = data\<rparr>]\<rparr>"

definition record_event ::
  "string \<Rightarrow> string option \<Rightarrow> ledger_event_type \<Rightarrow> string \<Rightarrow> dict \<Rightarrow>
   ('a ledger_db_scheme, ledger_event) op" where
  "record_event mission agent ty summary data s =
     (let s1 = add_to_session mission agent ty summary data s
      in (Inr (last (ledger s1)), s1))"

definition for_mission :: "string \<Rightarrow> 'a ledger_db_scheme \<Rightarrow> ledger_event list" where
  "for_mission mission s =
     sort_key ev_sequence (filter (\<lambda>e. ev_mission e = mission) (ledger s))"

section \<open>Sequences\<close>

lemma fold_max_ge:
  "(n::nat) \<le> fold (\<lambda>e n. max (ev_sequence e) n) evs n \<and>
   (\<forall>e \<in> set evs. ev_sequence e \<le> fold (\<lambda>e n. max (ev_sequence e) n) evs n)"
proof (induction evs arbitrary: n)
  case Nil
  then show ?case by simp
next
  case (Cons a evs)
  from Cons[of "max (ev_sequence a) n"] show ?case by auto
qed

lemma next_sequence_fresh: "e \<in> set evs \<Longrightarrow> ev_sequence e < next_sequence evs"
  using fold_max_ge[of 0 evs] by (auto simp: next_sequence_def le_imp_less_Suc)

definition ledger_ordered :: "'a ledger_db_scheme \<Rightarrow> bool" where
  "ledger_ordered s \<longleftrightarrow> sorted_wrt (<) (map ev_sequence (ledger s))"

lemma add_to_session_ordered:
  "ledger_ordered s \<Longrightarrow> ledger_ordered (add_to_session m a t u d s)"
  using next_sequence_fresh
  by (auto simp: ledger_ordered_def add_to_session_def sorted_wrt_append)

lemma ledger_ordered_sorted:
  assumes "ledger_ordered s"
  shows "sorted (map ev_sequence (filter P (ledger s)))"
proof -
  have "sorted_wrt (<) (map ev_sequence (filter P (ledger s)))"
    using assms unfolding ledger_ordered_def sorted_wrt_map by (rule sorted_wrt_filter)
  then show ?thesis by (rule strict_sorted_imp_sorted)
qed

lemma for_mission_ordered:
  "ledger_ordered s \<Longrightarrow> for_mission m s = filter (\<lambda>e. ev_mission e = m) (ledger s)"
  by (simp add: for_mission_def sort_key_id_if_sorted ledger_ordered_sorted)

text \<open>Recording appends exactly one event, visible at the end of its mission's history.\<close>

lemma for_mission_add_to_session:
  assumes "ledger_ordered s"
  shows "for_mission m (add_to_session m' a t u d s) =
         for_mission m s @
           (if m' = m
            then [\<lparr>ev_sequence = next_sequence (ledger s), ev_mission = m, ev_agent = a,
                   ev_type = t, ev_summary = u, ev_data = d\<rparr>] else [])"
proof -
  have "ledger_ordered (add_to_session m' a t u d s)"
    using assms by (rule add_to_session_ordered)
  with assms show ?thesis
    by (simp add: for_mission_ordered) (simp add: add_to_session_def)
qed

lemma record_event_snd [simp]: "snd (record_event m a t u d s) = add_to_session m a t u d s"
  by (simp add: record_event_def Let_def)

lemma record_event_eq: "\<exists>e. record_event m a t u d s = (Inr e, add_to_session m a t u d s)"
  by (simp add: record_event_def Let_def)

text \<open>The ledger only ever grows.\<close>

definition ledger_grows :: "'a ledger_db_scheme \<Rightarrow> 'a ledger_db_scheme \<Rightarrow> bool" where
  "ledger_grows s t \<longleftrightarrow> (\<exists>evs. ledger t = ledger s @ evs)"

lemma ledger_grows_refl [simp]: "reflp ledger_grows"
  by (simp add: reflp_def ledger_grows_def)

lemma ledger_grows_trans [simp]: "transp ledger_grows"
  by (auto simp: transp_def ledger_grows_def)

lemma ledger_grows_add: "ledger_grows s (add_to_session m a t u d s)"
  by (simp add: ledger_grows_def add_to_session_def)

lemma keeps_grows_bindE [keeps_intros]:
  "keeps ledger_grows m \<Longrightarrow> (\<And>x. keeps ledger_grows (f x)) \<Longrightarrow> keeps ledger_grows (bindE m f)"
  by (rule keeps_bindE) simp_all

lemma keeps_grows_basic [keeps_intros]:
  "keeps ledger_grows (returnE x)" "keeps ledger_grows (raiseE e)"
  "keeps ledger_grows (readE h)" "keeps ledger_grows (liftE r)"
  by (simp_all add: keeps_returnE keeps_raiseE keeps_readE keeps_liftE)

lemma keeps_grows_record [keeps_intros]: "keeps ledger_grows (record_event m a t u d)"
  by (simp add: keeps_def ledger_grows_add)

end
