(* ===== verification/Missions.thy ===== *)
theory Missions
  imports Ledger
begin

text \<open>
  Missions and their step plans (\<open>missions/models.py\<close> and \<open>MissionService\<close> of
  \<open>missions/service.py\<close>). Every operation is one database transaction: it reads the tables,
  raises, or commits. Identifiers and the creation time are arguments, as the code takes them
  from \<open>uuid4\<close> and the database clock.
\<close>

section \<open>Data\<close>

datatype mission_status =
  QUEUED | RUNNING | WAITING_APPROVAL | PAUSED | COMPLETED | FAILED | CANCELLED

datatype step_status =
  STEP_PENDING | STEP_RUNNING | STEP_WAITING_APPROVAL | STEP_SUCCEEDED | STEP_FAILED

datatype mission_priority = PRIO_LOW | PRIO_NORMAL | PRIO_HIGH | PRIO_CRITICAL

datatype mission_risk = GREEN | BLUE | AMBER | RED

fun status_value :: "mission_status \<Rightarrow> string" where
  "status_value QUEUED = ''QUEUED''"
| "status_value RUNNING = ''RUNNING''"
| "status_value WAITING_APPROVAL = ''WAITING_APPROVAL''"
| "status_value PAUSED = ''PAUSED''"
| "status_value COMPLETED = ''COMPLETED''"
| "status_value FAILED = ''FAILED''"
| "status_value CANCELLED = ''CANCELLED''"

fun step_status_value :: "step_status \<Rightarrow> string" where
  "step_status_value STEP_PENDING = ''PENDING''"
| "step_status_value STEP_RUNNING = ''RUNNING''"
| "step_status_value STEP_WAITING_APPROVAL = ''WAITING_APPROVAL''"
| "step_status_value STEP_SUCCEEDED = ''SUCCEEDED''"
| "step_status_value STEP_FAILED = ''FAILED''"

fun priority_value :: "mission_priority \<Rightarrow> string" where
  "priority_value PRIO_LOW = ''low''"
| "priority_value PRIO_NORMAL = ''normal''"
| "priority_value PRIO_HIGH = ''high''"
| "priority_value PRIO_CRITICAL = ''critical''"

fun risk_value :: "mission_risk \<Rightarrow> string" where
  "risk_value GREEN = ''green''"
| "risk_value BLUE = ''blue''"
| "risk_value AMBER = ''amber''"
| "risk_value RED = ''red''"

record mission =
  m_id :: string
  m_title :: string
  m_description :: string
  m_owner_agent :: string
  m_source :: string
  m_priority :: mission_priority
  m_risk :: mission_risk
  m_status :: mission_status
  m_objectives :: "json list"
  m_dependencies :: "json list"
  m_result :: "dict option"
  m_error_state :: "dict option"
  m_approval_references :: "json list"
  m_tool_execution_references :: "json list"
  m_xp_reward :: int
  m_lease_owner :: "string option"
  m_lease_expires_at :: "stamp option"
  m_attempt_count :: int
  m_created_at :: int

record mission_step =
  st_id :: string
  st_mission :: string
  st_position :: nat
  st_description :: string
  st_tool_name :: string
  st_tool_arguments :: dict
  st_status :: step_status
  st_result :: "dict option"
  st_error_state :: "dict option"
  st_approval_reference :: "string option"

record missions_db = ledger_db +
  missions :: "mission list"
  mission_steps :: "mission_step list"

abbreviation step_order :: "mission_step \<Rightarrow> nat \<times> string" where
  "step_order st \<equiv> (st_position st, st_id st)"

section \<open>Transition tables\<close>

fun allowed_transitions :: "mission_status \<Rightarrow> mission_status set" where
  "allowed_transitions QUEUED = {RUNNING, PAUSED, CANCELLED, FAILED}"
| "allowed_transitions RUNNING = {WAITING_APPROVAL, PAUSED, COMPLETED, FAILED, CANCELLED}"
| "allowed_transitions WAITING_APPROVAL = {RUNNING, PAUSED, CANCELLED, FAILED}"
| "allowed_transitions PAUSED = {QUEUED, RUNNING, CANCELLED, FAILED}"
| "allowed_transitions COMPLETED = {}"
| "allowed_transitions FAILED = {}"
| "allowed_transitions CANCELLED = {}"

fun allowed_step_transitions :: "step_status \<Rightarrow> step_status set" where
  "allowed_step_transitions STEP_PENDING = {STEP_RUNNING}"
| "allowed_step_transitions STEP_RUNNING = {STEP_WAITING_APPROVAL, STEP_SUCCEEDED, STEP_FAILED}"
| "allowed_step_transitions STEP_WAITING_APPROVAL = {STEP_RUNNING, STEP_FAILED}"
| "allowed_step_transitions STEP_SUCCEEDED = {}"
| "allowed_step_transitions STEP_FAILED = {}"

section \<open>Creating missions and plans\<close>

record new_mission =
  nm_title :: string
  nm_description :: string
  nm_owner_agent :: string
  nm_source :: string
  nm_priority :: mission_priority
  nm_risk :: mission_risk
  nm_objectives :: "json list option"
  nm_dependencies :: "json list option"
  nm_xp_reward :: int

definition list_or_empty :: "'a list option \<Rightarrow> 'a list" where
  "list_or_empty v = (case v of None \<Rightarrow> [] | Some xs \<Rightarrow> xs)"

definition mission_row :: "string \<Rightarrow> int \<Rightarrow> new_mission \<Rightarrow> mission" where
  "mission_row new_id created n =
     \<lparr>m_id = new_id, m_title = nm_title n, m_description = nm_description n,
      m_owner_agent = nm_owner_agent n, m_source = nm_source n, m_priority = nm_priority n,
      m_risk = nm_risk n, m_status = QUEUED, m_objectives = list_or_empty (nm_objectives n),
      m_dependencies = list_or_empty (nm_dependencies n), m_result = None, m_error_state = None,
      m_approval_references = [], m_tool_execution_references = [],
      m_xp_reward = nm_xp_reward n, m_lease_owner = None, m_lease_expires_at = None,
      m_attempt_count = 0, m_created_at = created\<rparr>"

definition create_mission ::
  "bool \<Rightarrow> string \<Rightarrow> int \<Rightarrow> new_mission \<Rightarrow> ('a missions_db_scheme, mission) op" where
  "create_mission has_ledger new_id created n s =
     (let m = mission_row new_id created n in
      case insert_row m_id m (missions s) of
        Inl e \<Rightarrow> (Inl e, s)
      | Inr rows \<Rightarrow>
          let s1 = s\<lparr>missions := rows\<rparr>;
              s2 = (if has_ledger
                    then add_to_session (m_id m) (Some (m_owner_agent m)) MISSION_CREATED
                           ''Mission created''
                           [(''source'', JStr (m_source m)),
                            (''priority'', JStr (priority_value (m_priority m))),
                            (''risk'', JStr (risk_value (m_risk m))),
                            (''status'', JStr (status_value (m_status m)))] s1
                    else s1)
          in (Inr m, s2))"

text \<open>A plan entry is a dict: \<open>None\<close> stands for a key that is absent.\<close>

record plan_entry =
  pe_description :: "string option"
  pe_tool_name :: "string option"
  pe_tool_arguments :: "dict option"

fun check_registered :: "(string \<Rightarrow> exn + bool) \<Rightarrow> plan_entry list \<Rightarrow> exn + unit" where
  "check_registered resolve [] = Inr ()"
| "check_registered resolve (e # es) =
     (case pe_tool_name e of
        None \<Rightarrow> Inl (KeyError ''tool_name'')
      | Some tool \<Rightarrow>
          (case resolve tool of
             Inl (KeyError _) \<Rightarrow> Inl (ValueError (''unregistered mission tool: '' @ tool))
           | Inl (ValueError _) \<Rightarrow> Inl (ValueError (''unregistered mission tool: '' @ tool))
           | Inl x \<Rightarrow> Inl x
           | Inr False \<Rightarrow> Inl (ValueError (''unregistered mission tool: '' @ tool))
           | Inr True \<Rightarrow> check_registered resolve es))"

fun plan_rows :: "string \<Rightarrow> (nat \<Rightarrow> string) \<Rightarrow> nat \<Rightarrow> plan_entry list \<Rightarrow> exn + mission_step list" where
  "plan_rows mid new_ids position [] = Inr []"
| "plan_rows mid new_ids position (e # es) =
     (case (pe_description e, pe_tool_name e) of
        (None, _) \<Rightarrow> Inl (KeyError ''description'')
      | (Some d, None) \<Rightarrow> Inl (KeyError ''tool_name'')
      | (Some d, Some t) \<Rightarrow>
          (case plan_rows mid new_ids (Suc position) es of
             Inl x \<Rightarrow> Inl x
           | Inr rows \<Rightarrow>
               Inr (\<lparr>st_id = new_ids position, st_mission = mid, st_position = position,
                     st_description = d, st_tool_name = t,
                     st_tool_arguments = (case pe_tool_arguments e of None \<Rightarrow> [] | Some a \<Rightarrow> a),
                     st_status = STEP_PENDING, st_result = None, st_error_state = None,
                     st_approval_reference = None\<rparr> # rows)))"

fun insert_rows :: "('r \<Rightarrow> 'k) \<Rightarrow> 'r list \<Rightarrow> 'r list \<Rightarrow> exn + 'r list" where
  "insert_rows key [] rows = Inr rows"
| "insert_rows key (r # rs) rows =
     (case insert_row key r rows of Inl e \<Rightarrow> Inl e | Inr rows' \<Rightarrow> insert_rows key rs rows')"

definition create_plan ::
  "(string \<Rightarrow> exn + bool) option \<Rightarrow> (nat \<Rightarrow> string) \<Rightarrow> string \<Rightarrow> plan_entry list \<Rightarrow>
   ('a missions_db_scheme, mission_step list) op" where
  "create_plan registry new_ids mid entries s =
     (if entries = [] then (Inl (ValueError ''mission plan requires at least one step''), s)
      else case (case registry of None \<Rightarrow> Inr () | Some resolve \<Rightarrow> check_registered resolve entries) of
        Inl e \<Rightarrow> (Inl e, s)
      | Inr _ \<Rightarrow>
          if row_of m_id mid (missions s) = None
          then (Inl (KeyError (''mission not found: '' @ mid)), s)
          else if \<exists>st \<in> set (mission_steps s). st_mission st = mid
          then (Inl (ValueError ''mission already has a plan''), s)
          else case plan_rows mid new_ids 1 entries of
            Inl e \<Rightarrow> (Inl e, s)
          | Inr rows \<Rightarrow>
              (case insert_rows st_id rows (mission_steps s) of
                 Inl e \<Rightarrow> (Inl e, s)
               | Inr table \<Rightarrow> (Inr rows, s\<lparr>mission_steps := table\<rparr>)))"

section \<open>Queries\<close>

definition get_mission :: "string \<Rightarrow> ('a missions_db_scheme, mission) op" where
  "get_mission mid s =
     (case row_of m_id mid (missions s) of
        None \<Rightarrow> (Inl (KeyError (''mission not found: '' @ mid)), s)
      | Some m \<Rightarrow> (Inr m, s))"

definition plan_of :: "string \<Rightarrow> mission_step list \<Rightarrow> mission_step list" where
  "plan_of mid steps = sort_key step_order (filter (\<lambda>st. st_mission st = mid) steps)"

definition list_plan_steps :: "string \<Rightarrow> ('a missions_db_scheme, mission_step list) op" where
  "list_plan_steps mid = bindE (get_mission mid) (\<lambda>_. readE (\<lambda>s. plan_of mid (mission_steps s)))"

definition next_pending_step :: "string \<Rightarrow> ('a missions_db_scheme, mission_step option) op" where
  "next_pending_step mid =
     bindE (get_mission mid) (\<lambda>_. readE (\<lambda>s.
       first_by step_order
         (filter (\<lambda>st. st_mission st = mid \<and> st_status st = STEP_PENDING) (mission_steps s))))"

definition waiting_approval_step :: "string \<Rightarrow> ('a missions_db_scheme, mission_step option) op" where
  "waiting_approval_step mid =
     bindE (get_mission mid) (\<lambda>_. readE (\<lambda>s.
       first_by step_order
         (filter (\<lambda>st. st_mission st = mid \<and> st_status st = STEP_WAITING_APPROVAL) (mission_steps s))))"

definition plan_is_complete :: "string \<Rightarrow> ('a missions_db_scheme, bool) op" where
  "plan_is_complete mid =
     bindE (list_plan_steps mid) (\<lambda>steps.
       returnE (steps \<noteq> [] \<and> (\<forall>st \<in> set steps. st_status st = STEP_SUCCEEDED)))"

definition list_missions :: "'a missions_db_scheme \<Rightarrow> mission list" where
  "list_missions s = sort_key (\<lambda>m. (m_created_at m, m_id m)) (missions s)"

definition oldest_queued :: "'a missions_db_scheme \<Rightarrow> mission option" where
  "oldest_queued s =
     first_by (\<lambda>m. (m_created_at m, m_id m)) (filter (\<lambda>m. m_status m = QUEUED) (missions s))"

section \<open>Claiming and moving steps\<close>

text \<open>The two statements of a claim: the selection, and the conditional update.\<close>

definition first_incomplete :: "string \<Rightarrow> 'a missions_db_scheme \<Rightarrow> mission_step option" where
  "first_incomplete mid s =
     first_by step_order
       (filter (\<lambda>st. st_mission st = mid \<and> st_status st \<noteq> STEP_SUCCEEDED) (mission_steps s))"

definition claim_step_row :: "string \<Rightarrow> ('a missions_db_scheme, mission_step option) op" where
  "claim_step_row sid s =
     (let P = (\<lambda>st. st_id st = sid \<and> st_status st = STEP_PENDING) in
      if rowcount P (mission_steps s) \<noteq> 1 then (Inr None, s)
      else let steps = update_where P (\<lambda>st. st\<lparr>st_status := STEP_RUNNING\<rparr>) (mission_steps s)
           in (Inr (row_of st_id sid steps), s\<lparr>mission_steps := steps\<rparr>))"

definition claim_next_pending_step :: "string \<Rightarrow> ('a missions_db_scheme, mission_step option) op" where
  "claim_next_pending_step mid s =
     (case first_incomplete mid s of
        None \<Rightarrow> (Inr None, s)
      | Some st \<Rightarrow> claim_step_row (st_id st) s)"

definition transition_step ::
  "string \<Rightarrow> step_status \<Rightarrow> dict option \<Rightarrow> dict option \<Rightarrow> string option \<Rightarrow>
   ('a missions_db_scheme, mission_step) op" where
  "transition_step sid target result error_state approval_reference s =
     (case row_of st_id sid (mission_steps s) of
        None \<Rightarrow> (Inl (KeyError (''mission step not found: '' @ sid)), s)
      | Some st \<Rightarrow>
          if target \<notin> allowed_step_transitions (st_status st)
          then (Inl (ValueError (''invalid mission step transition: '' @
                  step_status_value (st_status st) @ '' -> '' @ step_status_value target)), s)
          else let st' = st\<lparr>st_status := target,
                            st_result := override result (st_result st),
                            st_error_state := override error_state (st_error_state st),
                            st_approval_reference :=
                              override approval_reference (st_approval_reference st)\<rparr>
               in (Inr st', s\<lparr>mission_steps := save_row st_id st' (mission_steps s)\<rparr>))"

section \<open>Moving missions\<close>

definition transition ::
  "bool \<Rightarrow> string \<Rightarrow> mission_status \<Rightarrow> dict option \<Rightarrow> dict option \<Rightarrow>
   ('a missions_db_scheme, mission) op" where
  "transition has_ledger mid target result error_state s =
     (case row_of m_id mid (missions s) of
        None \<Rightarrow> (Inl (KeyError (''mission not found: '' @ mid)), s)
      | Some m \<Rightarrow>
          if target \<notin> allowed_transitions (m_status m)
          then (Inl (ValueError (''invalid mission transition: '' @
                  status_value (m_status m) @ '' -> '' @ status_value target)), s)
          else let m' = m\<lparr>m_status := target,
                          m_result := override result (m_result m),
                          m_error_state := override error_state (m_error_state m)\<rparr>;
                   s1 = s\<lparr>missions := save_row m_id m' (missions s)\<rparr>;
                   s2 = (if has_ledger
                         then add_to_session (m_id m) (Some (m_owner_agent m))
                                MISSION_STATUS_CHANGED
                                (''Mission status changed to '' @ status_value target)
                                [(''from'', JStr (status_value (m_status m))),
                                 (''to'', JStr (status_value target))] s1
                         else s1)
               in (Inr m', s2))"

definition assign_owner :: "string \<Rightarrow> string \<Rightarrow> ('a missions_db_scheme, mission) op" where
  "assign_owner mid owner s =
     (case row_of m_id mid (missions s) of
        None \<Rightarrow> (Inl (KeyError (''mission not found: '' @ mid)), s)
      | Some m \<Rightarrow>
          if m_status m \<noteq> QUEUED
          then (Inl (ValueError ''mission must be queued before owner assignment''), s)
          else let m' = m\<lparr>m_owner_agent := owner\<rparr>
               in (Inr m', s\<lparr>missions := save_row m_id m' (missions s)\<rparr>))"

definition record_result :: "string \<Rightarrow> dict \<Rightarrow> ('a missions_db_scheme, mission) op" where
  "record_result mid result s =
     (case row_of m_id mid (missions s) of
        None \<Rightarrow> (Inl (KeyError (''mission not found: '' @ mid)), s)
      | Some m \<Rightarrow>
          let m' = m\<lparr>m_result := Some result\<rparr>
          in (Inr m', s\<lparr>missions := save_row m_id m' (missions s)\<rparr>))"

end
