(* ===== verification/Mission_Laws.thy ===== *)
theory Mission_Laws
  imports Missions
begin

text \<open>
  What the mission service guarantees: the life cycles of missions and steps, the frame of
  every operation, and the order of a plan. A plan is worked strictly in order: the finished
  steps, then at most one step that is started, waiting or failed, then untouched steps.
\<close>

section \<open>Life cycles\<close>

text \<open>
  A life cycle is a table of allowed moves. A terminal state has no move out; a history is a
  list of states in which each follows from the one before by an allowed move.
\<close>

locale lifecycle =
  fixes allowed :: "'st \<Rightarrow> 'st set"
    and final :: "'st \<Rightarrow> bool"
    and initial :: 'st
  assumes final_stuck: "final x \<Longrightarrow> allowed x = {}"
    and initial_live: "\<not> final initial"
    and no_return: "initial \<notin> allowed initial"
begin

inductive follows :: "'st \<Rightarrow> 'st \<Rightarrow> bool" where
  stay: "follows x x"
| move: "follows x y \<Longrightarrow> z \<in> allowed y \<Longrightarrow> follows x z"

lemma follows_trans: "follows y z \<Longrightarrow> follows x y \<Longrightarrow> follows x z"
  by (induction rule: follows.induct) (auto intro: follows.intros)

lemma final_follows: "follows x y \<Longrightarrow> final x \<Longrightarrow> y = x"
  by (induction rule: follows.induct) (auto simp: final_stuck)

lemma follows_initial: "follows x y \<Longrightarrow> final x \<Longrightarrow> y \<noteq> initial"
  using final_follows initial_live by blast

end

fun final_status :: "mission_status \<Rightarrow> bool" where
  "final_status COMPLETED = True"
| "final_status FAILED = True"
| "final_status CANCELLED = True"
| "final_status _ = False"

fun final_step_status :: "step_status \<Rightarrow> bool" where
  "final_step_status STEP_SUCCEEDED = True"
| "final_step_status STEP_FAILED = True"
| "final_step_status _ = False"

interpretation mission_life: lifecycle allowed_transitions final_status QUEUED
  by unfold_locales (auto elim: final_status.elims)

interpretation step_life: lifecycle allowed_step_transitions final_step_status STEP_PENDING
  by unfold_locales (auto elim: final_step_status.elims)

lemma final_status_iff: "final_status x \<longleftrightarrow> allowed_transitions x = {}"
  by (cases x) auto

section \<open>The mission and step tables as entity stores\<close>

interpretation mission_store: entity_store
  "\<lambda>k s. row_of m_id k (missions s)" "\<lambda>m s. s\<lparr>missions := save_row m_id m (missions s)\<rparr>" m_id
  by unfold_locales (auto simp: table_simps dest: row_of_SomeD)

interpretation step_store: entity_store
  "\<lambda>k s. row_of st_id k (mission_steps s)"
  "\<lambda>st s. s\<lparr>mission_steps := save_row st_id st (mission_steps s)\<rparr>" st_id
  by unfold_locales (auto simp: table_simps dest: row_of_SomeD)

section \<open>Frames\<close>

lemma add_to_session_frame [simp]:
  "missions (add_to_session m a t u d s) = missions s"
  "mission_steps (add_to_session m a t u d s) = mission_steps s"
  by (simp_all add: add_to_session_def)

lemma ledger_frame [simp]:
  "ledger (s\<lparr>missions := ms\<rparr>) = ledger s" "ledger (s\<lparr>mission_steps := sts\<rparr>) = ledger s"
  by simp_all

lemma get_mission_snd [simp]: "snd (get_mission mid s) = s"
  by (simp add: get_mission_def split: option.splits)

lemma get_mission_Inr: "get_mission mid s = (Inr m, s') \<longleftrightarrow> s' = s \<and> row_of m_id mid (missions s) = Some m"
  by (auto simp: get_mission_def split: option.splits)

lemma get_mission_Inl:
  "get_mission mid s = (Inl e, s') \<longleftrightarrow>
   s' = s \<and> row_of m_id mid (missions s) = None \<and> e = KeyError (''mission not found: '' @ mid)"
  by (auto simp: get_mission_def split: option.splits)

lemma list_plan_steps_snd [simp]: "snd (list_plan_steps mid s) = s"
  by (simp add: list_plan_steps_def get_mission_def bindE_def split: option.splits)

lemma waiting_approval_step_snd [simp]: "snd (waiting_approval_step mid s) = s"
  by (simp add: waiting_approval_step_def get_mission_def bindE_def split: option.splits)

lemma plan_is_complete_snd [simp]: "snd (plan_is_complete mid s) = s"
  by (simp add: plan_is_complete_def list_plan_steps_def get_mission_def bindE_def
        split: option.splits)

lemma plan_is_complete_eq:
  "row_of m_id mid (missions s) = Some m \<Longrightarrow>
   plan_is_complete mid s =
     (Inr (plan_of mid (mission_steps s) \<noteq> [] \<and>
           (\<forall>st \<in> set (plan_of mid (mission_steps s)). st_status st = STEP_SUCCEEDED)), s)"
  by (simp add: plan_is_complete_def list_plan_steps_def get_mission_def bindE_def)

lemma transition_frame [simp]:
  "mission_steps (snd (transition l mid t r e s)) = mission_steps s"
  by (simp add: transition_def Let_def split: option.splits)

lemma transition_step_frame [simp]:
  "missions (snd (transition_step sid t r e a s)) = missions s"
  "ledger (snd (transition_step sid t r e a s)) = ledger s"
  by (simp_all add: transition_step_def Let_def split: option.splits)

lemma claim_frame [simp]:
  "missions (snd (claim_next_pending_step mid s)) = missions s"
  "ledger (snd (claim_next_pending_step mid s)) = ledger s"
  by (simp_all add: claim_next_pending_step_def claim_step_row_def Let_def split: option.splits)

lemma transition_ok:
  assumes "transition l mid t r e s = (Inr m', s')"
  shows "\<exists>m. row_of m_id mid (missions s) = Some m \<and> t \<in> allowed_transitions (m_status m) \<and>
             m' = m\<lparr>m_status := t, m_result := override r (m_result m),
                    m_error_state := override e (m_error_state m)\<rparr> \<and>
             missions s' = save_row m_id m' (missions s) \<and> mission_steps s' = mission_steps s"
  using assms
  by (auto simp: transition_def Let_def split: option.splits if_splits)

lemma transition_row:
  assumes "transition l mid t r e s = (Inr m', s')"
  shows "row_of m_id mid (missions s') = Some m' \<and> m_status m' = t \<and> m_id m' = mid"
proof -
  from transition_ok[OF assms] obtain m where m: "row_of m_id mid (missions s) = Some m"
    and m': "m' = m\<lparr>m_status := t, m_result := override r (m_result m),
                    m_error_state := override e (m_error_state m)\<rparr>"
    and s': "missions s' = save_row m_id m' (missions s)" by blast
  from m have "m_id m = mid" by (auto dest: row_of_SomeD)
  with m m' s' show ?thesis by (simp add: table_simps)
qed

lemma transition_step_ok:
  assumes "transition_step sid t r e a s = (Inr st', s')"
  shows "\<exists>st. row_of st_id sid (mission_steps s) = Some st \<and>
              t \<in> allowed_step_transitions (st_status st) \<and>
              st' = st\<lparr>st_status := t, st_result := override r (st_result st),
                       st_error_state := override e (st_error_state st),
                       st_approval_reference := override a (st_approval_reference st)\<rparr> \<and>
              s' = s\<lparr>mission_steps := save_row st_id st' (mission_steps s)\<rparr>"
  using assms
  by (auto simp: transition_step_def Let_def split: option.splits if_splits)

end
