(* ===== verification/Approvals.thy ===== *)
theory Approvals
  imports Mission_Laws
begin

text \<open>
  Approval requests and scoped approval rules (\<open>approvals/models.py\<close>,
  \<open>approvals/service.py\<close>). SHA-256 is an argument, \<open>sha\<close>: what is proved of a fingerprint
  holds up to its collisions. Every reading of the clock is an argument.
\<close>

section \<open>Data\<close>

datatype approval_state = APPROVAL_PENDING | APPROVED | DENIED | APPROVAL_CANCELLED

fun approval_state_value :: "approval_state \<Rightarrow> string" where
  "approval_state_value APPROVAL_PENDING = ''pending''"
| "approval_state_value APPROVED = ''approved''"
| "approval_state_value DENIED = ''denied''"
| "approval_state_value APPROVAL_CANCELLED = ''cancelled''"

record approval_request =
  ar_id :: string
  ar_mission :: string
  ar_requester :: string
  ar_action :: string
  ar_target :: string
  ar_risk :: mission_risk
  ar_plan :: dict
  ar_fingerprint :: string
  ar_state :: approval_state
  ar_expires_at :: stamp
  ar_decided_at :: "stamp option"
  ar_created_at :: int

record scoped_rule =
  sr_id :: string
  sr_action :: string
  sr_target :: string
  sr_risk :: mission_risk
  sr_conditions :: dict
  sr_expires_at :: stamp
  sr_max_count :: "int option"
  sr_count :: int

record approvals_db = missions_db +
  approval_requests :: "approval_request list"
  scoped_rules :: "scoped_rule list"

section \<open>Fingerprints\<close>

definition action_payload :: "string \<Rightarrow> string \<Rightarrow> dict \<Rightarrow> json" where
  "action_payload action target plan =
     JObj [(''action'', JStr action), (''target'', JStr target), (''action_plan'', JObj plan)]"

definition canonical_action_fingerprint ::
  "(string \<Rightarrow> string) \<Rightarrow> string \<Rightarrow> string \<Rightarrow> dict \<Rightarrow> string" where
  "canonical_action_fingerprint sha action target plan =
     sha (json_dumps (action_payload action target plan))"

text \<open>\<open>_utc\<close>: a stored time without a zone is read as UTC.\<close>

definition utc_instant :: "stamp \<Rightarrow> int" where
  "utc_instant t = stamp_instant t"

section \<open>Requests\<close>

record request_args =
  rq_mission :: string
  rq_requester :: string
  rq_action :: string
  rq_target :: string
  rq_risk :: mission_risk
  rq_plan :: dict
  rq_expires_at :: stamp

definition create_request ::
  "(string \<Rightarrow> string) \<Rightarrow> string \<Rightarrow> int \<Rightarrow> request_args \<Rightarrow>
   ('a approvals_db_scheme, approval_request) op" where
  "create_request sha new_id created q s =
     (let r = \<lparr>ar_id = new_id, ar_mission = rq_mission q, ar_requester = rq_requester q,
               ar_action = rq_action q, ar_target = rq_target q, ar_risk = rq_risk q,
               ar_plan = rq_plan q,
               ar_fingerprint = canonical_action_fingerprint sha (rq_action q) (rq_target q) (rq_plan q),
               ar_state = APPROVAL_PENDING, ar_expires_at = rq_expires_at q,
               ar_decided_at = None, ar_created_at = created\<rparr>
      in case insert_row ar_id r (approval_requests s) of
           Inl e \<Rightarrow> (Inl e, s)
         | Inr rows \<Rightarrow> (Inr r, s\<lparr>approval_requests := rows\<rparr>))"

definition get_request :: "string \<Rightarrow> ('a approvals_db_scheme, approval_request) op" where
  "get_request rid s =
     (case row_of ar_id rid (approval_requests s) of
        None \<Rightarrow> (Inl (KeyError (''approval request not found: '' @ rid)), s)
      | Some r \<Rightarrow> (Inr r, s))"

definition list_requests :: "string option \<Rightarrow> 'a approvals_db_scheme \<Rightarrow> approval_request list" where
  "list_requests mission s =
     sort_key (\<lambda>r. (ar_created_at r, ar_id r))
       (filter (\<lambda>r. case mission of None \<Rightarrow> True | Some m \<Rightarrow> ar_mission r = m) (approval_requests s))"

definition matching_requests ::
  "approval_state \<Rightarrow> string \<Rightarrow> string \<Rightarrow> 'a approvals_db_scheme \<Rightarrow> approval_request list" where
  "matching_requests st mission fp s =
     filter (\<lambda>r. ar_mission r = mission \<and> ar_fingerprint r = fp \<and> ar_state r = st) (approval_requests s)"

definition pending_for_fingerprint ::
  "string \<Rightarrow> string \<Rightarrow> int \<Rightarrow> 'a approvals_db_scheme \<Rightarrow> approval_request option" where
  "pending_for_fingerprint mission fp now s =
     find (\<lambda>r. utc_instant (ar_expires_at r) > now) (matching_requests APPROVAL_PENDING mission fp s)"

definition is_approved :: "string \<Rightarrow> string \<Rightarrow> int \<Rightarrow> 'a approvals_db_scheme \<Rightarrow> bool" where
  "is_approved mission fp now s \<longleftrightarrow>
     list_ex (\<lambda>r. utc_instant (ar_expires_at r) > now) (matching_requests APPROVED mission fp s)"

definition decide ::
  "string \<Rightarrow> approval_state \<Rightarrow> int \<Rightarrow> ('a approvals_db_scheme, approval_request) op" where
  "decide rid decision now s =
     (if decision = APPROVAL_PENDING
      then (Inl (ValueError ''approval decision cannot return to pending''), s)
      else case row_of ar_id rid (approval_requests s) of
        None \<Rightarrow> (Inl (KeyError (''approval request not found: '' @ rid)), s)
      | Some r \<Rightarrow>
          if ar_state r \<noteq> APPROVAL_PENDING
          then (Inl (ValueError ''approval request already decided''), s)
          else let r' = r\<lparr>ar_state := decision, ar_decided_at := Some (Aware now)\<rparr>
               in (Inr r', s\<lparr>approval_requests := save_row ar_id r' (approval_requests s)\<rparr>))"

section \<open>Scoped rules\<close>

record rule_args =
  ra_action :: string
  ra_target :: string
  ra_risk :: mission_risk
  ra_conditions :: dict
  ra_expires_at :: stamp
  ra_max_count :: "int option"

definition create_scoped_rule ::
  "string \<Rightarrow> rule_args \<Rightarrow> ('a approvals_db_scheme, scoped_rule) op" where
  "create_scoped_rule new_id q s =
     (let r = \<lparr>sr_id = new_id, sr_action = ra_action q, sr_target = ra_target q,
               sr_risk = ra_risk q, sr_conditions = ra_conditions q,
               sr_expires_at = ra_expires_at q, sr_max_count = ra_max_count q, sr_count = 0\<rparr>
      in case insert_row sr_id r (scoped_rules s) of
           Inl e \<Rightarrow> (Inl e, s)
         | Inr rows \<Rightarrow> (Inr r, s\<lparr>scoped_rules := rows\<rparr>))"

definition rule_exhausted :: "scoped_rule \<Rightarrow> bool" where
  "rule_exhausted r \<longleftrightarrow> (case sr_max_count r of None \<Rightarrow> False | Some n \<Rightarrow> n \<le> sr_count r)"

definition matching_scoped_rule ::
  "string \<Rightarrow> string \<Rightarrow> mission_risk \<Rightarrow> dict \<Rightarrow> int \<Rightarrow> 'a approvals_db_scheme \<Rightarrow> scoped_rule option" where
  "matching_scoped_rule action target risk conditions now s =
     (if risk = RED then None
      else find (\<lambda>r. \<not> (\<not> py_eq (JObj (sr_conditions r)) (JObj conditions) \<or>
                         utc_instant (sr_expires_at r) \<le> now) \<and>
                     \<not> rule_exhausted r)
             (filter (\<lambda>r. sr_action r = action \<and> sr_target r = target \<and> sr_risk r = risk)
                (scoped_rules s)))"

definition rule_consumable :: "int \<Rightarrow> scoped_rule \<Rightarrow> bool" where
  "rule_consumable now r \<longleftrightarrow>
     sr_risk r \<noteq> RED \<and> stamp_instant (sr_expires_at r) > now \<and>
     (case sr_max_count r of None \<Rightarrow> True | Some n \<Rightarrow> sr_count r < n)"

definition consume_rule :: "string \<Rightarrow> int \<Rightarrow> ('a approvals_db_scheme, scoped_rule) op" where
  "consume_rule rid now s =
     (let P = (\<lambda>r. sr_id r = rid \<and> rule_consumable now r);
          rows = update_where P (\<lambda>r. r\<lparr>sr_count := sr_count r + 1\<rparr>) (scoped_rules s)
      in if rowcount P (scoped_rules s) = 1
         then let s1 = s\<lparr>scoped_rules := rows\<rparr>
              in (case row_of sr_id rid rows of
                    None \<Rightarrow> (Inl (KeyError (''scoped approval rule not found: '' @ rid)), s1)
                  | Some r \<Rightarrow> (Inr r, s1))
         else case row_of sr_id rid (scoped_rules s) of
                None \<Rightarrow> (Inl (KeyError (''scoped approval rule not found: '' @ rid)), s)
              | Some r \<Rightarrow>
                  if sr_risk r = RED
                  then (Inl (ValueError ''red actions cannot be authorized by scoped rules''), s)
                  else if utc_instant (sr_expires_at r) \<le> now
                  then (Inl (ValueError ''scoped approval rule expired''), s)
                  else if rule_exhausted r
                  then (Inl (ValueError ''scoped approval rule execution limit reached''), s)
                  else (Inl (ValueError ''scoped approval rule could not be consumed''), s))"

section \<open>Laws\<close>

interpretation request_store: entity_store
  "\<lambda>k s. row_of ar_id k (approval_requests s)"
  "\<lambda>r s. s\<lparr>approval_requests := save_row ar_id r (approval_requests s)\<rparr>" ar_id
  by unfold_locales (auto simp: table_simps dest: row_of_SomeD)

text \<open>The frame of the approval tables: missions, steps and ledger are never touched.\<close>

lemma approvals_frame [simp]:
  "missions (snd (create_request sha i t q s)) = missions s"
  "mission_steps (snd (create_request sha i t q s)) = mission_steps s"
  "missions (snd (consume_rule rid now s)) = missions s"
  "mission_steps (snd (consume_rule rid now s)) = mission_steps s"
  by (simp_all add: create_request_def consume_rule_def Let_def split: sum.splits option.splits)

lemma approvals_ledger [simp]:
  "ledger (snd (create_request sha i t q s)) = ledger s"
  "ledger (snd (consume_rule rid now s)) = ledger s"
  by (simp_all add: create_request_def consume_rule_def Let_def split: sum.splits option.splits)

lemma consume_rule_eq:
  assumes uniq: "unique_keys sr_id (scoped_rules s)" and r: "row_of sr_id rid (scoped_rules s) = Some r"
  shows "consume_rule rid now s =
     (if rule_consumable now r
      then (Inr (r\<lparr>sr_count := sr_count r + 1\<rparr>),
            s\<lparr>scoped_rules := update_where (\<lambda>r. sr_id r = rid \<and> rule_consumable now r)
                                (\<lambda>r. r\<lparr>sr_count := sr_count r + 1\<rparr>) (scoped_rules s)\<rparr>)
      else if sr_risk r = RED
      then (Inl (ValueError ''red actions cannot be authorized by scoped rules''), s)
      else if stamp_instant (sr_expires_at r) \<le> now
      then (Inl (ValueError ''scoped approval rule expired''), s)
      else (Inl (ValueError ''scoped approval rule execution limit reached''), s))"
proof -
  let ?P = "\<lambda>r. sr_id r = rid \<and> rule_consumable now r"
  let ?f = "\<lambda>r. r\<lparr>sr_count := sr_count r + 1\<rparr>"
  have id: "sr_id r = rid" using r by (auto dest: row_of_SomeD)
  have cnt: "rowcount ?P (scoped_rules s) = (if rule_consumable now r then 1 else 0)"
    using rowcount_key[OF uniq, of rid "rule_consumable now"] r by simp
  have upd: "row_of sr_id rid (update_where ?P ?f (scoped_rules s)) =
      Some (if rule_consumable now r then ?f r else r)"
    using r id by (simp add: row_of_update_where)
  have full: "rule_exhausted r"
    if "\<not> rule_consumable now r" "sr_risk r \<noteq> RED" "\<not> stamp_instant (sr_expires_at r) \<le> now"
    using that by (auto simp: rule_consumable_def rule_exhausted_def split: option.splits)
  show ?thesis
  proof (cases "rule_consumable now r")
    case True
    with cnt upd show ?thesis by (simp add: consume_rule_def Let_def)
  next
    case False
    with cnt full r show ?thesis by (simp add: consume_rule_def Let_def utc_instant_def)
  qed
qed

lemma consume_rule_missing:
  assumes "unique_keys sr_id (scoped_rules s)" and "row_of sr_id rid (scoped_rules s) = None"
  shows "consume_rule rid now s = (Inl (KeyError (''scoped approval rule not found: '' @ rid)), s)"
  using rowcount_key[OF assms(1), of rid "rule_consumable now"] assms(2)
  by (simp add: consume_rule_def Let_def)

lemma consume_rule_ids:
  "map sr_id (scoped_rules (snd (consume_rule rid now s))) = map sr_id (scoped_rules s)"
  by (simp add: consume_rule_def Let_def split: option.splits)

lemma consume_rule_rows:
  assumes uniq: "unique_keys sr_id (scoped_rules s)" and r: "row_of sr_id k (scoped_rules s) = Some r"
  shows "row_of sr_id k (scoped_rules (snd (consume_rule rid now s))) =
     Some (if k = rid \<and> rule_consumable now r then r\<lparr>sr_count := sr_count r + 1\<rparr> else r)"
proof (cases "row_of sr_id rid (scoped_rules s)")
  case None
  with consume_rule_missing[OF uniq None] r show ?thesis by auto
next
  case (Some q)
  let ?P = "\<lambda>r. sr_id r = rid \<and> rule_consumable now r"
  have id: "sr_id r = k" using r by (auto dest: row_of_SomeD)
  have rows: "scoped_rules (snd (consume_rule rid now s)) =
     (if rule_consumable now q
      then update_where ?P (\<lambda>r. r\<lparr>sr_count := sr_count r + 1\<rparr>) (scoped_rules s)
      else scoped_rules s)"
    by (simp add: consume_rule_eq[OF uniq Some])
  show ?thesis
  proof (cases "k = rid")
    case True
    with r Some have "q = r" by simp
    with True r id show ?thesis by (simp add: rows row_of_update_where)
  next
    case False
    with r id show ?thesis by (simp add: rows row_of_update_where)
  qed
qed

text \<open>Many consumptions of one rule, at any times.\<close>

fun consume_many :: "string \<Rightarrow> int list \<Rightarrow> 'a approvals_db_scheme \<Rightarrow> nat \<times> 'a approvals_db_scheme" where
  "consume_many rid [] s = (0, s)"
| "consume_many rid (now # nows) s =
     (case consume_rule rid now s of
        (Inl _, s1) \<Rightarrow> consume_many rid nows s1
      | (Inr _, s1) \<Rightarrow> (case consume_many rid nows s1 of (n, s2) \<Rightarrow> (Suc n, s2)))"

lemma consume_many_count:
  assumes "unique_keys sr_id (scoped_rules s)" and "row_of sr_id rid (scoped_rules s) = Some r"
    and "consume_many rid nows s = (n, s')"
  shows "\<exists>r'. row_of sr_id rid (scoped_rules s') = Some r' \<and> sr_max_count r' = sr_max_count r \<and>
              sr_count r' = sr_count r + int n \<and>
              (\<forall>m. sr_max_count r = Some m \<longrightarrow> sr_count r \<le> m \<longrightarrow> sr_count r + int n \<le> m)"
  using assms
proof (induction nows arbitrary: s r n)
  case Nil
  then show ?case by auto
next
  case (Cons now nows)
  let ?s1 = "snd (consume_rule rid now s)"
  have uniq1: "unique_keys sr_id (scoped_rules ?s1)"
    using Cons.prems(1) by (simp add: consume_rule_ids)
  note row1 = consume_rule_rows[OF Cons.prems(1,2), of rid now, simplified]
  show ?case
  proof (cases "rule_consumable now r")
    case True
    with consume_rule_eq[OF Cons.prems(1,2)] Cons.prems(3) obtain k where
      k: "consume_many rid nows ?s1 = (k, s')" and n: "n = Suc k"
      by (auto split: prod.splits)
    from True have lim: "sr_max_count r = Some m \<longrightarrow> sr_count r + 1 \<le> m" for m
      by (auto simp: rule_consumable_def)
    from Cons.IH[OF uniq1 row1 k] True n lim show ?thesis by auto
  next
    case False
    with consume_rule_eq[OF Cons.prems(1,2)] Cons.prems(3)
    have k: "consume_many rid nows ?s1 = (n, s')"
      by (auto split: prod.splits if_splits)
    from Cons.IH[OF uniq1 row1 k] False show ?thesis by auto
  qed
qed

text \<open>Every stored request carries the fingerprint of what it asks for.\<close>

definition fingerprints_match :: "(string \<Rightarrow> string) \<Rightarrow> 'a approvals_db_scheme \<Rightarrow> bool" where
  "fingerprints_match sha s \<longleftrightarrow>
     (\<forall>r \<in> set (approval_requests s).
        ar_fingerprint r = canonical_action_fingerprint sha (ar_action r) (ar_target r) (ar_plan r))"

lemma create_request_fingerprints:
  "fingerprints_match sha s \<Longrightarrow> fingerprints_match sha (snd (create_request sha i t q s))"
  by (auto simp: create_request_def Let_def fingerprints_match_def split: sum.splits
      dest!: insert_row_Inr)

lemma decide_fingerprints:
  "fingerprints_match sha s \<Longrightarrow> fingerprints_match sha (snd (decide rid d now s))"
  by (auto simp: decide_def Let_def fingerprints_match_def split: option.splits
      dest!: in_set_save_row row_of_SomeD)

lemma payload_canon_eq:
  assumes "json_dumps (action_payload a t p) = json_dumps (action_payload a' t' p')"
  shows "a = a' \<and> t = t' \<and> json_canon (JObj p) = json_canon (JObj p')"
proof -
  have "json_canon (action_payload a t p) = json_canon (action_payload a' t' p')"
    using assms by (simp add: json_dumps_inject)
  then show ?thesis by (simp add: action_payload_def)
qed

text \<open>The digested text is unambiguous up to the order of keys.\<close>

lemma canonical_payload_unambiguous:
  "json_dumps (action_payload a t p) = json_dumps (action_payload a' t' p') \<longleftrightarrow>
     a = a' \<and> t = t' \<and> json_canon (JObj p) = json_canon (JObj p')"
  using payload_canon_eq[of a t p a' t' p'] by (auto simp: json_dumps_inject action_payload_def)

end
