(* ===== verification/Safety.thy ===== *)
theory Safety
  imports Approvals
begin

text \<open>
  The safety policy (\<open>safety/policy.py\<close>), the safety service (\<open>safety/service.py\<close>) and the
  runtime state they read (\<open>models/system_state.py\<close>, \<open>system_state.py\<close>). \<open>evaluate\<close> writes the
  ledger, decides, and files an approval request where the decision asks for one.
\<close>

section \<open>The policy\<close>

datatype operating_mode = MODE_NORMAL | MODE_SAFE | MODE_FREEZE

datatype decision = ALLOW | REQUIRE_APPROVAL | SIMULATE_ONLY | BLOCK

fun mode_value :: "operating_mode \<Rightarrow> string" where
  "mode_value MODE_NORMAL = ''normal''"
| "mode_value MODE_SAFE = ''safe''"
| "mode_value MODE_FREEZE = ''freeze''"

text \<open>\<open>OperatingMode(value)\<close>: \<open>None\<close> is the \<open>ValueError\<close>.\<close>

definition mode_of :: "string \<Rightarrow> operating_mode option" where
  "mode_of v =
     (if v = ''normal'' then Some MODE_NORMAL
      else if v = ''safe'' then Some MODE_SAFE
      else if v = ''freeze'' then Some MODE_FREEZE
      else None)"

fun decision_value :: "decision \<Rightarrow> string" where
  "decision_value ALLOW = ''allow''"
| "decision_value REQUIRE_APPROVAL = ''require_approval''"
| "decision_value SIMULATE_ONLY = ''simulate_only''"
| "decision_value BLOCK = ''block''"

record action_intent =
  ai_action :: string
  ai_target :: string
  ai_risk :: mission_risk
  ai_mutates :: bool
  ai_scoped_rule_allows :: bool
  ai_approved :: bool
  ai_authorization_available :: bool

definition evaluate_action :: "action_intent \<Rightarrow> operating_mode \<Rightarrow> bool \<Rightarrow> decision" where
  "evaluate_action i mode simulation =
     (if \<not> ai_authorization_available i \<or> mode = MODE_FREEZE then BLOCK
      else if ai_risk i = RED then BLOCK
      else if mode = MODE_SAFE \<and> ai_mutates i then BLOCK
      else if ai_risk i = BLUE \<and> \<not> ai_scoped_rule_allows i then REQUIRE_APPROVAL
      else if ai_risk i = AMBER \<and> \<not> ai_approved i then REQUIRE_APPROVAL
      else if ai_risk i = GREEN \<and> ai_mutates i \<and> \<not> ai_approved i then REQUIRE_APPROVAL
      else if ai_mutates i \<and> simulation then SIMULATE_ONLY
      else ALLOW)"

section \<open>Runtime state\<close>

record system_state =
  ss_operating_mode :: string
  ss_simulation_mode :: bool

record safety_db = approvals_db +
  system_row :: "system_state option"

definition ensure_system_state :: "('a safety_db_scheme, system_state) op" where
  "ensure_system_state s =
     (case system_row s of
        Some st \<Rightarrow> (Inr st, s)
      | None \<Rightarrow>
          let st = \<lparr>ss_operating_mode = mode_value MODE_FREEZE, ss_simulation_mode = True\<rparr>
          in (Inr st, s\<lparr>system_row := Some st\<rparr>))"

definition read_system_state :: "'a safety_db_scheme \<Rightarrow> operating_mode \<times> bool \<times> bool" where
  "read_system_state s =
     (case system_row s of
        None \<Rightarrow> (MODE_FREEZE, True, False)
      | Some st \<Rightarrow>
          (case mode_of (ss_operating_mode st) of
             None \<Rightarrow> (MODE_FREEZE, True, False)
           | Some mode \<Rightarrow> (mode, ss_simulation_mode st, True)))"

section \<open>The service\<close>

text \<open>The four clock readings of one evaluation, in the order the code takes them.\<close>

record safety_clock =
  ck_approved :: int
  ck_rule :: int
  ck_pending :: int
  ck_request :: int

record safety_request =
  sq_mission :: string
  sq_agent :: string
  sq_action :: string
  sq_target :: string
  sq_risk :: mission_risk
  sq_plan :: dict
  sq_conditions :: dict
  sq_mutates :: bool
  sq_authorized :: bool

record safety_result =
  sf_decision :: decision
  sf_mission_status :: mission_status
  sf_fingerprint :: string
  sf_approval_request_id :: "string option"
  sf_scoped_rule_id :: "string option"
  sf_simulation_mode :: bool

definition opt_str :: "string option \<Rightarrow> json" where
  "opt_str v = (case v of None \<Rightarrow> JNull | Some s \<Rightarrow> JStr s)"

text \<open>What the evaluation reads from the database, before it decides.\<close>

definition permission_context ::
  "(string \<Rightarrow> string) \<Rightarrow> safety_clock \<Rightarrow> safety_request \<Rightarrow> 'a safety_db_scheme \<Rightarrow>
   operating_mode \<times> bool \<times> bool \<times> scoped_rule option \<times> bool" where
  "permission_context sha ck q s =
     (let fp = canonical_action_fingerprint sha (sq_action q) (sq_target q) (sq_plan q);
          (mode, simulation, available) = read_system_state s;
          approved = is_approved (sq_mission q) fp (ck_approved ck) s;
          rule = matching_scoped_rule (sq_action q) (sq_target q) (sq_risk q) (sq_conditions q)
                   (ck_rule ck) s
      in (mode, simulation, approved, rule, sq_authorized q \<and> available))"

definition intent_of ::
  "safety_request \<Rightarrow> bool \<Rightarrow> scoped_rule option \<Rightarrow> bool \<Rightarrow> action_intent" where
  "intent_of q approved rule available =
     \<lparr>ai_action = sq_action q, ai_target = sq_target q, ai_risk = sq_risk q,
      ai_mutates = sq_mutates q, ai_scoped_rule_allows = (rule \<noteq> None \<or> approved),
      ai_approved = approved, ai_authorization_available = available\<rparr>"

text \<open>The last part of \<open>evaluate\<close>: reuse a pending request or file a new one.\<close>

definition file_approval ::
  "(string \<Rightarrow> string) \<Rightarrow> int \<Rightarrow> safety_clock \<Rightarrow> string \<Rightarrow> int \<Rightarrow> safety_request \<Rightarrow>
   ('a safety_db_scheme, string) op" where
  "file_approval sha lifetime ck new_id created q =
     (let fp = canonical_action_fingerprint sha (sq_action q) (sq_target q) (sq_plan q) in
      bindE (readE (pending_for_fingerprint (sq_mission q) fp (ck_pending ck))) (\<lambda>pending.
        case pending of
          Some r \<Rightarrow> returnE (ar_id r)
        | None \<Rightarrow>
            bindE (create_request sha new_id created
                     \<lparr>rq_mission = sq_mission q, rq_requester = sq_agent q,
                      rq_action = sq_action q, rq_target = sq_target q, rq_risk = sq_risk q,
                      rq_plan = sq_plan q, rq_expires_at = Aware (ck_request ck + lifetime)\<rparr>)
              (\<lambda>r. bindE (record_event (sq_mission q) (Some (sq_agent q)) APPROVAL_RECORDED
                       ''Approval requested''
                       [(''approval_request_id'', JStr (ar_id r)),
                        (''state'', JStr (approval_state_value (ar_state r))),
                        (''fingerprint'', JStr fp)])
                 (\<lambda>_. returnE (ar_id r)))))"

definition evaluate ::
  "(string \<Rightarrow> string) \<Rightarrow> int \<Rightarrow> safety_clock \<Rightarrow> string \<Rightarrow> int \<Rightarrow> safety_request \<Rightarrow>
   ('a safety_db_scheme, safety_result) op" where
  "evaluate sha lifetime ck new_id created q =
     (let fp = canonical_action_fingerprint sha (sq_action q) (sq_target q) (sq_plan q) in
      bindE (record_event (sq_mission q) (Some (sq_agent q)) ACTION_PROPOSED
               (''Action proposed: '' @ sq_action q)
               [(''action'', JStr (sq_action q)), (''target'', JStr (sq_target q)),
                (''risk'', JStr (risk_value (sq_risk q))), (''fingerprint'', JStr fp),
                (''mutates_external_state'', JBool (sq_mutates q))]) (\<lambda>_.
      bindE (readE (permission_context sha ck q)) (\<lambda>(mode, simulation, approved, rule, available).
      bindE (record_event (sq_mission q) (Some (sq_agent q)) PERMISSION_CHECKED
               ''Permission context checked''
               [(''authorization_available'', JBool available), (''approved'', JBool approved),
                (''scoped_rule_id'', opt_str (map_option sr_id rule))]) (\<lambda>_.
      let decision = evaluate_action (intent_of q approved rule available) mode simulation in
      bindE (record_event (sq_mission q) (Some (sq_agent q)) RISK_CHECKED
               (''Safety decision: '' @ decision_value decision)
               [(''risk'', JStr (risk_value (sq_risk q))),
                (''operating_mode'', JStr (mode_value mode)),
                (''simulation_mode'', JBool simulation),
                (''decision'', JStr (decision_value decision))]) (\<lambda>_.
      if decision \<noteq> REQUIRE_APPROVAL
      then returnE \<lparr>sf_decision = decision, sf_mission_status = RUNNING, sf_fingerprint = fp,
                    sf_approval_request_id = None, sf_scoped_rule_id = map_option sr_id rule,
                    sf_simulation_mode = simulation\<rparr>
      else bindE (file_approval sha lifetime ck new_id created q) (\<lambda>rid.
           returnE \<lparr>sf_decision = decision, sf_mission_status = WAITING_APPROVAL,
                    sf_fingerprint = fp, sf_approval_request_id = Some rid,
                    sf_scoped_rule_id = map_option sr_id rule,
                    sf_simulation_mode = simulation\<rparr>))))))"

section \<open>Laws of the policy\<close>

lemma evaluate_action_allow:
  "evaluate_action i mode simulation = ALLOW \<longleftrightarrow>
     ai_authorization_available i \<and> mode \<noteq> MODE_FREEZE \<and> ai_risk i \<noteq> RED \<and>
     (ai_mutates i \<longrightarrow> mode = MODE_NORMAL \<and> \<not> simulation) \<and>
     (ai_risk i = BLUE \<longrightarrow> ai_scoped_rule_allows i) \<and>
     (ai_risk i = AMBER \<longrightarrow> ai_approved i) \<and>
     (ai_risk i = GREEN \<longrightarrow> ai_mutates i \<longrightarrow> ai_approved i)"
  by (cases mode; cases "ai_risk i") (auto simp: evaluate_action_def)

lemma evaluate_action_simulate:
  "evaluate_action i mode simulation = SIMULATE_ONLY \<Longrightarrow>
     ai_mutates i \<and> simulation \<and> mode = MODE_NORMAL \<and> ai_risk i \<noteq> RED \<and> ai_authorization_available i"
  by (cases mode) (auto simp: evaluate_action_def split: if_splits)

text \<open>
  Restrictiveness of decisions as a linear order, from \<open>ALLOW\<close> to \<open>BLOCK\<close>: the policy is
  monotone in it.
\<close>

fun decision_rank :: "decision \<Rightarrow> nat" where
  "decision_rank ALLOW = 0"
| "decision_rank SIMULATE_ONLY = 1"
| "decision_rank REQUIRE_APPROVAL = 2"
| "decision_rank BLOCK = 3"

lemma decision_rank_inject [simp]: "decision_rank x = decision_rank y \<longleftrightarrow> x = y"
  by (cases x; cases y) simp_all

instantiation decision :: linorder
begin

definition less_eq_decision :: "decision \<Rightarrow> decision \<Rightarrow> bool" where
  "less_eq_decision x y \<longleftrightarrow> decision_rank x \<le> decision_rank y"

definition less_decision :: "decision \<Rightarrow> decision \<Rightarrow> bool" where
  "less_decision x y \<longleftrightarrow> decision_rank x < decision_rank y"

instance
  by standard (auto simp: less_eq_decision_def less_decision_def)

end

text \<open>Operating modes from permissive to restrictive.\<close>

fun mode_rank :: "operating_mode \<Rightarrow> nat" where
  "mode_rank MODE_NORMAL = 0"
| "mode_rank MODE_SAFE = 1"
| "mode_rank MODE_FREEZE = 2"

section \<open>Laws of the service\<close>

lemma read_system_state_add [simp]:
  "read_system_state (add_to_session m a t u d s) = read_system_state s"
  "is_approved mid fp now (add_to_session m a t u d s) = is_approved mid fp now s"
  "matching_scoped_rule ac tg rk cn now (add_to_session m a t u d s) = matching_scoped_rule ac tg rk cn now s"
  "pending_for_fingerprint mid fp now (add_to_session m a t u d s) = pending_for_fingerprint mid fp now s"
  by (simp_all add: read_system_state_def is_approved_def matching_scoped_rule_def
       matching_requests_def pending_for_fingerprint_def add_to_session_def)

lemma permission_context_add [simp]:
  "permission_context sha ck q (add_to_session m a t u d s) = permission_context sha ck q s"
  by (simp add: permission_context_def)

lemma add_to_session_approvals [simp]:
  "approval_requests (add_to_session m a t u d r) = approval_requests r"
  "scoped_rules (add_to_session m a t u d r) = scoped_rules r"
  "system_row (add_to_session m a t u d s) = system_row s"
  by (simp_all add: add_to_session_def)

lemma record_event_keeps [keeps_intros]:
  "keeps (same missions) (record_event m a t u d)"
  "keeps (same mission_steps) (record_event m a t u d)"
  "keeps (same scoped_rules) (record_event m a t u d)"
  "keeps (same system_row) (record_event m a t u d)"
  by (simp_all add: keeps_def same_def)

lemma create_request_keeps [keeps_intros]:
  "keeps (same missions) (create_request sha i t q)"
  "keeps (same mission_steps) (create_request sha i t q)"
  "keeps (same scoped_rules) (create_request sha i t q)"
  "keeps ledger_grows (create_request sha i t q)"
  by (simp_all add: keeps_def same_def ledger_grows_def create_request_def Let_def split: sum.splits)

lemma file_approval_keeps [keeps_intros]:
  "keeps (same missions) (file_approval sha l ck i t q)"
  "keeps (same mission_steps) (file_approval sha l ck i t q)"
  "keeps (same scoped_rules) (file_approval sha l ck i t q)"
  "keeps ledger_grows (file_approval sha l ck i t q)"
  by (auto simp: file_approval_def Let_def intro!: keeps_intros)

lemma evaluate_keeps [keeps_intros]:
  "keeps (same missions) (evaluate sha l ck i t q)"
  "keeps (same mission_steps) (evaluate sha l ck i t q)"
  "keeps (same scoped_rules) (evaluate sha l ck i t q)"
  "keeps ledger_grows (evaluate sha l ck i t q)"
  by (auto simp: evaluate_def Let_def split: prod.split intro!: keeps_intros)

text \<open>The decision is the policy's, on the context read from the database before the call.\<close>

definition safety_decision ::
  "(string \<Rightarrow> string) \<Rightarrow> safety_clock \<Rightarrow> safety_request \<Rightarrow> 'a safety_db_scheme \<Rightarrow> decision" where
  "safety_decision sha ck q s =
     (case permission_context sha ck q s of
        (mode, simulation, approved, rule, available) \<Rightarrow>
          evaluate_action (intent_of q approved rule available) mode simulation)"

lemma evaluate_Inr:
  assumes "evaluate sha l ck i t q s = (Inr res, s')"
  shows "sf_decision res = safety_decision sha ck q s \<and>
         sf_scoped_rule_id res =
           map_option sr_id (matching_scoped_rule (sq_action q) (sq_target q) (sq_risk q)
             (sq_conditions q) (ck_rule ck) s) \<and>
         (sf_approval_request_id res \<noteq> None \<longleftrightarrow> sf_decision res = REQUIRE_APPROVAL)"
proof -
  obtain mode sim app rule av where c: "permission_context sha ck q s = (mode, sim, app, rule, av)"
    by (cases "permission_context sha ck q s")
  have rule: "rule = matching_scoped_rule (sq_action q) (sq_target q) (sq_risk q)
      (sq_conditions q) (ck_rule ck) s"
    using c by (auto simp: permission_context_def Let_def split: prod.splits)
  show ?thesis
    using assms c rule
    by (auto simp: evaluate_def record_event_def Let_def safety_decision_def
        elim!: bindE_InrE split: if_splits)
qed

lemma evaluate_no_approval:
  assumes "safety_decision sha ck q s \<noteq> REQUIRE_APPROVAL"
  shows "\<exists>res s'. evaluate sha l ck i t q s = (Inr res, s') \<and>
           approval_requests s' = approval_requests s \<and> scoped_rules s' = scoped_rules s"
proof -
  obtain mode sim app rule av where c: "permission_context sha ck q s = (mode, sim, app, rule, av)"
    by (cases "permission_context sha ck q s")
  with assms show ?thesis
    by (simp add: evaluate_def record_event_def Let_def safety_decision_def)
qed

text \<open>The request an evaluation names is a pending one for exactly the evaluated action.\<close>

lemma file_approval_names:
  assumes "file_approval sha l ck i t q s = (Inr rid, s')"
  shows "\<exists>r \<in> set (approval_requests s'). ar_id r = rid \<and> ar_mission r = sq_mission q \<and>
     ar_fingerprint r = canonical_action_fingerprint sha (sq_action q) (sq_target q) (sq_plan q) \<and>
     ar_state r = APPROVAL_PENDING"
proof (cases "pending_for_fingerprint (sq_mission q)
    (canonical_action_fingerprint sha (sq_action q) (sq_target q) (sq_plan q)) (ck_pending ck) s")
  case None
  with assms show ?thesis
    by (auto simp: file_approval_def create_request_def record_event_def Let_def bindE_def
        split: sum.splits dest!: insert_row_Inr)
next
  case (Some r)
  then have "r \<in> set (approval_requests s)" "ar_mission r = sq_mission q" "ar_state r = APPROVAL_PENDING"
    "ar_fingerprint r = canonical_action_fingerprint sha (sq_action q) (sq_target q) (sq_plan q)"
    by (auto simp: pending_for_fingerprint_def matching_requests_def dest!: find_Some_in)
  with Some assms show ?thesis by (auto simp: file_approval_def Let_def)
qed

lemma evaluate_names_pending:
  assumes "evaluate sha l ck i t q s = (Inr res, s')" and "sf_approval_request_id res = Some rid"
  shows "\<exists>r \<in> set (approval_requests s'). ar_id r = rid \<and> ar_mission r = sq_mission q \<and>
     ar_fingerprint r = canonical_action_fingerprint sha (sq_action q) (sq_target q) (sq_plan q) \<and>
     ar_state r = APPROVAL_PENDING"
proof -
  obtain mode sim app rule av where c: "permission_context sha ck q s = (mode, sim, app, rule, av)"
    by (cases "permission_context sha ck q s")
  with assms obtain u where "file_approval sha l ck i t q u = (Inr rid, s')"
    by (auto simp: evaluate_def record_event_def Let_def elim!: bindE_InrE split: if_splits)
  then show ?thesis by (rule file_approval_names)
qed

lemma evaluate_reuses:
  assumes "pending_for_fingerprint (sq_mission q)
     (canonical_action_fingerprint sha (sq_action q) (sq_target q) (sq_plan q)) (ck_pending ck) s = Some r"
  shows "approval_requests (snd (evaluate sha l ck i t q s)) = approval_requests s"
proof -
  obtain mode sim app rule av where c: "permission_context sha ck q s = (mode, sim, app, rule, av)"
    by (cases "permission_context sha ck q s")
  with assms show ?thesis
    by (simp add: evaluate_def record_event_def Let_def file_approval_def)
qed

end
