(* ===== verification/Agents.thy ===== *)
theory Agents
  imports Safety
begin

text \<open>
  The agent registry (\<open>agents/models.py\<close>, \<open>agents/registry.py\<close>): the fixed phase-1 agents,
  their permissions, and their working state.
\<close>

datatype agent_status = AG_IDLE | AG_WORKING | AG_WAITING_APPROVAL | AG_FAILED | AG_COMPLETED

record agent =
  ag_id :: string
  ag_key :: string
  ag_display_name :: string
  ag_role :: string
  ag_status :: agent_status
  ag_level :: int
  ag_xp :: int
  ag_current_mission :: "string option"
  ag_capabilities :: "string list"
  ag_permissions :: "string list"

record agents_db = safety_db +
  agents :: "agent list"

record agent_definition =
  ad_key :: string
  ad_display_name :: string
  ad_role :: string
  ad_capabilities :: "string list"
  ad_permissions :: "string list"

definition dripvid_mcp_read_permissions :: "string list" where
  "dripvid_mcp_read_permissions =
     [''dripvid.health.read'', ''dripvid.release.read'', ''dripvid.config.read'',
      ''dripvid.service.status.read'']"

definition phase1_agents :: "agent_definition list" where
  "phase1_agents =
     [\<lparr>ad_key = ''commander'', ad_display_name = ''Commander'',
       ad_role = ''Primary coordinator and mission orchestrator'',
       ad_capabilities = [''mission.create'', ''mission.delegate'', ''mission.prioritize'',
         ''mission.retry'', ''knowledge.read_shared'', ''agents.view_status''],
       ad_permissions = []\<rparr>,
      \<lparr>ad_key = ''communications'', ad_display_name = ''Communications'',
       ad_role = ''Email and contact intelligence specialist'',
       ad_capabilities = [''email.read'', ''email.search'', ''email.summarize'', ''email.draft'',
         ''contacts.read''],
       ad_permissions = []\<rparr>,
      \<lparr>ad_key = ''calendar'', ad_display_name = ''Calendar'',
       ad_role = ''Schedule and planning specialist'',
       ad_capabilities = [''calendar.read'', ''calendar.free_busy'', ''calendar.summarize'',
         ''calendar.create_private_reminder''],
       ad_permissions = []\<rparr>,
      \<lparr>ad_key = ''sysadmin'', ad_display_name = ''SysAdmin'',
       ad_role = ''Restricted infrastructure observation specialist'',
       ad_capabilities = [''system.health'', ''container.inspect'', ''container.health'',
         ''logs.read'', ''disk.inspect''],
       ad_permissions = dripvid_mcp_read_permissions\<rparr>]"

definition agent_row :: "(string \<Rightarrow> string) \<Rightarrow> agent_definition \<Rightarrow> agent" where
  "agent_row new_id d =
     \<lparr>ag_id = new_id (ad_key d), ag_key = ad_key d, ag_display_name = ad_display_name d,
      ag_role = ad_role d, ag_status = AG_IDLE, ag_level = 1, ag_xp = 0,
      ag_current_mission = None, ag_capabilities = ad_capabilities d,
      ag_permissions = ad_permissions d\<rparr>"

definition add_missing :: "string list \<Rightarrow> string list \<Rightarrow> string list" where
  "add_missing wanted have =
     fold (\<lambda>p ps. if p \<in> set ps then ps else ps @ [p]) wanted have"

definition ensure_agent :: "(string \<Rightarrow> string) \<Rightarrow> agent_definition \<Rightarrow> agent list \<Rightarrow> agent list" where
  "ensure_agent new_id d rows =
     (case row_of ag_key (ad_key d) rows of
        None \<Rightarrow> rows @ [agent_row new_id d]
      | Some a \<Rightarrow>
          if ad_permissions d = [] then rows
          else save_row ag_key
                 (a\<lparr>ag_permissions := add_missing (ad_permissions d) (ag_permissions a)\<rparr>) rows)"

definition ensure_phase1_agents :: "(string \<Rightarrow> string) \<Rightarrow> ('a agents_db_scheme, agent list) op" where
  "ensure_phase1_agents new_id s =
     (let rows = fold (ensure_agent new_id) phase1_agents (agents s)
      in (Inr (List.map_filter (\<lambda>d. row_of ag_key (ad_key d) rows) phase1_agents),
          s\<lparr>agents := rows\<rparr>))"

definition get_by_key :: "string \<Rightarrow> ('a agents_db_scheme, agent) op" where
  "get_by_key key s =
     (case row_of ag_key key (agents s) of
        None \<Rightarrow> (Inl (KeyError (''agent not found: '' @ key)), s)
      | Some a \<Rightarrow> (Inr a, s))"

definition set_state ::
  "string \<Rightarrow> agent_status \<Rightarrow> string option \<Rightarrow> ('a agents_db_scheme, agent) op" where
  "set_state key status current_mission s =
     (case row_of ag_key key (agents s) of
        None \<Rightarrow> (Inl (KeyError (''agent not found: '' @ key)), s)
      | Some a \<Rightarrow>
          let a' = a\<lparr>ag_status := status, ag_current_mission := current_mission\<rparr>
          in (Inr a', s\<lparr>agents := save_row ag_key a' (agents s)\<rparr>))"

section \<open>Laws\<close>

interpretation agent_store: entity_store
  "\<lambda>k s. row_of ag_key k (agents s)" "\<lambda>a s. s\<lparr>agents := save_row ag_key a (agents s)\<rparr>" ag_key
  by unfold_locales (auto simp: table_simps dest: row_of_SomeD)

lemma add_missing_set: "set (add_missing wanted have) = set wanted \<union> set have"
  unfolding add_missing_def by (induction wanted arbitrary: "have") auto

lemma add_missing_id: "set wanted \<subseteq> set have \<Longrightarrow> add_missing wanted have = have"
  unfolding add_missing_def by (induction wanted arbitrary: "have") auto

lemma ensure_agent_row:
  "row_of ag_key k (ensure_agent new_id d rows) =
     (if k = ad_key d then
        Some (case row_of ag_key k rows of
                None \<Rightarrow> agent_row new_id d
              | Some a \<Rightarrow> if ad_permissions d = [] then a
                  else a\<lparr>ag_permissions := add_missing (ad_permissions d) (ag_permissions a)\<rparr>)
      else row_of ag_key k rows)"
proof (cases "row_of ag_key (ad_key d) rows")
  case None
  then show ?thesis
    by (auto simp: ensure_agent_def row_of_append agent_row_def split: option.splits)
next
  case (Some a)
  then have "ag_key a = ad_key d" by (auto dest: row_of_SomeD)
  with Some show ?thesis by (auto simp: ensure_agent_def table_simps)
qed

end
