(* ===== verification/Notifications.thy ===== *)
theory Notifications
  imports Agents
begin

text \<open>
  Notifications (\<open>notifications/models.py\<close>, \<open>notifications/service.py\<close>): occurrences with the
  same group key collapse into one open notification, and text that looks like a secret is
  refused. The pattern for such text is shared with the recovery observer.
\<close>

section \<open>Secret-like text\<close>

text \<open>
  The alternatives of the pattern with their optional separators written out; a match is a word,
  in any case, then white space, then a colon or an equals sign.
\<close>

definition joined :: "string \<Rightarrow> string \<Rightarrow> string list" where
  "joined a b = [a @ b, a @ ''_'' @ b, a @ ''-'' @ b]"

definition secret_names :: "string list" where
  "secret_names =
     [''password'', ''passwd''] @ joined ''api'' ''key'' @ joined ''access'' ''token'' @
     joined ''refresh'' ''token'' @ [''token''] @ joined ''session'' ''secret'' @
     joined ''client'' ''secret'' @ [''authorization'']"

definition lower_ascii :: "char \<Rightarrow> char" where
  "lower_ascii c =
     (let n = (of_char c :: nat) in if 65 \<le> n \<and> n \<le> 90 then char_of (n + 32) else c)"

definition secret_at :: "string \<Rightarrow> bool" where
  "secret_at rest \<longleftrightarrow>
     list_ex (\<lambda>w. take (length w) (map lower_ascii rest) = w \<and>
                  (case dropWhile is_space (drop (length w) rest) of
                     [] \<Rightarrow> False
                   | c # _ \<Rightarrow> c = CHR '':'' \<or> c = CHR ''='')) secret_names"

fun secret_like :: "string \<Rightarrow> bool" where
  "secret_like [] = False"
| "secret_like (c # cs) = (secret_at (c # cs) \<or> secret_like cs)"

lemma secret_like_append: "secret_at rest \<Longrightarrow> rest \<noteq> [] \<Longrightarrow> secret_like (pre @ rest)"
  by (induction pre) (auto simp: neq_Nil_conv)

section \<open>Data\<close>

datatype notification_severity = INFORMATION | ATTENTION | APPROVAL_REQUIRED | CRITICAL

fun severity_value :: "notification_severity \<Rightarrow> string" where
  "severity_value INFORMATION = ''information''"
| "severity_value ATTENTION = ''attention''"
| "severity_value APPROVAL_REQUIRED = ''approval_required''"
| "severity_value CRITICAL = ''critical''"

record notification =
  n_id :: string
  n_severity :: notification_severity
  n_title :: string
  n_message :: string
  n_source_type :: "string option"
  n_source_id :: "string option"
  n_group_key :: string
  n_occurrence_count :: int
  n_first_occurred_at :: int
  n_last_occurred_at :: int
  n_read_at :: "int option"
  n_dismissed_at :: "int option"
  n_created_at :: int

record notifications_db = agents_db +
  notifications :: "notification list"

record notice =
  nt_severity :: notification_severity
  nt_title :: string
  nt_message :: string
  nt_group_key :: string
  nt_source_type :: "string option"
  nt_source_id :: "string option"

section \<open>The service\<close>

definition validate_content :: "notice \<Rightarrow> exn + unit" where
  "validate_content q =
     (if strip (nt_title q) = [] then Inl (ValueError ''notification title cannot be empty'')
      else if strip (nt_message q) = [] then Inl (ValueError ''notification message cannot be empty'')
      else if strip (nt_group_key q) = [] then Inl (ValueError ''notification group key cannot be empty'')
      else if secret_like (nt_title q) \<or> secret_like (nt_message q)
      then Inl (ValueError ''secret-like material cannot be stored in notifications'')
      else Inr ())"

definition is_open :: "string \<Rightarrow> notification \<Rightarrow> bool" where
  "is_open key n \<longleftrightarrow> n_group_key n = key \<and> n_read_at n = None \<and> n_dismissed_at n = None"

definition notify :: "string \<Rightarrow> int \<Rightarrow> int \<Rightarrow> notice \<Rightarrow> ('a notifications_db_scheme, notification) op" where
  "notify new_id created now q s =
     (case validate_content q of
        Inl e \<Rightarrow> (Inl e, s)
      | Inr _ \<Rightarrow>
          (case first_by (\<lambda>n. - n_last_occurred_at n)
                  (filter (is_open (nt_group_key q)) (notifications s)) of
             Some n \<Rightarrow>
               let n' = n\<lparr>n_severity := nt_severity q, n_title := strip (nt_title q),
                          n_message := strip (nt_message q), n_source_type := nt_source_type q,
                          n_source_id := nt_source_id q,
                          n_occurrence_count := n_occurrence_count n + 1,
                          n_last_occurred_at := now\<rparr>
               in (Inr n', s\<lparr>notifications := save_row n_id n' (notifications s)\<rparr>)
           | None \<Rightarrow>
               let n = \<lparr>n_id = new_id, n_severity = nt_severity q, n_title = strip (nt_title q),
                        n_message = strip (nt_message q), n_source_type = nt_source_type q,
                        n_source_id = nt_source_id q, n_group_key = strip (nt_group_key q),
                        n_occurrence_count = 1, n_first_occurred_at = now,
                        n_last_occurred_at = now, n_read_at = None, n_dismissed_at = None,
                        n_created_at = created\<rparr>
               in (case insert_row n_id n (notifications s) of
                     Inl e \<Rightarrow> (Inl e, s)
                   | Inr rows \<Rightarrow> (Inr n, s\<lparr>notifications := rows\<rparr>))))"

definition get_notification :: "string \<Rightarrow> ('a notifications_db_scheme, notification) op" where
  "get_notification nid s =
     (case row_of n_id nid (notifications s) of
        None \<Rightarrow> (Inl (KeyError (''notification not found: '' @ nid)), s)
      | Some n \<Rightarrow> (Inr n, s))"

definition list_notifications ::
  "bool \<Rightarrow> bool \<Rightarrow> notification_severity option \<Rightarrow> 'a notifications_db_scheme \<Rightarrow> notification list" where
  "list_notifications include_dismissed unread_only severity s =
     sort_key (\<lambda>n. (- n_last_occurred_at n, - n_created_at n))
       (filter (\<lambda>n. (include_dismissed \<or> n_dismissed_at n = None) \<and>
                    (unread_only \<longrightarrow> n_read_at n = None) \<and>
                    (case severity of None \<Rightarrow> True | Some v \<Rightarrow> n_severity n = v)) (notifications s))"

definition unread_count :: "'a notifications_db_scheme \<Rightarrow> nat" where
  "unread_count s = length (list_notifications False True None s)"

definition mark_read :: "string \<Rightarrow> int \<Rightarrow> ('a notifications_db_scheme, notification) op" where
  "mark_read nid now s =
     (case row_of n_id nid (notifications s) of
        None \<Rightarrow> (Inl (KeyError (''notification not found: '' @ nid)), s)
      | Some n \<Rightarrow>
          if n_read_at n = None
          then let n' = n\<lparr>n_read_at := Some now\<rparr>
               in (Inr n', s\<lparr>notifications := save_row n_id n' (notifications s)\<rparr>)
          else (Inr n, s))"

definition mark_all_read :: "int \<Rightarrow> ('a notifications_db_scheme, nat) op" where
  "mark_all_read now s =
     (let P = (\<lambda>n. n_read_at n = None \<and> n_dismissed_at n = None)
      in (Inr (rowcount P (notifications s)),
          s\<lparr>notifications := update_where P (\<lambda>n. n\<lparr>n_read_at := Some now\<rparr>) (notifications s)\<rparr>))"

definition dismiss :: "string \<Rightarrow> int \<Rightarrow> ('a notifications_db_scheme, notification) op" where
  "dismiss nid now s =
     (case row_of n_id nid (notifications s) of
        None \<Rightarrow> (Inl (KeyError (''notification not found: '' @ nid)), s)
      | Some n \<Rightarrow>
          let n' = n\<lparr>n_read_at := (case n_read_at n of None \<Rightarrow> Some now | Some t \<Rightarrow> Some t),
                     n_dismissed_at := (case n_dismissed_at n of None \<Rightarrow> Some now | Some t \<Rightarrow> Some t)\<rparr>
          in (Inr n', s\<lparr>notifications := save_row n_id n' (notifications s)\<rparr>))"

section \<open>Laws\<close>

interpretation notification_store: entity_store
  "\<lambda>k s. row_of n_id k (notifications s)"
  "\<lambda>n s. s\<lparr>notifications := save_row n_id n (notifications s)\<rparr>" n_id
  by unfold_locales (auto simp: table_simps dest: row_of_SomeD)

text \<open>
  At most one notification per group is open. Group keys are compared before they are stripped,
  so the law holds for callers that pass keys without surrounding white space.
\<close>

definition groups_open_once :: "'a notifications_db_scheme \<Rightarrow> bool" where
  "groups_open_once s \<longleftrightarrow>
     unique_keys n_id (notifications s) \<and> (\<forall>k. rowcount (is_open k) (notifications s) \<le> 1)"

lemma is_open_update [simp]:
  "is_open k (n\<lparr>n_severity := v, n_title := t, n_message := m, n_source_type := x, n_source_id := y,
     n_occurrence_count := c, n_last_occurred_at := l\<rparr>) = is_open k n"
  by (simp add: is_open_def)

lemma notify_open_once:
  assumes inv: "groups_open_once s" and key: "strip (nt_group_key q) = nt_group_key q"
  shows "groups_open_once (snd (notify i c now q s))"
proof (cases "validate_content q")
  case (Inl e)
  with inv show ?thesis by (simp add: notify_def)
next
  case (Inr u)
  let ?open = "filter (is_open (nt_group_key q)) (notifications s)"
  show ?thesis
  proof (cases "first_by (\<lambda>n. - n_last_occurred_at n) ?open")
    case None
    then have no: "rowcount (is_open (nt_group_key q)) (notifications s) = 0"
      by (simp add: rowcount_def)
    have "rowcount (is_open k) (notifications s @ [n]) \<le> 1"
      if "n_group_key n = nt_group_key q" for k n
      using inv no that by (cases "k = nt_group_key q")
        (auto simp: groups_open_once_def rowcount_def is_open_def[of _ n])
    with Inr None inv key show ?thesis
      by (auto simp: notify_def Let_def groups_open_once_def split: sum.split dest!: insert_row_Inr)
  next
    case (Some n)
    from first_by_SomeD(1)[OF Some] have "n \<in> set (notifications s)" by simp
    with inv have row: "row_of n_id (n_id n) (notifications s) = Some n"
      by (auto simp: groups_open_once_def intro: row_of_unique)
    have "rowcount (is_open k) (save_row n_id n' (notifications s)) \<le> rowcount (is_open k) (notifications s)"
      if "n_id n' = n_id n" "is_open k n' = is_open k n" for n' k
      using that inv row by (intro rowcount_save_row_le[of _ _ _ n]) (auto simp: groups_open_once_def)
    from order_trans[OF this] Inr Some inv show ?thesis
      by (simp add: notify_def Let_def groups_open_once_def)
  qed
qed

lemma mark_read_open_once:
  assumes inv: "groups_open_once s"
  shows "groups_open_once (snd (mark_read nid now s))" and "groups_open_once (snd (dismiss nid now s))"
    and "groups_open_once (snd (mark_all_read now s))"
proof -
  have le: "rowcount (is_open k) (save_row n_id n' (notifications s)) \<le> 1"
    if "row_of n_id nid (notifications s) = Some n" "n_id n' = n_id n" "n_read_at n' \<noteq> None" for n n' k
  proof -
    have "n_id n = nid" using that(1) by (auto dest: row_of_SomeD)
    then have "rowcount (is_open k) (save_row n_id n' (notifications s)) \<le> rowcount (is_open k) (notifications s)"
      using that inv by (intro rowcount_save_row_le[of _ _ _ n]) (auto simp: groups_open_once_def is_open_def)
    with inv show ?thesis by (auto simp: groups_open_once_def intro: order_trans)
  qed
  show "groups_open_once (snd (mark_read nid now s))"
    using inv le by (auto simp: mark_read_def Let_def groups_open_once_def split: option.split)
  show "groups_open_once (snd (dismiss nid now s))"
    using inv le by (auto simp: dismiss_def Let_def groups_open_once_def split: option.split)
  have "filter (is_open k) (update_where (\<lambda>n. n_read_at n = None \<and> n_dismissed_at n = None)
     (\<lambda>n. n\<lparr>n_read_at := Some now\<rparr>) ns) = []" for k ns
    by (induction ns) (auto simp: is_open_def)
  with inv show "groups_open_once (snd (mark_all_read now s))"
    by (simp add: mark_all_read_def Let_def groups_open_once_def rowcount_def)
qed

text \<open>No stored notification holds secret-like text.\<close>

definition notifications_clean :: "'a notifications_db_scheme \<Rightarrow> bool" where
  "notifications_clean s \<longleftrightarrow>
     (\<forall>n \<in> set (notifications s). \<not> secret_like (n_title n) \<and> \<not> secret_like (n_message n))"

lemma secret_like_dropWhile: "\<not> secret_like xs \<Longrightarrow> \<not> secret_like (dropWhile P xs)"
  by (induction xs) auto

lemma dropWhile_append_Cons: "dropWhile P xs = c # cs \<Longrightarrow> dropWhile P (xs @ ys) = c # cs @ ys"
  by (induction xs) (auto split: if_splits)

lemma secret_at_append:
  assumes "secret_at xs"
  shows "secret_at (xs @ ys)"
proof -
  from assms obtain w where w: "w \<in> set secret_names"
    and m: "take (length w) (map lower_ascii xs) = w"
    and h: "case dropWhile is_space (drop (length w) xs) of [] \<Rightarrow> False | c # _ \<Rightarrow> c = CHR '':'' \<or> c = CHR ''=''"
    unfolding secret_at_def list_ex_iff by blast
  from h obtain c rest where d: "dropWhile is_space (drop (length w) xs) = c # rest"
    and c: "c = CHR '':'' \<or> c = CHR ''=''"
    by (cases "dropWhile is_space (drop (length w) xs)") auto
  have len: "length w \<le> length xs" using arg_cong[OF m, of length] by simp
  have "dropWhile is_space (drop (length w) xs @ ys) = dropWhile is_space (drop (length w) xs) @ ys"
    using dropWhile_append_Cons[OF d] d by simp
  with len w m d c show ?thesis
    by (auto simp: secret_at_def list_ex_iff intro!: bexI[of _ w])
qed

lemma secret_like_prefix: "secret_like xs \<Longrightarrow> secret_like (xs @ ys)"
  by (induction xs) (auto dest: secret_at_append)

lemma secret_like_strip:
  assumes "\<not> secret_like xs"
  shows "\<not> secret_like (strip xs)"
proof
  assume "secret_like (strip xs)"
  moreover obtain ys where "dropWhile is_space xs = strip xs @ ys"
    unfolding strip_def using takeWhile_dropWhile_id[of is_space "rev (dropWhile is_space xs)"]
    by (metis rev_append rev_rev_ident)
  ultimately have "secret_like (dropWhile is_space xs)" by (simp add: secret_like_prefix)
  with secret_like_dropWhile[OF assms] show False by blast
qed

lemma notify_clean:
  assumes "notifications_clean s"
  shows "notifications_clean (snd (notify i c now q s))"
proof (cases "validate_content q")
  case (Inl e)
  with assms show ?thesis by (simp add: notify_def)
next
  case (Inr u)
  then have "\<not> secret_like (nt_title q)" "\<not> secret_like (nt_message q)"
    by (auto simp: validate_content_def split: if_splits)
  then have "\<not> secret_like (strip (nt_title q))" "\<not> secret_like (strip (nt_message q))"
    by (auto dest: secret_like_strip)
  with Inr assms show ?thesis
    by (auto simp: notify_def Let_def notifications_clean_def split: option.split sum.split
        dest!: in_set_save_row insert_row_Inr)
qed

end
