(* ===== verification/Recovery_Policy.thy ===== *)
theory Recovery_Policy
  imports Notifications
begin

text \<open>
  The recovery policy (\<open>recovery/policy.py\<close>): a pure classification of one observation of the
  DripVid service, and the bounding of evidence before it is stored (\<open>_bounded_value\<close> of
  \<open>recovery/service.py\<close>).
\<close>

section \<open>Components and decisions\<close>

datatype recovery_action = Observe | Diagnose | Recover | Escalate | Resolved

record recovery_component =
  rc_key :: string
  rc_diagnostic_target :: string
  rc_recoverable :: bool

record recovery_decision =
  rd_action :: recovery_action
  rd_component :: "string option"
  rd_reason :: string

definition component_entry :: "string \<Rightarrow> string \<Rightarrow> string \<times> recovery_component" where
  "component_entry k t = (k, \<lparr>rc_key = k, rc_diagnostic_target = t, rc_recoverable = True\<rparr>)"

definition recovery_components :: "(string \<times> recovery_component) list" where
  "recovery_components =
     [component_entry ''app'' ''dripvid-app'', component_entry ''mcp'' ''dripvid-mcp'',
      component_entry ''proxy'' ''dripvid-proxy'', component_entry ''tunnel'' ''dripvid-tunnel'',
      component_entry ''database'' ''dripvid-database'']"

definition decision_of :: "recovery_action \<Rightarrow> string option \<Rightarrow> string \<Rightarrow> recovery_decision" where
  "decision_of a c r = \<lparr>rd_action = a, rd_component = c, rd_reason = r\<rparr>"

definition storage_decision :: "dict \<Rightarrow> recovery_decision option" where
  "storage_decision readiness =
     (case dict_get readiness ''storage'' of
        JObj storage \<Rightarrow>
          if dict_get storage ''available'' = JBool False
          then Some (decision_of Escalate None ''storage_unavailable'')
          else if dict_get storage ''writable'' = JBool False
          then Some (decision_of Escalate None ''storage_unwritable'')
          else if dict_get readiness ''ok'' = JBool True \<and> dict_get storage ''belowReserve'' = JBool True
          then Some (decision_of Observe None ''storage_below_reserve'')
          else None
      | _ \<Rightarrow> None)"

definition service_down :: "string option \<Rightarrow> bool" where
  "service_down st \<longleftrightarrow>
     casefold (case st of None \<Rightarrow> [] | Some v \<Rightarrow> v) \<in> {''inactive'', ''failed''}"

definition service_running :: "string option \<Rightarrow> bool" where
  "service_running st \<longleftrightarrow>
     casefold (case st of None \<Rightarrow> [] | Some v \<Rightarrow> v) \<in> {''active'', ''running''}"

definition decide_recovery ::
  "string option \<Rightarrow> string option \<Rightarrow> int \<Rightarrow> int \<Rightarrow> dict \<Rightarrow> recovery_decision" where
  "decide_recovery component service_state consecutive_failures failure_threshold readiness =
     (case storage_decision readiness of
        Some d \<Rightarrow> d
      | None \<Rightarrow>
          if dict_get readiness ''ok'' = JBool True
          then decision_of Resolved None ''readiness_healthy''
          else if consecutive_failures < failure_threshold
          then decision_of Observe component ''failure_threshold_not_met''
          else case component of
            None \<Rightarrow> decision_of Diagnose None ''component_not_identified''
          | Some c \<Rightarrow>
              (case map_of recovery_components c of
                 None \<Rightarrow> decision_of Escalate None ''unknown_component''
               | Some rc \<Rightarrow>
                   if \<not> rc_recoverable rc then decision_of Escalate None ''unknown_component''
                   else if c = ''database''
                   then if service_down service_state
                        then decision_of Recover (Some ''database'') ''database_service_inactive_or_failed''
                        else if service_running service_state \<and>
                                dict_get readiness ''database'' = JBool False
                        then decision_of Escalate (Some ''database'') ''database_running_but_unhealthy''
                        else decision_of Diagnose (Some ''database'') ''database_state_requires_diagnosis''
                   else if service_down service_state
                   then decision_of Recover component ''service_inactive_or_failed''
                   else if service_running service_state
                   then decision_of Diagnose component ''service_running_readiness_failed''
                   else decision_of Diagnose component ''service_state_uncertain''))"

lemma rd_action_decision_of [simp]: "rd_action (decision_of a c r) = a"
  by (simp add: decision_of_def)

lemma rd_component_decision_of [simp]: "rd_component (decision_of a c r) = c"
  by (simp add: decision_of_def)

lemma rd_reason_decision_of [simp]: "rd_reason (decision_of a c r) = r"
  by (simp add: decision_of_def)

lemma storage_decision_not_recover: "storage_decision r = Some d \<Longrightarrow> rd_action d \<in> {Escalate, Observe}"
  by (auto simp: storage_decision_def split: json.splits if_splits)

lemma component_recoverable: "map_of recovery_components c = Some rc \<Longrightarrow> rc_recoverable rc"
  by (auto simp: recovery_components_def component_entry_def split: if_splits)

text \<open>Exactly when the policy asks for a recovery, and for which component.\<close>

lemma decide_recovery_recover:
  "rd_action (decide_recovery c st n k r) = Recover \<longleftrightarrow>
     storage_decision r = None \<and> dict_get r ''ok'' \<noteq> JBool True \<and> k \<le> n \<and> service_down st \<and>
     (\<exists>x rc. c = Some x \<and> map_of recovery_components x = Some rc)"
proof (cases "storage_decision r")
  case (Some d)
  with storage_decision_not_recover[OF Some] show ?thesis by (auto simp: decide_recovery_def)
next
  case None
  show ?thesis
  proof (cases c)
    case (Some x)
    with None show ?thesis
      using component_recoverable by (cases "map_of recovery_components x") (auto simp: decide_recovery_def)
  qed (use None in \<open>simp add: decide_recovery_def\<close>)
qed

lemma decide_recovery_component:
  "rd_action (decide_recovery c st n k r) = Recover \<Longrightarrow> rd_component (decide_recovery c st n k r) = c"
proof -
  assume a: "rd_action (decide_recovery c st n k r) = Recover"
  then obtain x rc where "storage_decision r = None" "dict_get r ''ok'' \<noteq> JBool True" "k \<le> n"
    "service_down st" "c = Some x" "map_of recovery_components x = Some rc"
    unfolding decide_recovery_recover by blast
  with component_recoverable[of x rc] show ?thesis by (simp add: decide_recovery_def)
qed

section \<open>Bounded evidence\<close>

definition dict_set :: "string \<Rightarrow> json \<Rightarrow> dict \<Rightarrow> dict" where
  "dict_set k v d = AList.update k v d"

definition dict_of_items :: "(string \<times> json) list \<Rightarrow> dict" where
  "dict_of_items items = fold (\<lambda>(k, v). dict_set k v) items []"

function bounded_value :: "nat \<Rightarrow> json \<Rightarrow> json" where
  "bounded_value depth v =
     (if 4 \<le> depth then JStr ''[truncated]''
      else case v of
        JNull \<Rightarrow> JNull
      | JBool b \<Rightarrow> JBool b
      | JInt i \<Rightarrow> JInt i
      | JStr s \<Rightarrow> JStr (take 1024 s)
      | JObj d \<Rightarrow> JObj (dict_of_items (map (\<lambda>kv. (take 128 (fst kv), bounded_value (Suc depth) (snd kv)))
                                        (take 32 d)))
      | JList xs \<Rightarrow> JList (map (bounded_value (Suc depth)) (take 20 xs)))"
  by pat_completeness auto

termination bounded_value
  by (relation "measure (\<lambda>(depth, v). 4 - depth)") auto

declare bounded_value.simps [simp del]

definition bounded_mapping :: "dict option \<Rightarrow> dict" where
  "bounded_mapping v =
     (case v of
        None \<Rightarrow> []
      | Some d \<Rightarrow> (case bounded_value 0 (JObj d) of JObj e \<Rightarrow> e | _ \<Rightarrow> []))"

text \<open>The size of what is stored: at most four levels, 32 entries, 20 elements, 1024 characters.\<close>

fun small :: "nat \<Rightarrow> json \<Rightarrow> bool" where
  "small depth v =
     (if 4 \<le> depth then v = JStr ''[truncated]''
      else case v of
        JStr s \<Rightarrow> length s \<le> 1024
      | JObj d \<Rightarrow> length d \<le> 32 \<and> distinct (map fst d) \<and>
          list_all (\<lambda>kv. length (fst kv) \<le> 128 \<and> small (Suc depth) (snd kv)) d
      | JList xs \<Rightarrow> length xs \<le> 20 \<and> list_all (small (Suc depth)) xs
      | _ \<Rightarrow> True)"

declare small.simps [simp del]

lemma dict_of_items_laws:
  "length (dict_of_items items) \<le> length items"
  "distinct (map fst (dict_of_items items))"
  "set (dict_of_items items) \<subseteq> set items"
proof -
  have len: "length (fold (\<lambda>(k, v). dict_set k v) items d) \<le> length d + length items" for d
  proof (induction items arbitrary: d)
    case (Cons kv items)
    have "length (dict_set k v d) \<le> Suc (length d)" for k v
      unfolding dict_set_def by (induction d) auto
    with Cons[of "dict_set (fst kv) (snd kv) d"] show ?case
      by (auto simp: case_prod_beta intro: order_trans)
  qed simp
  show "length (dict_of_items items) \<le> length items"
    using len[of "[]"] by (simp add: dict_of_items_def)
  have dis: "distinct (map fst d) \<Longrightarrow> distinct (map fst (fold (\<lambda>(k, v). dict_set k v) items d))" for d
    by (induction items arbitrary: d) (auto simp: dict_set_def case_prod_beta distinct_update)
  show "distinct (map fst (dict_of_items items))" using dis[of "[]"] by (simp add: dict_of_items_def)
  have sub: "set (fold (\<lambda>(k, v). dict_set k v) items d) \<subseteq> set d \<union> set items" for d
  proof (induction items arbitrary: d)
    case (Cons kv items)
    have "set (dict_set k v d) \<subseteq> insert (k, v) (set d)" for k v
      unfolding dict_set_def by (induction d) auto
    with Cons[of "dict_set (fst kv) (snd kv) d"] show ?case by (fastforce simp: case_prod_beta)
  qed simp
  show "set (dict_of_items items) \<subseteq> set items" using sub[of "[]"] by (simp add: dict_of_items_def)
qed

lemma dict_set_new: "k \<notin> fst ` set d \<Longrightarrow> dict_set k v d = d @ [(k, v)]"
  unfolding dict_set_def by (induction d) auto

lemma dict_of_items_distinct:
  assumes "distinct (map fst items)"
  shows "dict_of_items items = items"
proof -
  have "fold (\<lambda>(k, v). dict_set k v) items d = d @ items"
    if "distinct (map fst (d @ items))" for d
    using that
  proof (induction items arbitrary: d)
    case (Cons kv items)
    have "dict_set (fst kv) (snd kv) d = d @ [kv]"
      using Cons.prems dict_set_new[of "fst kv" d "snd kv"] by auto
    with Cons.IH[of "d @ [kv]"] Cons.prems show ?case by (simp add: case_prod_beta)
  qed simp
  from this[of "[]"] assms show ?thesis by (simp add: dict_of_items_def)
qed

lemma bounded_value_small: "small depth (bounded_value depth v)"
proof (induction depth v rule: bounded_value.induct)
  case (1 depth v)
  show ?case
  proof (cases "4 \<le> depth")
    case True
    then show ?thesis by (simp add: bounded_value.simps[of depth] small.simps[of depth])
  next
    case False
    show ?thesis
    proof (cases v)
      case (JObj d)
      let ?items = "map (\<lambda>kv. (take 128 (fst kv), bounded_value (Suc depth) (snd kv))) (take 32 d)"
      have items: "length (fst kv) \<le> 128 \<and> small (Suc depth) (snd kv)" if kv: "kv \<in> set ?items" for kv
      proof -
        from kv obtain x where x: "x \<in> set (take 32 d)"
          and kv_eq: "kv = (take 128 (fst x), bounded_value (Suc depth) (snd x))" by auto
        from 1(2)[OF False JObj x] kv_eq show ?thesis by simp
      qed
      have len: "length (dict_of_items ?items) \<le> 32"
        using dict_of_items_laws(1)[of ?items] by (rule order_trans) simp
      have all: "list_all (\<lambda>kv. length (fst kv) \<le> 128 \<and> small (Suc depth) (snd kv)) (dict_of_items ?items)"
        unfolding list_all_iff using items dict_of_items_laws(3)[of ?items] by blast
      have "bounded_value depth v = JObj (dict_of_items ?items)"
        using False JObj by (simp add: bounded_value.simps[of depth])
      with False len all dict_of_items_laws(2)[of ?items] show ?thesis
        by (simp only: small.simps[of depth "JObj _"] json.case if_False simp_thms)
    next
      case (JList xs)
      have "small (Suc depth) (bounded_value (Suc depth) x)" if "x \<in> set (take 20 xs)" for x
        using 1(1)[OF False JList that] .
      with False JList show ?thesis
        by (simp add: bounded_value.simps[of depth] small.simps[of depth] list_all_iff)
    qed (use False in \<open>simp_all add: bounded_value.simps[of depth] small.simps[of depth]\<close>)
  qed
qed

lemma bounded_value_id: "small depth v \<Longrightarrow> bounded_value depth v = v"
proof (induction depth v rule: small.induct)
  case (1 depth v)
  show ?case
  proof (cases "4 \<le> depth")
    case True
    with 1(3) show ?thesis by (simp add: bounded_value.simps[of depth] small.simps[of depth])
  next
    case False
    show ?thesis
    proof (cases v)
      case (JObj d)
      from 1(3) False JObj have d: "length d \<le> 32" "distinct (map fst d)"
        "\<forall>kv \<in> set d. length (fst kv) \<le> 128 \<and> small (Suc depth) (snd kv)"
        by (simp_all add: small.simps[of depth] list_all_iff)
      have "take 128 (fst kv) = fst kv \<and> bounded_value (Suc depth) (snd kv) = snd kv"
        if kv: "kv \<in> set d" for kv
        using 1(2)[OF False JObj kv] d(3) kv by simp
      with d have "map (\<lambda>kv. (take 128 (fst kv), bounded_value (Suc depth) (snd kv))) (take 32 d) = d"
        by (simp add: map_idI)
      with False JObj \<open>distinct (map fst d)\<close> show ?thesis
        by (simp add: bounded_value.simps[of depth] dict_of_items_distinct)
    next
      case (JList xs)
      from 1(3) False JList have xs: "length xs \<le> 20" "\<forall>x \<in> set xs. small (Suc depth) x"
        by (simp_all add: small.simps[of depth] list_all_iff)
      have "bounded_value (Suc depth) x = x" if x: "x \<in> set xs" for x
        using 1(1)[OF False JList x] xs(2) x by simp
      with xs have "map (bounded_value (Suc depth)) (take 20 xs) = xs" by (simp add: map_idI)
      with False JList show ?thesis by (simp add: bounded_value.simps[of depth])
    qed (use False 1(3) in \<open>simp_all add: bounded_value.simps[of depth] small.simps[of depth]\<close>)
  qed
qed

lemma bounded_mapping_eq: "JObj (bounded_mapping (Some d)) = bounded_value 0 (JObj d)"
  by (simp add: bounded_mapping_def bounded_value.simps[of 0])

end
