(* ===== verification/Recovery_Service.thy ===== *)
theory Recovery_Service
  imports Recovery_Policy
begin

text \<open>
  Recovery incidents and attempts (\<open>recovery/models.py\<close>, \<open>recovery/service.py\<close>). An incident is
  active while it has an \<open>active_key\<close>; the table allows one active incident per key. Errors of the
  database other than the service's own become \<open>RecoveryPersistenceError\<close>.
\<close>

section \<open>Data\<close>

datatype incident_state =
  SUSPECT | DIAGNOSING | RECOVERY_PENDING | RECOVERING | VERIFYING | RESOLVED | ESCALATED

record incident =
  ri_id :: string
  ri_active_key :: "string option"
  ri_target :: string
  ri_component :: string
  ri_state :: incident_state
  ri_failures :: int
  ri_first_failure_at :: stamp
  ri_last_failure_at :: stamp
  ri_last_observed_at :: stamp
  ri_diagnostics :: dict
  ri_verification :: dict
  ri_mission :: "string option"
  ri_last_attempt_at :: "stamp option"
  ri_escalation_reason :: "string option"
  ri_resolved_at :: "stamp option"

record attempt =
  at_id :: string
  at_incident :: string
  at_target :: string
  at_component :: string
  at_mission :: "string option"
  at_time :: int
  at_simulated :: bool
  at_outcome :: string
  at_result :: dict

record recovery_db = notifications_db +
  incidents :: "incident list"
  attempts :: "attempt list"

record recovery_config =
  rv_failure_threshold :: int
  rv_observation_seconds :: int
  rv_cooldown_seconds :: int
  rv_attempt_budget :: int
  rv_window_seconds :: int

record allowance =
  al_allowed :: bool
  al_reason :: string
  al_real_attempts :: int

section \<open>Operations\<close>

definition recovery_service :: "recovery_config \<Rightarrow> exn + recovery_config" where
  "recovery_service c =
     (if rv_failure_threshold c < 2 then Inl (ValueError ''failure threshold must be at least 2'')
      else if rv_observation_seconds c < 1 then Inl (ValueError ''observation interval must be positive'')
      else if rv_cooldown_seconds c < 1 then Inl (ValueError ''recovery cooldown must be positive'')
      else if rv_attempt_budget c < 1 then Inl (ValueError ''recovery attempt budget must be positive'')
      else if rv_window_seconds c < rv_cooldown_seconds c
      then Inl (ValueError ''recovery budget window must cover cooldown'')
      else Inr c)"

definition active_key :: "string \<Rightarrow> exn + string" where
  "active_key component =
     (if map_of recovery_components component = None
      then Inl (ValueError (''unknown recovery component: '' @ component))
      else Inr (''dripvid:'' @ component))"

definition missing_incident :: "string \<Rightarrow> exn" where
  "missing_incident iid = KeyError (''recovery incident not found: '' @ iid)"

definition get_incident :: "string \<Rightarrow> ('a recovery_db_scheme, incident) op" where
  "get_incident iid s =
     (case row_of ri_id iid (incidents s) of
        None \<Rightarrow> (Inl (missing_incident iid), s)
      | Some i \<Rightarrow> (Inr i, s))"

definition active_row :: "string \<Rightarrow> 'a recovery_db_scheme \<Rightarrow> incident option" where
  "active_row key s = find (\<lambda>i. ri_active_key i = Some key) (incidents s)"

definition active_incident :: "string \<Rightarrow> ('a recovery_db_scheme, incident option) op" where
  "active_incident component s =
     (case active_key component of
        Inl e \<Rightarrow> (Inl e, s)
      | Inr key \<Rightarrow> (Inr (active_row key s), s))"

definition incident_for_mission :: "string \<Rightarrow> 'a recovery_db_scheme \<Rightarrow> incident option" where
  "incident_for_mission mid s =
     (if strip mid = [] then None
      else find (\<lambda>i. ri_mission i = Some mid \<and> ri_active_key i \<noteq> None) (incidents s))"

definition save_incident :: "incident \<Rightarrow> 'a recovery_db_scheme \<Rightarrow> 'a recovery_db_scheme" where
  "save_incident i s = s\<lparr>incidents := save_row ri_id i (incidents s)\<rparr>"

text \<open>
  The frame of the operations that load one incident by its id, may refuse it, and write it
  back changed.
\<close>

definition change_incident ::
  "string \<Rightarrow> (incident \<Rightarrow> exn + incident) \<Rightarrow> ('a recovery_db_scheme, incident) op" where
  "change_incident iid f s =
     (case row_of ri_id iid (incidents s) of
        None \<Rightarrow> (Inl (missing_incident iid), s)
      | Some i \<Rightarrow>
          (case f i of
             Inl e \<Rightarrow> (Inl e, s)
           | Inr i' \<Rightarrow> (Inr i', save_incident i' s)))"

definition update_diagnostics :: "string \<Rightarrow> int \<Rightarrow> dict \<Rightarrow> ('a recovery_db_scheme, incident) op" where
  "update_diagnostics iid now diagnostics =
     change_incident iid (\<lambda>i.
       if ri_active_key i = None
       then Inl (ValueError ''terminal recovery incident cannot accept diagnostics'')
       else Inr (i\<lparr>ri_diagnostics := bounded_mapping (Some diagnostics),
                   ri_last_observed_at := Aware now\<rparr>))"

definition new_incident :: "string \<Rightarrow> string \<Rightarrow> string \<Rightarrow> int \<Rightarrow> dict \<Rightarrow> incident" where
  "new_incident new_id key component now diagnostics =
     \<lparr>ri_id = new_id, ri_active_key = Some key, ri_target = ''dripvid'', ri_component = component,
      ri_state = SUSPECT, ri_failures = 1, ri_first_failure_at = Aware now,
      ri_last_failure_at = Aware now, ri_last_observed_at = Aware now,
      ri_diagnostics = diagnostics, ri_verification = [], ri_mission = None,
      ri_last_attempt_at = None, ri_escalation_reason = None, ri_resolved_at = None\<rparr>"

definition failed_again :: "recovery_config \<Rightarrow> int \<Rightarrow> dict \<Rightarrow> incident \<Rightarrow> incident" where
  "failed_again c now diagnostics i =
     (let n = ri_failures i + 1 in
      i\<lparr>ri_failures := n, ri_last_failure_at := Aware now, ri_last_observed_at := Aware now,
        ri_diagnostics := (if diagnostics \<noteq> [] then diagnostics else ri_diagnostics i),
        ri_state := (if ri_state i = SUSPECT \<and> rv_failure_threshold c \<le> n then DIAGNOSING
                     else ri_state i)\<rparr>)"

definition observe_failure ::
  "recovery_config \<Rightarrow> string \<Rightarrow> string \<Rightarrow> int \<Rightarrow> dict option \<Rightarrow>
   ('a recovery_db_scheme, incident) op" where
  "observe_failure c new_id component now diagnostics s =
     (case active_key component of
        Inl e \<Rightarrow> (Inl e, s)
      | Inr key \<Rightarrow>
          let bounded = bounded_mapping diagnostics in
          (case active_row key s of
             None \<Rightarrow>
               let i = new_incident new_id key component now bounded in
               (case insert_row ri_id i (incidents s) of
                  Inl _ \<Rightarrow> (Inl (RecoveryPersistenceError ''failed to persist recovery failure''), s)
                | Inr rows \<Rightarrow> (Inr i, s\<lparr>incidents := rows\<rparr>))
           | Some i \<Rightarrow>
               if now - stamp_instant (ri_last_observed_at i) < seconds (rv_observation_seconds c)
               then (Inr i, s)
               else let i' = failed_again c now bounded i in (Inr i', save_incident i' s)))"

definition resolved_row :: "int \<Rightarrow> dict option \<Rightarrow> incident \<Rightarrow> incident" where
  "resolved_row now verification i =
     i\<lparr>ri_state := RESOLVED, ri_active_key := None, ri_failures := 0,
       ri_last_observed_at := Aware now, ri_resolved_at := Some (Aware now),
       ri_verification := bounded_mapping verification\<rparr>"

definition resolve_if_healthy ::
  "string \<Rightarrow> int \<Rightarrow> dict option \<Rightarrow> ('a recovery_db_scheme, incident option) op" where
  "resolve_if_healthy component now verification s =
     (case active_key component of
        Inl e \<Rightarrow> (Inl e, s)
      | Inr key \<Rightarrow>
          (case active_row key s of
             None \<Rightarrow> (Inr None, s)
           | Some i \<Rightarrow> let i' = resolved_row now verification i in (Inr (Some i'), save_incident i' s)))"

definition mark_recovery_pending :: "string \<Rightarrow> int \<Rightarrow> ('a recovery_db_scheme, incident) op" where
  "mark_recovery_pending iid now =
     change_incident iid (\<lambda>i.
       if ri_active_key i = None then Inl (ValueError ''terminal recovery incident cannot be pending'')
       else if ri_state i \<notin> {SUSPECT, DIAGNOSING, RECOVERY_PENDING}
       then Inl (ValueError ''recovery incident cannot become pending'')
       else Inr (i\<lparr>ri_state := RECOVERY_PENDING, ri_last_observed_at := Aware now\<rparr>))"

definition counts_for :: "incident \<Rightarrow> int \<Rightarrow> attempt \<Rightarrow> bool" where
  "counts_for i start a \<longleftrightarrow>
     at_target a = ri_target i \<and> at_component a = ri_component i \<and> \<not> at_simulated a \<and> start \<le> at_time a"

definition can_recover :: "recovery_config \<Rightarrow> string \<Rightarrow> int \<Rightarrow> ('a recovery_db_scheme, allowance) op" where
  "can_recover c iid now s =
     (case row_of ri_id iid (incidents s) of
        None \<Rightarrow> (Inl (missing_incident iid), s)
      | Some i \<Rightarrow>
          if ri_active_key i = None \<or> ri_state i \<noteq> RECOVERY_PENDING
          then (Inr \<lparr>al_allowed = False, al_reason = ''state_not_pending'', al_real_attempts = 0\<rparr>, s)
          else
            let n = int (rowcount (counts_for i (now - seconds (rv_window_seconds c))) (attempts s)) in
            if rv_attempt_budget c \<le> n
            then (Inr \<lparr>al_allowed = False, al_reason = ''budget_exhausted'', al_real_attempts = n\<rparr>, s)
            else if (case ri_last_attempt_at i of
                       None \<Rightarrow> False
                     | Some t \<Rightarrow> now - stamp_instant t < seconds (rv_cooldown_seconds c))
            then (Inr \<lparr>al_allowed = False, al_reason = ''cooldown'', al_real_attempts = n\<rparr>, s)
            else (Inr \<lparr>al_allowed = True, al_reason = ''allowed'', al_real_attempts = n\<rparr>, s))"

definition attach_mission :: "string \<Rightarrow> string \<Rightarrow> ('a recovery_db_scheme, incident) op" where
  "attach_mission iid mid s =
     (if mid = [] then (Inl (ValueError ''recovery mission id is required''), s)
      else
        let P = (\<lambda>i. ri_id i = iid \<and> ri_active_key i \<noteq> None \<and> ri_state i = RECOVERY_PENDING \<and>
                     ri_mission i = None);
            rows = update_where P (\<lambda>i. i\<lparr>ri_mission := Some mid\<rparr>) (incidents s) in
        if rowcount P (incidents s) = 1
        then (case row_of ri_id iid rows of
                None \<Rightarrow> (Inl (RecoveryPersistenceError ''attached recovery incident disappeared''),
                         s\<lparr>incidents := rows\<rparr>)
              | Some i \<Rightarrow> (Inr i, s\<lparr>incidents := rows\<rparr>))
        else case row_of ri_id iid (incidents s) of
               None \<Rightarrow> (Inl (missing_incident iid), s)
             | Some i \<Rightarrow>
                 if ri_mission i = Some mid then (Inr i, s)
                 else if ri_mission i \<noteq> None
                 then (Inl (ValueError ''recovery incident already has a mission''), s)
                 else (Inl (ValueError ''recovery incident cannot attach a mission''), s))"

definition claim_recovery :: "string \<Rightarrow> ('a recovery_db_scheme, bool) op" where
  "claim_recovery iid s =
     (let P = (\<lambda>i. ri_id i = iid \<and> ri_active_key i \<noteq> None \<and> ri_state i = RECOVERY_PENDING) in
      if rowcount P (incidents s) \<noteq> 1 then (Inr False, s)
      else (Inr True, s\<lparr>incidents := update_where P (\<lambda>i. i\<lparr>ri_state := RECOVERING\<rparr>) (incidents s)\<rparr>))"

definition record_attempt ::
  "string \<Rightarrow> string \<Rightarrow> int \<Rightarrow> string option \<Rightarrow> bool \<Rightarrow> string \<Rightarrow> dict option \<Rightarrow>
   ('a recovery_db_scheme, attempt) op" where
  "record_attempt new_id iid now mid simulated out result s =
     (if out = [] \<or> 32 < length out then (Inl (ValueError ''invalid recovery attempt outcome''), s)
      else case row_of ri_id iid (incidents s) of
        None \<Rightarrow> (Inl (missing_incident iid), s)
      | Some i \<Rightarrow>
          let a = \<lparr>at_id = new_id, at_incident = ri_id i, at_target = ri_target i,
                   at_component = ri_component i, at_mission = mid, at_time = now,
                   at_simulated = simulated, at_outcome = out, at_result = bounded_mapping result\<rparr> in
          (case insert_row at_id a (attempts s) of
             Inl _ \<Rightarrow> (Inl (RecoveryPersistenceError ''failed to record recovery attempt''), s)
           | Inr rows \<Rightarrow>
               let s1 = s\<lparr>attempts := rows\<rparr>
               in (Inr a, if simulated then s1
                          else save_incident (i\<lparr>ri_last_attempt_at := Some (Aware now)\<rparr>) s1)))"

definition set_active_state ::
  "string \<Rightarrow> incident_state \<Rightarrow> int \<Rightarrow> dict option \<Rightarrow> ('a recovery_db_scheme, incident) op" where
  "set_active_state iid st now verification =
     change_incident iid (\<lambda>i.
       if ri_active_key i = None then Inl (ValueError ''terminal recovery incident cannot transition'')
       else Inr (i\<lparr>ri_state := st, ri_last_observed_at := Aware now,
                   ri_verification := (if verification = None then ri_verification i
                                       else bounded_mapping verification)\<rparr>))"

definition mark_verifying :: "string \<Rightarrow> int \<Rightarrow> dict option \<Rightarrow> ('a recovery_db_scheme, incident) op" where
  "mark_verifying iid now verification = set_active_state iid VERIFYING now verification"

definition resolve_incident :: "string \<Rightarrow> int \<Rightarrow> dict option \<Rightarrow> ('a recovery_db_scheme, incident) op" where
  "resolve_incident iid now verification =
     change_incident iid (\<lambda>i. Inr (resolved_row now verification i))"

definition escalate :: "string \<Rightarrow> int \<Rightarrow> string \<Rightarrow> dict option \<Rightarrow> ('a recovery_db_scheme, incident) op" where
  "escalate iid now reason diagnostics =
     (if reason = [] then raiseE (ValueError ''recovery escalation reason is required'')
      else change_incident iid (\<lambda>i.
        Inr (i\<lparr>ri_state := ESCALATED, ri_active_key := None,
               ri_escalation_reason := Some (take 2048 reason),
               ri_resolved_at := Some (Aware now), ri_last_observed_at := Aware now,
               ri_diagnostics := (if diagnostics = None then ri_diagnostics i
                                  else bounded_mapping diagnostics)\<rparr>)))"

section \<open>The invariant of the incident table\<close>

text \<open>
  One active incident per component; an incident is active exactly while its state is not
  terminal; its key names its component.
\<close>

definition terminal :: "incident_state \<Rightarrow> bool" where
  "terminal st \<longleftrightarrow> st \<in> {RESOLVED, ESCALATED}"

definition incident_ok :: "incident \<Rightarrow> bool" where
  "incident_ok i \<longleftrightarrow>
     (ri_active_key i = None \<longleftrightarrow> terminal (ri_state i)) \<and>
     (\<forall>k. ri_active_key i = Some k \<longrightarrow> k = ''dripvid:'' @ ri_component i)"

definition incidents_inv :: "'a recovery_db_scheme \<Rightarrow> bool" where
  "incidents_inv s \<longleftrightarrow>
     unique_keys ri_id (incidents s) \<and> (\<forall>i \<in> set (incidents s). incident_ok i) \<and>
     (\<forall>k. rowcount (\<lambda>i. ri_active_key i = Some k) (incidents s) \<le> 1)"

interpretation incident_store: entity_store
  "\<lambda>k s. row_of ri_id k (incidents s)" save_incident ri_id
  by unfold_locales (auto simp: save_incident_def table_simps dest: row_of_SomeD)

lemma save_incident_inv:
  assumes inv: "incidents_inv s" and row: "row_of ri_id iid (incidents s) = Some i"
    and id: "ri_id i' = ri_id i" and ok: "incident_ok i'"
    and key: "ri_active_key i' = None \<or> ri_active_key i' = ri_active_key i"
  shows "incidents_inv (save_incident i' s)"
proof -
  have iid: "ri_id i = iid" using row by (auto dest: row_of_SomeD)
  have "rowcount (\<lambda>i. ri_active_key i = Some k) (save_row ri_id i' (incidents s)) \<le> 1" for k
  proof (rule order_trans)
    show "rowcount (\<lambda>i. ri_active_key i = Some k) (save_row ri_id i' (incidents s)) \<le>
          rowcount (\<lambda>i. ri_active_key i = Some k) (incidents s)"
      using inv row id iid key by (intro rowcount_save_row_le[of _ _ _ i]) (auto simp: incidents_inv_def)
    show "rowcount (\<lambda>i. ri_active_key i = Some k) (incidents s) \<le> 1"
      using inv by (simp add: incidents_inv_def)
  qed
  with inv ok show ?thesis
    by (auto simp: incidents_inv_def save_incident_def dest: in_set_save_row)
qed

lemma change_incident_inv:
  assumes inv: "incidents_inv s"
    and f: "\<And>i i'. i \<in> set (incidents s) \<Longrightarrow> f i = Inr i' \<Longrightarrow>
              ri_id i' = ri_id i \<and> incident_ok i' \<and>
              (ri_active_key i' = None \<or> ri_active_key i' = ri_active_key i)"
  shows "incidents_inv (snd (change_incident iid f s))"
proof (cases "row_of ri_id iid (incidents s)")
  case None
  with inv show ?thesis by (simp add: change_incident_def)
next
  case (Some i)
  then have "i \<in> set (incidents s)" by (auto dest: row_of_SomeD)
  show ?thesis
  proof (cases "f i")
    case (Inl e)
    with Some inv show ?thesis by (simp add: change_incident_def)
  next
    case (Inr i')
    with f[OF \<open>i \<in> set (incidents s)\<close> Inr] Some save_incident_inv[OF inv Some] show ?thesis
      by (simp add: change_incident_def)
  qed
qed

lemma incident_ok_member: "incidents_inv s \<Longrightarrow> i \<in> set (incidents s) \<Longrightarrow> incident_ok i"
  by (simp add: incidents_inv_def)

lemma active_row_Some:
  "incidents_inv s \<Longrightarrow> active_row k s = Some i \<Longrightarrow>
   ri_active_key i = Some k \<and> row_of ri_id (ri_id i) (incidents s) = Some i \<and> incident_ok i"
  by (auto simp: active_row_def incidents_inv_def row_of_unique dest!: find_Some_in)

lemma observe_failure_inv:
  assumes inv: "incidents_inv s"
  shows "incidents_inv (snd (observe_failure c n component now d s))"
proof (cases "active_key component")
  case (Inl e)
  with inv show ?thesis by (simp add: observe_failure_def)
next
  case (Inr key)
  then have key: "key = ''dripvid:'' @ component" by (auto simp: active_key_def split: if_splits)
  show ?thesis
  proof (cases "active_row key s")
    case None
    then have no: "rowcount (\<lambda>i. ri_active_key i = Some key) (incidents s) = 0"
      by (auto simp: active_row_def find_None_iff rowcount_0_iff)
    have "rowcount (\<lambda>i. ri_active_key i = Some k) (incidents s @ [new_incident n key component now d']) \<le> 1" for k d'
      using inv no by (cases "k = key") (auto simp: incidents_inv_def rowcount_def new_incident_def)
    moreover have "incident_ok (new_incident n key component now d')" for d'
      by (simp add: incident_ok_def new_incident_def terminal_def key)
    ultimately show ?thesis
      using Inr None inv
      by (auto simp: observe_failure_def Let_def incidents_inv_def split: sum.split dest!: insert_row_Inr)
  next
    case (Some i)
    from active_row_Some[OF inv this] have i: "ri_active_key i = Some key"
      "row_of ri_id (ri_id i) (incidents s) = Some i" "incident_ok i" by simp_all
    have ok: "incident_ok (failed_again c now d' i)" for d'
      using i(3) by (auto simp: incident_ok_def failed_again_def Let_def terminal_def)
    have "ri_id (failed_again c now d' i) = ri_id i \<and> ri_active_key (failed_again c now d' i) = ri_active_key i" for d'
      by (simp add: failed_again_def Let_def)
    with Inr Some inv ok save_incident_inv[OF inv i(2)] show ?thesis
      by (simp add: observe_failure_def Let_def)
  qed
qed

lemma incident_ok_resolved [simp]: "incident_ok (resolved_row now v i)"
  by (simp add: incident_ok_def resolved_row_def terminal_def)

lemma resolved_row_id [simp]: "ri_id (resolved_row now v i) = ri_id i" "ri_active_key (resolved_row now v i) = None"
  by (simp_all add: resolved_row_def)

lemma resolve_if_healthy_inv:
  assumes inv: "incidents_inv s"
  shows "incidents_inv (snd (resolve_if_healthy component now v s))"
proof (cases "active_key component")
  case (Inl e)
  with inv show ?thesis by (simp add: resolve_if_healthy_def)
next
  case (Inr key)
  show ?thesis
  proof (cases "active_row key s")
    case None
    with Inr inv show ?thesis by (simp add: resolve_if_healthy_def)
  next
    case (Some i)
    from active_row_Some[OF inv this] save_incident_inv[OF inv, of "ri_id i" i] Inr Some
    show ?thesis by (simp add: resolve_if_healthy_def Let_def)
  qed
qed

lemma incident_changes_inv:
  assumes inv: "incidents_inv s"
  shows "incidents_inv (snd (update_diagnostics iid now d s))"
    and "incidents_inv (snd (mark_recovery_pending iid now s))"
    and "incidents_inv (snd (mark_verifying iid now v s))"
    and "incidents_inv (snd (resolve_incident iid now v s))"
    and "incidents_inv (snd (escalate iid now r dd s))"
proof -
  note ok = incident_ok_member[OF inv]
  show "incidents_inv (snd (update_diagnostics iid now d s))"
    unfolding update_diagnostics_def
    by (rule change_incident_inv[OF inv]) (auto split: if_splits dest!: ok simp: incident_ok_def)
  show "incidents_inv (snd (mark_recovery_pending iid now s))"
    unfolding mark_recovery_pending_def
    by (rule change_incident_inv[OF inv])
       (auto split: if_splits dest!: ok simp: incident_ok_def terminal_def)
  show "incidents_inv (snd (mark_verifying iid now v s))"
    unfolding mark_verifying_def set_active_state_def
    by (rule change_incident_inv[OF inv])
       (auto split: if_splits dest!: ok simp: incident_ok_def terminal_def)
  show "incidents_inv (snd (resolve_incident iid now v s))"
    unfolding resolve_incident_def by (rule change_incident_inv[OF inv]) auto
  show "incidents_inv (snd (escalate iid now r dd s))"
    unfolding escalate_def
    by (cases "r = []") (use inv in \<open>auto intro!: change_incident_inv[OF inv] simp: incident_ok_def terminal_def\<close>)
qed

lemma update_incidents_inv:
  assumes inv: "incidents_inv s"
    and f: "\<And>i. i \<in> set (incidents s) \<Longrightarrow> P i \<Longrightarrow>
              ri_id (f i) = ri_id i \<and> incident_ok (f i) \<and> ri_active_key (f i) = ri_active_key i"
  shows "incidents_inv (s\<lparr>incidents := update_where P f (incidents s)\<rparr>)"
proof -
  have "map ri_id (update_where P f rows) = map ri_id rows \<and>
        map ri_active_key (update_where P f rows) = map ri_active_key rows"
    if "\<And>i. i \<in> set rows \<Longrightarrow> P i \<Longrightarrow> ri_id (f i) = ri_id i \<and> ri_active_key (f i) = ri_active_key i" for rows
    using that by (induction rows) auto
  then have ids: "map ri_id (update_where P f (incidents s)) = map ri_id (incidents s)"
    and keys: "map ri_active_key (update_where P f (incidents s)) = map ri_active_key (incidents s)"
    using f by auto
  have "rowcount (\<lambda>i. ri_active_key i = Some k) rows = length (filter (\<lambda>x. x = Some k) (map ri_active_key rows))"
    for k and rows :: "incident list" by (simp add: rowcount_def filter_map o_def)
  then have cnt: "rowcount (\<lambda>i. ri_active_key i = Some k) (update_where P f (incidents s)) =
      rowcount (\<lambda>i. ri_active_key i = Some k) (incidents s)" for k
    by (simp only: keys)
  have "\<forall>i \<in> set (update_where P f (incidents s)). incident_ok i"
    using f inv by (auto simp: update_where_def incidents_inv_def)
  with ids cnt inv show ?thesis by (simp add: incidents_inv_def)
qed

lemma claim_attach_inv:
  assumes inv: "incidents_inv s"
  shows "incidents_inv (snd (claim_recovery iid s))" and "incidents_inv (snd (attach_mission iid mid s))"
proof -
  have c: "incidents_inv (s\<lparr>incidents := update_where
      (\<lambda>i. ri_id i = iid \<and> ri_active_key i \<noteq> None \<and> ri_state i = RECOVERY_PENDING)
      (\<lambda>i. i\<lparr>ri_state := RECOVERING\<rparr>) (incidents s)\<rparr>)"
    by (rule update_incidents_inv[OF inv])
       (use incident_ok_member[OF inv] in \<open>auto simp: incident_ok_def terminal_def\<close>)
  then show "incidents_inv (snd (claim_recovery iid s))"
    using inv by (simp add: claim_recovery_def Let_def)
  have "incidents_inv (s\<lparr>incidents := update_where
      (\<lambda>i. ri_id i = iid \<and> ri_active_key i \<noteq> None \<and> ri_state i = RECOVERY_PENDING \<and> ri_mission i = None)
      (\<lambda>i. i\<lparr>ri_mission := Some mid\<rparr>) (incidents s)\<rparr>)"
    by (rule update_incidents_inv[OF inv])
       (use incident_ok_member[OF inv] in \<open>auto simp: incident_ok_def terminal_def\<close>)
  then show "incidents_inv (snd (attach_mission iid mid s))"
    using inv by (auto simp: attach_mission_def Let_def split: option.split)
qed

lemma record_attempt_inv:
  assumes inv: "incidents_inv s"
  shows "incidents_inv (snd (record_attempt n iid now mid sim out r s))"
proof -
  have frame: "incidents_inv (s\<lparr>attempts := rows\<rparr>) = incidents_inv s" for rows
    by (simp add: incidents_inv_def)
  have save: "incidents_inv (save_incident (i\<lparr>ri_last_attempt_at := Some (Aware now)\<rparr>) (s\<lparr>attempts := rows\<rparr>))"
    if row: "row_of ri_id iid (incidents s) = Some i" for i rows
  proof (rule save_incident_inv[where i = i and iid = iid])
    show "incidents_inv (s\<lparr>attempts := rows\<rparr>)" using inv frame by simp
    show "incident_ok (i\<lparr>ri_last_attempt_at := Some (Aware now)\<rparr>)"
      using inv row by (auto simp: incidents_inv_def incident_ok_def dest!: row_of_SomeD)
  qed (use row in simp_all)
  show ?thesis
    using inv frame save by (auto simp: record_attempt_def Let_def split: option.split sum.split)
qed

end
