(* ===== verification/Recovery_Limits.thy ===== *)
theory Recovery_Limits
  imports Recovery_Service
begin

text \<open>
  The limits on automatic recovery. A run interleaves the operations of the recovery service,
  in any order and on any incidents, under a clock that does not go back. A real attempt is
  recorded under a permit: a call of \<open>can_recover\<close> for its target and component that allowed it
  and that no other attempt has used.
\<close>

section \<open>Operations that record no real attempt\<close>

datatype recovery_call =
    ObserveFailure string string "dict option"
  | ResolveIfHealthy string "dict option"
  | UpdateDiagnostics string dict
  | MarkPending string
  | AttachMission string string
  | ClaimRecovery string
  | MarkVerifying string "dict option"
  | ResolveIncident string "dict option"
  | EscalateIncident string string "dict option"
  | SimulatedAttempt string string "string option" string "dict option"

fun recovery_perform ::
  "recovery_config \<Rightarrow> int \<Rightarrow> recovery_call \<Rightarrow> 'a recovery_db_scheme \<Rightarrow> 'a recovery_db_scheme" where
  "recovery_perform c now (ObserveFailure n cm d) s = snd (observe_failure c n cm now d s)"
| "recovery_perform c now (ResolveIfHealthy cm v) s = snd (resolve_if_healthy cm now v s)"
| "recovery_perform c now (UpdateDiagnostics iid d) s = snd (update_diagnostics iid now d s)"
| "recovery_perform c now (MarkPending iid) s = snd (mark_recovery_pending iid now s)"
| "recovery_perform c now (AttachMission iid mid) s = snd (attach_mission iid mid s)"
| "recovery_perform c now (ClaimRecovery iid) s = snd (claim_recovery iid s)"
| "recovery_perform c now (MarkVerifying iid v) s = snd (mark_verifying iid now v s)"
| "recovery_perform c now (ResolveIncident iid v) s = snd (resolve_incident iid now v s)"
| "recovery_perform c now (EscalateIncident iid r d) s = snd (escalate iid now r d s)"
| "recovery_perform c now (SimulatedAttempt n iid mid out r) s =
     snd (record_attempt n iid now mid True out r s)"

lemma recovery_perform_inv: "incidents_inv s \<Longrightarrow> incidents_inv (recovery_perform c now call s)"
  by (cases call)
     (simp_all add: observe_failure_inv resolve_if_healthy_inv incident_changes_inv claim_attach_inv
        record_attempt_inv)

definition real_attempts :: "'a recovery_db_scheme \<Rightarrow> attempt list" where
  "real_attempts s = filter (\<lambda>a. \<not> at_simulated a) (attempts s)"

lemma change_incident_attempts [simp]: "attempts (snd (change_incident iid f s)) = attempts s"
  by (simp add: change_incident_def save_incident_def split: option.split sum.split)

lemma recovery_perform_real: "real_attempts (recovery_perform c now call s) = real_attempts s"
proof (cases call)
  case (SimulatedAttempt n iid mid out r)
  then show ?thesis
    by (auto simp: real_attempts_def record_attempt_def Let_def split: option.split sum.split
        dest!: insert_row_Inr)
qed (auto simp: real_attempts_def observe_failure_def resolve_if_healthy_def update_diagnostics_def
      mark_recovery_pending_def attach_mission_def claim_recovery_def mark_verifying_def
      set_active_state_def resolve_incident_def escalate_def save_incident_def Let_def
      split: option.split sum.split)

section \<open>Runs\<close>

record recovery_sys =
  rs_db :: recovery_db
  rs_clock :: int
  rs_permits :: "string \<times> string \<Rightarrow> int option"

definition site :: "incident \<Rightarrow> string \<times> string" where
  "site i = (ri_target i, ri_component i)"

inductive recovery_step :: "recovery_config \<Rightarrow> recovery_sys \<Rightarrow> recovery_sys \<Rightarrow> bool" for c where
  operate: "rs_clock x \<le> now \<Longrightarrow>
     recovery_step c x (x\<lparr>rs_db := recovery_perform c now call (rs_db x), rs_clock := now\<rparr>)"
| permit: "rs_clock x \<le> now \<Longrightarrow> row_of ri_id iid (incidents (rs_db x)) = Some i \<Longrightarrow>
     can_recover c iid now (rs_db x) = (Inr al, db) \<Longrightarrow> al_allowed al \<Longrightarrow>
     recovery_step c x (x\<lparr>rs_clock := now, rs_permits := (rs_permits x)(site i := Some now)\<rparr>)"
| attempt: "rs_clock x \<le> now \<Longrightarrow> row_of ri_id iid (incidents (rs_db x)) = Some i \<Longrightarrow>
     rs_permits x (site i) = Some p \<Longrightarrow>
     record_attempt n iid now mid False out r (rs_db x) = (Inr a, db) \<Longrightarrow>
     recovery_step c x (x\<lparr>rs_db := db, rs_clock := now, rs_permits := (rs_permits x)(site i := None)\<rparr>)"

inductive recovery_reach :: "recovery_config \<Rightarrow> recovery_sys \<Rightarrow> recovery_sys \<Rightarrow> bool" for c x where
  init: "recovery_reach c x x"
| step: "recovery_reach c x y \<Longrightarrow> recovery_step c y z \<Longrightarrow> recovery_reach c x z"

section \<open>The budget\<close>

definition at_site :: "attempt \<Rightarrow> string \<times> string" where
  "at_site a = (at_target a, at_component a)"

definition attempts_between :: "string \<times> string \<Rightarrow> int \<Rightarrow> int \<Rightarrow> 'a recovery_db_scheme \<Rightarrow> nat" where
  "attempts_between st a b s = length (filter (\<lambda>x. at_site x = st \<and> a \<le> at_time x \<and> at_time x \<le> b) (real_attempts s))"

definition within_limits :: "recovery_config \<Rightarrow> recovery_sys \<Rightarrow> bool" where
  "within_limits c x \<longleftrightarrow>
     (\<forall>a \<in> set (real_attempts (rs_db x)). at_time a \<le> rs_clock x) \<and>
     (\<forall>st a. int (attempts_between st a (a + seconds (rv_window_seconds c)) (rs_db x)) \<le> rv_attempt_budget c) \<and>
     (\<forall>st p. rs_permits x st = Some p \<longrightarrow>
        p \<le> rs_clock x \<and>
        int (length (filter (\<lambda>x. at_site x = st \<and> p - seconds (rv_window_seconds c) \<le> at_time x)
               (real_attempts (rs_db x)))) < rv_attempt_budget c)"

lemma can_recover_allowed:
  assumes "can_recover c iid now s = (Inr al, db)" and "al_allowed al"
    and "row_of ri_id iid (incidents s) = Some i"
  shows "ri_active_key i \<noteq> None" and "ri_state i = RECOVERY_PENDING"
    and "int (length (filter (\<lambda>x. at_site x = site i \<and> now - seconds (rv_window_seconds c) \<le> at_time x)
            (real_attempts s))) < rv_attempt_budget c"
    and "\<And>t. ri_last_attempt_at i = Some t \<Longrightarrow> seconds (rv_cooldown_seconds c) \<le> now - stamp_instant t"
proof -
  have "filter (counts_for i a) (attempts s) =
      filter (\<lambda>x. at_site x = site i \<and> a \<le> at_time x) (real_attempts s)" for a
    by (auto simp: real_attempts_def counts_for_def at_site_def site_def intro!: filter_cong)
  then show "ri_active_key i \<noteq> None" "ri_state i = RECOVERY_PENDING"
    "int (length (filter (\<lambda>x. at_site x = site i \<and> now - seconds (rv_window_seconds c) \<le> at_time x)
            (real_attempts s))) < rv_attempt_budget c"
    "\<And>t. ri_last_attempt_at i = Some t \<Longrightarrow> seconds (rv_cooldown_seconds c) \<le> now - stamp_instant t"
    using assms by (auto simp: can_recover_def Let_def rowcount_def split: if_splits option.splits)
qed

lemma record_attempt_real:
  assumes "record_attempt n iid now mid False out r s = (Inr a, db)"
    and "row_of ri_id iid (incidents s) = Some i"
  shows "real_attempts db = real_attempts s @ [a]" and "at_site a = site i" and "at_time a = now"
  using assms
  by (auto simp: record_attempt_def Let_def real_attempts_def save_incident_def at_site_def site_def
      split: if_splits sum.splits dest!: insert_row_Inr)

lemma length_filter_mono: "(\<And>x. x \<in> set xs \<Longrightarrow> P x \<Longrightarrow> Q x) \<Longrightarrow> length (filter P xs) \<le> length (filter Q xs)"
  by (induction xs) auto

lemma within_limitsI:
  assumes "\<And>a. a \<in> set (real_attempts (rs_db x)) \<Longrightarrow> at_time a \<le> rs_clock x"
    and "\<And>st a. int (attempts_between st a (a + seconds (rv_window_seconds c)) (rs_db x)) \<le> rv_attempt_budget c"
    and "\<And>st p. rs_permits x st = Some p \<Longrightarrow> p \<le> rs_clock x \<and>
        int (length (filter (\<lambda>x. at_site x = st \<and> p - seconds (rv_window_seconds c) \<le> at_time x)
               (real_attempts (rs_db x)))) < rv_attempt_budget c"
  shows "within_limits c x"
  using assms unfolding within_limits_def by blast

lemma within_limitsD:
  assumes "within_limits c x"
  shows "a \<in> set (real_attempts (rs_db x)) \<Longrightarrow> at_time a \<le> rs_clock x"
    and "int (attempts_between st b (b + seconds (rv_window_seconds c)) (rs_db x)) \<le> rv_attempt_budget c"
    and "rs_permits x st = Some p \<Longrightarrow> p \<le> rs_clock x \<and>
        int (length (filter (\<lambda>x. at_site x = st \<and> p - seconds (rv_window_seconds c) \<le> at_time x)
               (real_attempts (rs_db x)))) < rv_attempt_budget c"
  using assms unfolding within_limits_def by blast+

lemma attempts_between_add:
  assumes old: "real_attempts s' = real_attempts s @ [a]" and p: "p \<le> at_time a"
    and room: "int (length (filter (\<lambda>x. at_site x = at_site a \<and> p - w \<le> at_time x) (real_attempts s))) < m"
    and lim: "int (attempts_between st b (b + w) s) \<le> m"
  shows "int (attempts_between st b (b + w) s') \<le> m"
proof (cases "at_site a = st \<and> b \<le> at_time a \<and> at_time a \<le> b + w")
  case False
  with old lim show ?thesis by (auto simp: attempts_between_def)
next
  case True
  have "length (filter (\<lambda>x. at_site x = st \<and> b \<le> at_time x \<and> at_time x \<le> b + w) (real_attempts s)) \<le>
        length (filter (\<lambda>x. at_site x = at_site a \<and> p - w \<le> at_time x) (real_attempts s))"
    by (rule length_filter_mono) (use True p in auto)
  with room True old show ?thesis by (simp add: attempts_between_def)
qed

lemma recovery_step_limits:
  assumes "recovery_step c x y" and inv: "within_limits c x"
  shows "within_limits c y"
  using assms(1)
proof cases
  case (operate now call)
  note D = within_limitsD[OF inv]
  show ?thesis
  proof (rule within_limitsI)
    fix st p
    assume "rs_permits y st = Some p"
    with D(3)[of st p] operate show "p \<le> rs_clock y \<and>
        int (length (filter (\<lambda>x. at_site x = st \<and> p - seconds (rv_window_seconds c) \<le> at_time x)
               (real_attempts (rs_db y)))) < rv_attempt_budget c"
      by (simp add: recovery_perform_real)
  qed (use operate D(1) D(2) in \<open>force simp: attempts_between_def recovery_perform_real\<close>)+
next
  case (permit now iid i al db)
  note D = within_limitsD[OF inv]
  show ?thesis
  proof (rule within_limitsI)
    fix st p
    assume "rs_permits y st = Some p"
    with D(3)[of st p] permit can_recover_allowed(3)[OF permit(4,5,3)]
    show "p \<le> rs_clock y \<and>
        int (length (filter (\<lambda>x. at_site x = st \<and> p - seconds (rv_window_seconds c) \<le> at_time x)
               (real_attempts (rs_db y)))) < rv_attempt_budget c"
      by (simp split: if_splits)
  qed (use permit D(1) D(2) in \<open>force simp: attempts_between_def\<close>)+
next
  case (attempt now iid i p n mid out r a db)
  note D = within_limitsD[OF inv] and real = record_attempt_real[OF attempt(5,3)]
  from D(3)[OF attempt(4)] attempt(2) real(2,3) have
    p: "p \<le> at_time a" and room: "int (length (filter (\<lambda>x. at_site x = at_site a \<and>
      p - seconds (rv_window_seconds c) \<le> at_time x) (real_attempts (rs_db x)))) < rv_attempt_budget c"
    by simp_all
  show ?thesis
  proof (rule within_limitsI)
    fix st b
    show "int (attempts_between st b (b + seconds (rv_window_seconds c)) (rs_db y)) \<le> rv_attempt_budget c"
      using attempts_between_add[OF real(1) p room D(2)] attempt(1) by simp
  next
    fix q
    assume "q \<in> set (real_attempts (rs_db y))"
    with D(1)[of q] attempt(1,2) real show "at_time q \<le> rs_clock y" by auto
  next
    fix st q
    assume "rs_permits y st = Some q"
    with D(3)[of st q] attempt(1,2) real show "q \<le> rs_clock y \<and>
        int (length (filter (\<lambda>x. at_site x = st \<and> q - seconds (rv_window_seconds c) \<le> at_time x)
               (real_attempts (rs_db y)))) < rv_attempt_budget c"
      by (auto split: if_splits)
  qed
qed

lemma recovery_reach_limits: "recovery_reach c x y \<Longrightarrow> within_limits c x \<Longrightarrow> within_limits c y"
  by (induction rule: recovery_reach.induct) (auto intro: recovery_step_limits)

end
