(* ===== verification/Tool_Gateway.thy ===== *)
theory Tool_Gateway
  imports Recovery_Limits
begin

text \<open>
  The tool gateway (\<open>tool_gateway/contracts.py\<close>, \<open>registry.py\<close>, \<open>service.py\<close>): the one way
  from a request of an agent to an effect outside the database. An adapter acts on the outside
  world, the field \<open>world\<close>, and returns data or raises.
\<close>

section \<open>Requests, outcomes, registry\<close>

datatype outcome_state =
  OUT_BLOCKED | OUT_WAITING_APPROVAL | OUT_SIMULATED | OUT_EXECUTED | OUT_FAILED

fun outcome_value :: "outcome_state \<Rightarrow> string" where
  "outcome_value OUT_BLOCKED = ''blocked''"
| "outcome_value OUT_WAITING_APPROVAL = ''waiting_approval''"
| "outcome_value OUT_SIMULATED = ''simulated''"
| "outcome_value OUT_EXECUTED = ''executed''"
| "outcome_value OUT_FAILED = ''failed''"

record tool_request =
  tr_mission :: string
  tr_agent :: string
  tr_capability :: string
  tr_target :: string
  tr_risk :: mission_risk
  tr_params :: dict
  tr_conditions :: dict
  tr_mutates :: bool

record tool_outcome =
  to_state :: outcome_state
  to_capability :: string
  to_result :: "dict option"
  to_reason :: "string option"
  to_approval_request_id :: "string option"

type_synonym 'w adapter = "tool_request \<Rightarrow> ('w, dict) op"

type_synonym 'w registry = "(string \<times> 'w adapter) list"

fun build_registry :: "(string \<times> 'x) list \<Rightarrow> (string \<times> 'x) list \<Rightarrow> exn + (string \<times> 'x) list" where
  "build_registry acc [] = Inr acc"
| "build_registry acc ((c, a) # rest) =
     (if c = [] \<or> CHR ''*'' \<in> set c then Inl (ValueError ''invalid capability'')
      else if map_of acc c \<noteq> None then Inl (ValueError ''duplicate capability'')
      else build_registry (acc @ [(c, a)]) rest)"

definition resolve :: "'w registry \<Rightarrow> string \<Rightarrow> 'w adapter option" where
  "resolve reg c = map_of reg c"

record 'w gateway_db = recovery_db +
  world :: 'w

section \<open>The gateway\<close>

text \<open>What a gateway is built from, and what one call reads from the clock and \<open>uuid4\<close>.\<close>

record 'w gateway_env =
  ge_sha :: "string \<Rightarrow> string"
  ge_lifetime :: int
  ge_registry :: "'w registry"

record gateway_call =
  gc_clock :: safety_clock
  gc_consume_at :: int
  gc_new_id :: string
  gc_created :: int

definition has_exact_permission :: "string \<Rightarrow> string \<Rightarrow> 'a agents_db_scheme \<Rightarrow> bool" where
  "has_exact_permission agent capability s =
     (case row_of ag_key agent (agents s) of
        None \<Rightarrow> False
      | Some a \<Rightarrow> capability \<in> set (ag_permissions a))"

definition outcome ::
  "tool_request \<Rightarrow> outcome_state \<Rightarrow> dict option \<Rightarrow> string option \<Rightarrow> string option \<Rightarrow> tool_outcome" where
  "outcome req st result reason approval =
     \<lparr>to_state = st, to_capability = tr_capability req, to_result = result,
      to_reason = reason, to_approval_request_id = approval\<rparr>"

definition tool_record_result ::
  "tool_request \<Rightarrow> outcome_state \<Rightarrow> ('a ledger_db_scheme, ledger_event) op" where
  "tool_record_result req st =
     record_event (tr_mission req) (Some (tr_agent req)) RESULT_RECORDED
       (''Tool capability '' @ tr_capability req @ '' finished as '' @ outcome_value st)
       [(''capability'', JStr (tr_capability req)), (''target'', JStr (tr_target req)),
        (''state'', JStr (outcome_value st))]"

definition safety_request_of :: "tool_request \<Rightarrow> bool \<Rightarrow> safety_request" where
  "safety_request_of req authorized =
     \<lparr>sq_mission = tr_mission req, sq_agent = tr_agent req, sq_action = tr_capability req,
      sq_target = tr_target req, sq_risk = tr_risk req,
      sq_plan = [(''capability'', JStr (tr_capability req)), (''target'', JStr (tr_target req)),
                 (''params'', JObj (tr_params req))],
      sq_conditions = tr_conditions req, sq_mutates = tr_mutates req, sq_authorized = authorized\<rparr>"

definition run_adapter :: "'w adapter \<Rightarrow> tool_request \<Rightarrow> (('w, 'a) gateway_db_scheme, dict) op" where
  "run_adapter ad req s = (case ad req (world s) of (r, w) \<Rightarrow> (r, s\<lparr>world := w\<rparr>))"

text \<open>The last part of \<open>execute\<close>: call the adapter, record what came of it.\<close>

definition run_tool ::
  "'w adapter \<Rightarrow> tool_request \<Rightarrow> (('w, 'a) gateway_db_scheme, tool_outcome) op" where
  "run_tool ad req s =
     (case run_adapter ad req s of
        (Inl (ToolAdapterError _), s1) \<Rightarrow>
          bindE (tool_record_result req OUT_FAILED)
            (\<lambda>_. returnE (outcome req OUT_FAILED None (Some ''adapter_failed'') None)) s1
      | (Inl e, s1) \<Rightarrow> (Inl e, s1)
      | (Inr result, s1) \<Rightarrow>
          bindE (record_event (tr_mission req) (Some (tr_agent req)) TOOL_EXECUTED
                   (''Executed tool capability '' @ tr_capability req)
                   [(''capability'', JStr (tr_capability req)), (''target'', JStr (tr_target req))])
            (\<lambda>_. bindE (tool_record_result req OUT_EXECUTED)
               (\<lambda>_. returnE (outcome req OUT_EXECUTED (Some result) None None))) s1)"

text \<open>
  Consuming the scoped rule of a mutating request. \<open>except (KeyError, ValueError)\<close>: the flag
  tells whether the rule was consumed.
\<close>

definition try_consume :: "string \<Rightarrow> int \<Rightarrow> ('a approvals_db_scheme, bool) op" where
  "try_consume rid now s =
     (case consume_rule rid now s of
        (Inr _, s1) \<Rightarrow> (Inr True, s1)
      | (Inl (KeyError _), s1) \<Rightarrow> (Inr False, s1)
      | (Inl (ValueError _), s1) \<Rightarrow> (Inr False, s1)
      | (Inl e, s1) \<Rightarrow> (Inl e, s1))"

definition gateway_execute ::
  "'w gateway_env \<Rightarrow> gateway_call \<Rightarrow> tool_request \<Rightarrow>
   (('w, 'a) gateway_db_scheme, tool_outcome) op" where
  "gateway_execute env call req =
     (case resolve (ge_registry env) (tr_capability req) of
        None \<Rightarrow> returnE (outcome req OUT_BLOCKED None (Some ''adapter_unavailable'') None)
      | Some ad \<Rightarrow>
          bindE (readE (has_exact_permission (tr_agent req) (tr_capability req))) (\<lambda>authorized.
          bindE (evaluate (ge_sha env) (ge_lifetime env) (gc_clock call) (gc_new_id call)
                   (gc_created call) (safety_request_of req authorized)) (\<lambda>safety.
          if sf_decision safety = BLOCK
          then returnE (outcome req OUT_BLOCKED None
                 (Some (if authorized then ''safety_blocked'' else ''permission_denied'')) None)
          else if sf_decision safety = REQUIRE_APPROVAL
          then returnE (outcome req OUT_WAITING_APPROVAL None (Some ''approval_required'')
                 (sf_approval_request_id safety))
          else if sf_decision safety = SIMULATE_ONLY
          then bindE (tool_record_result req OUT_SIMULATED) (\<lambda>_.
                 returnE (outcome req OUT_SIMULATED (Some [(''simulated'', JBool True)]) None None))
          else
            bindE (case sf_scoped_rule_id safety of
                     Some rid \<Rightarrow> if tr_mutates req then try_consume rid (gc_consume_at call)
                                  else returnE True
                   | None \<Rightarrow> returnE True) (\<lambda>consumed.
            if \<not> consumed
            then bindE (tool_record_result req OUT_BLOCKED) (\<lambda>_.
                   returnE (outcome req OUT_BLOCKED None (Some ''scoped_rule_consumption_failed'') None))
            else run_tool ad req))))"

section \<open>Frames\<close>

lemma run_adapter_frame [simp]:
  "missions (snd (run_adapter ad req s)) = missions s"
  "mission_steps (snd (run_adapter ad req s)) = mission_steps s"
  "ledger (snd (run_adapter ad req s)) = ledger s"
  "scoped_rules (snd (run_adapter ad req s)) = scoped_rules s"
  by (simp_all add: run_adapter_def split: prod.split)

lemma run_tool_rel:
  assumes refl: "R s (snd (run_adapter ad req s))" and tr: "transp R"
    and rec: "\<And>m a t u d. keeps R (record_event m a t u d)"
  shows "R s (snd (run_tool ad req s))"
proof -
  obtain r s1 where a: "run_adapter ad req s = (r, s1)" by (cases "run_adapter ad req s")
  have step: "R s t \<Longrightarrow> R s (add_to_session m ag ty u d t)" for t m ag ty u d
    using tr keepsD[OF rec, of t m ag ty u d] by (auto dest: transpD)
  show ?thesis
    using refl a step
    by (auto simp: run_tool_def tool_record_result_def bindE_def record_event_def Let_def
        split: sum.splits exn.splits)
qed

lemma run_tool_keeps [keeps_intros]:
  "keeps (same missions) (run_tool ad req)"
  "keeps (same mission_steps) (run_tool ad req)"
  "keeps (same scoped_rules) (run_tool ad req)"
  "keeps ledger_grows (run_tool ad req)"
     apply (rule keepsI, rule run_tool_rel, simp add: same_def, rule transp_same, rule record_event_keeps)
    apply (rule keepsI, rule run_tool_rel, simp add: same_def, rule transp_same, rule record_event_keeps)
   apply (rule keepsI, rule run_tool_rel, simp add: same_def, rule transp_same, rule record_event_keeps)
  apply (rule keepsI, rule run_tool_rel, simp add: ledger_grows_def, rule ledger_grows_trans,
      rule keeps_grows_record)
  done

lemma tool_record_result_keeps [keeps_intros]:
  "keeps (same missions) (tool_record_result req st)"
  "keeps (same mission_steps) (tool_record_result req st)"
  "keeps ledger_grows (tool_record_result req st)"
  unfolding tool_record_result_def by (intro keeps_intros)+

lemma try_consume_snd [simp]: "snd (try_consume rid now s) = snd (consume_rule rid now s)"
  by (simp add: try_consume_def split: prod.split sum.split exn.split)

lemma try_consume_keeps [keeps_intros]:
  "keeps (same missions) (try_consume rid now)"
  "keeps (same mission_steps) (try_consume rid now)"
  "keeps ledger_grows (try_consume rid now)"
  by (simp_all add: keeps_def same_def ledger_grows_def)

lemma gateway_keeps [keeps_intros]:
  "keeps (same missions) (gateway_execute env call req)"
  "keeps (same mission_steps) (gateway_execute env call req)"
  "keeps ledger_grows (gateway_execute env call req)"
  unfolding gateway_execute_def by (intro keeps_intros)+

end
