(* ===== verification/Host_Contracts.thy ===== *)
theory Host_Contracts
  imports Json
begin

text \<open>
  The contract between the application and the host helper (\<open>host_helper/contracts.py\<close>): the
  closed set of capabilities, the allow lists, and \<open>validate_request\<close>, the only way a payload
  from the socket becomes a request.
\<close>

datatype host_capability =
    HOST_HEALTH
  | HOST_RESOURCES
  | DRIPVID_READINESS
  | SERVICE_STATUS
  | SERVICE_RESTART
  | SERVICE_RECOVER
  | DEPLOYMENT_DEPLOY
  | DEPLOYMENT_ROLLBACK
  | CONTAINER_STATUS
  | LOGS_RECENT

fun capability_value :: "host_capability \<Rightarrow> string" where
  "capability_value HOST_HEALTH = ''host.health''"
| "capability_value HOST_RESOURCES = ''host.resources''"
| "capability_value DRIPVID_READINESS = ''dripvid.readiness''"
| "capability_value SERVICE_STATUS = ''service.status''"
| "capability_value SERVICE_RESTART = ''service.restart''"
| "capability_value SERVICE_RECOVER = ''service.recover''"
| "capability_value DEPLOYMENT_DEPLOY = ''deployment.deploy''"
| "capability_value DEPLOYMENT_ROLLBACK = ''deployment.rollback''"
| "capability_value CONTAINER_STATUS = ''container.status''"
| "capability_value LOGS_RECENT = ''logs.recent''"

definition all_capabilities :: "host_capability list" where
  "all_capabilities =
     [HOST_HEALTH, HOST_RESOURCES, DRIPVID_READINESS, SERVICE_STATUS, SERVICE_RESTART,
      SERVICE_RECOVER, DEPLOYMENT_DEPLOY, DEPLOYMENT_ROLLBACK, CONTAINER_STATUS, LOGS_RECENT]"

definition capability_of :: "json \<Rightarrow> host_capability option" where
  "capability_of v = find (\<lambda>c. v = JStr (capability_value c)) all_capabilities"

definition recovery_component_keys :: "string set" where
  "recovery_component_keys = {''app'', ''mcp'', ''proxy'', ''tunnel'', ''database''}"

record allow_lists =
  al_services :: "string set"
  al_containers :: "string set"
  al_logs :: "string set"
  al_diagnostic_services :: "string set"
  al_diagnostic_logs :: "string set"

record helper_request =
  hr_capability :: host_capability
  hr_target :: "string option"
  hr_params :: dict

record helper_response =
  hp_ok :: bool
  hp_capability :: host_capability
  hp_target :: "string option"
  hp_data :: dict
  hp_error :: "string option"

definition allowed_targets :: "host_capability \<Rightarrow> allow_lists \<Rightarrow> string set" where
  "allowed_targets c al =
     (if c = SERVICE_STATUS then al_services al \<union> al_diagnostic_services al
      else if c = SERVICE_RESTART \<or> c = DEPLOYMENT_DEPLOY \<or> c = DEPLOYMENT_ROLLBACK
      then al_services al
      else if c = CONTAINER_STATUS then al_containers al
      else al_logs al \<union> al_diagnostic_logs al)"

definition validate_target :: "host_capability \<Rightarrow> json \<Rightarrow> allow_lists \<Rightarrow> exn + string" where
  "validate_target c target al =
     (case target of
        JStr t \<Rightarrow>
          if t = [] then Inl (ValueError ''unknown target'')
          else if c = SERVICE_RECOVER
          then (if t \<noteq> ''dripvid'' \<or> t \<notin> al_services al then Inl (ValueError ''unknown target'')
                else Inr t)
          else if t \<notin> allowed_targets c al then Inl (ValueError ''unknown target'')
          else Inr t
      | _ \<Rightarrow> Inl (ValueError ''unknown target''))"

definition validate_params :: "host_capability \<Rightarrow> string \<Rightarrow> dict \<Rightarrow> exn + helper_request" where
  "validate_params c target params =
     (if c = SERVICE_RECOVER
      then if dict_keys params \<noteq> {''component''}
           then Inl (ValueError ''invalid recovery parameters'')
           else (case dict_get params ''component'' of
                   JStr k \<Rightarrow>
                     if k \<notin> recovery_component_keys
                     then Inl (ValueError ''invalid recovery component'')
                     else Inr \<lparr>hr_capability = c, hr_target = Some target,
                               hr_params = [(''component'', JStr k)]\<rparr>
                 | _ \<Rightarrow> Inl (ValueError ''invalid recovery component''))
      else if c = SERVICE_STATUS \<or> c = SERVICE_RESTART \<or> c = DEPLOYMENT_DEPLOY \<or>
              c = DEPLOYMENT_ROLLBACK \<or> c = CONTAINER_STATUS
      then if params \<noteq> [] then Inl (ValueError ''unknown parameter'')
           else Inr \<lparr>hr_capability = c, hr_target = Some target, hr_params = []\<rparr>
      else if dict_keys params - {''lines''} \<noteq> {}
      then Inl (ValueError ''unknown parameter'')
      else (case dict_get_default params ''lines'' (JInt 100) of
              JInt n \<Rightarrow>
                if 1 \<le> n \<and> n \<le> 500
                then Inr \<lparr>hr_capability = c, hr_target = Some target,
                          hr_params = [(''lines'', JInt n)]\<rparr>
                else Inl (ValueError ''lines must be an integer between 1 and 500'')
            | _ \<Rightarrow> Inl (ValueError ''lines must be an integer between 1 and 500'')))"

definition validate_request :: "json \<Rightarrow> allow_lists \<Rightarrow> exn + helper_request" where
  "validate_request payload al =
     (case payload of
        JObj d \<Rightarrow>
          (case capability_of (dict_get d ''capability'') of
             None \<Rightarrow> Inl (ValueError ''unknown capability'')
           | Some c \<Rightarrow>
               if dict_keys d - {''capability'', ''target'', ''params''} \<noteq> {}
               then Inl (ValueError ''unknown request field'')
               else (case dict_get_default d ''params'' (JObj []) of
                  JObj params \<Rightarrow>
                    if c = HOST_HEALTH \<or> c = HOST_RESOURCES \<or> c = DRIPVID_READINESS
                    then if dict_get d ''target'' \<noteq> JNull
                         then Inl (ValueError ''target not allowed'')
                         else if params \<noteq> [] then Inl (ValueError ''unknown parameter'')
                         else Inr \<lparr>hr_capability = c, hr_target = None, hr_params = []\<rparr>
                    else (case validate_target c (dict_get d ''target'') al of
                            Inl e \<Rightarrow> Inl e
                          | Inr t \<Rightarrow> validate_params c t params)
                | _ \<Rightarrow> Inl (TypeError ''invalid parameters'')))
      | _ \<Rightarrow> Inl (TypeError ''invalid request''))"

section \<open>What a validated request looks like\<close>

text \<open>The normal form of requests: what every later stage may assume.\<close>

definition request_wf :: "allow_lists \<Rightarrow> helper_request \<Rightarrow> bool" where
  "request_wf al r \<longleftrightarrow>
     (case hr_target r of
        None \<Rightarrow> hr_capability r \<in> {HOST_HEALTH, HOST_RESOURCES, DRIPVID_READINESS} \<and> hr_params r = []
      | Some t \<Rightarrow>
          (case hr_capability r of
             SERVICE_RECOVER \<Rightarrow> t = ''dripvid'' \<and> t \<in> al_services al \<and>
               (\<exists>k \<in> recovery_component_keys. hr_params r = [(''component'', JStr k)])
           | LOGS_RECENT \<Rightarrow> t \<in> al_logs al \<union> al_diagnostic_logs al \<and>
               (\<exists>n. 1 \<le> n \<and> n \<le> 500 \<and> hr_params r = [(''lines'', JInt n)])
           | SERVICE_STATUS \<Rightarrow> t \<in> al_services al \<union> al_diagnostic_services al \<and> hr_params r = []
           | CONTAINER_STATUS \<Rightarrow> t \<in> al_containers al \<and> hr_params r = []
           | SERVICE_RESTART \<Rightarrow> t \<in> al_services al \<and> hr_params r = []
           | DEPLOYMENT_DEPLOY \<Rightarrow> t \<in> al_services al \<and> hr_params r = []
           | DEPLOYMENT_ROLLBACK \<Rightarrow> t \<in> al_services al \<and> hr_params r = []
           | _ \<Rightarrow> False))"

lemma capability_of_value [simp]: "capability_of (JStr (capability_value c)) = Some c"
  by (cases c) (simp_all add: capability_of_def all_capabilities_def)

lemma capability_of_Some: "capability_of v = Some c \<Longrightarrow> v = JStr (capability_value c)"
  by (auto simp: capability_of_def find_Some_iff)

lemma validate_target_Inr:
  "validate_target c v al = Inr t \<Longrightarrow> v = JStr t \<and> t \<noteq> [] \<and>
     (if c = SERVICE_RECOVER then t = ''dripvid'' \<and> t \<in> al_services al else t \<in> allowed_targets c al)"
  by (auto simp: validate_target_def split: json.splits if_splits)

lemma validate_params_recover:
  "validate_params SERVICE_RECOVER t params = Inr r \<Longrightarrow>
   \<exists>k \<in> recovery_component_keys. dict_keys params = {''component''} \<and>
     dict_get params ''component'' = JStr k \<and>
     r = \<lparr>hr_capability = SERVICE_RECOVER, hr_target = Some t, hr_params = [(''component'', JStr k)]\<rparr>"
  unfolding validate_params_def by (auto split: json.splits if_splits)

lemma validate_params_plain:
  "c \<in> {SERVICE_STATUS, SERVICE_RESTART, DEPLOYMENT_DEPLOY, DEPLOYMENT_ROLLBACK, CONTAINER_STATUS} \<Longrightarrow>
   validate_params c t params =
     (if params \<noteq> [] then Inl (ValueError ''unknown parameter'')
      else Inr \<lparr>hr_capability = c, hr_target = Some t, hr_params = []\<rparr>)"
  unfolding validate_params_def by auto

lemma validate_params_logs:
  "validate_params LOGS_RECENT t params = Inr r \<Longrightarrow>
   \<exists>n. 1 \<le> n \<and> n \<le> 500 \<and>
     r = \<lparr>hr_capability = LOGS_RECENT, hr_target = Some t, hr_params = [(''lines'', JInt n)]\<rparr>"
  unfolding validate_params_def by (auto split: json.splits if_splits)

lemma capability_cases:
  "c \<in> {HOST_HEALTH, HOST_RESOURCES, DRIPVID_READINESS} \<or> c = SERVICE_RECOVER \<or> c = LOGS_RECENT \<or>
   c \<in> {SERVICE_STATUS, SERVICE_RESTART, DEPLOYMENT_DEPLOY, DEPLOYMENT_ROLLBACK, CONTAINER_STATUS}"
  by (cases c) simp_all

lemma validate_params_wf:
  assumes ok: "validate_params c t params = Inr r"
    and c: "c \<notin> {HOST_HEALTH, HOST_RESOURCES, DRIPVID_READINESS}"
    and t: "if c = SERVICE_RECOVER then t = ''dripvid'' \<and> t \<in> al_services al else t \<in> allowed_targets c al"
  shows "request_wf al r"
proof -
  consider "c = SERVICE_RECOVER" | "c = LOGS_RECENT" |
    (plain) "c \<in> {SERVICE_STATUS, SERVICE_RESTART, DEPLOYMENT_DEPLOY, DEPLOYMENT_ROLLBACK, CONTAINER_STATUS}"
    using c capability_cases[of c] by blast
  then show ?thesis
  proof cases
    case 1
    from ok have "validate_params SERVICE_RECOVER t params = Inr r" unfolding 1 .
    from validate_params_recover[OF this] obtain k where "k \<in> recovery_component_keys"
      "r = \<lparr>hr_capability = SERVICE_RECOVER, hr_target = Some t, hr_params = [(''component'', JStr k)]\<rparr>"
      by blast
    with t 1 show ?thesis by (auto simp: request_wf_def)
  next
    case 2
    from ok have "validate_params LOGS_RECENT t params = Inr r" unfolding 2 .
    from validate_params_logs[OF this] obtain n where "1 \<le> n" "n \<le> 500"
      "r = \<lparr>hr_capability = LOGS_RECENT, hr_target = Some t, hr_params = [(''lines'', JInt n)]\<rparr>"
      by blast
    with t 2 show ?thesis by (simp add: request_wf_def allowed_targets_def)
  next
    case plain
    with validate_params_plain[OF plain, of t params] ok t show ?thesis
      by (auto simp: request_wf_def allowed_targets_def split: if_splits)
  qed
qed

lemma validate_request_wf_lemma:
  assumes "validate_request v al = Inr r"
  shows "request_wf al r"
proof -
  from assms obtain d where v: "v = JObj d" by (auto simp: validate_request_def split: json.splits)
  from assms v obtain c where c: "capability_of (dict_get d ''capability'') = Some c"
    by (auto simp: validate_request_def split: option.splits)
  from assms v c obtain params where p: "dict_get_default d ''params'' (JObj []) = JObj params"
    by (auto simp: validate_request_def split: json.splits if_splits)
  show ?thesis
  proof (cases "c \<in> {HOST_HEALTH, HOST_RESOURCES, DRIPVID_READINESS}")
    case True
    with assms v c p show ?thesis
      by (auto simp: validate_request_def request_wf_def split: if_splits)
  next
    case False
    with assms v c p obtain t where t: "validate_target c (dict_get d ''target'') al = Inr t"
      and r: "validate_params c t params = Inr r"
      by (auto simp: validate_request_def split: if_splits sum.splits)
    from validate_target_Inr[OF t] validate_params_wf[OF r False] show ?thesis by auto
  qed
qed

text \<open>The payload the client sends for a request, without its credential.\<close>

definition request_payload :: "helper_request \<Rightarrow> json" where
  "request_payload r =
     JObj [(''capability'', JStr (capability_value (hr_capability r))),
           (''target'', case hr_target r of None \<Rightarrow> JNull | Some t \<Rightarrow> JStr t),
           (''params'', JObj (hr_params r))]"

lemma validate_request_payload_eq:
  "validate_request (request_payload r) al =
     (let c = hr_capability r in
      if c = HOST_HEALTH \<or> c = HOST_RESOURCES \<or> c = DRIPVID_READINESS
      then if hr_target r \<noteq> None then Inl (ValueError ''target not allowed'')
           else if hr_params r \<noteq> [] then Inl (ValueError ''unknown parameter'')
           else Inr \<lparr>hr_capability = c, hr_target = None, hr_params = []\<rparr>
      else (case validate_target c (case hr_target r of None \<Rightarrow> JNull | Some t \<Rightarrow> JStr t) al of
              Inl e \<Rightarrow> Inl e
            | Inr t \<Rightarrow> validate_params c t (hr_params r)))"
  by (simp add: validate_request_def request_payload_def dict_keys_def dict_get_default_def Let_def
      split: option.split)

lemma validate_params_wf_id:
  assumes "request_wf al r" and "hr_target r = Some t"
  shows "validate_params (hr_capability r) t (hr_params r) = Inr r"
proof -
  consider "hr_capability r = SERVICE_RECOVER" | "hr_capability r = LOGS_RECENT" |
    (plain) "hr_capability r \<in> {SERVICE_STATUS, SERVICE_RESTART, DEPLOYMENT_DEPLOY, DEPLOYMENT_ROLLBACK, CONTAINER_STATUS}"
    using assms capability_cases[of "hr_capability r"] by (auto simp: request_wf_def)
  then show ?thesis
  proof cases
    case 1
    with assms obtain k where "k \<in> recovery_component_keys" "hr_params r = [(''component'', JStr k)]"
      by (auto simp: request_wf_def)
    with 1 assms(2) show ?thesis by (simp add: validate_params_def dict_keys_def)
  next
    case 2
    with assms obtain n where "1 \<le> n" "n \<le> 500" "hr_params r = [(''lines'', JInt n)]"
      by (auto simp: request_wf_def)
    with 2 assms(2) show ?thesis
      by (simp add: validate_params_def dict_keys_def dict_get_default_def)
  next
    case plain
    then have "hr_params r = []" using assms by (auto simp: request_wf_def)
    with validate_params_plain[OF plain, of t] assms(2) show ?thesis by simp
  qed
qed

lemma validate_target_wf:
  assumes "request_wf al r" and "hr_target r = Some t" and "t \<noteq> []"
  shows "validate_target (hr_capability r) (JStr t) al = Inr t \<and>
         hr_capability r \<notin> {HOST_HEALTH, HOST_RESOURCES, DRIPVID_READINESS}"
  using assms
  by (cases "hr_capability r") (auto simp: request_wf_def validate_target_def allowed_targets_def)

lemma validate_request_payload:
  assumes "request_wf al r" and "hr_target r \<noteq> Some []"
  shows "validate_request (request_payload r) al = Inr r"
proof (cases "hr_target r")
  case None
  with assms(1) show ?thesis
    by (auto simp: validate_request_payload_eq request_wf_def)
next
  case (Some t)
  with assms(2) have "t \<noteq> []" by simp
  from validate_target_wf[OF assms(1) Some this] validate_params_wf_id[OF assms(1) Some]
  show ?thesis by (simp add: validate_request_payload_eq Some Let_def)
qed

lemma validate_params_target:
  assumes r: "validate_params c t params = Inr r" and c: "c \<notin> {HOST_HEALTH, HOST_RESOURCES, DRIPVID_READINESS}"
  shows "hr_target r = Some t"
proof -
  consider "c = SERVICE_RECOVER" | "c = LOGS_RECENT" |
    "c \<in> {SERVICE_STATUS, SERVICE_RESTART, DEPLOYMENT_DEPLOY, DEPLOYMENT_ROLLBACK, CONTAINER_STATUS}"
    using capability_cases[of c] c by blast
  then show ?thesis
  proof cases
    case 1
    from validate_params_recover[OF r[unfolded 1]] show ?thesis by (elim bexE conjE) simp
  next
    case 2
    from validate_params_logs[OF r[unfolded 2]] show ?thesis by auto
  next
    case 3
    from r[unfolded validate_params_plain[OF 3]] show ?thesis by (auto split: if_splits)
  qed
qed

lemma validate_request_target:
  assumes "validate_request v al = Inr r"
  shows "hr_target r \<noteq> Some []"
proof -
  from assms obtain d where v: "v = JObj d" by (auto simp: validate_request_def split: json.splits)
  from assms v obtain c where c: "capability_of (dict_get d ''capability'') = Some c"
    by (auto simp: validate_request_def split: option.splits)
  from assms v c obtain params where p: "dict_get_default d ''params'' (JObj []) = JObj params"
    by (auto simp: validate_request_def split: json.splits if_splits)
  show ?thesis
  proof (cases "c \<in> {HOST_HEALTH, HOST_RESOURCES, DRIPVID_READINESS}")
    case True
    with assms v c p show ?thesis by (auto simp: validate_request_def split: if_splits)
  next
    case False
    with assms v c p obtain t where t: "validate_target c (dict_get d ''target'') al = Inr t"
      and r: "validate_params c t params = Inr r"
      by (auto simp: validate_request_def split: if_splits sum.splits)
    from validate_target_Inr[OF t] validate_params_target[OF r False] show ?thesis by simp
  qed
qed

end
