(* ===== verification/Host_Text.thy ===== *)
theory Host_Text
  imports Json
begin

text \<open>
  The text processing of the host executor (\<open>host_helper/executor.py\<close>): \<open>key=value\<close> output,
  redaction of secrets in logs, truncation to a number of UTF-8 bytes, and Python's \<open>int()\<close>.
  Characters are code points below 256.
\<close>

section \<open>\<open>key=value\<close> lines\<close>

fun split_once :: "char \<Rightarrow> string \<Rightarrow> string \<times> string" where
  "split_once c s = (takeWhile (\<lambda>x. x \<noteq> c) s, tl (dropWhile (\<lambda>x. x \<noteq> c) s))"

definition key_values :: "string \<Rightarrow> (string \<times> string) list" where
  "key_values text =
     fold (\<lambda>line values.
             if CHR ''='' \<notin> set line then values
             else case split_once (CHR ''='') line of (k, v) \<Rightarrow> AList.update k v values)
       (splitlines text) []"

section \<open>Redaction\<close>

definition secret_words :: "string list" where
  "secret_words = [''password'', ''secret'', ''token'', ''api_key'', ''authorization'']"

definition secret_token :: "string \<Rightarrow> bool" where
  "secret_token t \<longleftrightarrow> list_ex (\<lambda>w. is_infix w (casefold t)) secret_words"

text \<open>
  One attempt of the pattern at the start of a line: leading white space, a run without white
  space or \<open>=\<close> that holds a secret word, white space, \<open>=\<close>. The result is the matched prefix and
  what follows it.
\<close>

definition secret_prefix :: "string \<Rightarrow> (string \<times> string) option" where
  "secret_prefix s =
     (let ws = takeWhile is_space s; r1 = dropWhile is_space s;
          ok = (\<lambda>c. c \<noteq> CHR ''='' \<and> \<not> is_space c);
          tok = takeWhile ok r1; r2 = dropWhile ok r1;
          ws2 = takeWhile is_space r2; r3 = dropWhile is_space r2
      in case r3 of
           [] \<Rightarrow> None
         | c # rest \<Rightarrow>
             if c = CHR ''='' \<and> secret_token tok then Some (ws @ tok @ ws2 @ [c], rest) else None)"

definition not_newline :: "char \<Rightarrow> bool" where
  "not_newline c \<longleftrightarrow> c \<noteq> CHR 0x0A"

lemma case_found:
  "(case r of [] \<Rightarrow> None | c # q \<Rightarrow> if c = x \<and> P then Some (f c, q) else None) = Some (p, rest) \<Longrightarrow>
   r = x # rest \<and> p = f x"
  by (cases r) (auto split: if_splits)

lemma secret_prefix_append:
  assumes "secret_prefix s = Some (p, rest)"
  shows "s = p @ rest"
proof -
  let ?ok = "\<lambda>c. c \<noteq> CHR ''='' \<and> \<not> is_space c"
  let ?r1 = "dropWhile is_space s"
  let ?r2 = "dropWhile ?ok ?r1"
  from case_found[OF assms[unfolded secret_prefix_def Let_def]]
  have r3: "dropWhile is_space ?r2 = CHR ''='' # rest"
    and p: "p = takeWhile is_space s @ takeWhile ?ok ?r1 @ takeWhile is_space ?r2 @ [CHR ''='']"
    by blast+
  have "p @ rest = takeWhile is_space s @ (takeWhile ?ok ?r1 @ (takeWhile is_space ?r2 @ (CHR ''='' # rest)))"
    unfolding p by (simp only: append_assoc append_Cons append_Nil)
  also have "\<dots> = s" by (simp only: r3[symmetric] takeWhile_dropWhile_id)
  finally show ?thesis by (rule sym)
qed

lemma secret_prefix_length: "secret_prefix s = Some (p, rest) \<Longrightarrow> length rest < length s"
proof -
  assume a: "secret_prefix s = Some (p, rest)"
  from case_found[OF a[unfolded secret_prefix_def Let_def]] have "p \<noteq> []" by blast
  with secret_prefix_append[OF a] show ?thesis by simp
qed

text \<open>
  The substitution over the whole text. It is called at line starts: a match replaces the rest
  of its last line, otherwise the line is copied; both continue after the newline.
\<close>

function redact :: "string \<Rightarrow> string" where
  "redact s =
     (let (out, rest) =
        (case secret_prefix s of
           Some (p, after) \<Rightarrow> (p @ ''[REDACTED]'', dropWhile not_newline after)
         | None \<Rightarrow> (takeWhile not_newline s, dropWhile not_newline s))
      in case rest of [] \<Rightarrow> out | nl # more \<Rightarrow> out @ nl # redact more)"
  by pat_completeness auto
termination
proof (relation "measure length", goal_cases)
  case 1
  show ?case by simp
next
  case (2 s pr out rest nl more)
  have "length rest \<le> length s"
  proof (cases "secret_prefix s")
    case None
    with 2 show ?thesis by (auto simp: length_dropWhile_le)
  next
    case (Some a)
    obtain p after where a: "a = (p, after)" by (cases a)
    have "length (dropWhile not_newline after) \<le> length after" by (rule length_dropWhile_le)
    with secret_prefix_length[of s p after] Some a 2 show ?thesis by auto
  qed
  with 2 show ?case by simp
qed

declare redact.simps [simp del]

section \<open>Truncation\<close>

definition utf8_size :: "char \<Rightarrow> nat" where
  "utf8_size c = (if (of_char c :: nat) < 128 then 1 else 2)"

definition utf8_length :: "string \<Rightarrow> nat" where
  "utf8_length s = sum_list (map utf8_size s)"

text \<open>Cutting the bytes and dropping a torn last character keeps the characters that fit.\<close>

fun take_utf8 :: "nat \<Rightarrow> string \<Rightarrow> string" where
  "take_utf8 n [] = []"
| "take_utf8 n (c # cs) = (if utf8_size c \<le> n then c # take_utf8 (n - utf8_size c) cs else [])"

definition truncate_utf8 :: "string \<Rightarrow> nat \<Rightarrow> string \<times> bool" where
  "truncate_utf8 text limit =
     (if utf8_length text \<le> limit then (text, False) else (take_utf8 limit text, True))"

lemma take_utf8_length: "utf8_length (take_utf8 n s) \<le> n"
  by (induction n s rule: take_utf8.induct) (auto simp: utf8_length_def)

lemma take_utf8_prefix: "\<exists>rest. s = take_utf8 n s @ rest"
  by (induction n s rule: take_utf8.induct) auto

lemma take_utf8_maximal: "take_utf8 n s @ c # rest = s \<Longrightarrow> n < utf8_length (take_utf8 n s) + utf8_size c"
  by (induction n s rule: take_utf8.induct) (auto simp: utf8_length_def split: if_splits)

section \<open>\<open>int()\<close>\<close>

fun us_digits :: "nat \<Rightarrow> bool \<Rightarrow> string \<Rightarrow> nat option" where
  "us_digits acc digit [] = (if digit then Some acc else None)"
| "us_digits acc digit (c # cs) =
     (if is_digit c then us_digits (10 * acc + (of_char c - 48)) True cs
      else if c = CHR ''_'' \<and> digit then us_digits acc False cs
      else None)"

definition py_int :: "string \<Rightarrow> int option" where
  "py_int s =
     (let t = strip s in
      if length (filter is_digit t) > 4300 then None
      else case t of
             [] \<Rightarrow> None
           | c # cs \<Rightarrow>
               if c = CHR ''-'' then map_option (\<lambda>n. - int n) (us_digits 0 False cs)
               else if c = CHR ''+'' then map_option int (us_digits 0 False cs)
               else map_option int (us_digits 0 False t))"

lemma us_digits_append:
  "\<forall>c \<in> set s. is_digit c \<Longrightarrow> s \<noteq> [] \<or> d \<Longrightarrow>
   us_digits acc d s = Some (foldl (\<lambda>a c. 10 * a + (of_char c - 48)) acc s)"
  by (induction s arbitrary: acc d) auto

lemma us_digits_nat_repr: "us_digits 0 False (nat_repr n) = Some n"
  using us_digits_append[of "nat_repr n" False 0] nat_repr_digits[of n] digits_value_nat_repr[of n]
  by (simp add: digits_value_def)

text \<open>Truncation keeps the longest prefix that fits.\<close>

lemma truncate_utf8_maximal_prefix:
  assumes "truncate_utf8 s limit = (t, truncated)"
  shows "utf8_length t \<le> limit \<and> (\<exists>rest. s = t @ rest) \<and> (truncated \<longleftrightarrow> t \<noteq> s) \<and>
         (\<forall>c rest. s = t @ c # rest \<longrightarrow> limit < utf8_length t + utf8_size c)"
proof (cases "utf8_length s \<le> limit")
  case True
  with assms show ?thesis by (auto simp: truncate_utf8_def)
next
  case False
  then have t: "t = take_utf8 limit s" "truncated" using assms by (auto simp: truncate_utf8_def)
  have "utf8_length t \<le> limit" "\<exists>rest. s = t @ rest"
    using take_utf8_length[of limit s] take_utf8_prefix[of s limit] by (simp_all only: t)
  moreover have "limit < utf8_length t + utf8_size c" if "s = t @ c # rest" for c rest
    using take_utf8_maximal[of limit s c rest] that unfolding t by metis
  moreover have "t \<noteq> s" using calculation(1) False by auto
  ultimately show ?thesis using t(2) by blast
qed

end
