(* ===== verification/Host_Executor.thy ===== *)
theory Host_Executor
  imports Host_Contracts Host_Text
begin

text \<open>
  The host executor (\<open>host_helper/executor.py\<close>): the only component that runs commands. Its
  state is the list of commands run so far, newest last; what a command answers may depend on
  that history. The command runner, the readiness source, the wall clock text and
  \<open>json.loads\<close> are the fields of \<open>host_env\<close>.
\<close>

section \<open>Catalogues\<close>

type_synonym argv = "string list"

definition service_units :: "(string \<times> string) list" where
  "service_units =
     [(''ai-hq'', ''ai-hq-host-helper.service''),
      (''nginx'', ''nginx.service''),
      (''dripvid'', ''dripvid.service'')]"

definition diagnostic_service_units :: "(string \<times> string) list" where
  "diagnostic_service_units =
     [(''dripvid-mcp'', ''dripvid-mcp.service''),
      (''cloudflared'', ''cloudflared.service''),
      (''postgresql'', ''postgresql.service'')]"

definition read_service_units :: "(string \<times> string) list" where
  "read_service_units = service_units @ diagnostic_service_units"

definition recovery_service_units :: "(string \<times> string) list" where
  "recovery_service_units =
     [(''app'', ''dripvid.service''),
      (''mcp'', ''dripvid-mcp.service''),
      (''proxy'', ''nginx.service''),
      (''tunnel'', ''cloudflared.service''),
      (''database'', ''postgresql.service'')]"

definition container_targets :: "(string \<times> string) list" where
  "container_targets =
     [(''ai-hq-web'', ''ai-hq-web-1''), (''ai-hq-worker'', ''ai-hq-worker-1'')]"

definition deploy_entrypoints :: "(string \<times> argv) list" where
  "deploy_entrypoints = [(''ai-hq'', [''/opt/ai-hq/bin/controlled-deploy'', ''ai-hq''])]"

definition rollback_entrypoints :: "(string \<times> argv) list" where
  "rollback_entrypoints = [(''ai-hq'', [''/opt/ai-hq/bin/controlled-rollback'', ''ai-hq''])]"

definition log_targets :: "(string \<times> string \<times> string) list" where
  "log_targets =
     [(''ai-hq'', ''journal'', ''ai-hq-host-helper.service''),
      (''nginx'', ''journal'', ''nginx.service''),
      (''dripvid'', ''journal'', ''dripvid.service''),
      (''dripvid-mcp'', ''journal'', ''dripvid-mcp.service''),
      (''cloudflared'', ''journal'', ''cloudflared.service''),
      (''postgresql'', ''journal'', ''postgresql.service'')]"

definition max_response_bytes :: nat where
  "max_response_bytes = 65536"

definition max_log_lines :: int where
  "max_log_lines = 200"

section \<open>Readiness payloads\<close>

definition readiness_boolean_fields :: "string list" where
  "readiness_boolean_fields =
     [''database'', ''jellyfin'', ''radarr'', ''sonarr'', ''qbittorrent'', ''requestSync'']"

definition storage_boolean_fields :: "string list" where
  "storage_boolean_fields = [''available'', ''writable'', ''belowReserve'']"

definition storage_integer_fields :: "string list" where
  "storage_integer_fields = [''freeBytes'', ''reserveBytes'']"

definition allowed_readiness_errors :: "string list" where
  "allowed_readiness_errors =
     [''timeout'', ''connection_error'', ''transport_error'', ''response_too_large'', ''invalid_json'']"

definition bounded_readiness_error :: "bool \<Rightarrow> int option \<Rightarrow> string \<Rightarrow> dict" where
  "bounded_readiness_error reachable status error =
     [(''reachable'', JBool reachable),
      (''status_code'', case status of None \<Rightarrow> JNull | Some n \<Rightarrow> JInt n),
      (''ok'', JBool False),
      (''error'', JStr error)]"

definition bool_field :: "dict \<Rightarrow> string \<Rightarrow> dict" where
  "bool_field d k = (case dict_get d k of JBool b \<Rightarrow> [(k, JBool b)] | _ \<Rightarrow> [])"

definition natural_field :: "dict \<Rightarrow> string \<Rightarrow> dict" where
  "natural_field d k =
     (case dict_get d k of JInt n \<Rightarrow> if 0 \<le> n then [(k, JInt n)] else [] | _ \<Rightarrow> [])"

definition storage_fields :: "dict \<Rightarrow> dict" where
  "storage_fields d =
     concat (map (bool_field d) storage_boolean_fields) @
     concat (map (natural_field d) storage_integer_fields)"

definition int_or_null :: "json \<Rightarrow> json" where
  "int_or_null v = (case v of JInt n \<Rightarrow> JInt n | _ \<Rightarrow> JNull)"

text \<open>\<open>error if error in ALLOWED else None\<close>: a list or object is not hashable.\<close>

definition error_field :: "json \<Rightarrow> exn + json" where
  "error_field v =
     (case v of
        JStr e \<Rightarrow> Inr (if e \<in> set allowed_readiness_errors then JStr e else JNull)
      | JList _ \<Rightarrow> Inl (TypeError ''unhashable type'')
      | JObj _ \<Rightarrow> Inl (TypeError ''unhashable type'')
      | _ \<Rightarrow> Inr JNull)"

definition normalize_readiness :: "json \<Rightarrow> exn + dict" where
  "normalize_readiness payload =
     (case payload of
        JObj d \<Rightarrow>
          (case error_field (dict_get d ''error'') of
             Inl e \<Rightarrow> Inl e
           | Inr err \<Rightarrow> Inr (
               [(''reachable'', JBool (dict_get d ''reachable'' = JBool True)),
                (''status_code'', int_or_null (dict_get d ''status_code'')),
                (''ok'', JBool (dict_get d ''ok'' = JBool True))] @
               concat (map (bool_field d) readiness_boolean_fields) @
               (case dict_get d ''storage'' of
                  JObj st \<Rightarrow> if storage_fields st = [] then []
                             else [(''storage'', JObj (storage_fields st))]
                | _ \<Rightarrow> []) @
               [(''error'', err)]))
      | _ \<Rightarrow> Inr (bounded_readiness_error False None ''transport_error''))"

text \<open>
  The HTTP side of \<open>default_readiness_runner\<close>: the response status and what the stream
  delivers, chunk by chunk, until it ends or fails.
\<close>

datatype stream_event = Chunk string | StreamTimeout | StreamConnectError | StreamHTTPError

fun read_body :: "nat \<Rightarrow> int \<Rightarrow> string \<Rightarrow> stream_event list \<Rightarrow> dict + string" where
  "read_body limit status body [] = Inr body"
| "read_body limit status body (Chunk c # evs) =
     (let body' = body @ c in
      if length body' > limit
      then Inl (bounded_readiness_error True (Some status) ''response_too_large'')
      else read_body limit status body' evs)"
| "read_body limit status body (StreamTimeout # evs) =
     Inl (bounded_readiness_error False None ''timeout'')"
| "read_body limit status body (StreamConnectError # evs) =
     Inl (bounded_readiness_error False None ''connection_error'')"
| "read_body limit status body (StreamHTTPError # evs) =
     Inl (bounded_readiness_error False None ''transport_error'')"

definition default_readiness_runner ::
  "(string \<Rightarrow> json option) \<Rightarrow> nat \<Rightarrow> int \<Rightarrow> stream_event list \<Rightarrow> exn + dict" where
  "default_readiness_runner loads limit status evs =
     (case read_body limit status [] evs of
        Inl err \<Rightarrow> Inr err
      | Inr body \<Rightarrow>
          (case loads body of
             Some (JObj d) \<Rightarrow>
               normalize_readiness (JObj (AList.update ''status_code'' (JInt status)
                 (AList.update ''reachable'' (JBool True) d)))
           | _ \<Rightarrow> Inr (bounded_readiness_error True (Some status) ''invalid_json'')))"

section \<open>Running commands\<close>

datatype run_outcome = Completed int string string | RunTimeout | RunFailed

datatype ready_outcome = ReadyPayload json | ReadyTimeout | ReadyOSError | ReadyOther

record host_env =
  he_run :: "argv list \<Rightarrow> argv \<Rightarrow> run_outcome"
  he_ready :: ready_outcome
  he_now :: string
  he_loads :: "string \<Rightarrow> json option"

type_synonym 'a exec = "(argv list, 'a) op"

definition failure :: "helper_request \<Rightarrow> string \<Rightarrow> helper_response" where
  "failure req error =
     \<lparr>hp_ok = False, hp_capability = hr_capability req, hp_target = hr_target req,
      hp_data = [], hp_error = Some error\<rparr>"

definition success :: "helper_request \<Rightarrow> string option \<Rightarrow> dict \<Rightarrow> helper_response" where
  "success req target data =
     \<lparr>hp_ok = True, hp_capability = hr_capability req, hp_target = target,
      hp_data = data, hp_error = None\<rparr>"

text \<open>\<open>_command\<close>: the failed response, or the standard output of a command that returned 0.\<close>

definition command :: "host_env \<Rightarrow> helper_request \<Rightarrow> argv \<Rightarrow> (helper_response + string) exec" where
  "command env req argv run =
     (Inr (case he_run env run argv of
             RunTimeout \<Rightarrow> Inl (failure req ''timeout'')
           | RunFailed \<Rightarrow> Inl (failure req ''command_failed'')
           | Completed code out err \<Rightarrow>
               if code \<noteq> 0 then Inl (failure req ''command_failed'') else Inr out),
      run @ [argv])"

definition run_then ::
  "host_env \<Rightarrow> helper_request \<Rightarrow> argv \<Rightarrow> (string \<Rightarrow> helper_response exec) \<Rightarrow> helper_response exec" where
  "run_then env req argv k =
     bindE (command env req argv) (\<lambda>r. case r of Inl f \<Rightarrow> returnE f | Inr out \<Rightarrow> k out)"

definition nth_or_null :: "string list \<Rightarrow> nat \<Rightarrow> json" where
  "nth_or_null xs i = (if i < length xs then JStr (xs ! i) else JNull)"

definition host_health :: "host_env \<Rightarrow> helper_request \<Rightarrow> helper_response exec" where
  "host_health env req =
     run_then env req [''uptime'', ''-p''] (\<lambda>uptime.
     run_then env req [''cat'', ''/proc/loadavg''] (\<lambda>load.
       let values = split_ws (strip load) in
       returnE (success req None
         [(''uptime'', JStr (strip uptime)),
          (''load_1m'', nth_or_null values 0),
          (''load_5m'', nth_or_null values 1),
          (''load_15m'', nth_or_null values 2),
          (''timestamp'', JStr (he_now env))])))"

definition starts_with :: "string \<Rightarrow> string \<Rightarrow> bool" where
  "starts_with p s \<longleftrightarrow> take (length p) s = p"

definition int_token :: "string \<Rightarrow> exn + json" where
  "int_token t =
     (case py_int t of None \<Rightarrow> Inl (ValueError ''invalid literal for int()'') | Some n \<Rightarrow> Inr (JInt n))"

text \<open>The dictionary of integers, built left to right: the first bad token raises.\<close>

fun int_fields :: "(string \<times> string) list \<Rightarrow> exn + dict" where
  "int_fields [] = Inr []"
| "int_fields ((k, t) # rest) =
     (case int_token t of
        Inl e \<Rightarrow> Inl e
      | Inr v \<Rightarrow> (case int_fields rest of Inl e \<Rightarrow> Inl e | Inr d \<Rightarrow> Inr ((k, v) # d)))"

definition host_resources :: "host_env \<Rightarrow> helper_request \<Rightarrow> helper_response exec" where
  "host_resources env req =
     run_then env req [''cat'', ''/proc/loadavg''] (\<lambda>load.
     run_then env req [''free'', ''-b''] (\<lambda>memory.
     run_then env req [''df'', ''-B1'', ''/''] (\<lambda>filesystem.
       let load_values = split_ws (strip load);
           mem = split_ws (case find (\<lambda>line. starts_with ''Mem:'' (strip line)) (splitlines memory) of
                             None \<Rightarrow> [] | Some line \<Rightarrow> line);
           fs_lines = map split_ws (filter (\<lambda>line. strip line \<noteq> []) (splitlines filesystem));
           fs = (if length fs_lines \<ge> 2 then last fs_lines else [])
       in if length mem < 4 \<or> length fs < 6
          then returnE (failure req ''malformed_response'')
          else
            bindE (liftE (int_fields [(''total_bytes'', mem ! 1), (''used_bytes'', mem ! 2),
                                      (''free_bytes'', mem ! 3)])) (\<lambda>m.
            bindE (liftE (int_fields [(''total_bytes'', fs ! 1), (''used_bytes'', fs ! 2),
                                      (''available_bytes'', fs ! 3)])) (\<lambda>f.
            returnE (success req None
              [(''load'', JObj [(''1m'', nth_or_null load_values 0),
                                (''5m'', nth_or_null load_values 1),
                                (''15m'', nth_or_null load_values 2)]),
               (''memory'', JObj m),
               (''filesystem'', JObj ((''path'', JStr ''/'') # f @
                                      [(''use_percent'', JStr (fs ! 4))]))]))))))"

definition dripvid_readiness :: "host_env \<Rightarrow> helper_request \<Rightarrow> helper_response exec" where
  "dripvid_readiness env req =
     (if hr_target req \<noteq> None \<or> hr_params req \<noteq> []
      then returnE (failure req ''invalid parameters'')
      else
        let payload = (case he_ready env of
              ReadyPayload v \<Rightarrow> v
            | ReadyTimeout \<Rightarrow> JObj (bounded_readiness_error False None ''timeout'')
            | ReadyOSError \<Rightarrow> JObj (bounded_readiness_error False None ''connection_error'')
            | ReadyOther \<Rightarrow> JObj (bounded_readiness_error False None ''transport_error''))
        in bindE (liftE (normalize_readiness payload)) (\<lambda>d. returnE (success req None d)))"

definition show_argv :: "string \<Rightarrow> argv" where
  "show_argv unit =
     [''systemctl'', ''show'', unit, ''--no-page'',
      ''--property=ActiveState,SubState,LoadState,UnitFileState'']"

definition value_or_null :: "(string \<times> string) list \<Rightarrow> string \<Rightarrow> json" where
  "value_or_null values k = (case map_of values k of None \<Rightarrow> JNull | Some v \<Rightarrow> JStr v)"

definition unit_state :: "(string \<times> string) list \<Rightarrow> dict" where
  "unit_state values =
     [(''active_state'', value_or_null values ''ActiveState''),
      (''sub_state'', value_or_null values ''SubState''),
      (''load_state'', value_or_null values ''LoadState''),
      (''unit_file_state'', value_or_null values ''UnitFileState'')]"

text \<open>\<open>target in allowed and target in CATALOGUE\<close>, with the catalogue entry.\<close>

definition permitted :: "string option \<Rightarrow> string set \<Rightarrow> (string \<times> 'b) list \<Rightarrow> (string \<times> 'b) option" where
  "permitted target allowed catalogue =
     (case target of
        None \<Rightarrow> None
      | Some t \<Rightarrow> if t \<in> allowed then map_option (\<lambda>e. (t, e)) (map_of catalogue t) else None)"

definition service_status :: "allow_lists \<Rightarrow> host_env \<Rightarrow> helper_request \<Rightarrow> helper_response exec" where
  "service_status al env req =
     (case permitted (hr_target req) (al_services al \<union> al_diagnostic_services al) read_service_units of
        None \<Rightarrow> returnE (failure req ''unknown target'')
      | Some (t, unit) \<Rightarrow>
          run_then env req (show_argv unit) (\<lambda>out.
            returnE (success req (Some t) (unit_state (key_values out)))))"

definition service_restart :: "allow_lists \<Rightarrow> host_env \<Rightarrow> helper_request \<Rightarrow> helper_response exec" where
  "service_restart al env req =
     (case permitted (hr_target req) (al_services al) service_units of
        None \<Rightarrow> returnE (failure req ''unknown target'')
      | Some (t, unit) \<Rightarrow>
          run_then env req [''systemctl'', ''restart'', unit] (\<lambda>_.
          run_then env req (show_argv unit) (\<lambda>out.
            returnE (success req (Some t)
              ((''restarted'', JBool True) # unit_state (key_values out))))))"

definition service_recover :: "allow_lists \<Rightarrow> host_env \<Rightarrow> helper_request \<Rightarrow> helper_response exec" where
  "service_recover al env req =
     (if hr_target req \<noteq> Some ''dripvid'' \<or> ''dripvid'' \<notin> al_services al
      then returnE (failure req ''unknown target'')
      else if dict_keys (hr_params req) \<noteq> {''component''}
      then returnE (failure req ''invalid parameters'')
      else (case dict_get (hr_params req) ''component'' of
              JStr component \<Rightarrow>
                (case map_of recovery_service_units component of
                   None \<Rightarrow> returnE (failure req ''invalid parameters'')
                 | Some unit \<Rightarrow>
                     run_then env req [''systemctl'', ''restart'', unit] (\<lambda>_.
                     run_then env req (show_argv unit) (\<lambda>out.
                       returnE (success req (Some ''dripvid'')
                         ((''component'', JStr component) # (''restarted'', JBool True) #
                          unit_state (key_values out))))))
            | _ \<Rightarrow> returnE (failure req ''invalid parameters'')))"

definition deployment_deploy :: "allow_lists \<Rightarrow> host_env \<Rightarrow> helper_request \<Rightarrow> helper_response exec" where
  "deployment_deploy al env req =
     (if hr_params req \<noteq> [] then returnE (failure req ''invalid parameters'')
      else case permitted (hr_target req) (al_services al) deploy_entrypoints of
             None \<Rightarrow> returnE (failure req ''unknown target'')
           | Some (t, argv) \<Rightarrow>
               run_then env req argv (\<lambda>_.
                 returnE (success req (Some t) [(''deployed'', JBool True)])))"

definition release_id_ok :: "string \<Rightarrow> bool" where
  "release_id_ok r \<longleftrightarrow>
     r \<noteq> [] \<and> length r \<le> 128 \<and> is_ascii r \<and>
     (\<forall>c \<in> set r. ascii_alnum c \<or> c \<in> {CHR ''.'', CHR ''_'', CHR ''-''})"

definition deployment_rollback :: "allow_lists \<Rightarrow> host_env \<Rightarrow> helper_request \<Rightarrow> helper_response exec" where
  "deployment_rollback al env req =
     (case permitted (hr_target req) (al_services al) rollback_entrypoints of
        None \<Rightarrow> returnE (failure req ''unknown target'')
      | Some (t, argv) \<Rightarrow>
          if dict_keys (hr_params req) \<noteq> {''release_id''}
          then returnE (failure req ''invalid parameters'')
          else (case dict_get (hr_params req) ''release_id'' of
                  JStr r \<Rightarrow>
                    if \<not> release_id_ok r then returnE (failure req ''invalid parameters'')
                    else run_then env req (argv @ [r]) (\<lambda>_.
                           returnE (success req (Some t)
                             [(''rolled_back'', JBool True), (''release_id'', JStr r)]))
                | _ \<Rightarrow> returnE (failure req ''invalid parameters'')))"

definition container_status :: "allow_lists \<Rightarrow> host_env \<Rightarrow> helper_request \<Rightarrow> helper_response exec" where
  "container_status al env req =
     (case permitted (hr_target req) (al_containers al) container_targets of
        None \<Rightarrow> returnE (failure req ''unknown target'')
      | Some (t, name) \<Rightarrow>
          run_then env req [''docker'', ''inspect'', name, ''--format'', ''{{json .State}}''] (\<lambda>out.
            case he_loads env out of
              None \<Rightarrow> returnE (failure req ''malformed_response'')
            | Some (JObj state) \<Rightarrow>
                (let h = dict_get state ''Health'' in
                 case (if truthy h then h else JObj []) of
                   JObj health \<Rightarrow>
                     returnE (success req (Some t)
                       [(''status'', dict_get state ''Status''),
                        (''health'', dict_get health ''Status'')])
                 | _ \<Rightarrow> raiseE AttributeError)
            | Some _ \<Rightarrow> raiseE AttributeError))"

definition logs_recent :: "allow_lists \<Rightarrow> host_env \<Rightarrow> helper_request \<Rightarrow> helper_response exec" where
  "logs_recent al env req =
     (case permitted (hr_target req) (al_logs al \<union> al_diagnostic_logs al) log_targets of
        None \<Rightarrow> returnE (failure req ''unknown target'')
      | Some (t, source, unit) \<Rightarrow>
          (case dict_get_default (hr_params req) ''lines'' (JInt 100) of
             JInt lines \<Rightarrow>
               if \<not> (1 \<le> lines \<and> lines \<le> max_log_lines)
               then returnE (failure req ''invalid parameters'')
               else if source \<noteq> ''journal'' then returnE (failure req ''unknown target'')
               else run_then env req
                      [''journalctl'', ''-u'', unit, ''-n'', int_repr lines, ''--no-pager'', ''-o'', ''short-iso'']
                      (\<lambda>out.
                        case truncate_utf8 (redact out) max_response_bytes of
                          (text, truncated) \<Rightarrow>
                            returnE (success req (Some t)
                              [(''text'', JStr text), (''truncated'', JBool truncated)]))
           | _ \<Rightarrow> returnE (failure req ''invalid parameters'')))"

definition host_execute :: "allow_lists \<Rightarrow> host_env \<Rightarrow> helper_request \<Rightarrow> helper_response exec" where
  "host_execute al env req =
     (case hr_capability req of
        HOST_HEALTH \<Rightarrow> host_health env req
      | HOST_RESOURCES \<Rightarrow> host_resources env req
      | DRIPVID_READINESS \<Rightarrow> dripvid_readiness env req
      | SERVICE_STATUS \<Rightarrow> service_status al env req
      | SERVICE_RESTART \<Rightarrow> service_restart al env req
      | SERVICE_RECOVER \<Rightarrow> service_recover al env req
      | DEPLOYMENT_DEPLOY \<Rightarrow> deployment_deploy al env req
      | DEPLOYMENT_ROLLBACK \<Rightarrow> deployment_rollback al env req
      | CONTAINER_STATUS \<Rightarrow> container_status al env req
      | LOGS_RECENT \<Rightarrow> logs_recent al env req)"


end
