(* ===== verification/Host_Laws.thy ===== *)
theory Host_Laws
  imports Host_Executor
begin

text \<open>
  What the host executor guarantees: every command it runs is in a fixed catalogue, read-only
  capabilities run read-only commands, refused requests run nothing, and every response names
  the capability and target that were asked for.
\<close>

section \<open>The commands that can run\<close>

definition all_units :: "string list" where
  "all_units = map snd (read_service_units @ recovery_service_units)"

definition argv_readonly :: "argv \<Rightarrow> bool" where
  "argv_readonly a \<longleftrightarrow>
     a \<in> {[''uptime'', ''-p''], [''cat'', ''/proc/loadavg''], [''free'', ''-b''], [''df'', ''-B1'', ''/'']} \<or>
     (\<exists>unit \<in> set all_units. a = show_argv unit) \<or>
     (\<exists>name \<in> set (map snd container_targets).
        a = [''docker'', ''inspect'', name, ''--format'', ''{{json .State}}'']) \<or>
     (\<exists>unit \<in> set (map (snd \<circ> snd) log_targets). \<exists>n. 1 \<le> n \<and> n \<le> max_log_lines \<and>
        a = [''journalctl'', ''-u'', unit, ''-n'', int_repr n, ''--no-pager'', ''-o'', ''short-iso''])"

definition argv_mutating :: "argv \<Rightarrow> bool" where
  "argv_mutating a \<longleftrightarrow>
     (\<exists>unit \<in> set all_units. a = [''systemctl'', ''restart'', unit]) \<or>
     a \<in> set (map snd deploy_entrypoints) \<or>
     (\<exists>e \<in> set (map snd rollback_entrypoints). \<exists>r. release_id_ok r \<and> a = e @ [r])"

definition extends :: "(argv \<Rightarrow> bool) \<Rightarrow> argv list \<Rightarrow> argv list \<Rightarrow> bool" where
  "extends P run run' \<longleftrightarrow> (\<exists>new. run' = run @ new \<and> list_all P new)"

lemma reflp_extends [simp]: "reflp (extends P)"
  by (auto simp: reflp_def extends_def)

lemma transp_extends [simp]: "transp (extends P)"
  unfolding transp_def extends_def by (metis append.assoc list_all_append)

lemma extends_mono: "extends P r r' \<Longrightarrow> (\<And>a. P a \<Longrightarrow> Q a) \<Longrightarrow> extends Q r r'"
  by (auto simp: extends_def list_all_iff)

lemma keeps_extends_bindE [keeps_intros]:
  "keeps (extends P) m \<Longrightarrow> (\<And>x. keeps (extends P) (f x)) \<Longrightarrow> keeps (extends P) (bindE m f)"
  by (rule keeps_bindE) simp_all

lemma keeps_extends_basic [keeps_intros]:
  "keeps (extends P) (returnE x)" "keeps (extends P) (raiseE e)" "keeps (extends P) (liftE r)"
  by (simp_all add: keeps_returnE keeps_raiseE keeps_liftE)

lemma keeps_command: "P argv \<Longrightarrow> keeps (extends P) (command env req argv)"
  by (auto simp: keeps_def command_def extends_def)

lemma keeps_run_then [keeps_intros]:
  assumes "P argv" and "\<And>out. keeps (extends P) (k out)"
  shows "keeps (extends P) (run_then env req argv k)"
  unfolding run_then_def
  using assms by (auto intro!: keeps_intros keeps_command split: sum.split)

lemma keeps_json_case [keeps_intros]:
  "(keeps R a) \<Longrightarrow> (\<And>b. keeps R (f1 b)) \<Longrightarrow> (\<And>i. keeps R (f2 i)) \<Longrightarrow> (\<And>s. keeps R (f3 s)) \<Longrightarrow>
   (\<And>xs. keeps R (f4 xs)) \<Longrightarrow> (\<And>d. keeps R (f5 d)) \<Longrightarrow>
   keeps R (case v of JNull \<Rightarrow> a | JBool b \<Rightarrow> f1 b | JInt i \<Rightarrow> f2 i | JStr s \<Rightarrow> f3 s
              | JList xs \<Rightarrow> f4 xs | JObj d \<Rightarrow> f5 d)"
  by (cases v) simp_all

lemma keeps_prod_case [keeps_intros]:
  "(\<And>a b. keeps R (f a b)) \<Longrightarrow> keeps R (case p of (a, b) \<Rightarrow> f a b)"
  by (cases p) simp

lemma permitted_Some:
  "permitted target allowed cat = Some (t, e) \<Longrightarrow> target = Some t \<and> t \<in> allowed \<and> (t, e) \<in> set cat"
  by (auto simp: permitted_def split: option.splits if_splits dest: map_of_SomeD)

lemma permitted_None: "permitted target allowed cat = None \<longleftrightarrow>
   (case target of None \<Rightarrow> True | Some t \<Rightarrow> t \<notin> allowed \<or> map_of cat t = None)"
  by (auto simp: permitted_def split: option.splits)

lemma keeps_permitted:
  assumes "keeps R m" and "\<And>t e. (t, e) \<in> set cat \<Longrightarrow> keeps R (f (t, e))"
  shows "keeps R (case permitted target allowed cat of None \<Rightarrow> m | Some p \<Rightarrow> f p)"
proof (cases "permitted target allowed cat")
  case None
  with assms(1) show ?thesis by simp
next
  case (Some p)
  obtain t e where p: "p = (t, e)" by (cases p)
  with permitted_Some[of target allowed cat t e] Some assms(2) show ?thesis by simp
qed

lemma unit_catalogued:
  "(t, unit) \<in> set read_service_units \<Longrightarrow> unit \<in> set all_units"
  "(t, unit) \<in> set service_units \<Longrightarrow> unit \<in> set all_units"
  "map_of recovery_service_units c = Some unit \<Longrightarrow> unit \<in> set all_units"
  by (auto simp: all_units_def read_service_units_def dest!: map_of_SomeD)
     (metis image_eqI snd_conv)+

subsection \<open>One lemma per handler\<close>

lemma argv_readonly_fixed:
  "argv_readonly [''uptime'', ''-p'']" "argv_readonly [''cat'', ''/proc/loadavg'']"
  "argv_readonly [''free'', ''-b'']" "argv_readonly [''df'', ''-B1'', ''/'']"
  unfolding argv_readonly_def by blast+

lemma argv_readonly_show: "unit \<in> set all_units \<Longrightarrow> argv_readonly (show_argv unit)"
  unfolding argv_readonly_def by blast

lemma argv_readonly_inspect:
  "(t, name) \<in> set container_targets \<Longrightarrow>
   argv_readonly [''docker'', ''inspect'', name, ''--format'', ''{{json .State}}'']"
  unfolding argv_readonly_def by force

lemma argv_readonly_journal:
  assumes "(t, src, unit) \<in> set log_targets" and "1 \<le> n \<and> n \<le> max_log_lines"
  shows "argv_readonly [''journalctl'', ''-u'', unit, ''-n'', int_repr n, ''--no-pager'', ''-o'', ''short-iso'']"
proof -
  have "unit \<in> set (map (snd \<circ> snd) log_targets)" using assms(1) by force
  with assms(2) show ?thesis
    unfolding argv_readonly_def by (intro disjI2) (rule bexI[of _ unit], rule exI[of _ n], simp_all)
qed

definition argv_any :: "argv \<Rightarrow> bool" where
  "argv_any a \<longleftrightarrow> argv_readonly a \<or> argv_mutating a"

lemma argv_any_restart: "unit \<in> set all_units \<Longrightarrow> argv_any [''systemctl'', ''restart'', unit]"
  unfolding argv_any_def argv_mutating_def by blast

lemma argv_any_show: "unit \<in> set all_units \<Longrightarrow> argv_any (show_argv unit)"
  using argv_readonly_show by (simp add: argv_any_def)

lemma argv_any_deploy: "(t, e) \<in> set deploy_entrypoints \<Longrightarrow> argv_any e"
  unfolding argv_any_def argv_mutating_def by force

lemma argv_any_rollback: "(t, e) \<in> set rollback_entrypoints \<Longrightarrow> release_id_ok r \<Longrightarrow> argv_any (e @ [r])"
  unfolding argv_any_def argv_mutating_def by force

lemma host_health_readonly: "keeps (extends argv_readonly) (host_health env req)"
  unfolding host_health_def Let_def by (intro keeps_intros argv_readonly_fixed)

lemma host_resources_readonly: "keeps (extends argv_readonly) (host_resources env req)"
  unfolding host_resources_def Let_def by (intro keeps_intros argv_readonly_fixed)

lemma dripvid_readiness_readonly: "keeps (extends argv_readonly) (dripvid_readiness env req)"
  unfolding dripvid_readiness_def Let_def by (intro keeps_intros)

lemma service_status_readonly: "keeps (extends argv_readonly) (service_status al env req)"
  unfolding service_status_def
  by (intro keeps_permitted)
     (auto intro!: keeps_intros argv_readonly_show dest: unit_catalogued)

lemma container_status_readonly: "keeps (extends argv_readonly) (container_status al env req)"
  unfolding container_status_def Let_def
  by (intro keeps_permitted) (auto intro!: keeps_intros intro: argv_readonly_inspect)

lemma logs_recent_readonly: "keeps (extends argv_readonly) (logs_recent al env req)"
  unfolding logs_recent_def
  by (intro keeps_permitted) (auto intro!: keeps_intros intro: argv_readonly_journal)

lemma service_restart_any: "keeps (extends argv_any) (service_restart al env req)"
  unfolding service_restart_def
  by (intro keeps_permitted)
     (auto intro!: keeps_intros argv_any_restart argv_any_show dest: unit_catalogued)

lemma service_recover_any: "keeps (extends argv_any) (service_recover al env req)"
  unfolding service_recover_def
  by (intro keeps_intros argv_any_restart argv_any_show) (erule unit_catalogued)+

lemma deployment_deploy_any: "keeps (extends argv_any) (deployment_deploy al env req)"
  unfolding deployment_deploy_def
  by (intro keeps_if keeps_permitted) (auto intro!: keeps_intros intro: argv_any_deploy)

lemma deployment_rollback_any: "keeps (extends argv_any) (deployment_rollback al env req)"
  unfolding deployment_rollback_def
  by (intro keeps_permitted) (auto intro!: keeps_intros intro: argv_any_rollback)

definition read_only_capability :: "host_capability \<Rightarrow> bool" where
  "read_only_capability c \<longleftrightarrow>
     c \<in> {HOST_HEALTH, HOST_RESOURCES, DRIPVID_READINESS, SERVICE_STATUS, CONTAINER_STATUS, LOGS_RECENT}"

lemma host_execute_readonly:
  "read_only_capability (hr_capability req) \<Longrightarrow> keeps (extends argv_readonly) (host_execute al env req)"
  unfolding host_execute_def read_only_capability_def
  by (auto simp: host_health_readonly host_resources_readonly dripvid_readiness_readonly
      service_status_readonly container_status_readonly logs_recent_readonly)

lemma keeps_extends_weaken: "keeps (extends P) m \<Longrightarrow> (\<And>a. P a \<Longrightarrow> Q a) \<Longrightarrow> keeps (extends Q) m"
  unfolding keeps_def by (blast intro: extends_mono)

lemma host_execute_catalogued: "keeps (extends argv_any) (host_execute al env req)"
proof (cases "read_only_capability (hr_capability req)")
  case True
  then show ?thesis
    by (rule keeps_extends_weaken[OF host_execute_readonly]) (simp add: argv_any_def)
next
  case False
  then show ?thesis
    by (cases "hr_capability req")
       (simp_all add: read_only_capability_def host_execute_def service_restart_any
         service_recover_any deployment_deploy_any deployment_rollback_any)
qed

section \<open>Responses answer the request\<close>

definition answers :: "helper_request \<Rightarrow> helper_response \<Rightarrow> bool" where
  "answers req resp \<longleftrightarrow>
     hp_capability resp = hr_capability req \<and> hp_target resp = hr_target req \<and>
     (hp_ok resp \<longleftrightarrow> hp_error resp = None)"

definition yields :: "('a \<Rightarrow> bool) \<Rightarrow> ('s, 'a) op \<Rightarrow> bool" where
  "yields Q m \<longleftrightarrow> (\<forall>s r s'. m s = (Inr r, s') \<longrightarrow> Q r)"

lemma yields_returnE: "Q x \<Longrightarrow> yields Q (returnE x)"
  by (simp add: yields_def)

lemma yields_raiseE: "yields Q (raiseE e)"
  by (simp add: yields_def)

lemma yields_bindE: "(\<And>x. yields Q (f x)) \<Longrightarrow> yields Q (bindE m f)"
  unfolding yields_def by (metis bindE_InrE)

lemma answers_failure [simp]: "answers req (failure req e)"
  by (simp add: answers_def failure_def)

lemma answers_success [simp]: "answers req (success req t d) \<longleftrightarrow> t = hr_target req"
  by (auto simp: answers_def success_def)

lemma yields_run_then:
  "(\<And>out. yields (answers req) (k out)) \<Longrightarrow> yields (answers req) (run_then env req argv k)"
  unfolding yields_def run_then_def command_def
  by (auto simp: bindE_def split: sum.splits run_outcome.splits if_splits)

lemma yields_if: "(b \<Longrightarrow> yields Q m) \<Longrightarrow> (\<not> b \<Longrightarrow> yields Q n) \<Longrightarrow> yields Q (if b then m else n)"
  by simp

lemma yields_case_option:
  "yields Q m \<Longrightarrow> (\<And>x. yields Q (f x)) \<Longrightarrow> yields Q (case v of None \<Rightarrow> m | Some x \<Rightarrow> f x)"
  by (cases v) simp_all

lemma yields_json_case:
  "(yields R a) \<Longrightarrow> (\<And>b. yields R (f1 b)) \<Longrightarrow> (\<And>i. yields R (f2 i)) \<Longrightarrow> (\<And>s. yields R (f3 s)) \<Longrightarrow>
   (\<And>xs. yields R (f4 xs)) \<Longrightarrow> (\<And>d. yields R (f5 d)) \<Longrightarrow>
   yields R (case v of JNull \<Rightarrow> a | JBool b \<Rightarrow> f1 b | JInt i \<Rightarrow> f2 i | JStr s \<Rightarrow> f3 s
              | JList xs \<Rightarrow> f4 xs | JObj d \<Rightarrow> f5 d)"
  by (cases v) simp_all

lemma yields_prod_case: "(\<And>a b. p = (a, b) \<Longrightarrow> yields R (f a b)) \<Longrightarrow> yields R (case p of (a, b) \<Rightarrow> f a b)"
  by (cases p) simp

lemmas yields_intros =
  yields_returnE yields_raiseE yields_bindE yields_run_then yields_if yields_case_option
  yields_json_case yields_prod_case answers_failure

lemma yields_permitted:
  assumes "yields Q m" and "\<And>t e. target = Some t \<Longrightarrow> yields Q (f (t, e))"
  shows "yields Q (case permitted target allowed cat of None \<Rightarrow> m | Some p \<Rightarrow> f p)"
  using assms permitted_Some[of target allowed cat]
  by (cases "permitted target allowed cat") fastforce+

lemma host_health_answers: "hr_target req = None \<Longrightarrow> yields (answers req) (host_health env req)"
  unfolding host_health_def Let_def
  by (intro yields_permitted yields_intros; simp)

lemma host_resources_answers: "hr_target req = None \<Longrightarrow> yields (answers req) (host_resources env req)"
  unfolding host_resources_def Let_def
  by (intro yields_permitted yields_intros; simp)

lemma dripvid_readiness_answers: "hr_target req = None \<Longrightarrow> yields (answers req) (dripvid_readiness env req)"
  unfolding dripvid_readiness_def Let_def
  by (intro yields_permitted yields_intros; simp)

lemma service_status_answers: "yields (answers req) (service_status al env req)"
  unfolding service_status_def Let_def
  by (intro yields_permitted yields_intros; simp)

lemma service_restart_answers: "yields (answers req) (service_restart al env req)"
  unfolding service_restart_def Let_def
  by (intro yields_permitted yields_intros; simp)

lemma container_status_answers: "yields (answers req) (container_status al env req)"
  unfolding container_status_def Let_def
  by (intro yields_permitted yields_intros; simp)

lemma logs_recent_answers: "yields (answers req) (logs_recent al env req)"
  unfolding logs_recent_def Let_def
  by (intro yields_permitted yields_intros; simp)

lemma deployment_rollback_answers: "yields (answers req) (deployment_rollback al env req)"
  unfolding deployment_rollback_def
  by (intro yields_permitted yields_intros; simp)

lemma service_recover_answers: "yields (answers req) (service_recover al env req)"
  unfolding service_recover_def
  by (intro yields_intros; simp)

lemma deployment_deploy_answers: "yields (answers req) (deployment_deploy al env req)"
  unfolding deployment_deploy_def
  by (intro yields_if yields_permitted) (auto intro!: yields_intros)

lemma host_execute_answers:
  assumes "request_wf al req"
  shows "yields (answers req) (host_execute al env req)"
proof -
  have none: "hr_target req = None"
    if "hr_capability req \<in> {HOST_HEALTH, HOST_RESOURCES, DRIPVID_READINESS}"
    using assms that by (auto simp: request_wf_def split: option.splits)
  show ?thesis
    unfolding host_execute_def
    by (cases "hr_capability req")
       (simp_all add: none host_health_answers host_resources_answers dripvid_readiness_answers
         service_status_answers service_restart_answers service_recover_answers
         deployment_deploy_answers deployment_rollback_answers container_status_answers
         logs_recent_answers)
qed

end
