(* ===== verification/Json_Parse.thy ===== *)
theory Json_Parse
  imports Json "HOL-Library.AList"
begin

text \<open>
  \<open>json.loads\<close> on the values of the model: a recursive descent over the text, with whitespace
  between tokens, strict strings, and a dict that keeps the last value of a repeated key. Its
  fuel is the length of the text. What is outside the values of the model (fractions,
  exponents, \<open>NaN\<close>, characters above \<open>\u00ff\<close>) is not parsed. The encoder's output is read back
  exactly.
\<close>

section \<open>Strings and numbers\<close>

definition json_space :: "char \<Rightarrow> bool" where
  "json_space c \<longleftrightarrow> c \<in> {CHR '' '', CHR 0x09, CHR 0x0A, CHR 0x0D}"

definition skip_ws :: "string \<Rightarrow> string" where
  "skip_ws s = dropWhile json_space s"

definition hex_digit :: "char \<Rightarrow> bool" where
  "hex_digit c \<longleftrightarrow> is_digit c \<or> 97 \<le> (of_char c :: nat) \<and> (of_char c :: nat) \<le> 102"

text \<open>The escape after a backslash.\<close>

definition json_unescape :: "string \<Rightarrow> (char \<times> string) option" where
  "json_unescape s =
     (case s of
        [] \<Rightarrow> None
      | b # t \<Rightarrow>
          if b \<in> {CHR 0x22, CHR 0x5C, CHR ''/''} then Some (b, t)
          else if b = CHR ''b'' then Some (CHR 0x08, t)
          else if b = CHR ''f'' then Some (CHR 0x0C, t)
          else if b = CHR ''n'' then Some (CHR 0x0A, t)
          else if b = CHR ''r'' then Some (CHR 0x0D, t)
          else if b = CHR ''t'' then Some (CHR 0x09, t)
          else if b = CHR ''u'' then
            (case t of
               z1 # z2 # h # l # u \<Rightarrow>
                 if z1 = CHR ''0'' \<and> z2 = CHR ''0'' \<and> hex_digit h \<and> hex_digit l
                 then Some (char_of (16 * hex_value h + hex_value l), u) else None
             | _ \<Rightarrow> None)
          else None)"

lemma json_unescape_shorter: "json_unescape s = Some (c, t) \<Longrightarrow> length t < length s"
  by (auto simp: json_unescape_def split: list.splits if_splits)

function parse_string :: "string \<Rightarrow> (string \<times> string) option" where
  "parse_string [] = None"
| "parse_string (c # s) =
     (if c = CHR 0x22 then Some ([], s)
      else if (of_char c :: nat) < 32 then None
      else if c = CHR 0x5C then
        (case json_unescape s of
           None \<Rightarrow> None
         | Some (d, t) \<Rightarrow> map_option (\<lambda>(x, u). (d # x, u)) (parse_string t))
      else map_option (\<lambda>(x, u). (c # x, u)) (parse_string s))"
  by pat_completeness auto

termination parse_string
  by (relation "measure length") (auto dest: json_unescape_shorter)

definition parse_digits :: "string \<Rightarrow> (nat \<times> string) option" where
  "parse_digits s =
     (let ds = takeWhile is_digit s; r = dropWhile is_digit s in
      if ds = [] \<or> (hd ds = CHR ''0'' \<and> tl ds \<noteq> []) \<or> (r \<noteq> [] \<and> hd r \<in> {CHR ''.'', CHR ''e'', CHR ''E''})
      then None else Some (digits_value ds, r))"

definition parse_int :: "string \<Rightarrow> (int \<times> string) option" where
  "parse_int s =
     (case s of
        c # r \<Rightarrow> if c = CHR ''-'' then map_option (\<lambda>(n, t). (- int n, t)) (parse_digits r)
                  else map_option (\<lambda>(n, t). (int n, t)) (parse_digits s)
      | [] \<Rightarrow> None)"

definition parse_word :: "string \<Rightarrow> json \<Rightarrow> string \<Rightarrow> (json \<times> string) option" where
  "parse_word w v s = (if take (length w) s = w then Some (v, drop (length w) s) else None)"

section \<open>Values\<close>

fun parse_value :: "nat \<Rightarrow> string \<Rightarrow> (json \<times> string) option"
and parse_elements :: "nat \<Rightarrow> json list \<Rightarrow> string \<Rightarrow> (json \<times> string) option"
and parse_members :: "nat \<Rightarrow> dict \<Rightarrow> string \<Rightarrow> (json \<times> string) option" where
  "parse_value 0 s = None"
| "parse_value (Suc n) s =
     (case s of
        [] \<Rightarrow> None
      | c # r \<Rightarrow>
          if c = CHR 0x22 then map_option (\<lambda>(x, t). (JStr x, t)) (parse_string r)
          else if c = CHR ''{'' then
            (case skip_ws r of
               [] \<Rightarrow> None
             | d # t \<Rightarrow> if d = CHR ''}'' then Some (JObj [], t) else parse_members n [] (d # t))
          else if c = CHR ''['' then
            (case skip_ws r of
               [] \<Rightarrow> None
             | d # t \<Rightarrow> if d = CHR '']'' then Some (JList [], t) else parse_elements n [] (d # t))
          else if c = CHR ''n'' then parse_word ''null'' JNull s
          else if c = CHR ''t'' then parse_word ''true'' (JBool True) s
          else if c = CHR ''f'' then parse_word ''false'' (JBool False) s
          else map_option (\<lambda>(i, t). (JInt i, t)) (parse_int s))"
| "parse_elements 0 acc s = None"
| "parse_elements (Suc n) acc s =
     (case parse_value n s of
        None \<Rightarrow> None
      | Some (v, t) \<Rightarrow>
          (case skip_ws t of
             [] \<Rightarrow> None
           | c # u \<Rightarrow>
               if c = CHR '','' then parse_elements n (acc @ [v]) (skip_ws u)
               else if c = CHR '']'' then Some (JList (acc @ [v]), u)
               else None))"
| "parse_members 0 acc s = None"
| "parse_members (Suc n) acc s =
     (case s of
        [] \<Rightarrow> None
      | q # r \<Rightarrow>
          if q \<noteq> CHR 0x22 then None
          else case parse_string r of
            None \<Rightarrow> None
          | Some (k, t) \<Rightarrow>
              (case skip_ws t of
                 [] \<Rightarrow> None
               | c # u \<Rightarrow>
                   if c \<noteq> CHR '':'' then None
                   else case parse_value n (skip_ws u) of
                     None \<Rightarrow> None
                   | Some (v, x) \<Rightarrow>
                       (case skip_ws x of
                          [] \<Rightarrow> None
                        | d # y \<Rightarrow>
                            if d = CHR '','' then parse_members n (AList.update k v acc) (skip_ws y)
                            else if d = CHR ''}'' then Some (JObj (AList.update k v acc), y)
                            else None)))"

definition json_loads :: "string \<Rightarrow> json option" where
  "json_loads s =
     (case parse_value (Suc (length s)) (skip_ws s) of
        None \<Rightarrow> None
      | Some (v, r) \<Rightarrow> if skip_ws r = [] then Some v else None)"

section \<open>Reading back what the encoder wrote\<close>

lemma hex_digit_hex_char: "n < 16 \<Longrightarrow> hex_digit (hex_char n)"
  by (auto simp: hex_digit_def hex_char_def is_digit_def of_char_of)

lemma parse_string_quoted:
  "parse_string (concat (map esc_char s) @ CHR 0x22 # r) = Some (s, r)"
proof (induction s)
  case Nil
  then show ?case by simp
next
  case (Cons c s)
  have "(of_char c :: nat) div 16 < 16" by (simp add: less_mult_imp_div_less)
  with Cons hex_digit_hex_char[of "of_char c div 16"] hex_digit_hex_char[of "of_char c mod 16"]
  show ?case by (auto simp: esc_char_def json_unescape_def)
qed

lemma skip_ws_id [simp]: "s = [] \<or> \<not> json_space (hd s) \<Longrightarrow> skip_ws s = s"
  by (cases s) (auto simp: skip_ws_def)

lemma stops_no_space: "stops r \<Longrightarrow> skip_ws r = r"
  by (rule skip_ws_id) (auto simp: stops_def json_space_def)

lemma nat_repr_no_zero: "nat_repr n = CHR ''0'' # t \<Longrightarrow> t = []"
proof -
  have pos: "0 < n \<Longrightarrow> hd (nat_repr n) \<noteq> CHR ''0''" for n
  proof (induction n rule: nat_repr.induct)
    case (1 n)
    show ?case
    proof (cases "n < 10")
      case True
      have "digit_char n \<noteq> CHR ''0''"
      proof
        assume "digit_char n = CHR ''0''"
        then have "(of_char (digit_char n) :: nat) = 48" by simp
        with True 1(2) show False by simp
      qed
      with True show ?thesis by (simp add: nat_repr.simps[of n])
    next
      case False
      with 1 have "hd (nat_repr (n div 10)) \<noteq> CHR ''0''" by simp
      with False show ?thesis by (simp add: nat_repr.simps[of n])
    qed
  qed
  assume a: "nat_repr n = CHR ''0'' # t"
  then have "n = 0" using pos[of n] by (cases "n = 0") auto
  with a show "t = []" by (simp add: nat_repr.simps[of 0])
qed

lemma parse_digits_repr: "stops r \<Longrightarrow> parse_digits (nat_repr n @ r) = Some (n, r)"
proof -
  assume r: "stops r"
  then have "takeWhile is_digit (nat_repr n @ r) = nat_repr n" "dropWhile is_digit (nat_repr n @ r) = r"
    using nat_repr_digits[of n] stops_not_digit[OF r]
    by (cases r; auto simp: takeWhile_append2 takeWhile_append dropWhile_append2 dropWhile_append)+
  moreover have "\<not> (hd (nat_repr n) = CHR ''0'' \<and> tl (nat_repr n) \<noteq> [])"
    using nat_repr_no_zero[of n "tl (nat_repr n)"] by (metis list.collapse nat_repr_nonempty)
  moreover have "\<not> (r \<noteq> [] \<and> hd r \<in> {CHR ''.'', CHR ''e'', CHR ''E''})" using r by (auto simp: stops_def)
  ultimately show ?thesis by (simp add: parse_digits_def Let_def)
qed

lemma parse_int_repr: "stops r \<Longrightarrow> parse_int (int_repr i @ r) = Some (i, r)"
proof -
  assume r: "stops r"
  have "hd (nat_repr k) \<noteq> CHR ''-''" for k using hd_nat_repr_digit[of k] by (auto simp: is_digit_def)
  then have "nat_repr k = c # t \<Longrightarrow> c \<noteq> CHR ''-''" for k c t by (metis list.sel(1))
  with parse_digits_repr[OF r, of "nat i"] parse_digits_repr[OF r, of "nat (- i)"] show ?thesis
    by (cases "nat_repr (nat i)") (auto simp: parse_int_def int_repr_def)
qed

lemma hd_json_text: "json_text v \<noteq> [] \<and> \<not> json_space (hd (json_text v)) \<and> hd (json_text v) \<notin> {CHR '']'', CHR ''}''}"
proof (cases v)
  case (JInt i)
  with hd_int_repr[of i] show ?thesis by (auto simp: json_space_def is_digit_def)
qed (auto simp: quote_def json_space_def)

definition parses :: "json \<Rightarrow> bool" where
  "parses v \<longleftrightarrow> (\<forall>n r. length (json_text v) \<le> n \<longrightarrow> stops r \<longrightarrow>
     parse_value (Suc n) (json_text v @ r) = Some (v, r))"

lemma parsesD: "parses v \<Longrightarrow> length (json_text v) < n \<Longrightarrow> stops r \<Longrightarrow> parse_value n (json_text v @ r) = Some (v, r)"
  by (cases n) (auto simp: parses_def)

lemma skip_ws_text [simp]: "skip_ws (json_text v @ r) = json_text v @ r"
  using hd_json_text[of v] by (intro skip_ws_id) auto

lemma parse_elements_text:
  assumes "\<forall>v \<in> set vs. parses v" and "vs \<noteq> []" and "length (join '','' (map json_text vs)) + 1 < n"
  shows "parse_elements n acc (join '','' (map json_text vs) @ CHR '']'' # r) = Some (JList (acc @ vs), r)"
  using assms
proof (induction vs arbitrary: n acc)
  case Nil
  then show ?case by simp
next
  case (Cons v vs)
  then obtain m where n: "n = Suc m" by (cases n) auto
  show ?case
  proof (cases vs)
    case Nil
    have "parse_value m (json_text v @ CHR '']'' # r) = Some (v, CHR '']'' # r)"
      using Cons.prems n Nil by (intro parsesD) auto
    with Nil n show ?thesis by (simp add: stops_no_space)
  next
    case (Cons w ws)
    let ?rest = "join '','' (map json_text vs) @ CHR '']'' # r"
    have len: "length (json_text v) + 1 + length (join '','' (map json_text vs)) + 1 < n"
      using Cons.prems(3) Cons by simp
    have "parse_value m (json_text v @ CHR '','' # ?rest) = Some (v, CHR '','' # ?rest)"
      using Cons.prems len n by (intro parsesD) auto
    moreover have "skip_ws ?rest = ?rest"
      using Cons hd_json_text[of w] by (intro skip_ws_id) (cases ws; auto)
    moreover have "parse_elements m (acc @ [v]) ?rest = Some (JList ((acc @ [v]) @ vs), r)"
      using Cons.prems len n Cons by (intro Cons.IH) auto
    ultimately show ?thesis using n Cons by (simp add: stops_no_space)
  qed
qed

abbreviation member_text :: "string \<times> json \<Rightarrow> string" where
  "member_text \<equiv> \<lambda>(k, v). quote k @ '':'' @ json_text v"

lemma update_new_key: "k \<notin> fst ` set d \<Longrightarrow> AList.update k v d = d @ [(k, v)]"
  by (induction d) auto

lemma parse_member_step:
  assumes "parses v" and "length (json_text v) < n" and "stops (d # y)"
  shows "parse_members (Suc n) acc (member_text (k, v) @ d # y) =
     (if d = CHR '','' then parse_members n (AList.update k v acc) (skip_ws y)
      else if d = CHR ''}'' then Some (JObj (AList.update k v acc), y) else None)"
proof -
  have "parse_string (concat (map esc_char k) @ CHR 0x22 # CHR '':'' # json_text v @ d # y) =
      Some (k, CHR '':'' # json_text v @ d # y)"
    by (rule parse_string_quoted)
  moreover have "skip_ws (CHR '':'' # x) = CHR '':'' # x" for x by (simp add: json_space_def)
  moreover have "parse_value n (json_text v @ d # y) = Some (v, d # y)" using assms by (rule parsesD)
  moreover have "skip_ws (d # y) = d # y" using assms(3) by (rule stops_no_space)
  ultimately show ?thesis by (simp add: quote_def)
qed

lemma parse_members_text:
  assumes "\<forall>kv \<in> set d. parses (snd kv)" and "distinct (map fst (acc @ d))" and "d \<noteq> []"
    and "length (join '','' (map member_text d)) + 1 < n"
  shows "parse_members n acc (join '','' (map member_text d) @ CHR ''}'' # r) = Some (JObj (acc @ d), r)"
  using assms
proof (induction d arbitrary: n acc)
  case Nil
  then show ?case by simp
next
  case (Cons kv d)
  obtain k v where kv: "kv = (k, v)" by (cases kv)
  from Cons obtain m where n: "n = Suc m" by (cases n) auto
  have new: "AList.update k v acc = acc @ [(k, v)]"
    using Cons.prems(2) kv by (intro update_new_key) auto
  show ?case
  proof (cases d)
    case Nil
    have "length (json_text v) < m" using Cons.prems(4) n Nil kv by simp
    with parse_member_step[of v m "CHR ''}''" r acc k] Cons.prems(1) Nil n kv new
    show ?thesis by simp
  next
    case (Cons w ws)
    let ?rest = "join '','' (map member_text d) @ CHR ''}'' # r"
    have len: "length (member_text kv) + 1 + length (join '','' (map member_text d)) + 1 < n"
      using Cons.prems(4) Cons by simp
    have rest: "skip_ws ?rest = ?rest"
      using Cons by (intro skip_ws_id) (cases w; cases ws; auto simp: quote_def json_space_def)
    have "parse_members m (acc @ [(k, v)]) ?rest = Some (JObj ((acc @ [(k, v)]) @ d), r)"
      using Cons.prems len n Cons kv by (intro Cons.IH) auto
    moreover have "length (json_text v) < m" using len n kv by simp
    ultimately show ?thesis
      using parse_member_step[of v m "CHR '',''" ?rest acc k] Cons.prems(1) n kv new rest Cons by simp
  qed
qed

text \<open>How the texts inside brackets begin.\<close>

lemma hd_join: "xs \<noteq> [] \<Longrightarrow> hd xs \<noteq> [] \<Longrightarrow> join sep xs \<noteq> [] \<and> hd (join sep xs) = hd (hd xs)"
  by (cases xs) (simp_all add: join_Cons)

lemma parse_bracket:
  assumes "body \<noteq> []" and "\<not> json_space (hd body)" and "hd body \<noteq> CHR '']''"
  shows "parse_value (Suc n) (CHR ''['' # body) = parse_elements n [] body"
  using assms by (cases body) simp_all

lemma parse_brace:
  assumes "body \<noteq> []" and "\<not> json_space (hd body)" and "hd body \<noteq> CHR ''}''"
  shows "parse_value (Suc n) (CHR ''{'' # body) = parse_members n [] body"
  using assms by (cases body) simp_all

lemma parses_int: "parses (JInt i)"
  unfolding parses_def
proof (intro allI impI)
  fix n r assume r: "stops r"
  obtain c t where ct: "int_repr i = c # t" by (cases "int_repr i") auto
  have "c = CHR ''-'' \<or> is_digit c" using hd_int_repr[of i] ct by simp
  then have "c \<notin> {CHR 0x22, CHR ''{'', CHR ''['', CHR ''n'', CHR ''t'', CHR ''f''}" by (auto simp: is_digit_def)
  moreover have "parse_int (c # t @ r) = Some (i, r)" using parse_int_repr[OF r, of i] ct by simp
  ultimately show "parse_value (Suc n) (json_text (JInt i) @ r) = Some (JInt i, r)" by (simp add: ct)
qed

lemma parses_list:
  assumes "\<forall>v \<in> set vs. parses v"
  shows "parses (JList vs)"
  unfolding parses_def
proof (intro allI impI)
  fix n r assume len: "length (json_text (JList vs)) \<le> n"
  let ?body = "join '','' (map json_text vs) @ CHR '']'' # r"
  have whole: "json_text (JList vs) @ r = CHR ''['' # ?body" by simp
  show "parse_value (Suc n) (json_text (JList vs) @ r) = Some (JList vs, r)"
  proof (cases "vs = []")
    case True
    then show ?thesis by (simp add: json_space_def)
  next
    case False
    have "hd ?body = hd (json_text (hd vs))" "?body \<noteq> []"
      using False hd_json_text[of "hd vs"] hd_join[of "map json_text vs" "'',''"] by (simp_all add: hd_map)
    with hd_json_text[of "hd vs"] have "parse_value (Suc n) (CHR ''['' # ?body) = parse_elements n [] ?body"
      by (intro parse_bracket) auto
    also have "\<dots> = Some (JList ([] @ vs), r)"
      using assms False len by (intro parse_elements_text) simp_all
    finally show ?thesis unfolding whole by simp
  qed
qed

lemma parses_obj:
  assumes "\<forall>kv \<in> set d. parses (snd kv)" and "distinct (map fst d)"
  shows "parses (JObj d)"
  unfolding parses_def
proof (intro allI impI)
  fix n r assume len: "length (json_text (JObj d)) \<le> n"
  let ?body = "join '','' (map member_text d) @ CHR ''}'' # r"
  have whole: "json_text (JObj d) @ r = CHR ''{'' # ?body" by simp
  show "parse_value (Suc n) (json_text (JObj d) @ r) = Some (JObj d, r)"
  proof (cases "d = []")
    case True
    then show ?thesis by (simp add: json_space_def)
  next
    case False
    have q: "member_text kv \<noteq> [] \<and> hd (member_text kv) = CHR 0x22" for kv
      by (cases kv) (simp add: quote_def)
    with False hd_join[of "map member_text d" "'',''"] have "hd ?body = CHR 0x22" "?body \<noteq> []"
      by (simp_all add: hd_map)
    then have "parse_value (Suc n) (CHR ''{'' # ?body) = parse_members n [] ?body"
      by (intro parse_brace) (simp_all add: json_space_def)
    also have "\<dots> = Some (JObj ([] @ d), r)"
      using assms False len by (intro parse_members_text) simp_all
    finally show ?thesis unfolding whole by simp
  qed
qed

lemma json_text_parses: "json_wf v \<Longrightarrow> parses v"
proof (induction v)
  case (JStr s)
  show ?case by (simp add: parses_def quote_def parse_string_quoted)
next
  case (JList vs)
  then show ?case by (intro parses_list) (simp add: list_all_iff)
next
  case (JObj d)
  then show ?case by (intro parses_obj) (fastforce simp: list_all_iff)+
qed (simp_all add: parses_int, simp_all add: parses_def parse_word_def)

lemma json_loads_text: "json_wf v \<Longrightarrow> json_loads (json_text v) = Some v"
  using parsesD[OF json_text_parses, of v "Suc (length (json_text v))" "[]"] skip_ws_text[of v "[]"]
  by (simp add: json_loads_def)

end
