(* ===== verification/Host_Link.thy ===== *)
theory Host_Link
  imports Host_Laws Json_Parse
begin

text \<open>
  The socket between the application and the host helper: \<open>host_helper/server.py\<close> and
  \<open>host_helper/client.py\<close>. A message is one line of JSON. Each \<open>recv\<close> returns as many bytes as
  the kernel has ready, so the reader is proved for every way the bytes arrive. The decoder
  \<open>json.loads\<close> is an argument, \<open>loads\<close>, because the values of the model do not cover floating point; \<open>None\<close> is
  a \<open>JSONDecodeError\<close> or \<open>UnicodeDecodeError\<close>. The round trip is stated for \<open>json_loads\<close>.
\<close>

abbreviation newline :: char where
  "newline \<equiv> CHR 0x0A"

section \<open>Reading one line\<close>

text \<open>
  The loop of \<open>_read_request\<close> and \<open>_read_response\<close>. The list gives, for each call of
  \<open>recv\<close>, the number of bytes ready; when it is used up the peer has closed.
\<close>

definition recv_size :: nat where
  "recv_size = 4096"

primrec read_loop :: "nat \<Rightarrow> nat list \<Rightarrow> string \<Rightarrow> string \<Rightarrow> string" where
  "read_loop limit [] stream data = data"
| "read_loop limit (k # ks) stream data =
     (if limit < length data then data
      else let n = min (min recv_size (limit + 1 - length data)) k;
               chunk = take n stream in
           if chunk = [] then data
           else if newline \<in> set chunk then data @ chunk
           else read_loop limit ks (drop n stream) (data @ chunk))"

definition first_line :: "string \<Rightarrow> string" where
  "first_line raw = takeWhile (\<lambda>c. c \<noteq> newline) raw"

lemma read_loop_bound: "length data \<le> limit + 1 \<Longrightarrow> length (read_loop limit ks stream data) \<le> limit + 1"
proof (induction ks arbitrary: stream data)
  case (Cons k ks)
  let ?n = "min (min recv_size (limit + 1 - length data)) k"
  have len: "length (data @ take ?n stream) \<le> limit + 1" using Cons(2) by simp
  from Cons(1)[OF len] len Cons(2) show ?case by (auto simp: Let_def)
qed simp

lemma append_newline:
  assumes "xs @ newline # ys = line @ [newline]" and "newline \<notin> set line"
  shows "ys = []"
  using assms by (cases ys rule: rev_cases) auto

lemma read_loop_line:
  assumes "data @ stream = line @ [newline]" and "newline \<notin> set data" and "newline \<notin> set line"
    and "length line \<le> limit" and "\<forall>k \<in> set ks. 0 < k" and "length stream \<le> length ks"
  shows "read_loop limit ks stream data = line @ [newline]"
  using assms
proof (induction ks arbitrary: stream data)
  case Nil
  then show ?case by auto
next
  case (Cons k ks)
  let ?n = "min (min recv_size (limit + 1 - length data)) k"
  let ?chunk = "take ?n stream"
  have ne: "stream \<noteq> []"
  proof
    assume "stream = []"
    with Cons.prems(1) have "data = line @ [newline]" by simp
    with Cons.prems(2) show False by simp
  qed
  have "length data + length stream = length line + 1"
    using arg_cong[OF Cons.prems(1), of length] by simp
  moreover have "0 < length stream" using ne by simp
  ultimately have room: "\<not> limit < length data" using Cons.prems(4) by linarith
  have pos: "0 < ?n" using Cons.prems(5) room by (auto simp: recv_size_def)
  with ne have chunk: "?chunk \<noteq> []" by simp
  show ?case
  proof (cases "newline \<in> set ?chunk")
    case True
    then obtain ys zs where ch: "?chunk = ys @ newline # zs" by (meson split_list)
    have "ys @ newline # (zs @ drop ?n stream) = ?chunk @ drop ?n stream"
      unfolding ch by simp
    also have "\<dots> = stream" by (rule append_take_drop_id)
    finally have "(data @ ys) @ newline # (zs @ drop ?n stream) = line @ [newline]"
      using Cons.prems(1) by simp
    then have "zs @ drop ?n stream = []" using Cons.prems(3) by (rule append_newline)
    then have cs: "?chunk = stream" using append_take_drop_id[of ?n stream] by simp
    have "read_loop limit (k # ks) stream data = data @ ?chunk"
      using True room chunk by (simp add: Let_def del: take_eq_Nil)
    then show ?thesis unfolding cs using Cons.prems(1) by simp
  next
    case False
    have "read_loop limit ks (drop ?n stream) (data @ ?chunk) = line @ [newline]"
    proof (rule Cons.IH)
      have "length stream \<le> Suc (length ks)" using Cons.prems(6) by simp
      with pos show "length (drop ?n stream) \<le> length ks" unfolding length_drop by linarith
    qed (use Cons.prems False in simp_all)
    with False room chunk show ?thesis by (simp add: Let_def del: take_eq_Nil)
  qed
qed

lemma first_line_append [simp]: "newline \<notin> set line \<Longrightarrow> first_line (line @ newline # rest) = line"
  unfolding first_line_def by (subst takeWhile_append2) auto

section \<open>Messages have no line breaks\<close>

lemma hex_char_no_newline: "n < 16 \<Longrightarrow> hex_char n \<noteq> newline"
proof
  assume "n < 16" "hex_char n = newline"
  then have "(of_char (hex_char n) :: nat) = 10" by simp
  with \<open>n < 16\<close> show False by (simp add: hex_char_def of_char_of split: if_splits)
qed

lemma esc_char_no_newline: "newline \<notin> set (esc_char c)"
proof -
  have "(of_char c :: nat) div 16 < 16" by (simp add: less_mult_imp_div_less)
  with hex_char_no_newline[of "of_char c div 16"] hex_char_no_newline[of "of_char c mod 16"]
  show ?thesis by (auto simp: esc_char_def)
qed

lemma quote_no_newline: "newline \<notin> set (quote s)"
  using esc_char_no_newline by (auto simp: quote_def)

lemma join_set: "set (join sep xs) \<subseteq> set sep \<union> \<Union> (set (map set xs))"
  by (induction sep xs rule: join.induct) auto

lemma int_repr_no_newline: "newline \<notin> set (int_repr i)"
  using nat_repr_digits[of "nat i"] nat_repr_digits[of "nat (- i)"]
  by (auto simp: int_repr_def is_digit_def)

lemma json_text_no_newline: "newline \<notin> set (json_text v)"
proof (induction v)
  case (JList xs)
  then show ?case using join_set[of "'',''" "map json_text xs"] by auto
next
  case (JObj d)
  have "newline \<notin> set (quote k @ '':'' @ json_text v)" if "(k, v) \<in> set d" for k v
    using JObj[OF that] quote_no_newline[of k] by auto
  then show ?case
    using join_set[of "'',''" "map (\<lambda>(k, v). quote k @ '':'' @ json_text v) d"] by auto
qed (auto simp: quote_no_newline int_repr_no_newline)

section \<open>The server\<close>

definition max_request_bytes :: nat where
  "max_request_bytes = 16 * 1024"

definition server_error :: "string \<Rightarrow> dict" where
  "server_error e =
     [(''ok'', JBool False), (''capability'', JNull), (''target'', JNull), (''data'', JObj []),
      (''error'', JStr e)]"

definition str_or_null :: "string option \<Rightarrow> json" where
  "str_or_null v = (case v of None \<Rightarrow> JNull | Some s \<Rightarrow> JStr s)"

definition response_dict :: "helper_response \<Rightarrow> dict" where
  "response_dict r =
     [(''ok'', JBool (hp_ok r)), (''capability'', JStr (capability_value (hp_capability r))),
      (''target'', str_or_null (hp_target r)), (''data'', JObj (hp_data r)),
      (''error'', str_or_null (hp_error r))]"

text \<open>\<open>hmac.compare_digest\<close> of two \<open>str\<close>: both must be ASCII.\<close>

definition compare_digest :: "string \<Rightarrow> string \<Rightarrow> exn + bool" where
  "compare_digest a b =
     (if is_ascii a \<and> is_ascii b then Inr (a = b)
      else Inl (TypeError ''comparing strings with non-ASCII characters is not supported''))"

definition handle_payload ::
  "(string \<Rightarrow> json option) \<Rightarrow> string \<Rightarrow> allow_lists \<Rightarrow> (helper_request \<Rightarrow> ('s, helper_response) op) \<Rightarrow>
   string \<Rightarrow> ('s, dict) op" where
  "handle_payload loads credential al execute raw =
     (if max_request_bytes < length raw then returnE (server_error ''request too large'')
      else case loads (first_line raw) of
        Some (JObj payload) \<Rightarrow>
          (case dict_get payload ''credential'' of
             JStr supplied \<Rightarrow>
               bindE (liftE (compare_digest supplied credential)) (\<lambda>same.
                 if \<not> same then returnE (server_error ''authentication failed'')
                 else (case validate_request (JObj (dict_pop ''credential'' payload)) al of
                         Inr req \<Rightarrow> bindE (execute req) (\<lambda>r. returnE (response_dict r))
                       | Inl (TypeError _) \<Rightarrow> returnE (server_error ''invalid request'')
                       | Inl (ValueError _) \<Rightarrow> returnE (server_error ''invalid request'')
                       | Inl e \<Rightarrow> raiseE e))
           | _ \<Rightarrow> returnE (server_error ''authentication failed''))
      | _ \<Rightarrow> returnE (server_error ''invalid request''))"

definition serve_once ::
  "(string \<Rightarrow> json option) \<Rightarrow> string \<Rightarrow> allow_lists \<Rightarrow> (helper_request \<Rightarrow> ('s, helper_response) op) \<Rightarrow>
   nat list \<Rightarrow> string \<Rightarrow> ('s, string) op" where
  "serve_once loads credential al execute ks stream =
     bindE (handle_payload loads credential al execute (read_loop max_request_bytes ks stream []))
       (\<lambda>d. returnE (json_text (JObj d) @ [newline]))"

definition default_allow_lists :: allow_lists where
  "default_allow_lists =
     \<lparr>al_services = {''ai-hq'', ''nginx'', ''dripvid''},
      al_containers = {''ai-hq-web'', ''ai-hq-worker''},
      al_logs = {''ai-hq'', ''nginx'', ''dripvid''},
      al_diagnostic_services = {''dripvid-mcp'', ''cloudflared'', ''postgresql''},
      al_diagnostic_logs = {''dripvid-mcp'', ''cloudflared'', ''postgresql''}\<rparr>"

section \<open>The client\<close>

definition client_max_response_bytes :: nat where
  "client_max_response_bytes = 64 * 1024"

definition client_payload :: "string \<Rightarrow> helper_request \<Rightarrow> json" where
  "client_payload credential r =
     JObj [(''credential'', JStr credential),
           (''capability'', JStr (capability_value (hr_capability r))),
           (''target'', str_or_null (hr_target r)),
           (''params'', JObj (hr_params r))]"

definition client_encode :: "string \<Rightarrow> helper_request \<Rightarrow> string" where
  "client_encode credential r = json_text (client_payload credential r) @ [newline]"

definition client_decode :: "helper_request \<Rightarrow> json option \<Rightarrow> exn + helper_response" where
  "client_decode req decoded =
     (case decoded of
        Some (JObj d) \<Rightarrow>
          if dict_get d ''capability'' \<noteq> JStr (capability_value (hr_capability req)) \<or>
             dict_get d ''target'' \<noteq> str_or_null (hr_target req)
          then Inl (HostHelperError ''response_mismatch'')
          else (case (dict_get d ''ok'', dict_get d ''data'', dict_get d ''error'') of
                  (JBool ok, JObj data, JNull) \<Rightarrow>
                    Inr \<lparr>hp_ok = ok, hp_capability = hr_capability req, hp_target = hr_target req,
                         hp_data = data, hp_error = None\<rparr>
                | (JBool ok, JObj data, JStr e) \<Rightarrow>
                    Inr \<lparr>hp_ok = ok, hp_capability = hr_capability req, hp_target = hr_target req,
                         hp_data = data, hp_error = Some e\<rparr>
                | _ \<Rightarrow> Inl (HostHelperError ''malformed_response''))
      | _ \<Rightarrow> Inl (HostHelperError ''malformed_response''))"

definition read_response :: "nat list \<Rightarrow> string \<Rightarrow> exn + string" where
  "read_response ks stream =
     (let raw = read_loop client_max_response_bytes ks stream [] in
      if client_max_response_bytes < length raw then Inl (HostHelperError ''response_too_large'')
      else Inr (first_line raw))"

text \<open>
  \<open>wire\<close> is the connection: what the peer sends back for the bytes sent, and how it arrives;
  \<open>None\<close> is a \<open>TimeoutError\<close> or \<open>OSError\<close>.
\<close>

definition client_execute ::
  "(string \<Rightarrow> json option) \<Rightarrow> string \<Rightarrow> (string \<Rightarrow> ('s, (nat list \<times> string) option) op) \<Rightarrow>
   helper_request \<Rightarrow> ('s, helper_response) op" where
  "client_execute loads credential wire req =
     bindE (wire (client_encode credential req)) (\<lambda>reply.
       case reply of
         None \<Rightarrow> raiseE (HostHelperError ''connection_failed'')
       | Some (ks, stream) \<Rightarrow>
           bindE (liftE (read_response ks stream)) (\<lambda>line.
             liftE (client_decode req (loads line))))"

definition readiness_request :: helper_request where
  "readiness_request = \<lparr>hr_capability = DRIPVID_READINESS, hr_target = None, hr_params = []\<rparr>"

section \<open>From the client to the executor and back\<close>

lemma client_decode_response:
  assumes "answers req resp"
  shows "client_decode req (Some (JObj (response_dict resp))) = Inr resp"
  using assms
  by (cases resp; cases "hp_error resp")
     (auto simp: client_decode_def response_dict_def answers_def str_or_null_def split: option.splits)

lemma handle_payload_client:
  assumes wf: "request_wf al r" "hr_target r \<noteq> Some []" and cred: "is_ascii credential"
    and loads: "loads (json_text (client_payload credential r)) = Some (client_payload credential r)"
    and fits: "length (json_text (client_payload credential r)) < max_request_bytes"
  shows "handle_payload loads credential al execute (client_encode credential r) =
         bindE (execute r) (\<lambda>resp. returnE (response_dict resp))"
proof -
  let ?d = "[(''credential'', JStr credential),
       (''capability'', JStr (capability_value (hr_capability r))),
       (''target'', str_or_null (hr_target r)), (''params'', JObj (hr_params r))]"
  have "first_line (client_encode credential r) = json_text (client_payload credential r)"
    unfolding client_encode_def by (rule first_line_append) (rule json_text_no_newline)
  with loads have ld: "loads (first_line (client_encode credential r)) = Some (JObj ?d)"
    by (simp only: client_payload_def)
  have pop: "JObj (dict_pop ''credential'' ?d) = request_payload r"
    by (simp add: dict_pop_def request_payload_def str_or_null_def)
  have short: "\<not> max_request_bytes < length (client_encode credential r)"
    using fits by (simp add: client_encode_def)
  have "handle_payload loads credential al execute (client_encode credential r) =
     (case validate_request (request_payload r) al of
        Inr req \<Rightarrow> bindE (execute req) (\<lambda>r. returnE (response_dict r))
      | Inl (TypeError _) \<Rightarrow> returnE (server_error ''invalid request'')
      | Inl (ValueError _) \<Rightarrow> returnE (server_error ''invalid request'')
      | Inl e \<Rightarrow> raiseE e)"
    unfolding handle_payload_def ld pop[symmetric]
    by (rule ext) (simp add: short cred compare_digest_def bindE_def)
  then show ?thesis by (simp add: validate_request_payload[OF wf])
qed

text \<open>
  The helper as the client's peer: one \<open>serve_once\<close> on the bytes sent, whatever the sizes of the
  pieces in which requests and responses arrive.
\<close>

definition helper_wire ::
  "(string \<Rightarrow> json option) \<Rightarrow> string \<Rightarrow> allow_lists \<Rightarrow> (helper_request \<Rightarrow> ('s, helper_response) op) \<Rightarrow>
   nat list \<Rightarrow> nat list \<Rightarrow> string \<Rightarrow> ('s, (nat list \<times> string) option) op" where
  "helper_wire loads credential al execute ks1 ks2 sent =
     bindE (serve_once loads credential al execute ks1 sent) (\<lambda>back. returnE (Some (ks2, back)))"

lemma client_server_roundtrip:
  assumes wf: "request_wf al r" "hr_target r \<noteq> Some []" and cred: "is_ascii credential"
    and run: "execute r s = (Inr resp, s')" "answers r resp"
    and loads: "loads (json_text (client_payload credential r)) = Some (client_payload credential r)"
      "loads (json_text (JObj (response_dict resp))) = Some (JObj (response_dict resp))"
    and fits: "length (json_text (client_payload credential r)) < max_request_bytes"
      "length (json_text (JObj (response_dict resp))) < client_max_response_bytes"
    and ks1: "\<forall>k \<in> set ks1. 0 < k" "length (client_encode credential r) \<le> length ks1"
    and ks2: "\<forall>k \<in> set ks2. 0 < k" "length (json_text (JObj (response_dict resp))) < length ks2"
  shows "client_execute loads credential (helper_wire loads credential al execute ks1 ks2) r s = (Inr resp, s')"
proof -
  define a where "a = json_text (JObj (response_dict resp))"
  have a: "newline \<notin> set a" "length a < client_max_response_bytes" "length a < length ks2"
      "loads a = Some (JObj (response_dict resp))"
    using json_text_no_newline fits(2) ks2(2) loads(2) by (simp_all only: a_def not_False_eq_True)
  have rd: "read_loop max_request_bytes ks1 (client_encode credential r) [] = client_encode credential r"
    unfolding client_encode_def
    by (rule read_loop_line) (use json_text_no_newline ks1 fits(1) in \<open>simp_all add: client_encode_def\<close>)
  have "serve_once loads credential al execute ks1 (client_encode credential r) s = (Inr (a @ [newline]), s')"
    unfolding serve_once_def rd handle_payload_client[of al r credential loads, OF wf cred loads(1) fits(1)]
    using run(1) unfolding a_def by (simp add: bindE_def del: json_text.simps)
  then have w: "helper_wire loads credential al execute ks1 ks2 (client_encode credential r) s =
      (Inr (Some (ks2, a @ [newline])), s')"
    by (simp add: helper_wire_def)
  have "read_loop client_max_response_bytes ks2 (a @ [newline]) [] = a @ [newline]"
    by (rule read_loop_line) (use a ks2(1) in simp_all)
  then have "read_response ks2 (a @ [newline]) = Inr a"
    using a by (simp add: read_response_def Let_def)
  with w a(4) client_decode_response[OF run(2)] show ?thesis
    by (simp add: client_execute_def)
qed

lemma client_payload_wf: "request_wf al r \<Longrightarrow> json_wf (client_payload credential r)"
proof -
  assume wf: "request_wf al r"
  then have "distinct (map fst (hr_params r)) \<and> list_all (\<lambda>(k, v). json_wf v) (hr_params r)"
    by (cases "hr_capability r") (auto simp: request_wf_def split: option.splits)
  then show ?thesis by (simp add: client_payload_def str_or_null_def split: option.split)
qed

lemma response_wf: "json_wf (JObj (hp_data resp)) \<Longrightarrow> json_wf (JObj (response_dict resp))"
  by (simp add: response_dict_def str_or_null_def split: option.split)

end
