(* ===== verification/Operations.thy ===== *)
theory Operations
  imports Tool_Gateway Host_Link
begin

text \<open>
  The operational adapters the gateway calls (\<open>operations/targets.py\<close>, \<open>operations/adapters.py\<close>,
  \<open>operations/transport.py\<close>, \<open>operations/bootstrap.py\<close>, \<open>tool_gateway/host_adapter.py\<close>). An adapter
  checks a tool request and sends at most one request to the host helper through a client.
\<close>

section \<open>Targets\<close>

record operational_target =
  ot_key :: string
  ot_service_unit :: string
  ot_capabilities :: "string list"
  ot_health_url :: "string option"
  ot_log_unit :: "string option"
  ot_deploy_entrypoint :: "string list option"
  ot_rollback_entrypoint :: "string list option"
  ot_helper_service :: "string option"
  ot_helper_log :: "string option"

definition blank_option :: "string option \<Rightarrow> bool" where
  "blank_option v = (case v of None \<Rightarrow> False | Some s \<Rightarrow> strip s = [])"

definition bad_entrypoint :: "string list option \<Rightarrow> bool" where
  "bad_entrypoint e = (case e of None \<Rightarrow> False | Some parts \<Rightarrow> parts = [] \<or> [] \<in> set parts)"

definition operational_target_check :: "operational_target \<Rightarrow> exn + operational_target" where
  "operational_target_check t =
     (if strip (ot_key t) = [] then Inl (ValueError ''operational target key is required'')
      else if strip (ot_service_unit t) = [] then Inl (ValueError ''service unit is required'')
      else if ot_capabilities t = [] then Inl (ValueError ''operational target requires capabilities'')
      else if list_ex (\<lambda>c. strip c = [] \<or> CHR ''*'' \<in> set c) (ot_capabilities t)
      then Inl (ValueError ''invalid operational capability'')
      else if blank_option (ot_log_unit t) then Inl (ValueError ''log unit cannot be empty'')
      else if blank_option (ot_helper_service t)
      then Inl (ValueError ''host helper service target cannot be empty'')
      else if blank_option (ot_helper_log t)
      then Inl (ValueError ''host helper log target cannot be empty'')
      else if bad_entrypoint (ot_deploy_entrypoint t) \<or> bad_entrypoint (ot_rollback_entrypoint t)
      then Inl (ValueError ''invalid operational entrypoint'')
      else Inr t)"

type_synonym target_registry = "(string \<times> operational_target) list"

fun target_registry :: "target_registry \<Rightarrow> operational_target list \<Rightarrow> exn + target_registry" where
  "target_registry acc [] = Inr acc"
| "target_registry acc (t # ts) =
     (if map_of acc (ot_key t) \<noteq> None
      then Inl (ValueError (''duplicate operational target: '' @ ot_key t))
      else target_registry (acc @ [(ot_key t, t)]) ts)"

definition require_target :: "target_registry \<Rightarrow> string \<Rightarrow> exn + operational_target" where
  "require_target reg key =
     (case map_of reg key of
        None \<Rightarrow> Inl (ValueError (''unknown operational target: '' @ key))
      | Some t \<Rightarrow> Inr t)"

section \<open>The transport\<close>

type_synonym 'w helper_client = "helper_request \<Rightarrow> ('w, helper_response) op"

definition transport_execute :: "'w helper_client \<Rightarrow> helper_request \<Rightarrow> ('w, dict) op" where
  "transport_execute client req w =
     (case client req w of
        (Inl (HostHelperError _), w1) \<Rightarrow> (Inl (ToolAdapterError ''host_helper_unavailable''), w1)
      | (Inl e, w1) \<Rightarrow> (Inl e, w1)
      | (Inr resp, w1) \<Rightarrow>
          if \<not> hp_ok resp
          then (Inl (ToolAdapterError (case hp_error resp of
                  None \<Rightarrow> ''host_helper_failed''
                | Some e \<Rightarrow> if e = [] then ''host_helper_failed'' else e)), w1)
          else if hp_capability resp \<noteq> hr_capability req \<or> hp_target resp \<noteq> hr_target req
          then (Inl (ToolAdapterError ''host_helper_response_mismatch''), w1)
          else (Inr (hp_data resp), w1))"

definition or_key :: "string option \<Rightarrow> string \<Rightarrow> string" where
  "or_key v key = (case v of None \<Rightarrow> key | Some s \<Rightarrow> if s = [] then key else s)"

definition helper_request_of :: "host_capability \<Rightarrow> string option \<Rightarrow> dict \<Rightarrow> helper_request" where
  "helper_request_of c t params = \<lparr>hr_capability = c, hr_target = t, hr_params = params\<rparr>"

definition transport_system_health :: "'w helper_client \<Rightarrow> operational_target \<Rightarrow> ('w, dict) op" where
  "transport_system_health client t = transport_execute client (helper_request_of HOST_HEALTH None [])"

definition transport_service_status :: "'w helper_client \<Rightarrow> operational_target \<Rightarrow> ('w, dict) op" where
  "transport_service_status client t =
     transport_execute client
       (helper_request_of SERVICE_STATUS (Some (or_key (ot_helper_service t) (ot_key t))) [])"

definition transport_service_logs :: "'w helper_client \<Rightarrow> operational_target \<Rightarrow> int \<Rightarrow> ('w, dict) op" where
  "transport_service_logs client t lines =
     (if lines < 1 \<or> 500 < lines then raiseE (ToolAdapterError ''invalid_log_line_count'')
      else transport_execute client
             (helper_request_of LOGS_RECENT (Some (or_key (ot_helper_log t) (ot_key t)))
               [(''lines'', JInt lines)]))"

definition transport_service_restart :: "'w helper_client \<Rightarrow> operational_target \<Rightarrow> ('w, dict) op" where
  "transport_service_restart client t =
     transport_execute client (helper_request_of SERVICE_RESTART (Some (ot_key t)) [])"

definition transport_service_recover ::
  "'w helper_client \<Rightarrow> operational_target \<Rightarrow> string \<Rightarrow> ('w, dict) op" where
  "transport_service_recover client t component =
     transport_execute client
       (helper_request_of SERVICE_RECOVER (Some (ot_key t)) [(''component'', JStr component)])"

definition transport_deploy :: "'w helper_client \<Rightarrow> operational_target \<Rightarrow> ('w, dict) op" where
  "transport_deploy client t =
     transport_execute client (helper_request_of DEPLOYMENT_DEPLOY (Some (ot_key t)) [])"

definition release_id_valid :: "string \<Rightarrow> bool" where
  "release_id_valid r \<longleftrightarrow>
     r \<noteq> [] \<and> length r \<le> 128 \<and> is_ascii r \<and>
     list_all (\<lambda>c. ascii_alnum c \<or> c \<in> set ''._-'') r"

definition transport_rollback ::
  "'w helper_client \<Rightarrow> operational_target \<Rightarrow> string \<Rightarrow> ('w, dict) op" where
  "transport_rollback client t release =
     (if \<not> release_id_valid release then raiseE (ToolAdapterError ''invalid_release_id'')
      else transport_execute client
             (helper_request_of DEPLOYMENT_ROLLBACK (Some (ot_key t)) [(''release_id'', JStr release)]))"

section \<open>The adapters\<close>

definition adapter_target ::
  "string \<Rightarrow> target_registry \<Rightarrow> tool_request \<Rightarrow> exn + operational_target" where
  "adapter_target capability reg req =
     (if tr_capability req \<noteq> capability then Inl (ToolAdapterError ''capability_mismatch'')
      else case require_target reg (tr_target req) of
        Inl _ \<Rightarrow> Inl (ToolAdapterError ''unknown_operational_target'')
      | Inr t \<Rightarrow>
          if capability \<notin> set (ot_capabilities t)
          then Inl (ToolAdapterError ''target_capability_denied'')
          else Inr t)"

definition require_no_params :: "tool_request \<Rightarrow> exn + unit" where
  "require_no_params req =
     (if tr_params req \<noteq> [] then Inl (ToolAdapterError ''unexpected_operational_parameters'') else Inr ())"

definition system_health_adapter :: "target_registry \<Rightarrow> 'w helper_client \<Rightarrow> 'w adapter" where
  "system_health_adapter reg client req =
     bindE (liftE (adapter_target ''system.health.read'' reg req)) (\<lambda>t.
     bindE (liftE (require_no_params req)) (\<lambda>_. transport_system_health client t))"

definition service_status_adapter :: "target_registry \<Rightarrow> 'w helper_client \<Rightarrow> 'w adapter" where
  "service_status_adapter reg client req =
     bindE (liftE (adapter_target ''service.status.read'' reg req)) (\<lambda>t.
     bindE (liftE (require_no_params req)) (\<lambda>_. transport_service_status client t))"

definition service_logs_adapter :: "target_registry \<Rightarrow> 'w helper_client \<Rightarrow> 'w adapter" where
  "service_logs_adapter reg client req =
     bindE (liftE (adapter_target ''service.logs.read'' reg req)) (\<lambda>t.
       if dict_keys (tr_params req) - {''lines''} \<noteq> {}
       then raiseE (ToolAdapterError ''unexpected_operational_parameters'')
       else (case dict_get_default (tr_params req) ''lines'' (JInt 100) of
               JInt n \<Rightarrow>
                 if n < 1 \<or> 500 < n then raiseE (ToolAdapterError ''invalid_log_line_count'')
                 else transport_service_logs client t n
             | _ \<Rightarrow> raiseE (ToolAdapterError ''invalid_log_line_count'')))"

definition service_restart_adapter :: "target_registry \<Rightarrow> 'w helper_client \<Rightarrow> 'w adapter" where
  "service_restart_adapter reg client req =
     bindE (liftE (adapter_target ''service.restart'' reg req)) (\<lambda>t.
     bindE (liftE (require_no_params req)) (\<lambda>_.
       if \<not> tr_mutates req then raiseE (ToolAdapterError ''restart_requires_mutation_flag'')
       else transport_service_restart client t))"

definition service_recover_adapter :: "target_registry \<Rightarrow> 'w helper_client \<Rightarrow> 'w adapter" where
  "service_recover_adapter reg client req =
     bindE (liftE (adapter_target ''service.recover'' reg req)) (\<lambda>t.
       if ot_key t \<noteq> ''dripvid'' then raiseE (ToolAdapterError ''recovery_target_denied'')
       else if dict_keys (tr_params req) \<noteq> {''component''}
       then raiseE (ToolAdapterError ''invalid_recovery_parameters'')
       else (case dict_get (tr_params req) ''component'' of
               JStr k \<Rightarrow>
                 if map_of recovery_components k = None
                 then raiseE (ToolAdapterError ''invalid_recovery_component'')
                 else if \<not> tr_mutates req then raiseE (ToolAdapterError ''recovery_requires_mutation_flag'')
                 else transport_service_recover client t k
             | _ \<Rightarrow> raiseE (ToolAdapterError ''invalid_recovery_component'')))"

definition deployment_deploy_adapter :: "target_registry \<Rightarrow> 'w helper_client \<Rightarrow> 'w adapter" where
  "deployment_deploy_adapter reg client req =
     bindE (liftE (adapter_target ''deployment.deploy'' reg req)) (\<lambda>t.
     bindE (liftE (require_no_params req)) (\<lambda>_.
       if \<not> tr_mutates req then raiseE (ToolAdapterError ''deployment_requires_mutation_flag'')
       else transport_deploy client t))"

definition deployment_rollback_adapter :: "target_registry \<Rightarrow> 'w helper_client \<Rightarrow> 'w adapter" where
  "deployment_rollback_adapter reg client req =
     bindE (liftE (adapter_target ''deployment.rollback'' reg req)) (\<lambda>t.
       if dict_keys (tr_params req) \<noteq> {''release_id''}
       then raiseE (ToolAdapterError ''invalid_rollback_parameters'')
       else (case dict_get (tr_params req) ''release_id'' of
               JStr r \<Rightarrow>
                 if \<not> release_id_valid r then raiseE (ToolAdapterError ''invalid_release_id'')
                 else if \<not> tr_mutates req then raiseE (ToolAdapterError ''rollback_requires_mutation_flag'')
                 else transport_rollback client t r
             | _ \<Rightarrow> raiseE (ToolAdapterError ''invalid_release_id'')))"

definition operational_adapters :: "target_registry \<Rightarrow> 'w helper_client \<Rightarrow> 'w registry" where
  "operational_adapters reg client =
     [(''system.health.read'', system_health_adapter reg client),
      (''service.status.read'', service_status_adapter reg client),
      (''service.logs.read'', service_logs_adapter reg client),
      (''service.restart'', service_restart_adapter reg client),
      (''service.recover'', service_recover_adapter reg client),
      (''deployment.deploy'', deployment_deploy_adapter reg client),
      (''deployment.rollback'', deployment_rollback_adapter reg client)]"

definition build_operational_tool_registry ::
  "target_registry \<Rightarrow> 'w helper_client \<Rightarrow> exn + 'w registry" where
  "build_operational_tool_registry reg client = build_registry [] (operational_adapters reg client)"

section \<open>The read-only host adapter\<close>

definition host_adapter_capabilities :: "host_capability set" where
  "host_adapter_capabilities = {HOST_HEALTH, HOST_RESOURCES, SERVICE_STATUS, CONTAINER_STATUS, LOGS_RECENT}"

definition host_adapter :: "string \<Rightarrow> exn + host_capability" where
  "host_adapter capability =
     (case capability_of (JStr capability) of
        None \<Rightarrow> Inl (ValueError ''unsupported host capability'')
      | Some c \<Rightarrow>
          if c \<notin> host_adapter_capabilities then Inl (ValueError ''unsupported host capability'')
          else Inr c)"

definition host_adapter_execute ::
  "allow_lists \<Rightarrow> host_capability \<Rightarrow> 'w helper_client \<Rightarrow> 'w adapter" where
  "host_adapter_execute al c client req =
     (let payload = [(''capability'', JStr (capability_value c)), (''params'', JObj (tr_params req))] @
                    (if c \<in> {HOST_HEALTH, HOST_RESOURCES} then []
                     else [(''target'', JStr (tr_target req))]) in
      case validate_request (JObj payload) al of
        Inl _ \<Rightarrow> raiseE (ToolAdapterError ''invalid_host_request'')
      | Inr hreq \<Rightarrow>
          (\<lambda>w. case client hreq w of
                 (Inl (HostHelperError _), w1) \<Rightarrow> (Inl (ToolAdapterError ''host_helper_unavailable''), w1)
               | (Inl e, w1) \<Rightarrow> (Inl e, w1)
               | (Inr resp, w1) \<Rightarrow>
                   if \<not> hp_ok resp
                   then (Inl (ToolAdapterError (case hp_error resp of
                           None \<Rightarrow> ''host_helper_failed''
                         | Some e \<Rightarrow> if e = [] then ''host_helper_failed'' else e)), w1)
                   else (Inr (hp_data resp), w1)))"

section \<open>What an adapter sends\<close>

text \<open>
  A client that keeps the requests it is given and answers as it likes: an adapter over it shows
  exactly what would reach the helper.
\<close>

definition logging_client ::
  "(helper_request list \<Rightarrow> helper_request \<Rightarrow> exn + helper_response) \<Rightarrow> helper_request list helper_client" where
  "logging_client answer req sent = (answer sent req, sent @ [req])"

definition sends :: "(helper_request \<Rightarrow> bool) \<Rightarrow> helper_request list \<Rightarrow> helper_request list \<Rightarrow> bool" where
  "sends P sent sent' \<longleftrightarrow> sent' = sent \<or> (\<exists>r. P r \<and> sent' = sent @ [r])"

definition sends_only :: "(helper_request \<Rightarrow> bool) \<Rightarrow> (helper_request list, 'x) op \<Rightarrow> bool" where
  "sends_only P m \<longleftrightarrow> keeps (sends P) m"

lemma sends_only_raise [simp]: "sends_only P (raiseE e)"
  by (simp add: sends_only_def keeps_def sends_def)

lemma sends_only_lift: "(\<And>x. r = Inr x \<Longrightarrow> sends_only P (f x)) \<Longrightarrow> sends_only P (bindE (liftE r) f)"
  by (cases r) (auto simp: sends_only_def keeps_def sends_def)

lemma sends_only_transport:
  "P req \<Longrightarrow> sends_only P (transport_execute (logging_client ans) req)"
  unfolding sends_only_def
  by (rule keepsI)
     (auto simp: transport_execute_def logging_client_def sends_def split: sum.split exn.split)

lemma sends_only_if: "(b \<Longrightarrow> sends_only P m) \<Longrightarrow> (\<not> b \<Longrightarrow> sends_only P n) \<Longrightarrow> sends_only P (if b then m else n)"
  by simp

text \<open>
  What justifies a request to the helper: the target is registered and lists the capability, and
  a capability of the helper that changes the host is only asked for by a request that says it
  mutates.
\<close>

definition justified :: "target_registry \<Rightarrow> tool_request \<Rightarrow> helper_request \<Rightarrow> bool" where
  "justified reg req r \<longleftrightarrow>
     (\<exists>t. map_of reg (tr_target req) = Some t \<and> tr_capability req \<in> set (ot_capabilities t)) \<and>
     (read_only_capability (hr_capability r) \<or> tr_mutates req)"

lemma adapter_target_Inr:
  "adapter_target c reg req = Inr t \<Longrightarrow>
   tr_capability req = c \<and> map_of reg (tr_target req) = Some t \<and> c \<in> set (ot_capabilities t)"
  by (auto simp: adapter_target_def require_target_def split: if_splits sum.splits option.splits)

lemma justifiedI:
  "adapter_target c reg req = Inr t \<Longrightarrow> read_only_capability (hr_capability r) \<or> tr_mutates req \<Longrightarrow>
   justified reg req r"
  by (auto simp: justified_def dest!: adapter_target_Inr)

lemma read_only_helper [simp]:
  "read_only_capability (hr_capability (helper_request_of HOST_HEALTH t p))"
  "read_only_capability (hr_capability (helper_request_of SERVICE_STATUS t p))"
  "read_only_capability (hr_capability (helper_request_of LOGS_RECENT t p))"
  by (simp_all add: helper_request_of_def read_only_capability_def)

lemma sends_health: "sends_only (justified reg req) (system_health_adapter reg (logging_client ans) req)"
  unfolding system_health_adapter_def transport_system_health_def
  by (intro sends_only_lift sends_only_transport justifiedI) simp_all

lemma sends_status: "sends_only (justified reg req) (service_status_adapter reg (logging_client ans) req)"
  unfolding service_status_adapter_def transport_service_status_def
  by (intro sends_only_lift sends_only_transport justifiedI) simp_all

lemma sends_restart: "sends_only (justified reg req) (service_restart_adapter reg (logging_client ans) req)"
  unfolding service_restart_adapter_def transport_service_restart_def
  by (intro sends_only_lift sends_only_if sends_only_transport sends_only_raise justifiedI) simp_all

lemma sends_deploy: "sends_only (justified reg req) (deployment_deploy_adapter reg (logging_client ans) req)"
  unfolding deployment_deploy_adapter_def transport_deploy_def
  by (intro sends_only_lift sends_only_if sends_only_transport sends_only_raise justifiedI) simp_all

lemma sends_json_case:
  "(\<And>n. v = JInt n \<Longrightarrow> sends_only P (f n)) \<Longrightarrow>
   sends_only P (case v of JInt n \<Rightarrow> f n | _ \<Rightarrow> raiseE e)"
  "(\<And>s. v = JStr s \<Longrightarrow> sends_only P (g s)) \<Longrightarrow>
   sends_only P (case v of JStr s \<Rightarrow> g s | _ \<Rightarrow> raiseE e)"
  by (cases v; simp)+

lemma sends_logs: "sends_only (justified reg req) (service_logs_adapter reg (logging_client ans) req)"
  unfolding service_logs_adapter_def transport_service_logs_def
  by (intro sends_only_lift sends_only_if sends_json_case sends_only_transport sends_only_raise justifiedI)
     simp_all

lemma sends_recover: "sends_only (justified reg req) (service_recover_adapter reg (logging_client ans) req)"
  unfolding service_recover_adapter_def transport_service_recover_def
  by (intro sends_only_lift sends_only_if sends_json_case sends_only_transport sends_only_raise justifiedI)
     simp_all

lemma sends_rollback: "sends_only (justified reg req) (deployment_rollback_adapter reg (logging_client ans) req)"
  unfolding deployment_rollback_adapter_def transport_rollback_def
  by (intro sends_only_lift sends_only_if sends_json_case sends_only_transport sends_only_raise justifiedI)
     simp_all

lemma operational_adapters_send:
  assumes "(c, ad) \<in> set (operational_adapters reg (logging_client ans))"
  shows "sends_only (justified reg req) (ad req)"
  using assms unfolding operational_adapters_def
  by (auto simp: sends_health sends_status sends_logs sends_restart sends_recover sends_deploy sends_rollback)

text \<open>The helper refuses every request of the rollback adapter.\<close>

lemma rollback_refused:
  "\<exists>e. validate_request (request_payload (helper_request_of DEPLOYMENT_ROLLBACK (Some t)
         [(''release_id'', JStr r)])) al = Inl (ValueError e)"
  by (auto simp: validate_request_payload_eq helper_request_of_def Let_def validate_target_def
      validate_params_def)

lemma rollback_sends:
  "sends_only (\<lambda>r. \<exists>t x. r = helper_request_of DEPLOYMENT_ROLLBACK (Some t) [(''release_id'', JStr x)])
     (deployment_rollback_adapter reg (logging_client ans) req)"
  unfolding deployment_rollback_adapter_def transport_rollback_def
  by (intro sends_only_lift sends_only_if sends_json_case sends_only_transport sends_only_raise) blast

lemma build_operational_registry:
  "build_operational_tool_registry reg client = Inr (operational_adapters reg client)"
  unfolding build_operational_tool_registry_def operational_adapters_def by simp

end
