(* ===== verification/Text_Search.thy ===== *)
theory Text_Search
  imports Json
begin

text \<open>
  What the chat takes from Python's text handling: \<open>str.lower\<close>, joining words with single blanks, the
  substring test, and \<open>re.search\<close> for the constructs its patterns use. A pattern denotes the list
  of ends a match may have, in the order the backtracking matcher tries them; a search takes the
  first position with an end and the first end there.
\<close>

section \<open>Lower case and words\<close>

definition lower_char :: "char \<Rightarrow> char" where
  "lower_char c =
     (let n = (of_char c :: nat) in
      if (65 \<le> n \<and> n \<le> 90) \<or> (192 \<le> n \<and> n \<le> 222 \<and> n \<noteq> 215) then char_of (n + 32) else c)"

definition lower_text :: "string \<Rightarrow> string" where
  "lower_text s = map lower_char s"

definition squeeze :: "string \<Rightarrow> string" where
  "squeeze s = join '' '' (split_ws s)"

definition contains_any :: "string \<Rightarrow> string list \<Rightarrow> bool" where
  "contains_any t ws \<longleftrightarrow> list_ex (\<lambda>w. is_infix w t) ws"

text \<open>\<open>str.isalnum\<close> or an underscore: the class \<^verbatim>\<open>\w\<close>.\<close>

definition word_char :: "char \<Rightarrow> bool" where
  "word_char c \<longleftrightarrow>
     (let n = (of_char c :: nat) in
      (48 \<le> n \<and> n \<le> 57) \<or> (65 \<le> n \<and> n \<le> 90) \<or> n = 95 \<or> (97 \<le> n \<and> n \<le> 122) \<or>
      n \<in> {170, 178, 179, 181, 185, 186, 188, 189, 190} \<or> (192 \<le> n \<and> n \<noteq> 215 \<and> n \<noteq> 247))"

section \<open>Patterns\<close>

text \<open>
  \<^verbatim>\<open>\s\<close>, \<^verbatim>\<open>[a-z0-9_-]\<close> and \<^verbatim>\<open>[\w-]\<close>; then \<^verbatim>\<open>[A-Za-z0-9]\<close> with nothing, \<^verbatim>\<open>_\<close> or \<^verbatim>\<open>_-\<close> added, \<^verbatim>\<open>[0-9A-Z]\<close>, \<^verbatim>\<open>[,{\s]\<close>,
  what is not a quote, blank, comma, semicolon or closing brace, and a set of characters.
\<close>

datatype char_class = Blank | Slug | WordOrDash | Alnum | AlnumUnder | AlnumDash | UpperAlnum | OpensItem | PlainValue | Among string

fun in_class :: "char_class \<Rightarrow> char \<Rightarrow> bool" where
  "in_class Blank c = is_space c"
| "in_class Slug c = ((let n = (of_char c :: nat) in (48 \<le> n \<and> n \<le> 57) \<or> (97 \<le> n \<and> n \<le> 122)) \<or>
     c = CHR ''_'' \<or> c = CHR ''-'')"
| "in_class WordOrDash c = (word_char c \<or> c = CHR ''-'')"
| "in_class Alnum c = ascii_alnum c"
| "in_class AlnumUnder c = (ascii_alnum c \<or> c = CHR ''_'')"
| "in_class AlnumDash c = (ascii_alnum c \<or> c = CHR ''_'' \<or> c = CHR ''-'')"
| "in_class UpperAlnum c = (let n = (of_char c :: nat) in (48 \<le> n \<and> n \<le> 57) \<or> (65 \<le> n \<and> n \<le> 90))"
| "in_class OpensItem c = (c = CHR '','' \<or> c = CHR ''{'' \<or> is_space c)"
| "in_class PlainValue c = (\<not> is_space c \<and> c \<notin> {CHR 0x22, CHR 0x27, CHR '','', CHR '';'', CHR ''}''})"
| "in_class (Among cs) c = (c \<in> set cs)"

text \<open>
  \<open>Edge\<close> is \<^verbatim>\<open>\b\<close>, \<open>LineStart\<close> is \<^verbatim>\<open>^\<close> with \<open>MULTILINE\<close>, \<open>One\<close> a class once, \<open>Run\<close> at least once, \<open>Times\<close> at least so often, \<open>Maybe\<close> an optional part, \<open>Mark\<close> the capturing
  group, \<open>NotAfter\<close> and \<open>NotBefore\<close> the negative look-behind and look-ahead of one character.
\<close>

datatype pattern =
    Lit string
  | Edge
  | LineStart
  | One char_class
  | Run char_class
  | Times char_class nat
  | NotAfter char_class
  | NotBefore char_class
  | Then pattern pattern
  | Or pattern pattern
  | Maybe pattern
  | Mark pattern

definition char_at :: "(char \<Rightarrow> bool) \<Rightarrow> string \<Rightarrow> nat \<Rightarrow> bool" where
  "char_at P t i \<longleftrightarrow> i < length t \<and> P (t ! i)"

definition char_before :: "(char \<Rightarrow> bool) \<Rightarrow> string \<Rightarrow> nat \<Rightarrow> bool" where
  "char_before P t i \<longleftrightarrow> 0 < i \<and> char_at P t (i - 1)"

definition edge_at :: "string \<Rightarrow> nat \<Rightarrow> bool" where
  "edge_at t i \<longleftrightarrow> char_before word_char t i \<noteq> char_at word_char t i"

primrec match_ends :: "pattern \<Rightarrow> string \<Rightarrow> nat \<Rightarrow> (nat \<times> string option) list" where
  "match_ends (Lit l) t i = (if take (length l) (drop i t) = l then [(i + length l, None)] else [])"
| "match_ends Edge t i = (if edge_at t i then [(i, None)] else [])"
| "match_ends LineStart t i = (if i = 0 \<or> char_before (\<lambda>c. c = CHR 0x0A) t i then [(i, None)] else [])"
| "match_ends (One c) t i = (if char_at (in_class c) t i then [(Suc i, None)] else [])"
| "match_ends (Times c n) t i =
     map (\<lambda>k. (i + k, None)) (rev [n..<Suc (length (takeWhile (in_class c) (drop i t)))])"
| "match_ends (Run c) t i =
     map (\<lambda>k. (i + k, None)) (rev [1..<Suc (length (takeWhile (in_class c) (drop i t)))])"
| "match_ends (NotAfter c) t i = (if char_before (in_class c) t i then [] else [(i, None)])"
| "match_ends (NotBefore c) t i = (if char_at (in_class c) t i then [] else [(i, None)])"
| "match_ends (Then p q) t i =
     concat (map (\<lambda>(j, g). map (\<lambda>(k, h). (k, case h of None \<Rightarrow> g | Some _ \<Rightarrow> h)) (match_ends q t j))
                 (match_ends p t i))"
| "match_ends (Or p q) t i = match_ends p t i @ match_ends q t i"
| "match_ends (Maybe p) t i = match_ends p t i @ [(i, None)]"
| "match_ends (Mark p) t i = map (\<lambda>(j, _). (j, Some (take (j - i) (drop i t)))) (match_ends p t i)"

fun seqs :: "pattern list \<Rightarrow> pattern" where
  "seqs [] = Lit []"
| "seqs [p] = p"
| "seqs (p # q # ps) = Then p (seqs (q # ps))"

fun one_of :: "pattern \<Rightarrow> pattern list \<Rightarrow> pattern" where
  "one_of p [] = p"
| "one_of p (q # qs) = Or p (one_of q qs)"

definition search_ends :: "pattern \<Rightarrow> string \<Rightarrow> (nat \<times> string option) list" where
  "search_ends p t = concat (map (match_ends p t) [0..<Suc (length t)])"

definition searches :: "pattern \<Rightarrow> string \<Rightarrow> bool" where
  "searches p t \<longleftrightarrow> search_ends p t \<noteq> []"

text \<open>\<open>match.group(1)\<close> of the match \<open>re.search\<close> finds.\<close>

definition search_group :: "pattern \<Rightarrow> string \<Rightarrow> string option" where
  "search_group p t = (case search_ends p t of [] \<Rightarrow> None | (j, g) # _ \<Rightarrow> g)"

section \<open>Laws\<close>

lemma is_infix_iff: "is_infix p s \<longleftrightarrow> (\<exists>a b. s = a @ p @ b)"
proof
  assume "is_infix p s"
  then obtain i where "take (length p) (drop i s) = p" by (auto simp: is_infix_def)
  then have "s = take i s @ p @ drop (length p) (drop i s)" by (metis append_take_drop_id)
  then show "\<exists>a b. s = a @ p @ b" by blast
next
  assume "\<exists>a b. s = a @ p @ b"
  then obtain a b where "s = a @ p @ b" by blast
  then have "take (length p) (drop (length a) s) = p" and "length a \<in> set [0..<Suc (length s)]"
    by (simp_all del: upt_Suc)
  then show "is_infix p s" unfolding is_infix_def by blast
qed

lemma is_infix_refl [simp]: "is_infix p p"
  by (metis append_Nil append_Nil2 is_infix_iff)

lemma is_infix_append [simp]: "is_infix p s \<Longrightarrow> is_infix p (a @ s @ b)"
  by (metis append.assoc is_infix_iff)

lemma contains_any_Nil [simp]: "\<not> contains_any t []"
  by (simp add: contains_any_def)

lemma contains_any_Cons [simp]: "contains_any t (w # ws) \<longleftrightarrow> is_infix w t \<or> contains_any t ws"
  by (simp add: contains_any_def)

lemma searches_iff: "searches p t \<longleftrightarrow> (\<exists>i \<le> length t. match_ends p t i \<noteq> [])"
  by (force simp: searches_def search_ends_def less_Suc_eq_le simp del: upt_Suc)

lemma searches_Or [simp]: "searches (Or p q) t \<longleftrightarrow> searches p t \<or> searches q t"
  by (auto simp: searches_iff)

text \<open>A literal is found exactly when it is a substring.\<close>

lemma searches_Lit: "searches (Lit l) t \<longleftrightarrow> is_infix l t"
proof -
  have "searches (Lit l) t \<longleftrightarrow> (\<exists>i \<le> length t. take (length l) (drop i t) = l)"
    unfolding searches_iff by (rule ex_cong1) simp
  then show ?thesis by (simp add: is_infix_def Bex_def less_Suc_eq_le del: upt_Suc)
qed

text \<open>A literal between two word edges: the whole word occurs.\<close>

definition whole_word :: "string \<Rightarrow> pattern" where
  "whole_word w = seqs [Edge, Lit w, Edge]"

lemma searches_whole_word:
  "searches (whole_word w) t \<longleftrightarrow>
     (\<exists>i \<le> length t. edge_at t i \<and> take (length w) (drop i t) = w \<and> edge_at t (i + length w))"
  by (auto simp: searches_iff whole_word_def)

lemma char_before_append: "char_before P (a @ b) (length a) \<longleftrightarrow> a \<noteq> [] \<and> P (last a)"
  by (auto simp: char_before_def char_at_def nth_append last_conv_nth)

lemma char_at_append: "char_at P (a @ b) (length a) \<longleftrightarrow> b \<noteq> [] \<and> P (hd b)"
  by (auto simp: char_at_def nth_append hd_conv_nth)

text \<open>A word of word characters between ends or blanks is found.\<close>

lemma searches_whole_wordI:
  assumes t: "t = a @ w @ b" and w: "w \<noteq> []" "word_char (hd w)" "word_char (last w)"
    and a: "a = [] \<or> \<not> word_char (last a)" and b: "b = [] \<or> \<not> word_char (hd b)"
  shows "searches (whole_word w) t"
  unfolding searches_whole_word
proof (intro exI conjI)
  show "length a \<le> length t" and "take (length w) (drop (length a) t) = w" using t by simp_all
  have "char_before word_char t (length a) \<longleftrightarrow> False"
    unfolding t char_before_append using a by auto
  moreover have "char_at word_char t (length a)"
    unfolding t char_at_append using w by simp
  ultimately show "edge_at t (length a)" by (simp add: edge_at_def)
  have ab: "t = (a @ w) @ b" using t by simp
  have "char_before word_char t (length (a @ w))"
    unfolding ab char_before_append using w by simp
  moreover have "\<not> char_at word_char t (length (a @ w))"
    unfolding ab char_at_append using b by auto
  ultimately show "edge_at t (length a + length w)" by (simp add: edge_at_def)
qed

end
