(* ===== verification/Mcp_Client.thy ===== *)
theory Mcp_Client
  imports Operations Text_Search Complex_Main "HOL-Library.Word"
begin

text \<open>
  The client of DripVid's MCP server and its adapters: \<open>dripvid_mcp/client.py\<close>, \<open>dripvid_mcp/adapter.py\<close> and
  \<open>dripvid_mcp/runtime.py\<close>. A request is what the HTTP client is given; the server is a function of it and of the
  outside world.
\<close>

section \<open>The client\<close>

record mcp_request =
  mq_headers :: "(string \<times> string) list"
  mq_payload :: json

text \<open>A response with its headers under their lower-case names; bytes are characters.\<close>

record mcp_reply =
  mr_status :: int
  mr_headers :: "(string \<times> string) list"
  mr_body :: string

text \<open>\<open>None\<close> is an \<open>httpx.HTTPError\<close> of the transport.\<close>

type_synonym 'w mcp_server = "mcp_request \<Rightarrow> 'w \<Rightarrow> mcp_reply option \<times> 'w"

record 'w mcp_env =
  me_token :: string
  me_server :: "'w mcp_server"
  me_decode :: "string \<Rightarrow> string option"

record 'w mcp_client =
  mc_world :: 'w
  mc_session :: "string option"
  mc_initialized :: bool
  mc_next_id :: int

definition new_client :: "'w \<Rightarrow> 'w mcp_client" where
  "new_client w = \<lparr>mc_world = w, mc_session = None, mc_initialized = False, mc_next_id = 1\<rparr>"

definition client_check :: "string \<Rightarrow> string \<Rightarrow> rat \<Rightarrow> exn + unit" where
  "client_check token socket_path timeout =
     (if token = [] \<or> list_ex is_space token then Inl (ValueError ''DripVid MCP token is invalid'')
      else if take 1 socket_path \<noteq> ''/'' \<or> is_infix ''://'' socket_path
      then Inl (ValueError ''DripVid MCP socket path is invalid'')
      else if timeout < 1 / 2 \<or> 30 < timeout then Inl (ValueError ''DripVid MCP timeout is outside the allowed range'')
      else Inr ())"

definition protocol_version :: string where "protocol_version = ''2025-11-25''"

definition mcp_max_bytes :: int where "mcp_max_bytes = 256 * 1024"

definition allowed_services :: "string list" where
  "allowed_services = [''dripvid'', ''jellyfin'', ''cloudflared'', ''dripvid-requests'']"

definition allocate_id :: "('w mcp_client, int) op" where
  "allocate_id c = (Inr (mc_next_id c), c\<lparr>mc_next_id := mc_next_id c + 1\<rparr>)"

definition mcp_headers :: "string \<Rightarrow> bool \<Rightarrow> string option \<Rightarrow> (string \<times> string) list" where
  "mcp_headers token initialized session =
     [(''authorization'', ''Bearer '' @ token), (''content-type'', ''application/json''),
      (''accept'', ''application/json, text/event-stream'')] @
     (if initialized
      then (''mcp-protocol-version'', protocol_version) #
           (case session of None \<Rightarrow> [] | Some i \<Rightarrow> if i = [] then [] else [(''mcp-session-id'', i)])
      else [])"

definition mcp_post :: "'w mcp_env \<Rightarrow> json \<Rightarrow> bool \<Rightarrow> ('w mcp_client, mcp_reply) op" where
  "mcp_post env payload initialized c =
     (case me_server env \<lparr>mq_headers = mcp_headers (me_token env) initialized (mc_session c), mq_payload = payload\<rparr> (mc_world c) of
        (None, w) \<Rightarrow> (Inl (ValueError ''DripVid MCP transport failed''), c\<lparr>mc_world := w\<rparr>)
      | (Some reply, w) \<Rightarrow> (Inr reply, c\<lparr>mc_world := w\<rparr>))"

text \<open>The \<open>data:\<close> lines of an event stream, or the whole body; \<open>None\<close> when any of them is no JSON text.\<close>

fun loads_all :: "string list \<Rightarrow> json list option" where
  "loads_all [] = Some []"
| "loads_all (t # ts) =
     (case json_loads t of
        None \<Rightarrow> None
      | Some v \<Rightarrow> (case loads_all ts of None \<Rightarrow> None | Some vs \<Rightarrow> Some (v # vs)))"

definition reply_header :: "mcp_reply \<Rightarrow> string \<Rightarrow> string option" where
  "reply_header reply name = map_of (mr_headers reply) name"

definition rpc_candidates :: "(string \<Rightarrow> string option) \<Rightarrow> mcp_reply \<Rightarrow> json list option" where
  "rpc_candidates decode reply =
     (let content_type = casefold (case reply_header reply ''content-type'' of None \<Rightarrow> [] | Some t \<Rightarrow> t) in
      case decode (mr_body reply) of
        None \<Rightarrow> None
      | Some t \<Rightarrow>
          if is_infix ''text/event-stream'' content_type
          then loads_all (map (\<lambda>l. strip (drop 5 l)) (filter (\<lambda>l. take 5 l = ''data:'') (splitlines t)))
          else loads_all [t])"

definition answers_request :: "int \<Rightarrow> json \<Rightarrow> bool" where
  "answers_request request_id v = (case v of JObj d \<Rightarrow> py_eq (dict_get d ''id'') (JInt request_id) | _ \<Rightarrow> False)"

definition decode_rpc_message :: "(string \<Rightarrow> string option) \<Rightarrow> mcp_reply \<Rightarrow> int \<Rightarrow> exn + dict" where
  "decode_rpc_message decode reply request_id =
     (case rpc_candidates decode reply of
        None \<Rightarrow> Inl (ValueError ''DripVid MCP response is malformed'')
      | Some vs \<Rightarrow>
          (case find (answers_request request_id) (rev vs) of
             Some (JObj d) \<Rightarrow> Inr d
           | _ \<Rightarrow> Inl (ValueError ''DripVid MCP response is invalid'')))"

definition checked_length :: "mcp_reply \<Rightarrow> exn + unit" where
  "checked_length reply =
     (case reply_header reply ''content-length'' of
        None \<Rightarrow> Inr ()
      | Some t \<Rightarrow>
          (case py_int t of
             None \<Rightarrow> Inl (ValueError ''DripVid MCP response length is invalid'')
           | Some n \<Rightarrow> if n > mcp_max_bytes then Inl (ValueError ''DripVid MCP response is too large'') else Inr ()))"

text \<open>What \<open>_post_rpc\<close> makes of a response.\<close>

definition rpc_result :: "(string \<Rightarrow> string option) \<Rightarrow> int \<Rightarrow> mcp_reply \<Rightarrow> exn + json" where
  "rpc_result decode request_id reply =
     (if 300 \<le> mr_status reply \<and> mr_status reply < 400 then Inl (ValueError ''DripVid MCP redirects are not allowed'')
      else if \<not> (200 \<le> mr_status reply \<and> mr_status reply \<le> 299) then Inl (ValueError ''DripVid MCP request failed'')
      else case checked_length reply of
        Inl e \<Rightarrow> Inl e
      | Inr _ \<Rightarrow>
          if int (length (mr_body reply)) > mcp_max_bytes then Inl (ValueError ''DripVid MCP response is too large'')
          else case decode_rpc_message decode reply request_id of
            Inl e \<Rightarrow> Inl e
          | Inr d \<Rightarrow>
              if dict_get d ''jsonrpc'' \<noteq> JStr ''2.0'' \<or> \<not> py_eq (dict_get d ''id'') (JInt request_id)
              then Inl (ValueError ''DripVid MCP response is invalid'')
              else if ''error'' \<in> dict_keys d then Inl (ValueError ''DripVid MCP request failed'')
              else if ''result'' \<notin> dict_keys d then Inl (ValueError ''DripVid MCP response is invalid'')
              else Inr (dict_get d ''result''))"

definition post_rpc ::
  "'w mcp_env \<Rightarrow> json \<Rightarrow> int \<Rightarrow> bool \<Rightarrow> ('w mcp_client, json \<times> mcp_reply) op" where
  "post_rpc env payload request_id initialized =
     bindE (mcp_post env payload initialized) (\<lambda>reply.
       liftE (case rpc_result (me_decode env) request_id reply of Inl e \<Rightarrow> Inl e | Inr v \<Rightarrow> Inr (v, reply)))"

definition initialize_payload :: "int \<Rightarrow> json" where
  "initialize_payload request_id =
     JObj [(''jsonrpc'', JStr ''2.0''), (''id'', JInt request_id), (''method'', JStr ''initialize''),
       (''params'', JObj [(''protocolVersion'', JStr protocol_version), (''capabilities'', JObj []),
         (''clientInfo'', JObj [(''name'', JStr ''ai-hq''), (''version'', JStr ''0.1.0'')])])]"

definition initialized_payload :: json where
  "initialized_payload = JObj [(''jsonrpc'', JStr ''2.0''), (''method'', JStr ''notifications/initialized'')]"

definition call_payload :: "int \<Rightarrow> string \<Rightarrow> dict \<Rightarrow> json" where
  "call_payload request_id name arguments =
     JObj [(''jsonrpc'', JStr ''2.0''), (''id'', JInt request_id), (''method'', JStr ''tools/call''),
       (''params'', JObj [(''name'', JStr name), (''arguments'', JObj arguments)])]"

definition send_initialized_notification :: "'w mcp_env \<Rightarrow> ('w mcp_client, unit) op" where
  "send_initialized_notification env =
     bindE (mcp_post env initialized_payload True) (\<lambda>reply.
       if 300 \<le> mr_status reply \<and> mr_status reply < 400 then raiseE (ValueError ''DripVid MCP redirects are not allowed'')
       else if mr_status reply \<notin> {200, 202, 204}
       then raiseE (ValueError ''DripVid MCP initialization notification failed'')
       else returnE ())"

definition initialize_error :: exn where
  "initialize_error = ValueError ''DripVid MCP initialization response is invalid''"

definition initialize :: "'w mcp_env \<Rightarrow> ('w mcp_client, unit) op" where
  "initialize env =
     bindE (readE mc_initialized) (\<lambda>ready.
       if ready then returnE ()
       else bindE allocate_id (\<lambda>request_id.
         bindE (post_rpc env (initialize_payload request_id) request_id False) (\<lambda>(result, reply).
           case result of
             JObj d \<Rightarrow>
               if dict_get d ''protocolVersion'' \<noteq> JStr protocol_version then raiseE initialize_error
               else bindE (case reply_header reply ''mcp-session-id'' of
                             None \<Rightarrow> returnE ()
                           | Some i \<Rightarrow> if i = [] then returnE () else writeE (\<lambda>c. c\<lparr>mc_session := Some i\<rparr>)) (\<lambda>_.
                    bindE (send_initialized_notification env) (\<lambda>_. writeE (\<lambda>c. c\<lparr>mc_initialized := True\<rparr>)))
           | _ \<Rightarrow> raiseE initialize_error)))"

text \<open>The text in the result of a tool call.\<close>

definition tool_text :: "json \<Rightarrow> exn + string" where
  "tool_text result =
     (let bad = ValueError ''DripVid MCP tool response is invalid'' in
      case result of
        JObj d \<Rightarrow>
          if dict_get d ''isError'' = JBool True then Inl (ValueError ''DripVid MCP tool returned an error'')
          else (case dict_get d ''content'' of
                  JList [JObj item] \<Rightarrow>
                    if dict_get item ''type'' \<noteq> JStr ''text'' then Inl bad
                    else (case dict_get item ''text'' of JStr t \<Rightarrow> Inr t | _ \<Rightarrow> Inl bad)
                | _ \<Rightarrow> Inl bad)
      | _ \<Rightarrow> Inl bad)"

definition call_tool :: "'w mcp_env \<Rightarrow> string \<Rightarrow> dict \<Rightarrow> ('w mcp_client, string) op" where
  "call_tool env name arguments =
     bindE (initialize env) (\<lambda>_.
     bindE allocate_id (\<lambda>request_id.
     bindE (post_rpc env (call_payload request_id name arguments) request_id True) (\<lambda>(result, reply).
       liftE (tool_text result))))"

definition mcp_service_status :: "'w mcp_env \<Rightarrow> string \<Rightarrow> ('w mcp_client, string) op" where
  "mcp_service_status env service =
     (if service \<notin> set allowed_services then raiseE (ValueError ''DripVid MCP service is not allowlisted'')
      else call_tool env ''service_status'' [(''service'', JStr service)])"

section \<open>The adapters\<close>

definition dripvid_capabilities :: "string list" where
  "dripvid_capabilities = [''dripvid.health.read'', ''dripvid.release.read'', ''dripvid.config.read'', ''dripvid.service.status.read'']"

text \<open>\<open>_operation\<close>: the call to make.\<close>

definition mcp_operation :: "'w mcp_env \<Rightarrow> string \<Rightarrow> tool_request \<Rightarrow> exn + ('w mcp_client, string) op" where
  "mcp_operation env capability req =
     (let plain = (\<lambda>name. if tr_params req \<noteq> [] then Inl (ToolAdapterError ''invalid_params'') else Inr (call_tool env name [])) in
      if capability = ''dripvid.health.read'' then plain ''dripvid_health''
      else if capability = ''dripvid.release.read'' then plain ''dripvid_git_status''
      else if capability = ''dripvid.config.read'' then plain ''dripvid_config''
      else if capability = ''dripvid.service.status.read''
      then if dict_keys (tr_params req) \<noteq> {''service''} then Inl (ToolAdapterError ''invalid_params'')
           else (case dict_get (tr_params req) ''service'' of
                   JStr service \<Rightarrow>
                     if service \<in> set allowed_services then Inr (mcp_service_status env service)
                     else Inl (ToolAdapterError ''invalid_service'')
                 | _ \<Rightarrow> Inl (ToolAdapterError ''invalid_service''))
      else Inl (ToolAdapterError ''invalid_capability''))"

definition mcp_failure :: "exn \<Rightarrow> exn" where
  "mcp_failure e =
     (case e of OSError _ \<Rightarrow> ToolAdapterError ''dripvid_mcp_failed''
              | RuntimeError _ \<Rightarrow> ToolAdapterError ''dripvid_mcp_failed''
              | ValueError _ \<Rightarrow> ToolAdapterError ''dripvid_mcp_failed''
              | _ \<Rightarrow> e)"

definition mcp_adapter :: "'w mcp_env \<Rightarrow> string \<Rightarrow> 'w mcp_client adapter" where
  "mcp_adapter env capability req c =
     (if tr_target req \<noteq> ''dripvid'' then (Inl (ToolAdapterError ''invalid_target''), c)
      else case mcp_operation env capability req of
        Inl e \<Rightarrow> (Inl e, c)
      | Inr operation \<Rightarrow>
          (case operation c of
             (Inl e, t) \<Rightarrow> (Inl (mcp_failure e), t)
           | (Inr text', t) \<Rightarrow> (Inr [(''text'', JStr text')], t)))"

definition dripvid_mcp_adapters :: "'w mcp_env \<Rightarrow> 'w mcp_client registry" where
  "dripvid_mcp_adapters env = map (\<lambda>capability. (capability, mcp_adapter env capability)) dripvid_capabilities"

section \<open>The token file\<close>

text \<open>What \<open>lstat\<close> and \<open>read_text\<close> give; the mode is the 32-bit \<open>st_mode\<close>.\<close>

record token_file =
  tf_mode :: "32 word"
  tf_size :: int
  tf_content :: string

definition file_type :: "32 word \<Rightarrow> 32 word" where
  "file_type mode = and mode 0xF000"

definition token_in_file :: "string \<Rightarrow> bool \<Rightarrow> token_file option \<Rightarrow> exn + string" where
  "token_in_file name windows f =
     (case f of
        None \<Rightarrow> Inl (ValueError (name @ '' must be a regular file''))
      | Some t \<Rightarrow>
          if file_type (tf_mode t) = 0xA000 \<or> file_type (tf_mode t) \<noteq> 0x8000
          then Inl (ValueError (name @ '' must be a regular non-symlink file''))
          else if \<not> windows \<and> and (tf_mode t) 0x3F \<noteq> 0
          then Inl (ValueError (name @ '' file permissions are too broad''))
          else if \<not> windows \<and> and (tf_mode t) 0x100 = 0
          then Inl (ValueError (name @ '' file must be owner-readable''))
          else if tf_size t > 4096 then Inl (ValueError (name @ '' file is too large''))
          else let token = strip (tf_content t) in
            if token = [] then Inl (ValueError (name @ '' file is empty''))
            else if list_ex is_space token then Inl (ValueError (name @ '' contains invalid whitespace''))
            else Inr token)"

definition load_token :: "bool \<Rightarrow> token_file option \<Rightarrow> exn + string" where
  "load_token = token_in_file ''DripVid MCP token''"

end
