(* ===== verification/Mcp_Laws.thy ===== *)
theory Mcp_Laws
  imports Mcp_Client
begin

text \<open>
  The MCP client follows its protocol: whatever the server answers, the requests it sends, in their order, are
  accepted by an automaton of greetings and calls.
\<close>

section \<open>The protocol\<close>

text \<open>
  New: nothing was sent. Greeting: an \<open>initialize\<close> was sent last. Noticed: the notification that ends the greeting was
  sent last. Live: a tool was called. The number is the next identifier.
\<close>

datatype mcp_phase = New | Greeting | Noticed | Live

definition mcp_tools :: "(string \<times> dict) list" where
  "mcp_tools =
     [(''dripvid_health'', []), (''dripvid_git_status'', []), (''dripvid_config'', [])] @
     map (\<lambda>service. (''service_status'', [(''service'', JStr service)])) allowed_services"

definition protocol_step :: "mcp_phase \<times> int \<Rightarrow> json \<Rightarrow> (mcp_phase \<times> int) option" where
  "protocol_step p payload =
     (case p of (ph, n) \<Rightarrow>
        if payload = initialize_payload n then (if ph = Live then None else Some (Greeting, n + 1))
        else if payload = initialized_payload then (if ph = Greeting then Some (Noticed, n) else None)
        else if \<exists>(name, arguments) \<in> set mcp_tools. payload = call_payload n name arguments
        then (if ph = Noticed \<or> ph = Live then Some (Live, n + 1) else None)
        else None)"

fun protocol_run :: "mcp_phase \<times> int \<Rightarrow> json list \<Rightarrow> (mcp_phase \<times> int) option" where
  "protocol_run p [] = Some p"
| "protocol_run p (x # xs) = (case protocol_step p x of None \<Rightarrow> None | Some q \<Rightarrow> protocol_run q xs)"

lemma protocol_run_append:
  "protocol_run p (xs @ ys) = (case protocol_run p xs of None \<Rightarrow> None | Some q \<Rightarrow> protocol_run q ys)"
  by (induction xs arbitrary: p) (auto split: option.splits)

lemma payloads_differ [simp]:
  "initialize_payload n \<noteq> initialized_payload" "initialized_payload \<noteq> initialize_payload n"
  "call_payload n a d \<noteq> initialized_payload" "initialized_payload \<noteq> call_payload n a d"
  "call_payload n a d \<noteq> initialize_payload m" "initialize_payload m \<noteq> call_payload n a d"
  by (simp_all add: initialize_payload_def initialized_payload_def call_payload_def)

lemma protocol_step_call:
  "(name, arguments) \<in> set mcp_tools \<Longrightarrow> ph = Noticed \<or> ph = Live \<Longrightarrow>
   protocol_step (ph, n) (call_payload n name arguments) = Some (Live, n + 1)"
  unfolding protocol_step_def by (auto simp del: set_append)

section \<open>A client whose requests are kept\<close>

text \<open>A server that keeps the requests it is given and answers as it likes.\<close>

definition logging_server :: "(mcp_request list \<Rightarrow> mcp_request \<Rightarrow> mcp_reply option) \<Rightarrow> mcp_request list mcp_server" where
  "logging_server answer req sent = (answer sent req, sent @ [req])"

definition payloads :: "mcp_request list mcp_client \<Rightarrow> json list" where
  "payloads c = map mq_payload (mc_world c)"

definition in_protocol :: "mcp_request list mcp_client \<Rightarrow> bool" where
  "in_protocol c \<longleftrightarrow>
     (\<exists>ph. protocol_run (New, 1) (payloads c) = Some (ph, mc_next_id c) \<and>
        (if mc_initialized c then ph = Noticed \<or> ph = Live else ph \<noteq> Live))"

text \<open>The headers: always the token, and the protocol version exactly on what is not an \<open>initialize\<close>.\<close>

definition headers_fit :: "string \<Rightarrow> mcp_request \<Rightarrow> bool" where
  "headers_fit token q \<longleftrightarrow>
     map_of (mq_headers q) ''authorization'' = Some (''Bearer '' @ token) \<and>
     (map_of (mq_headers q) ''mcp-protocol-version'' = None \<longleftrightarrow> (\<exists>n. mq_payload q = initialize_payload n))"

definition fitting :: "string \<Rightarrow> mcp_request list mcp_client \<Rightarrow> bool" where
  "fitting token c \<longleftrightarrow> list_all (headers_fit token) (mc_world c)"

lemma headers_fit_mcp:
  "headers_fit token \<lparr>mq_headers = mcp_headers token i s, mq_payload = p\<rparr> \<longleftrightarrow> (i \<longleftrightarrow> \<not> (\<exists>n. p = initialize_payload n))"
  by (auto simp: headers_fit_def mcp_headers_def)

text \<open>What a client keeps: its requests follow the protocol and fit.\<close>

definition client_ok :: "string \<Rightarrow> mcp_request list mcp_client \<Rightarrow> bool" where
  "client_ok token c \<longleftrightarrow> in_protocol c \<and> fitting token c"

lemma post_steps:
  assumes "mcp_post env payload i c = (r, t)" and "me_server env = logging_server ans"
  shows "t = c\<lparr>mc_world := mc_world c @ [\<lparr>mq_headers = mcp_headers (me_token env) i (mc_session c), mq_payload = payload\<rparr>]\<rparr>"
  using assms by (auto simp: mcp_post_def logging_server_def split: option.splits)

lemma post_rpc_steps:
  assumes "post_rpc env payload n i c = (r, t)" and "me_server env = logging_server ans"
  shows "t = c\<lparr>mc_world := mc_world c @ [\<lparr>mq_headers = mcp_headers (me_token env) i (mc_session c), mq_payload = payload\<rparr>]\<rparr>"
proof -
  obtain q u where p: "mcp_post env payload i c = (q, u)" by (cases "mcp_post env payload i c")
  with assms(1) have "t = u" by (auto simp: post_rpc_def bindE_def split: sum.splits)
  with post_steps[OF p assms(2)] show ?thesis by simp
qed

lemma payloads_sent [simp]:
  "payloads (c\<lparr>mc_world := mc_world c @ [q]\<rparr>) = payloads c @ [mq_payload q]"
  by (simp add: payloads_def)

definition ready_at :: "string \<Rightarrow> mcp_phase set \<Rightarrow> bool \<Rightarrow> mcp_request list mcp_client \<Rightarrow> bool" where
  "ready_at token P b c \<longleftrightarrow>
     fitting token c \<and> mc_initialized c = b \<and>
     (\<exists>ph \<in> P. protocol_run (New, 1) (payloads c) = Some (ph, mc_next_id c))"

lemma client_ok_ready:
  "client_ok token c \<longleftrightarrow> ready_at token {Noticed, Live} True c \<or> ready_at token {New, Greeting, Noticed} False c"
proof -
  have "ph \<noteq> Live \<longleftrightarrow> ph \<in> {New, Greeting, Noticed}" for ph by (cases ph) auto
  then show ?thesis by (auto simp: client_ok_def in_protocol_def ready_at_def split: if_splits)
qed

lemma notification_ready:
  assumes "send_initialized_notification env c = (r, t)" and "me_server env = logging_server ans"
    and "ready_at (me_token env) {Greeting} False c"
  shows "ready_at (me_token env) {Noticed} False t"
proof -
  obtain q u where p: "mcp_post env initialized_payload True c = (q, u)" by (cases "mcp_post env initialized_payload True c")
  with assms(1) have "t = u" by (auto simp: send_initialized_notification_def bindE_def split: sum.splits if_splits)
  with post_steps[OF p assms(2)] assms(3) show ?thesis
    by (auto simp: ready_at_def fitting_def headers_fit_mcp protocol_run_append protocol_step_def)
qed

lemma initialize_ok:
  assumes run: "initialize env c = (r, t)" and s: "me_server env = logging_server ans" and c: "client_ok (me_token env) c"
  shows "client_ok (me_token env) t" and "r = Inr u \<Longrightarrow> mc_initialized t"
proof -
  let ?tok = "me_token env"
  have "client_ok ?tok t \<and> (r = Inr u \<longrightarrow> mc_initialized t)"
  proof (cases "mc_initialized c")
    case True
    with run c show ?thesis by (auto simp: initialize_def bindE_def)
  next
    case False
    with c have c': "ready_at ?tok {New, Greeting, Noticed} False c" by (auto simp: client_ok_ready ready_at_def)
    define d where "d = c\<lparr>mc_next_id := mc_next_id c + 1\<rparr>"
    obtain q e where p: "post_rpc env (initialize_payload (mc_next_id c)) (mc_next_id c) False d = (q, e)"
      by (cases "post_rpc env (initialize_payload (mc_next_id c)) (mc_next_id c) False d")
    have e: "ready_at ?tok {Greeting} False e"
      using c' post_rpc_steps[OF p s]
      by (auto simp: d_def ready_at_def fitting_def headers_fit_mcp payloads_def protocol_run_append protocol_step_def)
    then have e_ok: "client_ok ?tok e" by (auto simp: client_ok_ready ready_at_def)
    show ?thesis
    proof (cases q)
      case (Inl x)
      with run False p e_ok show ?thesis by (auto simp: initialize_def bindE_def allocate_id_def d_def)
    next
      case (Inr v)
      obtain result reply where v: "v = (result, reply)" by (cases v)
      show ?thesis
      proof (cases "\<exists>m. result = JObj m \<and> dict_get m ''protocolVersion'' = JStr protocol_version")
        case False
        with run \<open>\<not> mc_initialized c\<close> p Inr v e_ok show ?thesis
          by (cases result) (auto simp: initialize_def bindE_def allocate_id_def d_def initialize_error_def)
      next
        case True
        define f where "f = (case reply_header reply ''mcp-session-id'' of None \<Rightarrow> e
                             | Some i \<Rightarrow> if i = [] then e else e\<lparr>mc_session := Some i\<rparr>)"
        obtain z g where n: "send_initialized_notification env f = (z, g)" by (cases "send_initialized_notification env f")
        have f: "ready_at ?tok {Greeting} False f"
          using e by (auto simp: f_def ready_at_def fitting_def payloads_def split: option.splits)
        from notification_ready[OF n s f] have g: "ready_at ?tok {Noticed} False g" .
        then have "client_ok ?tok g" "client_ok ?tok (g\<lparr>mc_initialized := True\<rparr>)"
          by (auto simp: client_ok_ready ready_at_def fitting_def payloads_def)
        moreover from True obtain m where m: "result = JObj m" "dict_get m ''protocolVersion'' = JStr protocol_version" by blast
        then have "(case z of Inl x \<Rightarrow> (Inl x, g) | Inr _ \<Rightarrow> (Inr (), g\<lparr>mc_initialized := True\<rparr>)) = (r, t)"
          using run \<open>\<not> mc_initialized c\<close> p Inr v n
          by (auto simp: initialize_def bindE_def allocate_id_def d_def[symmetric] f_def split: option.splits sum.splits if_splits)
        ultimately show ?thesis by (auto split: sum.splits)
      qed
    qed
  qed
  then show "client_ok ?tok t" and "r = Inr u \<Longrightarrow> mc_initialized t" by auto
qed

lemma call_tool_ok:
  assumes run: "call_tool env name arguments c = (r, t)" and s: "me_server env = logging_server ans"
    and c: "client_ok (me_token env) c" and tool: "(name, arguments) \<in> set mcp_tools"
  shows "client_ok (me_token env) t"
proof -
  let ?tok = "me_token env"
  obtain q d where i: "initialize env c = (q, d)" by (cases "initialize env c")
  note ok = initialize_ok[OF i s c]
  show ?thesis
  proof (cases q)
    case (Inl e)
    with run i ok show ?thesis by (auto simp: call_tool_def bindE_def)
  next
    case (Inr v)
    then have d: "ready_at ?tok {Noticed, Live} True d" using ok by (auto simp: client_ok_ready ready_at_def)
    define e where "e = d\<lparr>mc_next_id := mc_next_id d + 1\<rparr>"
    let ?p = "call_payload (mc_next_id d) name arguments"
    obtain z f where p: "post_rpc env ?p (mc_next_id d) True e = (z, f)" by (cases "post_rpc env ?p (mc_next_id d) True e")
    with run i Inr have "t = f"
      by (cases z) (auto simp: call_tool_def bindE_def allocate_id_def e_def split: prod.splits)
    moreover have "ready_at ?tok {Noticed, Live} True f"
    proof -
      from d obtain ph where ph: "ph = Noticed \<or> ph = Live" "protocol_run (New, 1) (payloads d) = Some (ph, mc_next_id d)"
        by (auto simp: ready_at_def)
      from protocol_step_call[OF tool ph(1), of "mc_next_id d"] ph(2)
      have "protocol_run (New, 1) (payloads d @ [?p]) = Some (Live, mc_next_id d + 1)" by (simp add: protocol_run_append)
      with d post_rpc_steps[OF p s] show ?thesis
        by (simp add: e_def ready_at_def fitting_def headers_fit_mcp payloads_def)
    qed
    then have "client_ok ?tok f" by (simp add: client_ok_ready)
    ultimately show ?thesis by simp
  qed
qed

text \<open>An adapter either leaves the client as it is or makes one call of a tool of the list.\<close>

lemma mcp_operation_cases:
  assumes "mcp_operation env capability req = Inr operation"
  obtains name arguments where "(name, arguments) \<in> set mcp_tools" "operation = call_tool env name arguments"
proof -
  note run = assms[unfolded mcp_operation_def Let_def]
  have "(\<exists>name. (name, []) \<in> set mcp_tools \<and> operation = call_tool env name []) \<or>
    (\<exists>x \<in> set allowed_services. operation = mcp_service_status env x)"
  proof (cases "capability = ''dripvid.health.read'' \<or> capability = ''dripvid.release.read'' \<or> capability = ''dripvid.config.read''")
    case True
    with run have "tr_params req = [] \<and> operation \<in> {call_tool env ''dripvid_health'' [], call_tool env ''dripvid_git_status'' [],
        call_tool env ''dripvid_config'' []}"
      by (elim disjE) (simp_all split: if_split_asm)
    then show ?thesis unfolding mcp_tools_def by auto
  next
    case False
    with run have "(case dict_get (tr_params req) ''service'' of
        JStr service \<Rightarrow> if service \<in> set allowed_services then Inr (mcp_service_status env service)
                         else Inl (ToolAdapterError ''invalid_service'')
      | _ \<Rightarrow> Inl (ToolAdapterError ''invalid_service'')) = Inr operation"
      by (simp split: if_split_asm)
    then show ?thesis by (auto split: json.splits if_splits)
  qed
  then show thesis
  proof (elim disjE exE conjE bexE)
    fix x assume x: "x \<in> set allowed_services" and o': "operation = mcp_service_status env x"
    have "(''service_status'', [(''service'', JStr x)]) \<in> set mcp_tools" using x by (simp add: mcp_tools_def)
    from that[OF this] x o' show thesis by (simp add: mcp_service_status_def)
  qed (rule that)
qed

lemma mcp_adapter_ok:
  assumes "me_server env = logging_server ans" and "client_ok (me_token env) c"
  shows "client_ok (me_token env) (snd (mcp_adapter env capability req c))"
proof (cases "tr_target req = ''dripvid''")
  case False
  with assms show ?thesis by (simp add: mcp_adapter_def)
next
  case True
  show ?thesis
  proof (cases "mcp_operation env capability req")
    case (Inl e)
    with True assms show ?thesis by (simp add: mcp_adapter_def)
  next
    case (Inr operation)
    then obtain name arguments where o': "(name, arguments) \<in> set mcp_tools" "operation = call_tool env name arguments"
      by (rule mcp_operation_cases)
    obtain r t where run: "call_tool env name arguments c = (r, t)" by (cases "call_tool env name arguments c")
    from call_tool_ok[OF run assms o'(1)] True Inr o'(2) run show ?thesis by (cases r) (simp_all add: mcp_adapter_def)
  qed
qed

text \<open>A sequence of tool requests, each through the adapter of some capability.\<close>

fun mcp_requests :: "'w mcp_env \<Rightarrow> (string \<times> tool_request) list \<Rightarrow> 'w mcp_client \<Rightarrow> 'w mcp_client" where
  "mcp_requests env [] c = c"
| "mcp_requests env ((capability, req) # rest) c = mcp_requests env rest (snd (mcp_adapter env capability req c))"

lemma mcp_requests_ok:
  assumes "me_server env = logging_server ans" and "client_ok (me_token env) c"
  shows "client_ok (me_token env) (mcp_requests env reqs c)"
  using assms
proof (induction reqs arbitrary: c)
  case (Cons x reqs)
  then show ?case by (cases x) (simp add: mcp_adapter_ok)
qed simp

lemma new_client_ok: "client_ok token (new_client [])"
  by (simp add: client_ok_def in_protocol_def new_client_def payloads_def fitting_def)

text \<open>
  C4: whatever the MCP server answers and in whatever order the adapters are called, a new client keeps to its
  protocol: every tool call comes after a greeting and the notification that ends it, the identifiers count up from
  one without a gap, no greeting follows a call, only the four reading tools are called, and for the listed services
  only; every request carries the token, and exactly the greetings lack the protocol version.
\<close>

theorem mcp_follows_protocol:
  "let sent = mc_world (mcp_requests (env\<lparr>me_server := logging_server ans\<rparr>) reqs (new_client [])) in
   protocol_run (New, 1) (map mq_payload sent) \<noteq> None \<and> list_all (headers_fit (me_token env)) sent"
proof -
  have "client_ok (me_token env) (mcp_requests (env\<lparr>me_server := logging_server ans\<rparr>) reqs (new_client []))"
    using mcp_requests_ok[of "env\<lparr>me_server := logging_server ans\<rparr>" ans "new_client []" reqs] new_client_ok by simp
  then show ?thesis by (auto simp: client_ok_def in_protocol_def fitting_def payloads_def Let_def)
qed

section \<open>What comes back\<close>

text \<open>A text that a tool call returns is the only content of the answer to this call, in a reply within the limit.\<close>

lemma call_tool_text:
  assumes "call_tool env name arguments c = (Inr text', t)"
  obtains u reply d result where "initialize env c = (Inr (), u)"
    "mr_status reply \<in> {200..299}" "int (length (mr_body reply)) \<le> mcp_max_bytes"
    "decode_rpc_message (me_decode env) reply (mc_next_id u) = Inr d"
    "dict_get d ''result'' = JObj result" "''error'' \<notin> dict_keys d"
    "\<exists>item. dict_get result ''content'' = JList [JObj item] \<and> dict_get item ''type'' = JStr ''text'' \<and> dict_get item ''text'' = JStr text'"
    "mc_world t = snd (me_server env
       \<lparr>mq_headers = mcp_headers (me_token env) True (mc_session u), mq_payload = call_payload (mc_next_id u) name arguments\<rparr> (mc_world u))"
proof -
  obtain q u where i: "initialize env c = (q, u)" by (cases "initialize env c")
  with assms have q: "q = Inr ()" by (cases q) (auto simp: call_tool_def bindE_def)
  let ?q = "\<lparr>mq_headers = mcp_headers (me_token env) True (mc_session u), mq_payload = call_payload (mc_next_id u) name arguments\<rparr>"
  obtain a w where server: "me_server env ?q (mc_world u) = (a, w)" by (cases "me_server env ?q (mc_world u)")
  from assms i q server obtain reply where a: "a = Some reply"
    by (cases a) (auto simp: call_tool_def bindE_def allocate_id_def post_rpc_def mcp_post_def)
  from assms i q server a obtain v where v: "rpc_result (me_decode env) (mc_next_id u) reply = Inr v" "tool_text v = Inr text'"
    and t: "mc_world t = w"
    by (auto simp: call_tool_def bindE_def allocate_id_def post_rpc_def mcp_post_def liftE_def split: sum.splits)
  from v(1) obtain d where d: "mr_status reply \<in> {200..299}" "int (length (mr_body reply)) \<le> mcp_max_bytes"
    "decode_rpc_message (me_decode env) reply (mc_next_id u) = Inr d" "''error'' \<notin> dict_keys d" "v = dict_get d ''result''"
    unfolding rpc_result_def by (auto split: if_splits sum.splits)
  from v(2) obtain m item where m: "v = JObj m" "dict_get m ''content'' = JList [JObj item]" "dict_get item ''type'' = JStr ''text''"
    "dict_get item ''text'' = JStr text'"
    unfolding tool_text_def Let_def by (auto split: if_splits json.splits list.splits)
  show thesis
    using i q d m server t by (intro that[of u reply d m]) auto
qed

section \<open>A lost session\<close>

text \<open>
  Once greeted, a client never greets again: when the server refuses a call, as it does once it has lost the session,
  that call is all the client sends, it fails, and the next one is made in the same session.
\<close>

lemma lost_session_never_renewed:
  assumes "mc_initialized c"
    and "me_server env \<lparr>mq_headers = mcp_headers (me_token env) True (mc_session c),
           mq_payload = call_payload (mc_next_id c) name arguments\<rparr> (mc_world c) = (Some reply, w)"
    and "mr_status reply \<notin> {200..299}"
  shows "\<exists>e. call_tool env name arguments c = (Inl (ValueError e), c\<lparr>mc_world := w, mc_next_id := mc_next_id c + 1\<rparr>)"
proof -
  have "\<exists>e. rpc_result (me_decode env) (mc_next_id c) reply = Inl (ValueError e)"
    using assms(3) by (auto simp: rpc_result_def)
  with assms(1,2) show ?thesis
    by (auto simp: call_tool_def initialize_def bindE_def allocate_id_def post_rpc_def mcp_post_def)
qed

section \<open>The token\<close>

lemma token_in_file_safe:
  assumes "token_in_file name False f = Inr token"
  obtains t where "f = Some t" "file_type (tf_mode t) = 0x8000" "and (tf_mode t) 0x3F = 0" "and (tf_mode t) 0x100 \<noteq> 0"
    "token \<noteq> []" "\<not> list_ex is_space token" "tf_size t \<le> 4096"
  using assms by (auto simp: token_in_file_def Let_def split: option.splits if_splits)

lemma load_token_client:
  assumes "load_token windows f = Inr token" and "take 1 path = ''/''" and "\<not> is_infix ''://'' path"
    and "1 / 2 \<le> timeout" and "timeout \<le> 30"
  shows "client_check token path timeout = Inr ()"
  using assms by (auto simp: load_token_def token_in_file_def client_check_def Let_def split: option.splits if_splits)

end
