(* ===== verification/Recovery_Observer.thy ===== *)
theory Recovery_Observer
  imports Tool_Gateway
begin

text \<open>
  \<open>RecoveryObserver\<close> (\<open>recovery/observer.py\<close>) and the observation cycle \<open>DripVidRecoveryCycle\<close>
  (\<open>recovery/bootstrap.py\<close>). The readiness payload, the service states and the log lines of one
  cycle are inputs; the observer never acts on the host, it files missions.
\<close>

section \<open>Bounded evidence\<close>

definition readiness_keys :: "string list" where
  "readiness_keys =
     [''reachable'', ''status_code'', ''ok'', ''database'', ''jellyfin'', ''radarr'', ''sonarr'',
      ''qbittorrent'', ''requestSync'', ''storage'', ''error'']"

definition storage_keys :: "string list" where
  "storage_keys = [''available'', ''writable'', ''belowReserve'', ''freeBytes'', ''reserveBytes'']"

definition status_keys :: "string list" where
  "status_keys = [''state'', ''active_state'', ''sub_state'', ''unit'', ''load_state'']"

fun bounded_scalar :: "string \<Rightarrow> json \<Rightarrow> dict" where
  "bounded_scalar k JNull = [(k, JNull)]"
| "bounded_scalar k (JBool b) = [(k, JBool b)]"
| "bounded_scalar k (JInt i) = [(k, JInt i)]"
| "bounded_scalar k (JStr s) = [(k, JStr (take 128 s))]"
| "bounded_scalar k _ = []"

definition bounded_storage :: "dict \<Rightarrow> dict" where
  "bounded_storage st =
     concat (map (\<lambda>k. case map_of st k of
                        Some (JBool b) \<Rightarrow> [(k, JBool b)]
                      | Some (JInt i) \<Rightarrow> [(k, JInt i)]
                      | _ \<Rightarrow> []) storage_keys)"

definition bounded_readiness :: "dict \<Rightarrow> dict" where
  "bounded_readiness r =
     concat (map (\<lambda>k. case map_of r k of
                        None \<Rightarrow> []
                      | Some v \<Rightarrow>
                          if k = ''storage''
                          then (case v of JObj st \<Rightarrow> [(k, JObj (bounded_storage st))] | _ \<Rightarrow> [])
                          else bounded_scalar k v) readiness_keys)"

definition bounded_service_status :: "dict \<Rightarrow> dict" where
  "bounded_service_status status =
     concat (map (\<lambda>kv. if fst kv \<in> set status_keys then bounded_scalar (fst kv) (snd kv) else []) status)"

definition bounded_line :: "string \<Rightarrow> string" where
  "bounded_line raw = (let line = take 512 raw in if secret_like line then ''[redacted]'' else line)"

text \<open>\<open>logs\<close> is one text (\<open>Inl\<close>) or a sequence of lines (\<open>Inr\<close>).\<close>

definition bounded_logs :: "string + string list \<Rightarrow> string list" where
  "bounded_logs logs =
     map bounded_line (take 100 (case logs of Inl text \<Rightarrow> splitlines text | Inr lines \<Rightarrow> lines))"

definition verification_healthy :: "string \<Rightarrow> dict \<Rightarrow> string option \<Rightarrow> bool" where
  "verification_healthy component readiness service_state \<longleftrightarrow>
     (if \<not> service_running service_state \<or> dict_get readiness ''ok'' \<noteq> JBool True then False
      else if component = ''database'' then dict_get readiness ''database'' = JBool True
      else True)"

section \<open>The observer\<close>

record observer =
  ob_config :: recovery_config
  ob_threshold :: int
  ob_observe_only :: bool
  ob_notifications :: bool
  ob_ledger :: bool
  ob_registry :: "(string \<Rightarrow> exn + bool) option"

text \<open>The identifiers and clock readings of one call, in the order the code takes them.\<close>

record observer_call =
  oc_id :: "nat \<Rightarrow> string"
  oc_now :: "nat \<Rightarrow> int"

definition observer_notify ::
  "observer \<Rightarrow> string \<Rightarrow> int \<Rightarrow> int \<Rightarrow> notification_severity \<Rightarrow> incident \<Rightarrow> string \<Rightarrow> string \<Rightarrow> string \<Rightarrow>
   ('a recovery_db_scheme, unit) op" where
  "observer_notify ob new_id created now severity i grp title message =
     (if \<not> ob_notifications ob then returnE ()
      else bindE (notify new_id created now
             \<lparr>nt_severity = severity, nt_title = title, nt_message = message,
              nt_group_key = ''recovery:dripvid:'' @ grp,
              nt_source_type = Some ''recovery_incident'', nt_source_id = Some (ri_id i)\<rparr>)
           (\<lambda>_. returnE ()))"

definition capture_diagnostics ::
  "string \<Rightarrow> int \<Rightarrow> dict \<Rightarrow> dict \<Rightarrow> string + string list \<Rightarrow> ('a recovery_db_scheme, incident) op" where
  "capture_diagnostics iid now readiness status logs =
     update_diagnostics iid now
       [(''readiness'', JObj (bounded_readiness readiness)),
        (''service_status'', JObj (bounded_service_status status)),
        (''recent_logs'', JList (map JStr (bounded_logs logs)))]"

definition recovery_mission :: "string \<Rightarrow> new_mission" where
  "recovery_mission component =
     \<lparr>nm_title = ''Recover DripVid '' @ component,
      nm_description = ''Automatically recover the DripVid '' @ component @
        '' component after persistent health failure.'',
      nm_owner_agent = ''sysadmin'', nm_source = ''automatic-recovery'',
      nm_priority = PRIO_NORMAL, nm_risk = BLUE,
      nm_objectives = Some [JStr (''Restore the DripVid '' @ component @ '' component''),
                            JStr ''Verify recovery through the normal guarded execution path''],
      nm_dependencies = None, nm_xp_reward = 0\<rparr>"

definition recovery_plan :: "string \<Rightarrow> plan_entry list" where
  "recovery_plan component =
     [\<lparr>pe_description = Some (''Recover DripVid '' @ component @ '' service''),
       pe_tool_name = Some ''service.recover'',
       pe_tool_arguments = Some
         [(''target'', JStr ''dripvid''), (''component'', JStr component),
          (''conditions'', JObj [(''policy'', JStr ''dripvid-2.90''), (''component'', JStr component)]),
          (''mutates_external_state'', JBool True)]\<rparr>]"

definition has_mission :: "incident \<Rightarrow> bool" where
  "has_mission i \<longleftrightarrow> (case ri_mission i of None \<Rightarrow> False | Some m \<Rightarrow> m \<noteq> [])"

definition file_mission ::
  "observer \<Rightarrow> observer_call \<Rightarrow> incident \<Rightarrow> string \<Rightarrow> ('a recovery_db_scheme, mission option) op" where
  "file_mission ob call i component =
     bindE (create_mission (ob_ledger ob) (oc_id call 0) (oc_now call 2) (recovery_mission component)) (\<lambda>m.
     bindE (create_plan (ob_registry ob) (\<lambda>_. oc_id call 1) (m_id m) (recovery_plan component)) (\<lambda>_.
     bindE (attach_mission (ri_id i) (m_id m)) (\<lambda>_. returnE (Some m))))"

definition create_recovery_mission ::
  "observer \<Rightarrow> observer_call \<Rightarrow> string \<Rightarrow> dict \<Rightarrow> string option \<Rightarrow>
   ('a recovery_db_scheme, mission option) op" where
  "create_recovery_mission ob call iid readiness service_state =
     bindE (get_incident iid) (\<lambda>i.
       if has_mission i then returnE None
       else
         let d = decide_recovery (Some (ri_component i)) service_state (ri_failures i)
                   (ob_threshold ob) readiness in
         if rd_action d \<noteq> Recover \<or> ob_observe_only ob then returnE None
         else bindE (mark_recovery_pending (ri_id i) (oc_now call 0)) (\<lambda>_.
              bindE (can_recover (ob_config ob) (ri_id i) (oc_now call 1)) (\<lambda>al.
              if \<not> al_allowed al
              then if al_reason al = ''budget_exhausted'' \<and> ob_notifications ob
                   then bindE (escalate (ri_id i) (oc_now call 2) ''budget_exhausted'' None) (\<lambda>_.
                        bindE (observer_notify ob (oc_id call 0) (oc_now call 9) (oc_now call 3) CRITICAL i (ri_component i)
                                 ''DripVid recovery budget exhausted''
                                 ''Automatic recovery stopped because the component reached its recovery attempt limit.'')
                          (\<lambda>_. returnE None))
                   else returnE None
              else case rd_component d of
                     None \<Rightarrow> returnE None
                   | Some component \<Rightarrow> file_mission ob call i component)))"

definition escalation_group :: "recovery_decision \<Rightarrow> incident \<Rightarrow> string" where
  "escalation_group d i =
     (if rd_reason d \<in> {''storage_unavailable'', ''storage_unwritable''} then ''storage''
      else if rd_reason d = ''database_running_but_unhealthy'' then ''database''
      else ri_component i)"

definition handle_policy_escalation ::
  "observer \<Rightarrow> observer_call \<Rightarrow> string \<Rightarrow> dict \<Rightarrow> string option \<Rightarrow> ('a recovery_db_scheme, bool) op" where
  "handle_policy_escalation ob call iid readiness service_state =
     bindE (get_incident iid) (\<lambda>i.
       let d = decide_recovery (Some (ri_component i)) service_state (ri_failures i)
                 (ob_threshold ob) readiness in
       if rd_action d \<noteq> Escalate then returnE False
       else bindE (escalate (ri_id i) (oc_now call 0) (rd_reason d)
                     (Some [(''readiness'', JObj (bounded_readiness readiness))])) (\<lambda>_.
            bindE (observer_notify ob (oc_id call 0) (oc_now call 9) (oc_now call 1) CRITICAL i (escalation_group d i)
                     ''DripVid recovery requires attention''
                     ''Automatic recovery stopped because the incident requires operator attention.'')
              (\<lambda>_. returnE True)))"

definition outcome_of :: "string \<Rightarrow> exn + outcome_state" where
  "outcome_of v =
     (case find (\<lambda>st. outcome_value st = v)
             [OUT_BLOCKED, OUT_WAITING_APPROVAL, OUT_SIMULATED, OUT_EXECUTED, OUT_FAILED] of
        None \<Rightarrow> Inl (ValueError (v @ '' is not a valid ToolOutcomeState''))
      | Some st \<Rightarrow> Inr st)"

definition result_or_empty :: "dict option \<Rightarrow> dict option" where
  "result_or_empty r = Some (case r of None \<Rightarrow> [] | Some d \<Rightarrow> d)"

definition record_mission_outcome ::
  "observer \<Rightarrow> observer_call \<Rightarrow> string \<Rightarrow> string \<Rightarrow> string \<Rightarrow> dict option \<Rightarrow>
   ('a recovery_db_scheme, unit) op" where
  "record_mission_outcome ob call iid mid state result =
     bindE (liftE (outcome_of state)) (\<lambda>st.
     bindE (get_incident iid) (\<lambda>i.
       case st of
         OUT_SIMULATED \<Rightarrow>
           bindE (record_attempt (oc_id call 0) (ri_id i) (oc_now call 0) (Some mid) True ''simulated''
                    (result_or_empty result)) (\<lambda>_.
           bindE (mark_verifying (ri_id i) (oc_now call 1)
                    (Some [(''mission_state'', JStr ''simulated'')])) (\<lambda>_. returnE ()))
       | OUT_EXECUTED \<Rightarrow>
           bindE (record_attempt (oc_id call 0) (ri_id i) (oc_now call 0) (Some mid) False ''executed''
                    (result_or_empty result)) (\<lambda>_.
           bindE (mark_verifying (ri_id i) (oc_now call 1)
                    (Some [(''mission_state'', JStr ''executed'')])) (\<lambda>_. returnE ()))
       | OUT_FAILED \<Rightarrow>
           bindE (record_attempt (oc_id call 0) (ri_id i) (oc_now call 0) (Some mid) False ''failed''
                    (result_or_empty result)) (\<lambda>_.
           bindE (escalate (ri_id i) (oc_now call 1) ''recovery_attempt_failed'' None) (\<lambda>_.
           observer_notify ob (oc_id call 1) (oc_now call 9) (oc_now call 2) CRITICAL i (ri_component i)
             ''DripVid automatic recovery failed''
             ''The bounded recovery attempt did not complete successfully and requires attention.''))
       | _ \<Rightarrow>
           bindE (escalate (ri_id i) (oc_now call 0) ''authorization_missing'' None) (\<lambda>_.
           observer_notify ob (oc_id call 0) (oc_now call 9) (oc_now call 1) CRITICAL i (ri_component i)
             ''DripVid automatic recovery authorization missing''
             ''Automatic recovery could not proceed through the required authorization boundary.'')))"

definition verify_recovery ::
  "observer \<Rightarrow> observer_call \<Rightarrow> string \<Rightarrow> dict \<Rightarrow> string option \<Rightarrow> ('a recovery_db_scheme, bool) op" where
  "verify_recovery ob call iid readiness service_state =
     bindE (get_incident iid) (\<lambda>i.
       let verification =
             [(''readiness'', JObj (bounded_readiness readiness)),
              (''service_state'', JStr (take 64 (case service_state of None \<Rightarrow> [] | Some v \<Rightarrow> v)))] in
       if verification_healthy (ri_component i) readiness service_state
       then bindE (resolve_incident (ri_id i) (oc_now call 0) (Some verification)) (\<lambda>_.
            bindE (observer_notify ob (oc_id call 0) (oc_now call 9) (oc_now call 1) INFORMATION i (ri_component i)
                     ''DripVid automatic recovery succeeded''
                     ''The component returned to a healthy state after bounded automatic recovery.'')
              (\<lambda>_. returnE True))
       else bindE (escalate (ri_id i) (oc_now call 0) ''verification_failed'' (Some verification)) (\<lambda>_.
            bindE (observer_notify ob (oc_id call 0) (oc_now call 9) (oc_now call 1) CRITICAL i (ri_component i)
                     ''DripVid recovery verification failed''
                     ''The component did not return to a healthy state after the recovery attempt.'')
              (\<lambda>_. returnE False)))"

section \<open>The cycle\<close>

definition status_state :: "dict option \<Rightarrow> string option" where
  "status_state status =
     (case status of
        None \<Rightarrow> None
      | Some d \<Rightarrow>
          (case dict_get_default d ''active_state'' (dict_get d ''state'') of
             JStr v \<Rightarrow> Some v
           | _ \<Rightarrow> None))"

definition storage_critical :: "dict \<Rightarrow> bool" where
  "storage_critical readiness =
     (case dict_get readiness ''storage'' of
        JObj st \<Rightarrow> dict_get st ''available'' = JBool False \<or> dict_get st ''writable'' = JBool False
      | _ \<Rightarrow> False)"

definition component_failed :: "string \<Rightarrow> dict \<Rightarrow> dict option \<Rightarrow> bool" where
  "component_failed component readiness status =
     (if status = None then False
      else if service_down (status_state status) then True
      else if component = ''app'' then dict_get readiness ''ok'' \<noteq> JBool True
      else if component = ''database'' then dict_get readiness ''database'' = JBool False
      else False)"

definition component_healthy :: "string \<Rightarrow> dict \<Rightarrow> dict option \<Rightarrow> bool" where
  "component_healthy component readiness status =
     (if status = None \<or> \<not> service_running (status_state status) then False
      else if component = ''app'' then dict_get readiness ''ok'' = JBool True
      else if component = ''database'' then dict_get readiness ''database'' = JBool True
      else True)"

text \<open>What one cycle sees, and the identifiers and clock readings of its calls per component.\<close>

record cycle_input =
  ci_readiness :: dict
  ci_status :: "string \<Rightarrow> dict option"
  ci_logs :: "string \<Rightarrow> string list option"
  ci_call :: "string \<Rightarrow> nat \<Rightarrow> observer_call"

record cycle_flags =
  cf_detected :: bool
  cf_resolved :: bool
  cf_worked :: bool

definition state_json :: "dict option \<Rightarrow> json" where
  "state_json status = opt_str (status_state status)"

definition after_failure ::
  "observer \<Rightarrow> cycle_input \<Rightarrow> string \<Rightarrow> incident \<Rightarrow> ('a recovery_db_scheme, unit) op" where
  "after_failure ob ci component i =
     bindE (capture_diagnostics (ri_id i) (oc_now (ci_call ci component 1) 0) (ci_readiness ci)
              (case ci_status ci component of None \<Rightarrow> [] | Some d \<Rightarrow> d)
              (Inr (case ci_logs ci component of None \<Rightarrow> [] | Some ls \<Rightarrow> ls))) (\<lambda>_.
     bindE (handle_policy_escalation ob (ci_call ci component 2) (ri_id i) (ci_readiness ci)
              (status_state (ci_status ci component))) (\<lambda>escalated.
     if escalated then returnE ()
     else bindE (create_recovery_mission ob (ci_call ci component 3) (ri_id i) (ci_readiness ci)
                   (status_state (ci_status ci component))) (\<lambda>_. returnE ())))"

definition cycle_failure ::
  "observer \<Rightarrow> cycle_input \<Rightarrow> string \<Rightarrow> cycle_flags \<Rightarrow> ('a recovery_db_scheme, cycle_flags) op" where
  "cycle_failure ob ci component fl =
     (if \<not> component_failed component (ci_readiness ci) (ci_status ci component) then returnE fl
      else bindE (observe_failure (ob_config ob) (oc_id (ci_call ci component 0) 0) component
                    (oc_now (ci_call ci component 0) 0)
                    (Some [(''readiness'', JObj (ci_readiness ci))])) (\<lambda>i.
           bindE (if ri_failures i < ob_threshold ob then returnE () else after_failure ob ci component i)
             (\<lambda>_. returnE (fl\<lparr>cf_detected := True, cf_worked := True\<rparr>))))"

definition cycle_component ::
  "observer \<Rightarrow> cycle_input \<Rightarrow> string \<Rightarrow> cycle_flags \<Rightarrow> ('a recovery_db_scheme, cycle_flags) op" where
  "cycle_component ob ci component fl =
     (let status = ci_status ci component; readiness = ci_readiness ci in
      bindE (active_incident component) (\<lambda>inc.
        case inc of
          Some i \<Rightarrow>
            if ri_state i = VERIFYING \<and> status \<noteq> None
            then bindE (verify_recovery ob (ci_call ci component 0) (ri_id i) readiness (status_state status)) (\<lambda>ok.
                 returnE (fl\<lparr>cf_resolved := (ok \<or> cf_resolved fl), cf_worked := True\<rparr>))
            else if component_healthy component readiness status
            then bindE (resolve_if_healthy component (oc_now (ci_call ci component 0) 0)
                          (Some [(''readiness'', JObj readiness), (''service_state'', state_json status)])) (\<lambda>_.
                 returnE (fl\<lparr>cf_resolved := True, cf_worked := True\<rparr>))
            else cycle_failure ob ci component fl
        | None \<Rightarrow>
            if component_healthy component readiness status then returnE fl
            else cycle_failure ob ci component fl))"

fun cycle_components ::
  "observer \<Rightarrow> cycle_input \<Rightarrow> string list \<Rightarrow> cycle_flags \<Rightarrow> ('a recovery_db_scheme, cycle_flags) op" where
  "cycle_components ob ci [] fl = returnE fl"
| "cycle_components ob ci (k # ks) fl =
     bindE (cycle_component ob ci k fl) (cycle_components ob ci ks)"

definition cycle_run_once ::
  "observer \<Rightarrow> cycle_input \<Rightarrow> bool \<Rightarrow> ('a recovery_db_scheme, cycle_flags) op" where
  "cycle_run_once ob0 ci observe_only =
     (let ob = ob0\<lparr>ob_observe_only := observe_only\<rparr>; r = ci_readiness ci in
      if storage_critical r
      then bindE (observe_failure (ob_config ob) (oc_id (ci_call ci ''app'' 0) 0) ''app''
                    (oc_now (ci_call ci ''app'' 0) 0) (Some [(''readiness'', JObj r)])) (\<lambda>i.
           bindE (if ob_threshold ob \<le> ri_failures i
                  then bindE (handle_policy_escalation ob (ci_call ci ''app'' 1) (ri_id i) r
                                (status_state (ci_status ci ''app''))) (\<lambda>_. returnE ())
                  else returnE ()) (\<lambda>_.
           returnE \<lparr>cf_detected = True, cf_resolved = False, cf_worked = True\<rparr>))
      else cycle_components ob ci (map fst recovery_components)
             \<lparr>cf_detected = False, cf_resolved = False, cf_worked = False\<rparr>)"

definition record_summary :: "dict \<Rightarrow> cycle_flags \<Rightarrow> dict" where
  "record_summary readiness fl =
     [(''reachable'', case dict_get readiness ''reachable'' of JBool b \<Rightarrow> JBool b | _ \<Rightarrow> JNull),
      (''status_code'', case dict_get readiness ''status_code'' of
                          JInt n \<Rightarrow> if 100 \<le> n \<and> n \<le> 599 then JInt n else JNull | _ \<Rightarrow> JNull),
      (''ready'', case dict_get readiness ''ok'' of JBool b \<Rightarrow> JBool b | _ \<Rightarrow> JNull),
      (''incident_detected'', JBool (cf_detected fl)),
      (''incident_resolved'', JBool (cf_resolved fl)),
      (''worked'', JBool (cf_worked fl))]"

text \<open>
  \<open>handle_execution_result\<close>: what the mission executor returned, given back to the incident
  whose mission it ran.
\<close>

definition handle_execution_result ::
  "observer \<Rightarrow> observer_call \<Rightarrow> string \<Rightarrow> tool_outcome option \<Rightarrow> ('a recovery_db_scheme, unit) op" where
  "handle_execution_result ob call mid oc =
     (case oc of
        None \<Rightarrow> returnE ()
      | Some out \<Rightarrow>
          if mid = [] then returnE ()
          else bindE (readE (incident_for_mission mid)) (\<lambda>inc.
            case inc of
              None \<Rightarrow> returnE ()
            | Some i \<Rightarrow> record_mission_outcome ob call (ri_id i) mid (outcome_value (to_state out))
                          (to_result out)))"

end
