(* ===== verification/Candidates.thy ===== *)
theory Candidates
  imports Host_Text
begin

text \<open>
  Candidate changes as immutable values: \<open>delivery/repository_workspace.py\<close> (what a workspace
  reports), \<open>delivery/candidate_verifier.py\<close> (the identity of a candidate is a digest of what was
  observed) and \<open>code_changes/candidate_store.py\<close> (reopening a candidate only when everything it
  was identified by still holds). SHA-256 is an argument, from bytes to its hex digits.
\<close>

section \<open>Checks that return a value or raise\<close>

definition andThen :: "exn + 'a \<Rightarrow> ('a \<Rightarrow> exn + 'b) \<Rightarrow> exn + 'b" where
  "andThen r f = (case r of Inl e \<Rightarrow> Inl e | Inr x \<Rightarrow> f x)"

definition unless :: "bool \<Rightarrow> exn \<Rightarrow> exn + 'b \<Rightarrow> exn + 'b" where
  "unless bad e r = (if bad then Inl e else r)"

lemma andThen_simps [simp]: "andThen (Inl e) f = Inl e" "andThen (Inr x) f = f x"
  by (simp_all add: andThen_def)

lemma unless_simps [simp]: "unless True e r = Inl e" "unless False e r = r"
  by (simp_all add: unless_def)

lemma andThen_Inr_iff [simp]: "andThen r f = Inr y \<longleftrightarrow> (\<exists>x. r = Inr x \<and> f x = Inr y)"
  by (cases r) auto

lemma unless_Inr_iff [simp]: "unless bad e r = Inr y \<longleftrightarrow> \<not> bad \<and> r = Inr y"
  by (simp add: unless_def)

text \<open>\<open>_required\<close>: a string that is not blank, stripped.\<close>

definition required :: "json \<Rightarrow> string \<Rightarrow> exn + string" where
  "required v field =
     (case v of
        JStr s \<Rightarrow> if strip s = [] then Inl (ValueError (field @ '' is required'')) else Inr (strip s)
      | _ \<Rightarrow> Inl (ValueError (field @ '' is required'')))"

section \<open>Hexadecimal integers\<close>

text \<open>\<open>int(s, 16)\<close>: blanks around, a sign, a prefix and single underscores between digits are allowed.\<close>

definition hex_digit_value :: "char \<Rightarrow> nat option" where
  "hex_digit_value c =
     (let n = (of_char c :: nat) in
      if 48 \<le> n \<and> n \<le> 57 then Some (n - 48)
      else if 97 \<le> n \<and> n \<le> 102 then Some (n - 87)
      else if 65 \<le> n \<and> n \<le> 70 then Some (n - 55)
      else None)"

fun us_hex :: "nat \<Rightarrow> bool \<Rightarrow> string \<Rightarrow> nat option" where
  "us_hex acc digit [] = (if digit then Some acc else None)"
| "us_hex acc digit (c # cs) =
     (case hex_digit_value c of
        Some v \<Rightarrow> us_hex (16 * acc + v) True cs
      | None \<Rightarrow> if c = CHR ''_'' \<and> digit then us_hex acc False cs else None)"

definition hex_prefixed :: "string \<Rightarrow> nat option" where
  "hex_prefixed t =
     (if take 2 t \<in> {''0x'', ''0X''}
      then let u = drop 2 t in us_hex 0 False (if take 1 u = ''_'' then drop 1 u else u)
      else us_hex 0 False t)"

definition py_int16 :: "string \<Rightarrow> int option" where
  "py_int16 s =
     (case strip s of
        [] \<Rightarrow> None
      | c # cs \<Rightarrow>
          if c = CHR ''-'' then map_option (\<lambda>n. - int n) (hex_prefixed cs)
          else if c = CHR ''+'' then map_option int (hex_prefixed cs)
          else map_option int (hex_prefixed (c # cs)))"

definition is_upper :: "char \<Rightarrow> bool" where
  "is_upper c \<longleftrightarrow>
     (let n = (of_char c :: nat) in (65 \<le> n \<and> n \<le> 90) \<or> (192 \<le> n \<and> n \<le> 222 \<and> n \<noteq> 215))"

definition lower_hex :: "char \<Rightarrow> bool" where
  "lower_hex c \<longleftrightarrow> is_digit c \<or> c \<in> set ''abcdef''"

text \<open>The regular expressions for Git identities and digests, matched against the whole text.\<close>

definition git_sha :: "string \<Rightarrow> bool" where
  "git_sha s \<longleftrightarrow> length s = 40 \<and> list_all lower_hex s"

definition sha256_ref :: "string \<Rightarrow> bool" where
  "sha256_ref s \<longleftrightarrow> take 7 s = ''sha256:'' \<and> length s = 71 \<and> list_all lower_hex (drop 7 s)"

section \<open>Values of a workspace\<close>

definition ws_sha256_digest :: "string \<Rightarrow> string \<Rightarrow> exn + string" where
  "ws_sha256_digest v field =
     andThen (required (JStr v) field) (\<lambda>t.
       let e = ValueError (field @ '' must be a sha256 digest''); digest = drop (length ''sha256:'') t in
       unless (take (length ''sha256:'') t \<noteq> ''sha256:'') e
         (unless (length digest \<noteq> 64) e
           (unless (py_int16 digest = None) e (Inr t))))"

definition ws_git_commit :: "string \<Rightarrow> string \<Rightarrow> exn + string" where
  "ws_git_commit v field =
     andThen (required (JStr v) field) (\<lambda>t.
       let e = ValueError (field @ '' must be a 40-character lowercase Git commit'') in
       unless (length t \<noteq> 40 \<or> list_ex is_upper t) e (unless (py_int16 t = None) e (Inr t)))"

datatype file_operation = OP_WRITE | OP_DELETE

definition file_operation_of :: "json \<Rightarrow> file_operation option" where
  "file_operation_of v =
     (if v = JStr ''write'' then Some OP_WRITE else if v = JStr ''delete'' then Some OP_DELETE else None)"

record file_change =
  fc_path :: string
  fc_operation :: file_operation
  fc_content :: "string option"

definition make_file_change :: "string \<Rightarrow> file_operation \<Rightarrow> json \<Rightarrow> exn + file_change" where
  "make_file_change path op content =
     andThen (required (JStr path) ''path'') (\<lambda>p.
       case op of
         OP_WRITE \<Rightarrow>
           (case content of
              JStr c \<Rightarrow> Inr \<lparr>fc_path = p, fc_operation = op, fc_content = Some c\<rparr>
            | _ \<Rightarrow> Inl (ValueError ''write content is required''))
       | OP_DELETE \<Rightarrow>
           if content = JNull then Inr \<lparr>fc_path = p, fc_operation = op, fc_content = None\<rparr>
           else Inl (ValueError ''delete content must be empty''))"

record workspace =
  ws_mission :: string
  ws_repository :: string
  ws_base_ref :: string
  ws_id :: string
  ws_base_commit :: string

definition make_workspace :: "workspace \<Rightarrow> exn + workspace" where
  "make_workspace w =
     andThen (required (JStr (ws_mission w)) ''mission_id'') (\<lambda>m.
     andThen (required (JStr (ws_repository w)) ''repository'') (\<lambda>r.
     andThen (required (JStr (ws_base_ref w)) ''base_ref'') (\<lambda>b.
     andThen (required (JStr (ws_id w)) ''workspace_id'') (\<lambda>i.
     andThen (ws_git_commit (ws_base_commit w) ''base_commit'') (\<lambda>c.
       Inr \<lparr>ws_mission = m, ws_repository = r, ws_base_ref = b, ws_id = i, ws_base_commit = c\<rparr>)))))"

record snapshot =
  sn_workspace_id :: string
  sn_repository :: string
  sn_base_ref :: string
  sn_changed_files :: "string list"
  sn_diff_digest :: string
  sn_content_digest :: string
  sn_base_commit :: string

definition make_snapshot :: "snapshot \<Rightarrow> exn + snapshot" where
  "make_snapshot sn =
     andThen (required (JStr (sn_workspace_id sn)) ''workspace_id'') (\<lambda>i.
     andThen (required (JStr (sn_repository sn)) ''repository'') (\<lambda>r.
     andThen (required (JStr (sn_base_ref sn)) ''base_ref'') (\<lambda>b.
     andThen (ws_git_commit (sn_base_commit sn) ''base_commit'') (\<lambda>c.
     unless (list_ex (\<lambda>p. strip p = []) (sn_changed_files sn))
       (ValueError ''changed_files must contain non-empty strings'')
     (andThen (ws_sha256_digest (sn_diff_digest sn) ''diff_digest'') (\<lambda>d.
      andThen (ws_sha256_digest (sn_content_digest sn) ''content_digest'') (\<lambda>k.
       Inr \<lparr>sn_workspace_id = i, sn_repository = r, sn_base_ref = b,
            sn_changed_files = map strip (sn_changed_files sn), sn_diff_digest = d,
            sn_content_digest = k, sn_base_commit = c\<rparr>)))))))"

text \<open>What identifies a candidate; the verifier and the store write the same fields.\<close>

record candidate_identity =
  id_mission :: string
  id_repository :: string
  id_base_ref :: string
  id_base_commit :: string
  id_workspace :: string
  id_changed_files :: "string list"
  id_diff_digest :: string
  id_content_digest :: string

definition identity_json :: "candidate_identity \<Rightarrow> json" where
  "identity_json i =
     JObj [(''mission_id'', JStr (id_mission i)), (''repository'', JStr (id_repository i)),
           (''base_ref'', JStr (id_base_ref i)), (''base_commit'', JStr (id_base_commit i)),
           (''workspace_id'', JStr (id_workspace i)),
           (''changed_files'', JList (map JStr (id_changed_files i))),
           (''diff_digest'', JStr (id_diff_digest i)), (''content_digest'', JStr (id_content_digest i))]"

definition snapshot_identity :: "string \<Rightarrow> snapshot \<Rightarrow> candidate_identity" where
  "snapshot_identity mid sn =
     \<lparr>id_mission = mid, id_repository = sn_repository sn, id_base_ref = sn_base_ref sn,
      id_base_commit = sn_base_commit sn, id_workspace = sn_workspace_id sn,
      id_changed_files = sn_changed_files sn, id_diff_digest = sn_diff_digest sn,
      id_content_digest = sn_content_digest sn\<rparr>"

definition identity_payload :: "string \<Rightarrow> snapshot \<Rightarrow> exn + json" where
  "identity_payload mid sn =
     andThen (required (JStr mid) ''mission_id'') (\<lambda>m. Inr (identity_json (snapshot_identity m sn)))"

record test_evidence =
  te_passed :: bool
  te_exit_code :: int
  te_summary :: string
  te_digest :: string

definition make_test_evidence :: "test_evidence \<Rightarrow> exn + test_evidence" where
  "make_test_evidence te =
     andThen (required (JStr (te_summary te)) ''summary'') (\<lambda>s.
     unless (length s > 4000) (ValueError ''summary exceeds maximum length'')
     (andThen (ws_sha256_digest (te_digest te) ''evidence_digest'') (\<lambda>d.
       Inr (te\<lparr>te_summary := s, te_digest := d\<rparr>))))"


section \<open>The verifier\<close>

text \<open>\<open>json.dumps(..., ensure_ascii=False).encode("utf-8")\<close>: only controls, quote and backslash are escaped.\<close>

definition utf8_bytes :: "char \<Rightarrow> string" where
  "utf8_bytes c =
     (let n = (of_char c :: nat) in
      if n < 128 then [c] else [char_of (192 + n div 64), char_of (128 + n mod 64)])"

definition utf8_text :: "string \<Rightarrow> string" where
  "utf8_text s = concat (map utf8_bytes s)"

definition esc_char_raw :: "char \<Rightarrow> string" where
  "esc_char_raw c = (if (of_char c :: nat) < 127 then esc_char c else utf8_bytes c)"

definition quote_raw :: "string \<Rightarrow> string" where
  "quote_raw s = CHR 0x22 # concat (map esc_char_raw s) @ [CHR 0x22]"

fun json_bytes :: "json \<Rightarrow> string" where
  "json_bytes JNull = ''null''"
| "json_bytes (JBool b) = (if b then ''true'' else ''false'')"
| "json_bytes (JInt i) = int_repr i"
| "json_bytes (JStr s) = quote_raw s"
| "json_bytes (JList xs) = ''['' @ join '','' (map json_bytes xs) @ '']''"
| "json_bytes (JObj d) =
     ''{'' @ join '','' (map (\<lambda>(k, v). quote_raw k @ '':'' @ json_bytes v) d) @ ''}''"

record verified_candidate =
  vc_mission :: string
  vc_change_ref :: string
  vc_summary :: string
  vc_changed_files :: "string list"
  vc_evidence :: dict

definition candidate_change_ref :: "(string \<Rightarrow> string) \<Rightarrow> candidate_identity \<Rightarrow> string" where
  "candidate_change_ref sha i = ''sha256:'' @ sha (json_bytes (json_canon (identity_json i)))"

definition verification_evidence ::
  "(string \<Rightarrow> string) \<Rightarrow> string \<Rightarrow> snapshot \<Rightarrow> test_evidence \<Rightarrow> string option \<Rightarrow> dict" where
  "verification_evidence sha change_ref sn te diff =
     [(''verification'', JStr ''candidate_identity_verified''), (''algorithm'', JStr ''sha256''),
      (''change_ref'', JStr change_ref), (''workspace_id'', JStr (sn_workspace_id sn)),
      (''repository'', JStr (sn_repository sn)), (''base_ref'', JStr (sn_base_ref sn)),
      (''base_commit'', JStr (sn_base_commit sn)), (''diff_digest'', JStr (sn_diff_digest sn)),
      (''content_digest'', JStr (sn_content_digest sn)),
      (''tests'', JObj [(''passed'', JBool (te_passed te)), (''exit_code'', JInt (te_exit_code te)),
                        (''summary'', JStr (te_summary te)), (''evidence_digest'', JStr (te_digest te))])] @
     (case diff of
        None \<Rightarrow> []
      | Some t \<Rightarrow> [(''candidate_diff'', JStr t),
                   (''candidate_diff_digest'', JStr (''sha256:'' @ sha (utf8_text t)))])"

definition verify_candidate ::
  "(string \<Rightarrow> string) \<Rightarrow> string \<Rightarrow> dict \<Rightarrow> snapshot \<Rightarrow> test_evidence \<Rightarrow> string option \<Rightarrow>
   exn + verified_candidate" where
  "verify_candidate sha mid proposal sn te diff =
     unless (strip mid = []) (ValueError ''mission_id is required'')
     (case dict_get proposal ''summary'' of
        JStr summary \<Rightarrow>
          unless (strip summary = []) (ValueError ''proposal summary is required'')
          (unless (\<not> te_passed te \<or> te_exit_code te \<noteq> 0)
             (ValueError ''workspace tests must pass before candidate verification'')
           (andThen (identity_payload (strip mid) sn) (\<lambda>payload.
             let change_ref = ''sha256:'' @ sha (json_bytes (json_canon payload)) in
             unless (diff = Some [] \<and> sn_changed_files sn \<noteq> [])
               (ValueError ''changed candidate requires machine-derived review diff'')
             (Inr \<lparr>vc_mission = strip mid, vc_change_ref = change_ref, vc_summary = strip summary,
                   vc_changed_files = sn_changed_files sn,
                   vc_evidence = verification_evidence sha change_ref sn te diff\<rparr>))))
      | _ \<Rightarrow> Inl (ValueError ''proposal summary is required''))"

section \<open>The store\<close>

text \<open>
  A directory tree as \<open>os.walk\<close> finds it. Links are not followed: a link carries its text and what it
  leads to; a dangling link knows whether a file can be created where it points. Anything that
  is neither file, link nor directory is \<open>Special\<close>.
\<close>

datatype link_kind = ToDir | ToFile | Dangling bool

datatype node =
    File string
  | Link string link_kind
  | Special
  | Dir "(string \<times> node) list"

fun manifest_of :: "(string \<Rightarrow> string) \<Rightarrow> string \<Rightarrow> string \<Rightarrow> node \<Rightarrow> (string \<times> string) list" where
  "manifest_of sha prefix name (File b) = [(prefix @ name, ''sha256:'' @ sha b)]"
| "manifest_of sha prefix name (Link t kind) =
     (if kind = ToDir \<and> name = ''.git'' then [] else [(prefix @ name, ''symlink:'' @ t)])"
| "manifest_of sha prefix name Special = []"
| "manifest_of sha prefix name (Dir entries) =
     (if name = ''.git'' then []
      else concat (map (\<lambda>(n, x). manifest_of sha (prefix @ name @ ''/'') n x) entries))"

definition manifest :: "(string \<Rightarrow> string) \<Rightarrow> (string \<times> node) list \<Rightarrow> dict" where
  "manifest sha entries =
     map (\<lambda>(p, d). (p, JStr d)) (concat (map (\<lambda>(n, x). manifest_of sha [] n x) entries))"

definition canonical_digest :: "(string \<Rightarrow> string) \<Rightarrow> json \<Rightarrow> string" where
  "canonical_digest sha v = ''sha256:'' @ sha (json_dumps v)"

text \<open>What the store sees of a workspace directory, and of a path in it.\<close>

record workspace_view =
  wv_symlink :: bool
  wv_dir :: bool
  wv_contained :: bool
  wv_tree :: "(string \<times> node) list"

datatype file_view = SeenLink | SeenMissing | SeenOther | SeenOutside | SeenFile string

record sandbox =
  sb_workspace :: "string \<Rightarrow> string \<Rightarrow> workspace_view"
  sb_file :: "string \<Rightarrow> string \<Rightarrow> string \<Rightarrow> file_view"

record persisted_candidate =
  pc_mission :: string
  pc_repository :: string
  pc_workspace_id :: string
  pc_base_ref :: string
  pc_base_commit :: string
  pc_change_ref :: string
  pc_changed_files :: "string list"
  pc_content_digest :: string

definition trusted_repositories :: "string set" where
  "trusted_repositories = {''ai-hq'', ''dripvid''}"

definition store_git_commit :: "json \<Rightarrow> exn + string" where
  "store_git_commit v =
     andThen (required v ''base_commit'') (\<lambda>t.
       unless (\<not> git_sha t) (ValueError ''base_commit must be a 40-character lowercase Git commit'') (Inr t))"

definition store_sha256 :: "json \<Rightarrow> string \<Rightarrow> exn + string" where
  "store_sha256 v field =
     andThen (required v field) (\<lambda>t.
       unless (\<not> sha256_ref t) (ValueError (field @ '' must be a sha256 digest'')) (Inr t))"

text \<open>\<open>UUID(value)\<close>, and the text of a UUID with the integer \<open>n\<close>.\<close>

function remove_all :: "string \<Rightarrow> string \<Rightarrow> string" where
  "remove_all p [] = []"
| "remove_all p (c # cs) =
     (if p \<noteq> [] \<and> take (length p) (c # cs) = p then remove_all p (drop (length p) (c # cs))
      else c # remove_all p cs)"
  by pat_completeness auto

termination
  by (relation "measure (length \<circ> snd)") (auto simp: neq_Nil_conv)

definition uuid_digits :: "string \<Rightarrow> string" where
  "uuid_digits v =
     (let brace = (\<lambda>c. c = CHR ''{'' \<or> c = CHR ''}'');
          h = remove_all ''uuid:'' (remove_all ''urn:'' v)
      in remove_all ''-'' (rev (dropWhile brace (rev (dropWhile brace h)))))"

definition uuid_of :: "string \<Rightarrow> nat option" where
  "uuid_of v =
     (let h = uuid_digits v in
      if length h \<noteq> 32 then None
      else case py_int16 h of None \<Rightarrow> None | Some n \<Rightarrow> Some (nat n))"

definition hex_digits :: "nat \<Rightarrow> nat \<Rightarrow> string" where
  "hex_digits k n = map (\<lambda>i. hex_char (n div 16 ^ i mod 16)) (rev [0..<k])"

definition uuid_text :: "nat \<Rightarrow> string" where
  "uuid_text n =
     (let h = hex_digits 32 n in
      take 8 h @ ''-'' @ take 4 (drop 8 h) @ ''-'' @ take 4 (drop 12 h) @ ''-'' @ take 4 (drop 16 h) @ ''-'' @
      drop 20 h)"

definition store_workspace_id :: "json \<Rightarrow> exn + string" where
  "store_workspace_id v =
     andThen (required v ''workspace_id'') (\<lambda>t.
       case uuid_of t of
         None \<Rightarrow> Inl (ValueError ''workspace_id must be a UUID'')
       | Some n \<Rightarrow> unless (uuid_text n \<noteq> t) (ValueError ''workspace_id must be a normalized UUID'') (Inr t))"

fun split_on :: "char \<Rightarrow> string \<Rightarrow> string list" where
  "split_on sep [] = [[]]"
| "split_on sep (c # cs) =
     (if c = sep then [] # split_on sep cs
      else case split_on sep cs of [] \<Rightarrow> [[c]] | p # ps \<Rightarrow> (c # p) # ps)"

definition safe_changed_path :: "json \<Rightarrow> exn + string" where
  "safe_changed_path v =
     (case v of
        JStr p \<Rightarrow>
          unless (p = []) (ValueError ''changed file path is required'')
          (unless (CHR 0x5C \<in> set p) (ValueError ''changed file path must use normalized separators'')
           (let parts = split_on (CHR ''/'') p in
            unless (list_ex (\<lambda>x. x \<in> {[], ''.'', ''..''}) parts)
              (ValueError ''changed file path must be normalized and relative'')
            (unless (hd parts = ''.git'') (ValueError ''changed file path cannot target .git'') (Inr p))))
      | _ \<Rightarrow> Inl (ValueError ''changed file path is required''))"

fun safe_changed_paths :: "json list \<Rightarrow> exn + string list" where
  "safe_changed_paths [] = Inr []"
| "safe_changed_paths (v # vs) =
     andThen (safe_changed_path v) (\<lambda>p. andThen (safe_changed_paths vs) (\<lambda>ps. Inr (p # ps)))"

definition store_changed_files :: "json list \<Rightarrow> exn + string list" where
  "store_changed_files vs =
     andThen (safe_changed_paths vs) (\<lambda>ps.
       unless (\<not> distinct ps) (ValueError ''changed file paths must be unique'')
       (unless (sort ps \<noteq> ps) (ValueError ''changed file paths must be sorted'') (Inr ps)))"

text \<open>The algorithm may be missing; a value that cannot be hashed makes the membership test fail.\<close>

definition algorithm_check :: "json \<Rightarrow> exn + unit" where
  "algorithm_check v =
     (case v of
        JList _ \<Rightarrow> Inl (TypeError ''unhashable type: list'')
      | JObj _ \<Rightarrow> Inl (TypeError ''unhashable type: dict'')
      | _ \<Rightarrow> unless (v \<noteq> JNull \<and> v \<noteq> JStr ''sha256'')
               (ValueError ''candidate verification algorithm is invalid'') (Inr ()))"

text \<open>The identity the store reads back from the arguments and the evidence, and its check.\<close>

definition evidence_identity ::
  "string \<Rightarrow> string \<Rightarrow> json list \<Rightarrow> dict \<Rightarrow> exn + string \<times> candidate_identity" where
  "evidence_identity mid change_ref files evidence =
     andThen (required (JStr mid) ''mission_id'') (\<lambda>mission.
     andThen (store_sha256 (JStr change_ref) ''change_ref'') (\<lambda>ref.
     unless (dict_get evidence ''verification'' \<noteq> JStr ''candidate_identity_verified'')
       (ValueError ''candidate verification evidence is required'')
     (andThen (algorithm_check (dict_get evidence ''algorithm'')) (\<lambda>_.
      andThen (store_sha256 (dict_get evidence ''change_ref'') ''change_ref'') (\<lambda>evidence_ref.
      unless (evidence_ref \<noteq> ref) (ValueError ''candidate change_ref mismatch'')
      (andThen (required (dict_get evidence ''repository'') ''repository'') (\<lambda>repository.
       unless (repository \<notin> trusted_repositories) (ValueError ''unknown candidate repository'')
       (andThen (required (dict_get evidence ''base_ref'') ''base_ref'') (\<lambda>base_ref.
        unless (base_ref \<noteq> ''main'') (ValueError ''candidate base reference must be main'')
        (andThen (store_git_commit (dict_get evidence ''base_commit'')) (\<lambda>base_commit.
         andThen (store_workspace_id (dict_get evidence ''workspace_id'')) (\<lambda>workspace.
         andThen (store_sha256 (dict_get evidence ''diff_digest'') ''diff_digest'') (\<lambda>diff.
         andThen (store_sha256 (dict_get evidence ''content_digest'') ''content_digest'') (\<lambda>content.
         andThen (store_changed_files files) (\<lambda>paths.
           Inr (ref, \<lparr>id_mission = mission, id_repository = repository, id_base_ref = base_ref,
                      id_base_commit = base_commit, id_workspace = workspace, id_changed_files = paths,
                      id_diff_digest = diff, id_content_digest = content\<rparr>))))))))))))))))"

definition load_verified ::
  "(string \<Rightarrow> string) \<Rightarrow> sandbox \<Rightarrow> string \<Rightarrow> string \<Rightarrow> json list \<Rightarrow> dict \<Rightarrow> exn + persisted_candidate" where
  "load_verified sha sb mid change_ref files evidence =
     andThen (evidence_identity mid change_ref files evidence) (\<lambda>(ref, i).
       unless (canonical_digest sha (identity_json i) \<noteq> ref)
         (ValueError ''candidate change_ref does not match machine identity'')
       (let w = sb_workspace sb (id_repository i) (id_workspace i) in
        unless (wv_symlink w) (ValueError ''candidate workspace cannot be a symlink'')
        (unless (\<not> wv_dir w) (ValueError ''candidate workspace is missing'')
         (unless (\<not> wv_contained w) (ValueError ''candidate workspace escapes sandbox root'')
          (unless (canonical_digest sha (JObj (manifest sha (wv_tree w))) \<noteq> id_content_digest i)
            (ValueError ''candidate workspace content digest is stale'')
            (Inr \<lparr>pc_mission = id_mission i, pc_repository = id_repository i,
                  pc_workspace_id = id_workspace i, pc_base_ref = id_base_ref i,
                  pc_base_commit = id_base_commit i, pc_change_ref = ref,
                  pc_changed_files = id_changed_files i, pc_content_digest = id_content_digest i\<rparr>))))))"

definition read_changed_file :: "sandbox \<Rightarrow> persisted_candidate \<Rightarrow> string \<Rightarrow> exn + string option" where
  "read_changed_file sb c path =
     andThen (safe_changed_path (JStr path)) (\<lambda>p.
       unless (p \<notin> set (pc_changed_files c)) (ValueError ''path is not a verified changed file'')
       (case sb_file sb (pc_repository c) (pc_workspace_id c) p of
          SeenLink \<Rightarrow> Inl (ValueError ''changed file must be a regular file, not a symlink'')
        | SeenMissing \<Rightarrow> Inr None
        | SeenOther \<Rightarrow> Inl (ValueError ''changed file must be a regular file'')
        | SeenOutside \<Rightarrow> Inl (ValueError ''changed file escapes candidate workspace'')
        | SeenFile b \<Rightarrow> Inr (Some b)))"

end
