(* ===== verification/Chat_Intents.thy ===== *)
theory Chat_Intents
  imports Text_Search Missions Candidates
begin

text \<open>
  What a chat message is taken to ask for: \<open>chat/intents.py\<close>. The text is lowered and its words are
  joined with single blanks; then lists of substrings and patterns decide, in a fixed order,
  between a code change, a refusal, a plan of reading tools and plain conversation.
\<close>

section \<open>Constants\<close>

definition read_tools :: "string list" where
  "read_tools =
     [''system.health.read'', ''service.status.read'', ''service.logs.read'', ''dripvid.health.read'',
      ''dripvid.release.read'', ''dripvid.config.read'', ''dripvid.service.status.read'']"

definition own_target :: string where "own_target = ''ai-hq''"

definition dripvid_target :: string where "dripvid_target = ''dripvid''"

definition dripvid_services :: "string list" where
  "dripvid_services = [''jellyfin'', ''cloudflared'', ''dripvid-requests'']"

definition mutation_patterns :: "pattern list" where
  "mutation_patterns =
     map whole_word
       [''restart'', ''reboot'', ''deploy'', ''rollback'', ''roll back'', ''stop'', ''start'', ''kill'', ''shutdown'',
        ''poweroff'', ''shell'', ''terminal'', ''command'', ''execute''] @
     [seqs [Edge, Lit ''run'', Run Blank, Maybe (seqs [Lit ''a'', Run Blank]), Or (Lit ''shell'') (Lit ''command''), Edge],
      seqs [Edge, Lit ''rm'', Run Blank, Lit ''-''],
      whole_word ''sudo'']"

definition code_change_actions :: "string list" where
  "code_change_actions =
     [''make'', ''change'', ''edit'', ''fix'', ''update'', ''adjust'', ''resize'', ''redesign'', ''add'', ''remove'']"

definition code_change_objects :: "string list" where
  "code_change_objects =
     [''ui'', ''toolbar'', ''menu'', ''sidebar'', ''dashboard'', ''layout'', ''spacing'', ''button'', ''page'', ''css'',
      ''style'', ''template'', ''component'', ''code'', ''bug'']"

definition own_target_words :: "string list" where
  "own_target_words = [''ai hq'', ''ai-hq'', '' hq '', ''hq dashboard'', ''hq sidebar'', ''hq ui'']"

definition dripvid_target_words :: "string list" where
  "dripvid_target_words = [''dripvid'', ''drip vid'']"

section \<open>Intents\<close>

record chat_intent =
  ci_kind :: string
  ci_steps :: "plan_entry list"
  ci_refusal :: "string option"
  ci_repository :: "string option"

definition intent_refused :: "string \<Rightarrow> chat_intent" where
  "intent_refused reason =
     \<lparr>ci_kind = ''refused'', ci_steps = [], ci_refusal = Some reason, ci_repository = None\<rparr>"

definition intent_operational :: "plan_entry list \<Rightarrow> chat_intent" where
  "intent_operational steps =
     \<lparr>ci_kind = ''operational'', ci_steps = steps, ci_refusal = None, ci_repository = None\<rparr>"

definition intent_code_change :: "string \<Rightarrow> chat_intent" where
  "intent_code_change repository =
     \<lparr>ci_kind = ''code_change'', ci_steps = [], ci_refusal = None, ci_repository = Some repository\<rparr>"

definition intent_conversation :: chat_intent where
  "intent_conversation = \<lparr>ci_kind = ''conversation'', ci_steps = [], ci_refusal = None, ci_repository = None\<rparr>"

definition chat_step :: "string \<Rightarrow> string \<Rightarrow> string \<Rightarrow> dict \<Rightarrow> exn + plan_entry" where
  "chat_step tool description target arguments =
     unless (tool \<notin> set read_tools) (ValueError ''Tool is not allowed for SysAdmin Chat v1'')
       (Inr \<lparr>pe_description = Some description, pe_tool_name = Some tool,
             pe_tool_arguments = Some ((''target'', JStr target) # arguments)\<rparr>)"

definition is_mutation_request :: "string \<Rightarrow> bool" where
  "is_mutation_request t \<longleftrightarrow> list_ex (\<lambda>p. searches p t) mutation_patterns"

definition looks_like_code_change :: "string \<Rightarrow> bool" where
  "looks_like_code_change t \<longleftrightarrow> contains_any t code_change_actions \<and> contains_any t code_change_objects"

definition resolve_code_change_repository :: "string \<Rightarrow> string option" where
  "resolve_code_change_repository t =
     (let padded = '' '' @ t @ '' '';
          own = contains_any padded own_target_words;
          dripvid = contains_any padded dripvid_target_words
      in if own \<and> dripvid then Some ''ambiguous''
         else if own then Some ''ai-hq''
         else if dripvid then Some ''dripvid''
         else None)"

section \<open>Reading DripVid\<close>

definition service_named :: "string \<Rightarrow> pattern" where
  "service_named service = seqs [NotAfter WordOrDash, Lit service, NotBefore WordOrDash]"

definition dripvid_service_patterns :: "pattern list" where
  "dripvid_service_patterns =
     [seqs [Edge, Lit ''dripvid'', Run Blank, Lit ''service'', Edge],
      seqs [Edge, Lit ''service'', Run Blank, Lit ''dripvid'', Edge],
      seqs [Edge, Lit ''is'', Run Blank, Lit ''dripvid'', Run Blank,
            one_of (Lit ''running'') [Lit ''active'', Lit ''up''], Edge],
      seqs [Edge, Lit ''dripvid'', Run Blank, Maybe (seqs [Lit ''service'', Run Blank]), Lit ''status'', Edge],
      seqs [Edge, Lit ''status'', Run Blank, Lit ''of'', Run Blank, Lit ''dripvid'', Edge]]"

definition explicit_dripvid_service :: "string \<Rightarrow> string option" where
  "explicit_dripvid_service t =
     (case find (\<lambda>service. searches (service_named service) t) dripvid_services of
        Some service \<Rightarrow> Some service
      | None \<Rightarrow> if list_ex (\<lambda>p. searches p t) dripvid_service_patterns then Some ''dripvid'' else None)"

definition referenced_service_patterns :: "pattern list" where
  "referenced_service_patterns =
     [seqs [Edge, Or (Lit ''is'') (Lit ''are''), Run Blank, Mark (Run Slug), Run Blank,
            one_of (Lit ''running'') [Lit ''up'', Lit ''active''], Run Blank, Lit ''on'', Run Blank, Lit ''dripvid'', Edge],
      seqs [Edge, Mark (Run Slug), Run Blank, Maybe (seqs [Lit ''service'', Run Blank]),
            Or (Lit ''status'') (Lit ''state''), Run Blank, Lit ''on'', Run Blank, Lit ''dripvid'', Edge],
      seqs [Edge, Lit ''status'', Run Blank, Lit ''of'', Run Blank, Mark (Run Slug), Run Blank, Lit ''on'',
            Run Blank, Lit ''dripvid'', Edge]]"

fun first_group :: "pattern list \<Rightarrow> string \<Rightarrow> string option" where
  "first_group [] t = None"
| "first_group (p # ps) t = (if searches p t then search_group p t else first_group ps t)"

definition referenced_service :: "string \<Rightarrow> string option" where
  "referenced_service t = first_group referenced_service_patterns t"

text \<open>A plan of steps, or \<open>None\<close> where \<open>_plan_dripvid_read\<close> falls through.\<close>

fun chat_plan :: "(exn + plan_entry) list \<Rightarrow> exn + plan_entry list" where
  "chat_plan [] = Inr []"
| "chat_plan (r # rs) = andThen r (\<lambda>e. andThen (chat_plan rs) (\<lambda>es. Inr (e # es)))"

definition operational_plan :: "(exn + plan_entry) list \<Rightarrow> exn + chat_intent option" where
  "operational_plan rs = andThen (chat_plan rs) (\<lambda>steps. Inr (Some (intent_operational steps)))"

definition dripvid_status_step :: "string \<Rightarrow> exn + plan_entry" where
  "dripvid_status_step service =
     chat_step ''dripvid.service.status.read'' (''Read '' @ service @ '' service status through DripVid MCP'')
       dripvid_target [(''service'', JStr service)]"

definition dripvid_health_step :: "exn + plan_entry" where
  "dripvid_health_step =
     chat_step ''dripvid.health.read'' ''Read DripVid application health through MCP'' dripvid_target []"

definition dripvid_release_step :: "exn + plan_entry" where
  "dripvid_release_step =
     chat_step ''dripvid.release.read'' ''Read the deployed DripVid release identity'' dripvid_target []"

definition service_status_words :: "string list" where
  "service_status_words = [''running'', ''status'', ''service up'', ''service status'', ''is active'']"

definition not_allowlisted :: "string \<Rightarrow> string" where
  "not_allowlisted service =
     ''DripVid service status reads are limited to the read-only allowlist (dripvid, jellyfin, cloudflared, dripvid-requests). '' @
     service @ '' is not allowlisted.''"

text \<open>The part of \<open>_plan_dripvid_read\<close> after the references to a service.\<close>

definition plan_dripvid_health :: "string \<Rightarrow> exn + chat_intent option" where
  "plan_dripvid_health t =
     (let mentions = contains_any t dripvid_target_words in
      if mentions \<and> contains_any t [''health'', ''healthy'', ''readiness'', ''ready'', ''check dripvid'']
      then operational_plan [dripvid_health_step]
      else if mentions \<and> contains_any t [''how is dripvid'', ''is dripvid okay'', ''is dripvid ok'']
      then operational_plan [dripvid_health_step, dripvid_release_step]
      else Inr None)"

definition plan_dripvid_read :: "string \<Rightarrow> exn + chat_intent option" where
  "plan_dripvid_read t =
     (let mentions = contains_any t dripvid_target_words; named = explicit_dripvid_service t in
      if mentions \<and> contains_any t ['' log'', ''logs'', ''logging'']
      then Inr (Some (intent_refused ''DripVid MCP log access is not enabled in the read-only allowlist.''))
      else if mentions \<and> contains_any t [''config'', ''configuration'', ''settings'']
      then operational_plan
             [chat_step ''dripvid.config.read'' ''Read redacted DripVid configuration'' dripvid_target []]
      else if mentions \<and> contains_any t [''version'', ''deployed'', ''release'', ''commit'']
      then operational_plan [dripvid_release_step]
      else if named \<noteq> None \<and> contains_any t service_status_words
      then operational_plan [dripvid_status_step (the named)]
      else if mentions \<and> contains_any t (service_status_words @ ['' up '', '' active ''])
      then (case referenced_service t of
              Some service \<Rightarrow>
                if service = ''dripvid'' \<or> service \<in> set dripvid_services
                then operational_plan [dripvid_status_step service]
                else Inr (Some (intent_refused (not_allowlisted service)))
            | None \<Rightarrow> plan_dripvid_health t)
      else plan_dripvid_health t)"

section \<open>Planning a message\<close>

definition health_step :: "exn + plan_entry" where
  "health_step = chat_step ''system.health.read'' ''Inspect AI HQ system health'' own_target []"

definition status_step :: "exn + plan_entry" where
  "status_step = chat_step ''service.status.read'' ''Inspect AI HQ service status'' own_target []"

definition logs_step :: "exn + plan_entry" where
  "logs_step = chat_step ''service.logs.read'' ''Inspect recent AI HQ service logs'' own_target []"

definition wants_logs :: "string \<Rightarrow> bool" where
  "wants_logs t \<longleftrightarrow>
     contains_any t ['' log'', ''logs'', ''logging'', ''recent log'', ''ai hq logs'', ''ai-hq logs'']"

definition wants_status :: "string \<Rightarrow> bool" where
  "wants_status t \<longleftrightarrow>
     contains_any t
       [''service status'', ''service running'', ''service up'', ''services running'', ''services up'',
        ''is the service'', ''status of the service'', ''status of ai hq services'', ''status of ai-hq services'',
        ''ai hq services status'', ''ai-hq services status'']"

definition wants_health :: "string \<Rightarrow> bool" where
  "wants_health t \<longleftrightarrow>
     contains_any t
       [''system health'', ''server health'', ''health check'', ''check health'', ''machine health'', ''host health'',
        ''health of ai hq'', ''ai hq health'', ''ai-hq health'', ''health of ai-hq'']"

definition general_server_check :: "string \<Rightarrow> bool" where
  "general_server_check t \<longleftrightarrow>
     contains_any t
       [''is anything wrong with ai hq'', ''is anything wrong with ai-hq'', ''check everything in ai hq'',
        ''check everything in ai-hq'', ''is ai hq okay'', ''is ai-hq okay'', ''is ai hq ok'', ''is ai-hq ok'',
        ''investigate ai hq'', ''investigate ai-hq'', ''how is my server'', ''how'' @ CHR 0x27 # ''s my server'',
        ''how is the server'', ''how'' @ CHR 0x27 # ''s the server'', ''server doing'', ''server okay'', ''server ok'',
        ''server healthy'', ''services healthy'', ''everything running'', ''everything okay'', ''everything ok''] \<and>
     \<not> wants_logs t \<and> \<not> wants_status t \<and> \<not> wants_health t"

definition plan_own_read :: "string \<Rightarrow> exn + chat_intent" where
  "plan_own_read t =
     (if general_server_check t
      then andThen (chat_plan [health_step, status_step, logs_step]) (\<lambda>steps. Inr (intent_operational steps))
      else andThen (chat_plan ((if wants_health t then [health_step] else []) @
                               (if wants_status t then [status_step] else []) @
                               (if wants_logs t then [logs_step] else [])))
             (\<lambda>steps. Inr (if steps \<noteq> [] then intent_operational steps else intent_conversation)))"

definition plan_code_change :: "string \<Rightarrow> chat_intent" where
  "plan_code_change t =
     (case resolve_code_change_repository t of
        None \<Rightarrow> intent_refused ''Code-change request requires a trusted repository target: ai-hq or dripvid.''
      | Some repository \<Rightarrow>
          if repository = ''ambiguous''
          then intent_refused ''Code-change requests must target exactly one trusted repository: ai-hq or dripvid.''
          else intent_code_change repository)"

definition plan_normalized :: "string \<Rightarrow> exn + chat_intent" where
  "plan_normalized t =
     (if looks_like_code_change t then Inr (plan_code_change t)
      else if is_mutation_request t
      then Inr (intent_refused
                  ''SysAdmin currently has read-only authority. Restart, deploy, rollback, shell and other mutation operations are not enabled.'')
      else andThen (plan_dripvid_read t) (\<lambda>planned.
             case planned of Some intent \<Rightarrow> Inr intent | None \<Rightarrow> plan_own_read t))"

definition plan_sysadmin_intent :: "string \<Rightarrow> exn + chat_intent" where
  "plan_sysadmin_intent text_in = plan_normalized (squeeze (lower_text text_in))"

section \<open>Laws\<close>

text \<open>
  An entry a chat plan may hold: one of the reading tools, with a target and at most a service, so
  neither conditions nor a mutation flag.
\<close>

definition read_entry :: "plan_entry \<Rightarrow> bool" where
  "read_entry e \<longleftrightarrow>
     (\<exists>d tool target args. e = \<lparr>pe_description = Some d, pe_tool_name = Some tool,
         pe_tool_arguments = Some ((''target'', JStr target) # args)\<rparr> \<and>
       tool \<in> set read_tools \<and> (args = [] \<or> (\<exists>service. args = [(''service'', JStr service)])))"

definition intent_ok :: "chat_intent \<Rightarrow> bool" where
  "intent_ok i \<longleftrightarrow>
     (ci_kind i = ''operational'' \<and> ci_steps i \<noteq> [] \<and> list_all read_entry (ci_steps i)) \<or>
     (ci_kind i = ''refused'' \<and> ci_steps i = [] \<and> ci_refusal i \<noteq> None) \<or>
     (ci_kind i = ''code_change'' \<and> ci_steps i = [] \<and> ci_repository i \<in> {Some ''ai-hq'', Some ''dripvid''}) \<or>
     (ci_kind i = ''conversation'' \<and> ci_steps i = [])"

lemma intent_ok_basic [simp]:
  "intent_ok (intent_refused reason)" "intent_ok intent_conversation"
  "intent_ok (intent_operational steps) \<longleftrightarrow> steps \<noteq> [] \<and> list_all read_entry steps"
  "intent_ok (intent_code_change r) \<longleftrightarrow> r \<in> {''ai-hq'', ''dripvid''}"
  by (auto simp: intent_ok_def intent_refused_def intent_conversation_def intent_operational_def
      intent_code_change_def)

definition reads :: "exn + plan_entry \<Rightarrow> bool" where
  "reads r \<longleftrightarrow> (\<exists>e. r = Inr e \<and> read_entry e)"

lemma reads_chat_step:
  "tool \<in> set read_tools \<Longrightarrow> args = [] \<or> (\<exists>service. args = [(''service'', JStr service)]) \<Longrightarrow>
   reads (chat_step tool d target args)"
  by (auto simp: reads_def read_entry_def chat_step_def)

lemma reads_steps:
  "reads health_step" "reads status_step" "reads logs_step" "reads dripvid_health_step"
  "reads dripvid_release_step" "reads (dripvid_status_step service)"
  "reads (chat_step ''dripvid.config.read'' d target [])"
  unfolding health_step_def status_step_def logs_step_def dripvid_health_step_def dripvid_release_step_def
    dripvid_status_step_def
  by (rule reads_chat_step; simp add: read_tools_def)+

lemma chat_plan_reads:
  "list_all reads rs \<Longrightarrow> \<exists>es. chat_plan rs = Inr es \<and> length es = length rs \<and> list_all read_entry es"
  by (induction rs) (auto simp: reads_def)

lemma operational_plan_ok:
  assumes "list_all reads rs" and "rs \<noteq> []"
  shows "\<exists>i. operational_plan rs = Inr (Some i) \<and> intent_ok i"
proof -
  from chat_plan_reads[OF assms(1)] obtain es
    where "chat_plan rs = Inr es" "length es = length rs" "list_all read_entry es" by blast
  with assms(2) show ?thesis by (auto simp: operational_plan_def)
qed

definition option_ok :: "exn + chat_intent option \<Rightarrow> bool" where
  "option_ok r \<longleftrightarrow> (\<exists>v. r = Inr v \<and> (\<forall>i. v = Some i \<longrightarrow> intent_ok i))"

lemma option_ok_basic [simp]: "option_ok (Inr None)" "option_ok (Inr (Some i)) \<longleftrightarrow> intent_ok i"
  by (simp_all add: option_ok_def)

lemma option_ok_plan [simp]: "list_all reads rs \<Longrightarrow> rs \<noteq> [] \<Longrightarrow> option_ok (operational_plan rs)"
  using operational_plan_ok[of rs] by auto

lemma plan_dripvid_health_ok: "option_ok (plan_dripvid_health t)"
  by (simp add: plan_dripvid_health_def Let_def reads_steps)

lemma plan_dripvid_read_ok: "option_ok (plan_dripvid_read t)"
  using plan_dripvid_health_ok[of t]
  by (simp add: plan_dripvid_read_def Let_def reads_steps split: option.split)

lemma plan_own_read_ok: "\<exists>i. plan_own_read t = Inr i \<and> intent_ok i"
proof (cases "general_server_check t")
  case True
  have "list_all reads [health_step, status_step, logs_step]" by (simp add: reads_steps)
  from chat_plan_reads[OF this] True show ?thesis by (force simp: plan_own_read_def)
next
  case False
  let ?rs = "(if wants_health t then [health_step] else []) @ (if wants_status t then [status_step] else []) @
             (if wants_logs t then [logs_step] else [])"
  have "list_all reads ?rs" by (simp add: reads_steps)
  from chat_plan_reads[OF this] obtain es where "chat_plan ?rs = Inr es" "list_all read_entry es" by blast
  with False show ?thesis by (simp add: plan_own_read_def del: chat_plan.simps)
qed

lemma plan_code_change_ok: "intent_ok (plan_code_change t)"
  by (auto simp: plan_code_change_def resolve_code_change_repository_def Let_def)

text \<open>Planning never raises, and what it returns is one of the four shapes.\<close>

lemma plan_normalized_ok: "\<exists>i. plan_normalized t = Inr i \<and> intent_ok i"
proof (cases "looks_like_code_change t \<or> is_mutation_request t")
  case True
  then show ?thesis using plan_code_change_ok[of t] by (auto simp: plan_normalized_def)
next
  case False
  from plan_dripvid_read_ok[of t] obtain v where v: "plan_dripvid_read t = Inr v" "\<forall>i. v = Some i \<longrightarrow> intent_ok i"
    by (auto simp: option_ok_def)
  show ?thesis
    using False v plan_own_read_ok[of t] by (cases v) (auto simp: plan_normalized_def)
qed

lemma plan_sysadmin_intent_ok: "\<exists>i. plan_sysadmin_intent t = Inr i \<and> intent_ok i"
  unfolding plan_sysadmin_intent_def by (rule plan_normalized_ok)

text \<open>A text with a mutating word never becomes a plan of steps.\<close>

lemma mutation_never_planned:
  assumes "is_mutation_request t" and "plan_normalized t = Inr i"
  shows "ci_kind i \<in> {''refused'', ''code_change''} \<and> ci_steps i = []"
proof -
  have "ci_kind (plan_code_change t) \<in> {''refused'', ''code_change''} \<and> ci_steps (plan_code_change t) = []"
    by (auto simp: plan_code_change_def intent_refused_def intent_code_change_def split: option.split)
  with assms show ?thesis by (auto simp: plan_normalized_def intent_refused_def split: if_splits)
qed

lemma mutation_word:
  assumes "w \<in> {''restart'', ''reboot'', ''deploy'', ''rollback'', ''stop'', ''start'', ''kill'', ''shutdown'',
                ''poweroff'', ''shell'', ''terminal'', ''command'', ''execute'', ''sudo''}"
    and "searches (whole_word w) t"
  shows "is_mutation_request t"
proof -
  have "whole_word w \<in> set mutation_patterns"
    using assms(1) by (auto simp: mutation_patterns_def simp del: seqs.simps)
  with assms(2) show ?thesis by (auto simp: is_mutation_request_def list_ex_iff)
qed

end
