(* ===== verification/Delivery.thy ===== *)
theory Delivery
  imports Operations Candidates
begin

text \<open>
  The delivery of a code change: \<open>delivery/models.py\<close>, \<open>delivery/service.py\<close> and the coordinator
  \<open>delivery/runtime.py\<close>. A proposal goes from the developer to QA, from QA to human approval, and an
  approved one is published, deployed and possibly rolled back; each of the last three is
  recorded at most once.
\<close>

section \<open>Data\<close>

datatype delivery_stage = STAGE_DEVELOPER | STAGE_QA | STAGE_WAITING_APPROVAL

datatype qa_result = QA_PASSED | QA_FAILED

record delivery =
  d_id :: string
  d_mission :: string
  d_stage :: delivery_stage
  d_change_ref :: string
  d_summary :: string
  d_changed_files :: "json list"
  d_developer_evidence :: dict
  d_qa_result :: "qa_result option"
  d_qa_evidence :: "dict option"
  d_approval_reference :: "string option"
  d_published_branch :: "string option"
  d_published_commit :: "string option"
  d_published_tree :: "string option"
  d_published_at :: "stamp option"
  d_release_id :: "string option"
  d_prior_release_id :: "string option"
  d_deployed_at :: "stamp option"
  d_rollback_release_id :: "string option"
  d_rolled_back_at :: "stamp option"

record 'w delivery_db = "'w gateway_db" +
  deliveries :: "delivery list"

text \<open>Consecutive \<open>if ...: raise ValueError(...)\<close> statements: the first that applies.\<close>

fun guards :: "(bool \<times> string) list \<Rightarrow> exn option" where
  "guards [] = None"
| "guards ((bad, msg) # gs) = (if bad then Some (ValueError msg) else guards gs)"

definition no_text :: "string option \<Rightarrow> bool" where
  "no_text v \<longleftrightarrow> (case v of None \<Rightarrow> True | Some s \<Rightarrow> s = [])"

definition publish_branch_prefix :: string where
  "publish_branch_prefix = ''ai-hq/candidate/''"

definition delivery_approval_expired :: "stamp \<Rightarrow> int \<Rightarrow> bool" where
  "delivery_approval_expired t now \<longleftrightarrow> stamp_instant t \<le> now"

section \<open>The service\<close>

definition delivery_missing :: "string \<Rightarrow> exn" where
  "delivery_missing mid = KeyError (''delivery not found for mission: '' @ mid)"

definition save_delivery :: "delivery \<Rightarrow> ('w, 'a) delivery_db_scheme \<Rightarrow> ('w, 'a) delivery_db_scheme" where
  "save_delivery d s = s\<lparr>deliveries := save_row d_id d (deliveries s)\<rparr>"

definition get_delivery :: "string \<Rightarrow> (('w, 'a) delivery_db_scheme, delivery) op" where
  "get_delivery mid s =
     (case row_of d_mission mid (deliveries s) of
        None \<Rightarrow> (Inl (delivery_missing mid), s)
      | Some d \<Rightarrow> (Inr d, s))"

text \<open>Loading the mission and its delivery, as every later operation does first.\<close>

definition with_delivery ::
  "string \<Rightarrow> (mission \<Rightarrow> delivery \<Rightarrow> (('w, 'a) delivery_db_scheme, 'b) op) \<Rightarrow>
   (('w, 'a) delivery_db_scheme, 'b) op" where
  "with_delivery mid f s =
     (case row_of m_id mid (missions s) of
        None \<Rightarrow> (Inl (KeyError (''mission not found: '' @ mid)), s)
      | Some m \<Rightarrow>
          (case row_of d_mission mid (deliveries s) of
             None \<Rightarrow> (Inl (delivery_missing mid), s)
           | Some d \<Rightarrow> f m d s))"

definition proposal_row :: "string \<Rightarrow> string \<Rightarrow> string \<Rightarrow> string \<Rightarrow> json list \<Rightarrow> dict \<Rightarrow> delivery" where
  "proposal_row new_id mid change_ref summary files evidence =
     \<lparr>d_id = new_id, d_mission = mid, d_stage = STAGE_QA, d_change_ref = change_ref,
      d_summary = summary, d_changed_files = files, d_developer_evidence = evidence,
      d_qa_result = None, d_qa_evidence = None, d_approval_reference = None,
      d_published_branch = None, d_published_commit = None, d_published_tree = None,
      d_published_at = None, d_release_id = None, d_prior_release_id = None,
      d_deployed_at = None, d_rollback_release_id = None, d_rolled_back_at = None\<rparr>"

definition submit_developer_proposal ::
  "string \<Rightarrow> string \<Rightarrow> string \<Rightarrow> string \<Rightarrow> json list \<Rightarrow> dict \<Rightarrow>
   (('w, 'a) delivery_db_scheme, delivery) op" where
  "submit_developer_proposal new_id mid change_ref summary files evidence s =
     (case guards [(strip change_ref = [], ''change_ref is required''),
                   (strip summary = [], ''summary is required'')] of
        Some e \<Rightarrow> (Inl e, s)
      | None \<Rightarrow>
          (case row_of m_id mid (missions s) of
             None \<Rightarrow> (Inl (KeyError (''mission not found: '' @ mid)), s)
           | Some m \<Rightarrow>
               if row_of d_mission mid (deliveries s) \<noteq> None
               then (Inl (ValueError ''mission already has a developer proposal''), s)
               else let m' = (if m_status m = QUEUED then m\<lparr>m_status := RUNNING\<rparr> else m) in
                 if m_status m' \<noteq> RUNNING
                 then (Inl (ValueError ''mission must be QUEUED or RUNNING for developer submission''), s)
                 else let d = proposal_row new_id mid change_ref summary files evidence in
                   (case insert_row d_id d (deliveries s) of
                      Inl e \<Rightarrow> (Inl e, s)
                    | Inr rows \<Rightarrow>
                        (Inr d, s\<lparr>missions := save_row m_id m' (missions s), deliveries := rows\<rparr>))))"

text \<open>What QA's approval request asks for, and the reference kept with the mission.\<close>

definition approval_plan :: "delivery \<Rightarrow> dict \<Rightarrow> dict" where
  "approval_plan d evidence =
     [(''change_ref'', JStr (d_change_ref d)), (''summary'', JStr (d_summary d)),
      (''changed_files'', JList (d_changed_files d)),
      (''developer_evidence'', JObj (d_developer_evidence d)), (''qa_evidence'', JObj evidence)]"

definition approval_note :: "string \<Rightarrow> delivery \<Rightarrow> json" where
  "approval_note ref d =
     JObj [(''approval_reference'', JStr ref), (''change_ref'', JStr (d_change_ref d))]"

definition record_qa_result ::
  "(string \<Rightarrow> string) \<Rightarrow> string \<Rightarrow> int \<Rightarrow> int \<Rightarrow> string \<Rightarrow> string \<Rightarrow> qa_result \<Rightarrow> dict \<Rightarrow>
   (('w, 'a) delivery_db_scheme, delivery) op" where
  "record_qa_result sha new_id created now mid change_ref result evidence =
     with_delivery mid (\<lambda>m d s.
       case guards [(d_stage d \<noteq> STAGE_QA, ''delivery is not awaiting QA''),
                    (d_change_ref d \<noteq> change_ref, ''change_ref does not match developer proposal'')] of
         Some e \<Rightarrow> (Inl e, s)
       | None \<Rightarrow>
           let d1 = d\<lparr>d_qa_result := Some result, d_qa_evidence := Some evidence\<rparr> in
           (case result of
              QA_FAILED \<Rightarrow>
                let d2 = d1\<lparr>d_stage := STAGE_DEVELOPER, d_approval_reference := None\<rparr>
                in (Inr d2, save_delivery d2 s)
            | QA_PASSED \<Rightarrow>
                if m_status m \<noteq> RUNNING
                then (Inl (ValueError ''mission must be RUNNING before approval''), s)
                else bindE (create_request sha new_id created
                       \<lparr>rq_mission = m_id m, rq_requester = ''qa'', rq_action = ''approve_delivery_change'',
                        rq_target = d_change_ref d, rq_risk = m_risk m, rq_plan = approval_plan d evidence,
                        rq_expires_at = Aware (now + seconds (24 * 3600))\<rparr>) (\<lambda>a t.
                  let d2 = d1\<lparr>d_stage := STAGE_WAITING_APPROVAL, d_approval_reference := Some (ar_id a)\<rparr>;
                      m' = m\<lparr>m_status := WAITING_APPROVAL,
                             m_approval_references := m_approval_references m @ [approval_note (ar_id a) d]\<rparr>
                  in (Inr d2, save_delivery d2 (t\<lparr>missions := save_row m_id m' (missions t)\<rparr>))) s))"

text \<open>
  The checks before publication, deployment and rollback: the same sequence in all three, with
  what is being done (\<open>what\<close>) in the messages and further conditions of the later ones.
\<close>

definition approval_guards :: "string \<Rightarrow> string \<Rightarrow> string \<Rightarrow> int \<Rightarrow> approval_request \<Rightarrow> exn option" where
  "approval_guards what mid change_ref now a =
     guards [(ar_mission a \<noteq> mid, ''approval mission does not match '' @ what),
             (ar_target a \<noteq> change_ref, ''approval target does not match change_ref''),
             (dict_get (ar_plan a) ''change_ref'' \<noteq> JStr change_ref,
              ''approval action plan does not match change_ref''),
             (delivery_approval_expired (ar_expires_at a) now, what @ '' approval expired''),
             (ar_state a \<noteq> APPROVED, what @ '' requires approved human approval'')]"

definition approved_delivery ::
  "string \<Rightarrow> (delivery \<Rightarrow> (bool \<times> string) list) \<Rightarrow> string \<Rightarrow> string \<Rightarrow> int \<Rightarrow>
   (delivery \<Rightarrow> (('w, 'a) delivery_db_scheme, delivery) op) \<Rightarrow> (('w, 'a) delivery_db_scheme, delivery) op" where
  "approved_delivery what further mid change_ref now f =
     with_delivery mid (\<lambda>m d s.
       case guards ([(d_change_ref d \<noteq> change_ref, ''change_ref does not match '' @ what @ '' candidate''),
                     (d_stage d \<noteq> STAGE_WAITING_APPROVAL,
                      ''delivery is not waiting for '' @ what @ '' approval''),
                     (d_qa_result d \<noteq> Some QA_PASSED, ''QA must pass before '' @ what),
                     (no_text (d_approval_reference d), what @ '' requires human approval'')] @ further d) of
         Some e \<Rightarrow> (Inl e, s)
       | None \<Rightarrow>
           bindE (get_request (case d_approval_reference d of None \<Rightarrow> [] | Some r \<Rightarrow> r)) (\<lambda>a t.
             case approval_guards what mid change_ref now a of
               Some e \<Rightarrow> (Inl e, t)
             | None \<Rightarrow> f d t) s)"

text \<open>Recording a publication: nothing for the same one again, an error for another one.\<close>

definition publish_row ::
  "string \<Rightarrow> string \<Rightarrow> string \<Rightarrow> int \<Rightarrow> delivery \<Rightarrow> (('w, 'a) delivery_db_scheme, delivery) op" where
  "publish_row branch commit tree published d s =
     (let existing = (d_published_branch d, d_published_commit d, d_published_tree d) in
      if existing \<noteq> (None, None, None)
      then if existing \<noteq> (Some branch, Some commit, Some tree) \<or> d_published_at d = None
           then (Inl (ValueError ''publication identity does not match persisted publication''), s)
           else (Inr d, s)
      else let d' = d\<lparr>d_published_branch := Some branch, d_published_commit := Some commit,
                      d_published_tree := Some tree, d_published_at := Some (Aware published)\<rparr>
           in (Inr d', save_delivery d' s))"

definition record_publication ::
  "string \<Rightarrow> string \<Rightarrow> string \<Rightarrow> string \<Rightarrow> string \<Rightarrow> int \<Rightarrow> int \<Rightarrow>
   (('w, 'a) delivery_db_scheme, delivery) op" where
  "record_publication mid change_ref branch commit tree now published s =
     (case guards [(take (length publish_branch_prefix) branch \<noteq> publish_branch_prefix,
                    ''publication branch must use generated candidate namespace''),
                   (\<not> git_sha commit, ''publication commit must be a Git SHA''),
                   (\<not> git_sha tree, ''publication tree must be a Git SHA'')] of
        Some e \<Rightarrow> (Inl e, s)
      | None \<Rightarrow> approved_delivery ''publication'' (\<lambda>_. []) mid change_ref now
                  (publish_row branch commit tree published) s)"

definition unpublished :: "delivery \<Rightarrow> bool" where
  "unpublished d \<longleftrightarrow>
     no_text (d_published_branch d) \<or> no_text (d_published_commit d) \<or> no_text (d_published_tree d)"

definition deploy_row ::
  "string \<Rightarrow> string option \<Rightarrow> int \<Rightarrow> delivery \<Rightarrow> (('w, 'a) delivery_db_scheme, delivery) op" where
  "deploy_row release prior deployed d s =
     (if d_release_id d \<noteq> None \<or> d_prior_release_id d \<noteq> None
      then if (d_release_id d, d_prior_release_id d) \<noteq> (Some release, prior) \<or> d_deployed_at d = None
           then (Inl (ValueError ''deployment identity does not match persisted deployment''), s)
           else (Inr d, s)
      else let d' = d\<lparr>d_release_id := Some release, d_prior_release_id := prior,
                      d_deployed_at := Some (Aware deployed)\<rparr>
           in (Inr d', save_delivery d' s))"

definition record_deployment ::
  "string \<Rightarrow> string \<Rightarrow> string \<Rightarrow> string option \<Rightarrow> int \<Rightarrow> int \<Rightarrow>
   (('w, 'a) delivery_db_scheme, delivery) op" where
  "record_deployment mid change_ref release prior now deployed s =
     (case guards [(\<not> release_id_valid release, ''release id must use the trusted release identity charset''),
                   (case prior of None \<Rightarrow> False | Some p \<Rightarrow> \<not> release_id_valid p,
                    ''prior release id must use the trusted release identity charset'')] of
        Some e \<Rightarrow> (Inl e, s)
      | None \<Rightarrow>
          approved_delivery ''deployment''
            (\<lambda>d. [(unpublished d, ''candidate must be published before deployment'')])
            mid change_ref now (deploy_row release prior deployed) s)"

definition roll_back_row ::
  "string \<Rightarrow> int \<Rightarrow> delivery \<Rightarrow> (('w, 'a) delivery_db_scheme, delivery) op" where
  "roll_back_row release rolled_back d s =
     (if d_rollback_release_id d \<noteq> None \<or> d_rolled_back_at d \<noteq> None
      then if d_rollback_release_id d \<noteq> Some release \<or> d_rolled_back_at d = None
           then (Inl (ValueError ''rollback identity does not match persisted rollback''), s)
           else (Inr d, s)
      else let d' = d\<lparr>d_rollback_release_id := Some release, d_rolled_back_at := Some (Aware rolled_back)\<rparr>
           in (Inr d', save_delivery d' s))"

definition record_rollback ::
  "string \<Rightarrow> string \<Rightarrow> string \<Rightarrow> int \<Rightarrow> int \<Rightarrow> (('w, 'a) delivery_db_scheme, delivery) op" where
  "record_rollback mid change_ref release now rolled_back s =
     (case guards [(\<not> release_id_valid release,
                    ''release id must use the trusted release identity charset'')] of
        Some e \<Rightarrow> (Inl e, s)
      | None \<Rightarrow>
          approved_delivery ''rollback''
            (\<lambda>d. [(unpublished d, ''candidate must be published before rollback''),
                  (no_text (d_release_id d), ''candidate must be deployed before rollback''),
                  (no_text (d_prior_release_id d), ''no prior known-good release is recorded for rollback''),
                  (d_prior_release_id d \<noteq> Some release,
                   ''rollback release must resolve from trusted deployment history'')])
            mid change_ref now (roll_back_row release rolled_back) s)"

definition apply_human_decision ::
  "string \<Rightarrow> string \<Rightarrow> string \<Rightarrow> int \<Rightarrow> (('w, 'a) delivery_db_scheme, delivery) op" where
  "apply_human_decision mid reference change_ref now =
     with_delivery mid (\<lambda>m d s.
       case guards [(d_stage d \<noteq> STAGE_WAITING_APPROVAL, ''delivery is not waiting for human approval''),
                    (d_approval_reference d \<noteq> Some reference, ''approval reference does not match delivery''),
                    (d_change_ref d \<noteq> change_ref, ''change_ref does not match approved proposal'')] of
         Some e \<Rightarrow> (Inl e, s)
       | None \<Rightarrow>
           bindE (get_request reference) (\<lambda>a t.
             case guards [(ar_mission a \<noteq> mid, ''approval mission does not match delivery''),
                          (ar_target a \<noteq> d_change_ref d, ''approval target does not match change_ref''),
                          (dict_get (ar_plan a) ''change_ref'' \<noteq> JStr (d_change_ref d),
                           ''approval action plan does not match change_ref''),
                          (delivery_approval_expired (ar_expires_at a) now, ''approval request expired''),
                          (ar_state a = APPROVAL_PENDING, ''approval request has not been decided'')] of
               Some e \<Rightarrow> (Inl e, t)
             | None \<Rightarrow>
                 if ar_state a = APPROVED then (Inr d, t)
                 else let d' = d\<lparr>d_stage := STAGE_DEVELOPER, d_approval_reference := None\<rparr>;
                          m' = m\<lparr>m_status := RUNNING\<rparr>
                      in (Inr d', save_delivery d' (t\<lparr>missions := save_row m_id m' (missions t)\<rparr>))) s)"

section \<open>The coordinator\<close>

definition handoff_to_developer ::
  "string \<Rightarrow> string \<Rightarrow> string \<Rightarrow> string \<Rightarrow> json list option \<Rightarrow> dict option \<Rightarrow>
   (('w, 'a) delivery_db_scheme, delivery) op" where
  "handoff_to_developer new_id mid change_ref summary files evidence s =
     (case guards [(strip change_ref = [], ''change_ref is required''),
                   (strip summary = [], ''summary is required''),
                   (evidence = None \<or> evidence = Some [], ''developer evidence is required'')] of
        Some e \<Rightarrow> (Inl e, s)
      | None \<Rightarrow>
          submit_developer_proposal new_id mid (strip change_ref) (strip summary)
            (case files of None \<Rightarrow> [] | Some xs \<Rightarrow> xs) (case evidence of None \<Rightarrow> [] | Some d \<Rightarrow> d) s)"

definition handoff_to_qa ::
  "(string \<Rightarrow> string) \<Rightarrow> string \<Rightarrow> int \<Rightarrow> int \<Rightarrow> string \<Rightarrow> string \<Rightarrow> qa_result \<Rightarrow> dict \<Rightarrow>
   (('w, 'a) delivery_db_scheme, delivery) op" where
  "handoff_to_qa sha new_id created now mid change_ref result evidence s =
     (case guards [(strip change_ref = [], ''change_ref is required''),
                   (evidence = [], ''QA evidence is required'')] of
        Some e \<Rightarrow> (Inl e, s)
      | None \<Rightarrow> record_qa_result sha new_id created now mid (strip change_ref) result evidence s)"

end
