(* ===== verification/Delivery_Agents.thy ===== *)
theory Delivery_Agents
  imports Delivery
begin

text \<open>
  The coordination of the developer, the workspace and QA: \<open>delivery/agent_runner.py\<close>. The reasoning
  agents and the workspace act on the outside world and are arguments; what they return is checked before
  anything is persisted.
\<close>

section \<open>Acting on the outside world\<close>

definition on_world :: "('w, 'b) op \<Rightarrow> (('w, 'a) gateway_db_scheme, 'b) op" where
  "on_world m s = (case m (world s) of (r, w) \<Rightarrow> (r, s\<lparr>world := w\<rparr>))"

record 'w workspace_service =
  wk_prepare :: "string \<Rightarrow> ('w, workspace) op"
  wk_apply_changes :: "workspace \<Rightarrow> file_change list \<Rightarrow> ('w, snapshot) op"
  wk_review_diff :: "workspace \<Rightarrow> ('w, string) op"
  wk_run_tests :: "workspace \<Rightarrow> ('w, test_evidence) op"

record 'w agent_runner =
  rn_developer :: "string \<Rightarrow> ('w, json) op"
  rn_qa :: "delivery \<Rightarrow> ('w, json) op"
  rn_verifier :: bool
  rn_workspace :: "'w workspace_service option"

section \<open>What the developer returns\<close>

definition change_error :: "nat \<Rightarrow> string \<Rightarrow> exn" where
  "change_error i msg = ValueError (''developer change '' @ nat_repr i @ msg)"

definition candidate_file_change :: "nat \<Rightarrow> json \<Rightarrow> exn + file_change" where
  "candidate_file_change i raw =
     (case raw of
        JObj d \<Rightarrow>
          (case dict_get d ''path'' of
             JStr path \<Rightarrow>
               unless (strip path = []) (change_error i '' requires path'')
               (case file_operation_of (dict_get d ''operation'') of
                  None \<Rightarrow> Inl (change_error i '' has invalid operation'')
                | Some op \<Rightarrow>
                    unless (''content'' \<notin> dict_keys d) (change_error i '' requires content'')
                    (case make_file_change path op (dict_get d ''content'') of
                       Inl (ValueError e) \<Rightarrow> Inl (change_error i ('' is invalid: '' @ e))
                     | r \<Rightarrow> r))
           | _ \<Rightarrow> Inl (change_error i '' requires path''))
      | _ \<Rightarrow> Inl (change_error i '' must be an object''))"

fun candidate_changes_from :: "nat \<Rightarrow> json list \<Rightarrow> exn + file_change list" where
  "candidate_changes_from i [] = Inr []"
| "candidate_changes_from i (raw # raws) =
     andThen (candidate_file_change i raw) (\<lambda>c.
     andThen (candidate_changes_from (Suc i) raws) (\<lambda>cs. Inr (c # cs)))"

definition candidate_file_changes :: "dict \<Rightarrow> exn + file_change list" where
  "candidate_file_changes candidate =
     (case dict_get candidate ''changes'' of
        JList raws \<Rightarrow> candidate_changes_from 0 raws
      | _ \<Rightarrow> Inl (ValueError ''developer candidate changes must be a list''))"

section \<open>The runner\<close>

definition prepare_workspace :: "'w agent_runner \<Rightarrow> string \<Rightarrow> (('w, 'a) delivery_db_scheme, workspace) op" where
  "prepare_workspace r mid =
     (case rn_workspace r of
        None \<Rightarrow> raiseE (ValueError ''repository workspace service is required'')
      | Some w \<Rightarrow>
          if \<not> rn_verifier r then raiseE (ValueError ''candidate verifier is required'')
          else on_world (wk_prepare w mid))"

definition verify_and_persist ::
  "(string \<Rightarrow> string) \<Rightarrow> string \<Rightarrow> 'w agent_runner \<Rightarrow> string \<Rightarrow> json \<Rightarrow> workspace \<Rightarrow>
   (('w, 'a) delivery_db_scheme, unit) op" where
  "verify_and_persist sha new_id r mid candidate ws =
     (case candidate of
        JObj d \<Rightarrow>
          if (case dict_get d ''summary'' of JStr summary \<Rightarrow> strip summary = [] | _ \<Rightarrow> True)
          then raiseE (ValueError ''developer candidate requires summary'')
          else (case rn_workspace r of
             None \<Rightarrow> raiseE (ValueError ''verified candidate dependencies are required'')
           | Some w \<Rightarrow>
               if \<not> rn_verifier r then raiseE (ValueError ''verified candidate dependencies are required'')
               else
                 bindE (liftE (candidate_file_changes d)) (\<lambda>changes.
                 bindE (on_world (wk_apply_changes w ws changes)) (\<lambda>sn.
                 bindE (on_world (wk_review_diff w ws)) (\<lambda>diff.
                 bindE (on_world (wk_run_tests w ws)) (\<lambda>te.
                 bindE (liftE (verify_candidate sha mid d sn te (Some diff))) (\<lambda>v.
                 bindE (handoff_to_developer new_id mid (vc_change_ref v) (vc_summary v)
                          (Some (map JStr (vc_changed_files v))) (Some (vc_evidence v))) (\<lambda>_.
                   returnE ())))))))
      | _ \<Rightarrow> raiseE (TypeError ''developer candidate must be a mapping''))"

definition run_developer ::
  "(string \<Rightarrow> string) \<Rightarrow> string \<Rightarrow> 'w agent_runner \<Rightarrow> string \<Rightarrow> (('w, 'a) delivery_db_scheme, bool) op" where
  "run_developer sha new_id r mid =
     bindE (prepare_workspace r mid) (\<lambda>ws.
     bindE (on_world (rn_developer r mid)) (\<lambda>candidate.
     bindE (verify_and_persist sha new_id r mid candidate ws) (\<lambda>_. returnE True)))"

definition persist_candidate ::
  "(string \<Rightarrow> string) \<Rightarrow> string \<Rightarrow> 'w agent_runner \<Rightarrow> string \<Rightarrow> json \<Rightarrow>
   (('w, 'a) delivery_db_scheme, bool) op" where
  "persist_candidate sha new_id r mid candidate =
     bindE (prepare_workspace r mid) (\<lambda>ws.
     bindE (verify_and_persist sha new_id r mid candidate ws) (\<lambda>_. returnE True))"

definition qa_result_of :: "json \<Rightarrow> qa_result option" where
  "qa_result_of v =
     (if v = JStr ''PASSED'' then Some QA_PASSED else if v = JStr ''FAILED'' then Some QA_FAILED else None)"

definition run_qa ::
  "(string \<Rightarrow> string) \<Rightarrow> string \<Rightarrow> int \<Rightarrow> int \<Rightarrow> 'w agent_runner \<Rightarrow> delivery \<Rightarrow>
   (('w, 'a) delivery_db_scheme, bool) op" where
  "run_qa sha new_id created now r d =
     bindE (on_world (rn_qa r d)) (\<lambda>result.
       case result of
         JObj res \<Rightarrow>
           (case qa_result_of (dict_get res ''result'') of
              None \<Rightarrow> raiseE (ValueError ''QA result must be PASSED or FAILED'')
            | Some verdict \<Rightarrow>
                (case dict_get res ''evidence'' of
                   JObj evidence \<Rightarrow>
                     if evidence = [] then raiseE (ValueError ''QA result requires evidence'')
                     else bindE (handoff_to_qa sha new_id created now (d_mission d) (d_change_ref d) verdict evidence)
                            (\<lambda>_. returnE True)
                 | _ \<Rightarrow> raiseE (ValueError ''QA result requires evidence'')))
       | _ \<Rightarrow> raiseE (TypeError ''QA result must be a mapping''))"

end
