(* ===== verification/Publication.thy ===== *)
theory Publication
  imports Delivery_Agents
begin

text \<open>
  Taking an approved candidate out of the system: \<open>code_changes/publisher.py\<close> (a generated branch on
  GitHub), \<open>code_changes/deployer.py\<close> and \<open>code_changes/rollbacker.py\<close> (the operational transport). The
  HTTP client is an argument that acts on the outside world.
\<close>

section \<open>Targets and identities\<close>

record publish_target =
  pt_key :: string
  pt_repository :: string
  pt_base_branch :: string
  pt_branch_prefix :: string

definition name_char :: "char \<Rightarrow> bool" where
  "name_char c \<longleftrightarrow> ascii_alnum c \<or> c \<in> set ''_.-''"

definition repository_name :: "string \<Rightarrow> bool" where
  "repository_name s \<longleftrightarrow>
     (case split_on (CHR ''/'') s of
        [owner, name] \<Rightarrow> owner \<noteq> [] \<and> name \<noteq> [] \<and> list_all name_char owner \<and> list_all name_char name
      | _ \<Rightarrow> False)"

definition branch_prefix_text :: "string \<Rightarrow> bool" where
  "branch_prefix_text s \<longleftrightarrow>
     length s \<ge> 2 \<and> last s = CHR ''/'' \<and>
     list_all (\<lambda>c. ascii_alnum c \<or> c \<in> set ''._/-'') s"

definition make_publish_target :: "publish_target \<Rightarrow> exn + publish_target" where
  "make_publish_target t =
     andThen (required (JStr (pt_key t)) ''key'') (\<lambda>key.
     andThen (required (JStr (pt_repository t)) ''repository_full_name'') (\<lambda>repository.
     andThen (required (JStr (pt_base_branch t)) ''base_branch'') (\<lambda>base.
     andThen (required (JStr (pt_branch_prefix t)) ''branch_prefix'') (\<lambda>prefix.
     unless (key \<notin> trusted_repositories) (ValueError ''unsupported publish target key'')
     (unless (\<not> repository_name repository) (ValueError ''repository_full_name must be owner/name'')
     (unless (base \<noteq> ''main'') (ValueError ''publish target base branch must be main'')
     (unless (\<not> branch_prefix_text prefix) (ValueError ''branch_prefix is invalid'')
     (unless (is_infix ''..'' prefix \<or> take 1 prefix = ''/'') (ValueError ''branch_prefix is invalid'')
       (Inr \<lparr>pt_key = key, pt_repository = repository, pt_base_branch = base, pt_branch_prefix = prefix\<rparr>)))))))))"

fun publish_registry :: "publish_target list \<Rightarrow> publish_target list \<Rightarrow> exn + publish_target list" where
  "publish_registry seen [] = Inr seen"
| "publish_registry seen (t # ts) =
     (if pt_key t \<in> pt_key ` set seen then Inl (ValueError (''duplicate publish target: '' @ pt_key t))
      else publish_registry (seen @ [t]) ts)"

definition make_publish_registry :: "publish_target list \<Rightarrow> exn + publish_target list" where
  "make_publish_registry ts =
     unless (ts = []) (ValueError ''publish targets must be a non-empty tuple'') (publish_registry [] ts)"

definition get_publish_target :: "publish_target list \<Rightarrow> string \<Rightarrow> exn + publish_target" where
  "get_publish_target ts key =
     (case find (\<lambda>t. pt_key t = key) ts of
        None \<Rightarrow> Inl (KeyError (''unknown publish target: '' @ key))
      | Some t \<Rightarrow> Inr t)"

definition default_publish_targets :: "publish_target list" where
  "default_publish_targets =
     [\<lparr>pt_key = ''ai-hq'', pt_repository = ''Waitenomore-ai/ai-hq'', pt_base_branch = ''main'',
       pt_branch_prefix = ''ai-hq/candidate/''\<rparr>,
      \<lparr>pt_key = ''dripvid'', pt_repository = ''Waitenomore-ai/dripvid'', pt_base_branch = ''main'',
       pt_branch_prefix = ''ai-hq/candidate/''\<rparr>]"

definition generated_branch_name ::
  "(string \<Rightarrow> string) \<Rightarrow> publish_target \<Rightarrow> string \<Rightarrow> string \<Rightarrow> exn + string" where
  "generated_branch_name sha t mid change_ref =
     andThen (required (JStr mid) ''mission_id'') (\<lambda>mission.
       unless (\<not> sha256_ref change_ref) (ValueError ''change_ref must be a sha256 digest'')
         (Inr (pt_branch_prefix t @ take 12 (sha (utf8_text mission)) @ ''-'' @ take 12 (drop 7 change_ref))))"

record published_candidate =
  pb_repository :: string
  pb_change_ref :: string
  pb_branch :: string
  pb_commit :: string
  pb_tree :: string
  pb_base_commit :: string

definition git_identity :: "string \<Rightarrow> string \<Rightarrow> exn + unit" where
  "git_identity field v =
     unless (\<not> git_sha v) (ValueError (field @ '' must be a 40-character Git commit identity'')) (Inr ())"

definition make_published :: "published_candidate \<Rightarrow> exn + published_candidate" where
  "make_published p =
     andThen (required (JStr (pb_repository p)) ''repository'') (\<lambda>repository.
     andThen (required (JStr (pb_branch p)) ''branch_name'') (\<lambda>branch.
     unless (repository \<notin> trusted_repositories) (ValueError ''unknown published repository'')
     (unless (\<not> sha256_ref (pb_change_ref p)) (ValueError ''change_ref must be a sha256 digest'')
     (andThen (git_identity ''commit_sha'' (pb_commit p)) (\<lambda>_.
      andThen (git_identity ''tree_sha'' (pb_tree p)) (\<lambda>_.
      andThen (git_identity ''base_commit'' (pb_base_commit p)) (\<lambda>_.
      unless (take (length publish_branch_prefix) branch \<noteq> publish_branch_prefix)
        (ValueError ''published branch must use generated candidate namespace'')
        (Inr (p\<lparr>pb_repository := repository, pb_branch := branch\<rparr>)))))))))"

section \<open>Requests to GitHub\<close>

text \<open>A reply is a status and a body, which need not be JSON; a transport error is \<open>HttpFailed\<close>.\<close>

datatype http_reply = HttpFailed | HttpReply int "json option"

datatype http_method = GET | POST

type_synonym 'w http_client = "http_method \<Rightarrow> string \<Rightarrow> json option \<Rightarrow> 'w \<Rightarrow> http_reply \<times> 'w"

definition github_request ::
  "'w http_client \<Rightarrow> http_method \<Rightarrow> string \<Rightarrow> json option \<Rightarrow> ('w, dict) op" where
  "github_request http verb url body w =
     (case http verb url body w of
        (HttpFailed, w') \<Rightarrow> (Inl (RuntimeError ''GitHub candidate publication request failed''), w')
      | (HttpReply status payload, w') \<Rightarrow>
          (if status < 200 \<or> 300 \<le> status
           then Inl (RuntimeError ''GitHub candidate publication request failed'')
           else case payload of
                  None \<Rightarrow> Inl (RuntimeError ''GitHub candidate publication returned invalid JSON'')
                | Some (JObj d) \<Rightarrow> Inr d
                | Some _ \<Rightarrow> Inl (RuntimeError ''GitHub candidate publication returned invalid payload''), w'))"

definition github_sha :: "json \<Rightarrow> string \<Rightarrow> exn + string" where
  "github_sha v field =
     (case v of
        JStr s \<Rightarrow> unless (\<not> git_sha s) (RuntimeError (''GitHub '' @ field @ '' identity is invalid'')) (Inr s)
      | _ \<Rightarrow> Inl (RuntimeError (''GitHub '' @ field @ '' identity is invalid'')))"

text \<open>\<open>d.get(key, {}).get("sha")\<close>.\<close>

definition nested_sha :: "dict \<Rightarrow> string \<Rightarrow> string \<Rightarrow> exn + string" where
  "nested_sha d key field =
     (case dict_get_default d key (JObj []) of
        JObj inner \<Rightarrow> github_sha (dict_get inner ''sha'') field
      | _ \<Rightarrow> Inl AttributeError)"

definition iterated :: "json \<Rightarrow> exn + json list" where
  "iterated v =
     (case v of
        JList xs \<Rightarrow> Inr xs
      | JStr s \<Rightarrow> Inr (map (\<lambda>c. JStr [c]) s)
      | JObj d \<Rightarrow> Inr (map (JStr \<circ> fst) d)
      | _ \<Rightarrow> Inl (TypeError ''object is not iterable''))"

text \<open>Membership in a set of strings fails for values that cannot be hashed.\<close>

definition member_of :: "json \<Rightarrow> string list \<Rightarrow> exn + bool" where
  "member_of v xs =
     (case v of
        JList _ \<Rightarrow> Inl (TypeError ''unhashable type: list'')
      | JObj _ \<Rightarrow> Inl (TypeError ''unhashable type: dict'')
      | JStr s \<Rightarrow> Inr (s \<in> set xs)
      | _ \<Rightarrow> Inr False)"

definition allowed_blob_modes :: "string list" where
  "allowed_blob_modes = [''100644'', ''100755'']"

text \<open>One entry of the base tree: \<open>None\<close> for a directory, its path and mode for a file.\<close>

definition base_entry :: "json \<Rightarrow> exn + (string \<times> json) option" where
  "base_entry v =
     (case v of
        JObj entry \<Rightarrow>
          (let mode = dict_get entry ''mode''; kind = dict_get entry ''type'' in
           case dict_get entry ''path'' of
             JStr path \<Rightarrow>
               if kind = JStr ''tree''
               then unless (mode \<noteq> JStr ''040000'')
                      (RuntimeError ''GitHub base tree contains invalid directory mode'') (Inr None)
               else andThen (member_of mode [''120000'', ''160000'']) (\<lambda>special.
                 unless special
                   (RuntimeError ''GitHub base tree contains unsupported symlink or submodule entry'')
                 (unless (kind \<noteq> JStr ''blob'')
                    (RuntimeError ''GitHub base tree contains unsupported non-blob entry'')
                  (andThen (member_of mode allowed_blob_modes) (\<lambda>ok.
                    unless (\<not> ok) (RuntimeError ''GitHub base tree contains unsupported blob mode'')
                      (Inr (Some (path, mode)))))))
           | _ \<Rightarrow> Inl (RuntimeError ''GitHub base tree path is invalid''))
      | _ \<Rightarrow> Inl (RuntimeError ''GitHub base tree is invalid''))"

fun base_entries :: "json list \<Rightarrow> exn + (string \<times> json) list" where
  "base_entries [] = Inr []"
| "base_entries (v # vs) =
     andThen (base_entry v) (\<lambda>e. andThen (base_entries vs) (\<lambda>es.
       Inr (case e of None \<Rightarrow> es | Some pm \<Rightarrow> pm # es)))"

text \<open>A later entry for the same path replaces an earlier one.\<close>

definition entry_mode :: "(string \<times> json) list \<Rightarrow> string \<Rightarrow> json option" where
  "entry_mode es path = map_of (rev es) path"

section \<open>Base 64\<close>

definition b64_char :: "nat \<Rightarrow> char" where
  "b64_char n =
     (if n < 26 then char_of (65 + n) else if n < 52 then char_of (71 + n)
      else if n < 62 then char_of (n - 4) else if n = 62 then CHR ''+'' else CHR ''/'')"

fun b64_encode :: "string \<Rightarrow> string" where
  "b64_encode [] = []"
| "b64_encode [a] =
     (let x = of_char a in [b64_char (x div 4), b64_char (x mod 4 * 16), CHR ''='', CHR ''=''])"
| "b64_encode [a, b] =
     (let x = of_char a; y = of_char b in
      [b64_char (x div 4), b64_char (x mod 4 * 16 + y div 16), b64_char (y mod 16 * 4), CHR ''=''])"
| "b64_encode (a # b # c # rest) =
     (let x = of_char a; y = of_char b; z = of_char c in
      [b64_char (x div 4), b64_char (x mod 4 * 16 + y div 16), b64_char (y mod 16 * 4 + z div 64),
       b64_char (z mod 64)] @ b64_encode rest)"


section \<open>Publishing\<close>

record 'w publisher =
  pu_http :: "'w http_client"
  pu_look :: "'w \<Rightarrow> sandbox"
  pu_targets :: "publish_target list"

definition published_blob ::
  "'w publisher \<Rightarrow> string \<Rightarrow> persisted_candidate \<Rightarrow> (string \<times> json) list \<Rightarrow> string \<Rightarrow> ('w, json) op" where
  "published_blob p root c entries path =
     bindE (\<lambda>w. (read_changed_file (pu_look p w) c path, w)) (\<lambda>content.
       let existing = entry_mode entries path;
           mode = (case existing of None \<Rightarrow> JStr ''100644'' | Some m \<Rightarrow> m);
           change = (\<lambda>blob. JObj [(''path'', JStr path), (''mode'', mode), (''type'', JStr ''blob''), (''sha'', blob)])
       in bindE (liftE (member_of mode allowed_blob_modes)) (\<lambda>ok.
         if \<not> ok then raiseE (RuntimeError ''candidate file has unsupported Git mode'')
         else case content of
           None \<Rightarrow>
             if existing = None then raiseE (RuntimeError ''verified deletion is absent from base tree'')
             else returnE (change JNull)
         | Some b \<Rightarrow>
             bindE (github_request (pu_http p) POST (root @ ''/git/blobs'')
                 (Some (JObj [(''content'', JStr (b64_encode b)), (''encoding'', JStr ''base64'')]))) (\<lambda>blob.
             bindE (liftE (github_sha (dict_get blob ''sha'') ''blob'')) (\<lambda>s. returnE (change (JStr s))))))"

fun published_blobs ::
  "'w publisher \<Rightarrow> string \<Rightarrow> persisted_candidate \<Rightarrow> (string \<times> json) list \<Rightarrow> string list \<Rightarrow> ('w, json list) op" where
  "published_blobs p root c entries [] = returnE []"
| "published_blobs p root c entries (path # paths) =
     bindE (published_blob p root c entries path) (\<lambda>change.
     bindE (published_blobs p root c entries paths) (\<lambda>changes. returnE (change # changes)))"

definition returned_tree_check :: "dict \<Rightarrow> string \<Rightarrow> exn + unit" where
  "returned_tree_check commit tree_sha =
     (case dict_get commit ''tree'' of
        JObj t \<Rightarrow>
          andThen (github_sha (dict_get t ''sha'') ''published commit tree'') (\<lambda>s.
            unless (s \<noteq> tree_sha) (RuntimeError ''GitHub published commit tree mismatch'') (Inr ()))
      | _ \<Rightarrow> Inr ())"

definition base_tree_entries :: "'w publisher \<Rightarrow> string \<Rightarrow> string \<Rightarrow> ('w, (string \<times> json) list) op" where
  "base_tree_entries p root base_tree =
     bindE (github_request (pu_http p) GET (root @ ''/git/trees/'' @ base_tree @ ''?recursive=1'') None) (\<lambda>tree.
       if dict_get tree ''truncated'' = JBool True then raiseE (RuntimeError ''GitHub base tree is truncated'')
       else bindE (liftE (iterated (dict_get_default tree ''tree'' (JList [])))) (\<lambda>vs. liftE (base_entries vs)))"

text \<open>The tree, the commit on the base commit and the new reference.\<close>

definition publish_changes ::
  "(string \<Rightarrow> string) \<Rightarrow> 'w publisher \<Rightarrow> publish_target \<Rightarrow> string \<Rightarrow> persisted_candidate \<Rightarrow> string \<Rightarrow> json list \<Rightarrow>
   ('w, published_candidate) op" where
  "publish_changes sha p target root c base_tree changes =
     bindE (github_request (pu_http p) POST (root @ ''/git/trees'')
              (Some (JObj [(''base_tree'', JStr base_tree), (''tree'', JList changes)]))) (\<lambda>new_tree.
     bindE (liftE (github_sha (dict_get new_tree ''sha'') ''published tree'')) (\<lambda>tree_sha.
     bindE (github_request (pu_http p) POST (root @ ''/git/commits'')
              (Some (JObj [(''message'', JStr (''AI HQ verified candidate '' @ take 19 (pc_change_ref c))),
                           (''tree'', JStr tree_sha), (''parents'', JList [JStr (pc_base_commit c)])]))) (\<lambda>new_commit.
     bindE (liftE (github_sha (dict_get new_commit ''sha'') ''published commit'')) (\<lambda>commit_sha.
     bindE (liftE (returned_tree_check new_commit tree_sha)) (\<lambda>_.
     bindE (liftE (generated_branch_name sha target (pc_mission c) (pc_change_ref c))) (\<lambda>branch.
     bindE (github_request (pu_http p) POST (root @ ''/git/refs'')
              (Some (JObj [(''ref'', JStr (''refs/heads/'' @ branch)), (''sha'', JStr commit_sha)]))) (\<lambda>created.
     bindE (liftE (nested_sha created ''object'' ''published ref'')) (\<lambda>created_sha.
       if created_sha \<noteq> commit_sha then raiseE (RuntimeError ''GitHub published ref commit mismatch'')
       else liftE (make_published
              \<lparr>pb_repository = pc_repository c, pb_change_ref = pc_change_ref c, pb_branch = branch,
               pb_commit = commit_sha, pb_tree = tree_sha, pb_base_commit = pc_base_commit c\<rparr>)))))))))"

definition publish_candidate ::
  "(string \<Rightarrow> string) \<Rightarrow> 'w publisher \<Rightarrow> persisted_candidate \<Rightarrow> ('w, published_candidate) op" where
  "publish_candidate sha p c =
     (if pc_base_commit c = replicate 40 (CHR ''0'') \<or> \<not> git_sha (pc_base_commit c)
      then raiseE (ValueError ''candidate base commit must be an exact Git commit'')
      else bindE (liftE (get_publish_target (pu_targets p) (pc_repository c))) (\<lambda>target.
        let root = ''https://api.github.com/repos/'' @ pt_repository target in
        bindE (github_request (pu_http p) GET (root @ ''/git/ref/heads/'' @ pt_base_branch target) None) (\<lambda>ref.
        bindE (liftE (nested_sha ref ''object'' ''remote base'')) (\<lambda>remote_base.
          if remote_base \<noteq> pc_base_commit c
          then raiseE (RuntimeError ''candidate base is stale; remote main has changed'')
          else
            bindE (github_request (pu_http p) GET (root @ ''/git/commits/'' @ pc_base_commit c) None) (\<lambda>commit.
            bindE (liftE (nested_sha commit ''tree'' ''base tree'')) (\<lambda>base_tree.
            bindE (base_tree_entries p root base_tree) (\<lambda>entries.
            bindE (published_blobs p root c entries (sort (pc_changed_files c))) (\<lambda>changes.
              publish_changes sha p target root c base_tree changes))))))))"

section \<open>Deploying and rolling back\<close>

record deployed_release =
  dr_repository :: string
  dr_change_ref :: string
  dr_release :: string
  dr_prior :: "string option"

definition make_deployed :: "deployed_release \<Rightarrow> exn + deployed_release" where
  "make_deployed r =
     unless (dr_repository r \<notin> {''ai-hq'', ''dripvid''}) (ValueError ''unknown deployed repository'')
     (unless (\<not> sha256_ref (dr_change_ref r)) (ValueError ''change_ref must be a sha256 digest'')
     (unless (\<not> release_id_valid (dr_release r))
        (ValueError ''release id must use the trusted release identity charset'')
     (unless (case dr_prior r of None \<Rightarrow> False | Some q \<Rightarrow> \<not> release_id_valid q)
        (ValueError ''prior release id must use the trusted release identity charset'') (Inr r))))"

definition candidate_target ::
  "string \<Rightarrow> string \<Rightarrow> target_registry \<Rightarrow> string \<Rightarrow> exn + operational_target" where
  "candidate_target what capability reg repository =
     unless (repository \<notin> trusted_repositories) (ValueError (''unsupported '' @ what @ '' target''))
     (case require_target reg repository of
        Inl (ValueError _) \<Rightarrow> Inl (ValueError (''unknown '' @ what @ '' target''))
      | Inl e \<Rightarrow> Inl e
      | Inr t \<Rightarrow>
          unless (capability \<notin> set (ot_capabilities t))
            (ValueError (capability @ '' is not granted for this target'')) (Inr t))"

definition trusted_release :: "json \<Rightarrow> string option" where
  "trusted_release v = (case v of JStr s \<Rightarrow> if release_id_valid s then Some s else None | _ \<Rightarrow> None)"

definition deploy_candidate ::
  "'w helper_client \<Rightarrow> operational_target \<Rightarrow> published_candidate \<Rightarrow> ('w, deployed_release) op" where
  "deploy_candidate client t p =
     (if pb_repository p \<noteq> ot_key t
      then raiseE (ValueError ''candidate repository does not match deploy target'')
      else bindE (transport_deploy client t) (\<lambda>result.
        if dict_get result ''deployed'' \<noteq> JBool True
        then raiseE (RuntimeError ''deployment adapter did not confirm deployment'')
        else case trusted_release (dict_get result ''release_id'') of
          None \<Rightarrow> raiseE (RuntimeError ''deployment adapter returned no trusted release id'')
        | Some release \<Rightarrow>
            (let prior = dict_get result ''prior_release_id'' in
             if prior \<noteq> JNull \<and> trusted_release prior = None
             then raiseE (RuntimeError ''deployment adapter returned no trusted prior release id'')
             else liftE (make_deployed
                    \<lparr>dr_repository = pb_repository p, dr_change_ref = pb_change_ref p, dr_release = release,
                     dr_prior = trusted_release prior\<rparr>))))"

record rollback_target =
  rt_repository :: string
  rt_change_ref :: string

definition make_rollback_target :: "rollback_target \<Rightarrow> exn + rollback_target" where
  "make_rollback_target t =
     unless (rt_repository t \<notin> {''ai-hq'', ''dripvid''}) (ValueError ''unknown rollback repository'')
     (unless (\<not> sha256_ref (rt_change_ref t)) (ValueError ''change_ref must be a sha256 digest'') (Inr t))"

record rolled_back_release = rollback_target +
  rb_release :: string

definition make_rolled_back :: "rolled_back_release \<Rightarrow> exn + rolled_back_release" where
  "make_rolled_back r =
     unless (rt_repository r \<notin> {''ai-hq'', ''dripvid''}) (ValueError ''unknown rollback repository'')
     (unless (\<not> sha256_ref (rt_change_ref r)) (ValueError ''change_ref must be a sha256 digest'')
     (unless (\<not> release_id_valid (rb_release r))
        (ValueError ''release id must use the trusted release identity charset'') (Inr r)))"

definition roll_back_candidate ::
  "'w helper_client \<Rightarrow> operational_target \<Rightarrow> rollback_target \<Rightarrow> string \<Rightarrow> ('w, rolled_back_release) op" where
  "roll_back_candidate client t target release =
     (if rt_repository target \<noteq> ot_key t
      then raiseE (ValueError ''rollback target does not match transport target'')
      else if \<not> release_id_valid release
      then raiseE (ValueError ''release id must use the trusted release identity charset'')
      else bindE (transport_rollback client t release) (\<lambda>result.
        if dict_get result ''rolled_back'' \<noteq> JBool True
        then raiseE (RuntimeError ''rollback adapter did not confirm rollback'')
        else case trusted_release (dict_get result ''release_id'') of
          None \<Rightarrow> raiseE (RuntimeError ''rollback adapter returned no trusted release id'')
        | Some confirmed \<Rightarrow>
            if confirmed \<noteq> release
            then raiseE (RuntimeError ''rollback adapter confirmed a different release id'')
            else liftE (make_rolled_back
                   \<lparr>rt_repository = rt_repository target, rt_change_ref = rt_change_ref target,
                    rb_release = confirmed\<rparr>)))"

end
