(* ===== verification/Plan_Order.thy ===== *)
theory Plan_Order
  imports Mission_Laws
begin

text \<open>
  The order of a plan. \<open>in_order\<close> describes the statuses of a plan worked one step at a time;
  every operation the executor uses keeps it, for every mission at once.
\<close>

section \<open>Statuses of a plan worked in order\<close>

fun in_order :: "step_status list \<Rightarrow> bool" where
  "in_order [] = True"
| "in_order (x # xs) = (if x = STEP_SUCCEEDED then in_order xs else (\<forall>y \<in> set xs. y = STEP_PENDING))"

definition plan_statuses :: "string \<Rightarrow> mission_step list \<Rightarrow> step_status list" where
  "plan_statuses mid steps = map st_status (plan_of mid steps)"

definition plans_in_order :: "'a missions_db_scheme \<Rightarrow> bool" where
  "plans_in_order s \<longleftrightarrow>
     unique_keys st_id (mission_steps s) \<and> (\<forall>mid. in_order (plan_statuses mid (mission_steps s)))"

lemma plans_in_orderI:
  "unique_keys st_id steps \<Longrightarrow> (\<And>mid. in_order (plan_statuses mid steps)) \<Longrightarrow>
   plans_in_order (s\<lparr>mission_steps := steps\<rparr>)"
  by (simp add: plans_in_order_def)

lemma in_order_pending: "\<forall>x \<in> set xs. x = STEP_PENDING \<Longrightarrow> in_order xs"
  by (cases xs) auto

lemma in_order_replace:
  assumes "in_order (xs @ x # ys)" and "x \<noteq> STEP_SUCCEEDED"
    and "x \<noteq> STEP_PENDING \<or> (\<forall>z \<in> set xs. z = STEP_SUCCEEDED)"
  shows "in_order (xs @ y # ys)"
  using assms
proof (induction xs)
  case Nil
  then show ?case by (auto intro: in_order_pending)
next
  case (Cons z xs)
  then show ?case by (cases "z = STEP_SUCCEEDED") auto
qed

text \<open>At most one step is started and unfinished; all before it are finished.\<close>

lemma in_order_active:
  assumes "in_order (xs @ x # ys)" and "x \<noteq> STEP_PENDING"
  shows "(\<forall>z \<in> set xs. z = STEP_SUCCEEDED) \<and> (x \<noteq> STEP_SUCCEEDED \<longrightarrow> (\<forall>z \<in> set ys. z = STEP_PENDING))"
  using assms
proof (induction xs)
  case Nil
  then show ?case by (auto split: if_splits)
next
  case (Cons z xs)
  then show ?case by (cases "z = STEP_SUCCEEDED") auto
qed

section \<open>Updating one step of a plan\<close>

lemma insort_key_map:
  assumes "\<And>x. k (f x) = k x"
  shows "insort_key k (f x) (map f xs) = map f (insort_key k x xs)"
  by (induction xs) (auto simp: assms)

lemma sort_key_map:
  assumes "\<And>x. k (f x) = k x"
  shows "sort_key k (map f xs) = map f (sort_key k xs)"
  by (induction xs) (auto simp: assms insort_key_map)

lemma filter_map_invariant:
  assumes "\<And>x. P (f x) = P x"
  shows "filter P (map f xs) = map f (filter P xs)"
  by (induction xs) (auto simp: assms)

lemma plan_of_map:
  assumes "\<And>x. st_mission (f x) = st_mission x" and "\<And>x. step_order (f x) = step_order x"
  shows "plan_of mid (map f steps) = map f (plan_of mid steps)"
  using assms by (simp add: plan_of_def filter_map_invariant sort_key_map)

lemma plan_of_set: "set (plan_of mid steps) = {st \<in> set steps. st_mission st = mid}"
  by (simp add: plan_of_def)

lemma plan_of_distinct:
  assumes "unique_keys st_id steps"
  shows "unique_keys st_id (plan_of mid steps)"
proof -
  have "distinct (map st_id (filter (\<lambda>st. st_mission st = mid) steps))"
    using assms by (rule distinct_map_filter)
  then show ?thesis by (simp add: plan_of_def distinct_map)
qed

lemma plan_of_update_where:
  assumes "\<And>x. st_mission (f x) = st_mission x" and "\<And>x. step_order (f x) = step_order x"
  shows "plan_of mid (update_where P f steps) = update_where P f (plan_of mid steps)"
  unfolding update_where_def by (rule plan_of_map) (use assms in auto)

text \<open>The unfinished steps of a plan, in order: the first of them is what a claim looks at.\<close>

lemma first_incomplete_eq:
  "first_incomplete mid s =
     (case filter (\<lambda>st. st_status st \<noteq> STEP_SUCCEEDED) (plan_of mid (mission_steps s)) of
        [] \<Rightarrow> None | st # _ \<Rightarrow> Some st)"
proof -
  have "filter (\<lambda>st. st_mission st = mid \<and> st_status st \<noteq> STEP_SUCCEEDED) (mission_steps s) =
        filter (\<lambda>st. st_status st \<noteq> STEP_SUCCEEDED) (filter (\<lambda>st. st_mission st = mid) (mission_steps s))"
    by (simp add: conj_commute)
  then show ?thesis
    by (simp add: first_incomplete_def first_by_def plan_of_def filter_sort)
qed

lemma first_incomplete_split:
  assumes "first_incomplete mid s = Some st"
  shows "\<exists>done rest. plan_of mid (mission_steps s) = done @ st # rest \<and>
           (\<forall>x \<in> set done. st_status x = STEP_SUCCEEDED) \<and> st_status st \<noteq> STEP_SUCCEEDED \<and>
           st \<in> set (mission_steps s) \<and> st_mission st = mid"
proof -
  from assms obtain zs where
    "filter (\<lambda>st. st_status st \<noteq> STEP_SUCCEEDED) (plan_of mid (mission_steps s)) = st # zs"
    by (auto simp: first_incomplete_eq split: list.splits)
  then obtain us vs where split: "plan_of mid (mission_steps s) = us @ st # vs"
    and "\<forall>u \<in> set us. st_status u = STEP_SUCCEEDED" and "st_status st \<noteq> STEP_SUCCEEDED"
    by (auto simp: filter_eq_Cons_iff)
  moreover have "st \<in> set (plan_of mid (mission_steps s))" using split by simp
  then have "st \<in> set (mission_steps s) \<and> st_mission st = mid" unfolding plan_of_set by simp
  ultimately show ?thesis by blast
qed

lemma in_order_update:
  assumes uniq: "unique_keys st_id steps" and ord: "in_order (plan_statuses mid steps)"
    and st: "row_of st_id sid steps = Some st" and old: "st_status st \<noteq> STEP_SUCCEEDED"
    and pend: "st_status st \<noteq> STEP_PENDING \<or>
      (\<exists>done rest. plan_of (st_mission st) steps = done @ st # rest \<and>
         (\<forall>x \<in> set done. st_status x = STEP_SUCCEEDED))"
    and P: "\<And>x. x \<in> set steps \<Longrightarrow> P x \<longleftrightarrow> st_id x = sid"
    and f: "\<And>x. st_mission (f x) = st_mission x" "\<And>x. step_order (f x) = step_order x"
  shows "in_order (plan_statuses mid (update_where P f steps))"
proof (cases "st_mission st = mid")
  case False
  have "\<not> P x" if "x \<in> set (plan_of mid steps)" for x
    using that P st False row_of_unique[OF uniq, of x] by (auto simp: plan_of_set)
  then have "update_where P f (plan_of mid steps) = plan_of mid steps"
    by (rule update_where_none)
  with ord f show ?thesis by (simp add: plan_statuses_def plan_of_update_where)
next
  case True
  from st have st_in: "st \<in> set steps" and sid: "st_id st = sid" by (auto dest: row_of_SomeD)
  have "st \<in> set (plan_of mid steps)" using True st_in by (simp add: plan_of_set)
  then obtain us vs where split: "plan_of mid steps = us @ st # vs"
    by (meson split_list)
  have d: "unique_keys st_id (us @ st # vs)"
    using plan_of_distinct[OF uniq, of mid] split by simp
  have sub: "set (us @ st # vs) \<subseteq> set steps" unfolding split[symmetric] by (auto simp: plan_of_set)
  have out: "\<not> P x" if "x \<in> set us \<union> set vs" for x
    using that d sid P[of x] sub by (auto simp: rev_image_eqI)
  have "update_where P f (us @ st # vs) = us @ f st # vs"
    using out P[OF st_in] sid update_where_none[of us P f] update_where_none[of vs P f]
    by (simp add: update_where_def)
  then have new: "plan_statuses mid (update_where P f steps) =
      map st_status us @ st_status (f st) # map st_status vs"
    using f by (simp add: plan_statuses_def plan_of_update_where split)
  have before: "in_order (map st_status us @ st_status st # map st_status vs)"
    using ord by (simp add: plan_statuses_def split)
  have "st_status st \<noteq> STEP_PENDING \<or> (\<forall>z \<in> set (map st_status us). z = STEP_SUCCEEDED)"
  proof (cases "st_status st = STEP_PENDING")
    case False
    then show ?thesis by simp
  next
    case pending: True
    with pend True split obtain dn rest where eq: "us @ st # vs = dn @ st # rest"
      and dn: "\<forall>x \<in> set dn. st_status x = STEP_SUCCEEDED" by auto
    from eq d have "us = dn"
      by (auto simp: append_eq_append_conv2 append_eq_Cons_conv Cons_eq_append_conv)
    with dn show ?thesis by simp
  qed
  from in_order_replace[OF before old this] new show ?thesis by simp
qed

section \<open>The operations keep plans in order\<close>

lemma claim_step_row_eq:
  assumes uniq: "unique_keys st_id (mission_steps s)" and st: "row_of st_id sid (mission_steps s) = Some st"
  shows "claim_step_row sid s =
     (if st_status st = STEP_PENDING
      then (Inr (Some (st\<lparr>st_status := STEP_RUNNING\<rparr>)),
            s\<lparr>mission_steps := update_where (\<lambda>x. st_id x = sid \<and> st_status x = STEP_PENDING)
                                (\<lambda>x. x\<lparr>st_status := STEP_RUNNING\<rparr>) (mission_steps s)\<rparr>)
      else (Inr None, s))"
  using rowcount_key[OF uniq, of sid "\<lambda>x. st_status x = STEP_PENDING"] st row_of_SomeD[OF st]
  by (simp add: claim_step_row_def row_of_update_where)

lemma claim_plans_in_order:
  assumes inv: "plans_in_order s"
  shows "plans_in_order (snd (claim_next_pending_step mid s))"
proof (cases "first_incomplete mid s")
  case None
  with inv show ?thesis by (simp add: claim_next_pending_step_def)
next
  case (Some st)
  let ?P = "\<lambda>x. st_id x = st_id st \<and> st_status x = STEP_PENDING"
  let ?f = "\<lambda>x. x\<lparr>st_status := STEP_RUNNING\<rparr>"
  from first_incomplete_split[OF Some] obtain dn rest where
    split: "plan_of mid (mission_steps s) = dn @ st # rest"
    and dn: "\<forall>x \<in> set dn. st_status x = STEP_SUCCEEDED"
    and ns: "st_status st \<noteq> STEP_SUCCEEDED" and st_in: "st \<in> set (mission_steps s)"
    and mid: "st_mission st = mid" by blast
  from inv have uniq: "unique_keys st_id (mission_steps s)"
    and ord: "\<And>mid. in_order (plan_statuses mid (mission_steps s))"
    by (auto simp: plans_in_order_def)
  have row: "row_of st_id (st_id st) (mission_steps s) = Some st"
    using uniq st_in by (rule row_of_unique)
  show ?thesis
  proof (cases "st_status st = STEP_PENDING")
    case False
    with claim_step_row_eq[OF uniq row] Some inv show ?thesis
      by (simp add: claim_next_pending_step_def)
  next
    case True
    have P: "?P x \<longleftrightarrow> st_id x = st_id st" if "x \<in> set (mission_steps s)" for x
      using row_of_eq_iff[OF uniq row that] True by auto
    have "in_order (plan_statuses m (update_where ?P ?f (mission_steps s)))" for m
    proof (rule in_order_update[OF uniq ord row ns])
      show "st_status st \<noteq> STEP_PENDING \<or>
        (\<exists>done rest. plan_of (st_mission st) (mission_steps s) = done @ st # rest \<and>
           (\<forall>x \<in> set done. st_status x = STEP_SUCCEEDED))"
        using split dn mid by blast
      show "?P x \<longleftrightarrow> st_id x = st_id st" if "x \<in> set (mission_steps s)" for x
        using that by (rule P)
    qed simp_all
    with claim_step_row_eq[OF uniq row] True Some uniq show ?thesis
      by (simp add: claim_next_pending_step_def plans_in_order_def)
  qed
qed

lemma transition_step_plans_in_order:
  assumes inv: "plans_in_order s"
    and live: "\<And>st. row_of st_id sid (mission_steps s) = Some st \<Longrightarrow> st_status st \<noteq> STEP_PENDING"
  shows "plans_in_order (snd (transition_step sid t r e a s))"
proof (cases "transition_step sid t r e a s")
  case (Pair res s')
  show ?thesis
  proof (cases res)
    case (Inl err)
    with Pair inv show ?thesis
      by (auto simp: transition_step_def Let_def split: option.splits if_splits)
  next
    case (Inr st')
    with Pair transition_step_ok obtain st where
      row: "row_of st_id sid (mission_steps s) = Some st"
      and tgt: "t \<in> allowed_step_transitions (st_status st)"
      and st': "st' = st\<lparr>st_status := t, st_result := override r (st_result st),
                   st_error_state := override e (st_error_state st),
                   st_approval_reference := override a (st_approval_reference st)\<rparr>"
      and s': "s' = s\<lparr>mission_steps := save_row st_id st' (mission_steps s)\<rparr>" by blast
    from inv have uniq: "unique_keys st_id (mission_steps s)"
      and ord: "\<And>mid. in_order (plan_statuses mid (mission_steps s))"
      by (auto simp: plans_in_order_def)
    let ?f = "\<lambda>x. x\<lparr>st_status := t, st_result := override r (st_result x),
                   st_error_state := override e (st_error_state x),
                   st_approval_reference := override a (st_approval_reference x)\<rparr>"
    have sid: "st_id st = sid" and st_in: "st \<in> set (mission_steps s)"
      using row by (auto dest: row_of_SomeD)
    have same: "save_row st_id st' (mission_steps s) =
        update_where (\<lambda>x. st_id x = sid) ?f (mission_steps s)"
      unfolding save_row_def update_where_def
    proof (rule map_cong_set)
      fix x
      assume "x \<in> set (mission_steps s)"
      from row_of_eq_iff[OF uniq row this]
      show "(if st_id x = st_id st' then st' else x) = (if st_id x = sid then ?f x else x)"
        by (simp add: st' sid)
    qed
    have ns: "st_status st \<noteq> STEP_SUCCEEDED" using tgt by auto
    have "in_order (plan_statuses m (update_where (\<lambda>x. st_id x = sid) ?f (mission_steps s)))" for m
    proof (rule in_order_update[OF uniq ord row ns])
      show "st_status st \<noteq> STEP_PENDING \<or>
        (\<exists>done rest. plan_of (st_mission st) (mission_steps s) = done @ st # rest \<and>
           (\<forall>x \<in> set done. st_status x = STEP_SUCCEEDED))"
        using live[OF row] by blast
    qed simp_all
    with Pair s' same uniq show ?thesis by (simp add: plans_in_order_def)
  qed
qed

lemma plans_in_order_cong:
  "mission_steps t = mission_steps s \<Longrightarrow> plans_in_order t = plans_in_order s"
  by (simp add: plans_in_order_def)

lemma plan_rows_Inr:
  "plan_rows mid ids n entries = Inr rows \<Longrightarrow>
     (\<forall>st \<in> set rows. st_mission st = mid \<and> st_status st = STEP_PENDING \<and> n \<le> st_position st) \<and>
     map st_position rows = [n..<n + length entries] \<and>
     map st_id rows = map ids [n..<n + length entries]"
proof (induction entries arbitrary: n rows)
  case Nil
  then show ?case by simp
next
  case (Cons e es)
  then obtain rest where rest: "plan_rows mid ids (Suc n) es = Inr rest"
    by (auto split: option.splits sum.splits)
  have up: "[n..<n + length (e # es)] = n # [Suc n..<Suc n + length es]"
    by (simp add: upt_conv_Cons del: upt_Suc)
  from Cons.prems rest obtain d t where rows: "rows = \<lparr>st_id = ids n, st_mission = mid, st_position = n,
      st_description = d, st_tool_name = t,
      st_tool_arguments = (case pe_tool_arguments e of None \<Rightarrow> [] | Some a \<Rightarrow> a),
      st_status = STEP_PENDING, st_result = None, st_error_state = None,
      st_approval_reference = None\<rparr> # rest"
    by (auto split: option.splits)
  from Cons.IH[OF rest] show ?case unfolding up rows by (auto dest: Suc_leD)
qed

lemma insert_rows_Inr:
  "insert_rows key rs rows = Inr table \<Longrightarrow>
     table = rows @ rs \<and> (unique_keys key rows \<longrightarrow> unique_keys key table)"
proof (induction rs arbitrary: rows)
  case Nil
  then show ?case by simp
next
  case (Cons r rs)
  then obtain rows' where r: "insert_row key r rows = Inr rows'" and rs: "insert_rows key rs rows' = Inr table"
    by (auto split: sum.splits)
  from Cons.IH[OF rs] have t: "table = rows' @ rs"
    and u: "unique_keys key rows' \<longrightarrow> unique_keys key table" by blast+
  from t insert_row_Inr[OF r] have "table = rows @ r # rs" by simp
  with u insert_row_unique[OF r] show ?case by blast
qed

lemma create_plan_plans_in_order:
  assumes inv: "plans_in_order s"
  shows "plans_in_order (snd (create_plan reg ids mid entries s))"
proof (cases "create_plan reg ids mid entries s")
  case (Pair res s')
  show ?thesis
  proof (cases res)
    case (Inl err)
    with Pair inv show ?thesis
      by (auto simp: create_plan_def split: option.splits if_splits sum.splits)
  next
    case (Inr rows)
    with Pair obtain table where rows: "plan_rows mid ids 1 entries = Inr rows"
      and table: "insert_rows st_id rows (mission_steps s) = Inr table"
      and new: "\<forall>st \<in> set (mission_steps s). st_mission st \<noteq> mid"
      and s': "s' = s\<lparr>mission_steps := table\<rparr>"
      by (auto simp: create_plan_def split: option.splits if_splits sum.splits)
    from insert_rows_Inr[OF table] have t: "table = mission_steps s @ rows"
      and u: "unique_keys st_id (mission_steps s) \<longrightarrow> unique_keys st_id table" by blast+
    have rs: "\<forall>st \<in> set rows. st_mission st = mid \<and> st_status st = STEP_PENDING"
      using plan_rows_Inr[OF rows] by blast
    have "in_order (plan_statuses m table)" for m
    proof (cases "m = mid")
      case True
      have "\<forall>x \<in> set (plan_of m table). st_status x = STEP_PENDING"
        using True t rs new by (auto simp: plan_of_set)
      then show ?thesis by (auto simp: plan_statuses_def intro: in_order_pending)
    next
      case False
      then have "filter (\<lambda>st. st_mission st = m) rows = []" using rs by (auto simp: filter_empty_conv)
      then have "plan_of m table = plan_of m (mission_steps s)" by (simp add: t plan_of_def)
      with inv show ?thesis by (simp add: plans_in_order_def plan_statuses_def)
    qed
    moreover have "unique_keys st_id table" using u inv unfolding plans_in_order_def by blast
    ultimately have "plans_in_order (s\<lparr>mission_steps := table\<rparr>)"
      by (rule plans_in_orderI[rotated])
    with Pair s' show ?thesis by simp
  qed
qed

end
