(* ===== verification/Mission_Claims.thy ===== *)
theory Mission_Claims
  imports Plan_Order
begin

text \<open>
  Claims by concurrent workers. A step claim is a selection followed by a conditional update
  (\<open>claim_next_pending_step\<close>), and other transactions may run in between; a code-change
  mission is claimed under a lease (\<open>claim_oldest_code_change\<close>, \<open>renew_code_change_lease\<close>,
  \<open>release_code_change_lease\<close>).
\<close>

section \<open>Leases on code-change missions\<close>

definition is_code_change :: "mission \<Rightarrow> bool" where
  "is_code_change m \<longleftrightarrow> m_source m = ''hq_chat_code_change'' \<and> m_owner_agent m = ''developer''"

definition lease_claimable :: "int \<Rightarrow> mission \<Rightarrow> bool" where
  "lease_claimable now m \<longleftrightarrow>
     m_status m = QUEUED \<or>
     (m_status m = RUNNING \<and>
      (case m_lease_expires_at m of None \<Rightarrow> False | Some t \<Rightarrow> stamp_instant t < now))"

definition candidate_ids :: "int \<Rightarrow> 'a missions_db_scheme \<Rightarrow> string list" where
  "candidate_ids now s =
     map m_id (take 8 (sort_key (\<lambda>m. (m_created_at m, m_id m))
       (filter (\<lambda>m. is_code_change m \<and> lease_claimable now m) (missions s))))"

definition lease_row :: "string \<Rightarrow> int \<Rightarrow> mission \<Rightarrow> mission" where
  "lease_row worker expires m =
     m\<lparr>m_status := RUNNING, m_lease_owner := Some worker,
       m_lease_expires_at := Some (Aware expires), m_attempt_count := m_attempt_count m + 1\<rparr>"

fun claim_first ::
  "string \<Rightarrow> int \<Rightarrow> int \<Rightarrow> string list \<Rightarrow> ('a missions_db_scheme, mission option) op" where
  "claim_first worker now expires [] s = (Inr None, s)"
| "claim_first worker now expires (mid # mids) s =
     (let P = (\<lambda>m. m_id m = mid \<and> is_code_change m \<and> lease_claimable now m) in
      if rowcount P (missions s) \<noteq> 1 then claim_first worker now expires mids s
      else let s1 = s\<lparr>missions := update_where P (lease_row worker expires) (missions s)\<rparr>
           in (case row_of m_id mid (missions s1) of
                 None \<Rightarrow> (Inl (RuntimeError ''claimed mission disappeared''), s1)
               | Some m \<Rightarrow> (Inr (Some m), s1)))"

definition claim_oldest_code_change ::
  "string \<Rightarrow> int \<Rightarrow> int \<Rightarrow> ('a missions_db_scheme, mission option) op" where
  "claim_oldest_code_change worker lease_seconds now s =
     (let w = strip worker in
      if w = [] then (Inl (ValueError ''code-change worker id is required''), s)
      else if lease_seconds < 60
      then (Inl (ValueError ''code-change lease must be at least 60 seconds''), s)
      else claim_first w now (now + seconds lease_seconds) (candidate_ids now s) s)"

definition renew_code_change_lease ::
  "string \<Rightarrow> string \<Rightarrow> int \<Rightarrow> int \<Rightarrow> ('a missions_db_scheme, bool) op" where
  "renew_code_change_lease mid worker lease_seconds now s =
     (if lease_seconds < 60
      then (Inl (ValueError ''code-change lease must be at least 60 seconds''), s)
      else
        let P = (\<lambda>m. m_id m = mid \<and> is_code_change m \<and> m_status m = RUNNING \<and>
                     m_lease_owner m = Some worker \<and>
                     (case m_lease_expires_at m of None \<Rightarrow> False | Some t \<Rightarrow> now \<le> stamp_instant t)) in
        if rowcount P (missions s) \<noteq> 1 then (Inr False, s)
        else (Inr True,
              s\<lparr>missions := update_where P
                  (\<lambda>m. m\<lparr>m_lease_expires_at := Some (Aware (now + seconds lease_seconds))\<rparr>)
                  (missions s)\<rparr>))"

definition release_code_change_lease :: "string \<Rightarrow> string \<Rightarrow> ('a missions_db_scheme, bool) op" where
  "release_code_change_lease mid worker s =
     (let P = (\<lambda>m. m_id m = mid \<and> m_lease_owner m = Some worker) in
      if rowcount P (missions s) \<noteq> 1 then (Inr False, s)
      else (Inr True,
            s\<lparr>missions := update_where P
                (\<lambda>m. m\<lparr>m_lease_owner := None, m_lease_expires_at := None\<rparr>) (missions s)\<rparr>))"

subsection \<open>What a lease guarantees\<close>

definition holds_lease :: "string \<Rightarrow> int \<Rightarrow> string \<Rightarrow> 'a missions_db_scheme \<Rightarrow> bool" where
  "holds_lease worker expires mid s \<longleftrightarrow>
     (\<exists>m. row_of m_id mid (missions s) = Some m \<and> m_status m = RUNNING \<and>
          m_lease_owner m = Some worker \<and> m_lease_expires_at m = Some (Aware expires))"

lemma lease_row_id [simp]: "m_id (lease_row w e m) = m_id m"
  by (simp add: lease_row_def)

lemma claim_first_unique:
  "unique_keys m_id (missions s) \<Longrightarrow>
   unique_keys m_id (missions (snd (claim_first w now e mids s)))"
  by (induction w now e mids s rule: claim_first.induct) (simp_all add: Let_def split: option.splits)

text \<open>What a successful claim did: one claimable row of the list got the lease, nothing else changed.\<close>

lemma claim_first_Some:
  assumes "claim_first w now e mids s = (Inr (Some m'), s')" and "unique_keys m_id (missions s)"
  shows "\<exists>m. m_id m \<in> set mids \<and> row_of m_id (m_id m) (missions s) = Some m \<and>
             is_code_change m \<and> lease_claimable now m \<and> m' = lease_row w e m \<and>
             row_of m_id (m_id m) (missions s') = Some m' \<and>
             (\<forall>k. k \<noteq> m_id m \<longrightarrow> row_of m_id k (missions s') = row_of m_id k (missions s))"
  using assms
proof (induction w now e mids s rule: claim_first.induct)
  case (1 w now e s)
  then show ?case by simp
next
  case (2 w now e mid mids s)
  let ?P = "\<lambda>m. m_id m = mid \<and> is_code_change m \<and> lease_claimable now m"
  show ?case
  proof (cases "rowcount ?P (missions s) = 1")
    case False
    with 2 show ?thesis by (auto simp: Let_def)
  next
    case True
    with rowcount_key[OF 2(3), of mid "\<lambda>m. is_code_change m \<and> lease_claimable now m"]
    obtain m where m: "row_of m_id mid (missions s) = Some m"
      and ok: "is_code_change m" "lease_claimable now m"
      by (auto split: option.splits if_splits)
    have id: "m_id m = mid" using m by (auto dest: row_of_SomeD)
    have upd: "row_of m_id k (update_where ?P (lease_row w e) (missions s)) =
        map_option (\<lambda>r. if ?P r then lease_row w e r else r) (row_of m_id k (missions s))" for k
      by (rule row_of_update_where) simp
    have m': "m' = lease_row w e m"
      and s': "s' = s\<lparr>missions := update_where ?P (lease_row w e) (missions s)\<rparr>"
      using 2(2) True m ok id by (auto simp: Let_def upd)
    have "row_of m_id k (missions s') = row_of m_id k (missions s)" if "k \<noteq> mid" for k
      using that by (cases "row_of m_id k (missions s)") (auto simp: s' upd dest: row_of_SomeD)
    moreover have "row_of m_id mid (missions s') = Some m'"
      using m ok id by (simp add: s' upd m')
    ultimately show ?thesis using m ok id m' by (intro exI[of _ m]) auto
  qed
qed

lemma claim_first_no_error:
  "unique_keys m_id (missions s) \<Longrightarrow> \<exists>r. fst (claim_first w now e mids s) = Inr r"
proof (induction w now e mids s rule: claim_first.induct)
  case (1 w now e s)
  then show ?case by simp
next
  case (2 w now e mid mids s)
  let ?P = "\<lambda>m. m_id m = mid \<and> is_code_change m \<and> lease_claimable now m"
  show ?case
  proof (cases "rowcount ?P (missions s) = 1")
    case False
    with 2 show ?thesis by (simp add: Let_def)
  next
    case True
    with rowcount_key[OF 2(2), of mid "\<lambda>m. is_code_change m \<and> lease_claimable now m"]
    obtain m where "row_of m_id mid (missions s) = Some m"
      by (auto split: option.splits if_splits)
    then show ?thesis using True by (simp add: Let_def row_of_update_where)
  qed
qed

text \<open>A claim never takes a mission whose lease is still running, whatever list it works from.\<close>

lemma claim_first_respects_lease:
  assumes "holds_lease v exp mid s" and "now \<le> exp" and "unique_keys m_id (missions s)"
  shows "holds_lease v exp mid (snd (claim_first w now e mids s)) \<and>
         (\<forall>m'. fst (claim_first w now e mids s) = Inr (Some m') \<longrightarrow> m_id m' \<noteq> mid)"
proof -
  from assms(1) obtain m where m: "row_of m_id mid (missions s) = Some m"
    and held: "m_status m = RUNNING" "m_lease_owner m = Some v" "m_lease_expires_at m = Some (Aware exp)"
    by (auto simp: holds_lease_def)
  have not: "\<not> lease_claimable now m"
    using held assms(2) by (simp add: lease_claimable_def)
  obtain r s' where c: "claim_first w now e mids s = (r, s')" by (cases "claim_first w now e mids s")
  with claim_first_no_error[OF assms(3), of w now e mids] obtain ro where r: "r = Inr ro" by auto
  show ?thesis
  proof (cases ro)
    case None
    have "claim_first w now e mids s = (Inr None, s') \<Longrightarrow> s' = s"
      by (induction w now e mids s rule: claim_first.induct)
         (auto simp: Let_def split: if_splits option.splits)
    with c r None assms(1) show ?thesis by simp
  next
    case (Some m')
    with c r have "claim_first w now e mids s = (Inr (Some m'), s')" by simp
    from claim_first_Some[OF this assms(3)] obtain q where
      q: "row_of m_id (m_id q) (missions s) = Some q" "lease_claimable now q" "m' = lease_row w e q"
      and other: "\<forall>k. k \<noteq> m_id q \<longrightarrow> row_of m_id k (missions s') = row_of m_id k (missions s)" by blast
    have "m_id q \<noteq> mid" using q(1,2) m not by auto
    with other m held c r Some q(3) show ?thesis by (simp add: holds_lease_def)
  qed
qed

section \<open>Interleaved step claims\<close>

text \<open>
  Any number of workers run \<open>claim_next_pending_step\<close> on any missions, each in two database
  statements, as often as they like; a worker moves the steps it has claimed with
  \<open>transition_step\<close>. Which worker runs next is not determined. The log lists every claim that
  was granted.
\<close>

datatype claim_phase = Looking | Selected string

record claim_sys =
  cs_db :: missions_db
  cs_phase :: "nat \<Rightarrow> claim_phase"
  cs_log :: "(nat \<times> string) list"

inductive claim_move :: "claim_sys \<Rightarrow> claim_sys \<Rightarrow> bool" where
  select: "cs_phase c w = Looking \<Longrightarrow> first_incomplete mid (cs_db c) = Some st \<Longrightarrow>
     claim_move c (c\<lparr>cs_phase := (cs_phase c)(w := Selected (st_id st))\<rparr>)"
| win: "cs_phase c w = Selected sid \<Longrightarrow> claim_step_row sid (cs_db c) = (Inr (Some st), db') \<Longrightarrow>
     claim_move c (c\<lparr>cs_db := db', cs_phase := (cs_phase c)(w := Looking),
                     cs_log := cs_log c @ [(w, sid)]\<rparr>)"
| lose: "cs_phase c w = Selected sid \<Longrightarrow> claim_step_row sid (cs_db c) = (Inr None, db') \<Longrightarrow>
     claim_move c (c\<lparr>cs_db := db', cs_phase := (cs_phase c)(w := Looking)\<rparr>)"
| work: "(w, sid) \<in> set (cs_log c) \<Longrightarrow>
     transition_step sid target r e a (cs_db c) = (res, db') \<Longrightarrow>
     claim_move c (c\<lparr>cs_db := db'\<rparr>)"

inductive claim_reach :: "claim_sys \<Rightarrow> claim_sys \<Rightarrow> bool" for c0 where
  start: "claim_reach c0 c0"
| more: "claim_reach c0 c \<Longrightarrow> claim_move c d \<Longrightarrow> claim_reach c0 d"

definition claim_start :: "missions_db \<Rightarrow> claim_sys" where
  "claim_start db = \<lparr>cs_db = db, cs_phase = (\<lambda>_. Looking), cs_log = []\<rparr>"

definition claim_inv :: "claim_sys \<Rightarrow> bool" where
  "claim_inv c \<longleftrightarrow>
     unique_keys st_id (mission_steps (cs_db c)) \<and>
     distinct (map snd (cs_log c)) \<and>
     (\<forall>sid \<in> snd ` set (cs_log c).
        \<exists>st. row_of st_id sid (mission_steps (cs_db c)) = Some st \<and> st_status st \<noteq> STEP_PENDING)"

lemma claim_step_row_None: "claim_step_row sid s = (Inr None, s') \<Longrightarrow> unique_keys st_id (mission_steps s) \<Longrightarrow> s' = s"
  using rowcount_key[of st_id "mission_steps s" sid "\<lambda>x. st_status x = STEP_PENDING"]
  by (auto simp: claim_step_row_def Let_def row_of_update_where split: if_splits option.splits)

lemma claim_step_row_Some:
  assumes "claim_step_row sid s = (Inr (Some st'), s')" and uniq: "unique_keys st_id (mission_steps s)"
  shows "\<exists>st. row_of st_id sid (mission_steps s) = Some st \<and> st_status st = STEP_PENDING \<and>
              st' = st\<lparr>st_status := STEP_RUNNING\<rparr> \<and>
              (\<forall>k. row_of st_id k (mission_steps s') =
                 (if k = sid then Some st' else row_of st_id k (mission_steps s))) \<and>
              map st_id (mission_steps s') = map st_id (mission_steps s)"
proof -
  let ?P = "\<lambda>x. st_id x = sid \<and> st_status x = STEP_PENDING"
  let ?f = "\<lambda>x. x\<lparr>st_status := STEP_RUNNING\<rparr>"
  from assms have "rowcount ?P (mission_steps s) = 1"
    by (auto simp: claim_step_row_def Let_def split: if_splits)
  with rowcount_key[OF uniq, of sid "\<lambda>x. st_status x = STEP_PENDING"] obtain st where
    st: "row_of st_id sid (mission_steps s) = Some st" and p: "st_status st = STEP_PENDING"
    by (auto split: option.splits if_splits)
  have sid: "st_id st = sid" using st by (auto dest: row_of_SomeD)
  have upd: "row_of st_id k (update_where ?P ?f (mission_steps s)) =
      map_option (\<lambda>r. if ?P r then ?f r else r) (row_of st_id k (mission_steps s))" for k
    by (rule row_of_update_where) simp
  from claim_step_row_eq[OF uniq st] p assms(1) have st': "st' = ?f st"
    and s': "s' = s\<lparr>mission_steps := update_where ?P ?f (mission_steps s)\<rparr>" by auto
  have "row_of st_id k (mission_steps s') = row_of st_id k (mission_steps s)" if "k \<noteq> sid" for k
    using that by (cases "row_of st_id k (mission_steps s)") (auto simp: s' upd dest: row_of_SomeD)
  moreover have "row_of st_id sid (mission_steps s') = Some st'"
    using st p sid by (simp add: s' upd st')
  ultimately show ?thesis using st p st' s' by auto
qed

lemma transition_step_rows:
  assumes "transition_step sid t r e a s = (res, s')"
  shows "map st_id (mission_steps s') = map st_id (mission_steps s) \<and>
         (\<forall>k st. row_of st_id k (mission_steps s) = Some st \<longrightarrow> st_status st \<noteq> STEP_PENDING \<longrightarrow>
            (\<exists>st'. row_of st_id k (mission_steps s') = Some st' \<and> st_status st' \<noteq> STEP_PENDING))"
proof (cases res)
  case (Inl err)
  with assms have "s' = s"
    by (auto simp: transition_step_def Let_def split: option.splits if_splits)
  then show ?thesis by simp
next
  case (Inr st')
  with assms transition_step_ok[of sid t r e a s st' s'] obtain st where
    st: "row_of st_id sid (mission_steps s) = Some st"
    and t: "t \<in> allowed_step_transitions (st_status st)"
    and st': "st' = st\<lparr>st_status := t, st_result := override r (st_result st),
                       st_error_state := override e (st_error_state st),
                       st_approval_reference := override a (st_approval_reference st)\<rparr>"
    and s': "s' = s\<lparr>mission_steps := save_row st_id st' (mission_steps s)\<rparr>" by blast
  have "t \<noteq> STEP_PENDING" using t by (cases "st_status st") auto
  then show ?thesis by (auto simp: s' st' table_simps)
qed

lemma claim_move_inv:
  assumes "claim_move c d" and "claim_inv c"
  shows "claim_inv d"
  using assms
proof cases
  case (select w mid st)
  with assms(2) show ?thesis by (simp add: claim_inv_def)
next
  case (win w sid st db')
  have uniq: "unique_keys st_id (mission_steps (cs_db c))" using assms(2) by (simp add: claim_inv_def)
  from claim_step_row_Some[OF win(3) uniq] obtain old where
    old: "row_of st_id sid (mission_steps (cs_db c)) = Some old" "st_status old = STEP_PENDING"
    and st: "st = old\<lparr>st_status := STEP_RUNNING\<rparr>"
    and rows: "\<And>k. row_of st_id k (mission_steps db') =
       (if k = sid then Some st else row_of st_id k (mission_steps (cs_db c)))"
    and ids: "map st_id (mission_steps db') = map st_id (mission_steps (cs_db c))" by metis
  have "sid \<notin> snd ` set (cs_log c)"
    using assms(2) old by (force simp: claim_inv_def)
  then show ?thesis
    using assms(2) rows ids st unfolding win(1) claim_inv_def by simp
next
  case (lose w sid db')
  have "unique_keys st_id (mission_steps (cs_db c))" using assms(2) by (simp add: claim_inv_def)
  with lose(3) have "db' = cs_db c" by (rule claim_step_row_None)
  with lose assms(2) show ?thesis by (simp add: claim_inv_def)
next
  case (work w sid target r e a res db')
  from transition_step_rows[OF work(3)] assms(2) show ?thesis
    unfolding work(1) claim_inv_def by fastforce
qed

lemma claim_reach_inv: "claim_reach c d \<Longrightarrow> claim_inv c \<Longrightarrow> claim_inv d"
  by (induction rule: claim_reach.induct) (auto intro: claim_move_inv)

lemma claim_start_inv: "unique_keys st_id (mission_steps db) \<Longrightarrow> claim_inv (claim_start db)"
  by (simp add: claim_inv_def claim_start_def)

end
