(* ===== verification/Code_Changes.thy ===== *)
theory Code_Changes
  imports Publication Mission_Claims
begin

text \<open>
  Code changes from request to release: \<open>code_changes/service.py\<close> and the queue runner
  \<open>code_changes/worker.py\<close>. The injected parts (agents, candidate store, publisher, deployer,
  rollbacker) are fields of an environment and act on the outside world; clock readings and fresh
  identifiers come with each call.
\<close>

section \<open>Data\<close>

record 'w code_change_env =
  ce_sha :: "string \<Rightarrow> string"
  ce_ledger :: bool
  ce_runner :: "string \<Rightarrow> exn + 'w agent_runner"
  ce_store :: "('w \<Rightarrow> sandbox) option"
  ce_publisher :: "(persisted_candidate \<Rightarrow> ('w, published_candidate) op) option"
  ce_deployer :: "(published_candidate \<Rightarrow> ('w, deployed_release) op) option"
  ce_rollbacker :: "(rollback_target \<Rightarrow> string \<Rightarrow> ('w, rolled_back_release) op) option"
  ce_descriptions :: "(string \<times> string) list"

record code_change_call =
  cc_mission_id :: string
  cc_created :: int
  cc_delivery_id :: string
  cc_request_id :: string
  cc_request_created :: int
  cc_qa_now :: int
  cc_renew_start :: int
  cc_renew_developer :: int
  cc_renew_qa :: int
  cc_decision_now :: int
  cc_record_now :: int
  cc_recorded_at :: int

record code_change_result =
  cr_mission :: string
  cr_repository :: string
  cr_summary :: string
  cr_change_ref :: string
  cr_changed_files :: "json list"
  cr_developer_evidence :: dict
  cr_qa_result :: "qa_result option"
  cr_qa_evidence :: dict
  cr_approval_reference :: "string option"
  cr_ready :: bool
  cr_high_risk :: bool
  cr_description :: string
  cr_published :: bool
  cr_deployed :: bool
  cr_release_id :: "string option"
  cr_prior_release_id :: "string option"
  cr_rolled_back :: bool
  cr_rollback_release_id :: "string option"

section \<open>Checks\<close>

definition trusted_repository :: "json \<Rightarrow> exn + string" where
  "trusted_repository v =
     (case v of
        JStr s \<Rightarrow>
          unless (strip s \<notin> trusted_repositories)
            (ValueError ''code change requires a trusted repository: ai-hq or dripvid'') (Inr (strip s))
      | _ \<Rightarrow> Inl (ValueError ''code change requires a trusted repository''))"

definition instruction_text :: "json \<Rightarrow> exn + string" where
  "instruction_text v =
     (case v of
        JStr s \<Rightarrow> unless (strip s = []) (ValueError ''code change instruction is required'') (Inr (strip s))
      | _ \<Rightarrow> Inl (ValueError ''code change instruction is required''))"

definition high_risk_prefixes :: "string list" where
  "high_risk_prefixes =
     [''src/ai_hq/auth/'', ''src/ai_hq/approvals/'', ''src/ai_hq/tool_gateway/'', ''src/ai_hq/host_helper/'',
      ''deploy/'']"

definition high_risk_exact :: "string list" where
  "high_risk_exact =
     [''src/ai_hq/delivery/repository_sandbox.py'', ''src/ai_hq/delivery/repository_profiles.py'',
      ''src/ai_hq/delivery/candidate_verifier.py'']"

fun high_risk_files :: "json list \<Rightarrow> exn + bool" where
  "high_risk_files [] = Inr False"
| "high_risk_files (v # vs) =
     andThen (member_of v high_risk_exact) (\<lambda>exact.
       if exact then Inr True
       else case v of
         JStr p \<Rightarrow> if list_ex (\<lambda>q. take (length q) p = q) high_risk_prefixes then Inr True else high_risk_files vs
       | _ \<Rightarrow> Inl AttributeError)"

definition high_risk :: "string \<Rightarrow> json list \<Rightarrow> exn + bool" where
  "high_risk repository files = (if repository \<noteq> ''ai-hq'' then Inr False else high_risk_files files)"

section \<open>Results and leases\<close>

definition fully_published :: "delivery \<Rightarrow> bool" where
  "fully_published d \<longleftrightarrow>
     d_published_branch d \<noteq> None \<and> d_published_commit d \<noteq> None \<and> d_published_tree d \<noteq> None"

definition partly_published :: "delivery \<Rightarrow> bool" where
  "partly_published d \<longleftrightarrow>
     d_published_branch d \<noteq> None \<or> d_published_commit d \<noteq> None \<or> d_published_tree d \<noteq> None"

definition result_row :: "(string \<times> string) list \<Rightarrow> string \<Rightarrow> string \<Rightarrow> bool \<Rightarrow> delivery \<Rightarrow> code_change_result" where
  "result_row descriptions mid repository risky d =
     \<lparr>cr_mission = mid, cr_repository = repository, cr_summary = d_summary d, cr_change_ref = d_change_ref d,
      cr_changed_files = d_changed_files d, cr_developer_evidence = d_developer_evidence d,
      cr_qa_result = d_qa_result d, cr_qa_evidence = (case d_qa_evidence d of None \<Rightarrow> [] | Some e \<Rightarrow> e),
      cr_approval_reference = d_approval_reference d,
      cr_ready = (d_qa_result d = Some QA_PASSED \<and> \<not> no_text (d_approval_reference d)),
      cr_high_risk = risky,
      cr_description = (case map_of descriptions repository of None \<Rightarrow> [] | Some t \<Rightarrow> t),
      cr_published = fully_published d, cr_deployed = (d_release_id d \<noteq> None),
      cr_release_id = d_release_id d, cr_prior_release_id = d_prior_release_id d,
      cr_rolled_back = (d_rollback_release_id d \<noteq> None), cr_rollback_release_id = d_rollback_release_id d\<rparr>"

definition result_for_mission ::
  "'w code_change_env \<Rightarrow> string \<Rightarrow> string \<Rightarrow> (('w, 'a) delivery_db_scheme, code_change_result) op" where
  "result_for_mission env mid repository =
     bindE (get_delivery mid) (\<lambda>d.
     bindE (liftE (high_risk repository (d_changed_files d))) (\<lambda>risky.
       returnE (result_row (ce_descriptions env) mid repository risky d)))"

definition renew_worker_lease ::
  "string \<Rightarrow> string option \<Rightarrow> int \<Rightarrow> int \<Rightarrow> (('w, 'a) delivery_db_scheme, unit) op" where
  "renew_worker_lease mid owner lease_seconds now =
     (case owner of
        None \<Rightarrow> returnE ()
      | Some w \<Rightarrow>
          bindE (renew_code_change_lease mid w lease_seconds now) (\<lambda>renewed.
            if renewed then returnE () else raiseE (RuntimeError ''code-change lease was lost'')))"

definition release_worker_lease :: "string \<Rightarrow> string option \<Rightarrow> (('w, 'a) delivery_db_scheme, unit) op" where
  "release_worker_lease mid owner =
     (case owner of
        None \<Rightarrow> returnE ()
      | Some w \<Rightarrow> bindE (release_code_change_lease mid w) (\<lambda>_. returnE ()))"

section \<open>Queueing and preparing\<close>

definition code_change_mission :: "string \<Rightarrow> string \<Rightarrow> new_mission" where
  "code_change_mission repository instruction =
     \<lparr>nm_title = ''Code change: '' @ repository, nm_description = instruction, nm_owner_agent = ''developer'',
      nm_source = ''hq_chat_code_change'', nm_priority = PRIO_NORMAL, nm_risk = AMBER,
      nm_objectives = Some [JStr repository, JStr instruction], nm_dependencies = Some [], nm_xp_reward = 0\<rparr>"

definition create_code_change ::
  "'w code_change_env \<Rightarrow> code_change_call \<Rightarrow> json \<Rightarrow> json \<Rightarrow>
   (('w, 'a) delivery_db_scheme, string \<times> string) op" where
  "create_code_change env call repository instruction =
     bindE (liftE (trusted_repository repository)) (\<lambda>repo.
     bindE (liftE (instruction_text instruction)) (\<lambda>text.
     bindE (create_mission (ce_ledger env) (cc_mission_id call) (cc_created call) (code_change_mission repo text))
       (\<lambda>m. returnE (m_id m, repo))))"

definition queue_candidate ::
  "'w code_change_env \<Rightarrow> code_change_call \<Rightarrow> json \<Rightarrow> json \<Rightarrow>
   (('w, 'a) delivery_db_scheme, string \<times> string) op" where
  "queue_candidate env call repository instruction = create_code_change env call repository instruction"

text \<open>\<open>get_delivery\<close> inside \<open>try ... except KeyError\<close>.\<close>

definition try_get_delivery :: "string \<Rightarrow> (('w, 'a) delivery_db_scheme, delivery option) op" where
  "try_get_delivery mid s =
     (case get_delivery mid s of
        (Inr d, t) \<Rightarrow> (Inr (Some d), t)
      | (Inl (KeyError _), t) \<Rightarrow> (Inr None, t)
      | (Inl e, t) \<Rightarrow> (Inl e, t))"

definition run_existing_mission ::
  "'w code_change_env \<Rightarrow> code_change_call \<Rightarrow> string \<Rightarrow> string \<Rightarrow> string option \<Rightarrow> int \<Rightarrow> bool \<Rightarrow>
   (('w, 'a) delivery_db_scheme, code_change_result) op" where
  "run_existing_mission env call mid repository owner lease_seconds resume =
     bindE (liftE (ce_runner env repository)) (\<lambda>runner.
     bindE (if resume then try_get_delivery mid else returnE None) (\<lambda>existing.
     bindE (case existing of
              Some d \<Rightarrow> returnE d
            | None \<Rightarrow>
                bindE (renew_worker_lease mid owner lease_seconds (cc_renew_developer call)) (\<lambda>_.
                bindE (run_developer (ce_sha env) (cc_delivery_id call) runner mid) (\<lambda>_. get_delivery mid))) (\<lambda>d.
     bindE (if d_stage d = STAGE_QA \<and> d_qa_result d = None
            then bindE (renew_worker_lease mid owner lease_seconds (cc_renew_qa call)) (\<lambda>_.
                 run_qa (ce_sha env) (cc_request_id call) (cc_request_created call) (cc_qa_now call) runner d)
            else returnE True) (\<lambda>_.
       result_for_mission env mid repository))))"

definition prepare_candidate ::
  "'w code_change_env \<Rightarrow> code_change_call \<Rightarrow> json \<Rightarrow> json \<Rightarrow>
   (('w, 'a) delivery_db_scheme, code_change_result) op" where
  "prepare_candidate env call repository instruction =
     bindE (create_code_change env call repository instruction) (\<lambda>(mid, repo).
       run_existing_mission env call mid repo None 900 False)"


section \<open>Processing a queued change\<close>

text \<open>The mission of a code change and its repository, with the messages of the calling function.\<close>

definition code_change_of ::
  "string \<Rightarrow> string \<Rightarrow> string \<Rightarrow> (('w, 'a) delivery_db_scheme, mission \<times> string) op" where
  "code_change_of not_one no_repository mid =
     bindE (get_mission mid) (\<lambda>m.
       if m_owner_agent m \<noteq> ''developer'' \<or> m_source m \<noteq> ''hq_chat_code_change''
       then raiseE (ValueError not_one)
       else case m_objectives m of
         [] \<Rightarrow> raiseE (ValueError no_repository)
       | v # _ \<Rightarrow> bindE (liftE (trusted_repository v)) (\<lambda>repo. returnE (m, repo)))"

text \<open>Making sure the mission runs: the part before the \<open>try\<close>.\<close>

definition start_processing ::
  "'w code_change_env \<Rightarrow> code_change_call \<Rightarrow> mission \<Rightarrow> string option \<Rightarrow> int \<Rightarrow>
   (('w, 'a) delivery_db_scheme, unit) op" where
  "start_processing env call m owner lease_seconds =
     (if m_status m = QUEUED
      then if owner \<noteq> None then raiseE (ValueError ''leased code change must already be running'')
           else bindE (transition (ce_ledger env) (m_id m) RUNNING None None) (\<lambda>_. returnE ())
      else if m_status m = RUNNING
      then (case owner of
              None \<Rightarrow> returnE ()
            | Some w \<Rightarrow>
                if m_lease_owner m \<noteq> Some w then raiseE (ValueError ''code-change lease owner mismatch'')
                else bindE (renew_code_change_lease (m_id m) w lease_seconds (cc_renew_start call)) (\<lambda>renewed.
                  if renewed then returnE () else raiseE (RuntimeError ''code-change lease was lost'')))
      else raiseE (ValueError ''queued code change is not runnable''))"

definition result_payload :: "string \<Rightarrow> code_change_result \<Rightarrow> dict" where
  "result_payload repository r =
     [(''repository'', JStr repository), (''change_ref'', JStr (cr_change_ref r)),
      (''ready_for_approval'', JBool (cr_ready r))]"

definition settle_result ::
  "'w code_change_env \<Rightarrow> string \<Rightarrow> string \<Rightarrow> code_change_result \<Rightarrow> (('w, 'a) delivery_db_scheme, unit) op" where
  "settle_result env mid repository r =
     (let target = (if cr_ready r then WAITING_APPROVAL else COMPLETED) in
      bindE (get_mission mid) (\<lambda>current.
        if m_status current = target
        then bindE (record_result mid (result_payload repository r)) (\<lambda>_. returnE ())
        else if m_status current = RUNNING
        then bindE (transition (ce_ledger env) mid target (Some (result_payload repository r)) None) (\<lambda>_. returnE ())
        else raiseE (RuntimeError ''code-change mission changed state during preparation'')))"

definition preparation_failed :: dict where
  "preparation_failed =
     [(''code'', JStr ''code_change_preparation_failed''),
      (''message'', JStr ''Code-change candidate preparation failed.'')]"

text \<open>\<open>except Exception\<close>: a mission still running fails, the lease is given back, and the error is raised again.\<close>

definition fail_processing ::
  "'w code_change_env \<Rightarrow> string \<Rightarrow> string option \<Rightarrow> exn \<Rightarrow> (('w, 'a) delivery_db_scheme, 'b) op" where
  "fail_processing env mid owner e =
     bindE (get_mission mid) (\<lambda>current.
     bindE (if m_status current = RUNNING
            then bindE (transition (ce_ledger env) mid FAILED None (Some preparation_failed)) (\<lambda>_. returnE ())
            else returnE ()) (\<lambda>_.
     bindE (release_worker_lease mid owner) (\<lambda>_. raiseE e)))"

definition catchE :: "('s, 'b) op \<Rightarrow> (exn \<Rightarrow> ('s, 'b) op) \<Rightarrow> ('s, 'b) op" where
  "catchE m h s = (case m s of (Inl e, t) \<Rightarrow> h e t | (Inr x, t) \<Rightarrow> (Inr x, t))"

definition process_running ::
  "'w code_change_env \<Rightarrow> code_change_call \<Rightarrow> string \<Rightarrow> string \<Rightarrow> string option \<Rightarrow> int \<Rightarrow>
   (('w, 'a) delivery_db_scheme, code_change_result) op" where
  "process_running env call mid repository owner lease_seconds =
     catchE
       (bindE (run_existing_mission env call mid repository owner lease_seconds True) (\<lambda>r.
        bindE (settle_result env mid repository r) (\<lambda>_.
        bindE (release_worker_lease mid owner) (\<lambda>_. returnE r))))
       (fail_processing env mid owner)"

definition process_queued_candidate ::
  "'w code_change_env \<Rightarrow> code_change_call \<Rightarrow> string \<Rightarrow> string option \<Rightarrow> int \<Rightarrow>
   (('w, 'a) delivery_db_scheme, code_change_result) op" where
  "process_queued_candidate env call mid owner lease_seconds =
     bindE (code_change_of ''mission is not a queued HQ code change'' ''queued code change has no repository'' mid)
       (\<lambda>(m, repository).
         if m_status m \<in> {WAITING_APPROVAL, COMPLETED} then result_for_mission env (m_id m) repository
         else bindE (start_processing env call m owner lease_seconds) (\<lambda>_.
                process_running env call (m_id m) repository owner lease_seconds))"

definition candidate_result ::
  "'w code_change_env \<Rightarrow> string \<Rightarrow> (('w, 'a) delivery_db_scheme, code_change_result) op" where
  "candidate_result env mid =
     bindE (code_change_of ''mission is not an HQ code change'' ''code-change mission has no repository'' mid)
       (\<lambda>(m, repository). result_for_mission env (m_id m) repository)"

section \<open>Releasing an approved candidate\<close>

text \<open>The checks the three release operations share, ending with the persisted human decision.\<close>

definition approved_candidate ::
  "string \<Rightarrow> string \<Rightarrow> string \<Rightarrow> string \<Rightarrow> int \<Rightarrow> (('w, 'a) delivery_db_scheme, delivery) op" where
  "approved_candidate what mid reference change_ref now =
     bindE (get_delivery mid) (\<lambda>d.
       case guards [(d_qa_result d \<noteq> Some QA_PASSED, ''QA must pass before candidate '' @ what),
                    (d_stage d \<noteq> STAGE_WAITING_APPROVAL, ''candidate is not waiting for approved '' @ what),
                    (d_approval_reference d \<noteq> Some reference, ''approval reference does not match delivery''),
                    (d_change_ref d \<noteq> change_ref, ''change_ref does not match approved proposal'')] of
         Some e \<Rightarrow> raiseE e
       | None \<Rightarrow>
           bindE (apply_human_decision mid reference change_ref now) (\<lambda>decided.
             if d_stage decided \<noteq> STAGE_WAITING_APPROVAL \<or> d_qa_result decided \<noteq> Some QA_PASSED \<or>
                d_approval_reference decided \<noteq> Some reference
             then raiseE (ValueError (''approved human approval is required for '' @ what))
             else returnE decided))"

definition checked_candidate ::
  "'w code_change_env \<Rightarrow> ('w \<Rightarrow> sandbox) \<Rightarrow> string \<Rightarrow> string \<Rightarrow> string \<Rightarrow> delivery \<Rightarrow>
   (('w, 'a) delivery_db_scheme, persisted_candidate) op" where
  "checked_candidate env look mid repository change_ref d =
     bindE (\<lambda>s. (load_verified (ce_sha env) (look (world s)) mid change_ref (d_changed_files d)
                   (d_developer_evidence d), s)) (\<lambda>c.
       case guards [(pc_repository c \<noteq> repository, ''candidate repository does not match mission repository''),
                    (pc_change_ref c \<noteq> change_ref, ''candidate change_ref does not match approved proposal'')] of
         Some e \<Rightarrow> raiseE e
       | None \<Rightarrow> returnE c)"

definition release_mission :: "string \<Rightarrow> (('w, 'a) delivery_db_scheme, mission \<times> string) op" where
  "release_mission =
     code_change_of ''mission is not an HQ code change'' ''code-change mission has no repository''"

text \<open>The beginning of a release: the mission, its repository, and the approved delivery.\<close>

definition approved_release ::
  "string \<Rightarrow> string \<Rightarrow> string \<Rightarrow> string \<Rightarrow> int \<Rightarrow>
   (string \<Rightarrow> delivery \<Rightarrow> (('w, 'a) delivery_db_scheme, code_change_result) op) \<Rightarrow>
   (('w, 'a) delivery_db_scheme, code_change_result) op" where
  "approved_release what mid reference change_ref now f =
     bindE (release_mission mid) (\<lambda>(m, repository).
     bindE (approved_candidate what mid reference change_ref now) (f repository))"

definition publish_now ::
  "'w code_change_env \<Rightarrow> code_change_call \<Rightarrow> string \<Rightarrow> string \<Rightarrow> string \<Rightarrow> delivery \<Rightarrow>
   (('w, 'a) delivery_db_scheme, code_change_result) op" where
  "publish_now env call mid repository change_ref d =
     (case (ce_store env, ce_publisher env) of
        (Some look, Some publish) \<Rightarrow>
          bindE (checked_candidate env look mid repository change_ref d) (\<lambda>c.
          bindE (on_world (publish c)) (\<lambda>p.
            case guards [(pb_repository p \<noteq> repository, ''published repository does not match candidate''),
                         (pb_change_ref p \<noteq> change_ref, ''published change_ref does not match candidate''),
                         (pb_base_commit p \<noteq> pc_base_commit c, ''published base commit does not match candidate'')] of
              Some e \<Rightarrow> raiseE e
            | None \<Rightarrow>
                bindE (record_publication mid change_ref (pb_branch p) (pb_commit p) (pb_tree p)
                         (cc_record_now call) (cc_recorded_at call)) (\<lambda>_.
                  result_for_mission env mid repository)))
      | _ \<Rightarrow> raiseE (RuntimeError ''code-change publication is not configured''))"

definition publish_decided ::
  "'w code_change_env \<Rightarrow> code_change_call \<Rightarrow> string \<Rightarrow> string \<Rightarrow> string \<Rightarrow> delivery \<Rightarrow>
   (('w, 'a) delivery_db_scheme, code_change_result) op" where
  "publish_decided env call mid change_ref repository d =
      (if fully_published d then result_for_mission env mid repository
       else if partly_published d then raiseE (ValueError ''persisted publication identity is incomplete'')
       else publish_now env call mid repository change_ref d)"

definition publish_approved_candidate ::
  "'w code_change_env \<Rightarrow> code_change_call \<Rightarrow> string \<Rightarrow> string \<Rightarrow> string \<Rightarrow>
   (('w, 'a) delivery_db_scheme, code_change_result) op" where
  "publish_approved_candidate env call mid reference change_ref =
     approved_release ''publication'' mid reference change_ref (cc_decision_now call)
       (publish_decided env call mid change_ref)"

definition deploy_now ::
  "'w code_change_env \<Rightarrow> code_change_call \<Rightarrow> string \<Rightarrow> string \<Rightarrow> string \<Rightarrow> delivery \<Rightarrow>
   (('w, 'a) delivery_db_scheme, code_change_result) op" where
  "deploy_now env call mid repository change_ref d =
     (case (ce_deployer env, ce_store env) of
        (Some deploy, Some look) \<Rightarrow>
          bindE (checked_candidate env look mid repository change_ref d) (\<lambda>c.
          bindE (liftE (make_published
                   \<lparr>pb_repository = repository, pb_change_ref = change_ref,
                    pb_branch = (case d_published_branch d of None \<Rightarrow> [] | Some b \<Rightarrow> b),
                    pb_commit = (case d_published_commit d of None \<Rightarrow> [] | Some b \<Rightarrow> b),
                    pb_tree = (case d_published_tree d of None \<Rightarrow> [] | Some b \<Rightarrow> b),
                    pb_base_commit = pc_base_commit c\<rparr>)) (\<lambda>p.
          bindE (on_world (deploy p)) (\<lambda>r.
            case guards [(dr_repository r \<noteq> repository, ''deployed repository does not match candidate''),
                         (dr_change_ref r \<noteq> change_ref, ''deployed change_ref does not match candidate'')] of
              Some e \<Rightarrow> raiseE e
            | None \<Rightarrow>
                bindE (record_deployment mid change_ref (dr_release r) (dr_prior r)
                         (cc_record_now call) (cc_recorded_at call)) (\<lambda>_.
                  result_for_mission env mid repository))))
      | _ \<Rightarrow> raiseE (RuntimeError ''code-change deployment is not configured''))"

definition deploy_decided ::
  "'w code_change_env \<Rightarrow> code_change_call \<Rightarrow> string \<Rightarrow> string \<Rightarrow> string \<Rightarrow> delivery \<Rightarrow>
   (('w, 'a) delivery_db_scheme, code_change_result) op" where
  "deploy_decided env call mid change_ref repository d =
      (if \<not> fully_published d then raiseE (ValueError ''candidate must be published before deployment'')
       else if d_release_id d \<noteq> None \<or> d_prior_release_id d \<noteq> None then result_for_mission env mid repository
       else deploy_now env call mid repository change_ref d)"

definition deploy_approved_candidate ::
  "'w code_change_env \<Rightarrow> code_change_call \<Rightarrow> string \<Rightarrow> string \<Rightarrow> string \<Rightarrow>
   (('w, 'a) delivery_db_scheme, code_change_result) op" where
  "deploy_approved_candidate env call mid reference change_ref =
     approved_release ''deployment'' mid reference change_ref (cc_decision_now call)
       (deploy_decided env call mid change_ref)"

definition roll_back_now ::
  "'w code_change_env \<Rightarrow> code_change_call \<Rightarrow> string \<Rightarrow> string \<Rightarrow> string \<Rightarrow> string \<Rightarrow>
   (('w, 'a) delivery_db_scheme, code_change_result) op" where
  "roll_back_now env call mid repository change_ref prior =
     (case ce_rollbacker env of
        None \<Rightarrow> raiseE (RuntimeError ''code-change rollback is not configured'')
      | Some rollback \<Rightarrow>
          bindE (liftE (make_rollback_target \<lparr>rt_repository = repository, rt_change_ref = change_ref\<rparr>)) (\<lambda>target.
          bindE (on_world (rollback target prior)) (\<lambda>r.
            case guards [(rt_repository r \<noteq> repository, ''rolled back repository does not match candidate''),
                         (rt_change_ref r \<noteq> change_ref, ''rolled back change_ref does not match candidate''),
                         (rb_release r \<noteq> prior, ''rolled back release does not match persisted history'')] of
              Some e \<Rightarrow> raiseE e
            | None \<Rightarrow>
                bindE (record_rollback mid change_ref (rb_release r) (cc_record_now call) (cc_recorded_at call)) (\<lambda>_.
                  result_for_mission env mid repository))))"

definition roll_back_decided ::
  "'w code_change_env \<Rightarrow> code_change_call \<Rightarrow> string \<Rightarrow> string \<Rightarrow> string \<Rightarrow> delivery \<Rightarrow>
   (('w, 'a) delivery_db_scheme, code_change_result) op" where
  "roll_back_decided env call mid change_ref repository d =
      (if \<not> fully_published d then raiseE (ValueError ''candidate must be published before rollback'')
       else case (d_release_id d, d_prior_release_id d) of
         (None, _) \<Rightarrow> raiseE (ValueError ''candidate must be deployed before rollback'')
       | (Some _, None) \<Rightarrow> raiseE (ValueError ''no prior known-good release is recorded for rollback'')
       | (Some _, Some prior) \<Rightarrow>
           (case d_rollback_release_id d of
              Some existing \<Rightarrow>
                if existing \<noteq> prior
                then raiseE (ValueError ''rollback identity does not match persisted rollback'')
                else result_for_mission env mid repository
            | None \<Rightarrow> roll_back_now env call mid repository change_ref prior))"

definition rollback_approved_deployment ::
  "'w code_change_env \<Rightarrow> code_change_call \<Rightarrow> string \<Rightarrow> string \<Rightarrow> string \<Rightarrow>
   (('w, 'a) delivery_db_scheme, code_change_result) op" where
  "rollback_approved_deployment env call mid reference change_ref =
     approved_release ''rollback'' mid reference change_ref (cc_decision_now call)
       (roll_back_decided env call mid change_ref)"

section \<open>The queue runner\<close>

definition code_change_run_once ::
  "'w code_change_env \<Rightarrow> code_change_call \<Rightarrow> string \<Rightarrow> int \<Rightarrow> int \<Rightarrow>
   (('w, 'a) delivery_db_scheme, code_change_result option) op" where
  "code_change_run_once env call worker lease_seconds now =
     bindE (claim_oldest_code_change worker lease_seconds now) (\<lambda>claimed.
       case claimed of
         None \<Rightarrow> returnE None
       | Some m \<Rightarrow>
           bindE (process_queued_candidate env call (m_id m) (Some worker) lease_seconds) (\<lambda>r. returnE (Some r)))"

end
