(* ===== verification/Mission_Executor.thy ===== *)
theory Mission_Executor
  imports Mission_Claims Plan_Order Tool_Gateway
begin

text \<open>
  \<open>MissionExecutor\<close> (\<open>missions/executor.py\<close>) and \<open>AutonomousMissionRunner\<close>
  (\<open>missions/worker.py\<close>): a mission advances one step at a time and every action crosses the
  tool gateway. The gateway is an argument of the definitions; what the executor needs of it is
  the contract \<open>action_gate\<close>, which the model of \<open>ToolGateway.execute\<close> satisfies.
\<close>

section \<open>Python's \<open>str\<close> of a value\<close>

definition printable :: "char \<Rightarrow> bool" where
  "printable c \<longleftrightarrow>
     (let n = (of_char c :: nat) in (32 \<le> n \<and> n \<le> 126) \<or> (161 \<le> n \<and> n \<noteq> 173))"

definition hex_lower :: "nat \<Rightarrow> char" where
  "hex_lower n = (if n < 10 then digit_char n else char_of (87 + n))"

definition repr_char :: "char \<Rightarrow> char \<Rightarrow> string" where
  "repr_char q c =
     (if c = q \<or> c = CHR 0x5C then [CHR 0x5C, c]
      else if c = CHR 0x09 then [CHR 0x5C, CHR ''t'']
      else if c = CHR 0x0A then [CHR 0x5C, CHR ''n'']
      else if c = CHR 0x0D then [CHR 0x5C, CHR ''r'']
      else if printable c then [c]
      else [CHR 0x5C, CHR ''x'', hex_lower (of_char c div 16), hex_lower (of_char c mod 16)])"

definition repr_string :: "string \<Rightarrow> string" where
  "repr_string s =
     (let q = (if CHR 0x27 \<in> set s \<and> CHR 0x22 \<notin> set s then CHR 0x22 else CHR 0x27)
      in [q] @ concat (map (repr_char q) s) @ [q])"

fun comma_sep :: "string list \<Rightarrow> string" where
  "comma_sep [] = []"
| "comma_sep [x] = x"
| "comma_sep (x # y # ys) = x @ '', '' @ comma_sep (y # ys)"

fun py_repr :: "json \<Rightarrow> string" where
  "py_repr JNull = ''None''"
| "py_repr (JBool b) = (if b then ''True'' else ''False'')"
| "py_repr (JInt i) = int_repr i"
| "py_repr (JStr s) = repr_string s"
| "py_repr (JList xs) = ''['' @ comma_sep (map py_repr xs) @ '']''"
| "py_repr (JObj d) =
     ''{'' @ comma_sep (map (\<lambda>kv. repr_string (fst kv) @ '': '' @ py_repr (snd kv)) d) @ ''}''"

fun py_str :: "json \<Rightarrow> string" where
  "py_str (JStr s) = s"
| "py_str v = py_repr v"

section \<open>The request of a step\<close>

definition request_for :: "mission \<Rightarrow> mission_step \<Rightarrow> exn + tool_request" where
  "request_for m st =
     (let arguments = st_tool_arguments st;
          target = py_str (dict_get_default arguments ''target'' (JStr (m_id m)));
          conditions = dict_get_default arguments ''conditions'' (JObj []);
          mutates = truthy (dict_get_default arguments ''mutates_external_state'' (JBool False));
          params = dict_pop ''mutates_external_state''
                     (dict_pop ''conditions'' (dict_pop ''target'' arguments))
      in case conditions of
           JObj c \<Rightarrow>
             Inr \<lparr>tr_mission = m_id m, tr_agent = m_owner_agent m,
                  tr_capability = st_tool_name st, tr_target = target, tr_risk = m_risk m,
                  tr_params = params, tr_conditions = c, tr_mutates = mutates\<rparr>
         | _ \<Rightarrow> Inl (ValueError ''mission step conditions must be an object''))"

section \<open>The executor\<close>

record execution_result =
  xr_mission :: string
  xr_mission_status :: mission_status
  xr_step :: "string option"
  xr_step_status :: "step_status option"
  xr_outcome :: "tool_outcome option"

definition mission_result :: "mission \<Rightarrow> execution_result" where
  "mission_result m =
     \<lparr>xr_mission = m_id m, xr_mission_status = m_status m, xr_step = None,
      xr_step_status = None, xr_outcome = None\<rparr>"

definition step_result :: "mission \<Rightarrow> mission_step \<Rightarrow> tool_outcome option \<Rightarrow> execution_result" where
  "step_result m st oc =
     \<lparr>xr_mission = m_id m, xr_mission_status = m_status m, xr_step = Some (st_id st),
      xr_step_status = Some (st_status st), xr_outcome = oc\<rparr>"

definition gateway_error :: "tool_outcome \<Rightarrow> dict" where
  "gateway_error oc =
     [(''gateway_state'', JStr (outcome_value (to_state oc))),
      (''reason'', case to_reason oc of None \<Rightarrow> JNull | Some r \<Rightarrow> JStr r)]"

text \<open>
  What both \<open>run_next\<close> and \<open>resume_approved\<close> do with an outcome of the gateway: move the step,
  then the mission.
\<close>

definition settle_done ::
  "bool \<Rightarrow> mission \<Rightarrow> mission_step \<Rightarrow> tool_outcome \<Rightarrow>
   ('a missions_db_scheme, execution_result) op" where
  "settle_done has_ledger m st oc =
     bindE (transition_step (st_id st) STEP_SUCCEEDED
              (Some (case to_result oc of None \<Rightarrow> [] | Some d \<Rightarrow> d)) None None) (\<lambda>st'.
     bindE (plan_is_complete (m_id m)) (\<lambda>complete.
     if complete
     then bindE (transition has_ledger (m_id m) COMPLETED
                   (Some [(''plan_status'', JStr ''completed'')]) None) (\<lambda>m'.
          returnE (step_result m' st' (Some oc)))
     else returnE (step_result m st' (Some oc))))"

definition settle ::
  "bool \<Rightarrow> mission \<Rightarrow> mission_step \<Rightarrow> tool_outcome \<Rightarrow>
   ('a missions_db_scheme, execution_result) op" where
  "settle has_ledger m st oc =
     (case to_state oc of
        OUT_WAITING_APPROVAL \<Rightarrow>
          bindE (transition_step (st_id st) STEP_WAITING_APPROVAL None None
                   (to_approval_request_id oc)) (\<lambda>st'.
          bindE (transition has_ledger (m_id m) WAITING_APPROVAL None None) (\<lambda>m'.
          returnE (step_result m' st' (Some oc))))
      | OUT_EXECUTED \<Rightarrow> settle_done has_ledger m st oc
      | OUT_SIMULATED \<Rightarrow> settle_done has_ledger m st oc
      | _ \<Rightarrow>
          bindE (transition_step (st_id st) STEP_FAILED None (Some (gateway_error oc)) None) (\<lambda>st'.
          bindE (transition has_ledger (m_id m) FAILED None
                   (Some ((''step_id'', JStr (st_id st')) # gateway_error oc))) (\<lambda>m'.
          returnE (step_result m' st' (Some oc)))))"

definition call_gate ::
  "bool \<Rightarrow> (tool_request \<Rightarrow> ('a missions_db_scheme, tool_outcome) op) \<Rightarrow> mission \<Rightarrow> mission_step \<Rightarrow>
   ('a missions_db_scheme, execution_result) op" where
  "call_gate has_ledger gate m st =
     bindE (liftE (request_for m st)) (\<lambda>req. bindE (gate req) (settle has_ledger m st))"

definition start_mission :: "bool \<Rightarrow> mission \<Rightarrow> ('a missions_db_scheme, mission) op" where
  "start_mission has_ledger m =
     (if m_status m = QUEUED then transition has_ledger (m_id m) RUNNING None None else returnE m)"

definition finish_mission :: "bool \<Rightarrow> mission \<Rightarrow> ('a missions_db_scheme, mission) op" where
  "finish_mission has_ledger m =
     bindE (start_mission has_ledger m) (\<lambda>m1.
       if m_status m1 = RUNNING then transition has_ledger (m_id m1) COMPLETED None None
       else returnE m1)"

definition advance ::
  "bool \<Rightarrow> (tool_request \<Rightarrow> ('a missions_db_scheme, tool_outcome) op) \<Rightarrow> mission \<Rightarrow>
   ('a missions_db_scheme, execution_result) op" where
  "advance has_ledger gate m =
     bindE (claim_next_pending_step (m_id m)) (\<lambda>claimed.
       case claimed of
         None \<Rightarrow>
           bindE (plan_is_complete (m_id m)) (\<lambda>complete.
           bindE (if complete then finish_mission has_ledger m else returnE m) (\<lambda>m1.
           returnE (mission_result m1)))
       | Some st \<Rightarrow>
           bindE (start_mission has_ledger m) (\<lambda>m1. call_gate has_ledger gate m1 st))"

definition run_next ::
  "bool \<Rightarrow> (tool_request \<Rightarrow> ('a missions_db_scheme, tool_outcome) op) \<Rightarrow> string \<Rightarrow>
   ('a missions_db_scheme, execution_result) op" where
  "run_next has_ledger gate mid =
     bindE (get_mission mid) (\<lambda>m.
       if m_status m \<in> {COMPLETED, FAILED, CANCELLED} then returnE (mission_result m)
       else if m_status m = WAITING_APPROVAL
       then bindE (waiting_approval_step (m_id m)) (\<lambda>waiting.
              case waiting of
                Some st \<Rightarrow> returnE (step_result m st None)
              | None \<Rightarrow> advance has_ledger gate m)
       else advance has_ledger gate m)"

definition resume_approved ::
  "bool \<Rightarrow> (tool_request \<Rightarrow> ('a missions_db_scheme, tool_outcome) op) \<Rightarrow> string \<Rightarrow>
   ('a missions_db_scheme, execution_result) op" where
  "resume_approved has_ledger gate mid =
     bindE (get_mission mid) (\<lambda>m.
       if m_status m \<noteq> WAITING_APPROVAL
       then raiseE (ValueError ''mission is not waiting for approval'')
       else bindE (waiting_approval_step (m_id m)) (\<lambda>waiting.
         case waiting of
           None \<Rightarrow> raiseE (ValueError ''mission has no step waiting for approval'')
         | Some st \<Rightarrow>
             bindE (transition_step (st_id st) STEP_RUNNING None None None) (\<lambda>st1.
             bindE (transition has_ledger (m_id m) RUNNING None None) (\<lambda>m1.
             call_gate has_ledger gate m1 st1))))"

section \<open>The autonomous runner\<close>

text \<open>
  \<open>candidate_of\<close> is \<open>getattr(result, "delivery_candidate", None)\<close>. The results of the executor
  have no such attribute, so for them it is the constant \<open>None\<close>.
\<close>

definition handoff ::
  "(string \<Rightarrow> dict \<Rightarrow> ('s, bool) op) option \<Rightarrow> (execution_result \<Rightarrow> json option) \<Rightarrow>
   string \<Rightarrow> execution_result \<Rightarrow> ('s, unit) op" where
  "handoff delivery candidate_of mid r =
     (case delivery of
        None \<Rightarrow> returnE ()
      | Some persist \<Rightarrow>
          (case candidate_of r of
             None \<Rightarrow> returnE ()
           | Some (JObj d) \<Rightarrow> bindE (persist mid d) (\<lambda>_. returnE ())
           | Some _ \<Rightarrow> raiseE (TypeError ''delivery candidate must be a mapping'')))"

definition runnable :: "'a missions_db_scheme \<Rightarrow> mission \<Rightarrow> bool" where
  "runnable s m \<longleftrightarrow> m_status m \<in> {QUEUED, RUNNING} \<and> plan_of (m_id m) (mission_steps s) \<noteq> []"

text \<open>The loop of \<open>run_once\<close> over the missions listed when it starts.\<close>

fun run_listed ::
  "(string \<Rightarrow> ('a missions_db_scheme, execution_result) op) \<Rightarrow>
   (string \<Rightarrow> execution_result \<Rightarrow> ('a missions_db_scheme, unit) op) \<Rightarrow> mission list \<Rightarrow>
   ('a missions_db_scheme, execution_result option) op" where
  "run_listed run hand [] = returnE None"
| "run_listed run hand (m # ms) =
     (if m_status m \<notin> {QUEUED, RUNNING} then run_listed run hand ms
      else bindE (list_plan_steps (m_id m)) (\<lambda>steps.
        if steps = [] then run_listed run hand ms
        else bindE (run (m_id m)) (\<lambda>r. bindE (hand (m_id m) r) (\<lambda>_. returnE (Some r)))))"

definition run_once ::
  "bool \<Rightarrow> (tool_request \<Rightarrow> ('a missions_db_scheme, tool_outcome) op) \<Rightarrow>
   (string \<Rightarrow> dict \<Rightarrow> ('a missions_db_scheme, bool) op) option \<Rightarrow>
   (execution_result \<Rightarrow> json option) \<Rightarrow> ('a missions_db_scheme, execution_result option) op" where
  "run_once has_ledger gate delivery candidate_of =
     bindE (readE list_missions)
       (run_listed (run_next has_ledger gate) (handoff delivery candidate_of))"

end
