(* ===== verification/Chat.thy ===== *)
theory Chat
  imports Chat_Intents Code_Changes Mission_Executor
begin

text \<open>
  The SysAdmin chat: \<open>chat/models.py\<close>, \<open>chat/service.py\<close> and \<open>chat/controller.py\<close>, with the
  validating tool registry of \<open>chat/api.py\<close>. A conversation belongs to a session; its messages are
  numbered from one. The controller turns a message into a mission plan, a queued code change, or a
  reply of the model, and later reports what the mission's stored rows say. The model client is
  an argument that acts on the outside world.
\<close>

section \<open>Conversations and messages\<close>

record conversation =
  cv_id :: string
  cv_owner :: string
  cv_agent_key :: string
  cv_created :: int

record chat_message =
  cm_id :: string
  cm_conversation :: string
  cm_position :: int
  cm_role :: string
  cm_content :: string
  cm_mission :: "string option"
  cm_created :: int

record 'w chat_db = "'w delivery_db" +
  conversations :: "conversation list"
  chat_messages :: "chat_message list"

definition create_conversation ::
  "string \<Rightarrow> int \<Rightarrow> string \<Rightarrow> string \<Rightarrow> (('w, 'a) chat_db_scheme, conversation) op" where
  "create_conversation new_id created owner agent_key s =
     (if agent_key \<noteq> ''sysadmin''
      then (Inl (ValueError ''SysAdmin Chat v1 supports only the sysadmin agent''), s)
      else let c = \<lparr>cv_id = new_id, cv_owner = owner, cv_agent_key = agent_key, cv_created = created\<rparr>
           in case insert_row cv_id c (conversations s) of
                Inl e \<Rightarrow> (Inl e, s)
              | Inr rows \<Rightarrow> (Inr c, s\<lparr>conversations := rows\<rparr>))"

definition list_conversations :: "string \<Rightarrow> ('w, 'a) chat_db_scheme \<Rightarrow> conversation list" where
  "list_conversations owner s =
     sort_key (\<lambda>c. (cv_created c, cv_id c)) (filter (\<lambda>c. cv_owner c = owner) (conversations s))"

definition owned_conversation :: "string \<Rightarrow> string \<Rightarrow> (('w, 'a) chat_db_scheme, conversation) op" where
  "owned_conversation cid owner s =
     (case find (\<lambda>c. cv_id c = cid \<and> cv_owner c = owner) (conversations s) of
        None \<Rightarrow> (Inl (ChatAccessDenied ''Conversation not found''), s)
      | Some c \<Rightarrow> (Inr c, s))"

definition messages_of :: "string \<Rightarrow> chat_message list \<Rightarrow> chat_message list" where
  "messages_of cid rows = sort_key cm_position (filter (\<lambda>m. cm_conversation m = cid) rows)"

text \<open>\<open>SELECT max(position)\<close>, and zero for a conversation without messages.\<close>

definition last_position :: "string \<Rightarrow> chat_message list \<Rightarrow> int" where
  "last_position cid rows =
     (case filter (\<lambda>m. cm_conversation m = cid) rows of
        [] \<Rightarrow> 0
      | m # ms \<Rightarrow> fold (\<lambda>x k. max (cm_position x) k) ms (cm_position m))"

definition add_message ::
  "string \<Rightarrow> int \<Rightarrow> string \<Rightarrow> string \<Rightarrow> string \<Rightarrow> string \<Rightarrow> string option \<Rightarrow>
   (('w, 'a) chat_db_scheme, chat_message) op" where
  "add_message new_id created cid owner role content mid =
     (if role \<notin> {''user'', ''assistant'', ''system''} then raiseE (ValueError ''Invalid chat role'')
      else bindE (owned_conversation cid owner) (\<lambda>_ s.
        let m = \<lparr>cm_id = new_id, cm_conversation = cid, cm_position = last_position cid (chat_messages s) + 1,
                 cm_role = role, cm_content = content, cm_mission = mid, cm_created = created\<rparr>
        in case insert_row cm_id m (chat_messages s) of
             Inl e \<Rightarrow> (Inl e, s)
           | Inr rows \<Rightarrow> (Inr m, s\<lparr>chat_messages := rows\<rparr>)))"

definition list_messages :: "string \<Rightarrow> string \<Rightarrow> (('w, 'a) chat_db_scheme, chat_message list) op" where
  "list_messages cid owner =
     bindE (owned_conversation cid owner) (\<lambda>_. readE (\<lambda>s. messages_of cid (chat_messages s)))"

section \<open>The controller's parts\<close>

type_synonym 'w model_client = "string \<Rightarrow> (string \<times> string) list \<Rightarrow> ('w, string) op"

text \<open>
  \<open>ch_dash\<close> is the text of the dash between a repository and its description, a character the
  strings here cannot hold.
\<close>

record 'w chat_env =
  ch_resolve :: "string \<Rightarrow> exn + bool"
  ch_model :: "'w model_client option"
  ch_changes :: "'w code_change_env option"
  ch_general_prompt :: string
  ch_grounded_prompt :: string
  ch_dash :: string

record chat_call =
  ch_owner :: string
  ch_conversation :: string
  ch_user_id :: string
  ch_user_at :: int
  ch_reply_id :: string
  ch_reply_at :: int
  ch_mission_id :: string
  ch_mission_at :: int
  ch_step_ids :: "nat \<Rightarrow> string"
  ch_change_call :: code_change_call

record chat_result =
  ct_state :: string
  ct_message :: chat_message
  ct_mission :: "string option"

definition validation_tools :: "string list" where
  "validation_tools =
     [''system.health.read'', ''service.status.read'', ''service.logs.read'', ''dripvid.health.read'',
      ''dripvid.release.read'', ''dripvid.config.read'', ''dripvid.service.status.read'']"

definition validation_resolve :: "string \<Rightarrow> exn + bool" where
  "validation_resolve tool =
     (if tool \<in> set validation_tools then Inr True
      else Inl (KeyError (''Tool is not available to SysAdmin Chat: '' @ tool)))"

text \<open>Adding the assistant's message and returning it.\<close>

definition reply ::
  "chat_call \<Rightarrow> string \<Rightarrow> string \<Rightarrow> string option \<Rightarrow> (('w, 'a) chat_db_scheme, chat_result) op" where
  "reply call state content mid =
     bindE (add_message (ch_reply_id call) (ch_reply_at call) (ch_conversation call) (ch_owner call)
              ''assistant'' content mid) (\<lambda>m.
       returnE \<lparr>ct_state = state, ct_message = m, ct_mission = mid\<rparr>)"

definition chat_messages_of :: "chat_call \<Rightarrow> (('w, 'a) chat_db_scheme, chat_message list) op" where
  "chat_messages_of call = list_messages (ch_conversation call) (ch_owner call)"

definition model_history :: "chat_call \<Rightarrow> (('w, 'a) chat_db_scheme, (string \<times> string) list) op" where
  "model_history call =
     bindE (chat_messages_of call) (\<lambda>ms.
       returnE (map (\<lambda>m. (cm_role m, cm_content m)) (filter (\<lambda>m. cm_role m \<in> {''user'', ''assistant''}) ms)))"

text \<open>A call of the model inside \<open>try ... except ChatModelError\<close>.\<close>

definition ask_model ::
  "'w model_client \<Rightarrow> string \<Rightarrow> (string \<times> string) list \<Rightarrow> (('w, 'a) chat_db_scheme, string option) op" where
  "ask_model client prompt history s =
     (case on_world (client prompt history) s of
        (Inl (ChatModelError _), t) \<Rightarrow> (Inr None, t)
      | (Inl e, t) \<Rightarrow> (Inl e, t)
      | (Inr content, t) \<Rightarrow> (Inr (Some content), t))"

definition conversation_reply :: "'w chat_env \<Rightarrow> chat_call \<Rightarrow> (('w, 'a) chat_db_scheme, chat_result) op" where
  "conversation_reply env call =
     (case ch_model env of
        None \<Rightarrow>
          reply call ''unavailable''
            (''SysAdmin'' @ CHR 0x27 # ''s chat model is not configured. Read-only operational planning remains available.'') None
      | Some client \<Rightarrow>
          bindE (model_history call) (\<lambda>history.
          bindE (ask_model client (ch_general_prompt env) history) (\<lambda>content.
            reply call ''complete''
              (case content of
                 Some t \<Rightarrow> t
               | None \<Rightarrow> ''SysAdmin'' @ CHR 0x27 #
                          ''s chat model is currently unavailable. No operational action was taken.'') None)))"

definition mission_title :: "string \<Rightarrow> string" where
  "mission_title t =
     (let clean = squeeze t in
      if length clean \<le> 180 then ''SysAdmin Chat: '' @ clean
      else ''SysAdmin Chat: '' @ take 177 clean @ ''...'')"

definition sysadmin_mission :: "string \<Rightarrow> new_mission" where
  "sysadmin_mission t =
     \<lparr>nm_title = mission_title t, nm_description = t, nm_owner_agent = ''sysadmin'', nm_source = ''sysadmin_chat'',
      nm_priority = PRIO_NORMAL, nm_risk = GREEN, nm_objectives = Some [JStr t], nm_dependencies = Some [],
      nm_xp_reward = 0\<rparr>"

definition refusal_text :: "string option \<Rightarrow> string" where
  "refusal_text reason =
     (case reason of
        Some t \<Rightarrow>
          if t \<noteq> [] \<and> is_infix ''read-only'' (lower_text t) then t
          else strip (''SysAdmin Chat v1 is read-only. '' @ t)
      | None \<Rightarrow> strip ''SysAdmin Chat v1 is read-only. '')"

definition lines2 :: string where
  "lines2 = [CHR 0x0A, CHR 0x0A]"

definition queued_text :: "string \<Rightarrow> string" where
  "queued_text repository =
     ''## Code Change Queued: '' @ repository @ lines2 @
     ''The request has been queued for the AI HQ worker. Developer, sandbox verification, tests and QA will run outside this chat request.'' @
     lines2 @ ''No code was published or deployed.''"

definition inspection_text :: string where
  "inspection_text =
     ''I'' @ CHR 0x27 # ''ve queued a read-only AI HQ inspection. I'' @ CHR 0x27 #
     ''ll report from the persisted mission evidence when it completes.''"

definition submit_code_change ::
  "'w chat_env \<Rightarrow> chat_call \<Rightarrow> string option \<Rightarrow> string \<Rightarrow> (('w, 'a) chat_db_scheme, chat_result) op" where
  "submit_code_change env call repository t =
     (case ch_changes env of
        None \<Rightarrow>
          reply call ''unavailable'' ''Code-change preparation is not configured on this AI HQ instance.'' None
      | Some changes \<Rightarrow>
          bindE (queue_candidate changes (ch_change_call call)
                   (case repository of None \<Rightarrow> JNull | Some r \<Rightarrow> JStr r) (JStr t)) (\<lambda>(mid, repo).
            reply call ''pending'' (queued_text repo) (Some mid)))"

definition submit_inspection ::
  "'w chat_env \<Rightarrow> chat_call \<Rightarrow> plan_entry list \<Rightarrow> string \<Rightarrow> (('w, 'a) chat_db_scheme, chat_result) op" where
  "submit_inspection env call steps t =
     bindE (create_mission False (ch_mission_id call) (ch_mission_at call) (sysadmin_mission t)) (\<lambda>m.
     bindE (create_plan (Some (ch_resolve env)) (ch_step_ids call) (m_id m) steps) (\<lambda>_.
       reply call ''pending'' inspection_text (Some (m_id m))))"

definition chat_submit ::
  "'w chat_env \<Rightarrow> chat_call \<Rightarrow> string \<Rightarrow> (('w, 'a) chat_db_scheme, chat_result) op" where
  "chat_submit env call raw =
     (let t = strip raw in
      if t = [] then raiseE (ValueError ''chat message cannot be empty'')
      else bindE (add_message (ch_user_id call) (ch_user_at call) (ch_conversation call) (ch_owner call)
                    ''user'' t None) (\<lambda>_.
           bindE (liftE (plan_sysadmin_intent t)) (\<lambda>intent.
             if ci_kind intent = ''refused'' then reply call ''refused'' (refusal_text (ci_refusal intent)) None
             else if ci_kind intent = ''conversation'' then conversation_reply env call
             else if ci_kind intent = ''code_change'' then submit_code_change env call (ci_repository intent) t
             else if ci_kind intent \<noteq> ''operational''
             then raiseE (ValueError (''unsupported chat intent: '' @ ci_kind intent))
             else submit_inspection env call (ci_steps intent) t)))"

section \<open>Reporting an inspection\<close>

text \<open>\<open>json.dumps(value, sort_keys=True)\<close> with the default separators.\<close>

fun json_spaced :: "json \<Rightarrow> string" where
  "json_spaced JNull = ''null''"
| "json_spaced (JBool b) = (if b then ''true'' else ''false'')"
| "json_spaced (JInt i) = int_repr i"
| "json_spaced (JStr s) = quote s"
| "json_spaced (JList xs) = ''['' @ join '', '' (map json_spaced xs) @ '']''"
| "json_spaced (JObj d) = ''{'' @ join '', '' (map (\<lambda>(k, v). quote k @ '': '' @ json_spaced v) d) @ ''}''"

definition dumps_sorted :: "json \<Rightarrow> string" where
  "dumps_sorted v = json_spaced (json_canon v)"

definition dict_or_null :: "dict option \<Rightarrow> json" where
  "dict_or_null v = (case v of None \<Rightarrow> JNull | Some d \<Rightarrow> JObj d)"

record evidence =
  ev_position :: int
  ev_tool_name :: string
  ev_tool_arguments :: dict
  ev_status :: string
  ev_result :: json
  ev_error_state :: json

definition evidence_of :: "mission_step \<Rightarrow> evidence" where
  "evidence_of st =
     \<lparr>ev_position = int (st_position st), ev_tool_name = st_tool_name st, ev_tool_arguments = st_tool_arguments st,
      ev_status = step_status_value (st_status st), ev_result = dict_or_null (st_result st),
      ev_error_state = dict_or_null (st_error_state st)\<rparr>"

definition evidence_json :: "evidence \<Rightarrow> json" where
  "evidence_json e =
     JObj [(''position'', JInt (ev_position e)), (''tool_name'', JStr (ev_tool_name e)),
           (''tool_arguments'', JObj (ev_tool_arguments e)), (''status'', JStr (ev_status e)),
           (''result'', ev_result e), (''error_state'', ev_error_state e)]"

definition reads_running :: "json \<Rightarrow> bool" where
  "reads_running v \<longleftrightarrow>
     (let t = lower_text (dumps_sorted v) in is_infix ''active'' t \<and> is_infix ''running'' t)"

definition healthy_summary :: string where
  "healthy_summary =
     ''## AI HQ Status: Healthy'' @ lines2 @
     ''The persisted read-only inspection shows AI HQ is healthy.'' @ lines2 @
     ''- System health check succeeded.'' @ [CHR 0x0A] @
     ''- `ai-hq-host-helper.service` is currently active and running.'' @ [CHR 0x0A] @
     ''- Historical log errors do not indicate a current failure while the fresh service status remains active/running.'' @
     lines2 @ ''**Current assessment:** No active AI HQ problem was detected.''"

definition attention_summary :: string where
  "attention_summary =
     ''## AI HQ Status: Attention Required'' @ lines2 @
     ''The system health check succeeded, but the current service evidence does not confirm that the AI HQ Host Helper is both active and running.'' @
     lines2 @ ''**Current assessment:** Review the current service evidence.''"

definition partial_summary :: string where
  "partial_summary =
     ''## AI HQ Status: Partially Verified'' @ lines2 @
     ''The system health check succeeded, but current service status could not be fully verified from the persisted evidence.''"

definition unverified_summary :: string where
  "unverified_summary =
     ''## AI HQ Status: Unable to Verify'' @ lines2 @
     ''The persisted inspection does not contain enough successful current evidence to determine AI HQ'' @ CHR 0x27 #
     ''s health safely.''"

definition evidence_for :: "string \<Rightarrow> evidence list \<Rightarrow> evidence option" where
  "evidence_for tool es = find (\<lambda>e. ev_tool_name e = tool) es"

definition succeeded :: "evidence option \<Rightarrow> bool" where
  "succeeded v \<longleftrightarrow> (case v of None \<Rightarrow> False | Some e \<Rightarrow> ev_status e = ''SUCCEEDED'')"

definition deterministic_summary :: "evidence list \<Rightarrow> string" where
  "deterministic_summary es =
     (let health = evidence_for ''system.health.read'' es; status = evidence_for ''service.status.read'' es;
          running = (succeeded status \<and> reads_running (ev_result (the status)))
      in if succeeded health \<and> running then healthy_summary
         else if succeeded health \<and> succeeded status then attention_summary
         else if succeeded health then partial_summary
         else unverified_summary)"

definition usable_model_reply :: "string \<Rightarrow> bool" where
  "usable_model_reply content =
     (let normalized = squeeze (lower_text (strip content)) in
      normalized \<noteq> [] \<and>
      normalized \<notin> {''user safety: safe'', ''user safety: unsafe'', ''safety: safe'', ''safety: unsafe''} \<and>
      \<not> (take 12 normalized = ''user safety:'' \<and> length normalized < 80))"

text \<open>\<open>str.replace\<close> of a backslash before \<open>c\<close>, from left to right.\<close>

fun unescape :: "char \<Rightarrow> string \<Rightarrow> string" where
  "unescape c [] = []"
| "unescape c [x] = [x]"
| "unescape c (x # y # ys) =
     (if x = CHR 0x5C \<and> y = c then c # unescape c ys else x # unescape c (y # ys))"

definition normalize_output :: "string \<Rightarrow> string" where
  "normalize_output t = fold unescape [CHR ''*'', CHR ''`'', CHR ''~'', CHR ''_'', CHR ''#''] t"

definition historical_context :: json where
  "historical_context =
     JObj [(''classification'', JStr ''historical_context''),
           (''current_state'',
            JStr ''Fresh service.status.read reports the service active/running. Historical log failures must not be described as current, ongoing, persistent, or requiring action.'')]"

fun mark_logs_historical :: "evidence list \<Rightarrow> evidence list" where
  "mark_logs_historical [] = []"
| "mark_logs_historical (e # es) =
     (if ev_tool_name e = ''service.logs.read'' then e\<lparr>ev_result := historical_context\<rparr> # es
      else e # mark_logs_historical es)"

definition settle_evidence :: "evidence list \<Rightarrow> evidence list" where
  "settle_evidence es =
     (case find (\<lambda>e. ev_tool_name e = ''service.status.read'' \<and> ev_status e = ''SUCCEEDED'') es of
        None \<Rightarrow> es
      | Some e \<Rightarrow> if reads_running (ev_result e) then mark_logs_historical es else es)"

fun question_before :: "string \<Rightarrow> chat_message list \<Rightarrow> chat_message list \<Rightarrow> string option" where
  "question_before mid earlier [] = None"
| "question_before mid earlier (m # ms) =
     (case (if cm_mission m = Some mid \<and> cm_role m = ''assistant''
            then find (\<lambda>x. cm_role x = ''user'') earlier else None) of
        Some x \<Rightarrow> Some (cm_content x)
      | None \<Rightarrow> question_before mid (m # earlier) ms)"

definition mission_question :: "chat_call \<Rightarrow> string \<Rightarrow> (('w, 'a) chat_db_scheme, string) op" where
  "mission_question call mid =
     bindE (chat_messages_of call) (\<lambda>ms.
       returnE (case question_before mid [] ms of
                  Some t \<Rightarrow> t | None \<Rightarrow> ''Report the persisted operational evidence.''))"

definition grounded_message :: "string \<Rightarrow> evidence list \<Rightarrow> string" where
  "grounded_message question es =
     ''Original question:'' @ [CHR 0x0A] @ question @ lines2 @ ''Persisted mission evidence:'' @ [CHR 0x0A] @
     dumps_sorted (JList (map evidence_json es))"

text \<open>\<open>_completed_reply_if_present\<close> and \<open>_terminal_reply_if_present\<close>: the second linked message is the answer.\<close>

definition answered :: "chat_call \<Rightarrow> string \<Rightarrow> string \<Rightarrow> (('w, 'a) chat_db_scheme, chat_result option) op" where
  "answered call mid state =
     bindE (chat_messages_of call) (\<lambda>ms.
       let linked = filter (\<lambda>m. cm_mission m = Some mid) ms in
       returnE (if length linked \<ge> 2
                then Some \<lparr>ct_state = state, ct_message = last linked, ct_mission = Some mid\<rparr> else None))"

text \<open>What is said about the evidence, given the model's answer if there was one.\<close>

definition inspection_report :: "evidence list \<Rightarrow> string option \<Rightarrow> string" where
  "inspection_report es content =
     (case content of
        None \<Rightarrow> deterministic_summary es
      | Some t \<Rightarrow>
          if usable_model_reply (normalize_output t) then normalize_output t else deterministic_summary es)"

definition summarize_inspection ::
  "'w chat_env \<Rightarrow> chat_call \<Rightarrow> string \<Rightarrow> evidence list \<Rightarrow> (('w, 'a) chat_db_scheme, chat_result) op" where
  "summarize_inspection env call mid es =
     (case ch_model env of
        None \<Rightarrow>
          reply call ''unavailable''
            (''The read-only inspection completed, but SysAdmin'' @ CHR 0x27 #
             ''s chat model is not configured to summarize the persisted mission evidence.'') (Some mid)
      | Some client \<Rightarrow>
          bindE (mission_question call mid) (\<lambda>question.
          bindE (ask_model client (ch_grounded_prompt env) [(''user'', grounded_message question es)]) (\<lambda>content.
            reply call ''complete'' (inspection_report es content) (Some mid))))"

definition completed_inspection ::
  "'w chat_env \<Rightarrow> chat_call \<Rightarrow> string \<Rightarrow> (('w, 'a) chat_db_scheme, chat_result) op" where
  "completed_inspection env call mid =
     bindE (answered call mid ''complete'') (\<lambda>existing.
       case existing of
         Some r \<Rightarrow> returnE r
       | None \<Rightarrow>
           bindE (list_plan_steps mid) (\<lambda>steps.
             summarize_inspection env call mid (settle_evidence (map evidence_of steps))))"

text \<open>The reason stored with a failed mission, as text.\<close>

definition failure_detail :: "dict option \<Rightarrow> string" where
  "failure_detail v =
     (case v of
        None \<Rightarrow> []
      | Some d \<Rightarrow>
          if d = [] then []
          else case dict_get d ''reason'' of
                 JStr r \<Rightarrow> r
               | _ \<Rightarrow> (case dict_get d ''message'' of JStr r \<Rightarrow> r | _ \<Rightarrow> py_str (JObj d)))"

definition failed_report :: "dict option \<Rightarrow> string" where
  "failed_report v =
     (let detail = failure_detail v in
      ''The read-only AI HQ inspection failed.'' @ (if detail \<noteq> [] then '' '' @ detail else []))"

definition failed_inspection :: "chat_call \<Rightarrow> string \<Rightarrow> (('w, 'a) chat_db_scheme, chat_result) op" where
  "failed_inspection call mid =
     bindE (answered call mid ''failed'') (\<lambda>existing.
       case existing of
         Some r \<Rightarrow> returnE r
       | None \<Rightarrow>
           bindE (get_mission mid) (\<lambda>m.
             reply call ''failed'' (failed_report (m_error_state m)) (Some mid)))"

section \<open>Reporting a code change\<close>

definition qa_label :: "qa_result option \<Rightarrow> string" where
  "qa_label v =
     (case v of None \<Rightarrow> ''pending'' | Some QA_PASSED \<Rightarrow> ''**PASSED**'' | Some QA_FAILED \<Rightarrow> ''**FAILED**'')"

definition shown :: "string option \<Rightarrow> string" where
  "shown release = (case release of Some r \<Rightarrow> if r \<noteq> [] then ''`'' @ r @ ''`'' else ''confirmed'' | None \<Rightarrow> ''confirmed'')"

definition change_outcome :: "code_change_result \<Rightarrow> string" where
  "change_outcome r =
     (if cr_rolled_back r
      then ''The approved candidate was rolled back.'' @ lines2 @ ''**Restored release:** '' @ shown (cr_rollback_release_id r)
      else if cr_deployed r
      then ''The approved candidate was deployed.'' @ lines2 @ ''**Deployed release:** '' @ shown (cr_release_id r) @
           (case cr_prior_release_id r of
              Some p \<Rightarrow> if p \<noteq> [] then lines2 @ ''**Rollback release:** `'' @ p @ ''`'' else []
            | None \<Rightarrow> [])
      else if cr_published r
      then ''The approved candidate was published for release review. Deployment is a separate approved operation.''
      else ''No code was published or deployed.'')"

definition action_prompt :: "code_change_result \<Rightarrow> string" where
  "action_prompt r =
     (if cr_ready r
      then ''> **Reply with** `approve` **to deploy this candidate to production.**'' @ lines2 else [])"

definition candidate_text :: "string \<Rightarrow> code_change_result \<Rightarrow> string" where
  "candidate_text dash r =
     (let n = length (cr_changed_files r);
          label = (if n = 0 then ''no files'' else nat_repr n @ '' file'' @ (if n \<noteq> 1 then ''s'' else []));
          changed = (if n = 0 then ''- No changed files reported''
                     else join [CHR 0x0A] (map (\<lambda>p. ''- `'' @ py_str p @ ''`'') (cr_changed_files r)));
          target = (if cr_description r \<noteq> [] then cr_repository r @ dash @ cr_description r else cr_repository r)
      in ''## Code Candidate: '' @ target @ lines2 @ cr_summary r @ lines2 @
         ''**Changed files:** '' @ label @ lines2 @ changed @ lines2 @
         ''**Candidate:** `'' @ cr_change_ref r @ ''`'' @ lines2 @
         ''**Review:** '' @ (if cr_high_risk r then ''HIGH RISK'' else ''NORMAL REVIEW'') @
         '' | **QA:** '' @ qa_label (cr_qa_result r) @
         '' | **Status:** '' @ (if cr_ready r then ''READY FOR APPROVAL'' else ''NOT READY FOR APPROVAL'') @ lines2 @
         action_prompt r @ change_outcome r)"

definition candidate_header :: string where
  "candidate_header = ''## Code Candidate:''"

definition completed_code_change ::
  "'w chat_env \<Rightarrow> chat_call \<Rightarrow> string \<Rightarrow> (('w, 'a) chat_db_scheme, chat_result) op" where
  "completed_code_change env call mid =
     bindE (chat_messages_of call) (\<lambda>ms.
       let existing = filter (\<lambda>m. cm_mission m = Some mid \<and> cm_role m = ''assistant'' \<and>
                               take (length candidate_header) (cm_content m) = candidate_header) ms in
       if existing \<noteq> []
       then returnE \<lparr>ct_state = ''waiting_approval'', ct_message = last existing, ct_mission = Some mid\<rparr>
       else case ch_changes env of
         None \<Rightarrow> raiseE AttributeError
       | Some changes \<Rightarrow>
           bindE (candidate_result changes mid) (\<lambda>r.
             reply call (if cr_ready r then ''waiting_approval'' else ''candidate_rejected'')
               (candidate_text (ch_dash env) r) (Some mid)))"

definition change_failed_text :: string where
  "change_failed_text =
     ''## Code Change Failed Safely'' @ lines2 @ ''The worker could not produce a verified candidate.'' @ lines2 @
     ''No code was published or deployed.''"

section \<open>Refreshing\<close>

definition chat_refresh ::
  "'w chat_env \<Rightarrow> chat_call \<Rightarrow> string \<Rightarrow> (('w, 'a) chat_db_scheme, chat_result) op" where
  "chat_refresh env call mid =
     bindE (chat_messages_of call) (\<lambda>ms.
       let linked = filter (\<lambda>m. cm_mission m = Some mid) ms;
           waiting = \<lparr>ct_state = ''pending'', ct_message = last linked, ct_mission = Some mid\<rparr> in
       if linked = [] then raiseE (PermissionError ''mission is not linked to this conversation'')
       else bindE (get_mission mid) (\<lambda>m.
         if m_owner_agent m = ''developer'' \<and> m_source m = ''hq_chat_code_change''
         then if m_status m \<in> {WAITING_APPROVAL, COMPLETED} then completed_code_change env call mid
              else if m_status m \<in> {FAILED, CANCELLED}
              then reply call ''candidate_failed'' change_failed_text (Some mid)
              else returnE waiting
         else if m_owner_agent m \<noteq> ''sysadmin'' then raiseE (PermissionError ''mission is not owned by SysAdmin'')
         else if m_source m \<noteq> ''sysadmin_chat''
         then raiseE (PermissionError ''mission was not created by SysAdmin Chat'')
         else if m_status m = COMPLETED then completed_inspection env call mid
         else if m_status m \<in> {FAILED, CANCELLED} then failed_inspection call mid
         else returnE waiting))"

end
