(* ===== verification/Knowledge.thy ===== *)
theory Knowledge
  imports Chat Complex_Main
begin

text \<open>
  The Knowledge Core: \<open>knowledge/models.py\<close> and \<open>knowledge/service.py\<close>. Memories are created, searched,
  corrected, locked, verified and softly deleted; a contradiction is a new memory that names the old
  one. Confidence is a finite number; clock readings and fresh identifiers are arguments.
\<close>

section \<open>Data\<close>

datatype memory_category = CONFIRMED_FACT | PREFERENCE | PROCEDURE | WORKING_MEMORY | AGENT_MEMORY

datatype verification_state = UNVERIFIED | INFERRED | NEEDS_REVIEW | CONFIRMED

datatype memory_visibility = VIS_PRIVATE | VIS_SHARED | VIS_RESTRICTED

datatype memory_sensitivity = SENS_NORMAL | SENS_SENSITIVE | SENS_CONSEQUENTIAL | SENS_SECRET

definition enum_of :: "string \<Rightarrow> (string \<times> 'e) list \<Rightarrow> string \<Rightarrow> exn + 'e" where
  "enum_of name members v =
     (case map_of members v of
        None \<Rightarrow> Inl (ValueError (repr_string v @ '' is not a valid '' @ name))
      | Some e \<Rightarrow> Inr e)"

definition category_of :: "string \<Rightarrow> exn + memory_category" where
  "category_of = enum_of ''MemoryCategory''
     [(''confirmed_fact'', CONFIRMED_FACT), (''preference'', PREFERENCE), (''procedure'', PROCEDURE),
      (''working_memory'', WORKING_MEMORY), (''agent_memory'', AGENT_MEMORY)]"

definition verification_of :: "string \<Rightarrow> exn + verification_state" where
  "verification_of = enum_of ''VerificationState''
     [(''unverified'', UNVERIFIED), (''inferred'', INFERRED), (''needs_review'', NEEDS_REVIEW),
      (''confirmed'', CONFIRMED)]"

definition visibility_of :: "string \<Rightarrow> exn + memory_visibility" where
  "visibility_of = enum_of ''MemoryVisibility''
     [(''private'', VIS_PRIVATE), (''shared'', VIS_SHARED), (''restricted'', VIS_RESTRICTED)]"

definition sensitivity_of :: "string \<Rightarrow> exn + memory_sensitivity" where
  "sensitivity_of = enum_of ''MemorySensitivity''
     [(''normal'', SENS_NORMAL), (''sensitive'', SENS_SENSITIVE), (''consequential'', SENS_CONSEQUENTIAL),
      (''secret'', SENS_SECRET)]"

record memory =
  k_id :: string
  k_category :: memory_category
  k_content :: string
  k_owner_scope :: string
  k_provenance :: dict
  k_confidence :: rat
  k_verification :: verification_state
  k_sensitivity :: memory_sensitivity
  k_visibility :: memory_visibility
  k_allowed_agents :: "string list"
  k_pinned :: bool
  k_locked :: bool
  k_temporary :: bool
  k_expires_at :: "stamp option"
  k_contradicts :: "string option"
  k_revision :: int
  k_verified_at :: "stamp option"
  k_deleted_at :: "stamp option"
  k_created_at :: int

record 'w knowledge_db = "'w chat_db" +
  memories :: "memory list"

section \<open>Provenance\<close>

definition provenance_kind :: "dict \<Rightarrow> string" where
  "provenance_kind p = lower_text (strip (py_str (dict_get_default p ''kind'' (JStr []))))"

definition is_inference :: "dict \<Rightarrow> bool" where
  "is_inference p \<longleftrightarrow> provenance_kind p \<in> {''agent_inference'', ''inference'', ''model_inference''}"

definition default_verification :: "dict \<Rightarrow> verification_state" where
  "default_verification p =
     (if provenance_kind p \<in> {''agent_inference'', ''inference'', ''model_inference''} then INFERRED
      else if provenance_kind p \<in> {''user_confirmed'', ''explicit_user_confirmation''} then CONFIRMED
      else UNVERIFIED)"

section \<open>Operations\<close>

definition validate_values ::
  "string \<Rightarrow> dict \<Rightarrow> rat \<Rightarrow> verification_state \<Rightarrow> memory_sensitivity \<Rightarrow> bool \<Rightarrow> stamp option \<Rightarrow> exn option" where
  "validate_values content provenance confidence verification sensitivity temporary expires_at =
     guards [(strip content = [], ''memory content cannot be empty''),
             (\<not> (0 \<le> confidence \<and> confidence \<le> 1), ''confidence must be between 0 and 1''),
             (temporary \<and> expires_at = None, ''temporary memory requires expiry''),
             (sensitivity = SENS_SECRET, ''raw secrets belong in the Secrets Vault, not Knowledge Core''),
             (is_inference provenance \<and> verification = CONFIRMED, ''inference cannot be created as confirmed'')]"

definition confirmed_at :: "verification_state \<Rightarrow> int \<Rightarrow> stamp option" where
  "confirmed_at v now = (if v = CONFIRMED then Some (Aware now) else None)"

definition agent_list :: "string list option \<Rightarrow> string list" where
  "agent_list v = (case v of None \<Rightarrow> [] | Some xs \<Rightarrow> sort (remdups xs))"

record new_memory =
  nk_category :: string
  nk_content :: string
  nk_owner_scope :: string
  nk_provenance :: dict
  nk_confidence :: rat
  nk_verification :: "string option"
  nk_sensitivity :: string
  nk_visibility :: string
  nk_allowed_agents :: "string list option"
  nk_pinned :: bool
  nk_locked :: bool
  nk_temporary :: bool
  nk_expires_at :: "stamp option"
  nk_contradicts :: "string option"

definition memory_missing :: "string \<Rightarrow> exn" where
  "memory_missing kid = KeyError (''memory not found: '' @ kid)"

text \<open>The row a creation makes, or the exception it raises.\<close>

definition new_memory_row :: "string \<Rightarrow> int \<Rightarrow> int \<Rightarrow> new_memory \<Rightarrow> exn + memory" where
  "new_memory_row new_id created now n =
     andThen (category_of (nk_category n)) (\<lambda>category.
     andThen (sensitivity_of (nk_sensitivity n)) (\<lambda>sensitivity.
     andThen (visibility_of (nk_visibility n)) (\<lambda>visibility.
     andThen (case nk_verification n of
                Some v \<Rightarrow> verification_of v | None \<Rightarrow> Inr (default_verification (nk_provenance n))) (\<lambda>verification.
     case validate_values (nk_content n) (nk_provenance n) (nk_confidence n) verification sensitivity
            (nk_temporary n) (nk_expires_at n) of
       Some e \<Rightarrow> Inl e
     | None \<Rightarrow>
         Inr \<lparr>k_id = new_id, k_category = category, k_content = strip (nk_content n),
              k_owner_scope = nk_owner_scope n, k_provenance = nk_provenance n,
              k_confidence = nk_confidence n, k_verification = verification, k_sensitivity = sensitivity,
              k_visibility = visibility, k_allowed_agents = agent_list (nk_allowed_agents n),
              k_pinned = nk_pinned n, k_locked = nk_locked n, k_temporary = nk_temporary n,
              k_expires_at = nk_expires_at n, k_contradicts = nk_contradicts n, k_revision = 1,
              k_verified_at = confirmed_at verification now, k_deleted_at = None, k_created_at = created\<rparr>))))"

definition insert_memory :: "memory \<Rightarrow> (('w, 'a) knowledge_db_scheme, memory) op" where
  "insert_memory k s =
     (case k_contradicts k of
        Some old \<Rightarrow>
          if row_of k_id old (memories s) = None then (Inl (memory_missing old), s)
          else (case insert_row k_id k (memories s) of
                  Inl e \<Rightarrow> (Inl e, s) | Inr rows \<Rightarrow> (Inr k, s\<lparr>memories := rows\<rparr>))
      | None \<Rightarrow>
          (case insert_row k_id k (memories s) of
             Inl e \<Rightarrow> (Inl e, s) | Inr rows \<Rightarrow> (Inr k, s\<lparr>memories := rows\<rparr>)))"

definition create_memory ::
  "string \<Rightarrow> int \<Rightarrow> int \<Rightarrow> new_memory \<Rightarrow> (('w, 'a) knowledge_db_scheme, memory) op" where
  "create_memory new_id created now n = bindE (liftE (new_memory_row new_id created now n)) insert_memory"

definition get_memory :: "string \<Rightarrow> bool \<Rightarrow> (('w, 'a) knowledge_db_scheme, memory) op" where
  "get_memory kid include_deleted s =
     (case row_of k_id kid (memories s) of
        None \<Rightarrow> (Inl (memory_missing kid), s)
      | Some k \<Rightarrow>
          if k_deleted_at k \<noteq> None \<and> \<not> include_deleted then (Inl (memory_missing kid), s) else (Inr k, s))"

definition is_active :: "memory \<Rightarrow> int \<Rightarrow> bool" where
  "is_active k now \<longleftrightarrow>
     k_deleted_at k = None \<and> (case k_expires_at k of None \<Rightarrow> True | Some t \<Rightarrow> stamp_instant t > now)"

definition visible_to_agent :: "memory \<Rightarrow> string option \<Rightarrow> bool" where
  "visible_to_agent k agent =
     (case agent of
        None \<Rightarrow> True
      | Some a \<Rightarrow>
          if k_visibility k = VIS_SHARED then True
          else if k_visibility k = VIS_RESTRICTED then a \<in> set (k_allowed_agents k)
          else k_owner_scope k = ''agent:'' @ a)"

definition search_memories ::
  "string \<Rightarrow> string option \<Rightarrow> string option \<Rightarrow> int \<Rightarrow> (('w, 'a) knowledge_db_scheme, memory list) op" where
  "search_memories query agent category now =
     bindE (liftE (case category of None \<Rightarrow> Inr None | Some c \<Rightarrow> andThen (category_of c) (\<lambda>v. Inr (Some v)))) (\<lambda>wanted.
       let q = casefold (strip query) in
       readE (\<lambda>s. filter (\<lambda>k. is_active k now \<and> visible_to_agent k agent \<and>
                            (wanted = None \<or> wanted = Some (k_category k)) \<and>
                            (q = [] \<or> is_infix q (casefold (k_content k))))
                   (sort_key (\<lambda>k. (k_created_at k, k_id k)) (memories s))))"

record memory_update =
  mu_content :: "string option"
  mu_provenance :: "dict option"
  mu_confidence :: "rat option"
  mu_verification :: "string option"
  mu_sensitivity :: "string option"
  mu_visibility :: "string option"
  mu_allowed_agents :: "string list option"
  mu_pinned :: "bool option"
  mu_temporary :: "bool option"
  mu_expires_at :: "stamp option"

definition or_else :: "'a option \<Rightarrow> 'a \<Rightarrow> 'a" where
  "or_else new old = (case new of None \<Rightarrow> old | Some v \<Rightarrow> v)"

definition stripped_or :: "string option \<Rightarrow> string \<Rightarrow> string" where
  "stripped_or new old = (case new of None \<Rightarrow> old | Some c \<Rightarrow> strip c)"

definition agents_or :: "string list option \<Rightarrow> string list \<Rightarrow> string list" where
  "agents_or new old = (case new of None \<Rightarrow> old | Some xs \<Rightarrow> sort (remdups xs))"

definition enum_or :: "(string \<Rightarrow> exn + 'e) \<Rightarrow> string option \<Rightarrow> 'e \<Rightarrow> exn + 'e" where
  "enum_or parse new old = (case new of None \<Rightarrow> Inr old | Some v \<Rightarrow> parse v)"

definition next_verification :: "memory_update \<Rightarrow> string \<Rightarrow> memory \<Rightarrow> exn + verification_state" where
  "next_verification u next_content k =
     (case mu_verification u of
        Some v \<Rightarrow> verification_of v
      | None \<Rightarrow>
          Inr (if mu_content u \<noteq> None \<and> next_content \<noteq> k_content k \<and> k_verification k = CONFIRMED
               then NEEDS_REVIEW else k_verification k))"

text \<open>The row an update makes, or the exception it raises; the row of the table is changed at the commit only.\<close>

definition updated_memory :: "memory_update \<Rightarrow> int \<Rightarrow> memory \<Rightarrow> exn + memory" where
  "updated_memory u now k =
     (let content = stripped_or (mu_content u) (k_content k);
          provenance = or_else (mu_provenance u) (k_provenance k);
          confidence = or_else (mu_confidence u) (k_confidence k);
          temporary = or_else (mu_temporary u) (k_temporary k);
          expiry = override (mu_expires_at u) (k_expires_at k)
      in andThen (enum_or sensitivity_of (mu_sensitivity u) (k_sensitivity k)) (\<lambda>sensitivity.
         andThen (next_verification u content k) (\<lambda>verification.
         case validate_values content provenance confidence verification sensitivity temporary expiry of
           Some e \<Rightarrow> Inl e
         | None \<Rightarrow>
             andThen (enum_or visibility_of (mu_visibility u) (k_visibility k)) (\<lambda>visibility.
               Inr (k\<lparr>k_content := content, k_provenance := provenance, k_confidence := confidence,
                      k_verification := verification, k_sensitivity := sensitivity, k_visibility := visibility,
                      k_allowed_agents := agents_or (mu_allowed_agents u) (k_allowed_agents k),
                      k_pinned := or_else (mu_pinned u) (k_pinned k), k_temporary := temporary,
                      k_expires_at := expiry, k_revision := k_revision k + 1,
                      k_verified_at := confirmed_at verification now\<rparr>)))))"

text \<open>\<open>db.get\<close>, the checks of the caller, a changed row, and the commit.\<close>

definition change_memory ::
  "string \<Rightarrow> (memory \<Rightarrow> exn + memory) \<Rightarrow> (('w, 'a) knowledge_db_scheme, memory) op" where
  "change_memory kid f s =
     (case row_of k_id kid (memories s) of
        None \<Rightarrow> (Inl (memory_missing kid), s)
      | Some k \<Rightarrow>
          if k_deleted_at k \<noteq> None then (Inl (memory_missing kid), s)
          else case f k of
                 Inl e \<Rightarrow> (Inl e, s)
               | Inr k' \<Rightarrow> (Inr k', s\<lparr>memories := save_row k_id k' (memories s)\<rparr>))"

definition update_memory ::
  "string \<Rightarrow> memory_update \<Rightarrow> int \<Rightarrow> (('w, 'a) knowledge_db_scheme, memory) op" where
  "update_memory kid u now =
     change_memory kid (\<lambda>k.
       unless (k_locked k) (ValueError ''locked memory cannot be changed'') (updated_memory u now k))"

definition set_lock :: "string \<Rightarrow> bool \<Rightarrow> (('w, 'a) knowledge_db_scheme, memory) op" where
  "set_lock kid locked = change_memory kid (\<lambda>k. Inr (k\<lparr>k_locked := locked\<rparr>))"

definition set_verification ::
  "string \<Rightarrow> string \<Rightarrow> int \<Rightarrow> (('w, 'a) knowledge_db_scheme, memory) op" where
  "set_verification kid state now =
     bindE (liftE (verification_of state)) (\<lambda>v.
       change_memory kid (\<lambda>k.
         unless (k_locked k) (ValueError ''locked memory cannot be changed'')
         (unless (is_inference (k_provenance k) \<and> v = CONFIRMED)
            (ValueError ''inference requires explicit provenance change before confirmation'')
            (Inr (k\<lparr>k_verification := v, k_verified_at := confirmed_at v now, k_revision := k_revision k + 1\<rparr>)))))"

definition delete_memory :: "string \<Rightarrow> int \<Rightarrow> (('w, 'a) knowledge_db_scheme, memory) op" where
  "delete_memory kid now =
     change_memory kid (\<lambda>k.
       unless (k_locked k) (ValueError ''locked memory cannot be deleted'')
         (Inr (k\<lparr>k_deleted_at := Some (Aware now)\<rparr>)))"

fun category_value :: "memory_category \<Rightarrow> string" where
  "category_value CONFIRMED_FACT = ''confirmed_fact''"
| "category_value PREFERENCE = ''preference''"
| "category_value PROCEDURE = ''procedure''"
| "category_value WORKING_MEMORY = ''working_memory''"
| "category_value AGENT_MEMORY = ''agent_memory''"

fun sensitivity_value :: "memory_sensitivity \<Rightarrow> string" where
  "sensitivity_value SENS_NORMAL = ''normal''"
| "sensitivity_value SENS_SENSITIVE = ''sensitive''"
| "sensitivity_value SENS_CONSEQUENTIAL = ''consequential''"
| "sensitivity_value SENS_SECRET = ''secret''"

fun visibility_value :: "memory_visibility \<Rightarrow> string" where
  "visibility_value VIS_PRIVATE = ''private''"
| "visibility_value VIS_SHARED = ''shared''"
| "visibility_value VIS_RESTRICTED = ''restricted''"

definition record_contradiction ::
  "string \<Rightarrow> int \<Rightarrow> int \<Rightarrow> string \<Rightarrow> string \<Rightarrow> dict \<Rightarrow> rat \<Rightarrow> (('w, 'a) knowledge_db_scheme, memory) op" where
  "record_contradiction new_id created now kid content provenance confidence =
     bindE (get_memory kid False) (\<lambda>k.
       create_memory new_id created now
         \<lparr>nk_category = category_value (k_category k), nk_content = content, nk_owner_scope = k_owner_scope k,
          nk_provenance = provenance, nk_confidence = confidence, nk_verification = Some ''needs_review'',
          nk_sensitivity = sensitivity_value (k_sensitivity k), nk_visibility = visibility_value (k_visibility k),
          nk_allowed_agents = Some (k_allowed_agents k), nk_pinned = False, nk_locked = False,
          nk_temporary = False, nk_expires_at = None, nk_contradicts = Some (k_id k)\<rparr>)"

definition list_contradictions :: "string \<Rightarrow> (('w, 'a) knowledge_db_scheme, memory list) op" where
  "list_contradictions kid =
     bindE (get_memory kid True) (\<lambda>_. readE (\<lambda>s.
       sort_key (\<lambda>k. (k_created_at k, k_id k))
         (filter (\<lambda>k. k_contradicts k = Some kid \<and> k_deleted_at k = None) (memories s))))"

end
