(* ===== verification/Web_Sessions.thy ===== *)
theory Web_Sessions
  imports Host_Link Knowledge
begin

text \<open>
  The administrator's sessions: \<open>models/admin_session.py\<close>, \<open>auth/sessions.py\<close>, \<open>auth/dependencies.py\<close>,
  \<open>auth/rate_limit.py\<close>, and the checks of \<open>web.py\<close> every route shares. SHA-256, HMAC, the password hash and the
  Redis counters are arguments; tokens and clock readings too.
\<close>

section \<open>Rows and requests\<close>

record admin_session =
  as_id :: int
  as_digest :: string
  as_csrf :: string
  as_created :: int
  as_expires :: stamp
  as_revoked :: "stamp option"

record 'w web_db = "'w knowledge_db" +
  admin_sessions :: "admin_session list"

text \<open>Header names are lower case; \<open>headers.get\<close> is a lookup.\<close>

record http_request =
  hr_cookie :: "string option"
  hr_headers :: "(string \<times> string) list"
  hr_client :: "string option"
  hr_scheme :: string

record web_settings =
  ws_production :: bool
  ws_secret :: "string option"
  ws_lifetime_hours :: int
  ws_password_hash :: "string option"
  ws_root_path :: string

text \<open>A Redis command answers, or raises a \<open>RedisError\<close> (\<open>None\<close>).\<close>

record 'w web_env =
  we_settings :: web_settings
  we_sha :: "string \<Rightarrow> string"
  we_hmac :: "string \<Rightarrow> string \<Rightarrow> string"
  we_verify :: "string \<Rightarrow> string \<Rightarrow> bool"
  we_redis_get :: "string \<Rightarrow> 'w \<Rightarrow> int option option \<times> 'w"
  we_redis_incr :: "string \<Rightarrow> 'w \<Rightarrow> int option \<times> 'w"
  we_redis_expire :: "string \<Rightarrow> int \<Rightarrow> 'w \<Rightarrow> unit option \<times> 'w"
  we_redis_delete :: "string \<Rightarrow> 'w \<Rightarrow> unit option \<times> 'w"

definition header :: "string \<Rightarrow> http_request \<Rightarrow> string option" where
  "header name req = map_of (hr_headers req) name"

definition header_or :: "string \<Rightarrow> string \<Rightarrow> http_request \<Rightarrow> string" where
  "header_or name other req = (case header name req of None \<Rightarrow> other | Some v \<Rightarrow> v)"

section \<open>Sessions\<close>

definition hours :: "int \<Rightarrow> int" where
  "hours n = seconds (3600 * n)"

definition create_session ::
  "'w web_env \<Rightarrow> string \<Rightarrow> string \<Rightarrow> int \<Rightarrow> int \<Rightarrow> (('w, 'a) web_db_scheme, admin_session) op" where
  "create_session env token csrf now new_id s =
     (let r = \<lparr>as_id = new_id, as_digest = we_sha env token, as_csrf = csrf, as_created = now,
               as_expires = Aware (now + hours (ws_lifetime_hours (we_settings env))), as_revoked = None\<rparr>
      in if as_digest r \<in> as_digest ` set (admin_sessions s) then (Inl IntegrityError, s)
         else case insert_row as_id r (admin_sessions s) of
                Inl e \<Rightarrow> (Inl e, s) | Inr rows \<Rightarrow> (Inr r, s\<lparr>admin_sessions := rows\<rparr>))"

definition resolve_session :: "'w web_env \<Rightarrow> string \<Rightarrow> int \<Rightarrow> ('w, 'a) web_db_scheme \<Rightarrow> admin_session option" where
  "resolve_session env token now s =
     (if token = [] then None
      else case row_of as_digest (we_sha env token) (admin_sessions s) of
             None \<Rightarrow> None
           | Some r \<Rightarrow>
               if as_revoked r \<noteq> None \<or> stamp_instant (as_expires r) \<le> now then None else Some r)"

definition revoke_session :: "'w web_env \<Rightarrow> string \<Rightarrow> int \<Rightarrow> (('w, 'a) web_db_scheme, bool) op" where
  "revoke_session env token now s =
     (case row_of as_digest (we_sha env token) (admin_sessions s) of
        None \<Rightarrow> (Inr False, s)
      | Some r \<Rightarrow>
          if as_revoked r \<noteq> None then (Inr False, s)
          else (Inr True, s\<lparr>admin_sessions := save_row as_digest (r\<lparr>as_revoked := Some (Aware now)\<rparr>) (admin_sessions s)\<rparr>))"

section \<open>The signed cookie\<close>

definition encode_session_cookie :: "'w web_env \<Rightarrow> string \<Rightarrow> string \<Rightarrow> string" where
  "encode_session_cookie env token secret = token @ ''.'' @ we_hmac env secret token"

text \<open>\<open>value.rsplit(c, 1)\<close>: what is before and after the last \<open>c\<close>, if there is one.\<close>

definition split_last :: "char \<Rightarrow> string \<Rightarrow> (string \<times> string) option" where
  "split_last c v =
     (if c \<in> set v
      then Some (rev (tl (dropWhile (\<lambda>x. x \<noteq> c) (rev v))), rev (takeWhile (\<lambda>x. x \<noteq> c) (rev v)))
      else None)"

definition decode_session_cookie :: "'w web_env \<Rightarrow> string \<Rightarrow> string \<Rightarrow> exn + string option" where
  "decode_session_cookie env v secret =
     (case split_last (CHR ''.'') v of
        None \<Rightarrow> Inr None
      | Some (token, signature) \<Rightarrow>
          andThen (compare_digest signature (we_hmac env secret token)) (\<lambda>same.
            Inr (if same then Some token else None)))"

definition resolve_request_session ::
  "'w web_env \<Rightarrow> http_request \<Rightarrow> int \<Rightarrow> (('w, 'a) web_db_scheme, (string \<times> admin_session) option) op" where
  "resolve_request_session env req now =
     (case (hr_cookie req, ws_secret (we_settings env)) of
        (Some cookie, Some secret) \<Rightarrow>
          if cookie = [] \<or> secret = [] then returnE None
          else bindE (liftE (decode_session_cookie env cookie secret)) (\<lambda>token.
            case token of
              None \<Rightarrow> returnE None
            | Some t \<Rightarrow> readE (\<lambda>s. map_option (\<lambda>r. (t, r)) (resolve_session env t now s)))
      | _ \<Rightarrow> returnE None)"

section \<open>The login limit\<close>

definition max_attempts :: int where "max_attempts = 5"

definition attempt_window :: int where "attempt_window = 900"

definition limiter_key :: "'w web_env \<Rightarrow> string \<Rightarrow> string" where
  "limiter_key env identity = ''ai-hq:auth:failed:'' @ we_sha env identity"

text \<open>A step on the world that may raise a \<open>RedisError\<close>.\<close>

definition redis_step :: "('w \<Rightarrow> 'x option \<times> 'w) \<Rightarrow> (('w, 'a) web_db_scheme, 'x option) op" where
  "redis_step f s = (case f (world s) of (r, w) \<Rightarrow> (Inr r, s\<lparr>world := w\<rparr>))"

definition is_blocked :: "'w web_env \<Rightarrow> string \<Rightarrow> (('w, 'a) web_db_scheme, bool option) op" where
  "is_blocked env identity =
     bindE (redis_step (we_redis_get env (limiter_key env identity))) (\<lambda>r.
       returnE (map_option (\<lambda>v. (case v of None \<Rightarrow> 0 | Some n \<Rightarrow> n) \<ge> max_attempts) r))"

definition record_failure :: "'w web_env \<Rightarrow> string \<Rightarrow> (('w, 'a) web_db_scheme, unit option) op" where
  "record_failure env identity =
     (let key = limiter_key env identity in
      bindE (redis_step (we_redis_incr env key)) (\<lambda>r.
        case r of
          None \<Rightarrow> returnE None
        | Some n \<Rightarrow> if n = 1 then redis_step (we_redis_expire env key attempt_window) else returnE (Some ())))"

definition clear_failures :: "'w web_env \<Rightarrow> string \<Rightarrow> (('w, 'a) web_db_scheme, unit option) op" where
  "clear_failures env identity = redis_step (we_redis_delete env (limiter_key env identity))"

section \<open>Checks of the web routes\<close>

definition external_path :: "web_settings \<Rightarrow> string \<Rightarrow> string" where
  "external_path ws path =
     (let root = rev (dropWhile (\<lambda>c. c = CHR ''/'') (rev (ws_root_path ws))) in
      if path = ''/'' then root @ ''/'' else root @ ''/'' @ dropWhile (\<lambda>c. c = CHR ''/'') path)"

definition client_identity :: "http_request \<Rightarrow> string" where
  "client_identity req =
     (let direct = (case hr_client req of None \<Rightarrow> ''unknown'' | Some h \<Rightarrow> h) in
      case header ''x-forwarded-for'' req of
        None \<Rightarrow> direct
      | Some f \<Rightarrow> if f = [] then direct else strip (takeWhile (\<lambda>c. c \<noteq> CHR '','') f))"

definition strip_slashes :: "string \<Rightarrow> string" where
  "strip_slashes t = rev (dropWhile (\<lambda>c. c = CHR ''/'') (rev t))"

definition expected_origin :: "http_request \<Rightarrow> string" where
  "expected_origin req =
     strip_slashes (header_or ''x-forwarded-proto'' (hr_scheme req) req @ ''://'' @
                    header_or ''x-forwarded-host'' (header_or ''host'' [] req) req)"

definition origin_is_allowed :: "web_settings \<Rightarrow> http_request \<Rightarrow> exn + bool" where
  "origin_is_allowed ws req =
     (if \<not> ws_production ws then Inr True
      else case header ''origin'' req of
             None \<Rightarrow> Inr False
           | Some o' \<Rightarrow> if o' = [] then Inr False else compare_digest (strip_slashes o') (expected_origin req))"

end
