(* ===== verification/Recovery_Status.thy ===== *)
theory Recovery_Status
  imports Recovery_Observer Web_Sessions
begin

text \<open>
  The latest recovery status, the observe-only drill, and the interval gate around the observation cycle:
  \<open>recovery/status.py\<close>, \<open>recovery/drill.py\<close> and \<open>RecoveryWorkerCoordinator\<close> of \<open>recovery/bootstrap.py\<close>.
\<close>

section \<open>Status rows\<close>

datatype status_result = RS_UNKNOWN | RS_HEALTHY | RS_UNHEALTHY | RS_ERROR

record recovery_status =
  rs_target :: string
  rs_last_probe :: "stamp option"
  rs_result :: status_result
  rs_reachable :: "bool option"
  rs_status_code :: "int option"
  rs_ready :: "bool option"
  rs_failures :: int
  rs_incident :: "string option"
  rs_incident_state :: "incident_state option"

text \<open>The table, and \<open>_last_run\<close> of the coordinator, which lives as long as the worker process.\<close>

record 'w site_db = "'w web_db" +
  recovery_statuses :: "recovery_status list"
  last_cycle :: "int option"

definition utc_stamp :: "stamp \<Rightarrow> stamp" where
  "utc_stamp t = Aware (stamp_instant t)"

definition bounded_bool :: "json \<Rightarrow> bool option" where
  "bounded_bool v = (case v of JBool b \<Rightarrow> Some b | _ \<Rightarrow> None)"

definition bounded_status_code :: "json \<Rightarrow> int option" where
  "bounded_status_code v = (case v of JInt n \<Rightarrow> if 100 \<le> n \<and> n \<le> 599 then Some n else None | _ \<Rightarrow> None)"

definition active_for :: "string \<Rightarrow> ('w, 'a) site_db_scheme \<Rightarrow> incident list" where
  "active_for target s = filter (\<lambda>i. ri_target i = target \<and> ri_active_key i \<noteq> None) (incidents s)"

text \<open>\<open>_active_incident\<close>: the one observed last, the larger identifier on a tie.\<close>

definition latest_active :: "string \<Rightarrow> ('w, 'a) site_db_scheme \<Rightarrow> incident option" where
  "latest_active target s =
     (case active_for target s of
        [] \<Rightarrow> None
      | rows \<Rightarrow> Some (last (sort_key (\<lambda>i. (stamp_instant (ri_last_observed_at i), ri_id i)) rows)))"

definition incident_projection :: "incident option \<Rightarrow> string option \<times> incident_state option \<times> int" where
  "incident_projection inc = (case inc of None \<Rightarrow> (None, None, 0) | Some i \<Rightarrow> (Some (ri_id i), Some (ri_state i), ri_failures i))"

definition put_status :: "recovery_status \<Rightarrow> ('w, 'a) site_db_scheme \<Rightarrow> ('w, 'a) site_db_scheme" where
  "put_status r s =
     s\<lparr>recovery_statuses :=
         (if rs_target r \<in> rs_target ` set (recovery_statuses s) then save_row rs_target r (recovery_statuses s)
          else recovery_statuses s @ [r])\<rparr>"

definition status_snapshot :: "string \<Rightarrow> ('w, 'a) site_db_scheme \<Rightarrow> recovery_status" where
  "status_snapshot target s =
     (case row_of rs_target target (recovery_statuses s) of
        None \<Rightarrow> \<lparr>rs_target = target, rs_last_probe = None, rs_result = RS_UNKNOWN, rs_reachable = None,
                 rs_status_code = None, rs_ready = None, rs_failures = 0, rs_incident = None, rs_incident_state = None\<rparr>
      | Some r \<Rightarrow> r\<lparr>rs_last_probe := map_option utc_stamp (rs_last_probe r)\<rparr>)"

definition cycle_status :: "string \<Rightarrow> stamp \<Rightarrow> dict \<Rightarrow> ('w, 'a) site_db_scheme \<Rightarrow> recovery_status" where
  "cycle_status target observed summary s =
     (let inc = latest_active target s; ready = bounded_bool (dict_get summary ''ready'') in
      case incident_projection inc of (iid, st, failures) \<Rightarrow>
        \<lparr>rs_target = target, rs_last_probe = Some (utc_stamp observed),
         rs_result = (if ready = Some False \<or> inc \<noteq> None then RS_UNHEALTHY
                      else if ready = Some True then RS_HEALTHY else RS_UNKNOWN),
         rs_reachable = bounded_bool (dict_get summary ''reachable''),
         rs_status_code = bounded_status_code (dict_get summary ''status_code''),
         rs_ready = ready, rs_failures = failures, rs_incident = iid, rs_incident_state = st\<rparr>)"

definition record_successful_cycle :: "string \<Rightarrow> stamp \<Rightarrow> dict \<Rightarrow> (('w, 'a) site_db_scheme, recovery_status) op" where
  "record_successful_cycle target observed summary s =
     (let t = put_status (cycle_status target observed summary s) s in (Inr (status_snapshot target t), t))"

definition record_cycle_error :: "string \<Rightarrow> stamp \<Rightarrow> (('w, 'a) site_db_scheme, recovery_status) op" where
  "record_cycle_error target observed s =
     (case incident_projection (latest_active target s) of (iid, st, failures) \<Rightarrow>
        let t = put_status \<lparr>rs_target = target, rs_last_probe = Some (utc_stamp observed), rs_result = RS_ERROR,
                            rs_reachable = None, rs_status_code = None, rs_ready = None, rs_failures = failures,
                            rs_incident = iid, rs_incident_state = st\<rparr> s
        in (Inr (status_snapshot target t), t))"

section \<open>The interval gate\<close>

record worker_settings =
  wr_recovery_enabled :: bool
  wr_observe_only :: bool
  wr_mode :: operating_mode
  wr_threshold :: int
  wr_observation_seconds :: int

record cycle_tick =
  ct_clock :: int
  ct_observed :: stamp
  ct_input :: cycle_input

text \<open>What the status recorder raises is logged and dropped; what the cycle raises is recorded and raised again.\<close>

definition run_if_due :: "observer \<Rightarrow> worker_settings \<Rightarrow> cycle_tick \<Rightarrow> (('w, 'a) site_db_scheme, bool) op" where
  "run_if_due ob ws tick s =
     (if \<not> wr_recovery_enabled ws \<or> wr_mode ws = MODE_FREEZE then (Inr False, s)
      else if (case last_cycle s of None \<Rightarrow> False | Some t \<Rightarrow> ct_clock tick - t < seconds (wr_observation_seconds ws))
      then (Inr False, s)
      else case cycle_run_once ob (ct_input tick) (wr_observe_only ws) (s\<lparr>last_cycle := Some (ct_clock tick)\<rparr>) of
             (Inl e, t) \<Rightarrow> (Inl e, snd (record_cycle_error ''dripvid'' (ct_observed tick) t))
           | (Inr fl, t) \<Rightarrow>
               (Inr (cf_worked fl),
                snd (record_successful_cycle ''dripvid'' (ct_observed tick) (record_summary (ci_readiness (ct_input tick)) fl) t)))"

section \<open>The drill\<close>

datatype drill_reply = DrillFailed string | DrillOk string int

definition drill_incident :: "string \<Rightarrow> int \<Rightarrow> int \<Rightarrow> incident" where
  "drill_incident new_id now threshold =
     \<lparr>ri_id = new_id, ri_active_key = Some ''dripvid:app'', ri_target = ''dripvid'', ri_component = ''app'',
      ri_state = SUSPECT, ri_failures = threshold, ri_first_failure_at = Aware now, ri_last_failure_at = Aware now,
      ri_last_observed_at = Aware now, ri_diagnostics = [(''drill'', JBool True)], ri_verification = [], ri_mission = None,
      ri_last_attempt_at = None, ri_escalation_reason = None, ri_resolved_at = None\<rparr>"

definition unhealthy_summary :: dict where
  "unhealthy_summary =
     [(''reachable'', JBool True), (''status_code'', JInt 503), (''ready'', JBool False), (''incident_detected'', JBool True),
      (''incident_resolved'', JBool False), (''worked'', JBool True)]"

definition fresh_healthy_seconds :: int where "fresh_healthy_seconds = 5"

text \<open>\<open>_fresh_healthy_snapshot\<close>: the code of the refusal, if there is one.\<close>

definition unfresh :: "int \<Rightarrow> recovery_status \<Rightarrow> string option" where
  "unfresh now r =
     (if rs_result r \<noteq> RS_HEALTHY \<or> rs_ready r \<noteq> Some True \<or> rs_incident r \<noteq> None \<or> rs_incident_state r \<noteq> None
      then Some ''healthy_status_required''
      else case rs_last_probe r of
             None \<Rightarrow> Some ''fresh_healthy_probe_required''
           | Some t \<Rightarrow>
               let age = now - stamp_instant (utc_stamp t) in
               if age < 0 \<or> age > seconds fresh_healthy_seconds then Some ''fresh_healthy_probe_required'' else None)"

definition insert_drill_incident :: "string \<Rightarrow> int \<Rightarrow> int \<Rightarrow> (('w, 'a) site_db_scheme, string + incident) op" where
  "insert_drill_incident new_id now threshold s =
     (if active_for ''dripvid'' s \<noteq> [] then (Inr (Inl ''active_incident_present''), s)
      else let i = drill_incident new_id now threshold in
        if ri_active_key i \<in> ri_active_key ` set (incidents s) then (Inr (Inl ''drill_conflict''), s)
        else case insert_row ri_id i (incidents s) of
               Inl e \<Rightarrow> (Inr (Inl ''drill_conflict''), s)
             | Inr rows \<Rightarrow> (Inr (Inr i), s\<lparr>incidents := rows\<rparr>))"

definition no_mutation_artifacts :: "string \<Rightarrow> ('w, 'a) site_db_scheme \<Rightarrow> bool" where
  "no_mutation_artifacts iid s \<longleftrightarrow>
     (case row_of ri_id iid (incidents s) of
        None \<Rightarrow> False
      | Some i \<Rightarrow> ri_mission i = None \<and> rowcount (\<lambda>a. at_incident a = iid) (attempts s) = 0)"

definition drill_verified :: "worker_settings \<Rightarrow> string \<Rightarrow> recovery_status \<Rightarrow> ('w, 'a) site_db_scheme \<Rightarrow> bool" where
  "drill_verified ws iid snap s \<longleftrightarrow>
     rs_result snap = RS_UNHEALTHY \<and> rs_ready snap = Some False \<and> rs_incident snap = Some iid \<and>
     rs_incident_state snap = Some SUSPECT \<and> rs_failures snap = wr_threshold ws \<and> no_mutation_artifacts iid s"

definition drill_run :: "worker_settings \<Rightarrow> int \<Rightarrow> string \<Rightarrow> (('w, 'a) site_db_scheme, drill_reply) op" where
  "drill_run ws now new_id =
     (if \<not> wr_recovery_enabled ws then returnE (DrillFailed ''recovery_disabled'')
      else if \<not> wr_observe_only ws then returnE (DrillFailed ''observe_only_required'')
      else if wr_mode ws = MODE_FREEZE then returnE (DrillFailed ''freeze_mode'')
      else bindE (readE (active_for ''dripvid'')) (\<lambda>active.
        if active \<noteq> [] then returnE (DrillFailed ''active_incident_present'')
        else bindE (readE (status_snapshot ''dripvid'')) (\<lambda>snap.
          case unfresh now snap of
            Some code \<Rightarrow> returnE (DrillFailed code)
          | None \<Rightarrow>
              bindE (insert_drill_incident new_id now (wr_threshold ws)) (\<lambda>inserted.
                case inserted of
                  Inl code \<Rightarrow> returnE (DrillFailed code)
                | Inr i \<Rightarrow>
                    bindE (record_successful_cycle ''dripvid'' (Aware now) unhealthy_summary) (\<lambda>after.
                    readE (\<lambda>s. if drill_verified ws (ri_id i) after s then DrillOk (ri_id i) (wr_threshold ws)
                               else DrillFailed ''status_verification_failed''))))))"

end
