(* ===== verification/HQ_State.thy ===== *)
theory HQ_State
  imports Recovery_Status
begin

text \<open>
  The view of the operations floor: \<open>hq/state.py\<close> and \<open>hq/api.py\<close>. A snapshot of agents, deliveries, approvals,
  memories and the recovery status, with what its rooms can show.
\<close>

section \<open>The snapshot\<close>

datatype room_state = OFFLINE | ROOM_IDLE | ROOM_WORKING | ROOM_WAITING | ROOM_FAILED

record hq_room =
  rm_key :: string
  rm_label :: string
  rm_agent :: "(string \<times> string) option"
  rm_state :: room_state
  rm_title :: "string option"
  rm_count :: "nat option"

record recovery_view =
  rv_enabled :: bool
  rv_observe_only :: bool
  rv_status :: recovery_status

record hq_view =
  hq_rooms :: "hq_room list"
  hq_recovery :: recovery_view

definition agent_rooms :: "(string \<times> string \<times> string) list" where
  "agent_rooms =
     [(''commander'', ''Commander'', ''Command Center''), (''communications'', ''Communications'', ''Comms''),
      (''calendar'', ''Calendar'', ''Planning''), (''sysadmin'', ''SysAdmin'', ''Infrastructure'')]"

fun state_label :: "agent_status \<Rightarrow> room_state" where
  "state_label AG_IDLE = ROOM_IDLE"
| "state_label AG_WORKING = ROOM_WORKING"
| "state_label AG_WAITING_APPROVAL = ROOM_WAITING"
| "state_label AG_FAILED = ROOM_FAILED"
| "state_label AG_COMPLETED = ROOM_IDLE"

definition room_mission_title :: "string option \<Rightarrow> ('w, 'a) site_db_scheme \<Rightarrow> string option" where
  "room_mission_title current s =
     (case current of
        None \<Rightarrow> None
      | Some mid \<Rightarrow> map_option m_title (row_of m_id mid (missions s)))"

definition agent_room :: "('w, 'a) site_db_scheme \<Rightarrow> string \<times> string \<times> string \<Rightarrow> hq_room" where
  "agent_room s entry =
     (case entry of (key, display_name, label) \<Rightarrow>
        case row_of ag_key key (agents s) of
          None \<Rightarrow> \<lparr>rm_key = key, rm_label = label, rm_agent = Some (key, display_name), rm_state = OFFLINE,
                   rm_title = None, rm_count = None\<rparr>
        | Some a \<Rightarrow> \<lparr>rm_key = key, rm_label = label, rm_agent = Some (ag_key a, ag_display_name a),
                     rm_state = state_label (ag_status a), rm_title = room_mission_title (ag_current_mission a) s,
                     rm_count = None\<rparr>)"

text \<open>
  The delivery in work that was updated last, the larger identifier on a tie. \<open>updated_at\<close> is set by the database
  server, and given as a function of the delivery's identifier.
\<close>

definition active_delivery :: "(string \<Rightarrow> int) \<Rightarrow> ('w, 'a) site_db_scheme \<Rightarrow> delivery option" where
  "active_delivery updated_at s =
     (case filter (\<lambda>d. d_stage d \<in> {STAGE_DEVELOPER, STAGE_QA, STAGE_WAITING_APPROVAL}) (deliveries s) of
        [] \<Rightarrow> None
      | rows \<Rightarrow> Some (last (sort_key (\<lambda>d. (updated_at (d_id d), d_id d)) rows)))"

definition delivery_room ::
  "delivery option \<Rightarrow> delivery_stage \<Rightarrow> string \<Rightarrow> string \<Rightarrow> ('w, 'a) site_db_scheme \<Rightarrow> hq_room" where
  "delivery_room active stage key label s =
     (let working = (case active of None \<Rightarrow> False | Some d \<Rightarrow> d_stage d = stage) in
      \<lparr>rm_key = key, rm_label = label, rm_agent = Some (key, label), rm_state = (if working then ROOM_WORKING else ROOM_IDLE),
       rm_title = (if working then room_mission_title (map_option d_mission active) s else None), rm_count = None\<rparr>)"

definition pending_approvals :: "('w, 'a) site_db_scheme \<Rightarrow> nat" where
  "pending_approvals s = rowcount (\<lambda>r. ar_state r = APPROVAL_PENDING) (approval_requests s)"

definition knowledge_count :: "('w, 'a) site_db_scheme \<Rightarrow> nat" where
  "knowledge_count s = rowcount (\<lambda>m. k_deleted_at m = None) (memories s)"

definition counting_room :: "string \<Rightarrow> string \<Rightarrow> room_state \<Rightarrow> nat \<Rightarrow> hq_room" where
  "counting_room key label st n =
     \<lparr>rm_key = key, rm_label = label, rm_agent = None, rm_state = st, rm_title = None, rm_count = Some n\<rparr>"

definition hq_snapshot :: "(string \<Rightarrow> int) \<Rightarrow> bool \<Rightarrow> bool \<Rightarrow> ('w, 'a) site_db_scheme \<Rightarrow> hq_view" where
  "hq_snapshot updated_at enabled observe_only s =
     (let active = active_delivery updated_at s; n = pending_approvals s in
      \<lparr>hq_rooms =
         map (agent_room s) agent_rooms @
         [delivery_room active STAGE_DEVELOPER ''developer'' ''Developer'' s,
          delivery_room active STAGE_QA ''qa'' ''QA'' s,
          counting_room ''approvals'' ''Approval Station'' (if n \<noteq> 0 then ROOM_WAITING else ROOM_IDLE) n,
          counting_room ''knowledge'' ''Knowledge Core'' ROOM_IDLE (knowledge_count s)],
       hq_recovery =
         \<lparr>rv_enabled = enabled, rv_observe_only = observe_only, rv_status = status_snapshot ''dripvid'' s\<rparr>\<rparr>)"

text \<open>The route; \<open>None\<close> is the 401 reply.\<close>

definition hq_state_route ::
  "'w web_env \<Rightarrow> (string \<Rightarrow> int) \<Rightarrow> bool \<Rightarrow> bool \<Rightarrow> http_request \<Rightarrow> int \<Rightarrow> (('w, 'a) site_db_scheme, hq_view option) op" where
  "hq_state_route env updated_at enabled observe_only req now =
     bindE (resolve_request_session env req now) (\<lambda>resolved.
       case resolved of
         None \<Rightarrow> returnE None
       | Some _ \<Rightarrow> readE (\<lambda>s. Some (hq_snapshot updated_at enabled observe_only s)))"

section \<open>What the rooms show\<close>

lemma hq_rooms_fixed:
  "map rm_key (hq_rooms (hq_snapshot u e o' s)) =
     [''commander'', ''communications'', ''calendar'', ''sysadmin'', ''developer'', ''qa'', ''approvals'', ''knowledge'']"
  by (simp add: hq_snapshot_def agent_rooms_def agent_room_def delivery_room_def counting_room_def Let_def split: option.split)

lemma hq_state_reads_only: "snd (hq_state_route env u e o' req now s) = s"
proof -
  have "snd (resolve_request_session env req now s) = s"
    by (simp add: resolve_request_session_def bindE_def liftE_def readE_def split: option.split sum.split)
  then show ?thesis
    by (cases "resolve_request_session env req now s")
       (simp add: hq_state_route_def bindE_def readE_def split: sum.split option.split)
qed

lemma sorted_le_last: "sorted xs \<Longrightarrow> x \<in> set xs \<Longrightarrow> x \<le> last xs"
  by (cases xs rule: rev_cases) (auto simp: sorted_append)

lemma room_keys [simp]:
  "rm_key (agent_room s entry) = fst entry" "rm_key (delivery_room a st k l s) = k" "rm_key (counting_room k l rst n) = k"
  by (auto simp: agent_room_def delivery_room_def counting_room_def Let_def split: prod.split option.split)

lemma hq_room_cases:
  assumes "r \<in> set (hq_rooms (hq_snapshot u e o' s))"
  obtains entry where "entry \<in> set agent_rooms" "r = agent_room s entry" "rm_key r = fst entry"
  | "r = delivery_room (active_delivery u s) STAGE_DEVELOPER ''developer'' ''Developer'' s" "rm_key r = ''developer''"
  | "r = delivery_room (active_delivery u s) STAGE_QA ''qa'' ''QA'' s" "rm_key r = ''qa''"
  | "r = counting_room ''approvals'' ''Approval Station'' (if pending_approvals s \<noteq> 0 then ROOM_WAITING else ROOM_IDLE)
       (pending_approvals s)" "rm_key r = ''approvals''"
  | "r = counting_room ''knowledge'' ''Knowledge Core'' ROOM_IDLE (knowledge_count s)" "rm_key r = ''knowledge''"
proof -
  have "r \<in> set (map (agent_room s) agent_rooms) \<or>
    r = delivery_room (active_delivery u s) STAGE_DEVELOPER ''developer'' ''Developer'' s \<or>
    r = delivery_room (active_delivery u s) STAGE_QA ''qa'' ''QA'' s \<or>
    r = counting_room ''approvals'' ''Approval Station'' (if pending_approvals s \<noteq> 0 then ROOM_WAITING else ROOM_IDLE)
       (pending_approvals s) \<or>
    r = counting_room ''knowledge'' ''Knowledge Core'' ROOM_IDLE (knowledge_count s)"
    using assms by (simp only: hq_snapshot_def Let_def hq_view.simps set_append Un_iff list.set insert_iff empty_iff simp_thms)
  then show thesis
    by (elim disjE) (auto intro: that)
qed

lemma agent_room_names: "entry \<in> set agent_rooms \<Longrightarrow> fst entry \<notin> {''developer'', ''qa'', ''approvals'', ''knowledge''}"
  by (auto simp: agent_rooms_def)

lemma active_delivery_Some:
  assumes "active_delivery u s = Some d"
  shows "d \<in> set (deliveries s)" and "d_stage d \<in> {STAGE_DEVELOPER, STAGE_QA, STAGE_WAITING_APPROVAL}"
    and "\<And>d'. d' \<in> set (deliveries s) \<Longrightarrow> d_stage d' \<in> {STAGE_DEVELOPER, STAGE_QA, STAGE_WAITING_APPROVAL} \<Longrightarrow>
           (u (d_id d'), d_id d') \<le> (u (d_id d), d_id d)"
proof -
  let ?rows = "filter (\<lambda>d. d_stage d \<in> {STAGE_DEVELOPER, STAGE_QA, STAGE_WAITING_APPROVAL}) (deliveries s)"
  let ?k = "\<lambda>d. (u (d_id d), d_id d)"
  from assms have ne: "?rows \<noteq> []" and d: "d = last (sort_key ?k ?rows)"
    by (auto simp: active_delivery_def split: list.splits)
  have ne': "sort_key ?k ?rows \<noteq> []" using ne by (metis set_empty set_sort)
  then have "d \<in> set ?rows" using d last_in_set by fastforce
  then show "d \<in> set (deliveries s)" "d_stage d \<in> {STAGE_DEVELOPER, STAGE_QA, STAGE_WAITING_APPROVAL}" by simp_all
  have sorted: "sorted (map ?k (sort_key ?k ?rows))" by simp
  fix d' assume "d' \<in> set (deliveries s)" "d_stage d' \<in> {STAGE_DEVELOPER, STAGE_QA, STAGE_WAITING_APPROVAL}"
  then have "?k d' \<in> set (map ?k (sort_key ?k ?rows))" by simp
  from sorted_le_last[OF sorted this] have "?k d' \<le> last (map ?k (sort_key ?k ?rows))" .
  then show "?k d' \<le> ?k d" using d ne' by (simp add: last_map)
qed

text \<open>A working developer or QA room stands for the delivery in work that was updated last, so never both.\<close>

lemma hq_delivery_rooms:
  assumes "r \<in> set (hq_rooms (hq_snapshot u e o' s))" and "rm_state r = ROOM_WORKING" and "rm_key r \<in> {''developer'', ''qa''}"
  obtains d where "active_delivery u s = Some d" "d \<in> set (deliveries s)"
    "rm_key r = ''developer'' \<longleftrightarrow> d_stage d = STAGE_DEVELOPER" "rm_key r = ''qa'' \<longleftrightarrow> d_stage d = STAGE_QA"
    "rm_title r = room_mission_title (Some (d_mission d)) s"
proof (cases rule: hq_room_cases[OF assms(1)])
  case (1 entry)
  with agent_room_names assms(3) show ?thesis by fastforce
next
  case 2
  with assms(2) obtain d where "active_delivery u s = Some d" "d_stage d = STAGE_DEVELOPER"
    by (auto simp: delivery_room_def Let_def split: option.splits if_splits)
  with 2 show ?thesis by (intro that[of d]) (auto simp: delivery_room_def active_delivery_Some)
next
  case 3
  with assms(2) obtain d where "active_delivery u s = Some d" "d_stage d = STAGE_QA"
    by (auto simp: delivery_room_def Let_def split: option.splits if_splits)
  with 3 show ?thesis by (intro that[of d]) (auto simp: delivery_room_def active_delivery_Some)
qed (use assms(3) in simp_all)

lemma hq_pending:
  assumes "r \<in> set (hq_rooms (hq_snapshot u e o' s))" and "rm_key r = ''approvals''"
  shows "rm_count r = Some (pending_approvals s)" and "rm_state r = ROOM_WAITING \<longleftrightarrow> (\<exists>q \<in> set (approval_requests s). ar_state q = APPROVAL_PENDING)"
proof -
  have r: "r = counting_room ''approvals'' ''Approval Station''
      (if pending_approvals s \<noteq> 0 then ROOM_WAITING else ROOM_IDLE) (pending_approvals s)"
  proof (cases rule: hq_room_cases[OF assms(1)])
    case (1 entry)
    with agent_room_names assms(2) show ?thesis by fastforce
  qed (use assms(2) in simp_all)
  then show "rm_count r = Some (pending_approvals s)" by (simp add: counting_room_def)
  show "rm_state r = ROOM_WAITING \<longleftrightarrow> (\<exists>q \<in> set (approval_requests s). ar_state q = APPROVAL_PENDING)"
    using r by (auto simp: counting_room_def pending_approvals_def rowcount_0_iff)
qed

end
