(* ===== verification/AI_Router.thy ===== *)
theory AI_Router
  imports Recovery_Status Complex_Main
begin

text \<open>
  The choice of a language model and its budget: \<open>ai_router/registry.py\<close>, \<open>ai_router/router.py\<close>, \<open>ai_router/usage.py\<close> and
  \<open>ai_router/api.py\<close>. Costs are rational numbers: the rounding of Python's floats is left out.
\<close>

section \<open>The registry\<close>

datatype provider_kind = PROVIDER_LOCAL | PROVIDER_CLOUD

datatype capability_class =
  CLASSIFICATION | FAST_REASONING | COMPLEX_REASONING | LONG_CONTEXT_ANALYSIS | LOCAL_PRIVATE

record model_endpoint =
  mo_provider :: string
  mo_model :: string
  mo_capabilities :: "capability_class list"
  mo_priority :: int
  mo_kind :: provider_kind
  mo_enabled :: bool
  mo_payment :: bool
  mo_input_cost :: rat
  mo_output_cost :: rat

record model_registry =
  mg_endpoints :: "model_endpoint list"
  mg_availability :: "string \<times> string \<Rightarrow> bool option"

definition new_registry :: "model_endpoint list \<Rightarrow> model_registry" where
  "new_registry endpoints = \<lparr>mg_endpoints = endpoints, mg_availability = (\<lambda>_. None)\<rparr>"

definition set_availability :: "string \<Rightarrow> string \<Rightarrow> bool \<Rightarrow> model_registry \<Rightarrow> model_registry" where
  "set_availability provider model available g =
     g\<lparr>mg_availability := (mg_availability g)((provider, model) := Some available)\<rparr>"

definition is_available :: "model_registry \<Rightarrow> model_endpoint \<Rightarrow> bool" where
  "is_available g e = (case mg_availability g (mo_provider e, mo_model e) of None \<Rightarrow> True | Some b \<Rightarrow> b)"

definition candidates_for :: "model_registry \<Rightarrow> capability_class \<Rightarrow> model_endpoint list" where
  "candidates_for g capability =
     filter (\<lambda>e. mo_enabled e \<and> capability \<in> set (mo_capabilities e) \<and> is_available g e) (mg_endpoints g)"

section \<open>The router\<close>

record model_router =
  mt_registry :: model_registry
  mt_allow_paid :: bool
  mt_prefer_local :: bool
  mt_budget :: "(rat \<Rightarrow> bool \<times> string) option"

record route_decision =
  rd_endpoint :: "model_endpoint option"
  rd_reason :: string
  rd_considered :: nat

definition usage_cost :: "int \<Rightarrow> int \<Rightarrow> rat \<Rightarrow> rat \<Rightarrow> rat" where
  "usage_cost input_tokens output_tokens input_cost output_cost =
     of_int input_tokens / 1000000 * input_cost + of_int output_tokens / 1000000 * output_cost"

definition endpoint_cost :: "int \<Rightarrow> int \<Rightarrow> model_endpoint \<Rightarrow> rat" where
  "endpoint_cost i out_tokens e = usage_cost i out_tokens (mo_input_cost e) (mo_output_cost e)"

definition endpoint_key :: "bool \<Rightarrow> model_endpoint \<Rightarrow> int \<times> int \<times> string \<times> string" where
  "endpoint_key prefer_local e =
     (if prefer_local \<and> mo_kind e = PROVIDER_LOCAL then 0 else 1, mo_priority e, mo_provider e, mo_model e)"

fun first_affordable ::
  "(rat \<Rightarrow> bool \<times> string) option \<Rightarrow> (model_endpoint \<Rightarrow> rat) \<Rightarrow> string \<Rightarrow> model_endpoint list \<Rightarrow> model_endpoint option \<times> string" where
  "first_affordable check cost denial [] = (None, denial)"
| "first_affordable check cost denial (e # es) =
     (case check of
        None \<Rightarrow> (Some e, ''selected'')
      | Some f \<Rightarrow>
          (case f (cost e) of
             (allowed, reason) \<Rightarrow> if allowed then (Some e, ''selected'') else first_affordable check cost reason es))"

definition eligible_models :: "model_router \<Rightarrow> capability_class \<Rightarrow> model_endpoint list" where
  "eligible_models rt capability =
     (let candidates = candidates_for (mt_registry rt) capability;
          unpaid = (if mt_allow_paid rt then candidates else filter (\<lambda>e. \<not> mo_payment e) candidates) in
      if capability = LOCAL_PRIVATE then filter (\<lambda>e. mo_kind e = PROVIDER_LOCAL) unpaid else unpaid)"

definition route_model :: "model_router \<Rightarrow> capability_class \<Rightarrow> int \<Rightarrow> int \<Rightarrow> route_decision" where
  "route_model rt capability input_tokens output_tokens =
     (let considered = length (candidates_for (mt_registry rt) capability); candidates = eligible_models rt capability in
      if candidates = [] then \<lparr>rd_endpoint = None, rd_reason = ''no_available_model'', rd_considered = considered\<rparr>
      else case first_affordable (mt_budget rt) (endpoint_cost input_tokens output_tokens) ''no_available_model''
                  (sort_key (endpoint_key (mt_prefer_local rt)) candidates) of
        (e, reason) \<Rightarrow> \<lparr>rd_endpoint = e, rd_reason = reason, rd_considered = considered\<rparr>)"

section \<open>Usage and its budget\<close>

record usage_record =
  us_id :: string
  us_provider :: string
  us_model :: string
  us_agent :: string
  us_mission :: "string option"
  us_input :: int
  us_output :: int
  us_cost :: rat
  us_occurred :: stamp

record 'w ai_db = "'w site_db" +
  ai_usage :: "usage_record list"

record budget_policy =
  bp_daily :: "rat option"
  bp_monthly :: "rat option"

text \<open>The UTC date, as the number of days since 1 January 1970, and its year and month in the proleptic Gregorian calendar.\<close>

definition utc_day :: "stamp \<Rightarrow> int" where
  "utc_day t = stamp_instant t div (86400 * 1000000)"

definition year_month :: "int \<Rightarrow> int \<times> int" where
  "year_month day =
     (let z = day + 719468; era = z div 146097; doe = z mod 146097;
          yoe = (doe - doe div 1460 + doe div 36524 - doe div 146096) div 365;
          doy = doe - (365 * yoe + yoe div 4 - yoe div 100);
          mp = (5 * doy + 2) div 153;
          month = (if mp < 10 then mp + 3 else mp - 9) in
      (yoe + era * 400 + (if month \<le> 2 then 1 else 0), month))"

definition same_day :: "stamp \<Rightarrow> stamp \<Rightarrow> bool" where
  "same_day a b \<longleftrightarrow> utc_day a = utc_day b"

definition same_month :: "stamp \<Rightarrow> stamp \<Rightarrow> bool" where
  "same_month a b \<longleftrightarrow> year_month (utc_day a) = year_month (utc_day b)"

definition cost_where :: "(usage_record \<Rightarrow> bool) \<Rightarrow> ('w, 'a) ai_db_scheme \<Rightarrow> rat" where
  "cost_where P s = sum_list (map us_cost (filter P (ai_usage s)))"

definition daily_total :: "stamp \<Rightarrow> ('w, 'a) ai_db_scheme \<Rightarrow> rat" where
  "daily_total now = cost_where (\<lambda>u. same_day (us_occurred u) now)"

definition monthly_total :: "stamp \<Rightarrow> ('w, 'a) ai_db_scheme \<Rightarrow> rat" where
  "monthly_total now = cost_where (\<lambda>u. same_month (us_occurred u) now)"

definition exceeds :: "rat option \<Rightarrow> rat \<Rightarrow> bool" where
  "exceeds limit x \<longleftrightarrow> (case limit of None \<Rightarrow> False | Some l \<Rightarrow> x > l)"

definition can_spend :: "budget_policy \<Rightarrow> rat \<Rightarrow> stamp \<Rightarrow> ('w, 'a) ai_db_scheme \<Rightarrow> bool \<times> string" where
  "can_spend budget cost now s =
     (if cost \<le> 0 then (True, ''within_budget'')
      else if exceeds (bp_daily budget) (daily_total now s + cost) then (False, ''daily_budget_exhausted'')
      else if exceeds (bp_monthly budget) (monthly_total now s + cost) then (False, ''monthly_budget_exhausted'')
      else (True, ''within_budget''))"

definition record_usage ::
  "string \<Rightarrow> string \<Rightarrow> string \<Rightarrow> string \<Rightarrow> string option \<Rightarrow> int \<Rightarrow> int \<Rightarrow> rat \<Rightarrow> rat \<Rightarrow> stamp \<Rightarrow>
   (('w, 'a) ai_db_scheme, usage_record) op" where
  "record_usage new_id provider model agent mission i out_tokens input_cost output_cost occurred s =
     (let r = \<lparr>us_id = new_id, us_provider = provider, us_model = model, us_agent = agent, us_mission = mission,
               us_input = i, us_output = out_tokens, us_cost = usage_cost i out_tokens input_cost output_cost,
               us_occurred = occurred\<rparr> in
      case insert_row us_id r (ai_usage s) of
        Inl e \<Rightarrow> (Inl e, s)
      | Inr rows \<Rightarrow> (Inr r, s\<lparr>ai_usage := rows\<rparr>))"

record usage_summary =
  um_requests :: nat
  um_input :: int
  um_output :: int
  um_cost :: rat

definition summarize_usage :: "('w, 'a) ai_db_scheme \<Rightarrow> usage_summary" where
  "summarize_usage s =
     \<lparr>um_requests = length (ai_usage s), um_input = sum_list (map us_input (ai_usage s)),
      um_output = sum_list (map us_output (ai_usage s)), um_cost = sum_list (map us_cost (ai_usage s))\<rparr>"

section \<open>The routes\<close>

text \<open>\<open>None\<close> is the 401 reply; the status is \<open>paid_ai_enabled\<close>, \<open>prefer_local\<close>, \<open>external_execution_enabled\<close>.\<close>

definition authenticated ::
  "'w web_env \<Rightarrow> http_request \<Rightarrow> int \<Rightarrow> (('w, 'a) ai_db_scheme \<Rightarrow> 'r) \<Rightarrow> (('w, 'a) ai_db_scheme, 'r option) op" where
  "authenticated env req now f =
     bindE (resolve_request_session env req now) (\<lambda>resolved.
       case resolved of None \<Rightarrow> returnE None | Some _ \<Rightarrow> readE (\<lambda>s. Some (f s)))"

definition router_status :: "'w web_env \<Rightarrow> http_request \<Rightarrow> int \<Rightarrow> (('w, 'a) ai_db_scheme, (bool \<times> bool \<times> bool) option) op" where
  "router_status env req now = authenticated env req now (\<lambda>_. (False, True, False))"

definition usage_summary_route :: "'w web_env \<Rightarrow> http_request \<Rightarrow> int \<Rightarrow> (('w, 'a) ai_db_scheme, usage_summary option) op" where
  "usage_summary_route env req now = authenticated env req now summarize_usage"

section \<open>What the router chooses\<close>

lemma first_affordable_Some:
  assumes "first_affordable check cost d es = (Some e, reason)"
  obtains xs ys where "es = xs @ e # ys" "reason = ''selected''"
    "\<forall>f. check = Some f \<longrightarrow> fst (f (cost e)) \<and> (\<forall>x \<in> set xs. \<not> fst (f (cost x)))" "check = None \<longrightarrow> xs = []"
proof -
  have "\<exists>xs ys. es = xs @ e # ys \<and> reason = ''selected'' \<and>
    (\<forall>f. check = Some f \<longrightarrow> fst (f (cost e)) \<and> (\<forall>x \<in> set xs. \<not> fst (f (cost x)))) \<and> (check = None \<longrightarrow> xs = [])"
    using assms
  proof (induction es arbitrary: d)
    case (Cons y es)
    show ?case
    proof (cases check)
      case None
      with Cons.prems show ?thesis by (auto intro: exI[of _ "[]"])
    next
      case (Some f)
      obtain b r where f: "f (cost y) = (b, r)" by (cases "f (cost y)")
      show ?thesis
      proof (cases b)
        case True
        with Cons.prems Some f show ?thesis by (auto intro: exI[of _ "[]"])
      next
        case False
        with Cons.prems Some f have "first_affordable check cost r es = (Some e, reason)" by simp
        from Cons.IH[OF this] obtain xs ys where x: "es = xs @ e # ys" "reason = ''selected''"
          "\<forall>f. check = Some f \<longrightarrow> fst (f (cost e)) \<and> (\<forall>x \<in> set xs. \<not> fst (f (cost x)))" by blast
        with Some f False show ?thesis by (intro exI[of _ "y # xs"] exI[of _ ys]) auto
      qed
    qed
  qed simp
  then show thesis using that by blast
qed

lemma first_affordable_None:
  "fst (first_affordable check cost d es) = None \<longleftrightarrow>
   es = [] \<or> (\<exists>f. check = Some f \<and> (\<forall>e \<in> set es. \<not> fst (f (cost e))))"
  by (induction check cost d es rule: first_affordable.induct) (auto split: option.split prod.split)

lemma eligible_models_iff:
  "e \<in> set (eligible_models rt capability) \<longleftrightarrow>
     e \<in> set (mg_endpoints (mt_registry rt)) \<and> mo_enabled e \<and> capability \<in> set (mo_capabilities e) \<and>
     is_available (mt_registry rt) e \<and> (mo_payment e \<longrightarrow> mt_allow_paid rt) \<and>
     (capability = LOCAL_PRIVATE \<longrightarrow> mo_kind e = PROVIDER_LOCAL)"
  by (auto simp: eligible_models_def candidates_for_def Let_def)

definition affordable :: "model_router \<Rightarrow> int \<Rightarrow> int \<Rightarrow> model_endpoint \<Rightarrow> bool" where
  "affordable rt i out_tokens e \<longleftrightarrow>
     (case mt_budget rt of None \<Rightarrow> True | Some f \<Rightarrow> fst (f (endpoint_cost i out_tokens e)))"

text \<open>The router chooses an eligible, affordable model that no other such model precedes, and finds one if there is one.\<close>

lemma route_chooses_best:
  assumes "rd_endpoint (route_model rt capability i n) = Some e"
  shows "e \<in> set (eligible_models rt capability)" and "affordable rt i n e"
    and "\<And>e'. e' \<in> set (eligible_models rt capability) \<Longrightarrow> affordable rt i n e' \<Longrightarrow>
           endpoint_key (mt_prefer_local rt) e \<le> endpoint_key (mt_prefer_local rt) e'"
proof -
  let ?k = "endpoint_key (mt_prefer_local rt)"
  let ?es = "sort_key ?k (eligible_models rt capability)"
  have ne: "eligible_models rt capability \<noteq> []" using assms by (auto simp: route_model_def Let_def)
  obtain reason where "first_affordable (mt_budget rt) (endpoint_cost i n) ''no_available_model'' ?es = (Some e, reason)"
    using assms ne by (auto simp: route_model_def Let_def split: prod.splits)
  then obtain xs ys where es: "?es = xs @ e # ys"
    and ok: "\<forall>f. mt_budget rt = Some f \<longrightarrow> fst (f (endpoint_cost i n e)) \<and> (\<forall>x \<in> set xs. \<not> fst (f (endpoint_cost i n x)))"
    and none: "mt_budget rt = None \<longrightarrow> xs = []"
    by (rule first_affordable_Some)
  have members: "set ?es = set (eligible_models rt capability)" by simp
  then show "e \<in> set (eligible_models rt capability)" using es by (metis in_set_conv_decomp)
  show "affordable rt i n e" using ok by (auto simp: affordable_def split: option.split)
  fix e' assume e': "e' \<in> set (eligible_models rt capability)" "affordable rt i n e'"
  then have "e' \<notin> set xs" using ok none by (auto simp: affordable_def split: option.splits)
  with e'(1) members es have "e' \<in> set (e # ys)" by (metis Un_iff set_append)
  moreover have "sorted (map ?k ?es)" by simp
  then have "\<forall>y \<in> set ys. ?k e \<le> ?k y" unfolding es by (simp add: sorted_append)
  ultimately show "?k e \<le> ?k e'" by auto
qed

lemma route_none_iff:
  "rd_endpoint (route_model rt capability i n) = None \<longleftrightarrow> (\<forall>e \<in> set (eligible_models rt capability). \<not> affordable rt i n e)"
proof (cases "eligible_models rt capability = []")
  case True
  then show ?thesis by (simp add: route_model_def Let_def)
next
  case False
  let ?es = "sort_key (endpoint_key (mt_prefer_local rt)) (eligible_models rt capability)"
  have ne: "?es \<noteq> []" using False by (metis set_empty set_sort)
  have "rd_endpoint (route_model rt capability i n) =
      fst (first_affordable (mt_budget rt) (endpoint_cost i n) ''no_available_model'' ?es)"
    using False by (simp add: route_model_def Let_def split: prod.split)
  with ne False show ?thesis
    unfolding affordable_def by (cases "mt_budget rt") (simp_all add: first_affordable_None)
qed

section \<open>The budget\<close>

definition within_budget :: "budget_policy \<Rightarrow> ('w, 'a) ai_db_scheme \<Rightarrow> bool" where
  "within_budget b s \<longleftrightarrow> (\<forall>t. \<not> exceeds (bp_daily b) (daily_total t s) \<and> \<not> exceeds (bp_monthly b) (monthly_total t s))"

lemma same_day_month: "same_day a b \<Longrightarrow> same_month a b"
  by (simp add: same_day_def same_month_def)

lemma cost_where_insert:
  "cost_where P (s\<lparr>ai_usage := ai_usage s @ [r]\<rparr>) = cost_where P s + (if P r then us_cost r else 0)"
  by (simp add: cost_where_def)

lemma exceeds_mono: "\<not> exceeds l y \<Longrightarrow> x \<le> y \<Longrightarrow> \<not> exceeds l x"
  by (auto simp: exceeds_def split: option.splits)

text \<open>
  Spending what was granted, or less, on the day it was granted keeps the budget; the check does not reserve anything,
  so this needs the record to follow its own check.
\<close>

lemma spending_keeps_budget:
  assumes "within_budget b s" and "fst (can_spend b estimate now s)" and "usage_cost i n ci co \<le> estimate"
    and "same_day occurred now"
  shows "within_budget b (snd (record_usage new_id p m a mi i n ci co occurred s))"
proof -
  define r where "r = \<lparr>us_id = new_id, us_provider = p, us_model = m, us_agent = a, us_mission = mi, us_input = i, us_output = n,
    us_cost = usage_cost i n ci co, us_occurred = occurred\<rparr>"
  have grant: "\<not> exceeds (bp_daily b) (daily_total t s + (if same_day occurred t then usage_cost i n ci co else 0)) \<and>
    \<not> exceeds (bp_monthly b) (monthly_total t s + (if same_month occurred t then usage_cost i n ci co else 0))" for t
  proof (cases "estimate \<le> 0")
    case True
    then have "(if Q then usage_cost i n ci co else 0) \<le> 0" for Q using assms(3) by simp
    then show ?thesis using assms(1) unfolding within_budget_def by (metis add.right_neutral add_left_mono exceeds_mono)
  next
    case False
    with assms(2) have now': "\<not> exceeds (bp_daily b) (daily_total now s + estimate)"
      "\<not> exceeds (bp_monthly b) (monthly_total now s + estimate)" by (auto simp: can_spend_def split: if_splits)
    have d: "daily_total t s = daily_total now s" if "same_day occurred t"
      using that assms(4) by (simp add: daily_total_def same_day_def)
    have m: "monthly_total t s = monthly_total now s" if "same_month occurred t"
      using that same_day_month[OF assms(4)] by (simp add: monthly_total_def same_month_def)
    have "\<not> exceeds (bp_daily b) (daily_total t s + usage_cost i n ci co)" if "same_day occurred t"
      using now'(1) assms(3) unfolding d[OF that] by (meson add_left_mono exceeds_mono)
    moreover have "\<not> exceeds (bp_monthly b) (monthly_total t s + usage_cost i n ci co)" if "same_month occurred t"
      using now'(2) assms(3) unfolding m[OF that] by (meson add_left_mono exceeds_mono)
    ultimately show ?thesis using assms(1) by (simp add: within_budget_def)
  qed
  show ?thesis
  proof (cases "insert_row us_id r (ai_usage s)")
    case (Inl e)
    with assms(1) show ?thesis by (simp add: record_usage_def r_def Let_def)
  next
    case (Inr rows)
    then have "rows = ai_usage s @ [r]" by (simp add: insert_row_def split: if_splits)
    with Inr have "snd (record_usage new_id p m a mi i n ci co occurred s) = s\<lparr>ai_usage := ai_usage s @ [r]\<rparr>"
      by (simp add: record_usage_def r_def Let_def)
    moreover have f: "us_cost r = usage_cost i n ci co" "us_occurred r = occurred" by (simp_all add: r_def)
    ultimately show ?thesis using grant
      unfolding within_budget_def daily_total_def monthly_total_def by (simp only: cost_where_insert f) simp
  qed
qed

text \<open>Months begin where the calendar says: the first and last days of some months.\<close>

lemma year_month_samples:
  "year_month 0 = (1970, 1)" "year_month (- 1) = (1969, 12)" "year_month 11016 = (2000, 2)" "year_month 11017 = (2000, 3)"
  "year_month 19782 = (2024, 2)" "year_month 19783 = (2024, 3)" "year_month 20453 = (2025, 12)" "year_month 20454 = (2026, 1)"
  by (code_simp+)

end
