(* ===== verification/Sandbox.thy ===== *)
theory Sandbox
  imports Delivery_Agents Text_Search Complex_Main "HOL-Library.Sublist"
begin

text \<open>
  The isolated repository workspace: \<open>delivery/repository_profiles.py\<close>, \<open>repository_source_policy.py\<close> and
  \<open>delivery/repository_sandbox.py\<close>. A workspace is a directory tree; changes are applied to it file by
  file, a snapshot compares its manifest with the one taken when it was prepared, and the tests of the
  repository's profile run in it. Copying the source, Git, the test commands, decoding of bytes and the
  unified diff are arguments. Resolved paths are lists of names; names hold no NUL.
\<close>

section \<open>Profiles\<close>

definition profile_keys :: "string list" where
  "profile_keys = [''ai-hq'', ''dripvid'']"

record path_facts =
  pf_resolve :: "string \<Rightarrow> string list"
  pf_is_dir :: "string list \<Rightarrow> bool"

record profile =
  rp_key :: string
  rp_source :: "string list"
  rp_base_ref :: string
  rp_test_commands :: "string list list"
  rp_description :: string
  rp_test_timeout :: rat
  rp_copy_excludes :: "string list"
  rp_links :: "(string list \<times> string list) list"

text \<open>\<open>PurePosixPath(text).parts\<close>: repeated separators and single dots disappear, a leading separator stays.\<close>

definition pure_parts :: "string \<Rightarrow> string list" where
  "pure_parts t =
     (if take 1 t = ''/'' then [''/''] else []) @ filter (\<lambda>p. p \<noteq> [] \<and> p \<noteq> ''.'') (split_on (CHR ''/'') t)"

fun profile_links :: "path_facts \<Rightarrow> (string \<times> string) list \<Rightarrow> exn + (string list \<times> string list) list" where
  "profile_links facts [] = Inr []"
| "profile_links facts ((relative, target) # rest) =
     (let parts = pure_parts relative in
      unless (take 1 relative = ''/'' \<or> parts = [] \<or> list_ex (\<lambda>p. p \<in> {[], ''.'', ''..''}) parts)
        (ValueError ''shared dependency path must be normalized and relative'')
      (unless (\<not> pf_is_dir facts (pf_resolve facts target))
         (ValueError ''shared dependency target must be an existing directory'')
       (andThen (profile_links facts rest) (\<lambda>links. Inr ((parts, pf_resolve facts target) # links)))))"

definition make_profile ::
  "path_facts \<Rightarrow> string \<Rightarrow> string \<Rightarrow> string \<Rightarrow> string list list \<Rightarrow> string \<Rightarrow> rat \<Rightarrow> string list \<Rightarrow>
   (string \<times> string) list \<Rightarrow> exn + profile" where
  "make_profile facts key source base_ref commands description timeout excludes links =
     unless (strip key = []) (ValueError ''repository key is required'')
     (unless (strip key \<notin> set profile_keys)
        (ValueError ''repository key must be a registered trusted repository'')
      (unless (\<not> pf_is_dir facts (pf_resolve facts source))
         (ValueError ''repository source must be an existing directory'')
       (unless (strip base_ref = []) (ValueError ''base_ref is required'')
        (unless (commands = []) (ValueError ''test_commands must be a non-empty tuple'')
         (unless (list_ex (\<lambda>c. c = []) commands) (ValueError ''each test command must be a non-empty tuple'')
          (unless (list_ex (\<lambda>c. list_ex (\<lambda>p. p = []) c) commands)
             (ValueError ''test command parts must be non-empty strings'')
           (unless (timeout \<le> 0) (ValueError ''test_timeout_seconds must be positive'')
            (andThen (profile_links facts links) (\<lambda>normalized.
             unless (list_ex (\<lambda>x. x = [] \<or> CHR ''/'' \<in> set x \<or> CHR 0x5C \<in> set x \<or> x \<in> {''.'', ''..''}) excludes)
               (ValueError ''copy excludes must be simple directory names'')
               (Inr \<lparr>rp_key = strip key, rp_source = pf_resolve facts source, rp_base_ref = strip base_ref,
                     rp_test_commands = commands, rp_description = description, rp_test_timeout = timeout,
                     rp_copy_excludes = excludes, rp_links = normalized\<rparr>))))))))))"

fun profile_registry :: "(string \<times> profile) list \<Rightarrow> profile list \<Rightarrow> exn + (string \<times> profile) list" where
  "profile_registry acc [] = Inr acc"
| "profile_registry acc (p # ps) =
     unless (map_of acc (rp_key p) \<noteq> None) (ValueError (''duplicate repository profile: '' @ rp_key p))
       (profile_registry (acc @ [(rp_key p, p)]) ps)"

definition make_profile_registry :: "profile list \<Rightarrow> exn + (string \<times> profile) list" where
  "make_profile_registry ps = unless (ps = []) (ValueError ''profiles must be a non-empty tuple'') (profile_registry [] ps)"

definition profile_get :: "(string \<times> profile) list \<Rightarrow> string \<Rightarrow> exn + profile" where
  "profile_get registry key =
     (case map_of registry key of None \<Rightarrow> Inl (KeyError (''unknown repository: '' @ key)) | Some p \<Rightarrow> Inr p)"

text \<open>The two trusted profiles; \<open>python\<close> is the interpreter, \<open>dash\<close> the text of a dash.\<close>

definition own_profile :: "path_facts \<Rightarrow> string \<Rightarrow> string \<Rightarrow> string \<Rightarrow> string \<Rightarrow> exn + profile" where
  "own_profile facts python dash source base_ref =
     make_profile facts ''ai-hq'' source base_ref
       [[python, ''-m'', ''ruff'', ''check'', ''src'', ''tests''], [python, ''-m'', ''pytest'', ''-q'']]
       (''AI HQ'' @ dash @ ''the Python FastAPI service that powers this chat, governable repos, and tool gateway.'')
       90 [] []"

definition dripvid_profile :: "path_facts \<Rightarrow> string \<Rightarrow> string \<Rightarrow> string \<Rightarrow> exn + profile" where
  "dripvid_profile facts dash source base_ref =
     (let modules = pf_resolve facts source @ [''node_modules'']; path = ''/'' @ join ''/'' modules;
          linked = pf_is_dir facts modules
      in make_profile facts ''dripvid'' source base_ref [[''npm'', ''run'', ''check''], [''npm'', ''test'']]
           (''DripVid'' @ dash @ ''the Vue web app for video editing and management (dripvid.uk).'')
           180 (if linked then [''node_modules''] else []) (if linked then [(''node_modules'', path)] else []))"

section \<open>Paths that must not overlap\<close>

definition overlaps :: "string list \<Rightarrow> string list \<Rightarrow> bool" where
  "overlaps p q \<longleftrightarrow> prefix p q \<or> prefix q p"

definition validate_root_isolation :: "string list \<Rightarrow> string list \<Rightarrow> exn + unit" where
  "validate_root_isolation source sandbox =
     unless (overlaps source sandbox) (ValueError ''repository sandbox must not overlap repository source'') (Inr ())"

fun source_checks :: "(string \<times> string list) list \<Rightarrow> string list \<Rightarrow> string list list \<Rightarrow> exn + unit" where
  "source_checks [] mirror live = Inr ()"
| "source_checks ((name, source) # rest) mirror live =
     unless (source = mirror \<or> \<not> prefix mirror source)
       (ValueError (name @ '' repository source must be beneath the trusted repository mirror''))
     (unless (list_ex (\<lambda>root. prefix root source) live)
        (ValueError (name @ '' repository source must not use a live deployment path''))
        (source_checks rest mirror live))"

definition validate_production_paths ::
  "bool \<Rightarrow> string list list \<Rightarrow> string list option \<Rightarrow> string list option \<Rightarrow> string list option \<Rightarrow>
   string list option \<Rightarrow> exn + unit" where
  "validate_production_paths production live mirror sandbox ai_hq dripvid =
     (if \<not> production then Inr ()
      else case (mirror, sandbox, ai_hq, dripvid) of
        (None, None, None, None) \<Rightarrow> Inr ()
      | (Some m, Some s, Some a, Some d) \<Rightarrow>
          unless (overlaps m s) (ValueError ''repository sandbox must not overlap the trusted repository mirror'')
            (source_checks [(''AI HQ'', a), (''DripVid'', d)] m live)
      | _ \<Rightarrow> Inl (ValueError ''production code changes require a trusted repository mirror, repository sandbox, AI HQ source, and DripVid source''))"

section \<open>Trees\<close>

type_synonym entries = "(string \<times> node) list"

text \<open>What a path names without following links: nothing, or a node.\<close>

fun lookup_path :: "entries \<Rightarrow> string list \<Rightarrow> node option" where
  "lookup_path es [] = Some (Dir es)"
| "lookup_path es (p # ps) =
     (case map_of es p of
        None \<Rightarrow> None
      | Some n \<Rightarrow> if ps = [] then Some n else (case n of Dir inner \<Rightarrow> lookup_path inner ps | _ \<Rightarrow> None))"

text \<open>\<open>mkdir(parents=True, exist_ok=True)\<close> on the parent, then the node: an existing file is replaced, anything else refuses.\<close>

fun put_node :: "entries \<Rightarrow> string list \<Rightarrow> node \<Rightarrow> exn + entries" where
  "put_node es [] n = Inl (OSError ''is a directory'')"
| "put_node es (p # ps) n =
     (if ps = []
      then (case map_of es p of
              None \<Rightarrow> Inr (AList.update p n es)
            | Some (File b) \<Rightarrow> (case n of File c \<Rightarrow> Inr (AList.update p n es) | _ \<Rightarrow> Inl (OSError ''file exists''))
            | Some _ \<Rightarrow> Inl (OSError ''not a regular file''))
      else (case map_of es p of
              None \<Rightarrow> andThen (put_node [] ps n) (\<lambda>inner. Inr (AList.update p (Dir inner) es))
            | Some (Dir inner) \<Rightarrow> andThen (put_node inner ps n) (\<lambda>inner'. Inr (AList.update p (Dir inner') es))
            | Some _ \<Rightarrow> Inl (OSError ''not a directory'')))"

fun remove_path :: "entries \<Rightarrow> string list \<Rightarrow> entries" where
  "remove_path es [] = es"
| "remove_path es (p # ps) =
     (if ps = [] then AList.delete p es
      else (case map_of es p of
              Some (Dir inner) \<Rightarrow> AList.update p (Dir (remove_path inner ps)) es
            | _ \<Rightarrow> es))"

text \<open>A dangling link whose target has come into being.\<close>

fun relink :: "entries \<Rightarrow> string list \<Rightarrow> entries" where
  "relink es [] = es"
| "relink es (p # ps) =
     (case map_of es p of
        Some (Link t kind) \<Rightarrow> if ps = [] then AList.update p (Link t ToFile) es else es
      | Some (Dir inner) \<Rightarrow> if ps = [] then es else AList.update p (Dir (relink inner ps)) es
      | _ \<Rightarrow> es)"

fun live_link :: "node \<Rightarrow> bool" where
  "live_link (Link t kind) = (case kind of Dangling _ \<Rightarrow> False | _ \<Rightarrow> True)"
| "live_link _ = False"

definition at_path :: "(node \<Rightarrow> bool) \<Rightarrow> entries \<Rightarrow> string list \<Rightarrow> bool" where
  "at_path P es ps \<longleftrightarrow> (case lookup_path es ps of None \<Rightarrow> False | Some n \<Rightarrow> P n)"

section \<open>Targets of a change\<close>

text \<open>\<open>escapes ps t\<close>: the dangling link at \<open>ps\<close> with text \<open>t\<close> leads out of the workspace.\<close>

definition parent_escapes :: "(string list \<Rightarrow> string \<Rightarrow> bool) \<Rightarrow> entries \<Rightarrow> string list \<Rightarrow> bool" where
  "parent_escapes escapes es ps \<longleftrightarrow>
     list_ex (\<lambda>k. at_path (\<lambda>n. case n of Link t (Dangling _) \<Rightarrow> escapes (take k ps) t | _ \<Rightarrow> False) es (take k ps))
       [1..<length ps]"

definition safe_target ::
  "(string list \<Rightarrow> string \<Rightarrow> bool) \<Rightarrow> entries \<Rightarrow> string \<Rightarrow> exn + string list" where
  "safe_target escapes es raw =
     unless (raw = []) (ValueError ''repository path is required'')
     (unless (CHR 0x5C \<in> set raw) (ValueError ''repository path must use normalized relative separators'')
      (let ps = split_on (CHR ''/'') raw in
       unless (list_ex (\<lambda>p. p \<in> {[], ''.'', ''..''}) ps)
         (ValueError ''repository path must be normalized and relative to workspace'')
       (unless (list_ex (\<lambda>k. at_path live_link es (take k ps)) [1..<Suc (length ps)])
          (ValueError ''repository path cannot traverse a symlink escape'')
        (unless (parent_escapes escapes es ps) (ValueError ''repository path escapes workspace'') (Inr ps)))))"

section \<open>State\<close>

record workspace_state =
  wt_profile :: profile
  wt_base_manifest :: dict
  wt_base_commit :: string
  wt_fingerprint :: "string option"
  wt_diff :: "string option"

datatype command_run = Finished int "string option" "string option" | TimedOut | Crashed exn

record 'w sandbox_env =
  sx_sha :: "string \<Rightarrow> string"
  sx_profile :: profile
  sx_has_git :: "'w \<Rightarrow> bool"
  sx_git :: "string list \<Rightarrow> 'w \<Rightarrow> (int \<times> string option) option \<times> 'w"
  sx_copytree :: "'w \<Rightarrow> (exn + entries) \<times> 'w"
  sx_escapes :: "string list \<Rightarrow> string \<Rightarrow> bool"
  sx_decode :: "string \<Rightarrow> string option"
  sx_unified_diff :: "string list \<Rightarrow> string list \<Rightarrow> string \<Rightarrow> string \<Rightarrow> string"
  sx_run_command :: "string list \<Rightarrow> entries \<Rightarrow> 'w \<Rightarrow> command_run \<times> entries \<times> 'w"

text \<open>\<open>sd_through\<close> keeps what was written through links, outside the tree.\<close>

record 'w sandbox_db =
  sd_states :: "(string \<times> workspace_state) list"
  sd_trees :: "(string \<times> entries) list"
  sd_through :: "(string list \<times> string) list"
  sd_host :: 'w

definition tree_of :: "string \<Rightarrow> ('w, 'a) sandbox_db_scheme \<Rightarrow> entries" where
  "tree_of wid s = (case map_of (sd_trees s) wid of None \<Rightarrow> [] | Some es \<Rightarrow> es)"

definition set_tree :: "string \<Rightarrow> entries \<Rightarrow> ('w, 'a) sandbox_db_scheme \<Rightarrow> ('w, 'a) sandbox_db_scheme" where
  "set_tree wid es s = s\<lparr>sd_trees := AList.update wid es (sd_trees s)\<rparr>"

definition set_workspace ::
  "string \<Rightarrow> workspace_state \<Rightarrow> ('w, 'a) sandbox_db_scheme \<Rightarrow> ('w, 'a) sandbox_db_scheme" where
  "set_workspace wid st s = s\<lparr>sd_states := AList.update wid st (sd_states s)\<rparr>"

section \<open>Preparing a workspace\<close>

text \<open>\<open>_git_read\<close>: what Git answers, or a RuntimeError when it cannot be run in time.\<close>

definition git_read ::
  "'w sandbox_env \<Rightarrow> string list \<Rightarrow> (('w, 'a) sandbox_db_scheme, int \<times> string) op" where
  "git_read env args s =
     (case sx_git env args (sd_host s) of
        (None, w) \<Rightarrow> (Inl (RuntimeError ''repository base checkout could not be verified''), s\<lparr>sd_host := w\<rparr>)
      | (Some (code, out), w) \<Rightarrow>
          (Inr (code, strip (case out of None \<Rightarrow> [] | Some t \<Rightarrow> t)), s\<lparr>sd_host := w\<rparr>))"

definition no_git_commit :: string where
  "no_git_commit = replicate 40 (CHR ''0'')"

definition resolve_base_commit :: "'w sandbox_env \<Rightarrow> string \<Rightarrow> (('w, 'a) sandbox_db_scheme, string) op" where
  "resolve_base_commit env base_ref =
     bindE (readE (\<lambda>s. sx_has_git env (sd_host s))) (\<lambda>has_git.
       if \<not> has_git then returnE no_git_commit
       else bindE (git_read env [''rev-parse'', ''--verify'', base_ref @ ''^{commit}'']) (\<lambda>(code, base).
         if code \<noteq> 0 \<or> \<not> git_sha base then raiseE (RuntimeError ''repository base commit could not be resolved'')
         else bindE (git_read env [''rev-parse'', ''--verify'', ''HEAD^{commit}'']) (\<lambda>(code, head).
           if code \<noteq> 0 \<or> \<not> git_sha head \<or> head \<noteq> base
           then raiseE (RuntimeError ''repository source HEAD must match the exact base commit'')
           else bindE (git_read env [''status'', ''--porcelain=v1'', ''--untracked-files=all'']) (\<lambda>(code, out).
             if code \<noteq> 0 then raiseE (RuntimeError ''repository source checkout could not be verified'')
             else if out \<noteq> []
             then raiseE (RuntimeError ''repository source checkout must be clean before candidate preparation'')
             else returnE base))))"

fun link_dependencies :: "entries \<Rightarrow> (string list \<times> string list) list \<Rightarrow> exn + entries" where
  "link_dependencies es [] = Inr es"
| "link_dependencies es ((relative, target) # rest) =
     andThen (put_node es relative (Link (''/'' @ join ''/'' target) ToDir)) (\<lambda>es'. link_dependencies es' rest)"

definition sandbox_prepare ::
  "'w sandbox_env \<Rightarrow> string \<Rightarrow> string \<Rightarrow> (('w, 'a) sandbox_db_scheme, workspace) op" where
  "sandbox_prepare env wid mid =
     (if strip mid = [] then raiseE (ValueError ''mission_id is required'')
      else bindE (resolve_base_commit env (rp_base_ref (sx_profile env))) (\<lambda>base s.
        case sx_copytree env (sd_host s) of
          (Inl e, w) \<Rightarrow> (Inl e, s\<lparr>sd_host := w\<rparr>)
        | (Inr copied, w) \<Rightarrow>
            (case link_dependencies copied (rp_links (sx_profile env)) of
               Inl e \<Rightarrow> (Inl e, set_tree wid copied (s\<lparr>sd_host := w\<rparr>))
             | Inr es \<Rightarrow>
                 (make_workspace \<lparr>ws_mission = mid, ws_repository = rp_key (sx_profile env),
                                  ws_base_ref = rp_base_ref (sx_profile env), ws_id = wid, ws_base_commit = base\<rparr>,
                  set_workspace wid \<lparr>wt_profile = sx_profile env, wt_base_manifest = manifest (sx_sha env) es,
                                 wt_base_commit = base, wt_fingerprint = None, wt_diff = None\<rparr>
                    (set_tree wid es (s\<lparr>sd_host := w\<rparr>))))))"

section \<open>Snapshots\<close>

definition state_for :: "workspace \<Rightarrow> (('w, 'a) sandbox_db_scheme, workspace_state) op" where
  "state_for ws s =
     (case map_of (sd_states s) (ws_id ws) of
        None \<Rightarrow> (Inl (KeyError (''unknown repository workspace: '' @ ws_id ws)), s)
      | Some st \<Rightarrow>
          (case guards [(ws_repository ws \<noteq> rp_key (wt_profile st), ''workspace repository identity mismatch''),
                        (ws_base_ref ws \<noteq> rp_base_ref (wt_profile st), ''workspace base reference mismatch''),
                        (ws_base_commit ws \<noteq> wt_base_commit st, ''workspace base commit mismatch'')] of
             Some e \<Rightarrow> (Inl e, s)
           | None \<Rightarrow> (Inr st, s)))"

definition changed_paths :: "dict \<Rightarrow> dict \<Rightarrow> string list" where
  "changed_paths base now =
     filter (\<lambda>p. map_of base p \<noteq> map_of now p) (sort (remdups (map fst base @ map fst now)))"

definition diff_material :: "dict \<Rightarrow> dict \<Rightarrow> json" where
  "diff_material base now =
     JList (map (\<lambda>p. JObj [(''path'', JStr p), (''before'', dict_get_default base p (JStr ''deleted-or-absent'')),
                           (''after'', dict_get_default now p (JStr ''deleted-or-absent''))])
                (changed_paths base now))"

definition tree_digest :: "'w sandbox_env \<Rightarrow> entries \<Rightarrow> string" where
  "tree_digest env es = canonical_digest (sx_sha env) (JObj (manifest (sx_sha env) es))"

definition sandbox_snapshot ::
  "'w sandbox_env \<Rightarrow> workspace \<Rightarrow> (('w, 'a) sandbox_db_scheme, snapshot) op" where
  "sandbox_snapshot env ws =
     bindE (state_for ws) (\<lambda>st s.
       let now = manifest (sx_sha env) (tree_of (ws_id ws) s);
           content = tree_digest env (tree_of (ws_id ws) s)
       in (make_snapshot
             \<lparr>sn_workspace_id = ws_id ws, sn_repository = ws_repository ws, sn_base_ref = ws_base_ref ws,
              sn_changed_files = changed_paths (wt_base_manifest st) now,
              sn_diff_digest = canonical_digest (sx_sha env) (diff_material (wt_base_manifest st) now),
              sn_content_digest = content, sn_base_commit = wt_base_commit st\<rparr>,
           set_workspace (ws_id ws) (st\<lparr>wt_fingerprint := Some content\<rparr>) s))"

definition require_current_snapshot ::
  "'w sandbox_env \<Rightarrow> string \<Rightarrow> workspace_state \<Rightarrow> (('w, 'a) sandbox_db_scheme, unit) op" where
  "require_current_snapshot env wid st s =
     (case wt_fingerprint st of
        None \<Rightarrow> (Inl (RuntimeError ''repository workspace snapshot is required before tests''), s)
      | Some f \<Rightarrow>
          if tree_digest env (tree_of wid s) \<noteq> f
          then (Inl (RuntimeError ''repository workspace snapshot is stale''), s) else (Inr (), s))"

section \<open>The review diff\<close>

text \<open>Reading a text file turns every line end into a line feed.\<close>

fun universal_newlines :: "string \<Rightarrow> string" where
  "universal_newlines [] = []"
| "universal_newlines (c # cs) =
     (if c = CHR 0x0D
      then CHR 0x0A # universal_newlines (if cs \<noteq> [] \<and> hd cs = CHR 0x0A then tl cs else cs)
      else c # universal_newlines cs)"

text \<open>\<open>str.splitlines(keepends=True)\<close>.\<close>

fun splitlines_keep_from :: "string \<Rightarrow> string \<Rightarrow> string list" where
  "splitlines_keep_from acc [] = (if acc = [] then [] else [rev acc])"
| "splitlines_keep_from acc (c # cs) =
     (if c = CHR 0x0D \<and> cs \<noteq> [] \<and> hd cs = CHR 0x0A
      then rev (CHR 0x0A # c # acc) # splitlines_keep_from [] (tl cs)
      else if is_line_break c then rev (c # acc) # splitlines_keep_from [] cs
      else splitlines_keep_from (c # acc) cs)"

definition review_text :: "'w sandbox_env \<Rightarrow> entries \<Rightarrow> string list \<Rightarrow> exn + string option" where
  "review_text env es ps =
     (case lookup_path es ps of
        None \<Rightarrow> Inr None
      | Some (Link t (Dangling _)) \<Rightarrow> Inr None
      | Some (File b) \<Rightarrow>
          (case sx_decode env b of
             None \<Rightarrow> Inl (ValueError ''candidate review diff requires UTF-8 text files'')
           | Some t \<Rightarrow> Inr (Some (universal_newlines t)))
      | Some _ \<Rightarrow> Inl (ValueError ''candidate review diff requires regular files''))"

definition diff_section ::
  "'w sandbox_env \<Rightarrow> string \<Rightarrow> string option \<Rightarrow> string option \<Rightarrow> string" where
  "diff_section env path old new =
     (if old = new then []
      else sx_unified_diff env
             (case old of None \<Rightarrow> [] | Some t \<Rightarrow> splitlines_keep_from [] t)
             (case new of None \<Rightarrow> [] | Some t \<Rightarrow> splitlines_keep_from [] t)
             (if old = None then ''/dev/null'' else ''a/'' @ path)
             (if new = None then ''/dev/null'' else ''b/'' @ path))"

definition build_review_diff ::
  "'w sandbox_env \<Rightarrow> (string \<times> string option) list \<Rightarrow> (string \<times> string option) list \<Rightarrow> exn + string" where
  "build_review_diff env before after =
     (let diff = concat (map (\<lambda>p. diff_section env p (the (map_of before p)) (the (map_of after p)))
                             (sort (map fst before)))
      in unless (length diff > 24000)
           (ValueError ''candidate review diff exceeds maximum safe review size'') (Inr diff))"

text \<open>The texts of the changed paths, each read once.\<close>

fun texts_before ::
  "'w sandbox_env \<Rightarrow> entries \<Rightarrow> (string \<times> string option) list \<Rightarrow> file_change list \<Rightarrow>
   exn + (string \<times> string option) list" where
  "texts_before env es acc [] = Inr acc"
| "texts_before env es acc (c # cs) =
     andThen (safe_target (sx_escapes env) es (fc_path c)) (\<lambda>ps.
       if map_of acc (fc_path c) \<noteq> None then texts_before env es acc cs
       else andThen (review_text env es ps) (\<lambda>t. texts_before env es (acc @ [(fc_path c, t)]) cs))"

fun texts_after ::
  "'w sandbox_env \<Rightarrow> entries \<Rightarrow> string list \<Rightarrow> exn + (string \<times> string option) list" where
  "texts_after env es [] = Inr []"
| "texts_after env es (p # paths) =
     andThen (safe_target (sx_escapes env) es p) (\<lambda>ps.
     andThen (review_text env es ps) (\<lambda>t.
     andThen (texts_after env es paths) (\<lambda>rest. Inr ((p, t) # rest))))"

section \<open>Applying changes\<close>

text \<open>
  Writing one file. A link that leads nowhere is not seen by the checks: opening it for writing
  creates the file it points to, and from then on it is a link to a file.
\<close>

definition write_change ::
  "string \<Rightarrow> string list \<Rightarrow> string \<Rightarrow> (('w, 'a) sandbox_db_scheme, unit) op" where
  "write_change wid ps content s =
     (case lookup_path (tree_of wid s) ps of
        Some (Link t (Dangling creatable)) \<Rightarrow>
          if creatable
          then (Inr (), (set_tree wid (relink (tree_of wid s) ps) s)\<lparr>sd_through := sd_through s @ [(ps, content)]\<rparr>)
          else (Inl (OSError ''no such file or directory''), s)
      | _ \<Rightarrow>
          (case put_node (tree_of wid s) ps (File (utf8_text content)) of
             Inl e \<Rightarrow> (Inl e, s)
           | Inr es \<Rightarrow> (Inr (), set_tree wid es s)))"

definition delete_change :: "string \<Rightarrow> string list \<Rightarrow> (('w, 'a) sandbox_db_scheme, unit) op" where
  "delete_change wid ps s =
     (case lookup_path (tree_of wid s) ps of
        None \<Rightarrow> (Inr (), s)
      | Some (Link t (Dangling _)) \<Rightarrow> (Inr (), s)
      | Some (File b) \<Rightarrow> (Inr (), set_tree wid (remove_path (tree_of wid s) ps) s)
      | Some _ \<Rightarrow> (Inl (ValueError ''delete target must be a regular workspace file''), s))"

definition apply_change ::
  "'w sandbox_env \<Rightarrow> string \<Rightarrow> file_change \<Rightarrow> (('w, 'a) sandbox_db_scheme, unit) op" where
  "apply_change env wid c =
     bindE (\<lambda>s. (safe_target (sx_escapes env) (tree_of wid s) (fc_path c), s)) (\<lambda>ps.
       case fc_operation c of
         OP_WRITE \<Rightarrow> write_change wid ps (case fc_content c of None \<Rightarrow> [] | Some t \<Rightarrow> t)
       | OP_DELETE \<Rightarrow> delete_change wid ps)"

fun apply_each ::
  "'w sandbox_env \<Rightarrow> string \<Rightarrow> file_change list \<Rightarrow> (('w, 'a) sandbox_db_scheme, unit) op" where
  "apply_each env wid [] = returnE ()"
| "apply_each env wid (c # cs) = bindE (apply_change env wid c) (\<lambda>_. apply_each env wid cs)"

definition set_diff :: "string \<Rightarrow> workspace_state \<Rightarrow> string \<Rightarrow> (('w, 'a) sandbox_db_scheme, unit) op" where
  "set_diff wid st diff = writeE (set_workspace wid (st\<lparr>wt_diff := Some diff\<rparr>))"

definition sandbox_apply_changes ::
  "'w sandbox_env \<Rightarrow> workspace \<Rightarrow> file_change list \<Rightarrow> (('w, 'a) sandbox_db_scheme, snapshot) op" where
  "sandbox_apply_changes env ws changes =
     bindE (state_for ws) (\<lambda>st.
     bindE (\<lambda>s. (texts_before env (tree_of (ws_id ws) s) [] changes, s)) (\<lambda>before.
     bindE (apply_each env (ws_id ws) changes) (\<lambda>_.
     bindE (\<lambda>s. (texts_after env (tree_of (ws_id ws) s) (map fst before), s)) (\<lambda>after.
     bindE (liftE (build_review_diff env before after)) (\<lambda>diff.
     bindE (set_diff (ws_id ws) st diff) (\<lambda>_.
       sandbox_snapshot env ws))))))"

definition sandbox_review_diff ::
  "'w sandbox_env \<Rightarrow> workspace \<Rightarrow> (('w, 'a) sandbox_db_scheme, string) op" where
  "sandbox_review_diff env ws =
     bindE (state_for ws) (\<lambda>st.
     bindE (require_current_snapshot env (ws_id ws) st) (\<lambda>_.
       case wt_diff st of
         None \<Rightarrow> raiseE (RuntimeError ''candidate review diff is required before QA'')
       | Some d \<Rightarrow> returnE d))"

section \<open>Running the tests\<close>

definition output_text :: "string option \<Rightarrow> string" where
  "output_text v = take 1800 (strip (case v of None \<Rightarrow> [] | Some t \<Rightarrow> t))"

definition command_summary :: "nat \<Rightarrow> int \<Rightarrow> string \<Rightarrow> string \<Rightarrow> string" where
  "command_summary i code out err =
     (let output = join [CHR 0x0A] (filter (\<lambda>t. t \<noteq> []) [out, err]) in
      ''step '' @ nat_repr i @ '': exit '' @ int_repr code @ (if output \<noteq> [] then CHR 0x0A # output else []))"

definition command_record :: "nat \<Rightarrow> int \<Rightarrow> string \<Rightarrow> string \<Rightarrow> json" where
  "command_record i code out err =
     JObj [(''index'', JInt (int i)), (''returncode'', JInt code), (''stdout'', JStr out), (''stderr'', JStr err)]"

text \<open>The loop over the commands: records, summaries and the code of the first that fails, zero if none does.\<close>

fun run_commands ::
  "'w sandbox_env \<Rightarrow> string \<Rightarrow> nat \<Rightarrow> string list list \<Rightarrow>
   (('w, 'a) sandbox_db_scheme, json list \<times> string list \<times> int) op" where
  "run_commands env wid i [] s = (Inr ([], [], 0), s)"
| "run_commands env wid i (c # cs) s =
     (case sx_run_command env c (tree_of wid s) (sd_host s) of
        (run, es, w) \<Rightarrow>
          let s1 = set_tree wid es (s\<lparr>sd_host := w\<rparr>) in
          case run of
            TimedOut \<Rightarrow> (Inl (RuntimeError ''repository test profile timed out''), s1)
          | Crashed e \<Rightarrow> (Inl e, s1)
          | Finished code out err \<Rightarrow>
              let o1 = output_text out; e1 = output_text err;
                  rec = command_record i code o1 e1; part = command_summary i code o1 e1 in
              if code \<noteq> 0 then (Inr ([rec], [part], code), s1)
              else (case run_commands env wid (Suc i) cs s1 of
                      (Inl e, s2) \<Rightarrow> (Inl e, s2)
                    | (Inr (recs, parts, final), s2) \<Rightarrow> (Inr (rec # recs, part # parts, final), s2)))"

definition evidence_summary :: "string list \<Rightarrow> string" where
  "evidence_summary parts =
     (let t = strip (join [CHR 0x0A, CHR 0x0A] parts) in
      take 4000 (if t = [] then ''repository test profile completed'' else t))"

definition sandbox_run_tests ::
  "'w sandbox_env \<Rightarrow> workspace \<Rightarrow> (('w, 'a) sandbox_db_scheme, test_evidence) op" where
  "sandbox_run_tests env ws =
     bindE (state_for ws) (\<lambda>st.
     bindE (require_current_snapshot env (ws_id ws) st) (\<lambda>_.
     bindE (run_commands env (ws_id ws) 1 (rp_test_commands (wt_profile st))) (\<lambda>(recs, parts, code).
       liftE (make_test_evidence
         \<lparr>te_passed = (code = 0), te_exit_code = code, te_summary = evidence_summary parts,
          te_digest = canonical_digest (sx_sha env) (JList recs)\<rparr>))))"

end
