(* ===== verification/Model_Client.thy ===== *)
theory Model_Client
  imports Chat Complex_Main
begin

text \<open>
  The clients of the language models: \<open>chat/model_client.py\<close> and \<open>chat/free_model_router.py\<close>. A client posts a
  conversation to a provider and takes the text out of its answer; the router tries the free providers in order. The
  HTTP library is a function of the request and the outside world.
\<close>

section \<open>One provider\<close>

record model_http_request =
  mh_url :: string
  mh_headers :: "(string \<times> string) list"
  mh_payload :: json
  mh_timeout :: rat

text \<open>A time-out, another \<open>httpx.HTTPError\<close>, or a response: its status, and its body when that is a JSON text.\<close>

datatype model_http_result = ModelTimeout | ModelHttpError | ModelHttp int "json option"

type_synonym 'w model_http = "model_http_request \<Rightarrow> 'w \<Rightarrow> model_http_result \<times> 'w"

record model_config =
  mf_base_url :: string
  mf_model :: string
  mf_api_key :: "string option"
  mf_timeout :: rat

definition present :: "string option \<Rightarrow> bool" where
  "present v \<longleftrightarrow> v \<noteq> None \<and> v \<noteq> Some []"

definition rstrip_slash :: "string \<Rightarrow> string" where
  "rstrip_slash url = rev (dropWhile (\<lambda>c. c = CHR ''/'') (rev url))"

definition openai_client :: "string \<Rightarrow> string \<Rightarrow> string option \<Rightarrow> rat \<Rightarrow> model_config" where
  "openai_client base_url model api_key timeout =
     \<lparr>mf_base_url = rstrip_slash base_url, mf_model = model, mf_api_key = api_key, mf_timeout = timeout\<rparr>"

definition completion_message :: "string \<times> string \<Rightarrow> json" where
  "completion_message m = JObj [(''role'', JStr (fst m)), (''content'', JStr (snd m))]"

definition completion_request :: "model_config \<Rightarrow> string \<Rightarrow> (string \<times> string) list \<Rightarrow> model_http_request" where
  "completion_request cfg prompt messages =
     \<lparr>mh_url = mf_base_url cfg @ ''/chat/completions'',
      mh_headers = (''Content-Type'', ''application/json'') #
        (if present (mf_api_key cfg) then [(''Authorization'', ''Bearer '' @ the (mf_api_key cfg))] else []),
      mh_payload = JObj [(''model'', JStr (mf_model cfg)),
        (''messages'', JList (map completion_message ((''system'', prompt) # messages)))],
      mh_timeout = mf_timeout cfg\<rparr>"

text \<open>The content of the first choice; \<open>None\<close> for every \<open>KeyError\<close>, \<open>TypeError\<close> or \<open>ValueError\<close> on the way.\<close>

definition item_of :: "json \<Rightarrow> string \<Rightarrow> json option" where
  "item_of v key = (case v of JObj d \<Rightarrow> map_of d key | _ \<Rightarrow> None)"

definition completion_text :: "json \<Rightarrow> string option" where
  "completion_text v =
     (case item_of v ''choices'' of
        Some (JList (choice # rest)) \<Rightarrow>
          (case item_of choice ''message'' of
             None \<Rightarrow> None
           | Some message \<Rightarrow>
               (case item_of message ''content'' of
                  Some (JStr content) \<Rightarrow> if strip content = [] then None else Some (strip content)
                | _ \<Rightarrow> None))
      | _ \<Rightarrow> None)"

definition completion_result :: "model_http_result \<Rightarrow> exn + string" where
  "completion_result r =
     (case r of
        ModelTimeout \<Rightarrow> Inl (ChatModelError ''Chat model request timed out'')
      | ModelHttpError \<Rightarrow> Inl (ChatModelError ''Chat model provider request failed'')
      | ModelHttp status body \<Rightarrow>
          if \<not> (200 \<le> status \<and> status \<le> 299) then Inl (ChatModelError ''Chat model provider request failed'')
          else (case Option.bind body completion_text of
                  None \<Rightarrow> Inl (ChatModelError ''Chat model returned an invalid response'')
                | Some t \<Rightarrow> Inr t))"

definition openai_reply :: "'w model_http \<Rightarrow> model_config \<Rightarrow> 'w model_client" where
  "openai_reply http cfg prompt messages w =
     (case http (completion_request cfg prompt messages) w of (r, w') \<Rightarrow> (completion_result r, w'))"

section \<open>The free providers\<close>

definition allowed_zero_cost_policies :: "string list" where
  "allowed_zero_cost_policies = [''local'', ''explicitly_free'', ''free_allowance'']"

record free_provider =
  fp_name :: string
  fp_config :: model_config
  fp_policy :: string

definition free_provider_check :: "free_provider \<Rightarrow> exn + free_provider" where
  "free_provider_check p =
     (if strip (fp_name p) = [] then Inl (ValueError ''provider name must not be empty'')
      else if fp_policy p \<notin> set allowed_zero_cost_policies
      then Inl (ValueError ''provider must use an approved zero-cost policy'')
      else Inr p)"

definition free_model_router :: "free_provider list \<Rightarrow> exn + free_provider list" where
  "free_model_router providers =
     (if providers = [] then Inl (ValueError ''FreeModelRouter requires at least one zero-cost provider'') else Inr providers)"

fun try_providers ::
  "'w model_http \<Rightarrow> free_provider list \<Rightarrow> string list \<Rightarrow> string \<Rightarrow> (string \<times> string) list \<Rightarrow> ('w, string) op" where
  "try_providers http [] failed prompt messages w =
     (Inl (ChatModelError (''all configured free AI providers are temporarily unavailable: '' @ join '', '' failed)), w)"
| "try_providers http (p # ps) failed prompt messages w =
     (case openai_reply http (fp_config p) prompt messages w of
        (Inl (ChatModelError _), w') \<Rightarrow> try_providers http ps (failed @ [fp_name p]) prompt messages w'
      | other \<Rightarrow> other)"

definition free_reply :: "'w model_http \<Rightarrow> free_provider list \<Rightarrow> 'w model_client" where
  "free_reply http providers = try_providers http providers []"

section \<open>The client of the settings\<close>

record model_settings =
  fs_local_base_url :: "string option"
  fs_local_model :: "string option"
  fs_local_api_key :: "string option"
  fs_groq_api_key :: "string option"
  fs_groq_model :: "string option"
  fs_openrouter_api_key :: "string option"
  fs_hf_token :: "string option"
  fs_hf_model :: "string option"
  fs_free_timeout :: rat
  fs_chat_base_url :: "string option"
  fs_chat_model :: "string option"
  fs_chat_api_key :: "string option"
  fs_chat_timeout :: rat

text \<open>One block of \<open>build_chat_model_client\<close>: no provider unless it is configured, an error when its model is missing.\<close>

definition provider_block ::
  "string option \<Rightarrow> string option \<Rightarrow> string \<Rightarrow> (string \<Rightarrow> free_provider) \<Rightarrow> exn + free_provider list" where
  "provider_block trigger model message build =
     (if \<not> present trigger then Inr []
      else if \<not> present model then Inl (ValueError message)
      else map_sum id (\<lambda>p. [p]) (free_provider_check (build (the model))))"

definition local_block :: "model_settings \<Rightarrow> exn + free_provider list" where
  "local_block fs =
     provider_block (fs_local_base_url fs) (fs_local_model fs)
        ''AI_HQ_FREE_AI_LOCAL_MODEL is required when AI_HQ_FREE_AI_LOCAL_BASE_URL is configured''
        (\<lambda>m. \<lparr>fp_name = ''local'',
              fp_config = openai_client (the (fs_local_base_url fs)) m (fs_local_api_key fs) (fs_free_timeout fs),
              fp_policy = ''local''\<rparr>)"

definition groq_block :: "model_settings \<Rightarrow> exn + free_provider list" where
  "groq_block fs =
     provider_block (fs_groq_api_key fs) (fs_groq_model fs)
        ''AI_HQ_FREE_AI_GROQ_MODEL is required when AI_HQ_FREE_AI_GROQ_API_KEY is configured''
        (\<lambda>m. \<lparr>fp_name = ''groq'',
              fp_config = openai_client ''https://api.groq.com/openai/v1'' m (fs_groq_api_key fs) (fs_free_timeout fs),
              fp_policy = ''free_allowance''\<rparr>)"

definition openrouter_block :: "model_settings \<Rightarrow> exn + free_provider list" where
  "openrouter_block fs =
     provider_block (fs_openrouter_api_key fs) (Some ''openrouter/free'') []
        (\<lambda>m. \<lparr>fp_name = ''openrouter'',
              fp_config = openai_client ''https://openrouter.ai/api/v1'' m (fs_openrouter_api_key fs) (fs_free_timeout fs),
              fp_policy = ''explicitly_free''\<rparr>)"

definition huggingface_block :: "model_settings \<Rightarrow> exn + free_provider list" where
  "huggingface_block fs =
     provider_block (fs_hf_token fs) (fs_hf_model fs)
        ''AI_HQ_FREE_AI_HF_MODEL is required when AI_HQ_FREE_AI_HF_TOKEN is configured''
        (\<lambda>m. \<lparr>fp_name = ''huggingface'',
              fp_config = openai_client ''https://router.huggingface.co/v1'' m (fs_hf_token fs) (fs_free_timeout fs),
              fp_policy = ''free_allowance''\<rparr>)"

definition free_providers :: "model_settings \<Rightarrow> (exn + free_provider list) list" where
  "free_providers fs = [local_block fs, groq_block fs, openrouter_block fs, huggingface_block fs]"

fun collect :: "(exn + 'x list) list \<Rightarrow> exn + 'x list" where
  "collect [] = Inr []"
| "collect (r # rs) = (case r of Inl e \<Rightarrow> Inl e | Inr xs \<Rightarrow> map_sum id (\<lambda>ys. xs @ ys) (collect rs))"

datatype chat_client = FreeRouter "free_provider list" | SingleClient model_config

definition build_chat_model_client :: "model_settings \<Rightarrow> exn + chat_client option" where
  "build_chat_model_client fs =
     (case collect (free_providers fs) of
        Inl e \<Rightarrow> Inl e
      | Inr (p # ps) \<Rightarrow> map_sum id (\<lambda>r. Some (FreeRouter r)) (free_model_router (p # ps))
      | Inr [] \<Rightarrow>
          if \<not> present (fs_chat_base_url fs) then Inr None
          else if \<not> present (fs_chat_model fs)
          then Inl (ValueError ''AI_HQ_CHAT_MODEL_NAME is required when AI_HQ_CHAT_MODEL_BASE_URL is configured'')
          else Inr (Some (SingleClient (openai_client (the (fs_chat_base_url fs)) (the (fs_chat_model fs))
                 (fs_chat_api_key fs) (fs_chat_timeout fs)))))"

fun client_reply :: "'w model_http \<Rightarrow> chat_client \<Rightarrow> 'w model_client" where
  "client_reply http (FreeRouter providers) = free_reply http providers"
| "client_reply http (SingleClient cfg) = openai_reply http cfg"

section \<open>Which model is asked\<close>

text \<open>The providers the settings can give.\<close>

definition free_endpoint :: "model_settings \<Rightarrow> free_provider \<Rightarrow> bool" where
  "free_endpoint fs p \<longleftrightarrow>
     fp_policy p \<in> set allowed_zero_cost_policies \<and>
     (fp_name p = ''local'' \<and> mf_base_url (fp_config p) = rstrip_slash (the (fs_local_base_url fs)) \<or>
      fp_name p = ''groq'' \<and> mf_base_url (fp_config p) = ''https://api.groq.com/openai/v1'' \<or>
      fp_name p = ''openrouter'' \<and> mf_base_url (fp_config p) = ''https://openrouter.ai/api/v1'' \<and>
        mf_model (fp_config p) = ''openrouter/free'' \<or>
      fp_name p = ''huggingface'' \<and> mf_base_url (fp_config p) = ''https://router.huggingface.co/v1'')"

lemma provider_block_Inr:
  assumes "provider_block trigger model message build = Inr ps"
  shows "ps = [] \<and> \<not> present trigger \<or> ps = [build (the model)] \<and> present trigger \<and> present model"
  using assms by (auto simp: provider_block_def free_provider_check_def split: if_splits)

lemma collect_Inr: "collect rs = Inr xs \<Longrightarrow> x \<in> set xs \<Longrightarrow> \<exists>ys. Inr ys \<in> set rs \<and> x \<in> set ys"
proof (induction rs arbitrary: xs)
  case (Cons r rs)
  then obtain ys zs where "r = Inr ys" "collect rs = Inr zs" "xs = ys @ zs"
    by (cases r; cases "collect rs") auto
  with Cons show ?case by (cases "x \<in> set ys") auto
qed simp

lemma present_model: "present (Some (CHR ''o'' # t))"
  by (simp add: present_def)

lemma base_urls [simp]:
  "rstrip_slash ''https://api.groq.com/openai/v1'' = ''https://api.groq.com/openai/v1''"
  "rstrip_slash ''https://openrouter.ai/api/v1'' = ''https://openrouter.ai/api/v1''"
  "rstrip_slash ''https://router.huggingface.co/v1'' = ''https://router.huggingface.co/v1''"
  by (code_simp+)

lemma blocks_free:
  "local_block fs = Inr ps \<Longrightarrow> p \<in> set ps \<Longrightarrow> free_endpoint fs p"
  "groq_block fs = Inr ps \<Longrightarrow> p \<in> set ps \<Longrightarrow> free_endpoint fs p"
  "openrouter_block fs = Inr ps \<Longrightarrow> p \<in> set ps \<Longrightarrow> free_endpoint fs p"
  "huggingface_block fs = Inr ps \<Longrightarrow> p \<in> set ps \<Longrightarrow> free_endpoint fs p"
  unfolding local_block_def groq_block_def openrouter_block_def huggingface_block_def
  by (drule provider_block_Inr; auto simp: free_endpoint_def openai_client_def allowed_zero_cost_policies_def)+

lemma blocks_present:
  "local_block fs = Inr ps \<Longrightarrow> present (fs_local_base_url fs) \<Longrightarrow> ps \<noteq> []"
  "groq_block fs = Inr ps \<Longrightarrow> present (fs_groq_api_key fs) \<Longrightarrow> ps \<noteq> []"
  "openrouter_block fs = Inr ps \<Longrightarrow> present (fs_openrouter_api_key fs) \<Longrightarrow> ps \<noteq> []"
  "huggingface_block fs = Inr ps \<Longrightarrow> present (fs_hf_token fs) \<Longrightarrow> ps \<noteq> []"
  unfolding local_block_def groq_block_def openrouter_block_def huggingface_block_def
  by (drule provider_block_Inr; blast)+

lemma free_providers_free:
  assumes "Inr ys \<in> set (free_providers fs)" and "p \<in> set ys"
  shows "free_endpoint fs p"
proof -
  from assms(1) have "local_block fs = Inr ys \<or> groq_block fs = Inr ys \<or> openrouter_block fs = Inr ys \<or> huggingface_block fs = Inr ys"
    by (auto simp: free_providers_def)
  with assms(2) show ?thesis using blocks_free by blast
qed

lemma collect_Cons_Inr: "collect (r # rs) = Inr xs \<Longrightarrow> \<exists>ys zs. r = Inr ys \<and> collect rs = Inr zs \<and> xs = ys @ zs"
  by (cases r; cases "collect rs") auto

text \<open>As soon as one free provider is configured, only free ones are asked; the paid single client is not used.\<close>

lemma configured_free_only:
  assumes "build_chat_model_client fs = Inr (Some client)"
    and "present (fs_local_base_url fs) \<or> present (fs_groq_api_key fs) \<or> present (fs_openrouter_api_key fs) \<or> present (fs_hf_token fs)"
  obtains providers where "client = FreeRouter providers" "\<forall>p \<in> set providers. free_endpoint fs p" "providers \<noteq> []"
proof -
  obtain ps where c: "collect (free_providers fs) = Inr ps"
    using assms(1) by (cases "collect (free_providers fs)") (auto simp: build_chat_model_client_def)
  from c[unfolded free_providers_def] obtain l g r h where
    b: "local_block fs = Inr l" "groq_block fs = Inr g" "openrouter_block fs = Inr r" "huggingface_block fs = Inr h"
    and ps: "ps = l @ g @ r @ h" by (auto simp del: collect.simps(2) dest!: collect_Cons_Inr)
  have "ps \<noteq> []" using assms(2) ps blocks_present(1)[OF b(1)] blocks_present(2)[OF b(2)]
      blocks_present(3)[OF b(3)] blocks_present(4)[OF b(4)] by blast
  with assms(1) c have "client = FreeRouter ps"
    by (cases ps) (auto simp: build_chat_model_client_def free_model_router_def)
  moreover have "\<forall>p \<in> set ps. free_endpoint fs p"
    using collect_Inr[OF c] free_providers_free by blast
  ultimately show thesis using that \<open>ps \<noteq> []\<close> by blast
qed

section \<open>Requests and failures\<close>

text \<open>An HTTP library that keeps the requests it is given and answers as it likes.\<close>

definition logging_models :: "(model_http_request list \<Rightarrow> model_http_request \<Rightarrow> model_http_result) \<Rightarrow> model_http_request list model_http" where
  "logging_models answer req sent = (answer sent req, sent @ [req])"

lemma openai_reply_error:
  "fst (openai_reply http cfg prompt messages w) = Inl e \<Longrightarrow>
   e \<in> ChatModelError ` {''Chat model request timed out'', ''Chat model provider request failed'',
     ''Chat model returned an invalid response''}"
  by (auto simp: openai_reply_def completion_result_def split: prod.splits model_http_result.splits if_splits option.splits)

text \<open>
  The router asks the providers in their order, one request each, until one answers: the requests it sent are those of
  an initial part of the list, all but the last failed, and when it fails it asked every one.
\<close>

lemma try_providers_sends:
  "\<exists>k \<le> length ps. snd (try_providers (logging_models ans) ps failed prompt messages sent) =
       sent @ map (\<lambda>p. completion_request (fp_config p) prompt messages) (take k ps) \<and>
     (\<forall>e. fst (try_providers (logging_models ans) ps failed prompt messages sent) = Inl e \<longrightarrow>
        k = length ps \<and> e = ChatModelError (''all configured free AI providers are temporarily unavailable: '' @
          join '', '' (failed @ map fp_name ps)))"
proof (induction ps arbitrary: failed sent)
  case Nil
  then show ?case by simp
next
  case (Cons p ps)
  let ?q = "completion_request (fp_config p) prompt messages"
  have step: "openai_reply (logging_models ans) (fp_config p) prompt messages sent = (completion_result (ans sent ?q), sent @ [?q])"
    by (simp add: openai_reply_def logging_models_def)
  show ?case
  proof (cases "completion_result (ans sent ?q)")
    case (Inr t)
    with step show ?thesis by (intro exI[of _ 1]) simp
  next
    case (Inl e)
    then obtain m where e: "e = ChatModelError m"
      using openai_reply_error[of "logging_models ans" "fp_config p" prompt messages sent e] step by auto
    from Cons.IH[of "failed @ [fp_name p]" "sent @ [?q]"] obtain k where "k \<le> length ps"
      "snd (try_providers (logging_models ans) ps (failed @ [fp_name p]) prompt messages (sent @ [?q])) =
         (sent @ [?q]) @ map (\<lambda>p. completion_request (fp_config p) prompt messages) (take k ps) \<and>
       (\<forall>e. fst (try_providers (logging_models ans) ps (failed @ [fp_name p]) prompt messages (sent @ [?q])) = Inl e \<longrightarrow>
          k = length ps \<and> e = ChatModelError (''all configured free AI providers are temporarily unavailable: '' @
            join '', '' ((failed @ [fp_name p]) @ map fp_name ps)))" by blast
    with step Inl e show ?thesis by (intro exI[of _ "Suc k"]) simp
  qed
qed

text \<open>What a client answers is never empty and has no surrounding blanks left; its errors carry no text of the provider.\<close>

lemma completion_text_stripped: "completion_text v = Some t \<Longrightarrow> \<exists>c. t = strip c \<and> t \<noteq> []"
  by (auto simp: completion_text_def split: option.splits json.splits list.splits if_splits)

lemma client_reply_error:
  assumes "client_reply (logging_models ans) client prompt messages sent = (Inl e, t)"
  shows "\<exists>m. e = ChatModelError m \<and>
    (m \<in> {''Chat model request timed out'', ''Chat model provider request failed'', ''Chat model returned an invalid response''} \<or>
     (\<exists>ps. client = FreeRouter ps \<and> m = ''all configured free AI providers are temporarily unavailable: '' @ join '', '' (map fp_name ps)))"
proof (cases client)
  case (SingleClient cfg)
  with openai_reply_error[of "logging_models ans" cfg prompt messages sent e] assms show ?thesis by auto
next
  case (FreeRouter ps)
  with try_providers_sends[of ps ans "[]" prompt messages sent] assms
  show ?thesis by (auto simp: free_reply_def)
qed

end
