(* ===== verification/Settings.thy ===== *)
theory Settings
  imports Sandbox Model_Client Mcp_Client Recovery_Status
begin

text \<open>
  The configuration: \<open>config.py\<close>, the checks of \<open>RecoveryService\<close>'s constructor and what \<open>code_changes/runtime.py\<close> makes of the
  settings. Settings are values after parsing; expanding and resolving paths, \<open>urlsplit\<close> and \<open>ip_address\<close> are arguments.
\<close>

section \<open>The settings\<close>

record settings =
  se_environment :: string
  se_mode :: operating_mode
  se_simulation :: bool
  se_root_path :: string
  se_password_hash :: "string option"
  se_session_secret :: "string option"
  se_lifetime_hours :: int
  se_mirror :: "string option"
  se_sandbox :: "string option"
  se_own_source :: "string option"
  se_dripvid_source :: "string option"
  se_publish_token_file :: "string option"
  se_mcp_socket :: string
  se_mcp_token_file :: "string option"
  se_mcp_timeout :: rat
  se_recovery_enabled :: bool
  se_observe_only :: bool
  se_observation :: int
  se_threshold :: int
  se_cooldown :: int
  se_budget :: int
  se_window :: int
  se_verify :: int
  se_ready_url :: string
  se_models :: model_settings

text \<open>\<open>sv_url\<close> gives scheme and host name, or nothing where \<open>urlsplit\<close> raises; \<open>sv_loopback\<close> nothing for no IP address.\<close>

record settings_env =
  sv_resolve :: "string \<Rightarrow> string list"
  sv_expand :: "string \<Rightarrow> string"
  sv_windows :: bool
  sv_url :: "string \<Rightarrow> (string \<times> string option) option"
  sv_loopback :: "string \<Rightarrow> bool option"

definition is_production :: "settings \<Rightarrow> bool" where
  "is_production st \<longleftrightarrow> casefold (se_environment st) = ''production''"

definition resolved_path :: "settings_env \<Rightarrow> string option \<Rightarrow> string list option" where
  "resolved_path env p = map_option (sv_resolve env) p"

definition absolute_path :: "settings_env \<Rightarrow> string \<Rightarrow> bool" where
  "absolute_path env p \<longleftrightarrow> take 1 (sv_expand env p) = ''/''"

section \<open>The validators\<close>

definition field_bounds :: "settings \<Rightarrow> bool" where
  "field_bounds st \<longleftrightarrow>
     1 / 2 \<le> se_mcp_timeout st \<and> se_mcp_timeout st \<le> 30 \<and>
     10 \<le> se_observation st \<and> se_observation st \<le> 300 \<and> 2 \<le> se_threshold st \<and> se_threshold st \<le> 10 \<and>
     60 \<le> se_cooldown st \<and> 1 \<le> se_budget st \<and> se_budget st \<le> 5 \<and> 60 \<le> se_window st \<and>
     10 \<le> se_verify st \<and> se_verify st \<le> 300"

fun sandbox_sources :: "string list \<Rightarrow> (string \<times> string list option) list \<Rightarrow> exn + unit" where
  "sandbox_sources sandbox [] = Inr ()"
| "sandbox_sources sandbox ((name, None) # rest) = sandbox_sources sandbox rest"
| "sandbox_sources sandbox ((name, Some source) # rest) =
     unless (overlaps source sandbox)
       (ValueError (''repository sandbox must not overlap the '' @ name @ '' repository source''))
       (sandbox_sources sandbox rest)"

definition validate_sandbox_paths :: "settings_env \<Rightarrow> settings \<Rightarrow> exn + unit" where
  "validate_sandbox_paths env st =
     (case resolved_path env (se_sandbox st) of
        None \<Rightarrow> Inr ()
      | Some sandbox \<Rightarrow>
          sandbox_sources sandbox [(''AI HQ'', resolved_path env (se_own_source st)),
                                   (''DripVid'', resolved_path env (se_dripvid_source st))])"

definition live_deployment_roots :: "string list" where
  "live_deployment_roots =
     [''/opt/ai-hq/app'', ''/opt/ai-hq/current'', ''/opt/ai-hq/releases'', ''/opt/dripvid/app'', ''/opt/dripvid/current'',
      ''/opt/dripvid/releases'']"

definition validate_sources :: "settings_env \<Rightarrow> settings \<Rightarrow> exn + unit" where
  "validate_sources env st =
     validate_production_paths (is_production st) (map (sv_resolve env) live_deployment_roots)
       (resolved_path env (se_mirror st)) (resolved_path env (se_sandbox st)) (resolved_path env (se_own_source st))
       (resolved_path env (se_dripvid_source st))"

definition validate_mcp_paths :: "settings_env \<Rightarrow> settings \<Rightarrow> exn + unit" where
  "validate_mcp_paths env st =
     (let bad = ValueError ''AI HQ production DripVid MCP socket must be an absolute Unix path'' in
      if \<not> is_production st then Inr ()
      else unless (is_infix ''://'' (strip (se_mcp_socket st))) bad
        (unless (\<not> sv_windows env \<and> \<not> absolute_path env (se_mcp_socket st)) bad
          (unless ((case se_mcp_token_file st of None \<Rightarrow> False | Some p \<Rightarrow> \<not> absolute_path env p) \<and> \<not> sv_windows env)
             (ValueError ''AI HQ production DripVid MCP token path must be absolute'') (Inr ()))))"

definition loopback_url :: "settings_env \<Rightarrow> string \<Rightarrow> bool" where
  "loopback_url env url =
     (case sv_url env url of
        None \<Rightarrow> False
      | Some (scheme, host) \<Rightarrow>
          casefold scheme = ''http'' \<and>
          (case host of
             None \<Rightarrow> False
           | Some h \<Rightarrow> h \<noteq> [] \<and> (casefold h = ''localhost'' \<or> sv_loopback env h = Some True)))"

definition validate_recovery_policy :: "settings_env \<Rightarrow> settings \<Rightarrow> exn + unit" where
  "validate_recovery_policy env st =
     unless (se_window st < se_cooldown st)
       (ValueError ''AI HQ recovery budget window must be at least as long as the recovery cooldown'')
     (unless (is_production st \<and> \<not> loopback_url env (se_ready_url st))
        (ValueError ''AI HQ production recovery readiness URL must use loopback HTTP'') (Inr ()))"

definition validate_production_security :: "settings \<Rightarrow> exn + unit" where
  "validate_production_security st =
     (if \<not> is_production st then Inr ()
      else unless (\<not> present (se_password_hash st)) (ValueError ''AI HQ admin password hash is required in production'')
        (unless (case se_session_secret st of None \<Rightarrow> True | Some s \<Rightarrow> length s < 32)
           (ValueError ''AI HQ session secret must be at least 32 characters in production'')
         (unless (se_mode st \<noteq> MODE_SAFE) (ValueError ''AI HQ production must start in safe operating mode'')
          (unless (\<not> se_simulation st) (ValueError ''AI HQ production must start with simulation mode enabled'')
           (unless (take 1 (se_root_path st) \<noteq> ''/'' \<or> se_root_path st = ''/'')
              (ValueError ''AI HQ root path must be a non-root absolute path'')
            (unless (se_lifetime_hours st < 1 \<or> 24 < se_lifetime_hours st)
               (ValueError ''AI HQ session lifetime must be between 1 and 24 hours'') (Inr ())))))))"

text \<open>The field constraints, then the validators in their order; the first refusal is the outcome.\<close>

definition check_settings :: "settings_env \<Rightarrow> settings \<Rightarrow> exn + unit" where
  "check_settings env st =
     unless (\<not> field_bounds st) (ValueError ''field constraint'')
     (andThen (validate_sandbox_paths env st) (\<lambda>_.
      andThen (validate_sources env st) (\<lambda>_.
      andThen (validate_mcp_paths env st) (\<lambda>_.
      andThen (validate_recovery_policy env st) (\<lambda>_.
      validate_production_security st)))))"

section \<open>What is built from them\<close>

definition recovery_config_of :: "settings \<Rightarrow> recovery_config" where
  "recovery_config_of st =
     \<lparr>rv_failure_threshold = se_threshold st, rv_observation_seconds = se_observation st,
      rv_cooldown_seconds = se_cooldown st, rv_attempt_budget = se_budget st, rv_window_seconds = se_window st\<rparr>"

definition worker_settings_of :: "settings \<Rightarrow> worker_settings" where
  "worker_settings_of st =
     \<lparr>wr_recovery_enabled = se_recovery_enabled st, wr_observe_only = se_observe_only st, wr_mode = se_mode st,
      wr_threshold = se_threshold st, wr_observation_seconds = se_observation st\<rparr>"

definition web_settings_of :: "settings \<Rightarrow> web_settings" where
  "web_settings_of st =
     \<lparr>ws_production = is_production st, ws_secret = se_session_secret st, ws_lifetime_hours = se_lifetime_hours st,
      ws_password_hash = se_password_hash st, ws_root_path = se_root_path st\<rparr>"

definition recovery_service_check :: "recovery_config \<Rightarrow> exn + unit" where
  "recovery_service_check c =
     unless (rv_failure_threshold c < 2) (ValueError ''failure threshold must be at least 2'')
     (unless (rv_observation_seconds c < 1) (ValueError ''observation interval must be positive'')
      (unless (rv_cooldown_seconds c < 1) (ValueError ''recovery cooldown must be positive'')
       (unless (rv_attempt_budget c < 1) (ValueError ''recovery attempt budget must be positive'')
        (unless (rv_window_seconds c < rv_cooldown_seconds c) (ValueError ''recovery budget window must cover cooldown'')
           (Inr ())))))"

definition load_github_publish_token :: "bool \<Rightarrow> token_file option \<Rightarrow> exn + string" where
  "load_github_publish_token = token_in_file ''GitHub publisher token''"

text \<open>The parts of the code-change service that depend on the settings.\<close>

record change_parts =
  ch_profiles :: "(string \<times> profile) list"
  ch_sources :: "(string \<times> string list) list"
  ch_publish_token :: "string option"
  ch_descriptions :: "(string \<times> string) list"

definition path_text :: "string list \<Rightarrow> string" where
  "path_text parts = ''/'' @ join ''/'' parts"

definition build_code_change_parts ::
  "settings_env \<Rightarrow> path_facts \<Rightarrow> string \<Rightarrow> string \<Rightarrow> (string \<Rightarrow> token_file option) \<Rightarrow> settings \<Rightarrow> bool \<Rightarrow> bool \<Rightarrow>
   exn + change_parts option" where
  "build_code_change_parts env facts python dash files st has_model publishing =
     andThen (validate_sources env st) (\<lambda>_.
       case (resolved_path env (se_sandbox st), resolved_path env (se_own_source st), resolved_path env (se_dripvid_source st)) of
         (Some sandbox, Some own, Some dripvid) \<Rightarrow>
           if \<not> has_model then Inr None
           else andThen (own_profile facts python dash (path_text own) ''main'') (\<lambda>p.
                andThen (dripvid_profile facts dash (path_text dripvid) ''main'') (\<lambda>q.
                andThen (make_profile_registry [p, q]) (\<lambda>registry.
                andThen (if publishing \<and> present (se_publish_token_file st)
                         then map_sum id Some (load_github_publish_token (sv_windows env) (files (the (se_publish_token_file st))))
                         else Inr None) (\<lambda>token.
                Inr (Some \<lparr>ch_profiles = registry, ch_sources = [(''ai-hq'', own), (''dripvid'', dripvid)],
                           ch_publish_token = token,
                           ch_descriptions = [(rp_key p, rp_description p), (rp_key q, rp_description q)]\<rparr>)))))
       | _ \<Rightarrow> Inr None)"

definition runner_source :: "change_parts \<Rightarrow> string \<Rightarrow> exn + string list" where
  "runner_source parts repository =
     (case map_of (ch_sources parts) repository of
        None \<Rightarrow> Inl (ValueError ''unknown trusted repository'')
      | Some source \<Rightarrow> Inr source)"

section \<open>Readiness and the password command\<close>

definition readiness_payload :: "bool \<Rightarrow> bool \<Rightarrow> int \<times> dict" where
  "readiness_payload database_ok redis_ok =
     (let ready = database_ok \<and> redis_ok in
      (if ready then 200 else 503,
       [(''status'', JStr (if ready then ''ready'' else ''not_ready'')),
        (''database'', JStr (if database_ok then ''ok'' else ''unavailable'')),
        (''redis'', JStr (if redis_ok then ''ok'' else ''unavailable''))]))"

text \<open>\<open>Inl\<close> is the text of \<open>SystemExit\<close>, \<open>Inr\<close> the printed hash; the hash function is given.\<close>

definition hash_admin_password :: "(string \<Rightarrow> string) \<Rightarrow> string \<Rightarrow> string \<Rightarrow> string + string" where
  "hash_admin_password hash password confirmation =
     (if password \<noteq> confirmation then Inl ''AI HQ admin passwords do not match''
      else if length password < 12 then Inl ''AI HQ admin password must be at least 12 characters''
      else Inr (hash password))"

section \<open>What accepted settings give\<close>

lemma check_settings_parts:
  assumes "check_settings env st = Inr ()"
  shows "field_bounds st" "validate_sandbox_paths env st = Inr ()" "validate_sources env st = Inr ()"
    "validate_mcp_paths env st = Inr ()" "validate_recovery_policy env st = Inr ()" "validate_production_security st = Inr ()"
  using assms by (auto simp: check_settings_def unless_def andThen_def split: if_splits sum.splits)

text \<open>The constructors that take these settings never refuse them.\<close>

lemma accepted_recovery: "check_settings env st = Inr () \<Longrightarrow> recovery_service_check (recovery_config_of st) = Inr ()"
  using check_settings_parts(1,5)[of env st]
  by (auto simp: recovery_service_check_def recovery_config_of_def field_bounds_def validate_recovery_policy_def unless_def
      split: if_splits)

lemma accepted_mcp_client:
  assumes "check_settings env st = Inr ()" and "is_production st" and "\<not> sv_windows env"
    and "\<not> is_infix ''://'' (sv_expand env (se_mcp_socket st))" and "load_token windows f = Inr token"
  shows "client_check token (sv_expand env (se_mcp_socket st)) (se_mcp_timeout st) = Inr ()"
  using check_settings_parts(1,4)[OF assms(1)] assms(2-)
  by (auto simp: load_token_def token_in_file_def client_check_def field_bounds_def validate_mcp_paths_def absolute_path_def
      unless_def Let_def split: option.splits if_splits)

text \<open>
  In production the settings always say \<open>SAFE\<close> and simulation, so the gates of the worker, the recovery cycle and the
  drill that look for \<open>FREEZE\<close> there never close: freezing works through the stored system state only.
\<close>

lemma production_never_frozen:
  assumes "check_settings env st = Inr ()" and "is_production st"
  shows "se_mode st = MODE_SAFE" and "se_simulation st" and "wr_mode (worker_settings_of st) \<noteq> MODE_FREEZE"
    and "\<exists>s. se_session_secret st = Some s \<and> 32 \<le> length s" and "present (se_password_hash st)"
  using check_settings_parts(6)[OF assms(1)] assms(2)
  by (auto simp: validate_production_security_def worker_settings_of_def unless_def split: if_splits option.splits)

text \<open>The sandbox is apart from every configured source, and in production the sources lie strictly below the mirror.\<close>

lemma accepted_sandbox:
  assumes "check_settings env st = Inr ()" and "resolved_path env (se_sandbox st) = Some sandbox"
    and "resolved_path env (se_own_source st) = Some source \<or> resolved_path env (se_dripvid_source st) = Some source"
  shows "\<not> overlaps source sandbox"
  using check_settings_parts(2)[OF assms(1)] assms(2,3)
  by (cases "resolved_path env (se_own_source st)"; cases "resolved_path env (se_dripvid_source st)")
     (auto simp: validate_sandbox_paths_def unless_def split: if_splits)

lemma accepted_sources:
  assumes "check_settings env st = Inr ()" and "is_production st"
    and "resolved_path env (se_own_source st) = Some source \<or> resolved_path env (se_dripvid_source st) = Some source"
  obtains mirror sandbox where "resolved_path env (se_mirror st) = Some mirror" "resolved_path env (se_sandbox st) = Some sandbox"
    "strict_prefix mirror source" "\<not> overlaps mirror sandbox"
    "\<forall>root \<in> set (map (sv_resolve env) live_deployment_roots). \<not> prefix root source"
proof -
  note v = check_settings_parts(3)[OF assms(1), unfolded validate_sources_def]
  obtain m s a d where mm: "resolved_path env (se_mirror st) = Some m" "resolved_path env (se_sandbox st) = Some s"
    "resolved_path env (se_own_source st) = Some a" "resolved_path env (se_dripvid_source st) = Some d"
    using v assms(2,3) by (auto simp: validate_production_paths_def split: option.splits)
  from v mm assms(2) have "\<not> overlaps m s" "a \<noteq> m" "prefix m a" "d \<noteq> m" "prefix m d"
    "\<forall>root \<in> set (map (sv_resolve env) live_deployment_roots). \<not> prefix root a \<and> \<not> prefix root d"
    by (auto simp: validate_production_paths_def unless_def list_ex_iff split: if_splits)
  with mm assms(3) show thesis
    by (intro that[of m s]) (auto simp: strict_prefix_def)
qed

text \<open>The code-change service is built for the two trusted repositories only.\<close>

lemma built_sources:
  assumes "build_code_change_parts env facts python dash files st has_model publishing = Inr (Some parts)"
  shows "runner_source parts r = Inr source \<Longrightarrow> r \<in> {''ai-hq'', ''dripvid''}" and "has_model"
    and "ch_publish_token parts \<noteq> None \<Longrightarrow> publishing \<and> present (se_publish_token_file st)"
  using assms
  by (auto simp: build_code_change_parts_def andThen_def runner_source_def split: sum.splits option.splits if_splits)

end
