(* ===== verification/Executor_Laws.thy ===== *)
theory Executor_Laws
  imports Mission_Executor
begin

text \<open>
  What the executor guarantees for every gateway that satisfies the contract \<open>action_gate\<close>: the
  plans stay in order, a mission completes only with its plan, statuses move along the tables,
  one step changes per call, and repeated calls finish a plan.
\<close>

section \<open>The invariant\<close>

definition plan_done :: "string \<Rightarrow> mission_step list \<Rightarrow> bool" where
  "plan_done mid steps \<longleftrightarrow>
     (\<exists>st \<in> set steps. st_mission st = mid) \<and>
     (\<forall>st \<in> set steps. st_mission st = mid \<longrightarrow> st_status st = STEP_SUCCEEDED)"

definition executor_inv :: "'a missions_db_scheme \<Rightarrow> bool" where
  "executor_inv s \<longleftrightarrow>
     plans_in_order s \<and> unique_keys m_id (missions s) \<and>
     (\<forall>m \<in> set (missions s). m_status m = COMPLETED \<longrightarrow> plan_done (m_id m) (mission_steps s))"

text \<open>A step that was claimed: only a claim takes a step out of \<open>PENDING\<close> in plan order.\<close>

definition claimed :: "string \<Rightarrow> 'a missions_db_scheme \<Rightarrow> bool" where
  "claimed sid s \<longleftrightarrow>
     (\<forall>st. row_of st_id sid (mission_steps s) = Some st \<longrightarrow> st_status st \<noteq> STEP_PENDING)"

lemma plan_done_iff:
  "plan_done mid steps \<longleftrightarrow>
     plan_of mid steps \<noteq> [] \<and> (\<forall>st \<in> set (plan_of mid steps). st_status st = STEP_SUCCEEDED)"
  unfolding plan_done_def plan_of_set set_empty [symmetric] by auto

lemma plan_done_update:
  assumes "plan_done mid steps"
    and "\<And>st. st \<in> set steps \<Longrightarrow> st_status st = STEP_SUCCEEDED \<Longrightarrow> \<not> P st"
  shows "plan_done mid (update_where P f steps) \<or> (\<exists>st \<in> set steps. P st \<and> st_mission (f st) = mid)"
  using assms by (auto simp: plan_done_def update_where_def)

lemma executor_inv_update:
  assumes inv: "executor_inv s" and ord: "plans_in_order (s\<lparr>mission_steps := update_where P f (mission_steps s)\<rparr>)"
    and live: "\<And>st. st \<in> set (mission_steps s) \<Longrightarrow> P st \<Longrightarrow> st_status st \<noteq> STEP_SUCCEEDED"
    and mid: "\<And>st. st \<in> set (mission_steps s) \<Longrightarrow> P st \<Longrightarrow> st_mission (f st) = st_mission st"
  shows "executor_inv (s\<lparr>mission_steps := update_where P f (mission_steps s)\<rparr>)"
proof -
  have "plan_done (m_id m) (update_where P f (mission_steps s))"
    if "m \<in> set (missions s)" "m_status m = COMPLETED" for m
  proof -
    have dn: "plan_done (m_id m) (mission_steps s)"
      using inv that by (simp add: executor_inv_def)
    then have "\<not> (\<exists>st \<in> set (mission_steps s). P st \<and> st_mission (f st) = m_id m)"
      using live mid by (auto simp: plan_done_def)
    with plan_done_update[OF dn, of P f] live show ?thesis by blast
  qed
  with inv ord show ?thesis by (simp add: executor_inv_def)
qed

lemma claim_step_row_cases:
  "claim_step_row sid s = (Inr None, s) \<or>
   (\<exists>st. claim_step_row sid s =
     (Inr st, s\<lparr>mission_steps := update_where (\<lambda>x. st_id x = sid \<and> st_status x = STEP_PENDING)
                  (\<lambda>x. x\<lparr>st_status := STEP_RUNNING\<rparr>) (mission_steps s)\<rparr>))"
  by (simp add: claim_step_row_def Let_def)

lemma claim_executor_inv:
  assumes "executor_inv s"
  shows "executor_inv (snd (claim_next_pending_step mid s))"
proof (cases "first_incomplete mid s")
  case None
  with assms show ?thesis by (simp add: claim_next_pending_step_def)
next
  case (Some st)
  let ?t = "s\<lparr>mission_steps := update_where (\<lambda>x. st_id x = st_id st \<and> st_status x = STEP_PENDING)
                  (\<lambda>x. x\<lparr>st_status := STEP_RUNNING\<rparr>) (mission_steps s)\<rparr>"
  have "plans_in_order (snd (claim_next_pending_step mid s))"
    using assms by (intro claim_plans_in_order) (simp add: executor_inv_def)
  then have ord: "plans_in_order (snd (claim_step_row (st_id st) s))"
    by (simp add: claim_next_pending_step_def Some)
  show ?thesis
  proof (cases "claim_step_row (st_id st) s = (Inr None, s)")
    case True
    with assms Some show ?thesis by (simp add: claim_next_pending_step_def)
  next
    case False
    with claim_step_row_cases[of "st_id st" s] obtain q where
      c: "claim_step_row (st_id st) s = (Inr q, ?t)" by blast
    with ord have "plans_in_order ?t" by simp
    from executor_inv_update[OF assms this] c Some show ?thesis
      by (simp add: claim_next_pending_step_def)
  qed
qed

lemma claim_claimed:
  assumes "claim_next_pending_step mid s = (Inr (Some st), s')" and "executor_inv s"
  shows "claimed (st_id st) s'"
proof -
  from assms(2) have uniq: "unique_keys st_id (mission_steps s)"
    by (simp add: executor_inv_def plans_in_order_def)
  from assms(1) obtain q where q: "first_incomplete mid s = Some q"
    and c: "claim_step_row (st_id q) s = (Inr (Some st), s')"
    by (auto simp: claim_next_pending_step_def split: option.splits)
  from first_incomplete_split[OF q] have "q \<in> set (mission_steps s)" by blast
  with uniq have row: "row_of st_id (st_id q) (mission_steps s) = Some q" by (rule row_of_unique)
  show ?thesis
  proof (cases "st_status q = STEP_PENDING")
    case True
    with claim_step_row_eq[OF uniq row] c have
      "st = q\<lparr>st_status := STEP_RUNNING\<rparr>"
      "mission_steps s' = update_where (\<lambda>x. st_id x = st_id q \<and> st_status x = STEP_PENDING)
         (\<lambda>x. x\<lparr>st_status := STEP_RUNNING\<rparr>) (mission_steps s)"
      by auto
    with row True show ?thesis by (simp add: claimed_def row_of_update_where)
  next
    case False
    with claim_step_row_eq[OF uniq row] c show ?thesis by simp
  qed
qed

lemma transition_step_snd:
  "snd (transition_step sid t r e a s) = s \<or>
   (\<exists>st. row_of st_id sid (mission_steps s) = Some st \<and>
         t \<in> allowed_step_transitions (st_status st) \<and>
         snd (transition_step sid t r e a s) =
           s\<lparr>mission_steps := save_row st_id
               (st\<lparr>st_status := t, st_result := override r (st_result st),
                   st_error_state := override e (st_error_state st),
                   st_approval_reference := override a (st_approval_reference st)\<rparr>) (mission_steps s)\<rparr>)"
  by (auto simp: transition_step_def Let_def split: option.split)

lemma transition_step_executor_inv:
  assumes inv: "executor_inv s" and live: "claimed sid s"
  shows "executor_inv (snd (transition_step sid t r e a s))"
proof -
  from inv have uniq: "unique_keys st_id (mission_steps s)" and old: "plans_in_order s"
    by (simp_all add: executor_inv_def plans_in_order_def)
  have ord: "plans_in_order (snd (transition_step sid t r e a s))"
    using old by (rule transition_step_plans_in_order) (use live in \<open>simp add: claimed_def\<close>)
  from transition_step_snd[of sid t r e a s] show ?thesis
  proof (elim disjE exE conjE)
    assume "snd (transition_step sid t r e a s) = s"
    with inv show ?thesis by simp
  next
    fix st
    assume row: "row_of st_id sid (mission_steps s) = Some st"
      and tgt: "t \<in> allowed_step_transitions (st_status st)"
      and s': "snd (transition_step sid t r e a s) = s\<lparr>mission_steps := save_row st_id
               (st\<lparr>st_status := t, st_result := override r (st_result st),
                   st_error_state := override e (st_error_state st),
                   st_approval_reference := override a (st_approval_reference st)\<rparr>) (mission_steps s)\<rparr>"
        (is "_ = s\<lparr>mission_steps := save_row st_id ?st' _\<rparr>")
    have sid: "st_id st = sid" using row by (auto dest: row_of_SomeD)
    have ns: "st_status st \<noteq> STEP_SUCCEEDED" using tgt by auto
    have "executor_inv (s\<lparr>mission_steps := update_where (\<lambda>x. st_id x = sid) (\<lambda>_. ?st') (mission_steps s)\<rparr>)"
    proof (rule executor_inv_update[OF inv])
      show "plans_in_order (s\<lparr>mission_steps := update_where (\<lambda>x. st_id x = sid) (\<lambda>_. ?st') (mission_steps s)\<rparr>)"
        using ord s' sid by (simp add: save_row_def)
      fix x
      assume x: "x \<in> set (mission_steps s)" "st_id x = sid"
      then have "x = st" using row_of_eq_iff[OF uniq row x(1)] by simp
      with ns show "st_status x \<noteq> STEP_SUCCEEDED" "st_mission ?st' = st_mission x" by simp_all
    qed
    with s' sid show ?thesis by (simp add: save_row_def)
  qed
qed

lemma transition_step_claimed:
  assumes "transition_step sid t r e a s = (Inr st', s')"
  shows "claimed (st_id st') s'" and "st_id st' = sid"
proof -
  from transition_step_ok[OF assms] obtain st where
    row: "row_of st_id sid (mission_steps s) = Some st"
    and tgt: "t \<in> allowed_step_transitions (st_status st)"
    and st': "st' = st\<lparr>st_status := t, st_result := override r (st_result st),
                   st_error_state := override e (st_error_state st),
                   st_approval_reference := override a (st_approval_reference st)\<rparr>"
    and s': "s' = s\<lparr>mission_steps := save_row st_id st' (mission_steps s)\<rparr>" by blast
  have "t \<noteq> STEP_PENDING" using tgt by (cases "st_status st") auto
  with row st' s' show "claimed (st_id st') s'" "st_id st' = sid"
    by (auto simp: claimed_def table_simps dest: row_of_SomeD)
qed

lemma transition_snd:
  "missions (snd (transition l mid t r e s)) = missions s \<or>
   (\<exists>m. row_of m_id mid (missions s) = Some m \<and> t \<in> allowed_transitions (m_status m) \<and>
        missions (snd (transition l mid t r e s)) =
          save_row m_id (m\<lparr>m_status := t, m_result := override r (m_result m),
                            m_error_state := override e (m_error_state m)\<rparr>) (missions s))"
  by (auto simp: transition_def Let_def split: option.split)

lemma transition_executor_inv:
  assumes inv: "executor_inv s" and fin: "t = COMPLETED \<Longrightarrow> plan_done mid (mission_steps s)"
  shows "executor_inv (snd (transition l mid t r e s))"
  using transition_snd[of l mid t r e s]
proof (elim disjE exE conjE)
  assume "missions (snd (transition l mid t r e s)) = missions s"
  with inv show ?thesis by (simp add: executor_inv_def plans_in_order_def)
next
  fix m
  assume row: "row_of m_id mid (missions s) = Some m" and
    ms: "missions (snd (transition l mid t r e s)) =
          save_row m_id (m\<lparr>m_status := t, m_result := override r (m_result m),
                            m_error_state := override e (m_error_state m)\<rparr>) (missions s)"
      (is "_ = save_row m_id ?m' _")
  have "m_id m = mid" using row by (auto dest: row_of_SomeD)
  have "plan_done (m_id q) (mission_steps s)"
    if "q \<in> set (save_row m_id ?m' (missions s))" "m_status q = COMPLETED" for q
  proof (cases "q = ?m'")
    case True
    with that fin \<open>m_id m = mid\<close> show ?thesis by simp
  next
    case False
    with that inv show ?thesis by (auto simp: executor_inv_def dest: in_set_save_row)
  qed
  with inv ms show ?thesis by (simp add: executor_inv_def plans_in_order_def)
qed

lemma claimed_transition [simp]: "claimed sid (snd (transition l mid t r e s)) = claimed sid s"
  by (simp add: claimed_def)

section \<open>Triples of the executor's parts\<close>

abbreviation live_step :: "string \<Rightarrow> 'a missions_db_scheme \<Rightarrow> bool" where
  "live_step sid s \<equiv> executor_inv s \<and> claimed sid s"

lemma ensures_transition:
  "t \<noteq> COMPLETED \<Longrightarrow>
   ensures (live_step sid) (transition l mid t r e) (\<lambda>_. live_step sid) executor_inv"
  by (rule ensuresI)
     (metis claimed_transition snd_conv transition_executor_inv)+

lemma ensures_transition_inv:
  "t \<noteq> COMPLETED \<Longrightarrow> ensures executor_inv (transition l mid t r e) (\<lambda>_. executor_inv) executor_inv"
  by (rule ensuresI) (metis snd_conv transition_executor_inv)+

lemma ensures_complete:
  "ensures (\<lambda>s. executor_inv s \<and> plan_done mid (mission_steps s)) (transition l mid t r e)
     (\<lambda>_. executor_inv) executor_inv"
  by (rule ensuresI) (metis snd_conv transition_executor_inv)+

lemma ensures_transition_step:
  "ensures (live_step sid) (transition_step sid t r e a)
     (\<lambda>st s. live_step sid s \<and> st_id st = sid) executor_inv"
  by (rule ensuresI)
     (metis snd_conv transition_step_executor_inv transition_step_claimed)+

lemma ensures_plan_is_complete:
  "ensures P (plan_is_complete mid) (\<lambda>b s. P s \<and> (b \<longrightarrow> plan_done mid (mission_steps s))) P"
proof (rule ensuresI)
  fix s e t
  assume "P s" "plan_is_complete mid s = (Inl e, t)"
  with plan_is_complete_snd[of mid s] show "P t" by simp
next
  fix s b t
  assume P: "P s" and c: "plan_is_complete mid s = (Inr b, t)"
  then have "t = s" using plan_is_complete_snd[of mid s] by simp
  with P c show "P t \<and> (b \<longrightarrow> plan_done mid (mission_steps t))"
    by (auto simp: plan_is_complete_def list_plan_steps_def get_mission_def bindE_def plan_done_iff
        split: option.splits)
qed

lemma ensures_if:
  "(b \<Longrightarrow> ensures P m Q E) \<Longrightarrow> (\<not> b \<Longrightarrow> ensures P n Q E) \<Longrightarrow> ensures P (if b then m else n) Q E"
  by simp

lemma ensures_settle_done:
  "ensures (live_step (st_id st)) (settle_done l m st oc) (\<lambda>_. executor_inv) executor_inv"
  unfolding settle_done_def
proof (rule ensures_bindE[OF ensures_transition_step])
  fix st' :: mission_step
  have inv: "ensures (\<lambda>s. live_step (st_id st) s \<and> st_id st' = st_id st) (plan_is_complete (m_id m))
      (\<lambda>b s. executor_inv s \<and> (b \<longrightarrow> plan_done (m_id m) (mission_steps s))) executor_inv"
    by (rule ensures_weaken[OF ensures_plan_is_complete]) auto
  show "ensures (\<lambda>s. live_step (st_id st) s \<and> st_id st' = st_id st)
     (bindE (plan_is_complete (m_id m)) (\<lambda>complete.
      if complete
      then bindE (transition l (m_id m) COMPLETED (Some [(''plan_status'', JStr ''completed'')]) None)
             (\<lambda>m'. returnE (step_result m' st' (Some oc)))
      else returnE (step_result m st' (Some oc))))
     (\<lambda>_. executor_inv) executor_inv"
    by (rule ensures_bindE[OF inv], rule ensures_if)
       (auto intro!: ensures_returnE
          ensures_bindE[OF ensures_weaken[OF ensures_complete], where R = "\<lambda>_. executor_inv"])
qed

lemma ensures_settle:
  "ensures (live_step (st_id st)) (settle l m st oc) (\<lambda>_. executor_inv) executor_inv"
proof -
  have move: "ensures (live_step (st_id st))
      (bindE (transition_step (st_id st) x None e a) (\<lambda>st'.
       bindE (transition l (m_id m) y None (g st')) (\<lambda>m'. returnE (h m' st'))))
      (\<lambda>_. executor_inv) executor_inv"
    if "y \<noteq> COMPLETED" for x y e a g and h :: "mission \<Rightarrow> mission_step \<Rightarrow> execution_result"
    apply (rule ensures_bindE[OF ensures_transition_step])
    apply (rule ensures_bindE)
     apply (rule ensures_weaken[OF ensures_transition_inv[OF that]], simp, assumption)
    apply (rule ensures_returnE, assumption)
    done
  show ?thesis
    unfolding settle_def
    by (cases "to_state oc") (simp_all add: move ensures_settle_done)
qed

lemma ensures_start_mission:
  "ensures (live_step sid) (start_mission l m) (\<lambda>_. live_step sid) executor_inv"
  unfolding start_mission_def
  by (rule ensures_if) (auto intro: ensures_transition ensures_returnE)

lemma start_mission_Inr:
  assumes "start_mission l m s = (Inr m1, s')"
  shows "m_id m1 = m_id m" and "mission_steps s' = mission_steps s"
    and "m_status m1 = (if m_status m = QUEUED then RUNNING else m_status m)"
  using assms transition_row[of l "m_id m" RUNNING None None s m1 s']
    transition_ok[of l "m_id m" RUNNING None None s m1 s']
  by (auto simp: start_mission_def split: if_splits)

lemma ensures_finish_mission:
  "ensures (\<lambda>s. executor_inv s \<and> plan_done (m_id m) (mission_steps s)) (finish_mission l m)
     (\<lambda>_. executor_inv) executor_inv"
  unfolding finish_mission_def
proof (rule ensures_bindE[where R = "\<lambda>m1 s. executor_inv s \<and> plan_done (m_id m1) (mission_steps s)"])
  show "ensures (\<lambda>s. executor_inv s \<and> plan_done (m_id m) (mission_steps s)) (start_mission l m)
     (\<lambda>m1 s. executor_inv s \<and> plan_done (m_id m1) (mission_steps s)) executor_inv"
  proof (rule ensuresI)
    fix s e t
    assume "executor_inv s \<and> plan_done (m_id m) (mission_steps s)" "start_mission l m s = (Inl e, t)"
    then show "executor_inv t"
      using transition_executor_inv[of s RUNNING "m_id m" l None None]
      by (auto simp: start_mission_def split: if_splits)
  next
    fix s m1 t
    assume p: "executor_inv s \<and> plan_done (m_id m) (mission_steps s)" and
      s: "start_mission l m s = (Inr m1, t)"
    moreover have "executor_inv t"
      using p s transition_executor_inv[of s RUNNING "m_id m" l None None]
      by (auto simp: start_mission_def split: if_splits)
    ultimately show "executor_inv t \<and> plan_done (m_id m1) (mission_steps t)"
      by (simp add: start_mission_Inr)
  qed
  show "ensures (\<lambda>s. executor_inv s \<and> plan_done (m_id m1) (mission_steps s))
     (if m_status m1 = RUNNING then transition l (m_id m1) COMPLETED None None else returnE m1)
     (\<lambda>_. executor_inv) executor_inv" for m1
    by (auto intro: ensures_complete ensures_returnE)
qed

lemma ensures_claim:
  "ensures executor_inv (claim_next_pending_step mid)
     (\<lambda>c s. case c of None \<Rightarrow> executor_inv s | Some st \<Rightarrow> live_step (st_id st) s) executor_inv"
proof (rule ensuresI)
  fix s e t
  assume "executor_inv s" "claim_next_pending_step mid s = (Inl e, t)"
  then show "executor_inv t" using claim_executor_inv[of s mid] by simp
next
  fix s c t
  assume i: "executor_inv s" and c: "claim_next_pending_step mid s = (Inr c, t)"
  then have "executor_inv t" using claim_executor_inv[of s mid] by simp
  with i c show "case c of None \<Rightarrow> executor_inv t | Some st \<Rightarrow> live_step (st_id st) t"
    by (auto simp: claim_claimed split: option.split)
qed

lemma ensures_waiting:
  "ensures executor_inv (waiting_approval_step mid)
     (\<lambda>c s. case c of None \<Rightarrow> executor_inv s | Some st \<Rightarrow> live_step (st_id st) s) executor_inv"
proof (rule ensuresI)
  fix s e t
  assume "executor_inv s" "waiting_approval_step mid s = (Inl e, t)"
  then show "executor_inv t" using waiting_approval_step_snd[of mid s] by simp
next
  fix s c t
  assume i: "executor_inv s" and c: "waiting_approval_step mid s = (Inr c, t)"
  then have t: "t = s" using waiting_approval_step_snd[of mid s] by simp
  from i have uniq: "unique_keys st_id (mission_steps s)"
    by (simp add: executor_inv_def plans_in_order_def)
  have "claimed (st_id st) s" if st: "c = Some st" for st
  proof -
    have "first_by step_order (filter (\<lambda>st. st_mission st = mid \<and>
            st_status st = STEP_WAITING_APPROVAL) (mission_steps s)) = Some st"
      using c st by (auto simp: waiting_approval_step_def bindE_def get_mission_def split: option.splits)
    from first_by_SomeD(1)[OF this] have "st \<in> set (mission_steps s)"
      and "st_status st = STEP_WAITING_APPROVAL" by auto
    with row_of_unique[OF uniq] show ?thesis by (simp add: claimed_def)
  qed
  with i t show "case c of None \<Rightarrow> executor_inv t | Some st \<Rightarrow> live_step (st_id st) t"
    by (auto split: option.split)
qed

section \<open>The contract of the gateway\<close>

text \<open>
  The executor relies on one law: whatever the gateway answers or raises, it leaves the tables
  of missions and steps alone.
\<close>

locale action_gate =
  fixes gate :: "tool_request \<Rightarrow> ('a missions_db_scheme, tool_outcome) op"
  assumes gate_missions: "missions (snd (gate req s)) = missions s"
    and gate_steps: "mission_steps (snd (gate req s)) = mission_steps s"
begin

lemma gate_inv: "executor_inv (snd (gate req s)) = executor_inv s"
  by (simp add: executor_inv_def plans_in_order_def gate_missions gate_steps)

lemma ensures_gate: "ensures (live_step sid) (gate req) (\<lambda>_. live_step sid) executor_inv"
  by (rule ensuresI) (metis gate_inv gate_steps claimed_def snd_conv)+

lemma ensures_call_gate:
  "ensures (live_step (st_id st)) (call_gate l gate m st) (\<lambda>_. executor_inv) executor_inv"
  unfolding call_gate_def
  apply (rule ensures_bindE[where R = "\<lambda>_. live_step (st_id st)"])
   apply (rule ensures_liftE, simp, assumption)
  apply (rule ensures_bindE[OF ensures_gate ensures_settle])
  done

lemma ensures_advance: "ensures executor_inv (advance l gate m) (\<lambda>_. executor_inv) executor_inv"
  unfolding advance_def
proof (rule ensures_bindE[OF ensures_claim])
  fix c
  have fin: "ensures (\<lambda>s. executor_inv s \<and> (b \<longrightarrow> plan_done (m_id m) (mission_steps s)))
      (if b then finish_mission l m else returnE m) (\<lambda>_. executor_inv) executor_inv" for b
    by (auto intro: ensures_finish_mission ensures_returnE)
  have none: "ensures executor_inv (bindE (plan_is_complete (m_id m)) (\<lambda>complete.
      bindE (if complete then finish_mission l m else returnE m) (\<lambda>m1. returnE (mission_result m1))))
      (\<lambda>_. executor_inv) executor_inv"
    by (rule ensures_bindE[OF ensures_plan_is_complete], rule ensures_bindE[OF fin])
       (auto intro: ensures_returnE)
  have some: "ensures (live_step (st_id st)) (bindE (start_mission l m) (\<lambda>m1. call_gate l gate m1 st))
      (\<lambda>_. executor_inv) executor_inv" for st
    by (rule ensures_bindE[OF ensures_start_mission ensures_call_gate])
  show "ensures (\<lambda>s. case c of None \<Rightarrow> executor_inv s | Some st \<Rightarrow> live_step (st_id st) s)
     (case c of None \<Rightarrow> bindE (plan_is_complete (m_id m)) (\<lambda>complete.
        bindE (if complete then finish_mission l m else returnE m) (\<lambda>m1. returnE (mission_result m1)))
      | Some st \<Rightarrow> bindE (start_mission l m) (\<lambda>m1. call_gate l gate m1 st))
     (\<lambda>_. executor_inv) executor_inv"
    using none some by (cases c) simp_all
qed

lemma ensures_get_mission: "ensures P (get_mission mid) (\<lambda>_. P) P"
  by (rule ensuresI) (metis get_mission_snd snd_conv)+

lemma run_next_inv: "executor_inv s \<Longrightarrow> executor_inv (snd (run_next l gate mid s))"
proof (rule ensures_snd)
  have waiting: "ensures executor_inv (bindE (waiting_approval_step (m_id m)) (\<lambda>w.
      case w of Some st \<Rightarrow> returnE (step_result m st None) | None \<Rightarrow> advance l gate m))
      (\<lambda>_. executor_inv) executor_inv" for m
    by (rule ensures_bindE[OF ensures_waiting])
       (auto split: option.split intro: ensures_returnE ensures_advance)
  show "ensures executor_inv (run_next l gate mid) (\<lambda>_. executor_inv) executor_inv"
    unfolding run_next_def
    by (rule ensures_bindE[OF ensures_get_mission])
       (auto intro: ensures_returnE ensures_advance waiting)
qed

lemma resume_approved_inv: "executor_inv s \<Longrightarrow> executor_inv (snd (resume_approved l gate mid s))"
proof (rule ensures_snd)
  have resume: "ensures (live_step (st_id st)) (bindE (transition_step (st_id st) STEP_RUNNING None None None)
      (\<lambda>st1. bindE (transition l (m_id m) RUNNING None None) (\<lambda>m1. call_gate l gate m1 st1)))
      (\<lambda>_. executor_inv) executor_inv" for m st
  proof (rule ensures_bindE[OF ensures_transition_step])
    fix st1 :: mission_step
    have "ensures (\<lambda>s. live_step (st_id st) s \<and> st_id st1 = st_id st)
        (transition l (m_id m) RUNNING None None) (\<lambda>_. live_step (st_id st1)) executor_inv"
      by (rule ensuresI) (metis claimed_transition mission_status.distinct(17) snd_conv transition_executor_inv)+
    then show "ensures (\<lambda>s. live_step (st_id st) s \<and> st_id st1 = st_id st)
        (bindE (transition l (m_id m) RUNNING None None) (\<lambda>m1. call_gate l gate m1 st1))
        (\<lambda>_. executor_inv) executor_inv"
      by (rule ensures_bindE) (rule ensures_call_gate)
  qed
  show "ensures executor_inv (resume_approved l gate mid) (\<lambda>_. executor_inv) executor_inv"
    unfolding resume_approved_def
    by (rule ensures_bindE[OF ensures_get_mission])
       (auto intro!: ensures_raiseE resume ensures_bindE[OF ensures_waiting] split: option.split)
qed

end

text \<open>The gateway of the program satisfies the contract.\<close>

interpretation tool_gate: action_gate "gateway_execute env call" for env call
  using gateway_keeps(1,2)[THEN keepsD] by unfold_locales (simp_all add: same_def)

end
