(* ===== verification/Mission_History.thy ===== *)
theory Mission_History
  imports Mission_Claims
begin

text \<open>
  Histories of the mission service: whatever sequence of its operations runs, with whatever
  arguments, every mission and every step moves along its transition table, and no row is lost.
\<close>

section \<open>Moves of rows between two states of the tables\<close>

definition mission_moves :: "'a missions_db_scheme \<Rightarrow> 'a missions_db_scheme \<Rightarrow> bool" where
  "mission_moves s t \<longleftrightarrow>
     (\<forall>k m. row_of m_id k (missions s) = Some m \<longrightarrow>
        (\<exists>m'. row_of m_id k (missions t) = Some m' \<and>
              mission_life.follows (m_status m) (m_status m')))"

definition step_moves :: "'a missions_db_scheme \<Rightarrow> 'a missions_db_scheme \<Rightarrow> bool" where
  "step_moves s t \<longleftrightarrow>
     (\<forall>k st. row_of st_id k (mission_steps s) = Some st \<longrightarrow>
        (\<exists>st'. row_of st_id k (mission_steps t) = Some st' \<and> st_mission st' = st_mission st \<and>
               st_position st' = st_position st \<and>
               step_life.follows (st_status st) (st_status st')))"

definition rows_move :: "'a missions_db_scheme \<Rightarrow> 'a missions_db_scheme \<Rightarrow> bool" where
  "rows_move s t \<longleftrightarrow> mission_moves s t \<and> step_moves s t"

lemma mission_moves_trans: "mission_moves s t \<Longrightarrow> mission_moves t u \<Longrightarrow> mission_moves s u"
  unfolding mission_moves_def by (meson mission_life.follows_trans)

lemma step_moves_trans:
  assumes "step_moves s t" and "step_moves t u"
  shows "step_moves s u"
  unfolding step_moves_def
proof (intro allI impI)
  fix k st
  assume "row_of st_id k (mission_steps s) = Some st"
  with assms(1) obtain st1 where
    1: "row_of st_id k (mission_steps t) = Some st1" "st_mission st1 = st_mission st"
       "st_position st1 = st_position st" "step_life.follows (st_status st) (st_status st1)"
    unfolding step_moves_def by blast
  with assms(2) obtain st2 where
    2: "row_of st_id k (mission_steps u) = Some st2" "st_mission st2 = st_mission st1"
       "st_position st2 = st_position st1" "step_life.follows (st_status st1) (st_status st2)"
    unfolding step_moves_def by blast
  have "step_life.follows (st_status st) (st_status st2)"
    using 2(4) 1(4) by (rule step_life.follows_trans)
  with 1 2 show "\<exists>st'. row_of st_id k (mission_steps u) = Some st' \<and>
      st_mission st' = st_mission st \<and> st_position st' = st_position st \<and>
      step_life.follows (st_status st) (st_status st')"
    by simp
qed

lemma mission_moves_same: "missions t = missions s \<Longrightarrow> mission_moves s t"
  by (simp add: mission_moves_def mission_life.stay)

lemma step_moves_same: "mission_steps t = mission_steps s \<Longrightarrow> step_moves s t"
  by (simp add: step_moves_def step_life.stay)

lemma rows_move_refl [simp]: "reflp rows_move"
  by (simp add: reflp_def rows_move_def mission_moves_same step_moves_same)

lemma rows_move_trans [simp]: "transp rows_move"
  by (auto simp: transp_def rows_move_def intro: mission_moves_trans step_moves_trans)

lemma mission_follows_step: "y \<in> allowed_transitions x \<Longrightarrow> mission_life.follows x y"
  by (rule mission_life.move[OF mission_life.stay])

lemma step_follows_step: "y \<in> allowed_step_transitions x \<Longrightarrow> step_life.follows x y"
  by (rule step_life.move[OF step_life.stay])

lemma mission_moves_save:
  assumes "row_of m_id (m_id m') (missions s) = Some m"
    and "mission_life.follows (m_status m) (m_status m')"
    and "missions t = save_row m_id m' (missions s)"
  shows "mission_moves s t"
  using assms by (auto simp: mission_moves_def table_simps mission_life.stay)

lemma mission_moves_update:
  assumes "missions t = update_where P f (missions s)"
    and "\<And>m. m_id (f m) = m_id m"
    and "\<And>m. P m \<Longrightarrow> mission_life.follows (m_status m) (m_status (f m))"
  shows "mission_moves s t"
  using assms by (auto simp: mission_moves_def row_of_update_where mission_life.stay)

lemma step_moves_save:
  assumes "row_of st_id (st_id st') (mission_steps s) = Some st"
    and "step_life.follows (st_status st) (st_status st')"
    and "st_mission st' = st_mission st" and "st_position st' = st_position st"
    and "mission_steps t = save_row st_id st' (mission_steps s)"
  shows "step_moves s t"
  using assms by (auto simp: step_moves_def table_simps step_life.stay)

lemma mission_moves_append: "missions t = missions s @ ms \<Longrightarrow> mission_moves s t"
  by (auto simp: mission_moves_def row_of_append mission_life.stay)

lemma step_moves_append: "mission_steps t = mission_steps s @ sts \<Longrightarrow> step_moves s t"
  by (auto simp: step_moves_def row_of_append step_life.stay)

section \<open>Each operation moves rows along the tables\<close>

lemma keeps_rows_bindE [keeps_intros]:
  "keeps rows_move m \<Longrightarrow> (\<And>x. keeps rows_move (f x)) \<Longrightarrow> keeps rows_move (bindE m f)"
  by (rule keeps_bindE) simp_all

lemma keeps_rows_basic [keeps_intros]:
  "keeps rows_move (returnE x)" "keeps rows_move (raiseE e)"
  "keeps rows_move (readE h)" "keeps rows_move (liftE r)"
  by (simp_all add: keeps_returnE keeps_raiseE keeps_readE keeps_liftE)

lemma rows_move_same:
  "missions t = missions s \<Longrightarrow> mission_steps t = mission_steps s \<Longrightarrow> rows_move s t"
  by (simp add: rows_move_def mission_moves_same step_moves_same)

lemma keeps_rows_query [keeps_intros]:
  "keeps rows_move (get_mission mid)" "keeps rows_move (list_plan_steps mid)"
  "keeps rows_move (waiting_approval_step mid)" "keeps rows_move (plan_is_complete mid)"
  by (simp_all add: keeps_def rows_move_same)

lemma keeps_rows_create [keeps_intros]: "keeps rows_move (create_mission l i c n)"
proof (rule keepsI)
  fix s
  show "rows_move s (snd (create_mission l i c n s))"
    by (cases "insert_row m_id (mission_row i c n) (missions s)")
       (auto simp: create_mission_def Let_def rows_move_def mission_moves_same step_moves_same
             dest!: insert_row_Inr intro!: mission_moves_append step_moves_same)
qed

lemma keeps_rows_plan [keeps_intros]: "keeps rows_move (create_plan reg ids mid es)"
proof (rule keepsI)
  fix s
  have "snd (create_plan reg ids mid es s) = s \<or>
        (\<exists>rows. snd (create_plan reg ids mid es s) = s\<lparr>mission_steps := mission_steps s @ rows\<rparr>)"
    by (auto simp: create_plan_def dest: insert_rows_Inr split: sum.split option.split)
  then show "rows_move s (snd (create_plan reg ids mid es s))"
  proof (elim disjE exE)
    assume "snd (create_plan reg ids mid es s) = s"
    then show ?thesis by (simp add: rows_move_same)
  next
    fix rows
    assume "snd (create_plan reg ids mid es s) = s\<lparr>mission_steps := mission_steps s @ rows\<rparr>"
    then show ?thesis
      by (simp add: rows_move_def mission_moves_same step_moves_append[where sts = rows])
  qed
qed

lemma keeps_rows_transition [keeps_intros]: "keeps rows_move (transition l mid x r e)"
proof (rule keepsI)
  fix s
  show "rows_move s (snd (transition l mid x r e s))"
  proof (cases "transition l mid x r e s")
    case (Pair res t)
    show ?thesis
    proof (cases res)
      case (Inl err)
      with Pair have "t = s" by (auto simp: transition_def Let_def split: option.splits if_splits)
      with Pair show ?thesis by (simp add: rows_move_same)
    next
      case (Inr m')
      with Pair transition_ok[of l mid x r e s m' t] obtain m where
        row: "row_of m_id mid (missions s) = Some m" and ok: "x \<in> allowed_transitions (m_status m)"
        and m': "m' = m\<lparr>m_status := x, m_result := override r (m_result m),
                        m_error_state := override e (m_error_state m)\<rparr>"
        and ms: "missions t = save_row m_id m' (missions s)"
        and sts: "mission_steps t = mission_steps s" by blast
      have "m_id m = mid" using row by (auto dest: row_of_SomeD)
      with row ok m' ms have "mission_moves s t"
        by (intro mission_moves_save[of m' s m t]) (simp_all add: mission_follows_step)
      with Pair sts show ?thesis by (simp add: rows_move_def step_moves_same)
    qed
  qed
qed

lemma keeps_rows_transition_step [keeps_intros]: "keeps rows_move (transition_step sid x r e a)"
proof (rule keepsI)
  fix s
  show "rows_move s (snd (transition_step sid x r e a s))"
  proof (cases "transition_step sid x r e a s")
    case (Pair res t)
    show ?thesis
    proof (cases res)
      case (Inl err)
      with Pair have "t = s" by (auto simp: transition_step_def Let_def split: option.splits if_splits)
      with Pair show ?thesis by (simp add: rows_move_same)
    next
      case (Inr st')
      with Pair transition_step_ok[of sid x r e a s st' t] obtain st where
        row: "row_of st_id sid (mission_steps s) = Some st"
        and ok: "x \<in> allowed_step_transitions (st_status st)"
        and st': "st' = st\<lparr>st_status := x, st_result := override r (st_result st),
                       st_error_state := override e (st_error_state st),
                       st_approval_reference := override a (st_approval_reference st)\<rparr>"
        and t: "t = s\<lparr>mission_steps := save_row st_id st' (mission_steps s)\<rparr>" by blast
      have "st_id st = sid" using row by (auto dest: row_of_SomeD)
      with row ok st' t have "step_moves s t"
        by (intro step_moves_save[of st' s st t]) (simp_all add: step_follows_step)
      with Pair t show ?thesis by (simp add: rows_move_def mission_moves_same)
    qed
  qed
qed

lemma keeps_rows_claim [keeps_intros]: "keeps rows_move (claim_next_pending_step mid)"
proof (rule keepsI)
  fix s
  have upd: "step_moves s (s\<lparr>mission_steps := update_where (\<lambda>x. st_id x = sid \<and> st_status x = STEP_PENDING)
               (\<lambda>x. x\<lparr>st_status := STEP_RUNNING\<rparr>) (mission_steps s)\<rparr>)" for sid
    by (auto simp: step_moves_def row_of_update_where step_life.stay intro!: step_follows_step)
  show "rows_move s (snd (claim_next_pending_step mid s))"
    by (auto simp: claim_next_pending_step_def claim_step_row_def Let_def rows_move_same
             rows_move_def mission_moves_same upd step_moves_same split: option.split)
qed

lemma keeps_rows_owner [keeps_intros]:
  "keeps rows_move (assign_owner mid w)" "keeps rows_move (record_result mid d)"
proof -
  have *: "rows_move s (s\<lparr>missions := save_row m_id m' (missions s)\<rparr>)"
    if "row_of m_id mid (missions s) = Some m" "m_id m' = m_id m" "m_status m' = m_status m" for s m m'
  proof -
    have "m_id m' = mid" using that by (auto dest: row_of_SomeD)
    with that have "mission_moves s (s\<lparr>missions := save_row m_id m' (missions s)\<rparr>)"
      by (intro mission_moves_save[where m = m and m' = m']) (simp_all add: mission_life.stay)
    then show ?thesis by (simp add: rows_move_def step_moves_same)
  qed
  show "keeps rows_move (assign_owner mid w)"
    by (rule keepsI) (auto simp: assign_owner_def Let_def rows_move_same intro: * split: option.split)
  show "keeps rows_move (record_result mid d)"
    by (rule keepsI) (auto simp: record_result_def Let_def rows_move_same intro: * split: option.split)
qed

lemma rows_move_claim_first: "rows_move s (snd (claim_first w now e mids s))"
proof (induction w now e mids s rule: claim_first.induct)
  case (1 w now e s)
  then show ?case by (simp add: rows_move_same)
next
  case (2 w now e mid mids s)
  let ?P = "\<lambda>m. m_id m = mid \<and> is_code_change m \<and> lease_claimable now m"
  have "mission_moves s (s\<lparr>missions := update_where ?P (lease_row w e) (missions s)\<rparr>)"
    by (rule mission_moves_update[where P = ?P and f = "lease_row w e"])
       (auto simp: lease_row_def lease_claimable_def mission_life.stay intro: mission_follows_step)
  with 2 show ?case
    by (auto simp: Let_def rows_move_def step_moves_same split: option.split)
qed

lemma keeps_rows_lease [keeps_intros]:
  "keeps rows_move (claim_oldest_code_change w n now)"
  "keeps rows_move (renew_code_change_lease mid w n now)"
  "keeps rows_move (release_code_change_lease mid w)"
proof -
  have upd: "rows_move s (s\<lparr>missions := update_where P f (missions s)\<rparr>)"
    if "\<And>m. m_id (f m) = m_id m" "\<And>m. m_status (f m) = m_status m" for s P f
    using that by (auto simp: rows_move_def step_moves_same mission_life.stay
        intro!: mission_moves_update[where P = P and f = f])
  show "keeps rows_move (claim_oldest_code_change w n now)"
    by (rule keepsI)
       (simp add: claim_oldest_code_change_def Let_def rows_move_claim_first rows_move_same)
  show "keeps rows_move (renew_code_change_lease mid w n now)"
    by (rule keepsI) (auto simp: renew_code_change_lease_def Let_def rows_move_same intro!: upd)
  show "keeps rows_move (release_code_change_lease mid w)"
    by (rule keepsI) (auto simp: release_code_change_lease_def Let_def rows_move_same intro!: upd)
qed

section \<open>Any sequence of operations\<close>

datatype service_call =
    CreateMission bool string int new_mission
  | CreatePlan "(string \<Rightarrow> exn + bool) option" "nat \<Rightarrow> string" string "plan_entry list"
  | ClaimStep string
  | MoveStep string step_status "dict option" "dict option" "string option"
  | MoveMission bool string mission_status "dict option" "dict option"
  | AssignOwner string string
  | RecordResult string dict
  | ClaimCodeChange string int int
  | RenewLease string string int int
  | ReleaseLease string string

fun perform :: "service_call \<Rightarrow> 'a missions_db_scheme \<Rightarrow> 'a missions_db_scheme" where
  "perform (CreateMission l i c n) s = snd (create_mission l i c n s)"
| "perform (CreatePlan reg ids mid es) s = snd (create_plan reg ids mid es s)"
| "perform (ClaimStep mid) s = snd (claim_next_pending_step mid s)"
| "perform (MoveStep sid x r e a) s = snd (transition_step sid x r e a s)"
| "perform (MoveMission l mid x r e) s = snd (transition l mid x r e s)"
| "perform (AssignOwner mid w) s = snd (assign_owner mid w s)"
| "perform (RecordResult mid d) s = snd (record_result mid d s)"
| "perform (ClaimCodeChange w n now) s = snd (claim_oldest_code_change w n now s)"
| "perform (RenewLease mid w n now) s = snd (renew_code_change_lease mid w n now s)"
| "perform (ReleaseLease mid w) s = snd (release_code_change_lease mid w s)"

lemma perform_rows_move: "rows_move s (perform c s)"
  by (cases c) (simp_all only: perform.simps; rule keepsD; rule keeps_intros)+

lemma history_rows_move: "rows_move s (fold perform calls s)"
proof (induction calls arbitrary: s)
  case Nil
  then show ?case by (simp add: rows_move_same)
next
  case (Cons c calls)
  have "rows_move (perform c s) (fold perform calls (perform c s))" by (rule Cons)
  with perform_rows_move[of s c] show ?case by (auto dest: transpD[OF rows_move_trans])
qed

end
