(* ===== verification/Executor_Runs.thy ===== *)
theory Executor_Runs
  imports Executor_Laws Mission_History
begin

text \<open>
  Runs of the executor: rows move along the tables and one step moves per call; what a call
  does for each outcome of the gateway; a plan whose actions succeed is finished by as many
  calls as it has steps.
\<close>

section \<open>Moves\<close>

lemma keeps_rows_settle [keeps_intros]: "keeps rows_move (settle l m st oc)"
  unfolding settle_def settle_done_def
  by (cases "to_state oc") (simp_all, (intro keeps_intros)+)

lemma keeps_rows_start [keeps_intros]:
  "keeps rows_move (start_mission l m)" "keeps rows_move (finish_mission l m)"
  unfolding finish_mission_def start_mission_def by (intro keeps_intros)+

context action_gate
begin

lemma keeps_rows_gate: "keeps rows_move (gate req)"
  by (rule keepsI) (simp add: rows_move_same gate_missions gate_steps)

lemma keeps_rows_call: "keeps rows_move (call_gate l gate m st)"
  unfolding call_gate_def by (intro keeps_intros keeps_rows_gate)

lemma keeps_rows_advance: "keeps rows_move (advance l gate m)"
  unfolding advance_def by (intro keeps_intros keeps_rows_call)

lemma run_next_moves: "rows_move s (snd (run_next l gate mid s))"
  unfolding run_next_def by (rule keepsD, intro keeps_intros keeps_rows_advance)

lemma resume_approved_moves: "rows_move s (snd (resume_approved l gate mid s))"
  unfolding resume_approved_def by (rule keepsD, intro keeps_intros keeps_rows_call)

end

section \<open>One step per call\<close>

definition other_steps :: "string \<Rightarrow> 'a missions_db_scheme \<Rightarrow> 'a missions_db_scheme \<Rightarrow> bool" where
  "other_steps sid s t \<longleftrightarrow>
     (\<forall>k. k \<noteq> sid \<longrightarrow> row_of st_id k (mission_steps t) = row_of st_id k (mission_steps s))"

lemma other_steps_refl [simp]: "reflp (other_steps sid)"
  by (simp add: reflp_def other_steps_def)

lemma other_steps_trans [simp]: "transp (other_steps sid)"
  by (simp add: transp_def other_steps_def)

lemma keeps_other_bindE [keeps_intros]:
  "keeps (other_steps sid) m \<Longrightarrow> (\<And>x. keeps (other_steps sid) (f x)) \<Longrightarrow>
   keeps (other_steps sid) (bindE m f)"
  by (rule keeps_bindE) simp_all

lemma keeps_other_basic [keeps_intros]:
  "keeps (other_steps sid) (returnE x)" "keeps (other_steps sid) (raiseE e)"
  "keeps (other_steps sid) (readE h)" "keeps (other_steps sid) (liftE r)"
  by (simp_all add: keeps_returnE keeps_raiseE keeps_readE keeps_liftE)

lemma keeps_other_same: "keeps (same mission_steps) m \<Longrightarrow> keeps (other_steps sid) m"
  by (simp add: keeps_def same_def other_steps_def)

lemma keeps_other_parts [keeps_intros]:
  "keeps (other_steps sid) (transition l mid x r e)"
  "keeps (other_steps sid) (plan_is_complete mid)"
  "keeps (other_steps sid) (transition_step sid y r e a)"
  by (rule keepsI;
      auto simp: other_steps_def transition_step_def Let_def table_simps
           split: option.split dest: row_of_SomeD)+

lemma keeps_other_settle [keeps_intros]: "keeps (other_steps (st_id st)) (settle l m st oc)"
  unfolding settle_def settle_done_def
  by (cases "to_state oc") (simp_all, (intro keeps_intros)+)

lemma keeps_other_start [keeps_intros]:
  "keeps (other_steps sid) (start_mission l m)" "keeps (other_steps sid) (finish_mission l m)"
  unfolding finish_mission_def start_mission_def by (intro keeps_intros)+

lemma claim_other_steps:
  assumes "executor_inv s" and "claim_next_pending_step mid s = (Inr c, t)"
  shows "case c of None \<Rightarrow> t = s
         | Some st \<Rightarrow> (\<exists>q. first_incomplete mid s = Some q \<and> st_id q = st_id st) \<and>
                      other_steps (st_id st) s t"
proof -
  from assms(1) have uniq: "unique_keys st_id (mission_steps s)"
    by (simp add: executor_inv_def plans_in_order_def)
  show ?thesis
  proof (cases "first_incomplete mid s")
    case None
    with assms(2) show ?thesis by (simp add: claim_next_pending_step_def)
  next
    case (Some q)
    with assms(2) have c: "claim_step_row (st_id q) s = (Inr c, t)"
      by (simp add: claim_next_pending_step_def)
    show ?thesis
    proof (cases c)
      case None
      with c claim_step_row_None[OF _ uniq] show ?thesis by simp
    next
      case (Some st)
      from claim_step_row_Some[OF c[unfolded Some] uniq] obtain old where
        old: "row_of st_id (st_id q) (mission_steps s) = Some old" "st = old\<lparr>st_status := STEP_RUNNING\<rparr>"
        and rows: "\<forall>k. row_of st_id k (mission_steps t) =
           (if k = st_id q then Some st else row_of st_id k (mission_steps s))" by blast
      from row_of_SomeD[OF old(1)] old(2) have "st_id st = st_id q" by simp
      with rows Some \<open>first_incomplete mid s = Some q\<close> show ?thesis
        by (simp add: other_steps_def)
    qed
  qed
qed

context action_gate
begin

lemma keeps_other_call: "keeps (other_steps (st_id st)) (call_gate l gate m st)"
  unfolding call_gate_def
  by (intro keeps_intros keeps_other_same) (simp add: keeps_def same_def gate_steps)

lemma advance_one_step:
  assumes inv: "executor_inv s" and k: "map_option st_id (first_incomplete (m_id m) s) \<noteq> Some k"
  shows "row_of st_id k (mission_steps (snd (advance l gate m s))) = row_of st_id k (mission_steps s)"
proof -
  obtain r t where c: "claim_next_pending_step (m_id m) s = (r, t)"
    by (cases "claim_next_pending_step (m_id m) s")
  have same: "keeps (other_steps x) (bindE (plan_is_complete (m_id m)) (\<lambda>complete.
      bindE (if complete then finish_mission l m else returnE m) (\<lambda>m1. returnE (mission_result m1))))" for x
    by (intro keeps_intros)
  show ?thesis
  proof (cases r)
    case (Inl e)
    with c have "t = s"
      by (auto simp: claim_next_pending_step_def claim_step_row_def Let_def split: option.splits if_splits)
    with c Inl show ?thesis by (simp add: advance_def)
  next
    case (Inr co)
    note law = claim_other_steps[OF inv c[unfolded Inr]]
    show ?thesis
    proof (cases co)
      case None
      obtain x where "x \<noteq> k" using ex_new_if_finite[of "{k}"] infinite_UNIV_listI by auto
      with None law c Inr keepsD[OF same[of x], of s] show ?thesis
        by (simp add: advance_def other_steps_def)
    next
      case (Some st)
      with law k have "k \<noteq> st_id st" and o: "other_steps (st_id st) s t" by auto
      have "keeps (other_steps (st_id st)) (bindE (start_mission l m) (\<lambda>m1. call_gate l gate m1 st))"
        by (intro keeps_intros keeps_other_call)
      with o have "other_steps (st_id st) s (snd (bindE (start_mission l m) (\<lambda>m1. call_gate l gate m1 st) t))"
        by (metis keepsD other_steps_trans transpD)
      with c Inr Some \<open>k \<noteq> st_id st\<close> show ?thesis
        by (simp add: advance_def other_steps_def)
    qed
  qed
qed

lemma run_next_one_step:
  assumes inv: "executor_inv s" and k: "map_option st_id (first_incomplete mid s) \<noteq> Some k"
  shows "row_of st_id k (mission_steps (snd (run_next l gate mid s))) = row_of st_id k (mission_steps s)"
proof (cases "row_of m_id mid (missions s)")
  case None
  then show ?thesis by (simp add: run_next_def get_mission_def bindE_def)
next
  case (Some m)
  then have id: "m_id m = mid" by (auto dest: row_of_SomeD)
  with k have adv: "row_of st_id k (mission_steps (snd (advance l gate m s))) = row_of st_id k (mission_steps s)"
    using advance_one_step[OF inv] by simp
  obtain w where "waiting_approval_step (m_id m) s = (Inr w, s)"
    using Some id by (simp add: waiting_approval_step_def get_mission_def bindE_def)
  with Some adv show ?thesis by (simp add: run_next_def get_mission_def split: option.split)
qed

end

section \<open>What a call does\<close>

text \<open>The missions table and the steps table after a call that starts a pending step.\<close>

definition started_mission :: "mission \<Rightarrow> mission" where
  "started_mission m = (if m_status m = QUEUED then m\<lparr>m_status := RUNNING\<rparr> else m)"

definition unfinished :: "string \<Rightarrow> mission_step \<Rightarrow> bool" where
  "unfinished mid st \<longleftrightarrow> st_mission st = mid \<and> st_status st \<noteq> STEP_SUCCEEDED"

lemma request_for_status [simp]:
  "request_for (m\<lparr>m_status := x, m_result := r, m_error_state := e\<rparr>) st = request_for m st"
  "request_for (started_mission m) st = request_for m st"
  "request_for m (st\<lparr>st_status := y\<rparr>) = request_for m st"
  by (simp_all add: request_for_def started_mission_def Let_def split: json.split)

lemma update_where_save_row:
  assumes "unique_keys key rows" and "row_of key k rows = Some r"
    and "\<And>x. x \<in> set rows \<Longrightarrow> P x \<longleftrightarrow> x = r" and "key (f r) = k"
  shows "update_where P f rows = save_row key (f r) rows"
  unfolding save_row_def update_where_def
proof (rule map_cong_set)
  fix x
  assume x: "x \<in> set rows"
  from row_of_eq_iff[OF assms(1,2) x] assms(3)[OF x] assms(4)
  show "(if P x then f x else x) = (if key x = key (f r) then f r else x)" by auto
qed

lemma save_row_twice: "key r' = key r \<Longrightarrow> save_row key r' (save_row key r rows) = save_row key r' rows"
  by (induction rows) auto

lemma rowcount_save_row:
  assumes "unique_keys key rows" and "row_of key (key r') rows = Some r" and "Q r" and "\<not> Q r'"
  shows "rowcount Q rows = Suc (rowcount Q (save_row key r' rows))"
  using assms
proof (induction rows)
  case Nil
  then show ?case by simp
next
  case (Cons a rows)
  show ?case
  proof (cases "key a = key r'")
    case True
    with Cons.prems have "row_of key (key r') rows = None"
      by (auto simp: row_of_None_iff)
    then have "save_row key r' rows = rows" by (rule save_row_absent)
    with Cons.prems True show ?thesis by (simp add: rowcount_def)
  next
    case False
    with Cons show ?thesis by (simp add: rowcount_def)
  qed
qed

lemma claim_pending:
  assumes inv: "executor_inv s" and st: "first_incomplete mid s = Some st"
    and pending: "st_status st = STEP_PENDING"
  shows "claim_next_pending_step mid s =
    (Inr (Some (st\<lparr>st_status := STEP_RUNNING\<rparr>)),
     s\<lparr>mission_steps := save_row st_id (st\<lparr>st_status := STEP_RUNNING\<rparr>) (mission_steps s)\<rparr>)"
proof -
  from inv have uniq: "unique_keys st_id (mission_steps s)"
    by (simp add: executor_inv_def plans_in_order_def)
  have "st \<in> set (mission_steps s)" using first_incomplete_split[OF st] by blast
  with uniq have row: "row_of st_id (st_id st) (mission_steps s) = Some st" by (rule row_of_unique)
  have "update_where (\<lambda>x. st_id x = st_id st \<and> st_status x = STEP_PENDING)
      (\<lambda>x. x\<lparr>st_status := STEP_RUNNING\<rparr>) (mission_steps s) =
      save_row st_id (st\<lparr>st_status := STEP_RUNNING\<rparr>) (mission_steps s)"
    using uniq row
  proof (rule update_where_save_row)
    fix x
    assume "x \<in> set (mission_steps s)"
    from row_of_eq_iff[OF uniq row this] pending
    show "(st_id x = st_id st \<and> st_status x = STEP_PENDING) \<longleftrightarrow> x = st" by auto
  qed simp
  with claim_step_row_eq[OF uniq row] st pending show ?thesis
    by (simp add: claim_next_pending_step_def)
qed

lemma start_mission_runs:
  assumes row: "row_of m_id (m_id m) (missions s) = Some m" and st: "m_status m \<in> {QUEUED, RUNNING}"
  shows "\<exists>t. start_mission l m s = (Inr (started_mission m), t) \<and>
             row_of m_id (m_id m) (missions t) = Some (started_mission m) \<and>
             mission_steps t = mission_steps s"
proof (cases "m_status m = QUEUED")
  case True
  with row show ?thesis
    by (simp add: start_mission_def started_mission_def transition_def Let_def table_simps)
next
  case False
  with row show ?thesis by (simp add: start_mission_def started_mission_def)
qed

lemma run_next_calls_gate:
  assumes inv: "executor_inv s" and row: "row_of m_id mid (missions s) = Some m"
    and live: "m_status m \<in> {QUEUED, RUNNING}"
    and st: "first_incomplete mid s = Some st" "st_status st = STEP_PENDING"
  shows "\<exists>t. run_next l gate mid s =
               call_gate l gate (started_mission m) (st\<lparr>st_status := STEP_RUNNING\<rparr>) t \<and>
             row_of m_id mid (missions t) = Some (started_mission m) \<and>
             mission_steps t = save_row st_id (st\<lparr>st_status := STEP_RUNNING\<rparr>) (mission_steps s)"
proof -
  let ?s1 = "s\<lparr>mission_steps := save_row st_id (st\<lparr>st_status := STEP_RUNNING\<rparr>) (mission_steps s)\<rparr>"
  have id: "m_id m = mid" using row by (auto dest: row_of_SomeD)
  with row have "row_of m_id (m_id m) (missions ?s1) = Some m" by simp
  from start_mission_runs[OF this live, of l] obtain t where
    t: "start_mission l m ?s1 = (Inr (started_mission m), t)"
       "row_of m_id (m_id m) (missions t) = Some (started_mission m)"
       "mission_steps t = mission_steps ?s1" by blast
  have "advance l gate m s =
     call_gate l gate (started_mission m) (st\<lparr>st_status := STEP_RUNNING\<rparr>) t"
    using claim_pending[OF inv st] t(1) id by (simp add: advance_def)
  with row live t id show ?thesis
    by (intro exI[of _ t]) (auto simp: run_next_def get_mission_def)
qed

text \<open>
  The gateway executed (or simulated) the action: the step is finished with the returned data,
  and the mission completes exactly when no step of it is left.
\<close>

context action_gate
begin

lemma run_next_done:
  assumes inv: "executor_inv s" and row: "row_of m_id mid (missions s) = Some m"
    and live: "m_status m \<in> {QUEUED, RUNNING}"
    and st: "first_incomplete mid s = Some st" "st_status st = STEP_PENDING"
    and req: "request_for m st = Inr req"
    and ok: "\<And>u. \<exists>oc v. gate req u = (Inr oc, v) \<and> to_state oc \<in> {OUT_EXECUTED, OUT_SIMULATED}"
  shows "\<exists>r d. fst (run_next l gate mid s) = Inr r \<and>
     mission_steps (snd (run_next l gate mid s)) =
       save_row st_id (st\<lparr>st_status := STEP_SUCCEEDED, st_result := Some d\<rparr>) (mission_steps s) \<and>
     map_option m_status (row_of m_id mid (missions (snd (run_next l gate mid s)))) =
       Some (if plan_done mid (mission_steps (snd (run_next l gate mid s)))
             then COMPLETED else RUNNING)"
proof -
  let ?run = "st\<lparr>st_status := STEP_RUNNING\<rparr>"
  from run_next_calls_gate[OF inv row live st, of l gate] obtain t where
    t: "run_next l gate mid s = call_gate l gate (started_mission m) ?run t"
       "row_of m_id mid (missions t) = Some (started_mission m)"
       "mission_steps t = save_row st_id ?run (mission_steps s)" by blast
  from ok obtain oc v where v: "gate req t = (Inr oc, v)" and oc: "to_state oc \<in> {OUT_EXECUTED, OUT_SIMULATED}"
    by blast
  have mv: "missions v = missions t" "mission_steps v = mission_steps t"
    using gate_missions[of req t] gate_steps[of req t] v by simp_all
  have id: "m_id m = mid" using row by (auto dest: row_of_SomeD)
  then have sid: "m_id (started_mission m) = mid" by (simp add: started_mission_def)
  have run: "m_status (started_mission m) = RUNNING" using live by (auto simp: started_mission_def)
  from inv have uniq: "unique_keys st_id (mission_steps s)"
    by (simp add: executor_inv_def plans_in_order_def)
  have "st \<in> set (mission_steps s)" using first_incomplete_split[OF st(1)] by blast
  with uniq have old: "row_of st_id (st_id st) (mission_steps s) = Some st" by (rule row_of_unique)
  let ?d = "case to_result oc of None \<Rightarrow> [] | Some d \<Rightarrow> d"
  let ?fin = "st\<lparr>st_status := STEP_SUCCEEDED, st_result := Some ?d\<rparr>"
  let ?w = "v\<lparr>mission_steps := save_row st_id ?fin (mission_steps s)\<rparr>"
  have move: "transition_step (st_id st) STEP_SUCCEEDED (Some ?d) None None v = (Inr ?fin, ?w)"
    using old mv t(3) by (simp add: transition_step_def Let_def table_simps save_row_twice)
  have pc: "plan_is_complete mid ?w = (Inr (plan_done mid (mission_steps ?w)), ?w)"
    using t(2) mv by (simp add: plan_is_complete_eq plan_done_iff)
  have "run_next l gate mid s = settle_done l (started_mission m) ?run oc v"
    using t(1) req v oc by (auto simp: call_gate_def settle_def)
  also have "\<dots> = (if plan_done mid (mission_steps ?w)
      then bindE (transition l mid COMPLETED (Some [(''plan_status'', JStr ''completed'')]) None)
             (\<lambda>m'. returnE (step_result m' ?fin (Some oc))) ?w
      else (Inr (step_result (started_mission m) ?fin (Some oc)), ?w))"
    using move pc sid by (simp add: settle_done_def)
  finally have eq: "run_next l gate mid s = \<dots>" .
  show ?thesis
  proof (cases "plan_done mid (mission_steps ?w)")
    case False
    with eq t(2) mv run show ?thesis by simp (rule exI, rule refl)
  next
    case True
    with eq t(2) mv run sid show ?thesis
      by (simp add: transition_def Let_def table_simps) (rule exI, rule refl)
  qed
qed

end

section \<open>Finishing a plan\<close>

text \<open>
  \<open>ready mid n s\<close>: the mission can be run, \<open>n\<close> of its steps are left, none of them is started,
  and the arguments of each make a request.
\<close>

definition ready :: "string \<Rightarrow> nat \<Rightarrow> 'a missions_db_scheme \<Rightarrow> bool" where
  "ready mid n s \<longleftrightarrow>
     executor_inv s \<and>
     (\<exists>m. row_of m_id mid (missions s) = Some m \<and> m_status m \<in> {QUEUED, RUNNING}) \<and>
     rowcount (unfinished mid) (mission_steps s) = n \<and>
     (\<forall>st \<in> set (mission_steps s). st_mission st = mid \<longrightarrow>
        st_status st \<in> {STEP_PENDING, STEP_SUCCEEDED} \<and>
        (\<forall>m. \<exists>req. request_for m st = Inr req))"

definition mission_completed :: "string \<Rightarrow> 'a missions_db_scheme \<Rightarrow> bool" where
  "mission_completed mid s \<longleftrightarrow> map_option m_status (row_of m_id mid (missions s)) = Some COMPLETED"

fun run_times ::
  "nat \<Rightarrow> bool \<Rightarrow> (nat \<Rightarrow> tool_request \<Rightarrow> ('a missions_db_scheme, tool_outcome) op) \<Rightarrow> string \<Rightarrow>
   'a missions_db_scheme \<Rightarrow> 'a missions_db_scheme" where
  "run_times 0 l gates mid s = s"
| "run_times (Suc n) l gates mid s = run_times n l gates mid (snd (run_next l (gates n) mid s))"

lemma first_incomplete_exists:
  assumes "0 < rowcount (unfinished mid) (mission_steps s)"
  shows "\<exists>st. first_incomplete mid s = Some st"
proof -
  from assms obtain st where "st \<in> set (mission_steps s)" "unfinished mid st"
    using rowcount_0_iff[of "unfinished mid" "mission_steps s"] by auto
  then have "filter (\<lambda>st. st_mission st = mid \<and> st_status st \<noteq> STEP_SUCCEEDED) (mission_steps s) \<noteq> []"
    by (auto simp: filter_empty_conv unfinished_def)
  then show ?thesis by (simp add: first_incomplete_def flip: not_None_eq)
qed

context action_gate
begin

lemma run_next_ready:
  assumes rdy: "ready mid (Suc n) s"
    and ok: "\<And>req u. \<exists>oc v. gate req u = (Inr oc, v) \<and> to_state oc \<in> {OUT_EXECUTED, OUT_SIMULATED}"
  shows "if n = 0 then mission_completed mid (snd (run_next l gate mid s))
         else ready mid n (snd (run_next l gate mid s))"
proof -
  let ?t = "snd (run_next l gate mid s)"
  from rdy obtain m where inv: "executor_inv s" and row: "row_of m_id mid (missions s) = Some m"
    and live: "m_status m \<in> {QUEUED, RUNNING}" by (auto simp: ready_def)
  from rdy first_incomplete_exists[of mid s] obtain st where st: "first_incomplete mid s = Some st"
    by (auto simp: ready_def)
  from first_incomplete_split[OF st] have st_in: "st \<in> set (mission_steps s)"
    and ns: "st_status st \<noteq> STEP_SUCCEEDED" and mid: "st_mission st = mid" by blast+
  with rdy have pending: "st_status st = STEP_PENDING" and "\<exists>req. request_for m st = Inr req"
    by (auto simp: ready_def)
  then obtain req where req: "request_for m st = Inr req" by blast
  from run_next_done[OF inv row live st pending req ok] obtain d where
    steps: "mission_steps ?t = save_row st_id (st\<lparr>st_status := STEP_SUCCEEDED, st_result := Some d\<rparr>) (mission_steps s)"
    and status: "map_option m_status (row_of m_id mid (missions ?t)) =
       Some (if plan_done mid (mission_steps ?t) then COMPLETED else RUNNING)" by blast
  let ?fin = "st\<lparr>st_status := STEP_SUCCEEDED, st_result := Some d\<rparr>"
  from inv have uniq: "unique_keys st_id (mission_steps s)"
    by (simp add: executor_inv_def plans_in_order_def)
  have old: "row_of st_id (st_id ?fin) (mission_steps s) = Some st"
    using row_of_unique[OF uniq st_in] by simp
  have count: "rowcount (unfinished mid) (mission_steps ?t) = n"
    using rowcount_save_row[OF uniq old, of "unfinished mid"] rdy ns mid
    by (simp add: ready_def unfinished_def steps)
  have fin_in: "?fin \<in> set (mission_steps ?t)"
    using row_of_SomeD[of st_id "st_id st" "mission_steps ?t" ?fin] old by (simp add: steps table_simps)
  have dn: "plan_done mid (mission_steps ?t) \<longleftrightarrow> n = 0"
    using count bexI[OF _ fin_in, of "\<lambda>x. st_mission x = mid"] mid
    by (auto simp: plan_done_def unfinished_def rowcount_0_iff)
  have "executor_inv ?t" using inv by (rule run_next_inv)
  moreover have "st_status x \<in> {STEP_PENDING, STEP_SUCCEEDED} \<and> (\<forall>m. \<exists>req. request_for m x = Inr req)"
    if x: "x \<in> set (mission_steps ?t)" "st_mission x = mid" for x
    using in_set_save_row[OF x(1)[unfolded steps]]
  proof (elim disjE conjE)
    assume "x = ?fin"
    moreover have "request_for m ?fin = request_for m st" for m
      by (simp add: request_for_def Let_def split: json.split)
    ultimately show ?thesis using rdy st_in mid by (auto simp: ready_def)
  next
    assume "x \<in> set (mission_steps s)"
    with x rdy show ?thesis by (auto simp: ready_def)
  qed
  ultimately show ?thesis
    using status dn count by (auto simp: ready_def mission_completed_def)
qed

end

lemma run_times_completes:
  assumes "ready mid (Suc n) s" and gates: "\<And>i. action_gate (gates i)"
    and ok: "\<And>i req u. \<exists>oc v. gates i req u = (Inr oc, v) \<and> to_state oc \<in> {OUT_EXECUTED, OUT_SIMULATED}"
  shows "mission_completed mid (run_times (Suc n) l gates mid s)"
  using assms(1)
proof (induction n arbitrary: s)
  case 0
  from action_gate.run_next_ready[OF gates[of 0] 0 ok, of l] show ?case by simp
next
  case (Suc n)
  from action_gate.run_next_ready[OF gates[of "Suc n"] Suc.prems ok, of l]
  have "ready mid (Suc n) (snd (run_next l (gates (Suc n)) mid s))" by simp
  from Suc.IH[OF this] show ?case by simp
qed

section \<open>A step whose arguments make no request\<close>

text \<open>
  The step is claimed before its request is built. When \<open>_request_for\<close> raises, the step stays
  started, and no later call moves the mission.
\<close>

lemma run_next_bad_conditions:
  assumes inv: "executor_inv s" and row: "row_of m_id mid (missions s) = Some m"
    and live: "m_status m \<in> {QUEUED, RUNNING}"
    and st: "first_incomplete mid s = Some st" "st_status st = STEP_PENDING"
    and req: "request_for m st = Inl e"
  shows "fst (run_next l gate mid s) = Inl e \<and>
     mission_steps (snd (run_next l gate mid s)) =
       save_row st_id (st\<lparr>st_status := STEP_RUNNING\<rparr>) (mission_steps s) \<and>
     row_of m_id mid (missions (snd (run_next l gate mid s))) = Some (started_mission m)"
proof -
  from run_next_calls_gate[OF inv row live st, of l gate] obtain t where
    t: "run_next l gate mid s = call_gate l gate (started_mission m) (st\<lparr>st_status := STEP_RUNNING\<rparr>) t"
       "row_of m_id mid (missions t) = Some (started_mission m)"
       "mission_steps t = save_row st_id (st\<lparr>st_status := STEP_RUNNING\<rparr>) (mission_steps s)" by blast
  with req show ?thesis by (simp add: call_gate_def)
qed

lemma first_incomplete_started:
  assumes inv: "executor_inv s" and st: "first_incomplete mid s = Some st" "st_status st = STEP_PENDING"
    and t: "mission_steps t = save_row st_id (st\<lparr>st_status := STEP_RUNNING\<rparr>) (mission_steps s)"
  shows "\<exists>st'. first_incomplete mid t = Some st' \<and> st_status st' \<noteq> STEP_PENDING"
proof -
  let ?run = "st\<lparr>st_status := STEP_RUNNING\<rparr>"
  from inv have uniq: "unique_keys st_id (mission_steps s)"
    by (simp add: executor_inv_def plans_in_order_def)
  from first_incomplete_split[OF st(1)] obtain dn rest where
    plan: "plan_of mid (mission_steps s) = dn @ st # rest"
    and dn: "\<forall>x \<in> set dn. st_status x = STEP_SUCCEEDED" and st_in: "st \<in> set (mission_steps s)" by blast
  have row: "row_of st_id (st_id st) (mission_steps s) = Some st"
    using uniq st_in by (rule row_of_unique)
  have upd: "mission_steps t = map (\<lambda>x. if x = st then ?run else x) (mission_steps s)"
    unfolding t save_row_def update_where_def
    by (rule map_cong_set) (simp add: row_of_eq_iff[OF uniq row])
  have "plan_of mid (mission_steps t) = map (\<lambda>x. if x = st then ?run else x) (plan_of mid (mission_steps s))"
    unfolding upd by (rule plan_of_map) auto
  moreover have "st \<notin> set dn" using dn st(2) by auto
  ultimately have "filter (\<lambda>x. st_status x \<noteq> STEP_SUCCEEDED) (plan_of mid (mission_steps t)) =
      ?run # filter (\<lambda>x. st_status x \<noteq> STEP_SUCCEEDED) (map (\<lambda>x. if x = st then ?run else x) rest)"
    using dn unfolding plan by (auto simp: filter_empty_conv)
  then show ?thesis by (simp add: first_incomplete_eq)
qed

lemma run_next_stuck:
  assumes inv: "executor_inv s" and row: "row_of m_id mid (missions s) = Some m"
    and live: "m_status m \<in> {QUEUED, RUNNING}"
    and st: "first_incomplete mid s = Some st" "st_status st \<noteq> STEP_PENDING"
  shows "run_next l gate mid s = (Inr (mission_result m), s)"
proof -
  have id: "m_id m = mid" using row by (auto dest: row_of_SomeD)
  from inv have uniq: "unique_keys st_id (mission_steps s)"
    by (simp add: executor_inv_def plans_in_order_def)
  have fi: "st \<in> set (mission_steps s)" "st_mission st = mid" "st_status st \<noteq> STEP_SUCCEEDED"
    using first_incomplete_split[OF st(1)] by blast+
  have "row_of st_id (st_id st) (mission_steps s) = Some st" using uniq fi(1) by (rule row_of_unique)
  from claim_step_row_eq[OF uniq this] st have "claim_next_pending_step mid s = (Inr None, s)"
    by (simp add: claim_next_pending_step_def)
  moreover have "plan_is_complete mid s = (Inr False, s)"
    using plan_is_complete_eq[OF row] fi by (auto simp: plan_of_set)
  ultimately have "advance l gate m s = (Inr (mission_result m), s)"
    using id by (simp add: advance_def bindE_def)
  with row live show ?thesis by (auto simp: run_next_def get_mission_def)
qed

end
