(* ===== verification/Gateway_Laws.thy ===== *)
theory Gateway_Laws
  imports Tool_Gateway
begin

text \<open>
  What the gateway guarantees: nothing outside the database changes unless a registered adapter
  was allowed to run, and a mutating run under a scoped rule costs one use of the rule.
\<close>

section \<open>The outside world\<close>

lemma record_event_world [keeps_intros]: "keeps (same world) (record_event m a t u d)"
  by (simp add: keeps_def same_def add_to_session_def)

lemma create_request_world [keeps_intros]: "keeps (same world) (create_request sha i t q)"
  by (rule keepsI) (simp add: same_def create_request_def Let_def split: sum.split)

lemma consume_rule_world: "keeps (same world) (consume_rule rid now)"
  by (rule keepsI) (simp add: same_def consume_rule_def Let_def split: option.split)

lemma try_consume_world [keeps_intros]: "keeps (same world) (try_consume rid now)"
  using keepsD[OF consume_rule_world] by (intro keepsI) simp

lemma evaluate_world [keeps_intros]: "keeps (same world) (evaluate sha l ck i t q)"
  by (auto simp: evaluate_def file_approval_def Let_def split: prod.split intro!: keeps_intros)

lemma tool_record_result_world [keeps_intros]: "keeps (same world) (tool_record_result req st)"
  unfolding tool_record_result_def by (intro keeps_intros)

text \<open>The request the gateway puts to the safety service, and the decision it gets.\<close>

definition gateway_decision ::
  "'w gateway_env \<Rightarrow> gateway_call \<Rightarrow> tool_request \<Rightarrow> ('w, 'a) gateway_db_scheme \<Rightarrow> decision" where
  "gateway_decision env call req s =
     safety_decision (ge_sha env) (gc_clock call)
       (safety_request_of req (has_exact_permission (tr_agent req) (tr_capability req) s)) s"

definition gateway_rule ::
  "gateway_call \<Rightarrow> tool_request \<Rightarrow> ('w, 'a) gateway_db_scheme \<Rightarrow> scoped_rule option" where
  "gateway_rule call req s =
     matching_scoped_rule (tr_capability req) (tr_target req) (tr_risk req) (tr_conditions req)
       (ck_rule (gc_clock call)) s"

lemma gateway_unavailable:
  "resolve (ge_registry env) (tr_capability req) = None \<Longrightarrow>
   gateway_execute env call req s =
     (Inr (outcome req OUT_BLOCKED None (Some ''adapter_unavailable'') None), s)"
  by (simp add: gateway_execute_def)

text \<open>The part of \<open>execute\<close> after the safety service answered.\<close>

definition gateway_act ::
  "'w adapter \<Rightarrow> gateway_call \<Rightarrow> tool_request \<Rightarrow> scoped_rule option \<Rightarrow>
   (('w, 'a) gateway_db_scheme, tool_outcome) op" where
  "gateway_act ad call req rule =
     bindE (case rule of
              Some r \<Rightarrow> if tr_mutates req then try_consume (sr_id r) (gc_consume_at call) else returnE True
            | None \<Rightarrow> returnE True) (\<lambda>consumed.
       if \<not> consumed
       then bindE (tool_record_result req OUT_BLOCKED) (\<lambda>_.
              returnE (outcome req OUT_BLOCKED None (Some ''scoped_rule_consumption_failed'') None))
       else run_tool ad req)"

lemma gateway_cases:
  assumes ad: "resolve (ge_registry env) (tr_capability req) = Some ad"
  shows "\<exists>t. world t = world s \<and> missions t = missions s \<and> scoped_rules t = scoped_rules s \<and>
    ((\<exists>r. gateway_execute env call req s = (Inl r, t)) \<or>
     (\<exists>oc. gateway_execute env call req s = (Inr oc, t) \<and>
        to_state oc \<in> {OUT_BLOCKED, OUT_WAITING_APPROVAL, OUT_SIMULATED} \<and>
        gateway_decision env call req s \<noteq> ALLOW \<and>
        (to_state oc = OUT_SIMULATED \<longleftrightarrow> gateway_decision env call req s = SIMULATE_ONLY) \<and>
        (to_state oc = OUT_WAITING_APPROVAL \<longleftrightarrow> gateway_decision env call req s = REQUIRE_APPROVAL)) \<or>
     gateway_decision env call req s = ALLOW \<and>
     gateway_execute env call req s = gateway_act ad call req (gateway_rule call req s) t)"
proof -
  let ?auth = "has_exact_permission (tr_agent req) (tr_capability req) s"
  let ?ev = "evaluate (ge_sha env) (ge_lifetime env) (gc_clock call) (gc_new_id call) (gc_created call)
               (safety_request_of req ?auth)"
  obtain r t where ev: "?ev s = (r, t)" by (cases "?ev s")
  have t: "world t = world s" "missions t = missions s" "scoped_rules t = scoped_rules s"
    using keepsD'[OF evaluate_world ev] keepsD'[OF evaluate_keeps(1) ev] keepsD'[OF evaluate_keeps(3) ev]
    by (simp_all add: same_def)
  show ?thesis
  proof (cases r)
    case (Inl e)
    with ad ev t show ?thesis by (intro exI[of _ t]) (simp add: gateway_execute_def)
  next
    case (Inr res)
    with evaluate_Inr[OF ev[unfolded Inr]]
    have d: "sf_decision res = gateway_decision env call req s"
      and rule: "sf_scoped_rule_id res = map_option sr_id (gateway_rule call req s)"
      by (simp_all add: gateway_decision_def gateway_rule_def safety_request_of_def)
    let ?w = "add_to_session (tr_mission req) (Some (tr_agent req)) RESULT_RECORDED
       (''Tool capability '' @ tr_capability req @ '' finished as '' @ outcome_value OUT_SIMULATED)
       [(''capability'', JStr (tr_capability req)), (''target'', JStr (tr_target req)),
        (''state'', JStr (outcome_value OUT_SIMULATED))] t"
    have w: "world ?w = world s" "missions ?w = missions s" "scoped_rules ?w = scoped_rules s"
      using t by (simp_all add: add_to_session_def)
    show ?thesis
    proof (cases "sf_decision res")
      case BLOCK
      with ad ev t Inr d show ?thesis
        by (intro exI[of _ t]) (simp add: gateway_execute_def outcome_def flip: d)
    next
      case REQUIRE_APPROVAL
      with ad ev t Inr d show ?thesis
        by (intro exI[of _ t]) (simp add: gateway_execute_def outcome_def flip: d)
    next
      case SIMULATE_ONLY
      with ad ev w Inr d show ?thesis
        by (intro exI[of _ ?w])
           (simp add: gateway_execute_def outcome_def tool_record_result_def record_event_def Let_def
              flip: d)
    next
      case ALLOW
      with ad ev t Inr d rule show ?thesis
        by (intro exI[of _ t])
           (simp add: gateway_execute_def gateway_act_def split: option.split flip: d)
    qed
  qed
qed

text \<open>An allowed request reaches the last part of \<open>execute\<close>: the evaluation before it cannot fail.\<close>

lemma gateway_allowed:
  assumes ad: "resolve (ge_registry env) (tr_capability req) = Some ad"
    and allow: "gateway_decision env call req s = ALLOW"
  shows "\<exists>t. world t = world s \<and> missions t = missions s \<and> scoped_rules t = scoped_rules s \<and>
             gateway_execute env call req s = gateway_act ad call req (gateway_rule call req s) t"
proof -
  let ?auth = "has_exact_permission (tr_agent req) (tr_capability req) s"
  have "safety_decision (ge_sha env) (gc_clock call) (safety_request_of req ?auth) s \<noteq> REQUIRE_APPROVAL"
    using allow by (simp add: gateway_decision_def)
  from evaluate_no_approval[OF this, of "ge_lifetime env" "gc_new_id call" "gc_created call"]
  obtain res u where ev: "evaluate (ge_sha env) (ge_lifetime env) (gc_clock call) (gc_new_id call)
      (gc_created call) (safety_request_of req ?auth) s = (Inr res, u)" by blast
  have u: "world u = world s" "missions u = missions s" "scoped_rules u = scoped_rules s"
    using keepsD'[OF evaluate_world ev] keepsD'[OF evaluate_keeps(1) ev] keepsD'[OF evaluate_keeps(3) ev]
    by (simp_all add: same_def)
  have "sf_decision res = ALLOW" "sf_scoped_rule_id res = map_option sr_id (gateway_rule call req s)"
    using evaluate_Inr[OF ev] allow
    by (simp_all add: gateway_decision_def gateway_rule_def safety_request_of_def)
  with ad ev u show ?thesis
    by (intro exI[of _ u]) (simp add: gateway_execute_def gateway_act_def split: option.split)
qed

lemma run_tool_executed:
  "ad req (world t) = (Inr result, w) \<Longrightarrow>
   fst (run_tool ad req t) = Inr (outcome req OUT_EXECUTED (Some result) None None) \<and>
   world (snd (run_tool ad req t)) = w"
  by (simp add: run_tool_def run_adapter_def bindE_def tool_record_result_def record_event_def
      add_to_session_def Let_def)

lemma run_tool_failed:
  "ad req (world t) = (Inl (ToolAdapterError msg), w) \<Longrightarrow>
   fst (run_tool ad req t) = Inr (outcome req OUT_FAILED None (Some ''adapter_failed'') None) \<and>
   world (snd (run_tool ad req t)) = w"
  by (simp add: run_tool_def run_adapter_def bindE_def tool_record_result_def record_event_def
      add_to_session_def Let_def)

lemma gateway_world_guard:
  assumes "world (snd (gateway_execute env call req s)) \<noteq> world s"
  shows "(\<exists>ad. resolve (ge_registry env) (tr_capability req) = Some ad) \<and>
         gateway_decision env call req s = ALLOW"
proof (cases "resolve (ge_registry env) (tr_capability req)")
  case None
  with assms show ?thesis by (simp add: gateway_unavailable)
next
  case (Some ad)
  from gateway_cases[OF Some, of s call] assms show ?thesis using Some by auto
qed

section \<open>Uses of a scoped rule\<close>

lemma gateway_act_rule:
  assumes uniq: "unique_keys sr_id (scoped_rules t)" and r: "r \<in> set (scoped_rules t)"
    and mut: "tr_mutates req"
  shows "if rule_consumable (gc_consume_at call) r
         then row_of sr_id (sr_id r) (scoped_rules (snd (gateway_act ad call req (Some r) t))) =
                Some (r\<lparr>sr_count := sr_count r + 1\<rparr>)
         else (\<exists>oc. fst (gateway_act ad call req (Some r) t) = Inr oc \<and> to_state oc = OUT_BLOCKED) \<and>
              world (snd (gateway_act ad call req (Some r) t)) = world t \<and>
              scoped_rules (snd (gateway_act ad call req (Some r) t)) = scoped_rules t"
proof -
  have row: "row_of sr_id (sr_id r) (scoped_rules t) = Some r" using uniq r by (rule row_of_unique)
  note eq = consume_rule_eq[OF uniq row, of "gc_consume_at call"]
  show ?thesis
  proof (cases "rule_consumable (gc_consume_at call) r")
    case True
    then obtain u where u: "consume_rule (sr_id r) (gc_consume_at call) t =
        (Inr (r\<lparr>sr_count := sr_count r + 1\<rparr>), u)" using eq by simp
    have "row_of sr_id (sr_id r) (scoped_rules u) = Some (r\<lparr>sr_count := sr_count r + 1\<rparr>)"
      using consume_rule_rows[OF uniq row, of "sr_id r" "gc_consume_at call"] u True by simp
    moreover have "scoped_rules (snd (run_tool ad req u)) = scoped_rules u"
      using keepsD[OF run_tool_keeps(3), of u ad req] by (simp add: same_def)
    moreover have "gateway_act ad call req (Some r) t = run_tool ad req u"
      using u mut by (simp add: gateway_act_def try_consume_def bindE_def)
    ultimately show ?thesis using True by simp
  next
    case False
    then have "try_consume (sr_id r) (gc_consume_at call) t = (Inr False, t)"
      using eq by (simp add: try_consume_def)
    with False mut show ?thesis
      by (simp add: gateway_act_def bindE_def tool_record_result_def record_event_def Let_def
          outcome_def) (simp add: add_to_session_def)
  qed
qed

lemma gateway_uses_rule:
  assumes uniq: "unique_keys sr_id (scoped_rules s)" and mut: "tr_mutates req"
    and rule: "gateway_rule call req s = Some r"
    and run: "world (snd (gateway_execute env call req s)) \<noteq> world s"
  shows "rule_consumable (gc_consume_at call) r \<and>
         row_of sr_id (sr_id r) (scoped_rules (snd (gateway_execute env call req s))) =
           Some (r\<lparr>sr_count := sr_count r + 1\<rparr>)"
proof -
  from gateway_world_guard[OF run] obtain ad where
    ad: "resolve (ge_registry env) (tr_capability req) = Some ad"
    and al: "gateway_decision env call req s = ALLOW" by blast
  from gateway_cases[OF ad, of s call] run al obtain t where
    t: "world t = world s" "scoped_rules t = scoped_rules s"
       "gateway_execute env call req s = gateway_act ad call req (Some r) t"
    unfolding rule by auto
  have "r \<in> set (scoped_rules s)"
    using rule by (auto simp: gateway_rule_def matching_scoped_rule_def split: if_splits dest!: find_Some_in)
  with gateway_act_rule[of t r req call ad] uniq mut t run show ?thesis
    by (auto split: if_splits)
qed

end
