(* ===== verification/Recovery_Probe.thy ===== *)
theory Recovery_Probe
  imports Operations
begin

text \<open>
  The readiness probes of recovery (\<open>recovery/probe.py\<close>): the HTTP probe and the probe through the
  host helper, the normal form both give to a readiness payload, and the fixed diagnostic targets.
  The check of the probe URL is left out.
\<close>

section \<open>Normal form of a readiness payload\<close>

definition normalize_storage :: "json \<Rightarrow> dict option" where
  "normalize_storage v = (case v of JObj st \<Rightarrow> Some (storage_fields st) | _ \<Rightarrow> None)"

definition storage_entry :: "json \<Rightarrow> dict" where
  "storage_entry v =
     (case normalize_storage v of None \<Rightarrow> [] | Some st \<Rightarrow> [(''storage'', JObj st)])"

definition normalize_payload :: "dict \<Rightarrow> int \<Rightarrow> dict" where
  "normalize_payload payload status =
     [(''reachable'', JBool True), (''status_code'', JInt status),
      (''ok'', JBool (dict_get payload ''ok'' = JBool True))] @
     concat (map (bool_field payload) readiness_boolean_fields) @
     storage_entry (dict_get payload ''storage'') @ [(''error'', JNull)]"

definition normalize_host_helper_payload :: "json \<Rightarrow> exn + dict" where
  "normalize_host_helper_payload payload =
     (case payload of
        JObj d \<Rightarrow>
          (case error_field (dict_get d ''error'') of
             Inl e \<Rightarrow> Inl e
           | Inr err \<Rightarrow> Inr (
               [(''reachable'', JBool (dict_get d ''reachable'' = JBool True)),
                (''status_code'', int_or_null (dict_get d ''status_code'')),
                (''ok'', JBool (dict_get d ''ok'' = JBool True))] @
               concat (map (bool_field d) readiness_boolean_fields) @
               storage_entry (dict_get d ''storage'') @ [(''error'', err)]))
      | _ \<Rightarrow> Inr (bounded_readiness_error False None ''host_helper_unavailable''))"

section \<open>The probes\<close>

datatype http_outcome =
  HttpResponse int string | HttpTimeout | HttpConnectError | HttpOtherError

definition max_readiness_bytes :: nat where
  "max_readiness_bytes = 64 * 1024"

definition http_probe :: "(string \<Rightarrow> json option) \<Rightarrow> http_outcome \<Rightarrow> dict" where
  "http_probe loads out =
     (case out of
        HttpResponse status body \<Rightarrow>
          if max_readiness_bytes < length body
          then bounded_readiness_error True (Some status) ''response_too_large''
          else (case loads body of
                  Some (JObj payload) \<Rightarrow> normalize_payload payload status
                | _ \<Rightarrow> bounded_readiness_error True (Some status) ''invalid_json'')
      | HttpTimeout \<Rightarrow> bounded_readiness_error False None ''timeout''
      | HttpConnectError \<Rightarrow> bounded_readiness_error False None ''connection_error''
      | HttpOtherError \<Rightarrow> bounded_readiness_error False None ''transport_error'')"

definition helper_probe :: "'w helper_client \<Rightarrow> ('w, dict) op" where
  "helper_probe client w =
     (case client readiness_request w of
        (Inl (HostHelperError _), w1) \<Rightarrow>
          (Inr (bounded_readiness_error False None ''host_helper_unavailable''), w1)
      | (Inl e, w1) \<Rightarrow> (Inl e, w1)
      | (Inr resp, w1) \<Rightarrow>
          if \<not> hp_ok resp \<or> hp_capability resp \<noteq> DRIPVID_READINESS \<or> hp_target resp \<noteq> None
          then (Inr (bounded_readiness_error False None ''host_helper_unavailable''), w1)
          else (normalize_host_helper_payload (JObj (hp_data resp)), w1))"

section \<open>Diagnostic targets\<close>

definition diagnostic_target :: "string \<Rightarrow> string \<Rightarrow> string \<Rightarrow> operational_target" where
  "diagnostic_target key unit helper =
     \<lparr>ot_key = key, ot_service_unit = unit,
      ot_capabilities = [''service.status.read'', ''service.logs.read''], ot_health_url = None,
      ot_log_unit = Some unit, ot_deploy_entrypoint = None, ot_rollback_entrypoint = None,
      ot_helper_service = Some helper, ot_helper_log = Some helper\<rparr>"

definition recovery_diagnostic_targets :: "exn + target_registry" where
  "recovery_diagnostic_targets =
     target_registry []
       [diagnostic_target ''dripvid-app'' ''dripvid.service'' ''dripvid'',
        diagnostic_target ''dripvid-mcp'' ''dripvid-mcp.service'' ''dripvid-mcp'',
        diagnostic_target ''dripvid-proxy'' ''nginx.service'' ''nginx'',
        diagnostic_target ''dripvid-tunnel'' ''cloudflared.service'' ''cloudflared'',
        diagnostic_target ''dripvid-database'' ''postgresql.service'' ''postgresql'']"

text \<open>\<open>RecoveryDiagnosticsReader\<close> of \<open>recovery/bootstrap.py\<close>.\<close>

definition diagnostic_site :: "string \<Rightarrow> exn + operational_target" where
  "diagnostic_site component =
     (case map_of recovery_components component of
        None \<Rightarrow> Inl (ValueError (''unknown recovery component: '' @ component))
      | Some rc \<Rightarrow>
          (case recovery_diagnostic_targets of
             Inl e \<Rightarrow> Inl e
           | Inr reg \<Rightarrow> require_target reg (rc_diagnostic_target rc)))"

definition read_service_status :: "'w helper_client \<Rightarrow> string \<Rightarrow> ('w, dict) op" where
  "read_service_status client component =
     bindE (liftE (diagnostic_site component)) (transport_service_status client)"

definition read_recent_logs :: "'w helper_client \<Rightarrow> string \<Rightarrow> int \<Rightarrow> ('w, string list) op" where
  "read_recent_logs client component lines =
     bindE (liftE (diagnostic_site component)) (\<lambda>t.
     bindE (transport_service_logs client t lines) (\<lambda>d.
       returnE (case dict_get_default d ''text'' (JStr []) of
                  JStr text \<Rightarrow> take (nat lines) (splitlines text)
                | _ \<Rightarrow> [])))"

section \<open>Laws\<close>

text \<open>The form of a readiness payload that later stages read.\<close>

lemma dict_get_append: "dict_get (d @ e) k = (if k \<in> fst ` set d then dict_get d k else dict_get e k)"
proof (induction d)
  case (Cons kv d)
  then show ?case by (cases kv) auto
qed simp

text \<open>
  Normalising twice changes nothing. A field function \<open>f\<close> keeps one key, or drops it; what it
  makes of a dict depends only on that key.
\<close>

definition picks :: "(dict \<Rightarrow> string \<Rightarrow> dict) \<Rightarrow> (json \<Rightarrow> bool) \<Rightarrow> bool" where
  "picks f ok \<longleftrightarrow> (\<forall>d k. f d k = (if ok (dict_get d k) then [(k, dict_get d k)] else [])) \<and> \<not> ok JNull"

lemma picks_bool: "picks bool_field (\<lambda>v. \<exists>b. v = JBool b)"
  by (auto simp: picks_def bool_field_def split: json.split)

lemma picks_natural: "picks natural_field (\<lambda>v. \<exists>n. v = JInt n \<and> 0 \<le> n)"
  by (auto simp: picks_def natural_field_def split: json.split)

lemma picks_get:
  assumes "picks f ok"
  shows "dict_get (concat (map (f d) ks)) k = (if k \<in> set ks \<and> ok (dict_get d k) then dict_get d k else JNull)"
  using assms by (induction ks) (auto simp: picks_def dict_get_append)

lemma picks_keys: "picks f ok \<Longrightarrow> fst ` set (concat (map (f d) ks)) = {k \<in> set ks. ok (dict_get d k)}"
  by (auto simp: picks_def image_iff split: if_splits)

lemma picks_again:
  assumes p: "picks f ok"
    and same: "\<And>k. k \<in> set ks \<Longrightarrow> dict_get e k = (if ok (dict_get d k) then dict_get d k else JNull)"
  shows "concat (map (f e) ks) = concat (map (f d) ks)"
proof -
  have "f e k = f d k" if "k \<in> set ks" for k
    using p same[OF that] by (auto simp: picks_def)
  then have "map (f e) ks = map (f d) ks" by (rule map_cong_set)
  then show ?thesis by (rule arg_cong)
qed

lemma storage_fields_again: "storage_fields (storage_fields st) = storage_fields st"
proof -
  let ?b = "concat (map (bool_field st) storage_boolean_fields)"
  let ?n = "concat (map (natural_field st) storage_integer_fields)"
  have get: "dict_get (?b @ ?n) k =
      (if k \<in> set storage_boolean_fields \<and> (\<exists>b. dict_get st k = JBool b) then dict_get st k
       else if k \<in> set storage_integer_fields \<and> (\<exists>n. dict_get st k = JInt n \<and> 0 \<le> n) then dict_get st k
       else JNull)" for k
    unfolding dict_get_append picks_keys[OF picks_bool] picks_get[OF picks_bool] picks_get[OF picks_natural]
    by auto
  have disj: "k \<in> set storage_boolean_fields \<Longrightarrow> k \<notin> set storage_integer_fields" for k
    by (auto simp: storage_boolean_fields_def storage_integer_fields_def)
  have "concat (map (bool_field (?b @ ?n)) storage_boolean_fields) = ?b"
    by (rule picks_again[OF picks_bool]) (use disj in \<open>auto simp: get\<close>)
  moreover have "concat (map (natural_field (?b @ ?n)) storage_integer_fields) = ?n"
    by (rule picks_again[OF picks_natural]) (use disj in \<open>auto simp: get\<close>)
  ultimately show ?thesis by (simp add: storage_fields_def)
qed

definition readiness_form :: "json \<Rightarrow> json \<Rightarrow> json \<Rightarrow> dict \<Rightarrow> dict \<Rightarrow> json \<Rightarrow> dict" where
  "readiness_form reach status ok flds storage err =
     [(''reachable'', reach), (''status_code'', status), (''ok'', ok)] @ flds @ storage @ [(''error'', err)]"

lemma readiness_form_get:
  assumes flds: "\<And>k. k \<in> fst ` set flds \<Longrightarrow> k \<in> set readiness_boolean_fields"
    and storage: "fst ` set storage \<subseteq> {''storage''}"
  shows "dict_get (readiness_form r s ok flds storage err) ''reachable'' = r"
    and "dict_get (readiness_form r s ok flds storage err) ''status_code'' = s"
    and "dict_get (readiness_form r s ok flds storage err) ''ok'' = ok"
    and "dict_get (readiness_form r s ok flds storage err) ''storage'' = dict_get storage ''storage''"
    and "dict_get (readiness_form r s ok flds storage err) ''error'' = err"
    and "k \<in> set readiness_boolean_fields \<Longrightarrow>
         dict_get (readiness_form r s ok flds storage err) k = dict_get flds k"
proof -
  have no: "''storage'' \<notin> fst ` set flds" "''error'' \<notin> fst ` set flds"
    using flds[of "''storage''"] flds[of "''error''"] by (auto simp: readiness_boolean_fields_def)
  have empty: "dict_get d k = JNull" if "k \<notin> fst ` set d" for d k
    using that by (induction d) auto
  show "dict_get (readiness_form r s ok flds storage err) ''reachable'' = r"
    "dict_get (readiness_form r s ok flds storage err) ''status_code'' = s"
    "dict_get (readiness_form r s ok flds storage err) ''ok'' = ok"
    by (simp_all add: readiness_form_def)
  show "dict_get (readiness_form r s ok flds storage err) ''storage'' = dict_get storage ''storage''"
    using no empty[of "''storage''" storage] by (auto simp: readiness_form_def dict_get_append)
  show "dict_get (readiness_form r s ok flds storage err) ''error'' = err"
    using no storage by (auto simp: readiness_form_def dict_get_append)
  assume k: "k \<in> set readiness_boolean_fields"
  then have "k \<notin> fst ` set storage" "k \<notin> {''reachable'', ''status_code'', ''ok'', ''error''}"
    using storage by (auto simp: readiness_boolean_fields_def)
  with empty[of k flds] show "dict_get (readiness_form r s ok flds storage err) k = dict_get flds k"
    by (auto simp: readiness_form_def dict_get_append)
qed

lemma diagnostic_sites:
  "diagnostic_site ''app'' = Inr (diagnostic_target ''dripvid-app'' ''dripvid.service'' ''dripvid'')"
  "diagnostic_site ''mcp'' = Inr (diagnostic_target ''dripvid-mcp'' ''dripvid-mcp.service'' ''dripvid-mcp'')"
  "diagnostic_site ''proxy'' = Inr (diagnostic_target ''dripvid-proxy'' ''nginx.service'' ''nginx'')"
  "diagnostic_site ''tunnel'' = Inr (diagnostic_target ''dripvid-tunnel'' ''cloudflared.service'' ''cloudflared'')"
  "diagnostic_site ''database'' = Inr (diagnostic_target ''dripvid-database'' ''postgresql.service'' ''postgresql'')"
  by (simp_all add: diagnostic_site_def recovery_components_def component_entry_def
      recovery_diagnostic_targets_def diagnostic_target_def require_target_def)

text \<open>Every recovery component can be read through the helper's default allow lists.\<close>

lemma diagnostic_requests_allowed:
  assumes "map_of recovery_components c \<noteq> None"
  shows "\<exists>t. diagnostic_site c = Inr t \<and>
     request_wf default_allow_lists
       (helper_request_of SERVICE_STATUS (Some (or_key (ot_helper_service t) (ot_key t))) []) \<and>
     (1 \<le> n \<longrightarrow> n \<le> 500 \<longrightarrow> request_wf default_allow_lists
       (helper_request_of LOGS_RECENT (Some (or_key (ot_helper_log t) (ot_key t))) [(''lines'', JInt n)]))"
proof -
  have "c \<in> {''app'', ''mcp'', ''proxy'', ''tunnel'', ''database''}"
    using assms by (auto simp: recovery_components_def component_entry_def split: if_splits)
  then show ?thesis
    by (elim insertE emptyE)
       (simp_all add: diagnostic_sites diagnostic_target_def or_key_def helper_request_of_def
         request_wf_def default_allow_lists_def)
qed

text \<open>
  The recovery probe reads back exactly what the helper's executor measured: its normal form is
  the one the executor already gave.
\<close>

lemma error_field_again: "error_field v = Inr err \<Longrightarrow> error_field err = Inr err"
  by (auto simp: error_field_def split: json.splits if_splits)

lemma probe_reads_executor:
  assumes "normalize_readiness v = Inr d"
  shows "normalize_host_helper_payload (JObj d) = Inr d"
proof (cases "\<exists>p. v = JObj p")
  case False
  with assms have "d = bounded_readiness_error False None ''transport_error''"
    by (auto simp: normalize_readiness_def split: json.splits)
  then show ?thesis
    by (simp add: normalize_host_helper_payload_def bounded_readiness_error_def error_field_def
        allowed_readiness_errors_def int_or_null_def bool_field_def readiness_boolean_fields_def
        storage_entry_def normalize_storage_def)
next
  case True
  then obtain p where v: "v = JObj p" by blast
  from assms v obtain err where err: "error_field (dict_get p ''error'') = Inr err"
    by (auto simp: normalize_readiness_def split: sum.splits)
  let ?flds = "concat (map (bool_field p) readiness_boolean_fields)"
  let ?storage = "case dict_get p ''storage'' of
      JObj st \<Rightarrow> if storage_fields st = [] then [] else [(''storage'', JObj (storage_fields st))] | _ \<Rightarrow> []"
  let ?r = "JBool (dict_get p ''reachable'' = JBool True)" and ?s = "int_or_null (dict_get p ''status_code'')"
  let ?ok = "JBool (dict_get p ''ok'' = JBool True)"
  have d: "d = readiness_form ?r ?s ?ok ?flds ?storage err"
    using assms v err by (simp add: normalize_readiness_def readiness_form_def)
  have fk: "k \<in> fst ` set ?flds \<Longrightarrow> k \<in> set readiness_boolean_fields" for k
    unfolding picks_keys[OF picks_bool] by simp
  have sk: "fst ` set ?storage \<subseteq> {''storage''}" by (auto split: json.splits if_splits)
  have get: "dict_get d ''reachable'' = ?r" "dict_get d ''status_code'' = ?s" "dict_get d ''ok'' = ?ok"
      "dict_get d ''storage'' = dict_get ?storage ''storage''" "dict_get d ''error'' = err"
    unfolding d by (rule readiness_form_get[OF fk sk], assumption)+
  have "concat (map (bool_field d) readiness_boolean_fields) = ?flds"
  proof (rule picks_again[OF picks_bool])
    fix k
    assume k: "k \<in> set readiness_boolean_fields"
    have "dict_get d k = dict_get ?flds k"
      unfolding d by (rule readiness_form_get(6)[OF fk sk k])
    then show "dict_get d k = (if \<exists>b. dict_get p k = JBool b then dict_get p k else JNull)"
      using k unfolding picks_get[OF picks_bool] by simp
  qed
  moreover have "storage_entry (dict_get d ''storage'') = ?storage"
    unfolding get(4) by (auto simp: storage_entry_def normalize_storage_def storage_fields_again split: json.split)
  moreover have "int_or_null ?s = ?s" by (simp add: int_or_null_def split: json.split)
  ultimately show ?thesis
    using error_field_again[OF err]
    by (simp add: normalize_host_helper_payload_def get(1,2,3,5)) (simp add: d readiness_form_def)
qed

end
