(* ===== verification/Observer_Laws.thy ===== *)
theory Observer_Laws
  imports Recovery_Observer Mission_History
begin

text \<open>
  What the recovery observer guarantees: the incident table stays consistent, an observe-only
  cycle files no mission, a filed mission is justified by the policy and the limits, and stored
  log lines are bounded and free of secret-like text.
\<close>

section \<open>The incident table\<close>

definition inv_kept :: "'a recovery_db_scheme \<Rightarrow> 'a recovery_db_scheme \<Rightarrow> bool" where
  "inv_kept s t \<longleftrightarrow> (incidents_inv s \<longrightarrow> incidents_inv t)"

lemma inv_kept_refl [simp]: "reflp inv_kept"
  by (simp add: reflp_def inv_kept_def)

lemma inv_kept_trans [simp]: "transp inv_kept"
  by (simp add: transp_def inv_kept_def)

lemma keeps_inv_bindE [keeps_intros]:
  "keeps inv_kept m \<Longrightarrow> (\<And>x. keeps inv_kept (f x)) \<Longrightarrow> keeps inv_kept (bindE m f)"
  by (rule keeps_bindE) simp_all

lemma keeps_inv_basic [keeps_intros]:
  "keeps inv_kept (returnE x)" "keeps inv_kept (raiseE e)"
  "keeps inv_kept (readE h)" "keeps inv_kept (liftE r)"
  by (simp_all add: keeps_returnE keeps_raiseE keeps_readE keeps_liftE)

lemma keeps_inv_service [keeps_intros]:
  "keeps inv_kept (update_diagnostics iid now d)"
  "keeps inv_kept (mark_recovery_pending iid now)"
  "keeps inv_kept (mark_verifying iid now v)"
  "keeps inv_kept (resolve_incident iid now v)"
  "keeps inv_kept (escalate iid now r dd)"
  "keeps inv_kept (attach_mission iid mid)"
  "keeps inv_kept (record_attempt n iid now mo sim out res)"
  "keeps inv_kept (observe_failure c n k now v)"
  "keeps inv_kept (resolve_if_healthy k now v)"
  by (simp_all add: keeps_def inv_kept_def incident_changes_inv claim_attach_inv record_attempt_inv
      observe_failure_inv resolve_if_healthy_inv)

lemma same_incidents: "keeps (same incidents) m \<Longrightarrow> keeps inv_kept m"
  by (simp add: keeps_def same_def inv_kept_def incidents_inv_def)

lemma keeps_inv_queries [keeps_intros]:
  "keeps inv_kept (get_incident iid)" "keeps inv_kept (active_incident k)"
  "keeps inv_kept (can_recover c iid now)"
  by (rule keepsI; simp add: inv_kept_def get_incident_def active_incident_def can_recover_def Let_def
      split: option.split sum.split)+

lemma keeps_inv_notify [keeps_intros]: "keeps inv_kept (observer_notify ob i c now v x g t m)"
proof -
  have "keeps (same incidents) (notify i c now q)" for q
    by (rule keepsI) (simp add: same_def notify_def Let_def split: sum.split option.split)
  then show ?thesis
    unfolding observer_notify_def by (intro keeps_intros same_incidents)
qed

lemma keeps_inv_missions [keeps_intros]:
  "keeps inv_kept (create_mission l i c n)" "keeps inv_kept (create_plan reg ids mid es)"
  by (rule same_incidents, rule keepsI,
      simp add: same_def create_mission_def create_plan_def Let_def add_to_session_def
        split: sum.split option.split)+

lemma keeps_inv_observer [keeps_intros]:
  "keeps inv_kept (capture_diagnostics iid now r st ls)"
  "keeps inv_kept (create_recovery_mission ob call iid r ss)"
  "keeps inv_kept (handle_policy_escalation ob call iid r ss)"
  "keeps inv_kept (verify_recovery ob call iid r ss)"
  unfolding capture_diagnostics_def create_recovery_mission_def file_mission_def
    handle_policy_escalation_def verify_recovery_def Let_def
  by (intro keeps_intros)+

lemma keeps_inv_outcome [keeps_intros]:
  "keeps inv_kept (record_mission_outcome ob call iid mid st r)"
  unfolding record_mission_outcome_def
  by (intro keeps_intros) (auto split: outcome_state.split intro!: keeps_intros)

lemma keeps_inv_cycle [keeps_intros]: "keeps inv_kept (cycle_component ob ci k fl)"
  unfolding cycle_component_def cycle_failure_def after_failure_def Let_def by (intro keeps_intros)

lemma keeps_inv_components [keeps_intros]: "keeps inv_kept (cycle_components ob ci ks fl)"
proof (induction ob ci ks fl rule: cycle_components.induct)
  case (2 ob ci k ks fl)
  then show ?case unfolding cycle_components.simps by (intro keeps_intros)
qed (simp only: cycle_components.simps, intro keeps_intros)

lemma cycle_run_once_keeps_inv: "keeps inv_kept (cycle_run_once ob ci o_only)"
  unfolding cycle_run_once_def Let_def by (intro keeps_intros)

lemma handle_execution_result_keeps_inv: "keeps inv_kept (handle_execution_result ob call mid oc)"
  unfolding handle_execution_result_def by (intro keeps_intros)

section \<open>Observe-only cycles\<close>

lemma keeps_missions_service [keeps_intros]:
  "keeps (same missions) (change_incident iid f)"
  by (rule keepsI) (simp add: same_def change_incident_def save_incident_def split: option.split sum.split)

lemma keeps_missions_more [keeps_intros]:
  "keeps (same missions) (get_incident iid)" "keeps (same missions) (active_incident k)"
  "keeps (same missions) (observe_failure c n k now v)"
  "keeps (same missions) (resolve_if_healthy k now v)"
  by (rule keepsI; simp add: same_def get_incident_def active_incident_def observe_failure_def
      resolve_if_healthy_def save_incident_def Let_def split: option.split sum.split)+

lemma keeps_missions_notify [keeps_intros]: "keeps (same missions) (observer_notify ob i c now v x g t m)"
proof -
  have "keeps (same missions) (notify i c now q)" for q
    by (rule keepsI) (simp add: same_def notify_def Let_def split: sum.split option.split)
  then show ?thesis unfolding observer_notify_def by (intro keeps_intros)
qed

lemma observe_only_files_nothing:
  assumes "ob_observe_only ob"
  shows "keeps (same missions) (create_recovery_mission ob call iid r ss)"
  unfolding create_recovery_mission_def Let_def
  by (simp only: assms simp_thms if_True) (intro keeps_intros)

lemma keeps_missions_component:
  assumes "ob_observe_only ob"
  shows "keeps (same missions) (cycle_component ob ci k fl)"
  unfolding cycle_component_def cycle_failure_def after_failure_def capture_diagnostics_def
    update_diagnostics_def handle_policy_escalation_def escalate_def verify_recovery_def
    resolve_incident_def Let_def
  by (intro keeps_intros observe_only_files_nothing assms)

lemma keeps_missions_components:
  "ob_observe_only ob \<Longrightarrow> keeps (same missions) (cycle_components ob ci ks fl)"
proof (induction ob ci ks fl rule: cycle_components.induct)
  case (2 ob ci k ks fl)
  then show ?case
    unfolding cycle_components.simps by (intro keeps_intros keeps_missions_component)
qed (simp only: cycle_components.simps, intro keeps_intros)

lemma observe_only_cycle: "keeps (same missions) (cycle_run_once ob ci True)"
  unfolding cycle_run_once_def handle_policy_escalation_def escalate_def Let_def
  by (intro keeps_intros keeps_missions_components) simp

section \<open>Filing a recovery mission\<close>

lemma mark_recovery_pending_Inr:
  assumes "mark_recovery_pending iid now s = (Inr i', t)"
  shows "\<exists>i. row_of ri_id iid (incidents s) = Some i \<and> ri_active_key i \<noteq> None \<and>
    ri_state i \<in> {SUSPECT, DIAGNOSING, RECOVERY_PENDING} \<and>
    i' = i\<lparr>ri_state := RECOVERY_PENDING, ri_last_observed_at := Aware now\<rparr> \<and>
    t = save_incident i' s"
  using assms
  by (auto simp: mark_recovery_pending_def change_incident_def split: option.splits if_splits)

lemma create_recovery_mission_Some:
  assumes "create_recovery_mission ob call iid r ss s = (Inr (Some m), t)"
  shows "\<exists>i. row_of ri_id iid (incidents s) = Some i \<and> ri_active_key i \<noteq> None \<and>
     ri_state i \<in> {SUSPECT, DIAGNOSING, RECOVERY_PENDING} \<and> \<not> has_mission i \<and>
     \<not> ob_observe_only ob \<and> ob_threshold ob \<le> ri_failures i \<and> service_down ss \<and>
     int (rowcount (counts_for i (oc_now call 1 - seconds (rv_window_seconds (ob_config ob)))) (attempts s))
       < rv_attempt_budget (ob_config ob) \<and>
     (\<forall>w. ri_last_attempt_at i = Some w \<longrightarrow>
        seconds (rv_cooldown_seconds (ob_config ob)) \<le> oc_now call 1 - stamp_instant w) \<and>
     m = mission_row (oc_id call 0) (oc_now call 2) (recovery_mission (ri_component i))"
proof -
  from assms obtain i where i: "row_of ri_id iid (incidents s) = Some i"
    by (auto simp: create_recovery_mission_def get_incident_def bindE_def split: option.splits)
  have id: "ri_id i = iid" using i by (auto dest: row_of_SomeD)
  let ?d = "decide_recovery (Some (ri_component i)) ss (ri_failures i) (ob_threshold ob) r"
  from assms i have nm: "\<not> has_mission i" and act: "rd_action ?d = Recover" and oo: "\<not> ob_observe_only ob"
    by (auto simp: create_recovery_mission_def get_incident_def Let_def split: if_splits)
  have comp: "rd_component ?d = Some (ri_component i)" using act by (rule decide_recovery_component)
  from assms i nm act oo comp id obtain i' u al v where
    mp: "mark_recovery_pending iid (oc_now call 0) s = (Inr i', u)"
    and cr: "can_recover (ob_config ob) iid (oc_now call 1) u = (Inr al, v)"
    and al: "al_allowed al"
    and fm: "file_mission ob call i (ri_component i) v = (Inr (Some m), t)"
    by (auto simp: create_recovery_mission_def get_incident_def Let_def elim!: bindE_InrE
        split: if_splits)
  from mark_recovery_pending_Inr[OF mp] i have p: "ri_active_key i \<noteq> None"
      "ri_state i \<in> {SUSPECT, DIAGNOSING, RECOVERY_PENDING}"
    and i': "i' = i\<lparr>ri_state := RECOVERY_PENDING, ri_last_observed_at := Aware (oc_now call 0)\<rparr>"
    and u: "u = save_incident i' s" by auto
  have rowu: "row_of ri_id iid (incidents u) = Some i'"
    using i i' u id by (simp add: save_incident_def table_simps)
  have cnt: "counts_for i' w = counts_for i w" for w by (rule ext) (simp add: counts_for_def i')
  have "attempts u = attempts s" using u by (simp add: save_incident_def)
  with cr al rowu i' cnt have lim:
    "int (rowcount (counts_for i (oc_now call 1 - seconds (rv_window_seconds (ob_config ob)))) (attempts s))
       < rv_attempt_budget (ob_config ob)"
    "\<forall>w. ri_last_attempt_at i = Some w \<longrightarrow>
        seconds (rv_cooldown_seconds (ob_config ob)) \<le> oc_now call 1 - stamp_instant w"
    by (auto simp: can_recover_def Let_def split: if_splits option.splits)
  have m: "m = mission_row (oc_id call 0) (oc_now call 2) (recovery_mission (ri_component i))"
    using fm by (auto simp: file_mission_def create_mission_def Let_def elim!: bindE_InrE split: sum.splits)
  from act have "ob_threshold ob \<le> ri_failures i \<and> service_down ss"
    by (simp add: decide_recovery_recover)
  with i p nm oo lim m show ?thesis by blast
qed

section \<open>Stored log lines\<close>

lemma redacted_clean: "\<not> secret_like ''[redacted]''"
  by code_simp

lemma bounded_logs_clean:
  "line \<in> set (bounded_logs logs) \<Longrightarrow> length line \<le> 512 \<and> \<not> secret_like line"
  using redacted_clean by (auto simp: bounded_logs_def bounded_line_def Let_def)

end
