(* ===== verification/Delivery_Laws.thy ===== *)
theory Delivery_Laws
  imports Delivery
begin

text \<open>
  The delivery as an abstract process: a change is reviewed, then returned or put up for approval, then
  published, deployed and rolled back, in this order. Every operation of the delivery service and
  every decision on an approval takes each delivery along this process or leaves it where it is.
\<close>

section \<open>The abstract process\<close>

datatype phase = Reviewing | Returned | Awaiting | Published | Deployed | RolledBack

inductive phase_step :: "phase \<Rightarrow> phase \<Rightarrow> bool" where
  reject: "phase_step Reviewing Returned"
| approve: "phase_step Reviewing Awaiting"
| deny: "phase_step Awaiting Returned"
| publish: "phase_step Awaiting Published"
| deploy: "phase_step Published Deployed"
| roll_back: "phase_step Deployed RolledBack"

inductive_simps phase_step_simps [simp]:
  "phase_step Returned p" "phase_step RolledBack p" "phase_step Published p" "phase_step Deployed p"

definition phase_of :: "delivery \<Rightarrow> phase" where
  "phase_of d =
     (case d_stage d of
        STAGE_QA \<Rightarrow> Reviewing
      | STAGE_DEVELOPER \<Rightarrow> Returned
      | STAGE_WAITING_APPROVAL \<Rightarrow>
          if d_rollback_release_id d \<noteq> None then RolledBack
          else if d_release_id d \<noteq> None then Deployed
          else if d_published_branch d \<noteq> None then Published
          else Awaiting)"

abbreviation phase_moves :: "phase \<Rightarrow> phase \<Rightarrow> bool" where
  "phase_moves p q \<equiv> p = q \<or> phase_step p q"

section \<open>The invariant\<close>

definition unrecorded :: "delivery \<Rightarrow> bool" where
  "unrecorded d \<longleftrightarrow>
     d_published_branch d = None \<and> d_published_commit d = None \<and> d_published_tree d = None \<and>
     d_published_at d = None \<and> d_release_id d = None \<and> d_prior_release_id d = None \<and>
     d_deployed_at d = None \<and> d_rollback_release_id d = None \<and> d_rolled_back_at d = None"

text \<open>What is recorded is recorded completely and in order.\<close>

definition recorded_in_order :: "delivery \<Rightarrow> bool" where
  "recorded_in_order d \<longleftrightarrow>
     (d_published_branch d = None \<longleftrightarrow> d_published_at d = None) \<and>
     (d_published_commit d = None \<longleftrightarrow> d_published_at d = None) \<and>
     (d_published_tree d = None \<longleftrightarrow> d_published_at d = None) \<and>
     (d_release_id d = None \<longleftrightarrow> d_deployed_at d = None) \<and>
     (d_prior_release_id d \<noteq> None \<longrightarrow> d_release_id d \<noteq> None) \<and>
     (d_release_id d \<noteq> None \<longrightarrow> d_published_branch d \<noteq> None) \<and>
     (d_rollback_release_id d = None \<longleftrightarrow> d_rolled_back_at d = None) \<and>
     (d_rollback_release_id d \<noteq> None \<longrightarrow> d_release_id d \<noteq> None \<and> d_rollback_release_id d = d_prior_release_id d)"

definition delivery_ok :: "approval_request list \<Rightarrow> delivery \<Rightarrow> bool" where
  "delivery_ok approvals d \<longleftrightarrow>
     recorded_in_order d \<and>
     (case d_stage d of
        STAGE_QA \<Rightarrow> d_qa_result d = None \<and> unrecorded d
      | STAGE_DEVELOPER \<Rightarrow> d_approval_reference d = None \<and> unrecorded d
      | STAGE_WAITING_APPROVAL \<Rightarrow>
          d_qa_result d = Some QA_PASSED \<and>
          (\<exists>r a. d_approval_reference d = Some r \<and> row_of ar_id r approvals = Some a \<and>
             ar_mission a = d_mission d \<and> ar_target a = d_change_ref d \<and>
             (d_published_branch d \<noteq> None \<longrightarrow> ar_state a = APPROVED)))"

definition delivery_inv :: "('w, 'a) delivery_db_scheme \<Rightarrow> bool" where
  "delivery_inv s \<longleftrightarrow>
     unique_keys d_id (deliveries s) \<and> unique_keys d_mission (deliveries s) \<and>
     (\<forall>d \<in> set (deliveries s). delivery_ok (approval_requests s) d)"

text \<open>How the deliveries of a state follow from those of an earlier one.\<close>

definition deliveries_follow :: "('w, 'a) delivery_db_scheme \<Rightarrow> ('w, 'a) delivery_db_scheme \<Rightarrow> bool" where
  "deliveries_follow s t \<longleftrightarrow>
     (\<forall>k d. row_of d_id k (deliveries s) = Some d \<longrightarrow>
        (\<exists>d'. row_of d_id k (deliveries t) = Some d' \<and> d_mission d' = d_mission d \<and>
              d_change_ref d' = d_change_ref d \<and> phase_moves (phase_of d) (phase_of d'))) \<and>
     (\<forall>k d. row_of d_id k (deliveries s) = None \<longrightarrow> row_of d_id k (deliveries t) = Some d \<longrightarrow>
        phase_of d = Reviewing)"

lemma deliveries_follow_same: "deliveries t = deliveries s \<Longrightarrow> deliveries_follow s t"
  by (simp add: deliveries_follow_def)

section \<open>Saving one delivery\<close>

lemma delivery_row_ids:
  assumes "delivery_inv s" and "row_of d_mission mid (deliveries s) = Some d"
  shows "row_of d_id (d_id d) (deliveries s) = Some d" and "d_mission d = mid"
    and "delivery_ok (approval_requests s) d"
proof -
  from assms(2) have d: "d \<in> set (deliveries s)" "d_mission d = mid" by (auto dest: row_of_SomeD)
  then show "d_mission d = mid" by simp
  show "row_of d_id (d_id d) (deliveries s) = Some d"
    using assms(1) d by (intro row_of_unique) (auto simp: delivery_inv_def)
  show "delivery_ok (approval_requests s) d" using assms(1) d by (auto simp: delivery_inv_def)
qed

lemma map_save_row_other:
  assumes "row_of key (key r) rows = Some old" and "unique_keys key rows" and "f r = f old"
  shows "map f (save_row key r rows) = map f rows"
proof -
  have "x = old" if "x \<in> set rows" "key x = key r" for x
    using row_of_eq_iff[OF assms(2,1) that(1)] that(2) by simp
  with assms(3) show ?thesis by (auto simp: save_row_def update_where_def)
qed

text \<open>The one way the service changes a delivery: a row with the same identity, in the next phase.\<close>

lemma save_delivery_follows:
  assumes inv: "delivery_inv s" and row: "row_of d_id (d_id d) (deliveries s) = Some d"
    and keep: "d_id d' = d_id d" "d_mission d' = d_mission d" "d_change_ref d' = d_change_ref d"
    and moves: "phase_moves (phase_of d) (phase_of d')"
    and rows: "deliveries t = save_row d_id d' (deliveries s)"
    and ok: "delivery_ok (approval_requests t) d'"
    and others: "\<And>x. delivery_ok (approval_requests s) x \<Longrightarrow> delivery_ok (approval_requests t) x"
  shows "delivery_inv t \<and> deliveries_follow s t"
proof
  have uniq: "unique_keys d_id (deliveries s)" "unique_keys d_mission (deliveries s)"
    and all: "\<forall>x \<in> set (deliveries s). delivery_ok (approval_requests s) x"
    using inv by (auto simp: delivery_inv_def)
  have row': "row_of d_id (d_id d') (deliveries s) = Some d" using row keep by simp
  have "map d_mission (deliveries t) = map d_mission (deliveries s)"
    unfolding rows by (rule map_save_row_other[OF row' uniq(1)]) (simp add: keep)
  then show "delivery_inv t"
    using uniq all ok others set_save_row_subset[of d_id d' "deliveries s"]
    unfolding delivery_inv_def rows by auto
  show "deliveries_follow s t"
    unfolding deliveries_follow_def rows using row' row keep moves by (auto simp: table_simps)
qed

lemma guards_None [simp]: "guards gs = None \<longleftrightarrow> (\<forall>g \<in> set gs. \<not> fst g)"
  by (induction gs rule: guards.induct) auto

declare guards.simps [simp del]

lemma delivery_ok_more_approvals:
  assumes "delivery_ok approvals d" and "\<And>k a. row_of ar_id k approvals = Some a \<Longrightarrow> row_of ar_id k approvals' = Some a"
  shows "delivery_ok approvals' d"
  using assms unfolding delivery_ok_def by (fastforce split: delivery_stage.splits)

section \<open>Every operation follows the process\<close>

definition follows_process :: "(('w, 'a) delivery_db_scheme, 'b) op \<Rightarrow> bool" where
  "follows_process m \<longleftrightarrow>
     (\<forall>s. delivery_inv s \<longrightarrow> delivery_inv (snd (m s)) \<and> deliveries_follow s (snd (m s)))"

lemma follows_processI:
  "(\<And>s. delivery_inv s \<Longrightarrow> delivery_inv (snd (m s)) \<and> deliveries_follow s (snd (m s))) \<Longrightarrow> follows_process m"
  by (simp add: follows_process_def)

lemma unchanged_follows:
  "deliveries t = deliveries s \<Longrightarrow> approval_requests t = approval_requests s \<Longrightarrow> delivery_inv s \<Longrightarrow>
   delivery_inv t \<and> deliveries_follow s t"
  by (simp add: delivery_inv_def deliveries_follow_same)

lemma with_delivery_follows:
  assumes "\<And>m d s. delivery_inv s \<Longrightarrow> row_of d_mission mid (deliveries s) = Some d \<Longrightarrow>
     row_of m_id mid (missions s) = Some m \<Longrightarrow>
     delivery_inv (snd (f m d s)) \<and> deliveries_follow s (snd (f m d s))"
  shows "follows_process (with_delivery mid f)"
proof (rule follows_processI)
  fix s :: "('a, 'b) delivery_db_scheme" assume inv: "delivery_inv s"
  then show "delivery_inv (snd (with_delivery mid f s)) \<and> deliveries_follow s (snd (with_delivery mid f s))"
    using assms[OF inv] by (auto simp: with_delivery_def deliveries_follow_same split: option.split)
qed

lemma get_request_eq: "get_request r s = (case row_of ar_id r (approval_requests s) of
    None \<Rightarrow> (Inl (KeyError (''approval request not found: '' @ r)), s) | Some a \<Rightarrow> (Inr a, s))"
  by (simp add: get_request_def)

text \<open>An update of an approved delivery that keeps its identity and moves it along the process.\<close>

definition advances :: "delivery \<Rightarrow> delivery \<Rightarrow> bool" where
  "advances d d' \<longleftrightarrow>
     d_id d' = d_id d \<and> d_mission d' = d_mission d \<and> d_change_ref d' = d_change_ref d \<and>
     d_stage d' = STAGE_WAITING_APPROVAL \<and> d_qa_result d' = Some QA_PASSED \<and>
     d_approval_reference d' = d_approval_reference d \<and> recorded_in_order d' \<and>
     phase_moves (phase_of d) (phase_of d')"

definition awaiting_ok :: "delivery \<Rightarrow> bool" where
  "awaiting_ok d \<longleftrightarrow>
     d_stage d = STAGE_WAITING_APPROVAL \<and> d_qa_result d = Some QA_PASSED \<and> recorded_in_order d"

lemma approved_delivery_follows:
  fixes f :: "delivery \<Rightarrow> (('w, 'b) delivery_db_scheme, delivery) op"
  assumes step: "\<And>d s. awaiting_ok d \<Longrightarrow> (\<forall>g \<in> set (further d). \<not> fst g) \<Longrightarrow>
       snd (f d s) = s \<or> (\<exists>d'. snd (f d s) = save_delivery d' s \<and> advances d d')"
  shows "follows_process (approved_delivery what further mid change_ref now f)"
  unfolding approved_delivery_def
proof (rule with_delivery_follows)
  fix m d and s :: "('w, 'b) delivery_db_scheme"
  assume inv: "delivery_inv s" and d: "row_of d_mission mid (deliveries s) = Some d"
  note ids = delivery_row_ids[OF inv d]
  let ?r = "case d_approval_reference d of None \<Rightarrow> [] | Some r \<Rightarrow> r"
  let ?gs = "[(d_change_ref d \<noteq> change_ref, ''change_ref does not match '' @ what @ '' candidate''),
       (d_stage d \<noteq> STAGE_WAITING_APPROVAL, ''delivery is not waiting for '' @ what @ '' approval''),
       (d_qa_result d \<noteq> Some QA_PASSED, ''QA must pass before '' @ what),
       (no_text (d_approval_reference d), what @ '' requires human approval'')] @ further d"
  let ?body = "bindE (get_request ?r) (\<lambda>a t. case approval_guards what mid change_ref now a of
       Some e \<Rightarrow> (Inl e, t) | None \<Rightarrow> f d t)"
  show "delivery_inv (snd (case guards ?gs of Some e \<Rightarrow> (Inl e, s) | None \<Rightarrow> ?body s)) \<and>
        deliveries_follow s (snd (case guards ?gs of Some e \<Rightarrow> (Inl e, s) | None \<Rightarrow> ?body s))"
  proof (cases "guards ?gs")
    case (Some e)
    show ?thesis unfolding Some using inv by (simp add: deliveries_follow_same)
  next
    case None
    from None[unfolded guards_None]
    have st: "d_stage d = STAGE_WAITING_APPROVAL" "d_qa_result d = Some QA_PASSED"
        "\<forall>g \<in> set (further d). \<not> fst g" by auto
    with ids(3) obtain r a where a: "d_approval_reference d = Some r"
        "row_of ar_id r (approval_requests s) = Some a" "ar_mission a = d_mission d" "ar_target a = d_change_ref d"
      and ok: "awaiting_ok d"
      by (auto simp: delivery_ok_def awaiting_ok_def)
    have body: "?body s = (case approval_guards what mid change_ref now a of
        Some e \<Rightarrow> (Inl e, s) | None \<Rightarrow> f d s)"
      using a by (simp add: get_request_eq bindE_def)
    show ?thesis
    proof (cases "approval_guards what mid change_ref now a = None \<and> snd (f d s) \<noteq> s")
      case False
      then show ?thesis
        unfolding None body using inv by (auto simp: deliveries_follow_same split: option.split)
    next
      case True
      then have app: "ar_state a = APPROVED" by (simp add: approval_guards_def)
      from True step[OF ok st(3), of s] obtain d' where d': "snd (f d s) = save_delivery d' s"
        and adv: "advances d d'" by blast
      have "delivery_ok (approval_requests s) d'" using adv a app by (simp add: advances_def delivery_ok_def)
      then have "delivery_inv (save_delivery d' s) \<and> deliveries_follow s (save_delivery d' s)"
        using inv ids(1) adv by (intro save_delivery_follows[where d = d and d' = d'])
          (auto simp: save_delivery_def advances_def)
      then show ?thesis unfolding None body using True d' by simp
    qed
  qed
qed

lemma guarded_follows:
  assumes "follows_process m"
  shows "follows_process (\<lambda>s. case guards gs of Some e \<Rightarrow> (Inl e, s) | None \<Rightarrow> m s)"
  using assms by (auto simp: follows_process_def deliveries_follow_same split: option.split)

lemma publish_advances:
  assumes "awaiting_ok d" and "d_published_branch d = None" and "d_published_commit d = None"
  shows "advances d (d\<lparr>d_published_branch := Some b, d_published_commit := Some c,
     d_published_tree := Some t, d_published_at := Some p\<rparr>)"
  using assms by (auto simp: advances_def awaiting_ok_def recorded_in_order_def phase_of_def phase_step.simps)

lemma deploy_advances:
  assumes "awaiting_ok d" and "\<not> unpublished d" and "d_release_id d = None"
  shows "advances d (d\<lparr>d_release_id := Some r, d_prior_release_id := p, d_deployed_at := Some t\<rparr>)"
  using assms by (auto simp: advances_def awaiting_ok_def recorded_in_order_def phase_of_def phase_step.simps
      unpublished_def no_text_def)

lemma roll_back_advances:
  assumes "awaiting_ok d" and "\<not> no_text (d_release_id d)" and "d_prior_release_id d = Some r"
    and "d_rollback_release_id d = None"
  shows "advances d (d\<lparr>d_rollback_release_id := Some r, d_rolled_back_at := Some t\<rparr>)"
  using assms by (auto simp: advances_def awaiting_ok_def recorded_in_order_def phase_of_def phase_step.simps
      no_text_def)

lemma publish_row_step:
  "awaiting_ok d \<Longrightarrow> snd (publish_row b c t p d s) = s \<or>
     (\<exists>d'. snd (publish_row b c t p d s) = save_delivery d' s \<and> advances d d')"
  using publish_advances[of d] by (auto simp: publish_row_def Let_def)

lemma deploy_row_step:
  "awaiting_ok d \<Longrightarrow> \<not> unpublished d \<Longrightarrow> snd (deploy_row r p t d s) = s \<or>
     (\<exists>d'. snd (deploy_row r p t d s) = save_delivery d' s \<and> advances d d')"
  using deploy_advances[of d] by (auto simp: deploy_row_def Let_def)

lemma roll_back_row_step:
  "awaiting_ok d \<Longrightarrow> \<not> no_text (d_release_id d) \<Longrightarrow> d_prior_release_id d = Some r \<Longrightarrow>
   snd (roll_back_row r t d s) = s \<or>
     (\<exists>d'. snd (roll_back_row r t d s) = save_delivery d' s \<and> advances d d')"
  using roll_back_advances[of d r] by (auto simp: roll_back_row_def Let_def)

lemma records_follow:
  "follows_process (record_publication mid change_ref branch commit tree now published)"
  "follows_process (record_deployment mid change_ref release prior now deployed)"
  "follows_process (record_rollback mid change_ref release now rolled_back)"
  unfolding record_publication_def[abs_def] record_deployment_def[abs_def] record_rollback_def[abs_def]
    apply (intro guarded_follows approved_delivery_follows publish_row_step, assumption)
   apply (intro guarded_follows approved_delivery_follows deploy_row_step; simp)
  apply (intro guarded_follows approved_delivery_follows roll_back_row_step; simp)
  done


lemma submit_follows: "follows_process (submit_developer_proposal new_id mid change_ref summary files evidence)"
proof (rule follows_processI)
  fix s :: "('a, 'b) delivery_db_scheme" assume inv: "delivery_inv s"
  let ?d = "proposal_row new_id mid change_ref summary files evidence"
  let ?t = "snd (submit_developer_proposal new_id mid change_ref summary files evidence s)"
  have same: "approval_requests ?t = approval_requests s"
    by (auto simp: submit_developer_proposal_def Let_def split: option.splits sum.splits)
  have new: "deliveries ?t = deliveries s \<or>
      (deliveries ?t = deliveries s @ [?d] \<and> new_id \<notin> d_id ` set (deliveries s) \<and>
       mid \<notin> d_mission ` set (deliveries s))"
    by (auto simp: submit_developer_proposal_def Let_def proposal_row_def row_of_None_iff
        split: option.splits sum.splits dest!: insert_row_Inr)
  show "delivery_inv ?t \<and> deliveries_follow s ?t"
    using new
  proof
    assume "deliveries ?t = deliveries s"
    with same inv show ?thesis by (intro unchanged_follows)
  next
    assume n: "deliveries ?t = deliveries s @ [?d] \<and> new_id \<notin> d_id ` set (deliveries s) \<and>
       mid \<notin> d_mission ` set (deliveries s)"
    have d: "d_id ?d = new_id" "d_mission ?d = mid" "phase_of ?d = Reviewing" "delivery_ok approvals ?d" for approvals
      by (simp_all add: proposal_row_def phase_of_def delivery_ok_def recorded_in_order_def unrecorded_def)
    from n d inv same have "delivery_inv ?t" by (auto simp: delivery_inv_def)
    moreover from n d have "deliveries_follow s ?t"
      by (auto simp: deliveries_follow_def row_of_append split: option.splits if_splits)
    ultimately show ?thesis by blast
  qed
qed

lemma create_request_rows:
  "create_request sha i c q s = (Inr a, t) \<Longrightarrow>
   ar_id a = i \<and> ar_mission a = rq_mission q \<and> ar_target a = rq_target q \<and> ar_plan a = rq_plan q \<and>
   i \<notin> ar_id ` set (approval_requests s) \<and> t = s\<lparr>approval_requests := approval_requests s @ [a]\<rparr>"
  by (auto simp: create_request_def Let_def split: sum.splits dest!: insert_row_Inr)

lemma more_approvals:
  "row_of ar_id k rows = Some a \<Longrightarrow> row_of ar_id k (rows @ extra) = Some a"
  by (simp add: row_of_append)

lemma qa_passed_step:
  assumes inv: "delivery_inv s" and d: "row_of d_mission mid (deliveries s) = Some d" and qa: "d_stage d = STAGE_QA"
    and cr: "create_request sha i c q s = (Inr a, u)" and q: "rq_mission q = mid" "rq_target q = d_change_ref d"
    and t: "deliveries t = save_row d_id d' (deliveries s)" "approval_requests t = approval_requests u"
    and d': "d' = d\<lparr>d_qa_result := Some QA_PASSED, d_qa_evidence := ev, d_stage := STAGE_WAITING_APPROVAL,
                    d_approval_reference := Some (ar_id a)\<rparr>"
  shows "delivery_inv t \<and> deliveries_follow s t"
proof (rule save_delivery_follows[OF inv delivery_row_ids(1)[OF inv d] _ _ _ _ t(1)])
  note a = create_request_rows[OF cr]
  note ids = delivery_row_ids[OF inv d]
  have un: "unrecorded d" "recorded_in_order d" using ids(3) qa by (simp_all add: delivery_ok_def)
  show "d_id d' = d_id d" "d_mission d' = d_mission d" "d_change_ref d' = d_change_ref d" by (simp_all add: d')
  show "phase_moves (phase_of d) (phase_of d')"
    using qa un by (simp add: phase_of_def d' unrecorded_def phase_step.simps)
  have "row_of ar_id (ar_id a) (approval_requests t) = Some a"
    using a t(2) by (simp add: row_of_append row_of_None_iff[THEN iffD2])
  then show "delivery_ok (approval_requests t) d'"
    using un a q ids(2) by (simp add: delivery_ok_def d' recorded_in_order_def unrecorded_def)
  show "delivery_ok (approval_requests t) x" if "delivery_ok (approval_requests s) x" for x
    using that by (rule delivery_ok_more_approvals) (use a t(2) in \<open>simp add: more_approvals\<close>)
qed

lemma returned_step:
  assumes inv: "delivery_inv s" and d: "row_of d_mission mid (deliveries s) = Some d"
    and step: "phase_moves (phase_of d) Returned"
    and un: "unrecorded d"
    and t: "deliveries t = save_row d_id d' (deliveries s)" "approval_requests t = approval_requests s"
    and d': "d' = d\<lparr>d_qa_result := q, d_qa_evidence := ev, d_stage := STAGE_DEVELOPER, d_approval_reference := None\<rparr>"
  shows "delivery_inv t \<and> deliveries_follow s t"
proof (rule save_delivery_follows[OF inv delivery_row_ids(1)[OF inv d] _ _ _ _ t(1)])
  show "d_id d' = d_id d" "d_mission d' = d_mission d" "d_change_ref d' = d_change_ref d" by (simp_all add: d')
  show "phase_moves (phase_of d) (phase_of d')" using step by (simp add: phase_of_def d')
  show "delivery_ok (approval_requests t) d'"
    using un by (simp add: delivery_ok_def d' recorded_in_order_def unrecorded_def)
  show "delivery_ok (approval_requests t) x" if "delivery_ok (approval_requests s) x" for x
    using that t(2) by simp
qed

lemma record_qa_result_follows:
  "follows_process (record_qa_result sha i c now mid change_ref result evidence)"
  unfolding record_qa_result_def
proof (rule with_delivery_follows)
  fix m d and s :: "('a, 'b) delivery_db_scheme"
  assume inv: "delivery_inv s" and d: "row_of d_mission mid (deliveries s) = Some d"
    and m: "row_of m_id mid (missions s) = Some m"
  have mid: "m_id m = mid" using m by (auto dest: row_of_SomeD)
  let ?gs = "[(d_stage d \<noteq> STAGE_QA, ''delivery is not awaiting QA''),
     (d_change_ref d \<noteq> change_ref, ''change_ref does not match developer proposal'')]"
  let ?q = "\<lparr>rq_mission = m_id m, rq_requester = ''qa'', rq_action = ''approve_delivery_change'',
     rq_target = d_change_ref d, rq_risk = m_risk m, rq_plan = approval_plan d evidence,
     rq_expires_at = Aware (now + seconds (24 * 3600))\<rparr>"
  let ?body = "let d1 = d\<lparr>d_qa_result := Some result, d_qa_evidence := Some evidence\<rparr> in
     (case result of
        QA_FAILED \<Rightarrow> let d2 = d1\<lparr>d_stage := STAGE_DEVELOPER, d_approval_reference := None\<rparr>
                     in (Inr d2, save_delivery d2 s)
      | QA_PASSED \<Rightarrow>
          if m_status m \<noteq> RUNNING then (Inl (ValueError ''mission must be RUNNING before approval''), s)
          else bindE (create_request sha i c ?q) (\<lambda>a t.
            let d2 = d1\<lparr>d_stage := STAGE_WAITING_APPROVAL, d_approval_reference := Some (ar_id a)\<rparr>;
                m' = m\<lparr>m_status := WAITING_APPROVAL,
                       m_approval_references := m_approval_references m @ [approval_note (ar_id a) d]\<rparr>
            in (Inr d2, save_delivery d2 (t\<lparr>missions := save_row m_id m' (missions t)\<rparr>))) s)"
  show "delivery_inv (snd (case guards ?gs of Some e \<Rightarrow> (Inl e, s) | None \<Rightarrow> ?body)) \<and>
        deliveries_follow s (snd (case guards ?gs of Some e \<Rightarrow> (Inl e, s) | None \<Rightarrow> ?body))"
  proof (cases "guards ?gs")
    case (Some e)
    then show ?thesis using inv by (simp add: deliveries_follow_same)
  next
    case None
    then have qa: "d_stage d = STAGE_QA" by simp
    have un: "unrecorded d" using delivery_row_ids(3)[OF inv d] qa by (simp add: delivery_ok_def)
    have "delivery_inv (snd ?body) \<and> deliveries_follow s (snd ?body)"
    proof (cases result)
      case QA_FAILED
      show ?thesis
        by (rule returned_step[OF inv d _ un, where q = "Some QA_FAILED" and ev = "Some evidence"])
           (simp_all add: QA_FAILED phase_of_def qa phase_step.simps save_delivery_def Let_def)
    next
      case QA_PASSED
      obtain r u where cr: "create_request sha i c ?q s = (r, u)" by (cases "create_request sha i c ?q s")
      show ?thesis
      proof (cases "m_status m = RUNNING \<and> (\<exists>a. r = Inr a)")
        case True
        then obtain a where a: "r = Inr a" by blast
        note create_request_rows[OF cr[unfolded a]]
        then show ?thesis
          by (intro qa_passed_step[OF inv d qa cr[unfolded a], where ev = "Some evidence"])
             (use True a cr in \<open>simp_all add: QA_PASSED bindE_def save_delivery_def mid Let_def\<close>)
      next
        case False
        have "deliveries (snd ?body) = deliveries s \<and> approval_requests (snd ?body) = approval_requests s"
        proof (cases r)
          case (Inl e)
          then have "u = s" using cr by (auto simp: create_request_def Let_def split: sum.splits)
          with Inl cr QA_PASSED show ?thesis by (simp add: bindE_def)
        qed (use False QA_PASSED in auto)
        then show ?thesis using inv by (intro unchanged_follows) auto
      qed
    qed
    then show ?thesis unfolding None by simp
  qed
qed

lemma apply_human_decision_follows:
  "follows_process (apply_human_decision mid reference change_ref now)"
  unfolding apply_human_decision_def
proof (rule with_delivery_follows)
  fix m d and s :: "('a, 'b) delivery_db_scheme"
  assume inv: "delivery_inv s" and d: "row_of d_mission mid (deliveries s) = Some d"
  note ok = delivery_row_ids(3)[OF inv d]
  let ?gs = "[(d_stage d \<noteq> STAGE_WAITING_APPROVAL, ''delivery is not waiting for human approval''),
     (d_approval_reference d \<noteq> Some reference, ''approval reference does not match delivery''),
     (d_change_ref d \<noteq> change_ref, ''change_ref does not match approved proposal'')]"
  let ?hs = "\<lambda>a. [(ar_mission a \<noteq> mid, ''approval mission does not match delivery''),
     (ar_target a \<noteq> d_change_ref d, ''approval target does not match change_ref''),
     (dict_get (ar_plan a) ''change_ref'' \<noteq> JStr (d_change_ref d), ''approval action plan does not match change_ref''),
     (delivery_approval_expired (ar_expires_at a) now, ''approval request expired''),
     (ar_state a = APPROVAL_PENDING, ''approval request has not been decided'')]"
  let ?d' = "d\<lparr>d_stage := STAGE_DEVELOPER, d_approval_reference := None\<rparr>"
  let ?body = "bindE (get_request reference) (\<lambda>a t. case guards (?hs a) of Some e \<Rightarrow> (Inl e, t)
     | None \<Rightarrow> if ar_state a = APPROVED then (Inr d, t)
         else let d' = ?d'; m' = m\<lparr>m_status := RUNNING\<rparr>
              in (Inr d', save_delivery d' (t\<lparr>missions := save_row m_id m' (missions t)\<rparr>))) s"
  show "delivery_inv (snd (case guards ?gs of Some e \<Rightarrow> (Inl e, s) | None \<Rightarrow> ?body)) \<and>
        deliveries_follow s (snd (case guards ?gs of Some e \<Rightarrow> (Inl e, s) | None \<Rightarrow> ?body))"
  proof (cases "guards ?gs")
    case (Some e)
    then show ?thesis using inv by (simp add: deliveries_follow_same)
  next
    case None
    then have st: "d_stage d = STAGE_WAITING_APPROVAL" "d_approval_reference d = Some reference" by auto
    with ok obtain a where a: "row_of ar_id reference (approval_requests s) = Some a"
      and pub: "d_published_branch d \<noteq> None \<longrightarrow> ar_state a = APPROVED" and order: "recorded_in_order d"
      by (auto simp: delivery_ok_def)
    show ?thesis
    proof (cases "guards (?hs a) = None \<and> ar_state a \<noteq> APPROVED")
      case True
      then have "unrecorded d" using pub order by (auto simp: unrecorded_def recorded_in_order_def)
      moreover have "phase_moves (phase_of d) Returned"
        using calculation st by (simp add: phase_of_def unrecorded_def phase_step.simps)
      ultimately have "delivery_inv (snd ?body) \<and> deliveries_follow s (snd ?body)"
        using True a by (intro returned_step[OF inv d, where q = "d_qa_result d" and ev = "d_qa_evidence d"])
          (simp_all add: get_request_eq bindE_def Let_def save_delivery_def guards.simps)
      then show ?thesis unfolding None by simp
    next
      case False
      with a have "snd ?body = s" by (auto simp: get_request_eq bindE_def split: option.split)
      then show ?thesis unfolding None using inv by (simp add: deliveries_follow_same)
    qed
  qed
qed

lemma handoffs_follow:
  "follows_process (handoff_to_developer i mid change_ref summary files evidence)"
  "follows_process (handoff_to_qa sha i c now mid change_ref result qa_evidence)"
  unfolding handoff_to_developer_def[abs_def] handoff_to_qa_def[abs_def]
  by (intro guarded_follows submit_follows record_qa_result_follows)+

text \<open>Requests are only added and decided once, so an approval a delivery relies on stays.\<close>

lemma delivery_ok_decided:
  assumes "delivery_ok approvals d" and "row_of ar_id (ar_id r) approvals = Some r"
    and "ar_state r = APPROVAL_PENDING"
  shows "delivery_ok (save_row ar_id (r\<lparr>ar_state := decision, ar_decided_at := now\<rparr>) approvals) d"
proof -
  let ?r = "r\<lparr>ar_state := decision, ar_decided_at := now\<rparr>"
  have "\<exists>b. row_of ar_id k (save_row ar_id ?r approvals) = Some b \<and> ar_mission b = ar_mission a \<and>
      ar_target b = ar_target a \<and> (ar_state a = APPROVED \<longrightarrow> ar_state b = APPROVED)"
    if "row_of ar_id k approvals = Some a" for k a
    using that assms(2,3) by (cases "k = ar_id r") (simp_all add: table_simps)
  with assms(1) show ?thesis unfolding delivery_ok_def by (fastforce split: delivery_stage.splits)
qed

lemma create_request_follows: "follows_process (create_request sha i c q)"
proof (rule follows_processI)
  fix s :: "('a, 'b) delivery_db_scheme" assume inv: "delivery_inv s"
  let ?t = "snd (create_request sha i c q s)"
  have "deliveries ?t = deliveries s \<and>
      (\<forall>k a. row_of ar_id k (approval_requests s) = Some a \<longrightarrow> row_of ar_id k (approval_requests ?t) = Some a)"
    by (auto simp: create_request_def Let_def more_approvals split: sum.split dest!: insert_row_Inr)
  then show "delivery_inv ?t \<and> deliveries_follow s ?t"
    using inv by (auto simp: delivery_inv_def deliveries_follow_same intro: delivery_ok_more_approvals)
qed

lemma decide_follows: "follows_process (decide rid decision now)"
proof (rule follows_processI)
  fix s :: "('a, 'b) delivery_db_scheme" assume inv: "delivery_inv s"
  let ?t = "snd (decide rid decision now s)"
  have same: "deliveries ?t = deliveries s"
    by (simp add: decide_def Let_def split: option.split)
  have "delivery_ok (approval_requests ?t) d" if "delivery_ok (approval_requests s) d" for d
    using that by (auto simp: decide_def Let_def dest: row_of_SomeD intro!: delivery_ok_decided split: option.split)
  with same inv show "delivery_inv ?t \<and> deliveries_follow s ?t"
    by (auto simp: delivery_inv_def deliveries_follow_same)
qed

section \<open>Sequences of calls\<close>

datatype delivery_call =
    HandOff string string string string "json list option" "dict option"
  | Review string int int string string qa_result dict
  | HumanDecision string string string int
  | Publication string string string string string int int
  | Deployment string string string "string option" int int
  | Rollback string string string int int
  | FileRequest string int request_args
  | Decision string approval_state int

fun delivery_step :: "(string \<Rightarrow> string) \<Rightarrow> delivery_call \<Rightarrow>
    ('w, 'a) delivery_db_scheme \<Rightarrow> ('w, 'a) delivery_db_scheme" where
  "delivery_step sha (HandOff i mid ref summary files evidence) s =
     snd (handoff_to_developer i mid ref summary files evidence s)"
| "delivery_step sha (Review i c now mid ref result evidence) s =
     snd (handoff_to_qa sha i c now mid ref result evidence s)"
| "delivery_step sha (HumanDecision mid reference ref now) s = snd (apply_human_decision mid reference ref now s)"
| "delivery_step sha (Publication mid ref branch commit tree now at) s =
     snd (record_publication mid ref branch commit tree now at s)"
| "delivery_step sha (Deployment mid ref release prior now at) s =
     snd (record_deployment mid ref release prior now at s)"
| "delivery_step sha (Rollback mid ref release now at) s = snd (record_rollback mid ref release now at s)"
| "delivery_step sha (FileRequest i c q) s = snd (create_request sha i c q s)"
| "delivery_step sha (Decision rid decision now) s = snd (decide rid decision now s)"

lemma follows_processD:
  "follows_process m \<Longrightarrow> delivery_inv s \<Longrightarrow> delivery_inv (snd (m s)) \<and> deliveries_follow s (snd (m s))"
  by (simp add: follows_process_def)

lemmas calls_follow = handoffs_follow apply_human_decision_follows records_follow create_request_follows decide_follows

lemma delivery_step_follows:
  assumes "delivery_inv s"
  shows "delivery_inv (delivery_step sha c s) \<and> deliveries_follow s (delivery_step sha c s)"
  using assms by (cases c) (simp_all add: calls_follow[THEN follows_processD])

definition deliveries_history :: "('w, 'a) delivery_db_scheme \<Rightarrow> ('w, 'a) delivery_db_scheme \<Rightarrow> bool" where
  "deliveries_history s t \<longleftrightarrow>
     (\<forall>k d. row_of d_id k (deliveries s) = Some d \<longrightarrow>
        (\<exists>d'. row_of d_id k (deliveries t) = Some d' \<and> d_mission d' = d_mission d \<and>
              d_change_ref d' = d_change_ref d \<and> phase_step\<^sup>*\<^sup>* (phase_of d) (phase_of d'))) \<and>
     (\<forall>k d. row_of d_id k (deliveries s) = None \<longrightarrow> row_of d_id k (deliveries t) = Some d \<longrightarrow>
        phase_step\<^sup>*\<^sup>* Reviewing (phase_of d))"

lemma deliveries_history_refl: "deliveries_history s s"
  by (simp add: deliveries_history_def)

lemma deliveries_history_step:
  assumes st: "deliveries_history s t" and tu: "deliveries_follow t u"
  shows "deliveries_history s u"
proof -
  have step: "\<exists>d'. row_of d_id k (deliveries u) = Some d' \<and> d_mission d' = d_mission d \<and>
      d_change_ref d' = d_change_ref d \<and> (\<forall>p. phase_step\<^sup>*\<^sup>* p (phase_of d) \<longrightarrow> phase_step\<^sup>*\<^sup>* p (phase_of d'))"
    if "row_of d_id k (deliveries t) = Some d" for k d
    using tu that unfolding deliveries_follow_def by (metis rtranclp.rtrancl_into_rtrancl)
  show ?thesis
    unfolding deliveries_history_def
  proof (intro conjI allI impI)
    fix k d assume "row_of d_id k (deliveries s) = Some d"
    then obtain d' where "row_of d_id k (deliveries t) = Some d'" "d_mission d' = d_mission d"
        "d_change_ref d' = d_change_ref d" "phase_step\<^sup>*\<^sup>* (phase_of d) (phase_of d')"
      using st unfolding deliveries_history_def by blast
    then show "\<exists>d'. row_of d_id k (deliveries u) = Some d' \<and> d_mission d' = d_mission d \<and>
        d_change_ref d' = d_change_ref d \<and> phase_step\<^sup>*\<^sup>* (phase_of d) (phase_of d')"
      using step[of k d'] by auto
  next
    fix k d assume s: "row_of d_id k (deliveries s) = None" and u: "row_of d_id k (deliveries u) = Some d"
    show "phase_step\<^sup>*\<^sup>* Reviewing (phase_of d)"
    proof (cases "row_of d_id k (deliveries t)")
      case None
      then show ?thesis using tu u unfolding deliveries_follow_def by auto
    next
      case (Some d')
      then show ?thesis using st s u step[OF Some] unfolding deliveries_history_def by auto
    qed
  qed
qed

lemma delivery_steps_history:
  "delivery_inv s \<Longrightarrow> delivery_inv (fold (delivery_step sha) cs s) \<and> deliveries_history s (fold (delivery_step sha) cs s)"
proof (induction cs rule: rev_induct)
  case Nil
  then show ?case by (simp add: deliveries_history_refl)
next
  case (snoc c cs)
  then have "delivery_inv (fold (delivery_step sha) cs s)" "deliveries_history s (fold (delivery_step sha) cs s)" by auto
  with delivery_step_follows[OF this(1), of sha c] show ?case
    by (auto intro: deliveries_history_step)
qed

text \<open>A phase never recurs, so a returned change stays returned.\<close>

lemma phase_step_final: "phase_step\<^sup>*\<^sup>* Returned p \<Longrightarrow> p = Returned"
  by (induction rule: rtranclp_induct) simp_all


section \<open>What a release rests on\<close>

text \<open>The mission, change and time of a call that records a release.\<close>

fun release_call :: "delivery_call \<Rightarrow> (string \<times> string \<times> int) option" where
  "release_call (Publication mid ref branch commit tree now at) = Some (mid, ref, now)"
| "release_call (Deployment mid ref release prior now at) = Some (mid, ref, now)"
| "release_call (Rollback mid ref release now at) = Some (mid, ref, now)"
| "release_call c = None"

definition release_approved :: "string \<Rightarrow> string \<Rightarrow> int \<Rightarrow> ('w, 'a) delivery_db_scheme \<Rightarrow> bool" where
  "release_approved mid ref now s \<longleftrightarrow>
     (\<exists>d r a. row_of d_mission mid (deliveries s) = Some d \<and> d_change_ref d = ref \<and>
        d_qa_result d = Some QA_PASSED \<and> d_approval_reference d = Some r \<and>
        row_of ar_id r (approval_requests s) = Some a \<and> ar_state a = APPROVED \<and>
        ar_mission a = mid \<and> ar_target a = ref \<and> now < stamp_instant (ar_expires_at a))"

lemma approved_delivery_changes:
  assumes "snd (approved_delivery what further mid ref now f s) \<noteq> s"
  shows "release_approved mid ref now s"
proof -
  from assms obtain m d where rows: "row_of d_mission mid (deliveries s) = Some d"
      "row_of m_id mid (missions s) = Some m"
    by (auto simp: approved_delivery_def with_delivery_def split: option.splits)
  let ?r = "case d_approval_reference d of None \<Rightarrow> [] | Some r \<Rightarrow> r"
  from assms rows have d: "d_change_ref d = ref" "d_qa_result d = Some QA_PASSED" "\<not> no_text (d_approval_reference d)"
    and get: "snd (bindE (get_request ?r) (\<lambda>a t. case approval_guards what mid ref now a of
       Some e \<Rightarrow> (Inl e, t) | None \<Rightarrow> f d t) s) \<noteq> s"
    by (auto simp: approved_delivery_def with_delivery_def split: option.splits)
  then obtain r a where r: "d_approval_reference d = Some r" "row_of ar_id r (approval_requests s) = Some a"
      "approval_guards what mid ref now a = None"
    by (auto simp: get_request_eq bindE_def no_text_def split: option.splits)
  then have "ar_state a = APPROVED" "ar_mission a = mid" "ar_target a = ref" "now < stamp_instant (ar_expires_at a)"
    by (auto simp: approval_guards_def delivery_approval_expired_def)
  with rows d r show ?thesis unfolding release_approved_def by blast
qed

lemma release_call_approved:
  assumes "release_call c = Some (mid, ref, now)" and "delivery_step sha c s \<noteq> s"
  shows "release_approved mid ref now s"
  using assms
  by (cases c) (auto simp: record_publication_def record_deployment_def record_rollback_def
      split: option.splits elim: approved_delivery_changes)

end
