(* ===== verification/Code_Change_Laws.thy ===== *)
theory Code_Change_Laws
  imports Code_Changes Delivery_Laws
begin

text \<open>
  Code changes keep to the delivery process, touch the outside world only for approved candidates, and
  never leave a processed mission running.
\<close>

declare guards.simps [simp del]

section \<open>Composed operations follow the delivery process\<close>

lemma deliveries_history_trans:
  assumes st: "deliveries_history s t" and tu: "deliveries_history t u"
  shows "deliveries_history s u"
  unfolding deliveries_history_def
proof (intro conjI allI impI)
  fix k d assume "row_of d_id k (deliveries s) = Some d"
  then obtain d1 where d1: "row_of d_id k (deliveries t) = Some d1" "d_mission d1 = d_mission d"
      "d_change_ref d1 = d_change_ref d" "phase_step\<^sup>*\<^sup>* (phase_of d) (phase_of d1)"
    using st unfolding deliveries_history_def by blast
  moreover obtain d2 where "row_of d_id k (deliveries u) = Some d2" "d_mission d2 = d_mission d1"
      "d_change_ref d2 = d_change_ref d1" "phase_step\<^sup>*\<^sup>* (phase_of d1) (phase_of d2)"
    using tu d1(1) unfolding deliveries_history_def by blast
  ultimately show "\<exists>d'. row_of d_id k (deliveries u) = Some d' \<and> d_mission d' = d_mission d \<and>
      d_change_ref d' = d_change_ref d \<and> phase_step\<^sup>*\<^sup>* (phase_of d) (phase_of d')"
    by (metis rtranclp_trans)
next
  fix k d assume s: "row_of d_id k (deliveries s) = None" and u: "row_of d_id k (deliveries u) = Some d"
  show "phase_step\<^sup>*\<^sup>* Reviewing (phase_of d)"
  proof (cases "row_of d_id k (deliveries t)")
    case None
    then show ?thesis using tu u unfolding deliveries_history_def by blast
  next
    case (Some d1)
    then have "phase_step\<^sup>*\<^sup>* Reviewing (phase_of d1)" using st s unfolding deliveries_history_def by blast
    moreover have "phase_step\<^sup>*\<^sup>* (phase_of d1) (phase_of d)"
      using tu Some u unfolding deliveries_history_def by force
    ultimately show ?thesis by (rule rtranclp_trans)
  qed
qed

lemma deliveries_follow_history: "deliveries_follow s t \<Longrightarrow> deliveries_history s t"
  by (rule deliveries_history_step[OF deliveries_history_refl])

definition evolves :: "(('w, 'a) delivery_db_scheme, 'b) op \<Rightarrow> bool" where
  "evolves m \<longleftrightarrow> (\<forall>s. delivery_inv s \<longrightarrow> delivery_inv (snd (m s)) \<and> deliveries_history s (snd (m s)))"

named_theorems evolves_intros \<open>operations that follow the delivery process\<close>

lemma evolves_bindE [evolves_intros]:
  fixes m :: "(('w, 'a) delivery_db_scheme, 'b) op"
  assumes m: "evolves m" and f: "\<And>x. evolves (f x)"
  shows "evolves (bindE m f)"
  unfolding evolves_def
proof (intro allI impI)
  fix s :: "('w, 'a) delivery_db_scheme" assume inv: "delivery_inv s"
  obtain r s1 where ms: "m s = (r, s1)" by (cases "m s")
  with m inv have s1: "delivery_inv s1" "deliveries_history s s1" by (auto simp: evolves_def)
  show "delivery_inv (snd (bindE m f s)) \<and> deliveries_history s (snd (bindE m f s))"
  proof (cases r)
    case (Inl e)
    with ms s1 show ?thesis by simp
  next
    case (Inr x)
    with f s1(1) have "delivery_inv (snd (f x s1)) \<and> deliveries_history s1 (snd (f x s1))"
      by (auto simp: evolves_def)
    with ms Inr s1 show ?thesis by (auto intro: deliveries_history_trans)
  qed
qed

lemma evolves_basic [evolves_intros]:
  "evolves (returnE x)" "evolves (raiseE e)" "evolves (liftE r)" "evolves (\<lambda>s. (f s, s))"
  by (simp_all add: evolves_def deliveries_history_refl)

lemma evolves_if [evolves_intros]: "evolves m \<Longrightarrow> evolves n \<Longrightarrow> evolves (if b then m else n)"
  by simp

lemma evolves_option [evolves_intros]:
  "evolves m \<Longrightarrow> (\<And>x. evolves (f x)) \<Longrightarrow> evolves (case v of None \<Rightarrow> m | Some x \<Rightarrow> f x)"
  by (cases v) simp_all

lemma evolves_prod [evolves_intros]: "(\<And>x y. evolves (f x y)) \<Longrightarrow> evolves (case v of (x, y) \<Rightarrow> f x y)"
  by (cases v) simp

lemma evolves_list [evolves_intros]:
  "evolves m \<Longrightarrow> (\<And>x xs. evolves (f x xs)) \<Longrightarrow> evolves (case v of [] \<Rightarrow> m | x # xs \<Rightarrow> f x xs)"
  by (cases v) simp_all

lemma evolves_json [evolves_intros]:
  "(\<And>d. evolves (f d)) \<Longrightarrow> evolves n \<Longrightarrow> evolves (case v of JObj d \<Rightarrow> f d | _ \<Rightarrow> n)"
  by (cases v) simp_all

lemma evolves_follows: "follows_process m \<Longrightarrow> evolves m"
  by (auto simp: evolves_def follows_process_def intro: deliveries_follow_history)

lemmas evolves_delivery [evolves_intros] = calls_follow[THEN evolves_follows]

definition delivery_part :: "('w, 'a) delivery_db_scheme \<Rightarrow> delivery list \<times> approval_request list" where
  "delivery_part s = (deliveries s, approval_requests s)"

lemma evolves_same: "keeps (same delivery_part) m \<Longrightarrow> evolves m"
  using unchanged_follows
  by (fastforce simp: evolves_def keeps_def same_def delivery_part_def intro: deliveries_follow_history)

lemma delivery_part_keeps:
  "keeps (same delivery_part) (get_mission mid)"
  "keeps (same delivery_part) (get_delivery mid)"
  "keeps (same delivery_part) (try_get_delivery mid)"
  "keeps (same delivery_part) (create_mission l i c n)"
  "keeps (same delivery_part) (transition l mid target result err)"
  "keeps (same delivery_part) (record_result mid res)"
  "keeps (same delivery_part) (renew_code_change_lease mid worker secs now)"
  "keeps (same delivery_part) (release_code_change_lease mid worker)"
  "keeps (same delivery_part) (on_world act)"
  by (auto simp: keeps_def same_def delivery_part_def get_mission_def get_delivery_def try_get_delivery_def
      create_mission_def transition_def record_result_def renew_code_change_lease_def
      release_code_change_lease_def on_world_def add_to_session_def Let_def
      split: option.split sum.split prod.split exn.split)

lemmas evolves_plain [evolves_intros] = delivery_part_keeps[THEN evolves_same]


lemma claim_first_delivery_part: "delivery_part (snd (claim_first w now e mids s)) = delivery_part s"
  by (induction w now e mids s rule: claim_first.induct)
    (simp_all add: Let_def delivery_part_def split: option.splits)

lemma evolves_claim [evolves_intros]: "evolves (claim_oldest_code_change worker secs now)"
  by (rule evolves_same) (simp add: keeps_def same_def claim_oldest_code_change_def Let_def claim_first_delivery_part
      split: option.split)

lemma evolves_runner [evolves_intros]:
  "evolves (prepare_workspace r mid)"
  "evolves (verify_and_persist sha i r mid candidate ws)"
  "evolves (run_developer sha i r mid)"
  "evolves (persist_candidate sha i r mid candidate)"
  "evolves (run_qa sha i c now r d)"
proof -
  show p: "evolves (prepare_workspace r mid)" unfolding prepare_workspace_def by (intro evolves_intros)
  show v: "evolves (verify_and_persist sha i r mid candidate ws)" for candidate ws
    unfolding verify_and_persist_def by (intro evolves_intros)
  show "evolves (run_developer sha i r mid)" unfolding run_developer_def by (intro evolves_intros p v)
  show "evolves (persist_candidate sha i r mid candidate)" unfolding persist_candidate_def by (intro evolves_intros p v)
  show "evolves (run_qa sha i c now r d)" unfolding run_qa_def by (intro evolves_intros)
qed

lemma evolves_service_parts [evolves_intros]:
  "evolves (result_for_mission env mid repo)"
  "evolves (renew_worker_lease mid owner secs now)"
  "evolves (release_worker_lease mid owner)"
  "evolves (create_code_change env call repository instruction)"
  "evolves (code_change_of a b mid)"
  "evolves (start_processing env call m owner secs)"
  "evolves (settle_result env mid repo r)"
  "evolves (approved_candidate what mid ref cref now)"
  "evolves (checked_candidate env look mid repo cref d)"
  unfolding result_for_mission_def renew_worker_lease_def release_worker_lease_def create_code_change_def
    code_change_of_def start_processing_def settle_result_def approved_candidate_def checked_candidate_def Let_def
  by (intro evolves_intros)+

lemma evolves_run_existing [evolves_intros]:
  "evolves (run_existing_mission env call mid repo owner secs resume)"
  unfolding run_existing_mission_def by (intro evolves_intros)

lemma evolves_catchE:
  fixes m :: "(('w, 'a) delivery_db_scheme, 'b) op"
  assumes m: "evolves m" and h: "\<And>e. evolves (h e)"
  shows "evolves (catchE m h)"
  unfolding evolves_def
proof (intro allI impI)
  fix s :: "('w, 'a) delivery_db_scheme" assume inv: "delivery_inv s"
  obtain r s1 where ms: "m s = (r, s1)" by (cases "m s")
  with m inv have s1: "delivery_inv s1" "deliveries_history s s1" by (auto simp: evolves_def)
  show "delivery_inv (snd (catchE m h s)) \<and> deliveries_history s (snd (catchE m h s))"
  proof (cases r)
    case (Inl e)
    with h s1(1) have "delivery_inv (snd (h e s1)) \<and> deliveries_history s1 (snd (h e s1))"
      by (auto simp: evolves_def)
    with ms Inl s1 show ?thesis by (auto simp: catchE_def intro: deliveries_history_trans)
  qed (use ms s1 in \<open>simp add: catchE_def\<close>)
qed

lemma evolves_service [evolves_intros]:
  "evolves (queue_candidate env call repository instruction)"
  "evolves (prepare_candidate env call repository instruction)"
  "evolves (process_queued_candidate env call mid owner secs)"
  "evolves (candidate_result env mid)"
  "evolves (publish_approved_candidate env call mid ref cref)"
  "evolves (deploy_approved_candidate env call mid ref cref)"
  "evolves (rollback_approved_deployment env call mid ref cref)"
  unfolding queue_candidate_def prepare_candidate_def process_queued_candidate_def process_running_def
    fail_processing_def candidate_result_def publish_approved_candidate_def publish_now_def
    deploy_approved_candidate_def deploy_now_def rollback_approved_deployment_def roll_back_now_def
    publish_decided_def deploy_decided_def roll_back_decided_def approved_release_def release_mission_def Let_def
  by (intro evolves_intros evolves_catchE)+

lemma evolves_run_once: "evolves (code_change_run_once env call worker secs now)"
  unfolding code_change_run_once_def by (intro evolves_intros)


section \<open>The outside world changes only for approved candidates\<close>

lemma world_keeps [keeps_intros]:
  "keeps (same world) (get_mission mid :: (('w, 'a) delivery_db_scheme, mission) op)"
  "keeps (same world) (get_delivery mid :: (('w, 'a) delivery_db_scheme, delivery) op)"
  by (auto simp: keeps_def same_def get_mission_def get_delivery_def split: option.split)

lemma with_delivery_world:
  "(\<And>m d s. world (snd (f m d s)) = world s) \<Longrightarrow> keeps (same world) (with_delivery mid f)"
  by (simp add: keeps_def same_def with_delivery_def split: option.split)

lemma approved_delivery_world:
  "(\<And>d. keeps (same world) (f d)) \<Longrightarrow> keeps (same world) (approved_delivery what further mid cref now f)"
  unfolding approved_delivery_def
  by (rule with_delivery_world) (auto simp: keeps_def same_def get_request_eq bindE_def split: option.split)

lemma records_world [keeps_intros]:
  "keeps (same world) (record_publication mid cref branch commit tree now published)"
  "keeps (same world) (record_deployment mid cref release prior now deployed)"
  "keeps (same world) (record_rollback mid cref release now rolled_back)"
proof -
  have rows: "keeps (same world) (publish_row b c t p d)" "keeps (same world) (deploy_row r q t' d)"
    "keeps (same world) (roll_back_row r t' d)" for b c t p d r q t'
    by (auto simp: keeps_def same_def publish_row_def deploy_row_def roll_back_row_def save_delivery_def Let_def)
  note apps = rows[THEN approved_delivery_world]
  show "keeps (same world) (record_publication mid cref branch commit tree now published)"
    unfolding record_publication_def[abs_def] keeps_def same_def
    using keepsD[OF apps(1), unfolded same_def] by (auto split: option.split)
  show "keeps (same world) (record_deployment mid cref release prior now deployed)"
    unfolding record_deployment_def[abs_def] keeps_def same_def
    using keepsD[OF apps(2), unfolded same_def] by (auto split: option.split)
  show "keeps (same world) (record_rollback mid cref release now rolled_back)"
    unfolding record_rollback_def[abs_def] keeps_def same_def
    using keepsD[OF apps(3), unfolded same_def] by (auto split: option.split)
qed

lemma code_change_of_state: "snd (code_change_of a b mid s) = s"
  by (auto simp: code_change_of_def get_mission_def bindE_def split: option.split list.split sum.split)

lemma result_for_mission_state: "snd (result_for_mission env mid repo s) = s"
  by (auto simp: result_for_mission_def get_delivery_def bindE_def split: option.split sum.split)

text \<open>A candidate counts as approved only while its request is approved for this change; nothing is changed then.\<close>

lemma approved_candidate_Inr:
  assumes "approved_candidate what mid ref cref now s = (Inr d, t)"
  shows "t = s \<and> row_of d_mission mid (deliveries s) = Some d \<and> release_approved mid cref now s"
proof -
  from assms obtain d0 where d0: "row_of d_mission mid (deliveries s) = Some d0" "d_qa_result d0 = Some QA_PASSED"
      "d_stage d0 = STAGE_WAITING_APPROVAL" "d_approval_reference d0 = Some ref" "d_change_ref d0 = cref"
    and app: "apply_human_decision mid ref cref now s = (Inr d, t)" "d_stage d = STAGE_WAITING_APPROVAL"
    by (auto simp: approved_candidate_def get_delivery_def bindE_def split: option.splits prod.splits sum.splits if_splits)
  from app d0 obtain m a where rows: "row_of ar_id ref (approval_requests s) = Some a"
    and a: "ar_mission a = mid" "ar_target a = cref" "now < stamp_instant (ar_expires_at a)" "ar_state a = APPROVED"
    and dt: "d = d0" "t = s"
    by (auto simp: apply_human_decision_def with_delivery_def get_request_eq bindE_def guards.simps
        delivery_approval_expired_def Let_def split: option.splits if_splits)
  with d0 show ?thesis unfolding release_approved_def by blast
qed


lemma bindE_liftE: "bindE (liftE (Inr x)) f = f x"
  by (simp add: fun_eq_iff)

lemma on_world_then:
  fixes f :: "'c \<Rightarrow> (('w, 'a) delivery_db_scheme, 'b) op"
  assumes "\<And>x. keeps (same world) (f x)"
  shows "world (snd (bindE (on_world act) f s)) = snd (act (world s))"
proof -
  obtain r w where act: "act (world s) = (r, w)" by (cases "act (world s)")
  show ?thesis
  proof (cases r)
    case (Inr x)
    have "world (snd (f x (s\<lparr>world := w\<rparr>))) = w"
      using keepsD[OF assms, of "s\<lparr>world := w\<rparr>" x] by (simp add: same_def)
    with act Inr show ?thesis by (simp add: on_world_def bindE_def)
  qed (use act in \<open>simp add: on_world_def bindE_def\<close>)
qed

lemma result_world [keeps_intros]: "keeps (same world) (result_for_mission env mid repo)"
  by (simp add: keeps_def same_def result_for_mission_state)

lemma checked_candidate_state: "snd (checked_candidate env look mid repo cref d s) = s"
  by (auto simp: checked_candidate_def bindE_def split: sum.split option.split)

lemma checked_candidate_Inr:
  "checked_candidate env look mid repo cref d s = (Inr c, t) \<Longrightarrow>
   t = s \<and> pc_repository c = repo \<and> pc_change_ref c = cref \<and>
   load_verified (ce_sha env) (look (world s)) mid cref (d_changed_files d) (d_developer_evidence d) = Inr c"
  by (auto simp: checked_candidate_def bindE_def split: sum.splits option.splits)

text \<open>What \<open>env\<close> may do to the world for the change \<open>cref\<close>: one call of the injected part, on the checked candidate.\<close>

definition published_world ::
  "'w code_change_env \<Rightarrow> string \<Rightarrow> string \<Rightarrow> delivery \<Rightarrow> 'w \<Rightarrow> 'w \<Rightarrow> bool" where
  "published_world env mid cref d w w' \<longleftrightarrow>
     (\<exists>look publish c. ce_store env = Some look \<and> ce_publisher env = Some publish \<and> pc_change_ref c = cref \<and>
        load_verified (ce_sha env) (look w) mid cref (d_changed_files d) (d_developer_evidence d) = Inr c \<and>
        w' = snd (publish c w))"

definition deployed_world ::
  "'w code_change_env \<Rightarrow> string \<Rightarrow> string \<Rightarrow> delivery \<Rightarrow> 'w \<Rightarrow> 'w \<Rightarrow> bool" where
  "deployed_world env mid cref d w w' \<longleftrightarrow>
     (\<exists>look deploy c p. ce_store env = Some look \<and> ce_deployer env = Some deploy \<and> pb_change_ref p = cref \<and>
        load_verified (ce_sha env) (look w) mid cref (d_changed_files d) (d_developer_evidence d) = Inr c \<and>
        d_published_commit d = Some (pb_commit p) \<and> d_published_tree d = Some (pb_tree p) \<and>
        w' = snd (deploy p w))"

definition rolled_back_world ::
  "'w code_change_env \<Rightarrow> string \<Rightarrow> delivery \<Rightarrow> 'w \<Rightarrow> 'w \<Rightarrow> bool" where
  "rolled_back_world env cref d w w' \<longleftrightarrow>
     (\<exists>rollback t prior. ce_rollbacker env = Some rollback \<and> rt_change_ref t = cref \<and>
        d_release_id d \<noteq> None \<and> d_prior_release_id d = Some prior \<and> w' = snd (rollback t prior w))"

lemma publish_now_world:
  "world (snd (publish_now env call mid repo cref d s)) = world s \<or>
   published_world env mid cref d (world s) (world (snd (publish_now env call mid repo cref d s)))"
proof (cases "ce_store env")
  case (Some look)
  show ?thesis
  proof (cases "ce_publisher env")
    case (Some publish)
    obtain r t where ck: "checked_candidate env look mid repo cref d s = (r, t)" by fastforce
    then have t: "t = s" using checked_candidate_state[of env look mid repo cref d s] by simp
    show ?thesis
    proof (cases r)
      case (Inl e)
      then show ?thesis using ck t Some \<open>ce_store env = Some look\<close> by (simp add: publish_now_def)
    next
      case (Inr c)
      note c = checked_candidate_Inr[OF ck[unfolded Inr]]
      have "world (snd (publish_now env call mid repo cref d s)) = snd (publish c (world s))"
        unfolding publish_now_def Some \<open>ce_store env = Some look\<close> prod.case option.case
          bindE_Inr[where m = "checked_candidate env look mid repo cref d", OF ck[unfolded Inr t]]
        by (rule on_world_then) (intro keeps_intros)
      then show ?thesis
        using c Some \<open>ce_store env = Some look\<close> unfolding published_world_def by blast
    qed
  qed (simp add: publish_now_def Some)
qed (simp add: publish_now_def)

lemma make_published_Inr:
  "make_published p = Inr q \<Longrightarrow> pb_change_ref q = pb_change_ref p \<and> pb_commit q = pb_commit p \<and> pb_tree q = pb_tree p"
  by (auto simp: make_published_def)

lemma deploy_now_world:
  assumes "fully_published d"
  shows "world (snd (deploy_now env call mid repo cref d s)) = world s \<or>
   deployed_world env mid cref d (world s) (world (snd (deploy_now env call mid repo cref d s)))"
proof (cases "ce_store env")
  case (Some look)
  note look = Some
  show ?thesis
  proof (cases "ce_deployer env")
    case (Some deploy)
    obtain r t where ck: "checked_candidate env look mid repo cref d s = (r, t)" by fastforce
    then have t: "t = s" using checked_candidate_state[of env look mid repo cref d s] by simp
    show ?thesis
    proof (cases r)
      case (Inl e)
      then show ?thesis using ck t Some look by (simp add: deploy_now_def)
    next
      case (Inr c)
      let ?p = "\<lparr>pb_repository = repo, pb_change_ref = cref,
         pb_branch = (case d_published_branch d of None \<Rightarrow> [] | Some b \<Rightarrow> b),
         pb_commit = (case d_published_commit d of None \<Rightarrow> [] | Some b \<Rightarrow> b),
         pb_tree = (case d_published_tree d of None \<Rightarrow> [] | Some b \<Rightarrow> b), pb_base_commit = pc_base_commit c\<rparr>"
      note c = checked_candidate_Inr[OF ck[unfolded Inr]]
      note go = deploy_now_def Some look prod.case option.case
        bindE_Inr[where m = "checked_candidate env look mid repo cref d", OF ck[unfolded Inr t]]
      show ?thesis
      proof (cases "make_published ?p")
        case (Inl e)
        then show ?thesis unfolding go by (simp add: bindE_def)
      next
        case (Inr p)
        have "world (snd (deploy_now env call mid repo cref d s)) = snd (deploy p (world s))"
          unfolding go Inr bindE_liftE
          by (rule on_world_then) (intro keeps_intros)
        then show ?thesis
          using c Some look make_published_Inr[OF Inr] assms unfolding deployed_world_def fully_published_def by fastforce
      qed
    qed
  qed (simp add: deploy_now_def look)
qed (simp add: deploy_now_def split: option.split)

lemma roll_back_now_world:
  assumes "d_release_id d \<noteq> None" and "d_prior_release_id d = Some prior"
  shows "world (snd (roll_back_now env call mid repo cref prior s)) = world s \<or>
   rolled_back_world env cref d (world s) (world (snd (roll_back_now env call mid repo cref prior s)))"
proof (cases "ce_rollbacker env")
  case (Some rollback)
  let ?t = "make_rollback_target \<lparr>rt_repository = repo, rt_change_ref = cref\<rparr>"
  show ?thesis
  proof (cases ?t)
    case (Inl e)
    then show ?thesis unfolding roll_back_now_def Some by (simp add: bindE_def)
  next
    case (Inr t)
    have "world (snd (roll_back_now env call mid repo cref prior s)) = snd (rollback t prior (world s))"
      unfolding roll_back_now_def Some option.case Inr bindE_liftE
      by (rule on_world_then) (intro keeps_intros)
    moreover have "rt_change_ref t = cref" using Inr by (auto simp: make_rollback_target_def)
    ultimately show ?thesis using assms Some unfolding rolled_back_world_def by blast
  qed
qed (simp add: roll_back_now_def)


text \<open>
  The common beginning of the three release operations: they go on to \<open>f\<close> in the same state only for an
  approved candidate of a code-change mission, and otherwise leave the world alone.
\<close>

lemma apply_human_decision_world: "world (snd (apply_human_decision mid ref cref now s)) = world s"
proof -
  have "keeps (same world) (apply_human_decision mid ref cref now)"
    unfolding apply_human_decision_def
    by (rule with_delivery_world) (auto simp: get_request_eq bindE_def save_delivery_def Let_def split: option.split)
  then show ?thesis using keepsD by (fastforce simp: same_def)
qed

lemma approved_candidate_world: "world (snd (approved_candidate what mid ref cref now s)) = world s"
  using apply_human_decision_world[of mid ref cref now s]
  by (auto simp: approved_candidate_def get_delivery_def bindE_def split: option.split prod.split sum.split)

lemma release_effect:
  assumes "world (snd (approved_release what mid ref cref now f s)) \<noteq> world s"
  obtains repo d where "row_of d_mission mid (deliveries s) = Some d" "release_approved mid cref now s"
    "snd (approved_release what mid ref cref now f s) = snd (f repo d s)"
proof -
  obtain r t where rm: "release_mission mid s = (r, t)" by fastforce
  then have t: "t = s" using code_change_of_state[of _ _ mid s] by (metis release_mission_def snd_conv)
  show ?thesis
  proof (cases r)
    case (Inl e)
    with rm t assms show ?thesis by (simp add: approved_release_def)
  next
    case (Inr mr)
    obtain m repo where mr: "mr = (m, repo)" by (cases mr)
    note rm = rm[unfolded Inr t mr]
    obtain r' u where ac: "approved_candidate what mid ref cref now s = (r', u)" by fastforce
    have eq: "approved_release what mid ref cref now f s = bindE (approved_candidate what mid ref cref now) (f repo) s"
      using rm by (simp add: approved_release_def)
    show ?thesis
    proof (cases r')
      case (Inl e)
      with ac eq assms approved_candidate_world[of what mid ref cref now s] show ?thesis by simp
    next
      case (Inr d)
      from approved_candidate_Inr[OF ac[unfolded Inr]] that[of d repo] ac Inr eq show ?thesis by simp
    qed
  qed
qed

lemma publish_effect:
  assumes "world (snd (publish_approved_candidate env call mid ref cref s)) \<noteq> world s"
  shows "release_approved mid cref (cc_decision_now call) s \<and>
    (\<exists>d. row_of d_mission mid (deliveries s) = Some d \<and> \<not> partly_published d \<and>
       published_world env mid cref d (world s) (world (snd (publish_approved_candidate env call mid ref cref s))))"
proof -
  from release_effect[OF assms[unfolded publish_approved_candidate_def]] obtain repo d
    where d: "row_of d_mission mid (deliveries s) = Some d" "release_approved mid cref (cc_decision_now call) s"
      and t: "snd (publish_approved_candidate env call mid ref cref s) = snd (publish_decided env call mid cref repo d s)"
    unfolding publish_approved_candidate_def by metis
  have np: "\<not> partly_published d"
  proof
    assume "partly_published d"
    then have "snd (publish_decided env call mid cref repo d s) = s"
      by (simp add: publish_decided_def result_for_mission_state)
    with assms t show False by simp
  qed
  then have "\<not> fully_published d" by (auto simp: fully_published_def partly_published_def)
  with np have "snd (publish_approved_candidate env call mid ref cref s) = snd (publish_now env call mid repo cref d s)"
    unfolding t by (simp add: publish_decided_def)
  then show ?thesis using d np assms publish_now_world[of env call mid repo cref d s] by metis
qed

lemma deploy_effect:
  assumes "world (snd (deploy_approved_candidate env call mid ref cref s)) \<noteq> world s"
  shows "release_approved mid cref (cc_decision_now call) s \<and>
    (\<exists>d. row_of d_mission mid (deliveries s) = Some d \<and> fully_published d \<and> d_release_id d = None \<and>
       deployed_world env mid cref d (world s) (world (snd (deploy_approved_candidate env call mid ref cref s))))"
proof -
  from release_effect[OF assms[unfolded deploy_approved_candidate_def]] obtain repo d
    where d: "row_of d_mission mid (deliveries s) = Some d" "release_approved mid cref (cc_decision_now call) s"
      and t: "snd (deploy_approved_candidate env call mid ref cref s) = snd (deploy_decided env call mid cref repo d s)"
    unfolding deploy_approved_candidate_def by metis
  have np: "fully_published d \<and> d_release_id d = None \<and> d_prior_release_id d = None"
  proof (rule ccontr)
    assume "\<not> (fully_published d \<and> d_release_id d = None \<and> d_prior_release_id d = None)"
    then have "snd (deploy_decided env call mid cref repo d s) = s"
      by (auto simp: deploy_decided_def result_for_mission_state)
    with assms t show False by simp
  qed
  then have "snd (deploy_approved_candidate env call mid ref cref s) = snd (deploy_now env call mid repo cref d s)"
    unfolding t by (simp add: deploy_decided_def)
  then show ?thesis using d np assms deploy_now_world[of d env call mid repo cref s] by metis
qed

lemma rollback_effect:
  assumes "world (snd (rollback_approved_deployment env call mid ref cref s)) \<noteq> world s"
  shows "release_approved mid cref (cc_decision_now call) s \<and>
    (\<exists>d. row_of d_mission mid (deliveries s) = Some d \<and> fully_published d \<and> d_rollback_release_id d = None \<and>
       rolled_back_world env cref d (world s) (world (snd (rollback_approved_deployment env call mid ref cref s))))"
proof -
  from release_effect[OF assms[unfolded rollback_approved_deployment_def]] obtain repo d
    where d: "row_of d_mission mid (deliveries s) = Some d" "release_approved mid cref (cc_decision_now call) s"
      and t: "snd (rollback_approved_deployment env call mid ref cref s) = snd (roll_back_decided env call mid cref repo d s)"
    unfolding rollback_approved_deployment_def by metis
  have np: "fully_published d \<and> d_release_id d \<noteq> None \<and> d_prior_release_id d \<noteq> None \<and> d_rollback_release_id d = None"
  proof (rule ccontr)
    assume "\<not> (fully_published d \<and> d_release_id d \<noteq> None \<and> d_prior_release_id d \<noteq> None \<and> d_rollback_release_id d = None)"
    then have "snd (roll_back_decided env call mid cref repo d s) = s"
      by (auto simp: roll_back_decided_def result_for_mission_state split: option.split)
    with assms t show False by simp
  qed
  then obtain release prior where rp: "d_release_id d = Some release" "d_prior_release_id d = Some prior" by auto
  with np have "snd (rollback_approved_deployment env call mid ref cref s) = snd (roll_back_now env call mid repo cref prior s)"
    unfolding t by (simp add: roll_back_decided_def)
  then show ?thesis
    using d np rp assms roll_back_now_world[of d prior env call mid repo cref s] by (metis option.distinct(1))
qed

end
