(* ===== verification/Code_Change_Runs.thy ===== *)
theory Code_Change_Runs
  imports Code_Change_Laws
begin

text \<open>
  What processing a queued code change leaves behind: whatever the agents, the workspace and QA do or
  raise, the mission does not stay running and its lease is given back.
\<close>


section \<open>A processed mission is not left running\<close>

definition mission_ids :: "'a missions_db_scheme \<Rightarrow> string list" where
  "mission_ids s = map m_id (missions s)"

lemma with_delivery_ids:
  "(\<And>m d s. mission_ids (snd (f m d s)) = mission_ids s) \<Longrightarrow> keeps (same mission_ids) (with_delivery mid f)"
  by (simp add: keeps_def same_def with_delivery_def split: option.split)

lemma guarded_ids:
  "keeps (same mission_ids) m \<Longrightarrow> keeps (same mission_ids) (\<lambda>s. case guards gs of Some e \<Rightarrow> (Inl e, s) | None \<Rightarrow> m s)"
  by (auto simp: keeps_def same_def split: option.split)

lemma create_request_missions: "create_request sha i c q s = (r, t) \<Longrightarrow> missions t = missions s"
  by (auto simp: create_request_def Let_def split: sum.splits)

lemma handoffs_ids [keeps_intros]:
  "keeps (same mission_ids) (handoff_to_developer i mid cref summary files evidence)"
  "keeps (same mission_ids) (handoff_to_qa sha j c now mid cref verdict qa_evidence)"
proof -
  have "keeps (same mission_ids) (submit_developer_proposal i mid cref summary files evidence)" for cref summary files evidence
    by (auto simp: keeps_def same_def mission_ids_def submit_developer_proposal_def Let_def split: option.split sum.split)
  then show "keeps (same mission_ids) (handoff_to_developer i mid cref summary files evidence)"
    unfolding handoff_to_developer_def[abs_def] by (intro guarded_ids)
  have "keeps (same mission_ids) (record_qa_result sha j c now mid cref verdict qa_evidence)" for cref
    unfolding record_qa_result_def
    by (intro with_delivery_ids)
       (auto simp: mission_ids_def bindE_def save_delivery_def Let_def
          split: option.split qa_result.split prod.split sum.split dest!: create_request_missions)
  then show "keeps (same mission_ids) (handoff_to_qa sha j c now mid cref verdict qa_evidence)"
    unfolding handoff_to_qa_def[abs_def] by (intro guarded_ids)
qed

lemma mission_ids_keeps [keeps_intros]:
  "keeps (same mission_ids) (get_mission mid)"
  "keeps (same mission_ids) (get_delivery mid)"
  "keeps (same mission_ids) (try_get_delivery mid)"
  "keeps (same mission_ids) (transition l mid target result err)"
  "keeps (same mission_ids) (record_result mid res)"
  "keeps (same mission_ids) (renew_code_change_lease mid worker secs now)"
  "keeps (same mission_ids) (release_code_change_lease mid worker)"
  "keeps (same mission_ids) (on_world act)"
  by (auto simp: keeps_def same_def mission_ids_def get_mission_def get_delivery_def try_get_delivery_def
      transition_def record_result_def renew_code_change_lease_def update_where_def
      release_code_change_lease_def on_world_def add_to_session_def Let_def
      split: option.split sum.split prod.split exn.split)

lemma catchE_ids:
  "keeps (same mission_ids) m \<Longrightarrow> (\<And>e. keeps (same mission_ids) (h e)) \<Longrightarrow> keeps (same mission_ids) (catchE m h)"
  by (auto simp: keeps_def same_def catchE_def split: prod.split sum.split) (metis snd_conv)+

lemma keeps_json [keeps_intros]:
  "(\<And>d. keeps R (f d)) \<Longrightarrow> keeps R n \<Longrightarrow> keeps R (case v of JObj d \<Rightarrow> f d | _ \<Rightarrow> n)"
  by (cases v) simp_all

lemma keeps_sandboxed [keeps_intros]: "keeps (same g) (\<lambda>s. (f s, s))"
  by (simp add: keeps_def same_def)

lemma runner_ids [keeps_intros]:
  "keeps (same mission_ids) (run_developer sha i r mid)"
  "keeps (same mission_ids) (run_qa sha j c now r d)"
  "keeps (same mission_ids) (renew_worker_lease mid owner secs now)"
  "keeps (same mission_ids) (release_worker_lease mid owner)"
  "keeps (same mission_ids) (result_for_mission env mid repo)"
  "keeps (same mission_ids) (settle_result env mid repo res)"
  unfolding run_developer_def prepare_workspace_def verify_and_persist_def run_qa_def renew_worker_lease_def
    release_worker_lease_def result_for_mission_def settle_result_def Let_def
  by (intro keeps_intros)+

lemma run_existing_ids [keeps_intros]:
  "keeps (same mission_ids) (run_existing_mission env call mid repo owner secs resume)"
  unfolding run_existing_mission_def by (intro keeps_intros)

definition change_settled :: "string \<Rightarrow> string option \<Rightarrow> ('w, 'a) delivery_db_scheme \<Rightarrow> bool" where
  "change_settled mid owner s \<longleftrightarrow>
     (\<exists>m. row_of m_id mid (missions s) = Some m \<and> m_status m \<noteq> RUNNING \<and>
          (\<forall>w. owner = Some w \<longrightarrow> m_lease_owner m \<noteq> Some w))"

definition mission_stored :: "string \<Rightarrow> ('w, 'a) delivery_db_scheme \<Rightarrow> bool" where
  "mission_stored mid s \<longleftrightarrow> unique_keys m_id (missions s) \<and> mid \<in> set (mission_ids s)"

lemma mission_stored_row: "mission_stored mid s \<Longrightarrow> \<exists>m. row_of m_id mid (missions s) = Some m"
  by (cases "row_of m_id mid (missions s)") (auto simp: mission_stored_def mission_ids_def row_of_None_iff)

lemma mission_stored_same: "mission_stored mid s \<Longrightarrow> same mission_ids s t \<Longrightarrow> mission_stored mid t"
  by (simp add: mission_stored_def mission_ids_def same_def)

lemma release_settles:
  assumes has: "mission_stored mid s" and m: "row_of m_id mid (missions s) = Some m"
  shows "\<exists>t m'. release_worker_lease mid owner s = (Inr (), t) \<and> row_of m_id mid (missions t) = Some m' \<and>
     m_status m' = m_status m \<and> (\<forall>w. owner = Some w \<longrightarrow> m_lease_owner m' \<noteq> Some w)"
proof (cases owner)
  case None
  with m show ?thesis by (simp add: release_worker_lease_def)
next
  case (Some w)
  have n: "rowcount (\<lambda>x. m_id x = mid \<and> m_lease_owner x = Some w) (missions s) = (if m_lease_owner m = Some w then 1 else 0)"
    using rowcount_key[of m_id "missions s" mid "\<lambda>x. m_lease_owner x = Some w"] has m by (simp add: mission_stored_def)
  show ?thesis
  proof (cases "m_lease_owner m = Some w")
    case True
    let ?P = "\<lambda>x. m_id x = mid \<and> m_lease_owner x = Some w"
    let ?rows = "update_where ?P (\<lambda>x. x\<lparr>m_lease_owner := None, m_lease_expires_at := None\<rparr>) (missions s)"
    have "row_of m_id mid ?rows = Some (m\<lparr>m_lease_owner := None, m_lease_expires_at := None\<rparr>)"
      using m True by (subst row_of_update_where) (auto dest: row_of_SomeD)
    moreover have "release_worker_lease mid owner s = (Inr (), s\<lparr>missions := ?rows\<rparr>)"
      using n True Some by (simp add: release_worker_lease_def release_code_change_lease_def bindE_def Let_def)
    ultimately show ?thesis by simp
  next
    case False
    with n Some m show ?thesis
      by (simp add: release_worker_lease_def release_code_change_lease_def bindE_def Let_def)
  qed
qed

lemma transition_allowed_row:
  assumes "row_of m_id mid (missions s) = Some m" and "target \<in> allowed_transitions (m_status m)"
  shows "\<exists>t m'. transition l mid target res err s = (Inr m', t) \<and> row_of m_id mid (missions t) = Some m' \<and>
     m_status m' = target"
  using assms by (auto simp: transition_def add_to_session_def Let_def table_simps dest: row_of_SomeD)

lemma settle_result_Inr:
  assumes "settle_result env mid repo res s = (Inr (), t)"
  shows "\<exists>m. row_of m_id mid (missions t) = Some m \<and> m_status m \<in> {WAITING_APPROVAL, COMPLETED}"
proof -
  let ?target = "if cr_ready res then WAITING_APPROVAL else COMPLETED"
  from assms obtain m where m: "row_of m_id mid (missions s) = Some m"
    by (auto simp: settle_result_def get_mission_def bindE_def Let_def split: option.splits)
  then have id: "m_id m = mid" by (auto dest: row_of_SomeD)
  consider "m_status m = ?target" | "m_status m \<noteq> ?target" "m_status m = RUNNING"
    using assms m by (auto simp: settle_result_def get_mission_def bindE_def Let_def split: if_splits)
  then show ?thesis
  proof cases
    case 1
    with m id assms show ?thesis
      by (auto simp: settle_result_def get_mission_def bindE_def Let_def record_result_def table_simps split: if_splits)
  next
    case 2
    have "?target \<in> allowed_transitions (m_status m)" using 2(2) by simp
    from transition_allowed_row[OF m this, of "ce_ledger env" "Some (result_payload repo res)" None] obtain t' m'
      where tr: "transition (ce_ledger env) mid ?target (Some (result_payload repo res)) None s = (Inr m', t')"
        "row_of m_id mid (missions t') = Some m'" "m_status m' = ?target" by blast
    moreover have "settle_result env mid repo res s = (Inr (), t')"
      using 2 m tr(1) by (auto simp: settle_result_def get_mission_def bindE_def Let_def)
    ultimately show ?thesis using assms by auto
  qed
qed

lemma fail_processing_settles:
  assumes "mission_stored mid s"
  shows "change_settled mid owner (snd ((fail_processing env mid owner e :: (('w, 'a) delivery_db_scheme, 'b) op) s))"
proof -
  obtain m where m: "row_of m_id mid (missions s) = Some m" using mission_stored_row[OF assms] by blast
  have "\<exists>u m'. bindE (get_mission mid) (\<lambda>current. if m_status current = RUNNING
      then bindE (transition (ce_ledger env) mid FAILED None (Some preparation_failed)) (\<lambda>_. returnE ())
      else returnE ()) s = (Inr (), u) \<and> row_of m_id mid (missions u) = Some m' \<and> m_status m' \<noteq> RUNNING \<and>
      mission_stored mid u"
  proof (cases "m_status m = RUNNING")
    case True
    from transition_allowed_row[OF m, of FAILED "ce_ledger env" None "Some preparation_failed"] True obtain u m'
      where tr: "transition (ce_ledger env) mid FAILED None (Some preparation_failed) s = (Inr m', u)"
        "row_of m_id mid (missions u) = Some m'" "m_status m' = FAILED" by auto
    then have "mission_stored mid u"
      using mission_stored_same[OF assms] keepsD'[OF mission_ids_keeps(4) tr(1)] by blast
    with tr m True show ?thesis by (simp add: get_mission_def bindE_def)
  next
    case False
    with m assms show ?thesis by (simp add: get_mission_def bindE_def)
  qed
  then obtain u m' where u: "bindE (get_mission mid) (\<lambda>current. if m_status current = RUNNING
      then bindE (transition (ce_ledger env) mid FAILED None (Some preparation_failed)) (\<lambda>_. returnE ())
      else returnE ()) s = (Inr (), u)" "row_of m_id mid (missions u) = Some m'" "m_status m' \<noteq> RUNNING"
      "mission_stored mid u" by blast
  from release_settles[OF u(4,2), of owner] obtain t m'' where "release_worker_lease mid owner u = (Inr (), t)"
      "row_of m_id mid (missions t) = Some m''" "m_status m'' = m_status m'" "\<forall>w. owner = Some w \<longrightarrow> m_lease_owner m'' \<noteq> Some w"
    by blast
  moreover have "(fail_processing env mid owner e :: (('w, 'a) delivery_db_scheme, 'b) op) s =
      bindE (release_worker_lease mid owner) (\<lambda>_. raiseE e) u"
    using u(1) m by (simp add: fail_processing_def get_mission_def bindE_def)
  ultimately show ?thesis using u(3) by (auto simp: change_settled_def)
qed

lemma process_running_settles:
  assumes "mission_stored mid s"
  shows "change_settled mid owner (snd (process_running env call mid repo owner secs s))"
proof -
  let ?work = "bindE (run_existing_mission env call mid repo owner secs True) (\<lambda>r.
        bindE (settle_result env mid repo r) (\<lambda>_. bindE (release_worker_lease mid owner) (\<lambda>_. returnE r)))"
  obtain r t where w: "?work s = (r, t)" by fastforce
  have "keeps (same mission_ids) ?work" by (intro keeps_intros)
  from keepsD[OF this, of s] have "same mission_ids s t" unfolding w by simp
  then have has: "mission_stored mid t" using mission_stored_same[OF assms] by blast
  show ?thesis
  proof (cases r)
    case (Inl e)
    with w show ?thesis
      by (simp add: process_running_def catchE_def fail_processing_settles[OF has])
  next
    case (Inr res)
    from w[unfolded Inr] obtain s1 where s1: "run_existing_mission env call mid repo owner secs True s = (Inr res, s1)"
      and rest: "bindE (settle_result env mid repo res) (\<lambda>_. bindE (release_worker_lease mid owner) (\<lambda>_. returnE res)) s1 = (Inr res, t)"
      by (auto elim!: bindE_InrE)
    from rest obtain s2 where s2: "settle_result env mid repo res s1 = (Inr (), s2)"
      and rel: "bindE (release_worker_lease mid owner) (\<lambda>_. returnE res) s2 = (Inr res, t)"
      by (auto elim!: bindE_InrE)
    from settle_result_Inr[OF s2] obtain m where m: "row_of m_id mid (missions s2) = Some m"
        "m_status m \<in> {WAITING_APPROVAL, COMPLETED}" by blast
    have "same mission_ids s s1"
      using keepsD[OF run_existing_ids[of env call mid repo owner secs True], of s] unfolding s1 by simp
    moreover have "same mission_ids s1 s2"
      using keepsD[OF runner_ids(6)[of env mid repo res], of s1] unfolding s2 by simp
    ultimately have "mission_stored mid s2" using mission_stored_same assms by blast
    from release_settles[OF this m(1), of owner] rel m(2) have "change_settled mid owner t"
      by (auto simp: change_settled_def)
    with w Inr show ?thesis by (simp add: process_running_def catchE_def)
  qed
qed

text \<open>A mission that can be processed: a code change in a trusted repository whose lease, if any, is held.\<close>

definition processable :: "string option \<Rightarrow> int \<Rightarrow> int \<Rightarrow> mission \<Rightarrow> bool" where
  "processable owner secs now m \<longleftrightarrow>
     is_code_change m \<and> (\<exists>v vs repo. m_objectives m = v # vs \<and> trusted_repository v = Inr repo) \<and>
     (case owner of
        None \<Rightarrow> m_status m \<in> {QUEUED, RUNNING}
      | Some w \<Rightarrow> 60 \<le> secs \<and> m_status m = RUNNING \<and> m_lease_owner m = Some w \<and>
                  (\<exists>t. m_lease_expires_at m = Some t \<and> now \<le> stamp_instant t))"

lemma start_processing_processable:
  assumes uniq: "unique_keys m_id (missions s)" and m: "row_of m_id mid (missions s) = Some m"
    and p: "processable owner secs (cc_renew_start call) m"
  shows "\<exists>t. start_processing env call m owner secs s = (Inr (), t) \<and> same mission_ids s t"
proof -
  have id: "m_id m = mid" using m by (auto dest: row_of_SomeD)
  show ?thesis
  proof (cases owner)
    case None
    then consider "m_status m = QUEUED" | "m_status m = RUNNING" using p by (auto simp: processable_def)
    then show ?thesis
    proof cases
      case 1
      from transition_allowed_row[OF m, of RUNNING "ce_ledger env" None None] 1 obtain t m'
        where tr: "transition (ce_ledger env) mid RUNNING None None s = (Inr m', t)" by auto
      with 1 None id show ?thesis
        using keepsD'[OF mission_ids_keeps(4) tr] by (auto simp: start_processing_def)
    next
      case 2
      with None show ?thesis by (simp add: start_processing_def same_def)
    qed
  next
    case (Some w)
    let ?P = "\<lambda>x. m_id x = mid \<and> is_code_change x \<and> m_status x = RUNNING \<and> m_lease_owner x = Some w \<and>
       (case m_lease_expires_at x of None \<Rightarrow> False | Some t \<Rightarrow> cc_renew_start call \<le> stamp_instant t)"
    have "rowcount ?P (missions s) = 1"
      using rowcount_key[OF uniq, of mid "\<lambda>x. is_code_change x \<and> m_status x = RUNNING \<and> m_lease_owner x = Some w \<and>
       (case m_lease_expires_at x of None \<Rightarrow> False | Some t \<Rightarrow> cc_renew_start call \<le> stamp_instant t)"] m p Some
      by (auto simp: processable_def)
    then obtain t where rn: "renew_code_change_lease mid w secs (cc_renew_start call) s = (Inr True, t)"
      using p Some by (auto simp: renew_code_change_lease_def processable_def Let_def)
    with Some p id show ?thesis
      using keepsD'[OF mission_ids_keeps(6) rn] by (auto simp: start_processing_def processable_def)
  qed
qed

lemma process_queued_settles:
  assumes uniq: "unique_keys m_id (missions s)" and m: "row_of m_id mid (missions s) = Some m"
    and p: "processable owner secs (cc_renew_start call) m"
  shows "change_settled mid owner (snd (process_queued_candidate env call mid owner secs s))"
proof -
  have id: "m_id m = mid" using m by (auto dest: row_of_SomeD)
  obtain v vs repo where "m_objectives m = v # vs" "trusted_repository v = Inr repo"
    using p by (auto simp: processable_def)
  then have of: "code_change_of a b mid s = (Inr (m, repo), s)" for a b
    using m p by (simp add: code_change_of_def get_mission_def bindE_def processable_def is_code_change_def)
  have st: "m_status m \<notin> {WAITING_APPROVAL, COMPLETED}" using p by (auto simp: processable_def split: option.splits)
  from start_processing_processable[OF uniq m p, of env] obtain t
    where start: "start_processing env call m owner secs s = (Inr (), t)" "same mission_ids s t" by blast
  have "mission_stored mid s" using uniq m by (auto simp: mission_stored_def mission_ids_def dest: row_of_SomeD)
  then have "mission_stored mid t" using start(2) by (rule mission_stored_same)
  from process_running_settles[OF this, of owner env call repo secs] show ?thesis
    using of st start(1) id by (simp add: process_queued_candidate_def)
qed

section \<open>Sequences of calls\<close>

text \<open>Everything that reaches deliveries: the delivery service, approvals, and the code-change service.\<close>

datatype change_call =
    DeliveryCall delivery_call
  | QueueChange code_change_call json json
  | PrepareChange code_change_call json json
  | ProcessChange code_change_call string "string option" int
  | PublishChange code_change_call string string string
  | DeployChange code_change_call string string string
  | RollBackChange code_change_call string string string
  | RunOnce code_change_call string int int

fun change_step :: "'w code_change_env \<Rightarrow> change_call \<Rightarrow>
    ('w, 'a) delivery_db_scheme \<Rightarrow> ('w, 'a) delivery_db_scheme" where
  "change_step env (DeliveryCall c) s = delivery_step (ce_sha env) c s"
| "change_step env (QueueChange call repository instruction) s = snd (queue_candidate env call repository instruction s)"
| "change_step env (PrepareChange call repository instruction) s = snd (prepare_candidate env call repository instruction s)"
| "change_step env (ProcessChange call mid owner secs) s = snd (process_queued_candidate env call mid owner secs s)"
| "change_step env (PublishChange call mid ref cref) s = snd (publish_approved_candidate env call mid ref cref s)"
| "change_step env (DeployChange call mid ref cref) s = snd (deploy_approved_candidate env call mid ref cref s)"
| "change_step env (RollBackChange call mid ref cref) s = snd (rollback_approved_deployment env call mid ref cref s)"
| "change_step env (RunOnce call worker secs now) s = snd (code_change_run_once env call worker secs now s)"

lemma evolvesD: "evolves m \<Longrightarrow> delivery_inv s \<Longrightarrow> delivery_inv (snd (m s)) \<and> deliveries_history s (snd (m s))"
  by (simp add: evolves_def)

lemma change_step_evolves:
  assumes "delivery_inv s"
  shows "delivery_inv (change_step env c s) \<and> deliveries_history s (change_step env c s)"
proof (cases c)
  case (DeliveryCall d)
  with delivery_step_follows[OF assms, of "ce_sha env" d] show ?thesis by (auto intro: deliveries_follow_history)
qed (use assms in \<open>simp_all add: evolves_service[THEN evolvesD] evolves_run_once[THEN evolvesD]\<close>)

lemma change_steps_history:
  "delivery_inv s \<Longrightarrow> delivery_inv (fold (change_step env) cs s) \<and> deliveries_history s (fold (change_step env) cs s)"
proof (induction cs arbitrary: s)
  case Nil
  then show ?case by (simp add: deliveries_history_refl)
next
  case (Cons c cs)
  from change_step_evolves[OF Cons.prems, of env c] Cons.IH[of "change_step env c s"]
  show ?case by (auto intro: deliveries_history_trans)
qed

section \<open>Effects of a release\<close>

fun release_op :: "change_call \<Rightarrow> (code_change_call \<times> string \<times> string) option" where
  "release_op (PublishChange call mid ref cref) = Some (call, mid, cref)"
| "release_op (DeployChange call mid ref cref) = Some (call, mid, cref)"
| "release_op (RollBackChange call mid ref cref) = Some (call, mid, cref)"
| "release_op c = None"

text \<open>
  The one effect each release may have: publishing an unpublished change after its candidate was reopened,
  deploying a published and undeployed one, rolling back a deployed one to the release recorded before it.
\<close>

fun effect_allowed :: "'w code_change_env \<Rightarrow> change_call \<Rightarrow> delivery \<Rightarrow> 'w \<Rightarrow> 'w \<Rightarrow> bool" where
  "effect_allowed env (PublishChange call mid ref cref) d w w' \<longleftrightarrow>
     \<not> partly_published d \<and> published_world env mid cref d w w'"
| "effect_allowed env (DeployChange call mid ref cref) d w w' \<longleftrightarrow>
     fully_published d \<and> d_release_id d = None \<and> deployed_world env mid cref d w w'"
| "effect_allowed env (RollBackChange call mid ref cref) d w w' \<longleftrightarrow>
     fully_published d \<and> d_rollback_release_id d = None \<and> rolled_back_world env cref d w w'"
| "effect_allowed env c d w w' \<longleftrightarrow> False"

lemma release_effects:
  assumes "release_op c = Some (call, mid, cref)" and "world (change_step env c s) \<noteq> world s"
  shows "release_approved mid cref (cc_decision_now call) s \<and>
    (\<exists>d. row_of d_mission mid (deliveries s) = Some d \<and>
         effect_allowed env c d (world s) (world (change_step env c s)))"
proof (cases c)
  case (PublishChange call' mid' ref cref')
  with assms publish_effect[of env call mid ref cref s] show ?thesis by simp
next
  case (DeployChange call' mid' ref cref')
  with assms deploy_effect[of env call mid ref cref s] show ?thesis by simp
next
  case (RollBackChange call' mid' ref cref')
  with assms rollback_effect[of env call mid ref cref s] show ?thesis by simp
qed (use assms in simp_all)

end
