(* ===== verification/Candidate_Laws.thy ===== *)
theory Candidate_Laws
  imports Candidates Json_Parse
begin

text \<open>
  What identifies a candidate binds it: the verifier and the store digest the same fields, so that what the
  store reopens is what was verified, and what was verified can be reopened as long as its
  workspace is intact. The two digests agree only on plain text.
\<close>

section \<open>The two encoders\<close>

definition plain :: "string \<Rightarrow> bool" where
  "plain s \<longleftrightarrow> (\<forall>c \<in> set s. (of_char c :: nat) < 127)"

fun json_plain :: "json \<Rightarrow> bool" where
  "json_plain (JStr s) = plain s"
| "json_plain (JList xs) = (\<forall>x \<in> set xs. json_plain x)"
| "json_plain (JObj d) = (\<forall>(k, v) \<in> set d. plain k \<and> json_plain v)"
| "json_plain v = True"

lemma quote_raw_plain: "plain s \<Longrightarrow> quote_raw s = quote s"
  by (simp add: quote_raw_def quote_def esc_char_raw_def plain_def cong: map_cong)

lemma json_bytes_plain: "json_plain v \<Longrightarrow> json_bytes v = json_text v"
proof (induction v)
  case (JList xs)
  then have "map json_bytes xs = map json_text xs" by simp
  then show ?case by (simp only: json_bytes.simps json_text.simps)
next
  case (JObj d)
  have "(case kv of (k, v) \<Rightarrow> quote_raw k @ '':'' @ json_bytes v) = (case kv of (k, v) \<Rightarrow> quote k @ '':'' @ json_text v)"
    if "kv \<in> set d" for kv
  proof -
    obtain k v where kv: "kv = (k, v)" by (cases kv)
    with that JObj.prems have "plain k" "json_plain v" by auto
    with JObj.IH[of kv v] that kv show ?thesis by (simp add: quote_raw_plain)
  qed
  then have "map (\<lambda>(k, v). quote_raw k @ '':'' @ json_bytes v) d = map (\<lambda>(k, v). quote k @ '':'' @ json_text v) d"
    by (intro map_cong) auto
  then show ?case by (simp only: json_bytes.simps json_text.simps)
qed (simp_all add: quote_raw_plain)

lemma join_elements: "x \<in> set xs \<Longrightarrow> set x \<subseteq> set (join sep xs)"
  by (induction sep xs rule: join.induct) auto

lemma plain_append [simp]: "plain (s @ t) \<longleftrightarrow> plain s \<and> plain t"
  by (auto simp: plain_def)

lemma plain_Cons [simp]: "plain (c # t) \<longleftrightarrow> (of_char c :: nat) < 127 \<and> plain t"
  by (auto simp: plain_def)

lemma plain_Nil [simp]: "plain []"
  by (simp add: plain_def)

lemma plain_subset: "plain t \<Longrightarrow> set s \<subseteq> set t \<Longrightarrow> plain s"
  by (auto simp: plain_def)

lemma plain_join: "plain sep \<Longrightarrow> \<forall>x \<in> set xs. plain x \<Longrightarrow> plain (join sep xs)"
  by (induction sep xs rule: join.induct) auto

lemma plain_esc_char: "plain (esc_char c)"
proof -
  have "(of_char c :: nat) < 256" using of_char_of[of "of_char c"] by (simp add: of_char_def)
  then have "(of_char c :: nat) div 16 < 16" by linarith
  then show ?thesis by (auto simp: esc_char_def hex_char_def)
qed

lemma plain_quote: "plain (quote s)"
  using plain_esc_char by (auto simp: quote_def plain_def)

lemma plain_int_repr: "plain (int_repr i)"
  using nat_repr_digits[of "nat i"] nat_repr_digits[of "nat (- i)"]
  by (fastforce simp: int_repr_def is_digit_def plain_def)

lemma plain_json_text: "plain (json_text v)"
proof (induction v)
  case (JList xs)
  then show ?case by (auto intro!: plain_join)
next
  case (JObj d)
  then show ?case by (force intro!: plain_join simp: plain_quote)
qed (auto simp: plain_quote plain_int_repr)

lemma quote_raw_not_plain: "plain (quote_raw s) \<Longrightarrow> plain s"
proof -
  assume p: "plain (quote_raw s)"
  have "(of_char c :: nat) < 127" if "c \<in> set s" for c
  proof (rule ccontr)
    assume n: "\<not> (of_char c :: nat) < 127"
    have "plain (esc_char_raw c)"
      using p that unfolding quote_raw_def by (auto simp: plain_def)
    with n show False by (auto simp: esc_char_raw_def utf8_bytes_def plain_def of_char_of Let_def split: if_splits)
  qed
  then show "plain s" by (simp add: plain_def)
qed

lemma json_bytes_not_plain: "plain (json_bytes v) \<Longrightarrow> json_plain v"
proof (induction v)
  case (JList xs)
  have "plain (json_bytes x)" if "x \<in> set xs" for x
    by (rule plain_subset[OF JList.prems]) (use join_elements[of "json_bytes x" "map json_bytes xs" "'',''"] that in auto)
  with JList.IH show ?case by simp
next
  case (JObj d)
  let ?f = "\<lambda>(k, v). quote_raw k @ '':'' @ json_bytes v"
  have "plain k \<and> json_plain v" if kv: "(k, v) \<in> set d" for k v
  proof -
    have "?f (k, v) \<in> set (map ?f d)" using imageI[OF kv, of ?f] by (simp only: list.set_map)
    from join_elements[OF this, of "'',''"] have "set (?f (k, v)) \<subseteq> set (json_bytes (JObj d))"
      by (simp only: json_bytes.simps set_append) blast
    from plain_subset[OF JObj.prems this] have "plain (quote_raw k @ '':'' @ json_bytes v)" by (simp only: prod.case)
    then show ?thesis using quote_raw_not_plain[of k] JObj.IH[of "(k, v)" v] kv by simp
  qed
  then show ?case by auto
qed (simp_all add: quote_raw_not_plain)

lemma json_plain_canon: "json_plain (json_canon v) = json_plain v"
proof (induction v)
  case (JObj d)
  then show ?case by fastforce
qed auto

text \<open>The digest texts agree exactly on equal, plain values.\<close>

lemma json_bytes_eq_dumps:
  "json_bytes (json_canon v) = json_dumps w \<longleftrightarrow> json_plain v \<and> json_canon v = json_canon w"
proof
  assume eq: "json_bytes (json_canon v) = json_dumps w"
  then have "plain (json_bytes (json_canon v))" by (simp add: json_dumps_def plain_json_text)
  then have p: "json_plain (json_canon v)" by (rule json_bytes_not_plain)
  then have "json_text (json_canon v) = json_text (json_canon w)"
    using eq json_bytes_plain[OF p] by (simp add: json_dumps_def)
  with p show "json_plain v \<and> json_canon v = json_canon w" by (simp add: json_text_inject json_plain_canon)
next
  assume v: "json_plain v \<and> json_canon v = json_canon w"
  have "json_bytes (json_canon v) = json_text (json_canon v)"
    by (rule json_bytes_plain) (use conjunct1[OF v] in \<open>simp only: json_plain_canon\<close>)
  with v show "json_bytes (json_canon v) = json_dumps w" by (simp add: json_dumps_def)
qed


section \<open>Stripped text\<close>

lemma strip_prefix: "\<exists>r. dropWhile is_space s = strip s @ r"
proof -
  let ?t = "dropWhile is_space s"
  have "rev ?t = takeWhile is_space (rev ?t) @ dropWhile is_space (rev ?t)" by simp
  then have "?t = rev (dropWhile is_space (rev ?t)) @ rev (takeWhile is_space (rev ?t))"
    by (metis rev_append rev_rev_ident)
  then show ?thesis unfolding strip_def by blast
qed

lemma strip_ends:
  assumes "strip s \<noteq> []"
  shows "\<not> is_space (hd (strip s)) \<and> \<not> is_space (last (strip s))"
proof
  from strip_prefix obtain r where r: "dropWhile is_space s = strip s @ r" by blast
  with assms have "hd (strip s) = hd (dropWhile is_space s)" "dropWhile is_space s \<noteq> []" by auto
  then show "\<not> is_space (hd (strip s))" using hd_dropWhile[of is_space s] by simp
  have "last (strip s) = hd (dropWhile is_space (rev (dropWhile is_space s)))"
    using assms by (simp add: strip_def last_rev)
  then show "\<not> is_space (last (strip s))"
    using assms hd_dropWhile[of is_space "rev (dropWhile is_space s)"] by (simp add: strip_def)
qed

lemma dropWhile_fixed: "s = [] \<or> \<not> P (hd s) \<Longrightarrow> dropWhile P s = s"
  by (cases s) auto

lemma strip_fixed:
  assumes "s = [] \<or> (\<not> is_space (hd s) \<and> \<not> is_space (last s))"
  shows "strip s = s"
proof (cases "s = []")
  case False
  with assms have "\<not> is_space (hd s)" "\<not> is_space (hd (rev s))" by (auto simp: hd_rev)
  then have "dropWhile is_space s = s" "dropWhile is_space (rev s) = rev s"
    by (simp_all add: dropWhile_fixed)
  then show ?thesis by (simp add: strip_def)
qed (simp add: strip_def)

lemma strip_strip [simp]: "strip (strip s) = strip s"
  using strip_ends[of s] by (intro strip_fixed) blast

lemma required_Inr: "required v f = Inr t \<Longrightarrow> strip t = t \<and> t \<noteq> []"
  by (auto simp: required_def split: json.splits if_splits)

lemma required_stripped: "strip t = t \<Longrightarrow> t \<noteq> [] \<Longrightarrow> required (JStr t) f = Inr t"
  by (simp add: required_def)

section \<open>Identities\<close>

lemma identity_json_wf: "json_wf (identity_json i)"
  by (simp add: identity_json_def list_all_iff)

lemma identity_json_field:
  assumes "json_canon (identity_json i) = json_canon (identity_json j)"
  shows "map_option json_canon (map_of (case identity_json i of JObj d \<Rightarrow> d | _ \<Rightarrow> []) k) =
         map_option json_canon (map_of (case identity_json j of JObj d \<Rightarrow> d | _ \<Rightarrow> []) k)"
  using json_canon_obj_lookup[of "case identity_json i of JObj d \<Rightarrow> d | _ \<Rightarrow> []"
      "case identity_json j of JObj d \<Rightarrow> d | _ \<Rightarrow> []" k] assms identity_json_wf[of i] identity_json_wf[of j]
  by (simp add: identity_json_def)

lemma map_JStr_inject: "map JStr xs = map JStr ys \<longleftrightarrow> xs = ys"
  by (rule inj_map_eq_map) (simp add: inj_def)

lemma identity_canon_inject:
  assumes "json_canon (identity_json i) = json_canon (identity_json j)"
  shows "i = j"
proof -
  note f = identity_json_field[OF assms]
  have "id_mission i = id_mission j" using f[of "''mission_id''"] by (simp add: identity_json_def)
  moreover have "id_repository i = id_repository j" using f[of "''repository''"] by (simp add: identity_json_def)
  moreover have "id_base_ref i = id_base_ref j" using f[of "''base_ref''"] by (simp add: identity_json_def)
  moreover have "id_base_commit i = id_base_commit j" using f[of "''base_commit''"] by (simp add: identity_json_def)
  moreover have "id_workspace i = id_workspace j" using f[of "''workspace_id''"] by (simp add: identity_json_def)
  moreover have "id_changed_files i = id_changed_files j"
    using f[of "''changed_files''"] by (simp add: identity_json_def comp_def map_JStr_inject)
  moreover have "id_diff_digest i = id_diff_digest j" using f[of "''diff_digest''"] by (simp add: identity_json_def)
  moreover have "id_content_digest i = id_content_digest j"
    using f[of "''content_digest''"] by (simp add: identity_json_def)
  ultimately show ?thesis by simp
qed

definition identity_plain :: "candidate_identity \<Rightarrow> bool" where
  "identity_plain i \<longleftrightarrow>
     list_all plain ([id_mission i, id_repository i, id_base_ref i, id_base_commit i, id_workspace i,
       id_diff_digest i, id_content_digest i] @ id_changed_files i)"

lemma identity_json_plain: "json_plain (identity_json i) \<longleftrightarrow> identity_plain i"
  by (auto simp: identity_json_def identity_plain_def list_all_iff)

text \<open>The reference the verifier gives and the one the store checks.\<close>

lemma change_ref_binds:
  assumes "candidate_change_ref sha i = canonical_digest sha (identity_json j)"
  shows "(i = j \<and> identity_plain i) \<or> (\<exists>x y. x \<noteq> y \<and> sha x = sha y)"
proof (cases "json_bytes (json_canon (identity_json i)) = json_dumps (identity_json j)")
  case True
  then show ?thesis by (simp add: json_bytes_eq_dumps identity_json_plain identity_canon_inject)
next
  case False
  with assms show ?thesis by (auto simp: candidate_change_ref_def canonical_digest_def)
qed

lemma change_ref_plain:
  "identity_plain i \<Longrightarrow> candidate_change_ref sha i = canonical_digest sha (identity_json i)"
  by (simp add: candidate_change_ref_def canonical_digest_def json_bytes_eq_dumps[THEN iffD2] identity_json_plain)

section \<open>Verifying and reopening\<close>

lemma verify_candidate_Inr:
  assumes "verify_candidate sha mid proposal sn te diff = Inr v"
  shows "vc_mission v = strip mid" "vc_mission v \<noteq> []" "vc_changed_files v = sn_changed_files sn"
    and "vc_change_ref v = candidate_change_ref sha (snapshot_identity (strip mid) sn)"
    and "vc_evidence v = verification_evidence sha (vc_change_ref v) sn te diff"
    and "te_passed te" "te_exit_code te = 0"
  using assms by (auto simp: verify_candidate_def identity_payload_def required_def candidate_change_ref_def
      Let_def split: json.splits if_splits)

definition candidate_of :: "string \<Rightarrow> candidate_identity \<Rightarrow> persisted_candidate" where
  "candidate_of ref i =
     \<lparr>pc_mission = id_mission i, pc_repository = id_repository i, pc_workspace_id = id_workspace i,
      pc_base_ref = id_base_ref i, pc_base_commit = id_base_commit i, pc_change_ref = ref,
      pc_changed_files = id_changed_files i, pc_content_digest = id_content_digest i\<rparr>"

definition workspace_intact :: "(string \<Rightarrow> string) \<Rightarrow> workspace_view \<Rightarrow> string \<Rightarrow> bool" where
  "workspace_intact sha w digest \<longleftrightarrow>
     \<not> wv_symlink w \<and> wv_dir w \<and> wv_contained w \<and>
     canonical_digest sha (JObj (manifest sha (wv_tree w))) = digest"

lemma load_verified_Inr_iff:
  "load_verified sha sb mid ref files evidence = Inr c \<longleftrightarrow>
     (\<exists>r i. evidence_identity mid ref files evidence = Inr (r, i) \<and>
        canonical_digest sha (identity_json i) = r \<and>
        workspace_intact sha (sb_workspace sb (id_repository i) (id_workspace i)) (id_content_digest i) \<and>
        c = candidate_of r i)"
  by (auto simp: load_verified_def Let_def workspace_intact_def candidate_of_def)

text \<open>What is reopened is what was verified, and its workspace still has the verified content.\<close>

lemma reopened_is_verified:
  assumes v: "verify_candidate sha mid proposal sn te diff = Inr v"
    and c: "load_verified sha sb mid' ref files evidence = Inr c" "pc_change_ref c = vc_change_ref v"
  shows "(c = candidate_of (vc_change_ref v) (snapshot_identity (strip mid) sn) \<and>
          identity_plain (snapshot_identity (strip mid) sn) \<and>
          workspace_intact sha (sb_workspace sb (sn_repository sn) (sn_workspace_id sn)) (sn_content_digest sn)) \<or>
         (\<exists>x y. x \<noteq> y \<and> sha x = sha y)"
proof -
  from c obtain i where i: "canonical_digest sha (identity_json i) = vc_change_ref v"
      "workspace_intact sha (sb_workspace sb (id_repository i) (id_workspace i)) (id_content_digest i)"
      "c = candidate_of (vc_change_ref v) i"
    by (auto simp: load_verified_Inr_iff candidate_of_def)
  then have "candidate_change_ref sha (snapshot_identity (strip mid) sn) = canonical_digest sha (identity_json i)"
    using verify_candidate_Inr(4)[OF v] by simp
  from change_ref_binds[OF this] i show ?thesis by (auto simp: snapshot_identity_def)
qed

section \<open>Normalised UUIDs\<close>

lemma remove_all_none: "(\<forall>i. take (length p) (drop i s) \<noteq> p) \<Longrightarrow> remove_all p s = s"
proof (induction p s rule: remove_all.induct)
  case (2 p c cs)
  from 2(3) have "take (length p) (c # cs) \<noteq> p" by (metis drop0)
  moreover have "\<forall>i. take (length p) (drop i cs) \<noteq> p" using 2(3) by (metis drop_Suc_Cons)
  ultimately show ?case using 2(2) by simp
qed simp

lemma remove_all_absent: "hd p \<notin> set s \<Longrightarrow> p \<noteq> [] \<Longrightarrow> remove_all p s = s"
proof (rule remove_all_none, rule allI, rule notI)
  fix i assume a: "hd p \<notin> set s" "p \<noteq> []" "take (length p) (drop i s) = p"
  then have "hd p \<in> set (take (length p) (drop i s))" by simp
  then have "hd p \<in> set s" by (meson in_set_dropD in_set_takeD)
  with a show False by simp
qed

lemma remove_all_char: "remove_all [d] s = filter (\<lambda>c. c \<noteq> d) s"
  by (induction "[d]" s rule: remove_all.induct) auto

lemma hex_digit_value_hex_char: "n < 16 \<Longrightarrow> hex_digit_value (hex_char n) = Some n"
  by (auto simp: hex_digit_value_def hex_char_def of_char_of)

lemma lower_hex_hex_char:
  assumes "n < 16"
  shows "lower_hex (hex_char n)"
proof (cases "n < 10")
  case True
  then show ?thesis by (simp add: lower_hex_def hex_char_def is_digit_def of_char_of)
next
  case False
  with assms have "n = 10 \<or> n = 11 \<or> n = 12 \<or> n = 13 \<or> n = 14 \<or> n = 15" by arith
  then show ?thesis by (elim disjE) (simp_all add: lower_hex_def hex_char_def char_of_def bit_0)
qed

lemma us_hex_digits:
  "\<forall>x \<in> set xs. x < 16 \<Longrightarrow> xs \<noteq> [] \<or> digit \<Longrightarrow>
   us_hex acc digit (map hex_char xs) = Some (foldl (\<lambda>a v. 16 * a + v) acc xs)"
  by (induction xs arbitrary: acc digit) (auto simp: hex_digit_value_hex_char)

lemma foldl_digits:
  fixes n acc :: nat
  shows "foldl (\<lambda>a v. 16 * a + v) acc (map (\<lambda>i. n div 16 ^ i mod 16) (rev [0..<k])) = acc * 16 ^ k + n mod 16 ^ k"
proof (induction k arbitrary: acc)
  case (Suc k)
  have "n mod 16 ^ Suc k = n div 16 ^ k mod 16 * 16 ^ k + n mod 16 ^ k"
    using mod_mult2_eq[of n "16 ^ k" 16] by (simp add: mult.commute)
  then show ?case using Suc by (simp add: algebra_simps)
qed simp

lemma hex_digits_length [simp]: "length (hex_digits k n) = k"
  by (simp add: hex_digits_def)

lemma hex_digits_lower: "list_all lower_hex (hex_digits k n)"
  by (auto simp: hex_digits_def list_all_iff lower_hex_hex_char)

lemma lower_hex_not:
  assumes "lower_hex c"
  shows "\<not> is_space c" "c \<notin> {CHR ''-'', CHR ''+'', CHR ''u'', CHR ''x'', CHR ''X'', CHR ''{'', CHR ''}''}"
    "(of_char c :: nat) < 127"
  using assms by (auto simp: lower_hex_def is_space_def is_digit_def)

lemma py_int16_hex_digits:
  assumes "n < 16 ^ k" and "2 \<le> k"
  shows "py_int16 (hex_digits k n) = Some (int n)"
proof -
  let ?h = "hex_digits k n"
  have low: "\<And>c. c \<in> set ?h \<Longrightarrow> lower_hex c" using hex_digits_lower[of k n] by (simp add: list_all_iff)
  have ne: "?h \<noteq> []" using assms(2) hex_digits_length[of k n] by (metis list.size(3) not_numeral_le_zero)
  have strip: "strip ?h = ?h"
    by (rule strip_fixed) (use ne low lower_hex_not(1) in \<open>auto simp: hd_in_set last_in_set\<close>)
  have "us_hex 0 False ?h = Some n"
    using us_hex_digits[of "map (\<lambda>i. n div 16 ^ i mod 16) (rev [0..<k])" False 0] foldl_digits[of 0 n k] assms
    by (simp add: hex_digits_def comp_def)
  moreover have "take 2 ?h \<notin> {''0x'', ''0X''}"
  proof
    assume "take 2 ?h \<in> {''0x'', ''0X''}"
    then have "CHR ''x'' \<in> set (take 2 ?h) \<or> CHR ''X'' \<in> set (take 2 ?h)" by auto
    then have "CHR ''x'' \<in> set ?h \<or> CHR ''X'' \<in> set ?h" by (auto dest: in_set_takeD)
    then show False using low lower_hex_not(2) by blast
  qed
  ultimately have hp: "hex_prefixed ?h = Some n" by (simp add: hex_prefixed_def)
  obtain c cs where h: "?h = c # cs" using ne by (cases ?h) auto
  then have "c \<noteq> CHR ''-''" "c \<noteq> CHR ''+''" using low[of c] lower_hex_not(2)[of c] by auto
  with strip hp h show ?thesis by (simp add: py_int16_def)
qed

lemma uuid_text_set: "c \<in> set (uuid_text n) \<Longrightarrow> c = CHR ''-'' \<or> lower_hex c"
  using hex_digits_lower[of 32 n]
  by (auto simp: uuid_text_def Let_def list_all_iff dest!: in_set_takeD in_set_dropD)

lemma uuid_text_ends: "uuid_text n \<noteq> []" "lower_hex (hd (uuid_text n))" "lower_hex (last (uuid_text n))"
proof -
  let ?h = "hex_digits 32 n"
  have ne: "?h \<noteq> []" using hex_digits_length[of 32 n] by (metis list.size(3) zero_neq_numeral)
  have low: "\<And>c. c \<in> set ?h \<Longrightarrow> lower_hex c" using hex_digits_lower[of 32 n] by (simp add: list_all_iff)
  show "uuid_text n \<noteq> []" by (simp add: uuid_text_def Let_def)
  have "hd (uuid_text n) = hd (take 8 ?h)" "take 8 ?h \<noteq> []"
    using ne by (simp_all add: uuid_text_def Let_def hd_append)
  then show "lower_hex (hd (uuid_text n))" using low by (metis hd_in_set in_set_takeD)
  have d: "drop 20 ?h \<noteq> []" by simp
  then have "last (uuid_text n) = last (drop 20 ?h)" by (simp add: uuid_text_def Let_def)
  then show "lower_hex (last (uuid_text n))" using low d by (metis last_in_set in_set_dropD)
qed

lemma filter_lower: "list_all lower_hex xs \<Longrightarrow> filter (\<lambda>c. c \<noteq> CHR ''-'') xs = xs"
  by (induction xs) (auto dest: lower_hex_not(2))

lemma uuid_text_filter: "filter (\<lambda>c. c \<noteq> CHR ''-'') (uuid_text n) = hex_digits 32 n"
proof -
  let ?h = "hex_digits 32 n"
  have l: "list_all lower_hex (take k ?h)" "list_all lower_hex (drop k ?h)" "list_all lower_hex (take j (drop k ?h))" for j k
    using hex_digits_lower[of 32 n] unfolding list_all_iff by (metis in_set_takeD in_set_dropD)+
  have "filter (\<lambda>c. c \<noteq> CHR ''-'') (uuid_text n) =
      take 8 ?h @ take 4 (drop 8 ?h) @ take 4 (drop 12 ?h) @ take 4 (drop 16 ?h) @ drop 20 ?h"
    by (simp add: uuid_text_def Let_def filter_lower[OF l(1)] filter_lower[OF l(2)] filter_lower[OF l(3)])
  also have "take 4 (drop 16 ?h) @ drop 20 ?h = drop 16 ?h" using append_take_drop_id[of 4 "drop 16 ?h"] by simp
  also have "take 4 (drop 12 ?h) @ drop 16 ?h = drop 12 ?h" using append_take_drop_id[of 4 "drop 12 ?h"] by simp
  also have "take 4 (drop 8 ?h) @ drop 12 ?h = drop 8 ?h" using append_take_drop_id[of 4 "drop 8 ?h"] by simp
  finally show ?thesis by simp
qed

lemma uuid_digits_text: "uuid_digits (uuid_text n) = hex_digits 32 n"
proof -
  let ?h = "hex_digits 32 n" and ?u = "uuid_text n"
  let ?brace = "\<lambda>c. c = CHR ''{'' \<or> c = CHR ''}''"
  have "CHR ''u'' \<notin> set ?u" using uuid_text_set[of "CHR ''u''" n] lower_hex_not(2)[of "CHR ''u''"] by auto
  then have "remove_all ''uuid:'' (remove_all ''urn:'' ?u) = ?u" by (simp add: remove_all_absent)
  moreover have "\<not> ?brace (hd ?u)" "\<not> ?brace (hd (rev ?u))"
    using lower_hex_not(2)[OF uuid_text_ends(2)[of n]] lower_hex_not(2)[OF uuid_text_ends(3)[of n]]
    by (simp_all add: hd_rev)
  then have "dropWhile ?brace ?u = ?u" "dropWhile ?brace (rev ?u) = rev ?u"
    by (simp_all add: dropWhile_fixed)
  moreover have "filter (\<lambda>c. c \<noteq> CHR ''-'') ?u = ?h" by (rule uuid_text_filter)
  ultimately show ?thesis by (simp add: uuid_digits_def Let_def remove_all_char)
qed

lemma store_workspace_id_uuid:
  assumes "n < 16 ^ 32"
  shows "store_workspace_id (JStr (uuid_text n)) = Inr (uuid_text n)"
proof -
  have "strip (uuid_text n) = uuid_text n"
    using uuid_text_ends[of n] by (intro strip_fixed) (auto dest: lower_hex_not(1))
  moreover have "uuid_of (uuid_text n) = Some n"
    using py_int16_hex_digits[of n 32] assms by (simp add: uuid_of_def uuid_digits_text)
  ultimately show ?thesis
    using uuid_text_ends(1)[of n] by (simp add: store_workspace_id_def required_stripped)
qed

section \<open>A verified candidate can be reopened\<close>

definition storable :: "snapshot \<Rightarrow> bool" where
  "storable sn \<longleftrightarrow>
     sn_repository sn \<in> trusted_repositories \<and> sn_base_ref sn = ''main'' \<and> git_sha (sn_base_commit sn) \<and>
     (\<exists>n < 16 ^ 32. sn_workspace_id sn = uuid_text n) \<and> sha256_ref (sn_diff_digest sn) \<and>
     sha256_ref (sn_content_digest sn) \<and> list_all plain (sn_changed_files sn) \<and>
     store_changed_files (map JStr (sn_changed_files sn)) = Inr (sn_changed_files sn)"

lemma strip_lower:
  assumes "s \<noteq> []" and "\<not> is_space (hd s)" and "lower_hex (last s)"
  shows "strip s = s"
  using assms lower_hex_not(1) by (intro strip_fixed) auto

lemma sha256_ref_fixed:
  assumes "sha256_ref s"
  shows "strip s = s" "s \<noteq> []" "plain s"
proof -
  from assms have s: "take 7 s = ''sha256:''" "length s = 71" "\<And>c. c \<in> set (drop 7 s) \<Longrightarrow> lower_hex c"
    by (auto simp: sha256_ref_def list_all_iff)
  then have sd: "s = ''sha256:'' @ drop 7 s" by (metis append_take_drop_id)
  have ne: "drop 7 s \<noteq> []" using s(2) by auto
  then have "lower_hex (last s)" using s(3)[OF last_in_set[OF ne]] by simp
  moreover have "hd s = CHR ''s''" by (subst sd) simp
  ultimately show "strip s = s"
    using s(2) by (intro strip_lower) (auto simp: is_space_def)
  show "s \<noteq> []" using s(2) by auto
  have "plain (drop 7 s)" using s(3) lower_hex_not(3) by (auto simp: plain_def)
  then show "plain s" by (subst sd) simp
qed

lemma git_sha_fixed:
  assumes "git_sha s"
  shows "strip s = s" "s \<noteq> []" "plain s"
proof -
  from assms have s: "length s = 40" "\<And>c. c \<in> set s \<Longrightarrow> lower_hex c" by (auto simp: git_sha_def list_all_iff)
  then show ne: "s \<noteq> []" by auto
  then show "strip s = s" using s(2) lower_hex_not(1) by (intro strip_lower) auto
  show "plain s" using s(2) lower_hex_not(3) by (auto simp: plain_def)
qed

lemma store_checks:
  "sha256_ref s \<Longrightarrow> store_sha256 (JStr s) f = Inr s"
  "git_sha s \<Longrightarrow> store_git_commit (JStr s) = Inr s"
  by (simp_all add: store_sha256_def store_git_commit_def required_stripped sha256_ref_fixed git_sha_fixed)

lemma uuid_text_plain: "plain (uuid_text n)"
  using uuid_text_set lower_hex_not(3) by (force simp: plain_def)

lemma storable_plain:
  "storable sn \<Longrightarrow> plain mid \<Longrightarrow> identity_plain (snapshot_identity mid sn)"
  by (auto simp: storable_def identity_plain_def snapshot_identity_def trusted_repositories_def
      sha256_ref_fixed git_sha_fixed uuid_text_plain)

lemma strip_plain: "plain s \<Longrightarrow> plain (strip s)"
  by (rule plain_subset) (auto simp: strip_def dest!: set_dropWhileD)

lemma evidence_identity_verified:
  assumes "storable sn" and "sha256_ref ref" and "strip mid = mid" "mid \<noteq> []"
  shows "evidence_identity mid ref (map JStr (sn_changed_files sn)) (verification_evidence sha ref sn te diff) =
         Inr (ref, snapshot_identity mid sn)"
proof -
  from assms(1) obtain n where n: "n < 16 ^ 32" "sn_workspace_id sn = uuid_text n" by (auto simp: storable_def)
  have main: "required (JStr ''main'') f = Inr ''main''" for f
    by (rule required_stripped) (simp_all add: strip_def is_space_def)
  have repo: "required (JStr (sn_repository sn)) f = Inr (sn_repository sn)" for f
    using assms(1) by (auto simp: storable_def trusted_repositories_def required_def strip_def is_space_def)
  show ?thesis
    using assms n by (simp add: evidence_identity_def verification_evidence_def storable_def store_checks
        store_workspace_id_uuid required_stripped main repo algorithm_check_def snapshot_identity_def)
qed

lemma verified_reopens:
  assumes v: "verify_candidate sha mid proposal sn te diff = Inr v"
    and sn: "storable sn" "plain mid"
    and ref: "sha256_ref (vc_change_ref v)"
    and intact: "workspace_intact sha (sb_workspace sb (sn_repository sn) (sn_workspace_id sn)) (sn_content_digest sn)"
  shows "load_verified sha sb (vc_mission v) (vc_change_ref v) (map JStr (vc_changed_files v)) (vc_evidence v) =
         Inr (candidate_of (vc_change_ref v) (snapshot_identity (vc_mission v) sn))"
proof -
  note vi = verify_candidate_Inr[OF v]
  have "identity_plain (snapshot_identity (vc_mission v) sn)"
    using storable_plain[OF sn(1) strip_plain[OF sn(2)]] vi(1) by simp
  then have "canonical_digest sha (identity_json (snapshot_identity (vc_mission v) sn)) = vc_change_ref v"
    using change_ref_plain vi(1,4) by simp
  moreover have "evidence_identity (vc_mission v) (vc_change_ref v) (map JStr (vc_changed_files v)) (vc_evidence v) =
      Inr (vc_change_ref v, snapshot_identity (vc_mission v) sn)"
    using evidence_identity_verified[OF sn(1) ref, of "vc_mission v" sha te diff] vi(1,2,3,5) by simp
  ultimately show ?thesis
    using intact unfolding load_verified_Inr_iff by (auto simp: snapshot_identity_def)
qed

end
