(* ===== verification/Publication_Laws.thy ===== *)
theory Publication_Laws
  imports Publication Candidate_Laws
begin

text \<open>
  What publishing sends and returns: requests stay within the target repository and create one branch
  in the candidate namespace on the candidate's base commit; a reported publication is well-formed. The
  host helper's answer to a deployment carries no release id, so the deployer never accepts it.
\<close>

section \<open>What reaches GitHub\<close>

type_synonym github_log = "(http_method \<times> string \<times> json option) list"

text \<open>A server that keeps the requests it gets and answers as it likes.\<close>

definition logging_http :: "(github_log \<Rightarrow> http_reply) \<Rightarrow> github_log http_client" where
  "logging_http answer verb url body seen = (answer (seen @ [(verb, url, body)]), seen @ [(verb, url, body)])"

definition extends_by :: "(http_method \<times> string \<times> json option \<Rightarrow> bool) \<Rightarrow> github_log \<Rightarrow> github_log \<Rightarrow> bool" where
  "extends_by P seen seen' \<longleftrightarrow> (\<exists>new. seen' = seen @ new \<and> list_all P new)"

lemma extends_by_rel [simp, intro!]: "reflp (extends_by P)" "transp (extends_by P)"
proof -
  show "reflp (extends_by P)" by (rule reflpI) (simp add: extends_by_def)
  show "transp (extends_by P)"
  proof (rule transpI)
    fix x y z assume "extends_by P x y" "extends_by P y z"
    then obtain a b where "y = x @ a" "list_all P a" "z = y @ b" "list_all P b" by (auto simp: extends_by_def)
    then have "z = x @ (a @ b) \<and> list_all P (a @ b)" by simp
    then show "extends_by P x z" unfolding extends_by_def by blast
  qed
qed

definition issues :: "(http_method \<times> string \<times> json option \<Rightarrow> bool) \<Rightarrow> (github_log, 'x) op \<Rightarrow> bool" where
  "issues P m \<longleftrightarrow> keeps (extends_by P) m"

named_theorems issues_intros \<open>operations that issue only requests of a kind\<close>

lemma issues_basic [issues_intros]:
  "issues P (returnE x)" "issues P (raiseE e)" "issues P (liftE r)" "issues P (\<lambda>w. (f w, w))"
  by (simp_all add: issues_def keeps_def extends_by_def)

lemma issues_bindE [issues_intros]: "issues P m \<Longrightarrow> (\<And>x. issues P (f x)) \<Longrightarrow> issues P (bindE m f)"
  unfolding issues_def by (rule keeps_bindE) simp_all

lemma issues_lift [issues_intros]: "(\<And>x. r = Inr x \<Longrightarrow> issues P (f x)) \<Longrightarrow> issues P (bindE (liftE r) f)"
  by (cases r) (auto simp: issues_def keeps_def extends_by_def)

lemma issues_if [issues_intros]: "(b \<Longrightarrow> issues P m) \<Longrightarrow> (\<not> b \<Longrightarrow> issues P n) \<Longrightarrow> issues P (if b then m else n)"
  by simp

lemma issues_option [issues_intros]:
  "(v = None \<Longrightarrow> issues P m) \<Longrightarrow> (\<And>x. v = Some x \<Longrightarrow> issues P (f x)) \<Longrightarrow>
   issues P (case v of None \<Rightarrow> m | Some x \<Rightarrow> f x)"
  by (cases v) simp_all

lemma issues_request [issues_intros]:
  "P (verb, url, body) \<Longrightarrow> issues P (github_request (logging_http ans) verb url body)"
  by (auto simp: issues_def keeps_def extends_by_def github_request_def logging_http_def
      split: http_reply.split option.split json.split)

text \<open>
  The requests a publication of \<open>c\<close> may send: reads of the base branch, and new objects whose commit has the
  base commit as its only parent and whose reference is \<open>branch\<close>, in the target's repository.
\<close>

definition confined :: "publish_target \<Rightarrow> persisted_candidate \<Rightarrow> string \<Rightarrow> http_method \<times> string \<times> json option \<Rightarrow> bool" where
  "confined t c branch req \<longleftrightarrow>
     (let root = ''https://api.github.com/repos/'' @ pt_repository t in
      case req of
        (GET, url, None) \<Rightarrow>
          url = root @ ''/git/ref/heads/'' @ pt_base_branch t \<or> url = root @ ''/git/commits/'' @ pc_base_commit c \<or>
          (\<exists>tree. git_sha tree \<and> url = root @ ''/git/trees/'' @ tree @ ''?recursive=1'')
      | (POST, url, Some (JObj body)) \<Rightarrow>
          url = root @ ''/git/blobs'' \<or> url = root @ ''/git/trees'' \<or>
          (url = root @ ''/git/commits'' \<and> dict_get body ''parents'' = JList [JStr (pc_base_commit c)]) \<or>
          (url = root @ ''/git/refs'' \<and> dict_get body ''ref'' = JStr (''refs/heads/'' @ branch))
      | _ \<Rightarrow> False)"

definition repository_root :: "publish_target \<Rightarrow> string \<Rightarrow> bool" where
  "repository_root t root \<longleftrightarrow> root = ''https://api.github.com/repos/'' @ pt_repository t"

lemma confined_get:
  assumes "repository_root t root"
  shows "confined t c b (GET, root @ ''/git/ref/heads/'' @ pt_base_branch t, None)"
    and "confined t c b (GET, root @ ''/git/commits/'' @ pc_base_commit c, None)"
    and "git_sha tree \<Longrightarrow> confined t c b (GET, root @ ''/git/trees/'' @ tree @ ''?recursive=1'', None)"
  using assms by (auto simp: confined_def repository_root_def Let_def)

lemma confined_post:
  assumes "repository_root t root"
  shows "confined t c b (POST, root @ ''/git/blobs'', Some (JObj body))"
    and "confined t c b (POST, root @ ''/git/trees'', Some (JObj body))"
    and "dict_get body ''parents'' = JList [JStr (pc_base_commit c)] \<Longrightarrow>
         confined t c b (POST, root @ ''/git/commits'', Some (JObj body))"
    and "dict_get body ''ref'' = JStr (''refs/heads/'' @ b) \<Longrightarrow>
         confined t c b (POST, root @ ''/git/refs'', Some (JObj body))"
  using assms by (simp_all add: confined_def repository_root_def Let_def)

lemma github_sha_Inr: "github_sha v f = Inr s \<Longrightarrow> git_sha s \<and> v = JStr s"
  by (auto simp: github_sha_def split: json.splits)

lemma nested_sha_Inr: "nested_sha d k f = Inr s \<Longrightarrow> git_sha s"
  by (auto simp: nested_sha_def dest: github_sha_Inr split: json.splits)


definition candidate_branch :: "(string \<Rightarrow> string) \<Rightarrow> publish_target \<Rightarrow> persisted_candidate \<Rightarrow> string" where
  "candidate_branch sha t c =
     pt_branch_prefix t @ take 12 (sha (utf8_text (strip (pc_mission c)))) @ ''-'' @ take 12 (drop 7 (pc_change_ref c))"

lemma generated_branch_Inr:
  "generated_branch_name sha t (pc_mission c) (pc_change_ref c) = Inr b \<Longrightarrow> b = candidate_branch sha t c"
  by (auto simp: generated_branch_name_def candidate_branch_def required_def split: if_splits)

lemma issues_blob:
  assumes http: "pu_http p = logging_http ans" and root: "repository_root t root"
  shows "issues (confined t c b) (published_blob p root c entries path)"
  unfolding published_blob_def Let_def http
  by (rule issues_bindE[OF issues_basic(4)], rule issues_lift, rule issues_if, rule issues_basic(2), rule issues_option)
     (intro issues_if issues_basic issues_bindE issues_request confined_post root)+

lemma issues_blobs:
  assumes http: "pu_http p = logging_http ans" and root: "repository_root t root"
  shows "issues (confined t c b) (published_blobs p root c entries paths)"
  by (induction paths) (simp_all add: issues_basic issues_bindE issues_blob[OF http root])

lemma issues_changes:
  assumes http: "pu_http p = logging_http ans" and root: "repository_root t root"
  shows "issues (confined t c (candidate_branch sha t c)) (publish_changes sha p t root c base_tree changes)"
  unfolding publish_changes_def http
  by (rule issues_bindE[OF issues_request], rule confined_post[OF root], rule issues_lift,
      rule issues_bindE[OF issues_request], rule confined_post[OF root], simp, rule issues_lift, rule issues_lift, rule issues_lift,
      rule issues_bindE[OF issues_request], rule confined_post[OF root], simp add: generated_branch_Inr,
      intro issues_lift issues_if issues_basic)

lemma issues_base_tree:
  assumes http: "pu_http p = logging_http ans" and root: "repository_root t root" and tree: "git_sha base_tree"
  shows "issues (confined t c b) (base_tree_entries p root base_tree)"
  unfolding base_tree_entries_def http
  by (rule issues_bindE[OF issues_request], rule confined_get(3)[OF root tree])
     (intro issues_if issues_lift issues_basic)

lemma publish_confined:
  assumes http: "pu_http p = logging_http ans" and t: "get_publish_target (pu_targets p) (pc_repository c) = Inr t"
  shows "issues (confined t c (candidate_branch sha t c)) (publish_candidate sha p c)"
proof -
  have root: "repository_root t (''https://api.github.com/repos/'' @ pt_repository t)"
    by (simp add: repository_root_def)
  show ?thesis
    unfolding publish_candidate_def Let_def
    apply (rule issues_if, rule issues_basic, rule issues_lift)
    apply (drule trans[OF t[symmetric]], drule Inr_inject, hypsubst)
    apply (rule issues_bindE)
     apply (simp only: http, rule issues_request, rule confined_get(1)[OF root])
    apply (rule issues_lift, rule issues_if, rule issues_basic, rule issues_bindE)
     apply (simp only: http, rule issues_request, rule confined_get(2)[OF root])
    apply (rule issues_lift, rule issues_bindE, rule issues_base_tree[OF http root], erule nested_sha_Inr)
    apply (rule issues_bindE, rule issues_blobs[OF http root], rule issues_changes[OF http root])
    done
qed

lemma publish_log:
  assumes "pu_http p = logging_http ans" and "get_publish_target (pu_targets p) (pc_repository c) = Inr t"
  shows "list_all (confined t c (candidate_branch sha t c)) (snd (publish_candidate sha p c []))"
  using keepsD[OF publish_confined[OF assms, unfolded issues_def], of sha "[]"] by (simp add: extends_by_def)

section \<open>What a publication reports\<close>

definition publication_wf :: "published_candidate \<Rightarrow> bool" where
  "publication_wf p \<longleftrightarrow>
     pb_repository p \<in> trusted_repositories \<and> sha256_ref (pb_change_ref p) \<and> git_sha (pb_commit p) \<and>
     git_sha (pb_tree p) \<and> git_sha (pb_base_commit p) \<and>
     take (length publish_branch_prefix) (pb_branch p) = publish_branch_prefix"

lemma make_published_wf: "make_published p = Inr q \<Longrightarrow> publication_wf q"
  by (auto simp: make_published_def publication_wf_def git_identity_def)

lemma publish_candidate_wf:
  assumes "publish_candidate sha p c w = (Inr q, w')"
  shows "publication_wf q \<and> pb_change_ref q = pc_change_ref c \<and> pb_base_commit q = pc_base_commit c"
proof -
  from assms obtain t root base_tree changes w1
    where "publish_changes sha p t root c base_tree changes w1 = (Inr q, w')"
    unfolding publish_candidate_def Let_def by (auto split: if_splits elim!: bindE_InrE)
  then obtain x where "make_published x = Inr q" "pb_change_ref x = pc_change_ref c" "pb_base_commit x = pc_base_commit c"
    unfolding publish_changes_def by (auto split: if_splits elim!: bindE_InrE)
  then show ?thesis using make_published_wf[of x q] by (auto simp: make_published_def)
qed

text \<open>Recording a reported publication never fails on the form of its identities.\<close>

lemma reported_publication_recordable:
  assumes "publication_wf q"
  shows "record_publication mid cref (pb_branch q) (pb_commit q) (pb_tree q) now at =
         approved_delivery ''publication'' (\<lambda>_. []) mid cref now (publish_row (pb_branch q) (pb_commit q) (pb_tree q) at)"
  using assms by (simp add: record_publication_def[abs_def] publication_wf_def)

section \<open>Deploying through the host helper\<close>

text \<open>The executor's answer to a deployment confirms it, but names no release.\<close>

lemma deployment_answer:
  assumes "deployment_deploy al henv req log = (Inr resp, log')" and "hp_ok resp"
  shows "hp_data resp = [(''deployed'', JBool True)]"
  using assms by (auto simp: deployment_deploy_def run_then_def command_def failure_def success_def Let_def
      split: if_splits option.splits prod.splits sum.splits run_outcome.splits elim!: bindE_InrE)

lemma helper_deploy_never_accepted:
  "fst (deploy_candidate (host_execute al henv) t p log) \<noteq> Inr r"
proof
  assume ok: "fst (deploy_candidate (host_execute al henv) t p log) = Inr r"
  then obtain log' where "deploy_candidate (host_execute al henv) t p log = (Inr r, log')"
    by (metis prod.collapse)
  then obtain res log1 where "transport_deploy (host_execute al henv) t log = (Inr res, log1)"
      and tr: "trusted_release (dict_get res ''release_id'') \<noteq> None"
    by (auto simp: deploy_candidate_def split: if_splits option.splits elim!: bindE_InrE)
  then obtain resp where "deployment_deploy al henv (helper_request_of DEPLOYMENT_DEPLOY (Some (ot_key t)) []) log = (Inr resp, log1)"
      "hp_ok resp" "res = hp_data resp"
    by (auto simp: transport_deploy_def transport_execute_def host_execute_def helper_request_of_def
        split: prod.splits sum.splits exn.splits if_splits)
  with deployment_answer have "res = [(''deployed'', JBool True)]" by metis
  with tr show False by (simp add: trusted_release_def)
qed


lemma helper_deploy_lost:
  assumes "pb_repository p = ot_key t" and "permitted (Some (ot_key t)) (al_services al) deploy_entrypoints = Some (k, argv)"
    and "he_run henv log argv = Completed 0 out err"
  shows "deploy_candidate (host_execute al henv) t p log =
    (Inl (RuntimeError ''deployment adapter returned no trusted release id''), log @ [argv])"
  using assms
  by (auto simp: deploy_candidate_def transport_deploy_def transport_execute_def host_execute_def helper_request_of_def
      deployment_deploy_def run_then_def command_def success_def bindE_def trusted_release_def permitted_def Let_def
      split: option.splits if_splits)

end
