(* ===== verification/Change_Properties.thy ===== *)
theory Change_Properties
  imports Code_Change_Runs Publication_Laws
begin

text \<open>
  The properties of the delivery of code changes, from the developer's proposal to publication,
  deployment and rollback, each with an instance on sample values.
\<close>

section \<open>Sample values\<close>

text \<open>A change that has been approved, published and deployed as release \<open>r2\<close> over \<open>r1\<close>.\<close>

definition zeros :: "nat \<Rightarrow> string" where
  "zeros n = replicate n (CHR ''0'')"

definition sample_ref :: string where
  "sample_ref = ''sha256:'' @ zeros 64"

definition change_mission :: mission where
  "change_mission = (mission_row ''m1'' 0 (code_change_mission ''ai-hq'' ''fix''))\<lparr>m_status := WAITING_APPROVAL\<rparr>"

definition change_approval :: approval_request where
  "change_approval =
     \<lparr>ar_id = ''a1'', ar_mission = ''m1'', ar_requester = ''qa'', ar_action = ''approve_delivery_change'',
      ar_target = sample_ref, ar_risk = AMBER, ar_plan = [(''change_ref'', JStr sample_ref)], ar_fingerprint = [],
      ar_state = APPROVED, ar_expires_at = Aware 10, ar_decided_at = Some (Aware 1), ar_created_at = 0\<rparr>"

definition deployed_change :: delivery where
  "deployed_change = (proposal_row ''d1'' ''m1'' sample_ref ''s'' [] [])
     \<lparr>d_stage := STAGE_WAITING_APPROVAL, d_qa_result := Some QA_PASSED, d_approval_reference := Some ''a1'',
      d_published_branch := Some ''ai-hq/candidate/c1'', d_published_commit := Some (zeros 40),
      d_published_tree := Some (zeros 40), d_published_at := Some (Aware 2),
      d_release_id := Some ''r2'', d_prior_release_id := Some ''r1'', d_deployed_at := Some (Aware 3)\<rparr>"

definition change_db :: "mission \<Rightarrow> nat delivery_db" where
  "change_db m =
     \<lparr>ledger = [], missions = [m], mission_steps = [], approval_requests = [change_approval],
      scoped_rules = [], system_row = None, agents = [], notifications = [], incidents = [], attempts = [],
      world = 0, deliveries = [deployed_change]\<rparr>"

definition change_env :: "nat code_change_env" where
  "change_env =
     \<lparr>ce_sha = (\<lambda>t. zeros 64), ce_ledger = False, ce_runner = (\<lambda>_. Inl (ValueError ''no runner'')),
      ce_store = None, ce_publisher = None, ce_deployer = None,
      ce_rollbacker = Some (\<lambda>t release n. (Inr \<lparr>rt_repository = rt_repository t, rt_change_ref = rt_change_ref t,
                                              rb_release = release\<rparr>, Suc n)),
      ce_descriptions = []\<rparr>"

definition sample_change_call :: code_change_call where
  "sample_change_call =
     \<lparr>cc_mission_id = ''m1'', cc_created = 0, cc_delivery_id = ''d1'', cc_request_id = ''a1'', cc_request_created = 0,
      cc_qa_now = 0, cc_renew_start = 0, cc_renew_developer = 0, cc_renew_qa = 0, cc_decision_now = 5,
      cc_record_now = 6, cc_recorded_at = 7\<rparr>"

abbreviation sample_rollback :: change_call where
  "sample_rollback \<equiv> RollBackChange sample_change_call ''m1'' ''a1'' sample_ref"

lemma sample_ref_ok [simp]: "sha256_ref sample_ref"
  by (simp add: sha256_ref_def sample_ref_def zeros_def lower_hex_def is_digit_def list_all_iff)

lemma change_db_simps [simp]:
  "missions (change_db m) = [m]" "approval_requests (change_db m) = [change_approval]"
  "deliveries (change_db m) = [deployed_change]" "world (change_db m) = 0"
  by (simp_all add: change_db_def)

lemma change_db_inv: "delivery_inv (change_db m)"
  by (simp add: delivery_inv_def delivery_ok_def recorded_in_order_def deployed_change_def proposal_row_def
      change_approval_def)

lemma change_mission_simps [simp]:
  "m_id change_mission = ''m1''" "m_owner_agent change_mission = ''developer''"
  "m_source change_mission = ''hq_chat_code_change''" "m_objectives change_mission = [JStr ''ai-hq'', JStr ''fix'']"
  "m_status change_mission = WAITING_APPROVAL"
  by (simp_all add: change_mission_def mission_row_def code_change_mission_def list_or_empty_def)

lemma trusted_ai_hq [simp]: "trusted_repository (JStr ''ai-hq'') = Inr ''ai-hq''"
  by (simp add: trusted_repository_def trusted_repositories_def strip_def is_space_def)

lemma sample_approved: "release_approved ''m1'' sample_ref 5 (change_db m)"
  by (simp add: release_approved_def deployed_change_def proposal_row_def change_approval_def)

lemma sample_rollback_step:
  "world (change_step change_env sample_rollback (change_db change_mission)) = 1"
  "deliveries (change_step change_env sample_rollback (change_db change_mission)) =
     [deployed_change\<lparr>d_rollback_release_id := Some ''r1'', d_rolled_back_at := Some (Aware 7)\<rparr>]"
  by (simp_all add: rollback_approved_deployment_def approved_release_def release_mission_def code_change_of_def
      get_mission_def approved_candidate_def
      get_delivery_def deployed_change_def proposal_row_def guards.simps apply_human_decision_def with_delivery_def
      get_request_eq change_approval_def dict_get_def delivery_approval_expired_def sample_change_call_def
      roll_back_decided_def fully_published_def roll_back_now_def change_env_def make_rollback_target_def
      on_world_def bindE_def record_rollback_def approved_delivery_def approval_guards_def no_text_def unpublished_def
      release_id_valid_def is_ascii_def ascii_alnum_def roll_back_row_def save_delivery_def Let_def
      result_for_mission_def high_risk_def zeros_def)


text \<open>A verified snapshot, and a sandbox in which its workspace is intact.\<close>

definition sample_snapshot :: snapshot where
  "sample_snapshot =
     \<lparr>sn_workspace_id = uuid_text 0, sn_repository = ''ai-hq'', sn_base_ref = ''main'', sn_changed_files = [''a''],
      sn_diff_digest = sample_ref, sn_content_digest = sample_ref, sn_base_commit = zeros 40\<rparr>"


definition sample_sandbox :: sandbox where
  "sample_sandbox =
     \<lparr>sb_workspace = (\<lambda>_ _. \<lparr>wv_symlink = False, wv_dir = True, wv_contained = True, wv_tree = []\<rparr>),
      sb_file = (\<lambda>_ _ _. SeenMissing)\<rparr>"





definition sample_reopened :: persisted_candidate where
  "sample_reopened = candidate_of sample_ref (snapshot_identity ''m1'' sample_snapshot)"

section \<open>The delivery process\<close>

text \<open>
  C32: deliveries follow the process "reviewed; returned or put up for approval; published; deployed;
  rolled back". Whatever sequence of calls reaches the delivery service, the code-change service, its
  queue runner and the approvals, with whatever agents and outside world, every delivery keeps its mission
  and change and moves only along the process, every new one starts in review, and what is recorded
  stays complete, in order and backed by an approved request.
\<close>

theorem delivery_refines_process:
  assumes "delivery_inv s"
  shows "delivery_inv (fold (change_step env) cs s) \<and> deliveries_history s (fold (change_step env) cs s)"
  using assms by (rule change_steps_history)

theorem delivery_refines_process_witness:
  "deliveries_history (change_db change_mission) (fold (change_step change_env) [sample_rollback] (change_db change_mission)) \<and>
   map phase_of (deliveries (change_db change_mission)) = [Deployed] \<and>
   map phase_of (deliveries (fold (change_step change_env) [sample_rollback] (change_db change_mission))) = [RolledBack]"
  using delivery_refines_process[OF change_db_inv[of change_mission], of change_env "[sample_rollback]"]
  by (simp add: sample_rollback_step phase_of_def deployed_change_def proposal_row_def del: change_step.simps)

text \<open>
  C33: a publication, deployment or rollback is recorded only for a change that passed QA and whose own
  approval request, for this mission and this change, is approved and has not expired. A refused or
  repeated record changes nothing.
\<close>

theorem release_needs_approval:
  assumes "release_call c = Some (mid, ref, now)" and "delivery_step sha c s \<noteq> s"
  shows "release_approved mid ref now s"
  using assms by (rule release_call_approved)

lemma sample_record:
  "deliveries (delivery_step sha (Rollback ''m1'' sample_ref ''r1'' 5 5) (change_db change_mission)) =
     [deployed_change\<lparr>d_rollback_release_id := Some ''r1'', d_rolled_back_at := Some (Aware 5)\<rparr>]"
  by (simp add: record_rollback_def approved_delivery_def with_delivery_def guards.simps approval_guards_def
      get_request_eq bindE_def roll_back_row_def save_delivery_def release_id_valid_def deployed_change_def
      proposal_row_def change_approval_def unpublished_def no_text_def delivery_approval_expired_def Let_def
      dict_get_def is_ascii_def ascii_alnum_def zeros_def)

theorem release_needs_approval_witness: "release_approved ''m1'' sample_ref 5 (change_db change_mission)"
proof (rule release_needs_approval[where c = "Rollback ''m1'' sample_ref ''r1'' 5 5" and sha = "\<lambda>t. t"])
  show "delivery_step (\<lambda>t. t) (Rollback ''m1'' sample_ref ''r1'' 5 5) (change_db change_mission) \<noteq> change_db change_mission"
  proof
    assume "delivery_step (\<lambda>t. t) (Rollback ''m1'' sample_ref ''r1'' 5 5) (change_db change_mission) = change_db change_mission"
    from arg_cong[OF this, of deliveries] show False
      by (simp add: sample_record deployed_change_def proposal_row_def del: delivery_step.simps)
  qed
qed simp

text \<open>
  C34: publishing, deploying and rolling back change the outside world only for a change whose approval is in
  force at the time of the decision, and then in exactly one way: one call of the publisher with a candidate
  that was just reopened and found unchanged, one call of the deployer for the published commit, or
  one call of the rollbacker with the release recorded before the deployment. Nothing is published,
  deployed or rolled back a second time once it is recorded.
\<close>

theorem release_effects_guarded:
  assumes "release_op c = Some (call, mid, cref)" and "world (change_step env c s) \<noteq> world s"
  shows "release_approved mid cref (cc_decision_now call) s \<and>
    (\<exists>d. row_of d_mission mid (deliveries s) = Some d \<and>
         effect_allowed env c d (world s) (world (change_step env c s)))"
  using assms by (rule release_effects)

theorem release_effects_guarded_witness:
  "world (change_step change_env sample_rollback (change_db change_mission)) = 1 \<and>
   (\<exists>d. row_of d_mission ''m1'' (deliveries (change_db change_mission)) = Some d \<and>
        effect_allowed change_env sample_rollback d 0 1)"
proof -
  have "release_op sample_rollback = Some (sample_change_call, ''m1'', sample_ref)" by simp
  moreover have "world (change_step change_env sample_rollback (change_db change_mission)) \<noteq> world (change_db change_mission)"
    by (simp add: sample_rollback_step del: change_step.simps)
  ultimately show ?thesis
    using release_effects_guarded sample_rollback_step(1) change_db_simps(4)[of change_mission] by metis
qed

section \<open>Processing the queue\<close>

text \<open>
  C35: a code change that is taken up is settled. When \<open>process_queued_candidate\<close> is called for a queued or
  running change in a trusted repository, with its lease held when one is needed, then whatever the
  developer agent, the workspace, the tests and QA return or raise, the mission is not left running
  and its worker's lease is given back.
\<close>

theorem processing_settles:
  assumes "unique_keys m_id (missions s)" and "row_of m_id mid (missions s) = Some m"
    and "processable owner secs (cc_renew_start call) m"
  shows "change_settled mid owner (snd (process_queued_candidate env call mid owner secs s))"
  using assms by (rule process_queued_settles)

definition leased_change :: mission where
  "leased_change =
     change_mission\<lparr>m_status := RUNNING, m_lease_owner := Some ''w'', m_lease_expires_at := Some (Aware 1)\<rparr>"

lemma leased_change_simps [simp]:
  "m_id leased_change = ''m1''" "m_owner_agent leased_change = ''developer''"
  "m_source leased_change = ''hq_chat_code_change''" "m_objectives leased_change = [JStr ''ai-hq'', JStr ''fix'']"
  "m_status leased_change = RUNNING" "m_lease_owner leased_change = Some ''w''"
  "m_lease_expires_at leased_change = Some (Aware 1)"
  by (simp_all add: leased_change_def)

theorem processing_settles_witness:
  "change_settled ''m1'' (Some ''w'')
     (snd (process_queued_candidate change_env sample_change_call ''m1'' (Some ''w'') 900 (change_db leased_change)))"
proof (rule processing_settles)
  show "processable (Some ''w'') 900 (cc_renew_start sample_change_call) leased_change"
    by (simp add: processable_def is_code_change_def sample_change_call_def)
qed simp_all

section \<open>Candidates\<close>






section \<open>Publishing and deploying\<close>

text \<open>
  C38: publishing stays within its target. Whatever GitHub answers, every request a publication sends goes to the
  repository registered for the candidate's key; it reads the base branch, and it creates blobs, trees, a commit
  whose only parent is the candidate's base commit, and the candidate's own generated branch. It
  updates and deletes nothing.
\<close>

theorem publisher_confined:
  assumes "pu_http p = logging_http ans" and "get_publish_target (pu_targets p) (pc_repository c) = Inr t"
  shows "list_all (confined t c (candidate_branch sha t c)) (snd (publish_candidate sha p c []))"
  using assms by (rule publish_log)

text \<open>A server that answers every request of a publication as GitHub would.\<close>

definition sample_commit :: string where
  "sample_commit = replicate 40 (CHR ''a'')"

definition sample_github :: "github_log \<Rightarrow> http_reply" where
  "sample_github log =
     HttpReply 200 (Some (JObj
       (if length log = 3 then [(''tree'', JList [])]
        else [(''object'', JObj [(''sha'', JStr sample_commit)]), (''tree'', JObj [(''sha'', JStr sample_commit)]),
              (''sha'', JStr sample_commit)])))"

definition sample_publisher :: "github_log publisher" where
  "sample_publisher =
     \<lparr>pu_http = logging_http sample_github, pu_look = (\<lambda>_. sample_sandbox), pu_targets = default_publish_targets\<rparr>"

definition sample_candidate :: persisted_candidate where
  "sample_candidate = sample_reopened\<lparr>pc_base_commit := sample_commit, pc_changed_files := []\<rparr>"

lemma sample_target: "get_publish_target (pu_targets sample_publisher) (pc_repository sample_candidate) =
    Inr (hd default_publish_targets)"
  by (simp add: get_publish_target_def sample_publisher_def default_publish_targets_def sample_candidate_def
      sample_reopened_def candidate_of_def snapshot_identity_def sample_snapshot_def)

theorem publisher_confined_witness:
  "list_all (confined (hd default_publish_targets) sample_candidate
      (candidate_branch (\<lambda>t. zeros 64) (hd default_publish_targets) sample_candidate))
     (snd (publish_candidate (\<lambda>t. zeros 64) sample_publisher sample_candidate []))"
  by (rule publisher_confined[OF _ sample_target]) (simp add: sample_publisher_def)

text \<open>
  A reported publication is well-formed. Whatever GitHub answers, a publication that returns names a trusted
  repository, the candidate's change and base commit, two Git identities and a branch in the candidate
  namespace: exactly the form \<open>record_publication\<close> accepts, so recording it goes on to the approval checks.
\<close>

theorem publication_well_formed:
  assumes "publish_candidate sha p c w = (Inr q, w')"
  shows "publication_wf q \<and> pb_change_ref q = pc_change_ref c \<and> pb_base_commit q = pc_base_commit c \<and>
    record_publication mid cref (pb_branch q) (pb_commit q) (pb_tree q) now at s =
      approved_delivery ''publication'' (\<lambda>_. []) mid cref now
        (publish_row (pb_branch q) (pb_commit q) (pb_tree q) at) s"
  using publish_candidate_wf[OF assms] by (simp add: reported_publication_recordable)

definition sample_published :: published_candidate where
  "sample_published =
     \<lparr>pb_repository = ''ai-hq'', pb_change_ref = sample_ref,
      pb_branch = ''ai-hq/candidate/'' @ zeros 12 @ ''-'' @ zeros 12, pb_commit = sample_commit,
      pb_tree = sample_commit, pb_base_commit = sample_commit\<rparr>"

lemma sample_commit_ok [simp]: "git_sha sample_commit" "sample_commit \<noteq> replicate 40 (CHR ''0'')"
  by (simp_all add: git_sha_def sample_commit_def lower_hex_def list_all_iff)

lemma sample_candidate_simps [simp]:
  "pc_base_commit sample_candidate = sample_commit" "pc_changed_files sample_candidate = []"
  "pc_repository sample_candidate = ''ai-hq''" "pc_mission sample_candidate = ''m1''"
  "pc_change_ref sample_candidate = sample_ref"
  by (simp_all add: sample_candidate_def sample_reopened_def candidate_of_def snapshot_identity_def sample_snapshot_def)

lemma sample_request:
  "github_request (pu_http sample_publisher) verb url body log =
     (Inr (if length log = 2 then [(''tree'', JList [])]
           else [(''object'', JObj [(''sha'', JStr sample_commit)]), (''tree'', JObj [(''sha'', JStr sample_commit)]),
                 (''sha'', JStr sample_commit)]), log @ [(verb, url, body)])"
  by (simp add: github_request_def sample_publisher_def logging_http_def sample_github_def)

lemma sample_published_form:
  "make_published
     \<lparr>pb_repository = ''ai-hq'', pb_change_ref = sample_ref,
      pb_branch = ''ai-hq/candidate/'' @ zeros 12 @ ''-'' @ zeros 12, pb_commit = sample_commit,
      pb_tree = sample_commit, pb_base_commit = sample_commit\<rparr> = Inr sample_published"
  by (simp add: make_published_def required_def strip_def is_space_def trusted_repositories_def git_identity_def
      publish_branch_prefix_def sample_published_def zeros_def)

lemma sample_digits: "take 12 (drop 7 sample_ref) = zeros 12" "take 12 (zeros 64) = zeros 12"
  by (simp_all add: sample_ref_def zeros_def)

lemma sample_publishes:
  "\<exists>log. publish_candidate (\<lambda>t. zeros 64) sample_publisher sample_candidate [] = (Inr sample_published, log)"
proof -
  have branch: "generated_branch_name (\<lambda>t. zeros 64) (hd default_publish_targets) ''m1'' sample_ref =
      Inr (''ai-hq/candidate/'' @ zeros 12 @ ''-'' @ zeros 12)"
    by (simp add: generated_branch_name_def required_def strip_def is_space_def default_publish_targets_def
        sample_digits)
  show ?thesis
    using sample_target branch sample_published_form
    by (simp add: publish_candidate_def bindE_def sample_request nested_sha_def dict_get_default_def github_sha_def
        base_tree_entries_def iterated_def publish_changes_def returned_tree_check_def Let_def)
qed

theorem publication_well_formed_witness:
  "publication_wf sample_published \<and> pb_base_commit sample_published = sample_commit"
  using publication_well_formed sample_publishes by fastforce

text \<open>
  A deployment through the host helper is carried out and then lost. The executor runs the controlled
  deployment and answers only that it deployed; the deployer insists on a release id, so it reports a failure and
  nothing is recorded: no deployment through the helper is ever accepted, and each retry deploys again.
\<close>

theorem helper_deployment_lost:
  "fst (deploy_candidate (host_execute al henv) t p log) \<noteq> Inr r \<and>
   (pb_repository p = ot_key t \<and> permitted (Some (ot_key t)) (al_services al) deploy_entrypoints = Some (k, argv) \<and>
    he_run henv log argv = Completed 0 out err \<longrightarrow>
    deploy_candidate (host_execute al henv) t p log =
      (Inl (RuntimeError ''deployment adapter returned no trusted release id''), log @ [argv]))"
  using helper_deploy_never_accepted[of al henv t p log r] helper_deploy_lost[of p t al k argv henv log out err] by blast

definition sample_deploy_target :: operational_target where
  "sample_deploy_target =
     \<lparr>ot_key = ''ai-hq'', ot_service_unit = ''ai-hq.service'', ot_capabilities = [''deployment.deploy''],
      ot_health_url = None, ot_log_unit = None, ot_deploy_entrypoint = None, ot_rollback_entrypoint = None,
      ot_helper_service = None, ot_helper_log = None\<rparr>"

definition sample_lists :: allow_lists where
  "sample_lists =
     \<lparr>al_services = {''ai-hq''}, al_containers = {}, al_logs = {}, al_diagnostic_services = {},
      al_diagnostic_logs = {}\<rparr>"

theorem helper_deployment_lost_witness:
  "deploy_candidate (host_execute sample_lists
       \<lparr>he_run = (\<lambda>_ _. Completed 0 [] []), he_ready = ReadyOther, he_now = [], he_loads = (\<lambda>_. None)\<rparr>)
     sample_deploy_target sample_published [] =
     (Inl (RuntimeError ''deployment adapter returned no trusted release id''),
      [[''/opt/ai-hq/bin/controlled-deploy'', ''ai-hq'']])"
  using helper_deployment_lost[of sample_lists "\<lparr>he_run = (\<lambda>_ _. Completed 0 [] []), he_ready = ReadyOther, he_now = [],
      he_loads = (\<lambda>_. None)\<rparr>" sample_deploy_target sample_published "[]"]
  by (simp add: sample_deploy_target_def sample_published_def sample_lists_def permitted_def deploy_entrypoints_def)

end
