(* ===== verification/Chat_Laws.thy ===== *)
theory Chat_Laws
  imports Chat Code_Change_Runs
begin

text \<open>
  What the chat can and cannot do: messages are numbered without gaps and only added, only to a
  conversation the caller owns; a message creates at most one queued mission, whose plan only
  reads; nothing else in the database changes, and only the model client touches the world.
\<close>

section \<open>Numbered messages\<close>

definition in_conversation :: "string \<Rightarrow> chat_message list \<Rightarrow> chat_message list" where
  "in_conversation cid rows = filter (\<lambda>m. cm_conversation m = cid) rows"

definition numbered :: "chat_message list \<Rightarrow> bool" where
  "numbered ms \<longleftrightarrow> map cm_position ms = map (\<lambda>i. int i + 1) [0..<length ms]"

definition chat_inv :: "('w, 'a) chat_db_scheme \<Rightarrow> bool" where
  "chat_inv s \<longleftrightarrow>
     unique_keys cv_id (conversations s) \<and> unique_keys cm_id (chat_messages s) \<and>
     (\<forall>cid. numbered (in_conversation cid (chat_messages s))) \<and>
     (\<forall>m \<in> set (chat_messages s).
        cm_conversation m \<in> cv_id ` set (conversations s) \<and> cm_role m \<in> {''user'', ''assistant'', ''system''})"

lemma in_conversation_simps [simp]:
  "in_conversation cid (xs @ ys) = in_conversation cid xs @ in_conversation cid ys"
  "in_conversation cid [] = []"
  "in_conversation cid (m # ms) = (if cm_conversation m = cid then m # in_conversation cid ms else in_conversation cid ms)"
  by (simp_all add: in_conversation_def)

lemma numbered_Nil [simp]: "numbered []"
  by (simp add: numbered_def)

lemma numbered_snoc: "numbered (ms @ [m]) \<longleftrightarrow> numbered ms \<and> cm_position m = int (length ms) + 1"
  by (auto simp: numbered_def)

lemma last_position_numbered:
  assumes "numbered (in_conversation cid rows)"
  shows "last_position cid rows = int (length (in_conversation cid rows))"
proof (cases "in_conversation cid rows")
  case Nil
  then show ?thesis by (simp add: last_position_def in_conversation_def)
next
  case (Cons m ms)
  have "last_position cid rows = fold max (map cm_position ms) (cm_position m)"
    using Cons by (simp add: last_position_def in_conversation_def fold_map comp_def)
  also have "\<dots> = Max (set (map cm_position (m # ms)))"
    by (simp only: list.map Max.set_eq_fold)
  also have "\<dots> = Max ((\<lambda>i. int i + 1) ` {0..<Suc (length ms)})"
    using arg_cong[OF assms[unfolded numbered_def Cons], of set] by (simp only: set_map set_upt length_Cons)
  also have "\<dots> = int (length ms) + 1"
    by (rule Max_eqI) auto
  finally show ?thesis using Cons by simp
qed

lemma sort_numbered:
  assumes "numbered (in_conversation cid rows)"
  shows "messages_of cid rows = in_conversation cid rows"
proof -
  have "sorted (map cm_position (in_conversation cid rows))"
    using assms by (simp add: numbered_def sorted_wrt_map sorted_map)
  then show ?thesis
    by (simp only: messages_of_def in_conversation_def) (rule sort_key_id_if_sorted)
qed

section \<open>Adding messages\<close>

text \<open>\<open>speaks cid\<close>: what is said is added at the end, in one conversation.\<close>

definition speaks :: "string \<Rightarrow> ('w, 'a) chat_db_scheme \<Rightarrow> ('w, 'a) chat_db_scheme \<Rightarrow> bool" where
  "speaks cid s t \<longleftrightarrow>
     conversations t = conversations s \<and>
     (\<exists>new. chat_messages t = chat_messages s @ new \<and> (\<forall>m \<in> set new. cm_conversation m = cid)) \<and>
     (chat_inv s \<longrightarrow> chat_inv t)"

lemma speaks_refl [simp, intro]: "reflp (speaks cid)"
  by (simp add: reflp_def speaks_def)

lemma speaks_trans [simp, intro]: "transp (speaks cid)"
  by (fastforce simp: transp_def speaks_def)

definition chat_part :: "('w, 'a) chat_db_scheme \<Rightarrow> conversation list \<times> chat_message list" where
  "chat_part s = (conversations s, chat_messages s)"

lemma speaks_same: "keeps (same chat_part) m \<Longrightarrow> keeps (speaks cid) m"
  by (auto simp: keeps_def same_def chat_part_def speaks_def chat_inv_def)

lemma speaks_bindE [keeps_intros]:
  "keeps (speaks cid) m \<Longrightarrow> (\<And>x. keeps (speaks cid) (f x)) \<Longrightarrow> keeps (speaks cid) (bindE m f)"
  by (rule keeps_bindE) simp_all

lemma speaks_basic [keeps_intros]:
  "keeps (speaks cid) (returnE x)" "keeps (speaks cid) (raiseE e)" "keeps (speaks cid) (readE h)"
  "keeps (speaks cid) (liftE r)"
  by (simp_all add: keeps_returnE keeps_raiseE keeps_readE keeps_liftE)

lemma keeps_pair [keeps_intros]: "(\<And>x y. keeps R (f x y)) \<Longrightarrow> keeps R (case v of (x, y) \<Rightarrow> f x y)"
  by (cases v) simp

lemma owned_conversation_cases:
  "owned_conversation cid owner s =
     (if \<exists>c \<in> set (conversations s). cv_id c = cid \<and> cv_owner c = owner
      then (Inr (the (find (\<lambda>c. cv_id c = cid \<and> cv_owner c = owner) (conversations s))), s)
      else (Inl (ChatAccessDenied ''Conversation not found''), s))"
proof (cases "find (\<lambda>c. cv_id c = cid \<and> cv_owner c = owner) (conversations s)")
  case None
  moreover from this have "\<not> (\<exists>c \<in> set (conversations s). cv_id c = cid \<and> cv_owner c = owner)"
    by (auto simp: find_None_iff)
  ultimately show ?thesis by (simp add: owned_conversation_def)
next
  case (Some c)
  then show ?thesis using find_Some_in[OF Some] by (auto simp: owned_conversation_def)
qed

lemma owned_conversation_snd [simp]: "snd (owned_conversation cid owner s) = s"
  by (simp add: owned_conversation_cases)

lemma owned_conversation_keeps [keeps_intros]: "keeps (same g) (owned_conversation cid owner)"
  by (simp add: keeps_def same_def)

lemma add_message_speaks [keeps_intros]: "keeps (speaks cid) (add_message i at cid owner role content mid)"
proof (rule keepsI)
  fix s
  show "speaks cid s (snd (add_message i at cid owner role content mid s))"
  proof (cases "role \<in> {''user'', ''assistant'', ''system''} \<and>
                (\<exists>c \<in> set (conversations s). cv_id c = cid \<and> cv_owner c = owner) \<and> i \<notin> cm_id ` set (chat_messages s)")
    case True
    let ?m = "\<lparr>cm_id = i, cm_conversation = cid, cm_position = last_position cid (chat_messages s) + 1,
                cm_role = role, cm_content = content, cm_mission = mid, cm_created = at\<rparr>"
    have t: "snd (add_message i at cid owner role content mid s) = s\<lparr>chat_messages := chat_messages s @ [?m]\<rparr>"
      using True by (auto simp: add_message_def owned_conversation_cases insert_row_def Let_def bindE_def)
    have "chat_inv (s\<lparr>chat_messages := chat_messages s @ [?m]\<rparr>)" if inv: "chat_inv s"
    proof -
      have "numbered (in_conversation cid (chat_messages s))" using inv by (simp add: chat_inv_def)
      from last_position_numbered[OF this] show ?thesis
        using inv True by (auto simp: chat_inv_def numbered_snoc)
    qed
    then show ?thesis unfolding t by (simp add: speaks_def)
  next
    case False
    then have "snd (add_message i at cid owner role content mid s) = s"
      by (auto simp: add_message_def owned_conversation_cases insert_row_def Let_def bindE_def)
    then show ?thesis by (simp add: speaks_def)
  qed
qed

lemma list_messages_keeps [keeps_intros]: "keeps (same g) (list_messages cid owner)"
  unfolding list_messages_def by (intro keeps_intros)

lemma chat_messages_of_keeps [keeps_intros]: "keeps (same g) (chat_messages_of call)"
  unfolding chat_messages_of_def by (intro keeps_intros)

lemma chat_queries_keeps [keeps_intros]:
  "keeps (same g) (model_history call)" "keeps (same g) (mission_question call mid)"
  "keeps (same g) (answered call mid st)"
  unfolding model_history_def mission_question_def answered_def Let_def by (intro keeps_intros)+

lemma ask_model_snd: "snd (ask_model client prompt history s) = s\<lparr>world := snd (client prompt history (world s))\<rparr>"
  by (auto simp: ask_model_def on_world_def split: prod.split sum.split exn.split)

lemma code_change_of_keeps [keeps_intros]: "keeps (same g) (code_change_of a b mid)"
  unfolding code_change_of_def get_mission_def[abs_def]
  by (auto simp: keeps_def same_def bindE_def split: option.split sum.split list.split prod.split)

lemma candidate_result_keeps [keeps_intros]: "keeps (same g) (candidate_result env mid)"
proof -
  have "keeps (same g) (result_for_mission env mid r)" for mid r
    unfolding result_for_mission_def get_delivery_def[abs_def]
    by (auto simp: keeps_def same_def bindE_def split: option.split sum.split)
  then show ?thesis unfolding candidate_result_def by (intro keeps_intros)
qed

lemma mission_part_chat [keeps_intros]:
  "keeps (same chat_part) (create_mission l i at n)" "keeps (same chat_part) (create_plan reg ids mid es)"
  "keeps (same chat_part) (get_mission mid)" "keeps (same chat_part) (list_plan_steps mid)"
  "keeps (same chat_part) (ask_model client prompt history)"
  by (auto simp: keeps_def same_def chat_part_def create_mission_def create_plan_def get_mission_def Let_def
      list_plan_steps_def bindE_def add_to_session_def ask_model_snd split: sum.split option.split)

lemma queue_candidate_chat [keeps_intros]: "keeps (same chat_part) (queue_candidate env c r t)"
  unfolding queue_candidate_def create_code_change_def by (intro keeps_intros)

lemma reply_speaks [keeps_intros]: "ch_conversation call = cid \<Longrightarrow> keeps (speaks cid) (reply call st content mid)"
  unfolding reply_def by (auto intro!: keeps_intros)

lemmas speaks_parts = mission_part_chat[THEN speaks_same] queue_candidate_chat[THEN speaks_same]
  candidate_result_keeps[THEN speaks_same] chat_queries_keeps[THEN speaks_same]
  chat_messages_of_keeps[THEN speaks_same]

lemma chat_submit_speaks: "keeps (speaks (ch_conversation call)) (chat_submit env call raw)"
  unfolding chat_submit_def conversation_reply_def submit_code_change_def submit_inspection_def Let_def
  by (intro keeps_intros speaks_parts refl)

lemma chat_refresh_speaks: "keeps (speaks (ch_conversation call)) (chat_refresh env call mid)"
  unfolding chat_refresh_def completed_code_change_def completed_inspection_def summarize_inspection_def failed_inspection_def Let_def
  by (intro keeps_intros speaks_parts refl)

section \<open>What else changes\<close>

text \<open>The tables no message can touch; the ledger is left out, code changes may write to it.\<close>

definition guarded_part where
  "guarded_part s =
     (approval_requests s, scoped_rules s, system_row s, agents s, notifications s, incidents s, attempts s,
      deliveries s, conversations s)"

lemma guarded_parts [keeps_intros]:
  "keeps (same guarded_part) (create_mission l i at n)" "keeps (same guarded_part) (create_plan reg ids mid es)"
  "keeps (same guarded_part) (get_mission mid)" "keeps (same guarded_part) (list_plan_steps mid)"
  "keeps (same guarded_part) (ask_model client prompt history)"
  "keeps (same guarded_part) (add_message i at cid owner role content m)"
  by (auto simp: keeps_def same_def guarded_part_def create_mission_def create_plan_def get_mission_def Let_def
      list_plan_steps_def bindE_def add_to_session_def ask_model_snd add_message_def owned_conversation_cases
      split: sum.split option.split)

lemma queue_candidate_guarded [keeps_intros]: "keeps (same guarded_part) (queue_candidate env c r t)"
  unfolding queue_candidate_def create_code_change_def by (intro keeps_intros)

lemma reply_guarded [keeps_intros]: "keeps (same guarded_part) (reply call st content mid)"
  unfolding reply_def by (intro keeps_intros)

lemma chat_submit_guarded: "keeps (same guarded_part) (chat_submit env call raw)"
  unfolding chat_submit_def conversation_reply_def submit_code_change_def submit_inspection_def Let_def
  by (intro keeps_intros)

lemma chat_refresh_guarded: "keeps (same guarded_part) (chat_refresh env call mid)"
  unfolding chat_refresh_def completed_code_change_def completed_inspection_def summarize_inspection_def failed_inspection_def Let_def
  by (intro keeps_intros)

text \<open>Missions and their steps; without a model client, the world.\<close>

definition work_part :: "('w, 'a) chat_db_scheme \<Rightarrow> mission list \<times> mission_step list \<times> ledger_event list" where
  "work_part s = (missions s, mission_steps s, ledger s)"

lemma work_parts [keeps_intros]:
  "keeps (same work_part) (get_mission mid)" "keeps (same work_part) (list_plan_steps mid)"
  "keeps (same work_part) (ask_model client prompt history)"
  "keeps (same work_part) (add_message i at cid owner role content m)"
  by (auto simp: keeps_def same_def work_part_def get_mission_def Let_def
      list_plan_steps_def bindE_def ask_model_snd add_message_def owned_conversation_cases
      split: sum.split option.split)

lemma reply_work [keeps_intros]: "keeps (same work_part) (reply call st content mid)"
  unfolding reply_def by (intro keeps_intros)

lemma chat_refresh_work: "keeps (same work_part) (chat_refresh env call mid)"
  unfolding chat_refresh_def completed_code_change_def completed_inspection_def summarize_inspection_def failed_inspection_def Let_def
  by (intro keeps_intros)

lemma conversation_reply_work [keeps_intros]: "keeps (same work_part) (conversation_reply env call)"
  unfolding conversation_reply_def by (intro keeps_intros)

lemma world_parts [keeps_intros]:
  "keeps (same world) (create_mission l i at n)" "keeps (same world) (create_plan reg ids mid es)"
  "keeps (same world) (get_mission mid)" "keeps (same world) (list_plan_steps mid)"
  "keeps (same (world :: ('w, 'a) chat_db_scheme \<Rightarrow> 'w)) (add_message i at cid owner role content m)"
  by (auto simp: keeps_def same_def create_mission_def create_plan_def get_mission_def Let_def
      list_plan_steps_def bindE_def add_to_session_def add_message_def owned_conversation_cases
      split: sum.split option.split)

lemma queue_candidate_world [keeps_intros]: "keeps (same world) (queue_candidate env c r t)"
  unfolding queue_candidate_def create_code_change_def by (intro keeps_intros)

lemma reply_world [keeps_intros]: "keeps (same (world :: ('w, 'a) chat_db_scheme \<Rightarrow> 'w)) (reply call st content mid)"
  unfolding reply_def by (intro keeps_intros)

lemma keeps_no_model:
  "ch_model env = None \<Longrightarrow> keeps R n \<Longrightarrow> keeps R (case ch_model env of None \<Rightarrow> n | Some client \<Rightarrow> f client)"
  by simp

lemma chat_submit_world:
  assumes "ch_model env = None"
  shows "keeps (same world) (chat_submit env call raw)"
  unfolding chat_submit_def conversation_reply_def submit_code_change_def submit_inspection_def Let_def
  by (intro keeps_no_model[OF assms] keeps_intros)

lemma chat_refresh_world:
  assumes "ch_model env = None"
  shows "keeps (same world) (chat_refresh env call mid)"
  unfolding chat_refresh_def completed_code_change_def completed_inspection_def summarize_inspection_def failed_inspection_def Let_def
  by (intro keeps_no_model[OF assms] keeps_intros)

section \<open>The work a message creates\<close>

definition inspection :: "mission \<Rightarrow> bool" where
  "inspection m \<longleftrightarrow>
     m_owner_agent m = ''sysadmin'' \<and> m_source m = ''sysadmin_chat'' \<and> m_risk m = GREEN \<and> m_status m = QUEUED"

definition queued_change :: "mission \<Rightarrow> bool" where
  "queued_change m \<longleftrightarrow>
     m_owner_agent m = ''developer'' \<and> m_source m = ''hq_chat_code_change'' \<and> m_risk m = AMBER \<and>
     m_status m = QUEUED \<and> (\<exists>t. m_objectives m = [JStr ''ai-hq'', JStr t] \<or> m_objectives m = [JStr ''dripvid'', JStr t])"

definition read_step :: "string \<Rightarrow> mission_step \<Rightarrow> bool" where
  "read_step mid st \<longleftrightarrow>
     st_mission st = mid \<and> st_status st = STEP_PENDING \<and> st_tool_name st \<in> set read_tools \<and>
     (\<exists>target args. st_tool_arguments st = (''target'', JStr target) # args \<and>
        (args = [] \<or> (\<exists>service. args = [(''service'', JStr service)])))"

text \<open>Nothing, an inspection with its plan, an inspection whose plan was refused, or a queued code change.\<close>

definition adds_work :: "('w, 'a) chat_db_scheme \<Rightarrow> ('w, 'a) chat_db_scheme \<Rightarrow> bool" where
  "adds_work s t \<longleftrightarrow>
     (missions t = missions s \<and> mission_steps t = mission_steps s) \<or>
     (\<exists>m. missions t = missions s @ [m] \<and>
        ((inspection m \<and> (\<exists>steps. mission_steps t = mission_steps s @ steps \<and> list_all (read_step (m_id m)) steps)) \<or>
         (queued_change m \<and> mission_steps t = mission_steps s)))"

lemma read_step_row:
  "tool \<in> set read_tools \<Longrightarrow> args = [] \<or> (\<exists>service. args = [(''service'', JStr service)]) \<Longrightarrow>
   read_step mid \<lparr>st_id = i, st_mission = mid, st_position = k, st_description = d, st_tool_name = tool,
     st_tool_arguments = (''target'', JStr target) # args, st_status = STEP_PENDING, st_result = None,
     st_error_state = None, st_approval_reference = None\<rparr>"
  by (simp add: read_step_def)

lemma plan_rows_read:
  "list_all read_entry es \<Longrightarrow>
   \<exists>rows. plan_rows mid ids k es = Inr rows \<and> length rows = length es \<and> list_all (read_step mid) rows"
proof (induction es arbitrary: k)
  case Nil
  then show ?case by simp
next
  case (Cons e es)
  then obtain rows where rows: "plan_rows mid ids (Suc k) es = Inr rows" "length rows = length es"
    "list_all (read_step mid) rows" by fastforce
  from Cons.prems obtain d tool target args where e: "e = \<lparr>pe_description = Some d, pe_tool_name = Some tool,
      pe_tool_arguments = Some ((''target'', JStr target) # args)\<rparr>"
    "tool \<in> set read_tools" "args = [] \<or> (\<exists>service. args = [(''service'', JStr service)])"
    by (auto simp: read_entry_def)
  then show ?case using rows by (auto intro!: read_step_row)
qed

lemma insert_rows_append: "insert_rows key rs rows = Inr table \<Longrightarrow> table = rows @ rs"
  by (induction rs arbitrary: rows) (fastforce simp: insert_row_def split: if_splits)+

lemma create_plan_table:
  assumes "list_all read_entry es"
  shows "missions (snd (create_plan reg ids mid es s)) = missions s \<and>
    (\<exists>steps. mission_steps (snd (create_plan reg ids mid es s)) = mission_steps s @ steps \<and> list_all (read_step mid) steps)"
proof -
  from plan_rows_read[OF assms, of mid ids 1] obtain rows
    where "plan_rows mid ids 1 es = Inr rows" "list_all (read_step mid) rows" by blast
  then show ?thesis
    by (auto simp: create_plan_def dest: insert_rows_append split: sum.split)
qed

lemma create_mission_cases:
  obtains (refused) e where "create_mission l i at n s = (Inl e, s)"
  | (created) t where "create_mission l i at n s = (Inr (mission_row i at n), t)"
      "missions t = missions s @ [mission_row i at n]" "mission_steps t = mission_steps s"
  by (cases "insert_row m_id (mission_row i at n) (missions s)")
     (auto simp: create_mission_def Let_def insert_row_def add_to_session_def split: if_splits)

lemma sysadmin_mission_row [simp]:
  "inspection (mission_row i at (sysadmin_mission t))" "m_id (mission_row i at n) = i"
  by (simp_all add: inspection_def mission_row_def sysadmin_mission_def)

lemma submit_inspection_work:
  assumes "list_all read_entry steps"
  shows "adds_work s (snd (submit_inspection env call steps t s))"
proof (rule create_mission_cases[of False "ch_mission_id call" "ch_mission_at call" "sysadmin_mission t" s])
  fix e
  assume "create_mission False (ch_mission_id call) (ch_mission_at call) (sysadmin_mission t) s = (Inl e, s)"
  then show ?thesis by (simp add: submit_inspection_def adds_work_def)
next
  fix s1
  let ?m = "mission_row (ch_mission_id call) (ch_mission_at call) (sysadmin_mission t)"
  assume c: "create_mission False (ch_mission_id call) (ch_mission_at call) (sysadmin_mission t) s = (Inr ?m, s1)"
    and s1: "missions s1 = missions s @ [?m]" "mission_steps s1 = mission_steps s"
  let ?plan = "create_plan (Some (ch_resolve env)) (ch_step_ids call) (m_id ?m) steps"
  have "keeps (same work_part) (bindE (returnE v) (\<lambda>_. reply call ''pending'' inspection_text (Some (m_id ?m))))"
    for v :: "mission_step list"
    by (intro keeps_intros)
  from create_plan_table[OF assms, of "Some (ch_resolve env)" "ch_step_ids call" "m_id ?m" s1]
  obtain rows where p: "missions (snd (?plan s1)) = missions s1"
    "mission_steps (snd (?plan s1)) = mission_steps s1 @ rows" "list_all (read_step (m_id ?m)) rows" by blast
  obtain r s2 where s2: "?plan s1 = (r, s2)" by (cases "?plan s1")
  have "same work_part s2 (snd (submit_inspection env call steps t s))"
  proof (cases r)
    case (Inl e)
    with c s2 show ?thesis by (simp add: submit_inspection_def same_def)
  next
    case (Inr v)
    with c s2 keepsD[OF reply_work, of s2 call "''pending''" inspection_text "Some (m_id ?m)"]
    show ?thesis by (simp add: submit_inspection_def)
  qed
  then show ?thesis
    using p s1 s2 by (auto simp: adds_work_def same_def work_part_def)
qed

lemma submit_change_work:
  assumes "repo \<in> {Some ''ai-hq'', Some ''dripvid''}"
  shows "adds_work s (snd (submit_code_change env call repo t s))"
proof (cases "ch_changes env")
  case None
  with keepsD[OF reply_work, of s call "''unavailable''" "''Code-change preparation is not configured on this AI HQ instance.''" None]
  show ?thesis by (simp add: submit_code_change_def adds_work_def same_def work_part_def)
next
  case (Some changes)
  let ?c = "ch_change_call call"
  obtain r where repo: "repo = Some r" "r = ''ai-hq'' \<or> r = ''dripvid''" using assms by auto
  have trusted: "trusted_repository (JStr r) = Inr r"
    using repo(2) by (auto simp: trusted_repository_def trusted_repositories_def strip_def is_space_def)
  show ?thesis
  proof (cases "instruction_text (JStr t)")
    case (Inl e)
    with Some trusted repo show ?thesis
      by (simp add: submit_code_change_def queue_candidate_def create_code_change_def adds_work_def)
  next
    case (Inr i)
    let ?n = "code_change_mission r i"
    have row: "queued_change (mission_row (cc_mission_id ?c) (cc_created ?c) ?n)"
      using repo(2) by (auto simp: queued_change_def mission_row_def code_change_mission_def list_or_empty_def)
    show ?thesis
    proof (rule create_mission_cases[of "ce_ledger changes" "cc_mission_id ?c" "cc_created ?c" ?n s])
      fix e
      assume "create_mission (ce_ledger changes) (cc_mission_id ?c) (cc_created ?c) ?n s = (Inl e, s)"
      with Some trusted repo Inr show ?thesis
        by (simp add: submit_code_change_def queue_candidate_def create_code_change_def adds_work_def)
    next
      fix s1
      let ?m = "mission_row (cc_mission_id ?c) (cc_created ?c) ?n"
      assume c: "create_mission (ce_ledger changes) (cc_mission_id ?c) (cc_created ?c) ?n s = (Inr ?m, s1)"
        and s1: "missions s1 = missions s @ [?m]" "mission_steps s1 = mission_steps s"
      have "snd (submit_code_change env call repo t s) = snd (reply call ''pending'' (queued_text r) (Some (m_id ?m)) s1)"
        using Some trusted repo Inr c by (simp add: submit_code_change_def queue_candidate_def create_code_change_def)
      with keepsD[OF reply_work, of s1 call "''pending''" "queued_text r" "Some (m_id ?m)"] s1 row
      show ?thesis by (auto simp: adds_work_def same_def work_part_def)
    qed
  qed
qed

lemma adds_work_same: "same work_part s t \<Longrightarrow> adds_work s t"
  by (simp add: adds_work_def same_def work_part_def)

lemma adds_work_after: "same work_part s s1 \<Longrightarrow> adds_work s1 t \<Longrightarrow> adds_work s t"
  by (simp add: adds_work_def same_def work_part_def)

lemma chat_submit_work: "adds_work s (snd (chat_submit env call raw s))"
proof (cases "strip raw = []")
  case True
  then show ?thesis by (simp add: chat_submit_def adds_work_def)
next
  case False
  let ?t = "strip raw"
  let ?user = "add_message (ch_user_id call) (ch_user_at call) (ch_conversation call) (ch_owner call) ''user'' ?t None"
  obtain r s1 where u: "?user s = (r, s1)" by (cases "?user s")
  have s1: "same work_part s s1" using keepsD[OF work_parts(4), of s] u by (metis snd_conv)
  obtain i where i: "plan_sysadmin_intent ?t = Inr i" "intent_ok i" using plan_sysadmin_intent_ok by blast
  show ?thesis
  proof (cases r)
    case (Inl e)
    with u s1 False show ?thesis by (simp add: chat_submit_def Let_def adds_work_same)
  next
    case (Inr m)
    note kept = keepsD[OF reply_work, THEN adds_work_same] keepsD[OF conversation_reply_work, THEN adds_work_same]
    have "adds_work s1 (snd (chat_submit env call raw s))"
      using i(2) unfolding intent_ok_def
      by (elim disjE conjE)
         (simp_all add: chat_submit_def Let_def False u Inr i kept submit_inspection_work submit_change_work)
    with s1 show ?thesis by (rule adds_work_after)
  qed
qed

end
