(* ===== verification/Chat_Runs.thy ===== *)
theory Chat_Runs
  imports Chat_Laws Executor_Runs Gateway_Laws
begin

text \<open>
  The chat together with the rest of the program: other sessions' conversations stay closed, a report
  is given once, reports of code changes are not renewed, and an inspection queued by the chat runs
  through the executor and the gateway under the permissions the registry grants.
\<close>

section \<open>Other sessions\<close>

definition owns :: "string \<Rightarrow> string \<Rightarrow> ('w, 'a) chat_db_scheme \<Rightarrow> bool" where
  "owns owner cid s \<longleftrightarrow> (\<exists>c \<in> set (conversations s). cv_id c = cid \<and> cv_owner c = owner)"

definition denied :: "('w, 'a) chat_db_scheme \<Rightarrow> (exn + 'b) \<times> ('w, 'a) chat_db_scheme" where
  "denied s = (Inl (ChatAccessDenied ''Conversation not found''), s)"

lemma owned_denied: "\<not> owns owner cid s \<Longrightarrow> owned_conversation cid owner s = denied s"
  unfolding owned_conversation_cases owns_def denied_def by simp

lemma owned_granted: "owns owner cid s \<Longrightarrow> \<exists>c. owned_conversation cid owner s = (Inr c, s)"
  unfolding owned_conversation_cases owns_def by simp

lemma list_messages_eq:
  "list_messages cid owner s =
     (if owns owner cid s then (Inr (messages_of cid (chat_messages s)), s) else denied s)"
  using owned_granted[of owner cid s] owned_denied[of owner cid s]
  by (auto simp: list_messages_def denied_def)

lemma stranger_refused:
  assumes "\<not> owns (ch_owner call) (ch_conversation call) s"
  shows "list_messages (ch_conversation call) (ch_owner call) s = denied s"
    and "chat_refresh env call mid s = denied s"
    and "strip raw \<noteq> [] \<Longrightarrow> chat_submit env call raw s = denied s"
  using assms owned_denied[OF assms]
  by (simp_all add: list_messages_eq chat_refresh_def chat_messages_of_def chat_submit_def add_message_def denied_def
      Let_def)

section \<open>One report for an inspection\<close>

definition linked :: "string \<Rightarrow> string \<Rightarrow> ('w, 'a) chat_db_scheme \<Rightarrow> chat_message list" where
  "linked cid mid s = filter (\<lambda>m. cm_mission m = Some mid) (messages_of cid (chat_messages s))"

text \<open>A finished inspection of the chat, seen from one conversation.\<close>

definition finished_inspection :: "string \<Rightarrow> ('w, 'a) chat_db_scheme \<Rightarrow> bool" where
  "finished_inspection mid s \<longleftrightarrow>
     (\<exists>m. row_of m_id mid (missions s) = Some m \<and> m_owner_agent m = ''sysadmin'' \<and>
          m_source m = ''sysadmin_chat'' \<and> m_status m \<in> {COMPLETED, FAILED, CANCELLED})"

lemma chat_messages_of_eq:
  "owns (ch_owner call) (ch_conversation call) s \<Longrightarrow>
   chat_messages_of call s = (Inr (messages_of (ch_conversation call) (chat_messages s)), s)"
  by (simp add: chat_messages_of_def list_messages_eq)

lemma answered_eq:
  "owns (ch_owner call) (ch_conversation call) s \<Longrightarrow>
   answered call mid st s =
     (Inr (if length (linked (ch_conversation call) mid s) \<ge> 2
           then Some \<lparr>ct_state = st, ct_message = last (linked (ch_conversation call) mid s), ct_mission = Some mid\<rparr>
           else None), s)"
  by (simp add: answered_def chat_messages_of_eq linked_def Let_def)

lemma refresh_answered:
  assumes own: "owns (ch_owner call) (ch_conversation call) s" and fin: "finished_inspection mid s"
    and two: "length (linked (ch_conversation call) mid s) \<ge> 2"
  shows "\<exists>st. chat_refresh env call mid s =
    (Inr \<lparr>ct_state = st, ct_message = last (linked (ch_conversation call) mid s), ct_mission = Some mid\<rparr>, s)"
proof -
  from two have "linked (ch_conversation call) mid s \<noteq> []" by auto
  with own fin two show ?thesis
    by (auto simp: chat_refresh_def chat_messages_of_eq finished_inspection_def get_mission_def Let_def
        completed_inspection_def failed_inspection_def answered_eq simp flip: linked_def)
qed

lemma reply_Inr:
  assumes "reply call st content mid s = (Inr r, t)"
  shows "chat_messages t = chat_messages s @ [ct_message r]" "cm_mission (ct_message r) = mid"
    "cm_conversation (ct_message r) = ch_conversation call"
  using assms
  by (auto simp: reply_def add_message_def owned_conversation_cases insert_row_def Let_def bindE_def
      split: if_splits)

text \<open>Until there is a second linked message, a refresh ends by adding one.\<close>

definition after_queries :: "('w, 'a) chat_db_scheme \<Rightarrow> ('w, 'a) chat_db_scheme \<Rightarrow> bool" where
  "after_queries s u \<longleftrightarrow> same chat_part s u \<and> same work_part s u"

lemma bindE_InrD: "bindE m f s = (Inr y, t) \<Longrightarrow> \<exists>x u. m s = (Inr x, u) \<and> f x u = (Inr y, t)"
  by (elim bindE_InrE) blast

lemma queried: "keeps (same g) m \<Longrightarrow> m s = (r, u) \<Longrightarrow> g u = g s"
  by (drule (1) keepsD') (simp add: same_def)

lemma ask_model_same: "ask_model client prompt history s = (r, u) \<Longrightarrow> after_queries s u"
  using ask_model_snd[of client prompt history s]
  by (simp add: after_queries_def same_def chat_part_def work_part_def)

lemma summarize_replies:
  assumes "summarize_inspection env call mid es s = (Inr r, t)"
  shows "\<exists>u st content. after_queries s u \<and> reply call st content (Some mid) u = (Inr r, t)"
proof (cases "ch_model env")
  case None
  with assms show ?thesis by (auto simp: summarize_inspection_def after_queries_def same_def)
next
  case (Some client)
  with assms obtain q v c w where v: "mission_question call mid s = (Inr q, v)"
    and w: "ask_model client (ch_grounded_prompt env) [(''user'', grounded_message q es)] v = (Inr c, w)"
    and final: "reply call ''complete'' (inspection_report es c) (Some mid) w = (Inr r, t)"
    by (auto simp: summarize_inspection_def elim!: bindE_InrE)
  have "v = s" using queried[OF chat_queries_keeps(2) v, of "\<lambda>x. x"] by simp
  with ask_model_same[OF w] final show ?thesis by blast
qed

lemma list_plan_steps_same: "list_plan_steps mid s = (r, u) \<Longrightarrow> u = s"
  by (auto simp: list_plan_steps_def get_mission_def bindE_def split: option.splits)

lemma inspection_replies:
  assumes "completed_inspection env call mid s = (Inr r, t) \<or> failed_inspection call mid s = (Inr r, t)"
    and own: "owns (ch_owner call) (ch_conversation call) s"
    and "length (linked (ch_conversation call) mid s) < 2"
  shows "\<exists>u st content. after_queries s u \<and> reply call st content (Some mid) u = (Inr r, t)"
  using assms(1)
proof
  assume "completed_inspection env call mid s = (Inr r, t)"
  with own assms(3) obtain steps where
    "bindE (list_plan_steps mid) (\<lambda>steps. summarize_inspection env call mid (settle_evidence (map evidence_of steps))) s
       = (Inr r, t)"
    by (simp add: completed_inspection_def answered_eq)
  then obtain steps u where "list_plan_steps mid s = (Inr steps, u)"
    and "summarize_inspection env call mid (settle_evidence (map evidence_of steps)) u = (Inr r, t)"
    by (elim bindE_InrE)
  with list_plan_steps_same summarize_replies show ?thesis by blast
next
  assume "failed_inspection call mid s = (Inr r, t)"
  with own assms(3) obtain m :: mission where
    "reply call ''failed'' (failed_report (m_error_state m)) (Some mid) s = (Inr r, t)"
    by (auto simp: failed_inspection_def answered_eq get_mission_def bindE_def split: option.splits)
  then show ?thesis by (auto simp: after_queries_def same_def)
qed

text \<open>After a refresh that returned, the conversation holds the report.\<close>

lemma refresh_reports:
  assumes inv: "chat_inv s" and fin: "finished_inspection mid s" and r: "chat_refresh env call mid s = (Inr r, t)"
  shows "owns (ch_owner call) (ch_conversation call) t \<and> finished_inspection mid t \<and>
    length (linked (ch_conversation call) mid t) \<ge> 2 \<and> ct_message r = last (linked (ch_conversation call) mid t)"
proof -
  let ?cid = "ch_conversation call"
  have own: "owns (ch_owner call) ?cid s"
    using stranger_refused(2)[of call s env mid] r by (auto simp: denied_def)
  have work: "work_part t = work_part s" using queried[OF chat_refresh_work r] .
  have guard: "conversations t = conversations s"
    using queried[OF chat_refresh_guarded r] by (simp add: guarded_part_def)
  have own': "owns (ch_owner call) ?cid t" using own guard by (simp add: owns_def)
  have fin': "finished_inspection mid t" using fin work by (simp add: finished_inspection_def work_part_def)
  show ?thesis
  proof (cases "length (linked ?cid mid s) \<ge> 2")
    case True
    from refresh_answered[OF own fin this, of env] r show ?thesis using own fin True by auto
  next
    case False
    from r own fin have some: "linked ?cid mid s \<noteq> []" and
      "completed_inspection env call mid s = (Inr r, t) \<or> failed_inspection call mid s = (Inr r, t)"
      by (auto simp: chat_refresh_def chat_messages_of_eq finished_inspection_def get_mission_def Let_def linked_def
          split: if_splits)
    with inspection_replies own False obtain u st content where u: "after_queries s u"
      and final: "reply call st content (Some mid) u = (Inr r, t)" by (metis not_le_imp_less)
    from u have ms: "chat_messages u = chat_messages s" by (simp add: after_queries_def same_def chat_part_def)
    note rep = reply_Inr[OF final]
    have inv': "chat_inv t" using keepsD'[OF chat_refresh_speaks r] inv by (simp add: speaks_def)
    have ns: "messages_of ?cid (chat_messages s) = in_conversation ?cid (chat_messages s)"
      and nt: "messages_of ?cid (chat_messages t) = in_conversation ?cid (chat_messages t)"
      using inv inv' by (auto simp: chat_inv_def intro!: sort_numbered)
    have "linked ?cid mid t = linked ?cid mid s @ [ct_message r]"
      unfolding linked_def ns nt using rep ms by simp
    with some own' fin' show ?thesis by (cases "linked ?cid mid s") auto
  qed
qed

lemma refresh_again:
  assumes "chat_inv s" and "finished_inspection mid s" and "chat_refresh env call mid s = (Inr r, t)"
    and same: "ch_owner call' = ch_owner call" "ch_conversation call' = ch_conversation call"
  shows "\<exists>st. chat_refresh env' call' mid t = (Inr \<lparr>ct_state = st, ct_message = ct_message r, ct_mission = Some mid\<rparr>, t)"
proof -
  note t = refresh_reports[OF assms(1-3)]
  with refresh_answered[of call' t mid env'] show ?thesis unfolding same by auto
qed

section \<open>Reports of code changes\<close>

definition change_mission_in :: "mission_status set \<Rightarrow> string \<Rightarrow> ('w, 'a) chat_db_scheme \<Rightarrow> bool" where
  "change_mission_in sts mid s \<longleftrightarrow>
     (\<exists>m. row_of m_id mid (missions s) = Some m \<and> m_owner_agent m = ''developer'' \<and>
          m_source m = ''hq_chat_code_change'' \<and> m_status m \<in> sts)"

text \<open>A failed change: every refresh adds the failure message again.\<close>

lemma failed_change_repeats:
  assumes "change_mission_in {FAILED, CANCELLED} mid s" and "chat_refresh env call mid s = (Inr r, t)"
  shows "chat_messages t = chat_messages s @ [ct_message r] \<and> cm_content (ct_message r) = change_failed_text"
proof -
  have own: "owns (ch_owner call) (ch_conversation call) s"
    using stranger_refused(2)[of call s env mid] assms(2) by (auto simp: denied_def)
  with assms have "reply call ''candidate_failed'' change_failed_text (Some mid) s = (Inr r, t)"
    by (auto simp: chat_refresh_def chat_messages_of_eq change_mission_in_def get_mission_def Let_def split: if_splits)
  moreover from this have "cm_content (ct_message r) = change_failed_text"
    by (auto simp: reply_def add_message_def owned_conversation_cases insert_row_def Let_def bindE_def split: if_splits)
  ultimately show ?thesis using reply_Inr(1) by blast
qed

text \<open>A reported candidate: the first report is returned again, whatever has become of the delivery.\<close>

lemma candidate_report_kept:
  assumes own: "owns (ch_owner call) (ch_conversation call) s"
    and m: "change_mission_in {WAITING_APPROVAL, COMPLETED} mid s"
    and reported: "x \<in> set (linked (ch_conversation call) mid s)" "cm_role x = ''assistant''"
      "take (length candidate_header) (cm_content x) = candidate_header"
  shows "\<exists>y \<in> set (linked (ch_conversation call) mid s). \<forall>ds.
    chat_refresh env call mid (s\<lparr>deliveries := ds\<rparr>) =
      (Inr \<lparr>ct_state = ''waiting_approval'', ct_message = y, ct_mission = Some mid\<rparr>, s\<lparr>deliveries := ds\<rparr>)"
proof -
  let ?old = "filter (\<lambda>m. cm_mission m = Some mid \<and> cm_role m = ''assistant'' \<and>
      take (length candidate_header) (cm_content m) = candidate_header) (messages_of (ch_conversation call) (chat_messages s))"
  have "x \<in> set ?old" and some: "linked (ch_conversation call) mid s \<noteq> []"
    using reported by (auto simp: linked_def filter_empty_conv)
  then have ne: "?old \<noteq> []" by (metis empty_iff empty_set)
  have last: "last ?old \<in> set (linked (ch_conversation call) mid s)"
    using last_in_set[OF ne] by (auto simp: linked_def)
  have "chat_refresh env call mid (s\<lparr>deliveries := ds\<rparr>) =
      (Inr \<lparr>ct_state = ''waiting_approval'', ct_message = last ?old, ct_mission = Some mid\<rparr>, s\<lparr>deliveries := ds\<rparr>)" for ds
  proof -
    have own': "owns (ch_owner call) (ch_conversation call) (s\<lparr>deliveries := ds\<rparr>)" using own by (simp add: owns_def)
    show ?thesis
      using m ne some chat_messages_of_eq[OF own']
      by (auto simp: chat_refresh_def change_mission_in_def get_mission_def Let_def completed_code_change_def linked_def)
  qed
  with last show ?thesis by blast
qed

section \<open>Running an inspection\<close>

lemma decision_unauthorized: "\<not> sq_authorized q \<Longrightarrow> safety_decision sha ck q s = BLOCK"
  by (auto simp: safety_decision_def permission_context_def intent_of_def evaluate_action_def Let_def
      split: prod.split)

text \<open>Without the exact permission the gateway answers that it is blocked, and does nothing.\<close>

lemma gateway_denies:
  assumes "\<not> has_exact_permission (tr_agent req) (tr_capability req) s"
  shows "\<exists>oc t. gateway_execute env call req s = (Inr oc, t) \<and> to_state oc = OUT_BLOCKED \<and> world t = world s"
proof (cases "resolve (ge_registry env) (tr_capability req)")
  case None
  then show ?thesis by (simp add: gateway_unavailable outcome_def)
next
  case (Some ad)
  let ?q = "safety_request_of req False"
  have block: "safety_decision (ge_sha env) (gc_clock call) ?q s = BLOCK"
    by (rule decision_unauthorized) (simp add: safety_request_of_def)
  with evaluate_no_approval[of "ge_sha env" "gc_clock call" ?q s "ge_lifetime env" "gc_new_id call" "gc_created call"]
  obtain res t where ev: "evaluate (ge_sha env) (ge_lifetime env) (gc_clock call) (gc_new_id call) (gc_created call) ?q s
      = (Inr res, t)" by auto
  have "sf_decision res = BLOCK" using evaluate_Inr[OF ev] block by simp
  moreover have "world t = world s" using keepsD'[OF evaluate_world ev] by (simp add: same_def)
  ultimately show ?thesis using assms Some ev by (simp add: gateway_execute_def outcome_def)
qed

definition mission_failed :: "string \<Rightarrow> 'a missions_db_scheme \<Rightarrow> bool" where
  "mission_failed mid s \<longleftrightarrow> map_option m_status (row_of m_id mid (missions s)) = Some FAILED"

context action_gate
begin

text \<open>A blocked action fails its step and the mission.\<close>

lemma run_next_blocked:
  assumes inv: "executor_inv s" and row: "row_of m_id mid (missions s) = Some m"
    and live: "m_status m \<in> {QUEUED, RUNNING}"
    and st: "first_incomplete mid s = Some st" "st_status st = STEP_PENDING"
    and req: "request_for m st = Inr req"
    and blocked: "\<And>u. agents_of u = agents_of s \<Longrightarrow> \<exists>oc v. gate req u = (Inr oc, v) \<and> to_state oc = OUT_BLOCKED"
    and agents_of: "\<And>rows. agents_of (s\<lparr>mission_steps := rows\<rparr>) = agents_of s"
      "\<And>l mid t r e u. agents_of (snd (transition l mid t r e u)) = agents_of u"
  shows "mission_failed mid (snd (run_next l gate mid s))"
proof -
  let ?run = "st\<lparr>st_status := STEP_RUNNING\<rparr>"
  let ?s1 = "s\<lparr>mission_steps := save_row st_id ?run (mission_steps s)\<rparr>"
  have id: "m_id m = mid" using row by (auto dest: row_of_SomeD)
  with row have "row_of m_id (m_id m) (missions ?s1) = Some m" by simp
  from start_mission_runs[OF this live, of l] obtain t where
    t: "start_mission l m ?s1 = (Inr (started_mission m), t)"
       "row_of m_id (m_id m) (missions t) = Some (started_mission m)"
       "mission_steps t = mission_steps ?s1" by blast
  have ag: "agents_of t = agents_of s"
    using t(1) agents_of(1) agents_of(2)[of l "m_id m" RUNNING None None ?s1]
    by (auto simp: start_mission_def split: if_splits)
  from blocked[OF ag] obtain oc v where v: "gate req t = (Inr oc, v)" and oc: "to_state oc = OUT_BLOCKED" by blast
  have mv: "missions v = missions t" "mission_steps v = mission_steps t"
    using gate_missions[of req t] gate_steps[of req t] v by simp_all
  from inv have uniq: "unique_keys st_id (mission_steps s)"
    by (simp add: executor_inv_def plans_in_order_def)
  have "st \<in> set (mission_steps s)" using first_incomplete_split[OF st(1)] by blast
  with uniq have old: "row_of st_id (st_id st) (mission_steps s) = Some st" by (rule row_of_unique)
  have sid: "m_id (started_mission m) = mid" and run: "m_status (started_mission m) = RUNNING"
    using live id by (auto simp: started_mission_def)
  have "run_next l gate mid s = call_gate l gate (started_mission m) ?run t"
    using claim_pending[OF inv st] t(1) row live id
    by (auto simp: run_next_def get_mission_def advance_def)
  then have "run_next l gate mid s = settle l (started_mission m) ?run oc v"
    using req v by (simp add: call_gate_def)
  with oc mv t(2,3) old sid run id show ?thesis
    by (simp add: settle_def transition_step_def transition_def Let_def table_simps mission_failed_def)
qed

end

section \<open>The permissions of the registry\<close>

definition own_reads :: "string set" where
  "own_reads = {''system.health.read'', ''service.status.read'', ''service.logs.read''}"

lemma phase1_sysadmin:
  assumes "agents s = []"
  shows "\<exists>a. row_of ag_key ''sysadmin'' (agents (snd (ensure_phase1_agents ids s))) = Some a \<and>
    ag_permissions a = dripvid_mcp_read_permissions"
  using assms
  by (simp add: ensure_phase1_agents_def phase1_agents_def ensure_agent_row agent_row_def Let_def)

lemma phase1_unpermitted:
  assumes "agents s = []" and "agents u = agents (snd (ensure_phase1_agents ids s))" and "tool \<in> own_reads"
  shows "\<not> has_exact_permission ''sysadmin'' tool u"
  using phase1_sysadmin[OF assms(1), of ids] assms(2,3)
  by (auto simp: has_exact_permission_def own_reads_def dripvid_mcp_read_permissions_def)

lemma read_step_request:
  assumes "list_all (read_step mid) [st] \<or> read_step mid st"
  shows "\<exists>req. request_for m st = Inr req \<and> tr_agent req = m_owner_agent m \<and> tr_capability req = st_tool_name st \<and>
     tr_risk req = m_risk m \<and> tr_conditions req = [] \<and> \<not> tr_mutates req"
  using assms by (auto simp: read_step_def request_for_def dict_get_default_def Let_def)

lemma inspection_blocked:
  fixes s :: "('w, 'a) gateway_db_scheme"
  assumes seeded: "agents s0 = []" "agents s = agents (snd (ensure_phase1_agents ids s0))"
    and inv: "executor_inv s" and m: "row_of m_id mid (missions s) = Some m" "inspection m"
    and st: "first_incomplete mid s = Some st" "read_step mid st" "st_tool_name st \<in> own_reads"
  shows "mission_failed mid (snd (run_next l (gateway_execute env call) mid s))"
proof -
  from read_step_request[of mid st m] st(2) obtain req where req: "request_for m st = Inr req"
    "tr_agent req = m_owner_agent m" "tr_capability req = st_tool_name st" by blast
  have owner: "m_owner_agent m = ''sysadmin''" and live: "m_status m \<in> {QUEUED, RUNNING}"
    using m(2) by (simp_all add: inspection_def)
  have blocked: "\<exists>oc v. gateway_execute env call req u = (Inr oc, v) \<and> to_state oc = OUT_BLOCKED"
    if "agents u = agents s" for u :: "('w, 'a) gateway_db_scheme"
  proof -
    have "\<not> has_exact_permission (tr_agent req) (tr_capability req) u"
      using phase1_unpermitted[OF seeded(1) _ st(3), of u ids] that seeded(2) req owner by simp
    from gateway_denies[OF this] show ?thesis by blast
  qed
  have pending: "st_status st = STEP_PENDING" using st(2) by (simp add: read_step_def)
  show ?thesis
    by (rule tool_gate.run_next_blocked[where agents_of = agents, OF inv m(1) live st(1) pending req(1) blocked])
       (auto simp: transition_def Let_def add_to_session_def split: option.split)
qed

end
