(* ===== verification/Knowledge_Laws.thy ===== *)
theory Knowledge_Laws
  imports Knowledge Candidate_Laws
begin

text \<open>
  What the Knowledge Core keeps of every memory: well-formed values, no stored secret, no inference
  that counts as confirmed; a memory is never removed, moves by the steps of a small state machine,
  and does not move at all while it is locked or after it was deleted.
\<close>

section \<open>Well-formed memories\<close>

definition memory_ok :: "memory \<Rightarrow> bool" where
  "memory_ok k \<longleftrightarrow>
     k_content k \<noteq> [] \<and> strip (k_content k) = k_content k \<and> 0 \<le> k_confidence k \<and> k_confidence k \<le> 1 \<and>
     (k_temporary k \<longrightarrow> k_expires_at k \<noteq> None) \<and> k_sensitivity k \<noteq> SENS_SECRET \<and>
     (k_verification k = CONFIRMED \<longrightarrow> \<not> is_inference (k_provenance k)) \<and>
     (k_verified_at k \<noteq> None \<longleftrightarrow> k_verification k = CONFIRMED) \<and>
     sorted (k_allowed_agents k) \<and> distinct (k_allowed_agents k) \<and> 1 \<le> k_revision k"

definition knowledge_inv :: "('w, 'a) knowledge_db_scheme \<Rightarrow> bool" where
  "knowledge_inv s \<longleftrightarrow>
     unique_keys k_id (memories s) \<and> list_all memory_ok (memories s) \<and>
     (\<forall>k \<in> set (memories s). \<forall>old. k_contradicts k = Some old \<longrightarrow> old \<in> k_id ` set (memories s))"

lemma validate_values_None:
  "validate_values c p conf v sens temp ex = None \<longleftrightarrow>
     strip c \<noteq> [] \<and> 0 \<le> conf \<and> conf \<le> 1 \<and> (temp \<longrightarrow> ex \<noteq> None) \<and> sens \<noteq> SENS_SECRET \<and>
     (v = CONFIRMED \<longrightarrow> \<not> is_inference p)"
  by (auto simp: validate_values_def guards.simps)

lemma confirmed_at_None [simp]: "confirmed_at v now = None \<longleftrightarrow> v \<noteq> CONFIRMED"
  by (simp add: confirmed_at_def)

lemma confirmed_at_Some [simp]: "confirmed_at v now = Some t \<longleftrightarrow> v = CONFIRMED \<and> t = Aware now"
  by (auto simp: confirmed_at_def)

lemma agent_list_ok [simp]: "sorted (agent_list v)" "distinct (agent_list v)"
  by (simp_all add: agent_list_def split: option.split)

lemma agents_or_ok: "sorted old \<Longrightarrow> distinct old \<Longrightarrow> sorted (agents_or new old) \<and> distinct (agents_or new old)"
  by (simp add: agents_or_def split: option.split)

text \<open>The result of a check that may raise, followed by a value.\<close>

lemma guarded_Inr [simp]: "(case v of None \<Rightarrow> r | Some e \<Rightarrow> Inl e) = Inr x \<longleftrightarrow> v = None \<and> r = Inr x"
  by (cases v) simp_all

lemma new_memory_row_ok: "new_memory_row i c now n = Inr k \<Longrightarrow> memory_ok k"
  by (auto simp: new_memory_row_def validate_values_None memory_ok_def)

section \<open>The steps of a memory\<close>

text \<open>
  What may happen to a stored memory: it is locked or unlocked, corrected (which raises the revision),
  or deleted. Only the first is open to a locked memory, none to a deleted one.
\<close>

definition same_subject :: "memory \<Rightarrow> memory \<Rightarrow> bool" where
  "same_subject k k' \<longleftrightarrow>
     k_id k' = k_id k \<and> k_category k' = k_category k \<and> k_owner_scope k' = k_owner_scope k \<and>
     k_contradicts k' = k_contradicts k \<and> k_created_at k' = k_created_at k"

inductive memory_step :: "memory \<Rightarrow> memory \<Rightarrow> bool" where
  lock: "k_deleted_at k = None \<Longrightarrow> memory_step k (k\<lparr>k_locked := b\<rparr>)"
| correct: "k_deleted_at k = None \<Longrightarrow> \<not> k_locked k \<Longrightarrow> same_subject k k' \<Longrightarrow> memory_ok k' \<Longrightarrow>
    k_deleted_at k' = None \<Longrightarrow> \<not> k_locked k' \<Longrightarrow> k_revision k' = k_revision k + 1 \<Longrightarrow> memory_step k k'"
| delete: "k_deleted_at k = None \<Longrightarrow> \<not> k_locked k \<Longrightarrow> memory_step k (k\<lparr>k_deleted_at := Some t\<rparr>)"

inductive_cases memory_stepE: "memory_step k k'"

lemma memory_step_subject: "memory_step k k' \<Longrightarrow> same_subject k k'"
  by (erule memory_stepE) (auto simp: same_subject_def)

lemma memory_step_ok: "memory_step k k' \<Longrightarrow> memory_ok k \<Longrightarrow> memory_ok k'"
  by (erule memory_stepE) (auto simp: memory_ok_def)

lemma memory_step_locked: "memory_step k k' \<Longrightarrow> k_locked k \<Longrightarrow> \<exists>b. k' = k\<lparr>k_locked := b\<rparr>"
  by (erule memory_stepE) auto

lemma memory_step_deleted: "memory_step k k' \<Longrightarrow> k_deleted_at k = None"
  by (erule memory_stepE)

lemma memory_step_revision: "memory_step k k' \<Longrightarrow> k_revision k \<le> k_revision k'"
  by (erule memory_stepE) auto

lemma deleted_stays: "memory_step\<^sup>*\<^sup>* k k' \<Longrightarrow> k_deleted_at k \<noteq> None \<Longrightarrow> k' = k"
  by (induction rule: converse_rtranclp_induct) (auto dest: memory_step_deleted)

section \<open>Calls of the service\<close>

datatype knowledge_call =
    CreateMemory string int int new_memory
  | UpdateMemory string memory_update int
  | SetLock string bool
  | SetVerification string string int
  | DeleteMemory string int
  | RecordContradiction string int int string string dict rat

fun knowledge_step :: "knowledge_call \<Rightarrow> ('w, 'a) knowledge_db_scheme \<Rightarrow> ('w, 'a) knowledge_db_scheme" where
  "knowledge_step (CreateMemory i c now n) s = snd (create_memory i c now n s)"
| "knowledge_step (UpdateMemory kid u now) s = snd (update_memory kid u now s)"
| "knowledge_step (SetLock kid b) s = snd (set_lock kid b s)"
| "knowledge_step (SetVerification kid v now) s = snd (set_verification kid v now s)"
| "knowledge_step (DeleteMemory kid now) s = snd (delete_memory kid now s)"
| "knowledge_step (RecordContradiction i c now kid content p conf) s =
     snd (record_contradiction i c now kid content p conf s)"

text \<open>A call either adds one well-formed memory or moves one by a step, or changes nothing.\<close>

definition one_change :: "('w, 'a) knowledge_db_scheme \<Rightarrow> ('w, 'a) knowledge_db_scheme \<Rightarrow> bool" where
  "one_change s t \<longleftrightarrow>
     t = s \<or>
     (\<exists>k. t = s\<lparr>memories := memories s @ [k]\<rparr> \<and> memory_ok k \<and> k_id k \<notin> k_id ` set (memories s) \<and>
          (\<forall>old. k_contradicts k = Some old \<longrightarrow> old \<in> k_id ` set (memories s))) \<or>
     (\<exists>k k'. row_of k_id (k_id k) (memories s) = Some k \<and> memory_step k k' \<and>
          t = s\<lparr>memories := save_row k_id k' (memories s)\<rparr>)"

lemma one_change_refl [simp]: "one_change s s"
  by (simp add: one_change_def)

lemma insert_memory_cases:
  "insert_memory k s = (Inr k, s\<lparr>memories := memories s @ [k]\<rparr>) \<and> k_id k \<notin> k_id ` set (memories s) \<and>
     (\<forall>old. k_contradicts k = Some old \<longrightarrow> old \<in> k_id ` set (memories s)) \<or>
   (\<exists>e. insert_memory k s = (Inl e, s))"
  by (cases "k_contradicts k") (auto simp: insert_memory_def insert_row_def row_of_None_iff)

lemma create_memory_change: "one_change s (snd (create_memory i c now n s))"
proof (cases "new_memory_row i c now n")
  case (Inl e)
  then show ?thesis by (simp add: create_memory_def)
next
  case (Inr k)
  with insert_memory_cases[of k s] new_memory_row_ok[OF Inr] show ?thesis
    by (auto simp: create_memory_def one_change_def)
qed

lemma change_memory_change:
  assumes "\<And>k k'. k_deleted_at k = None \<Longrightarrow> memory_ok k \<Longrightarrow> f k = Inr k' \<Longrightarrow> memory_step k k'"
    and inv: "list_all memory_ok (memories s)"
  shows "one_change s (snd (change_memory kid f s))"
proof (cases "row_of k_id kid (memories s)")
  case None
  then show ?thesis by (simp add: change_memory_def)
next
  case (Some k)
  then have k: "k \<in> set (memories s)" "k_id k = kid" by (auto dest: row_of_SomeD)
  with inv have "memory_ok k" by (simp add: list_all_iff)
  show ?thesis
  proof (cases "k_deleted_at k = None \<and> (\<exists>k'. f k = Inr k')")
    case True
    then obtain k' where k': "f k = Inr k'" "k_deleted_at k = None" by blast
    with assms(1) \<open>memory_ok k\<close> have "memory_step k k'" by blast
    moreover have "snd (change_memory kid f s) = s\<lparr>memories := save_row k_id k' (memories s)\<rparr>"
      using Some k' by (simp add: change_memory_def)
    ultimately show ?thesis using Some k(2) unfolding one_change_def by blast
  next
    case False
    with Some have "snd (change_memory kid f s) = s" by (auto simp: change_memory_def split: sum.split)
    then show ?thesis by simp
  qed
qed

lemma updated_memory_Inr:
  assumes "updated_memory u now k = Inr k'" and "memory_ok k"
  shows "same_subject k k' \<and> memory_ok k' \<and> k_deleted_at k' = k_deleted_at k \<and> k_locked k' = k_locked k \<and>
    k_revision k' = k_revision k + 1"
proof -
  let ?c = "stripped_or (mu_content u) (k_content k)" and ?p = "or_else (mu_provenance u) (k_provenance k)"
    and ?conf = "or_else (mu_confidence u) (k_confidence k)" and ?temp = "or_else (mu_temporary u) (k_temporary k)"
    and ?ex = "override (mu_expires_at u) (k_expires_at k)"
  have strip: "strip ?c = ?c"
    using assms(2) by (simp add: stripped_or_def memory_ok_def split: option.split)
  from assms(1) obtain sens v vis where valid: "validate_values ?c ?p ?conf v sens ?temp ?ex = None"
    and k': "k' = k\<lparr>k_content := ?c, k_provenance := ?p, k_confidence := ?conf, k_verification := v,
        k_sensitivity := sens, k_visibility := vis,
        k_allowed_agents := agents_or (mu_allowed_agents u) (k_allowed_agents k),
        k_pinned := or_else (mu_pinned u) (k_pinned k), k_temporary := ?temp, k_expires_at := ?ex,
        k_revision := k_revision k + 1, k_verified_at := confirmed_at v now\<rparr>"
    unfolding updated_memory_def Let_def by auto
  from assms(2) have agents: "sorted (agents_or (mu_allowed_agents u) (k_allowed_agents k))"
      "distinct (agents_or (mu_allowed_agents u) (k_allowed_agents k))" and rev: "1 \<le> k_revision k"
    using agents_or_ok by (simp_all add: memory_ok_def)
  have "memory_ok k'"
    using valid agents rev strip unfolding k' memory_ok_def validate_values_None by simp
  then show ?thesis by (simp add: k' same_subject_def)
qed

lemma updated_memory_step:
  "k_deleted_at k = None \<Longrightarrow> \<not> k_locked k \<Longrightarrow> memory_ok k \<Longrightarrow> updated_memory u now k = Inr k' \<Longrightarrow> memory_step k k'"
  using updated_memory_Inr[of u now k k'] by (auto intro: memory_step.correct)

lemma update_memory_change:
  "list_all memory_ok (memories s) \<Longrightarrow> one_change s (snd (update_memory kid u now s))"
  unfolding update_memory_def by (rule change_memory_change) (auto intro: updated_memory_step)

lemma set_lock_change: "list_all memory_ok (memories s) \<Longrightarrow> one_change s (snd (set_lock kid b s))"
  unfolding set_lock_def by (rule change_memory_change) (auto intro: memory_step.lock)

lemma delete_memory_change: "list_all memory_ok (memories s) \<Longrightarrow> one_change s (snd (delete_memory kid now s))"
  unfolding delete_memory_def by (rule change_memory_change) (auto intro: memory_step.delete)

lemma set_verification_change:
  assumes "list_all memory_ok (memories s)"
  shows "one_change s (snd (set_verification kid v now s))"
proof (cases "verification_of v")
  case (Inl e)
  then show ?thesis by (simp add: set_verification_def)
next
  case (Inr w)
  have "one_change s (snd (change_memory kid (\<lambda>k.
         unless (k_locked k) (ValueError ''locked memory cannot be changed'')
         (unless (is_inference (k_provenance k) \<and> w = CONFIRMED)
            (ValueError ''inference requires explicit provenance change before confirmation'')
            (Inr (k\<lparr>k_verification := w, k_verified_at := confirmed_at w now, k_revision := k_revision k + 1\<rparr>)))) s))"
    using assms
    by (rule change_memory_change[rotated])
       (auto intro!: memory_step.correct simp: memory_ok_def same_subject_def)
  with Inr show ?thesis by (simp add: set_verification_def)
qed

lemma record_contradiction_change: "one_change s (snd (record_contradiction i c now kid content p conf s))"
proof (cases "get_memory kid False s")
  case (Pair r t)
  then have "t = s" by (auto simp: get_memory_def split: option.splits if_splits)
  with Pair show ?thesis
    by (cases r) (simp_all add: record_contradiction_def create_memory_change)
qed

lemma knowledge_step_change: "knowledge_inv s \<Longrightarrow> one_change s (knowledge_step c s)"
  by (cases c) (simp_all add: knowledge_inv_def create_memory_change update_memory_change set_lock_change
      set_verification_change delete_memory_change record_contradiction_change)

lemma one_change_inv: "one_change s t \<Longrightarrow> knowledge_inv s \<Longrightarrow> knowledge_inv t"
  unfolding one_change_def
proof (elim disjE exE conjE)
  fix k
  assume "t = s\<lparr>memories := memories s @ [k]\<rparr>" "memory_ok k" "k_id k \<notin> k_id ` set (memories s)"
    "\<forall>old. k_contradicts k = Some old \<longrightarrow> old \<in> k_id ` set (memories s)" "knowledge_inv s"
  then show "knowledge_inv t" by (auto simp: knowledge_inv_def)
next
  fix k k'
  assume row: "row_of k_id (k_id k) (memories s) = Some k" and step: "memory_step k k'"
    and t: "t = s\<lparr>memories := save_row k_id k' (memories s)\<rparr>" and inv: "knowledge_inv s"
  have sub: "same_subject k k'" using step by (rule memory_step_subject)
  have k: "k \<in> set (memories s)" using row by (auto dest: row_of_SomeD)
  with inv step have ok: "memory_ok k'" by (auto simp: knowledge_inv_def list_all_iff dest: memory_step_ok)
  have "memory_ok x \<and> (\<forall>old. k_contradicts x = Some old \<longrightarrow> old \<in> k_id ` set (memories s))"
    if "x \<in> set (save_row k_id k' (memories s))" for x
    using in_set_save_row[OF that] inv ok sub k by (auto simp: knowledge_inv_def list_all_iff same_subject_def)
  then show "knowledge_inv t"
    using inv unfolding t by (simp add: knowledge_inv_def list_all_iff)
qed simp

section \<open>Sequences of calls\<close>

definition knowledge_run ::
  "knowledge_call list \<Rightarrow> ('w, 'a) knowledge_db_scheme \<Rightarrow> ('w, 'a) knowledge_db_scheme" where
  "knowledge_run cs s = fold knowledge_step cs s"

lemma knowledge_run_inv: "knowledge_inv s \<Longrightarrow> knowledge_inv (knowledge_run cs s)"
  unfolding knowledge_run_def
  by (induction cs arbitrary: s) (auto intro: one_change_inv knowledge_step_change)

definition memories_follow :: "('w, 'a) knowledge_db_scheme \<Rightarrow> ('w, 'a) knowledge_db_scheme \<Rightarrow> bool" where
  "memories_follow s t \<longleftrightarrow>
     (\<forall>kid k. row_of k_id kid (memories s) = Some k \<longrightarrow>
        (\<exists>k'. row_of k_id kid (memories t) = Some k' \<and> memory_step\<^sup>*\<^sup>* k k'))"

lemma row_of_snoc: "row_of key k rows = Some r \<Longrightarrow> row_of key k (rows @ [x]) = Some r"
  by (induction rows) auto

lemma one_change_row:
  assumes "one_change s t" and row: "row_of k_id kid (memories s) = Some k"
  shows "\<exists>k'. row_of k_id kid (memories t) = Some k' \<and> (k' = k \<or> memory_step k k')"
  using assms(1) unfolding one_change_def
proof (elim disjE exE conjE)
  fix x x'
  assume x: "row_of k_id (k_id x) (memories s) = Some x" and step: "memory_step x x'"
    and t: "t = s\<lparr>memories := save_row k_id x' (memories s)\<rparr>"
  have "k_id x' = k_id x" using memory_step_subject[OF step] by (simp add: same_subject_def)
  with x step row t show ?thesis by (cases "kid = k_id x") (auto simp: table_simps)
next
  fix x
  assume "t = s\<lparr>memories := memories s @ [x]\<rparr>"
  with row_of_snoc[OF row, of x] show ?thesis by auto
qed (use row in auto)

lemma memories_follow_run:
  assumes "knowledge_inv s"
  shows "memories_follow s (knowledge_run cs s)"
  using assms
proof (induction cs arbitrary: s)
  case Nil
  then show ?case by (simp add: knowledge_run_def memories_follow_def)
next
  case (Cons c cs)
  let ?t = "knowledge_step c s"
  from Cons.prems have step: "one_change s ?t" by (rule knowledge_step_change)
  with Cons have IH: "memories_follow ?t (knowledge_run cs ?t)" by (blast intro: one_change_inv)
  show ?case
    unfolding memories_follow_def
  proof (intro allI impI)
    fix kid k
    assume "row_of k_id kid (memories s) = Some k"
    from one_change_row[OF step this] obtain k' where k': "row_of k_id kid (memories ?t) = Some k'"
      "k' = k \<or> memory_step k k'" by blast
    with IH obtain k'' where "row_of k_id kid (memories (knowledge_run cs ?t)) = Some k''" "memory_step\<^sup>*\<^sup>* k' k''"
      by (auto simp: memories_follow_def)
    with k'(2) show "\<exists>k'. row_of k_id kid (memories (knowledge_run (c # cs) s)) = Some k' \<and> memory_step\<^sup>*\<^sup>* k k'"
      by (auto simp: knowledge_run_def intro: converse_rtranclp_into_rtranclp)
  qed
qed

section \<open>Locked memories\<close>

fun unlocks :: "string \<Rightarrow> knowledge_call \<Rightarrow> bool" where
  "unlocks kid (SetLock x b) \<longleftrightarrow> x = kid"
| "unlocks kid c \<longleftrightarrow> False"

lemma change_memory_row:
  assumes row: "row_of k_id kid (memories s) = Some k" and refuse: "x = kid \<Longrightarrow> \<exists>e. f k = Inl e"
    and keep: "\<And>x x'. f x = Inr x' \<Longrightarrow> k_id x' = k_id x"
  shows "row_of k_id kid (memories (snd (change_memory x f s))) = Some k"
proof (cases "x = kid")
  case True
  with row refuse show ?thesis by (auto simp: change_memory_def)
next
  case False
  with row keep show ?thesis
    by (auto simp: change_memory_def table_simps split: option.split sum.split dest!: row_of_SomeD)
qed

lemma create_memory_row:
  assumes "row_of k_id kid (memories s) = Some k"
  shows "row_of k_id kid (memories (snd (create_memory i c now n s))) = Some k"
proof (cases "new_memory_row i c now n")
  case (Inl e)
  with assms show ?thesis by (simp add: create_memory_def)
next
  case (Inr x)
  with insert_memory_cases[of x s] assms row_of_snoc[OF assms, of x] show ?thesis
    by (auto simp: create_memory_def)
qed

lemma updated_memory_id: "updated_memory u now x = Inr x' \<Longrightarrow> k_id x' = k_id x"
  unfolding updated_memory_def Let_def by auto

lemma locked_step:
  assumes row: "row_of k_id kid (memories s) = Some k" and lock: "k_locked k" and no: "\<not> unlocks kid c"
  shows "row_of k_id kid (memories (knowledge_step c s)) = Some k"
proof (cases c)
  case (UpdateMemory x u now)
  have "row_of k_id kid (memories (snd (update_memory x u now s))) = Some k"
    unfolding update_memory_def by (rule change_memory_row[OF row]) (use lock in \<open>auto simp: updated_memory_id\<close>)
  with UpdateMemory show ?thesis by simp
next
  case (SetVerification x v now)
  have "row_of k_id kid (memories (snd (change_memory x (\<lambda>k.
         unless (k_locked k) (ValueError ''locked memory cannot be changed'')
         (unless (is_inference (k_provenance k) \<and> w = CONFIRMED)
            (ValueError ''inference requires explicit provenance change before confirmation'')
            (Inr (k\<lparr>k_verification := w, k_verified_at := confirmed_at w now, k_revision := k_revision k + 1\<rparr>)))) s)))
      = Some k" for w
    by (rule change_memory_row[OF row]) (use lock in auto)
  with SetVerification row show ?thesis
    by (cases "verification_of v") (simp_all add: set_verification_def)
next
  case (DeleteMemory x now)
  have "row_of k_id kid (memories (snd (delete_memory x now s))) = Some k"
    unfolding delete_memory_def by (rule change_memory_row[OF row]) (use lock in auto)
  with DeleteMemory show ?thesis by simp
next
  case (SetLock x b)
  with no have "x \<noteq> kid" by auto
  then have "row_of k_id kid (memories (snd (set_lock x b s))) = Some k"
    unfolding set_lock_def by (intro change_memory_row[OF row]) auto
  with SetLock show ?thesis by simp
next
  case (RecordContradiction i c now x content p conf)
  obtain r t where g: "get_memory x False s = (r, t)" by (cases "get_memory x False s")
  then have "t = s" by (auto simp: get_memory_def split: option.splits if_splits)
  with g RecordContradiction row show ?thesis
    by (cases r) (simp_all add: record_contradiction_def create_memory_row)
qed (simp add: create_memory_row row)

lemma locked_memory_kept:
  assumes "row_of k_id kid (memories s) = Some k" and "k_locked k" and "\<forall>c \<in> set cs. \<not> unlocks kid c"
  shows "row_of k_id kid (memories (knowledge_run cs s)) = Some k"
  using assms unfolding knowledge_run_def
  by (induction cs arbitrary: s) (auto intro: locked_step)

end
