(* ===== verification/Sandbox_Trees.thy ===== *)
theory Sandbox_Trees
  imports Sandbox
begin

text \<open>
  Trees and their manifests: what a manifest says of a path is what the tree holds there, and writing or
  deleting one file changes what is found at that path only.
\<close>

section \<open>Well-formed trees\<close>

definition name_ok :: "string \<Rightarrow> bool" where
  "name_ok p \<longleftrightarrow> p \<noteq> [] \<and> CHR ''/'' \<notin> set p"

fun node_ok :: "node \<Rightarrow> bool" where
  "node_ok (Dir es) = (distinct (map fst es) \<and> list_all (\<lambda>(p, n). name_ok p \<and> node_ok n) es)"
| "node_ok _ = True"

abbreviation entries_ok :: "entries \<Rightarrow> bool" where
  "entries_ok es \<equiv> node_ok (Dir es)"

definition path_ok :: "string list \<Rightarrow> bool" where
  "path_ok ps \<longleftrightarrow> ps \<noteq> [] \<and> list_all name_ok ps"

lemma path_ok_simps [simp]: "path_ok [p] \<longleftrightarrow> name_ok p" "path_ok (p # q # ps) \<longleftrightarrow> name_ok p \<and> path_ok (q # ps)"
  "\<not> path_ok []"
  by (auto simp: path_ok_def)

lemma path_ok_Cons: "path_ok (p # ps) \<longleftrightarrow> name_ok p \<and> (ps = [] \<or> path_ok ps)"
  by (cases ps) auto

lemma split_on_nonempty [simp]: "split_on c s \<noteq> []"
  by (induction c s rule: split_on.induct) (auto split: list.split)

lemma split_on_no_sep: "p \<in> set (split_on c s) \<Longrightarrow> c \<notin> set p"
  by (induction c s arbitrary: p rule: split_on.induct) (auto split: list.splits if_splits)

lemma safe_target_path:
  assumes "safe_target escapes es raw = Inr ps"
  shows "ps = split_on (CHR ''/'') raw" "path_ok ps"
  using assms split_on_no_sep[of _ "CHR ''/''" raw]
  by (auto simp: safe_target_def Let_def path_ok_def name_ok_def list_all_iff list_ex_iff)

text \<open>Splitting and joining paths.\<close>

lemma split_on_app: "c \<notin> set p \<Longrightarrow> split_on c (p @ c # s) = p # split_on c s"
  by (induction p) (auto split: list.split)

lemma split_on_last: "c \<notin> set p \<Longrightarrow> split_on c p = [p]"
  by (induction p) auto

lemma split_join: "path_ok ps \<Longrightarrow> split_on (CHR ''/'') (join ''/'' ps) = ps"
proof (induction ps)
  case (Cons p ps)
  then show ?case
    by (cases ps) (auto simp: name_ok_def split_on_app split_on_last)
qed simp

lemma join_cons_char: "join sep ((c # p) # ps) = c # join sep (p # ps)"
  by (cases ps) simp_all

lemma join_split: "join ''/'' (split_on (CHR ''/'') s) = s"
proof (induction s)
  case (Cons x s)
  then show ?case by (cases "split_on (CHR ''/'') s") (auto simp: join_cons_char)
qed simp

lemma join_inject: "path_ok ps \<Longrightarrow> path_ok qs \<Longrightarrow> join ''/'' ps = join ''/'' qs \<longleftrightarrow> ps = qs"
  by (metis split_join)

section \<open>Manifests\<close>

fun leaf_digest :: "(string \<Rightarrow> string) \<Rightarrow> string \<Rightarrow> node \<Rightarrow> string option" where
  "leaf_digest sha name (File b) = Some (''sha256:'' @ sha b)"
| "leaf_digest sha name (Link t kind) = (if kind = ToDir \<and> name = ''.git'' then None else Some (''symlink:'' @ t))"
| "leaf_digest sha name _ = None"

definition entry_at :: "(string \<Rightarrow> string) \<Rightarrow> entries \<Rightarrow> string list \<Rightarrow> string option" where
  "entry_at sha es ps =
     (if ps = [] \<or> ''.git'' \<in> set (butlast ps) then None
      else case lookup_path es ps of None \<Rightarrow> None | Some n \<Rightarrow> leaf_digest sha (last ps) n)"

lemma entry_at_Cons:
  "entry_at sha es (p # ps) =
     (case map_of es p of
        None \<Rightarrow> None
      | Some n \<Rightarrow>
          if ps = [] then leaf_digest sha p n
          else if p = ''.git'' then None
          else (case n of Dir inner \<Rightarrow> entry_at sha inner ps | _ \<Rightarrow> None))"
  by (auto simp: entry_at_def split: option.split node.split)

lemma entry_at_Nil [simp]: "entry_at sha es [] = None"
  by (simp add: entry_at_def)

lemma entry_at_path:
  assumes "entries_ok es" and "entry_at sha es ps = Some d"
  shows "path_ok ps"
  using assms
proof (induction ps arbitrary: es)
  case Nil
  then show ?case by (simp add: entry_at_def)
next
  case (Cons p ps)
  from Cons.prems(2) obtain n where n: "map_of es p = Some n" by (auto simp: entry_at_Cons split: option.splits)
  then have "(p, n) \<in> set es" by (rule map_of_SomeD)
  with Cons.prems(1) have ok: "name_ok p" "node_ok n" by (auto simp: list_all_iff)
  show ?case
  proof (cases ps)
    case Nil
    with ok show ?thesis by simp
  next
    case Cons': (Cons q qs)
    with Cons.prems(2) n obtain inner where "n = Dir inner" "entry_at sha inner ps = Some d"
      by (auto simp: entry_at_Cons split: if_splits node.splits)
    with Cons.IH[of inner] ok Cons' show ?thesis by simp
  qed
qed

lemma entry_at_single:
  assumes "entries_ok es"
  shows "entry_at sha es ps = Some d \<longleftrightarrow> (\<exists>(p, x) \<in> set es. entry_at sha [(p, x)] ps = Some d)"
proof (cases ps)
  case Nil
  then show ?thesis by (simp add: entry_at_def split_beta)
next
  case (Cons p qs)
  have mem: "(p, x) \<in> set es \<longleftrightarrow> map_of es p = Some x" for x
    using assms by simp
  have "(\<exists>(r, x) \<in> set es. entry_at sha [(r, x)] ps = Some d) \<longleftrightarrow>
      (\<exists>x. (p, x) \<in> set es \<and> entry_at sha [(p, x)] ps = Some d)"
    using Cons by (auto simp: entry_at_Cons split: if_splits)
  also have "\<dots> \<longleftrightarrow> entry_at sha es ps = Some d"
    unfolding mem Cons by (cases "map_of es p") (simp_all add: entry_at_Cons)
  finally show ?thesis by blast
qed

text \<open>An entry of a manifest is a leaf of the tree.\<close>

lemma entry_at_leafless:
  "(\<And>es. n \<noteq> Dir es) \<Longrightarrow> entry_at sha [(name, n)] ps = (if ps = [name] then leaf_digest sha name n else None)"
  by (cases ps; cases n) (auto simp: entry_at_Cons)

lemma single_entry:
  assumes "\<And>ps. entry_at sha [(name, n)] ps = (if ps = [name] then leaf_digest sha name n else None)"
    and "set (manifest_of sha pre name n) = (case leaf_digest sha name n of None \<Rightarrow> {} | Some d \<Rightarrow> {(pre @ name, d)})"
  shows "(q, d) \<in> set (manifest_of sha pre name n) \<longleftrightarrow>
    (\<exists>ps. entry_at sha [(name, n)] ps = Some d \<and> q = pre @ join ''/'' ps)"
  unfolding assms by (auto split: option.splits if_splits)

lemma manifest_of_iff:
  "node_ok n \<Longrightarrow> name_ok name \<Longrightarrow>
   (q, d) \<in> set (manifest_of sha pre name n) \<longleftrightarrow>
     (\<exists>ps. entry_at sha [(name, n)] ps = Some d \<and> q = pre @ join ''/'' ps)"
proof (induction sha pre name n rule: manifest_of.induct)
  case (4 sha pre name es)
  show ?case
  proof (cases "name = ''.git''")
    case True
    then have "entry_at sha [(name, Dir es)] ps \<noteq> Some d" for ps
      by (cases ps) (auto simp: entry_at_Cons entry_at_def)
    with True show ?thesis by auto
  next
    case False
    have step: "(q, d) \<in> set (manifest_of sha (pre @ name @ ''/'') p x) \<longleftrightarrow>
        (\<exists>ps. entry_at sha [(p, x)] ps = Some d \<and> q = pre @ name @ ''/'' @ join ''/'' ps)" if "(p, x) \<in> set es" for p x
      using 4(1)[OF False that] 4(2) that by (auto simp: list_all_iff)
    note single = entry_at_single[OF 4(2), of sha _ d]
    have "(q, d) \<in> set (manifest_of sha pre name (Dir es)) \<longleftrightarrow>
        (\<exists>(p, x) \<in> set es. (q, d) \<in> set (manifest_of sha (pre @ name @ ''/'') p x))"
      using False by auto
    also have "\<dots> \<longleftrightarrow> (\<exists>ps. entry_at sha es ps = Some d \<and> q = pre @ name @ ''/'' @ join ''/'' ps)"
      using step single by fastforce
    also have "\<dots> \<longleftrightarrow> (\<exists>ps. entry_at sha [(name, Dir es)] (name # ps) = Some d \<and> q = pre @ join ''/'' (name # ps))"
    proof (rule ex_cong1)
      fix ps
      show "(entry_at sha es ps = Some d \<and> q = pre @ name @ ''/'' @ join ''/'' ps) \<longleftrightarrow>
          (entry_at sha [(name, Dir es)] (name # ps) = Some d \<and> q = pre @ join ''/'' (name # ps))"
        using False by (cases ps) (simp_all add: entry_at_Cons)
    qed
    also have "\<dots> \<longleftrightarrow> (\<exists>ps. entry_at sha [(name, Dir es)] ps = Some d \<and> q = pre @ join ''/'' ps)"
    proof
      assume "\<exists>ps. entry_at sha [(name, Dir es)] ps = Some d \<and> q = pre @ join ''/'' ps"
      then obtain ps where ps: "entry_at sha [(name, Dir es)] ps = Some d" "q = pre @ join ''/'' ps" by blast
      then obtain qs where "ps = name # qs" by (cases ps) (auto simp: entry_at_def entry_at_Cons split: if_splits)
      with ps show "\<exists>ps. entry_at sha [(name, Dir es)] (name # ps) = Some d \<and> q = pre @ join ''/'' (name # ps)" by blast
    qed blast
    finally show ?thesis .
  qed
next
  case (1 sha pre name b)
  show ?case by (rule single_entry) (auto simp: entry_at_leafless)
next
  case (2 sha pre name t kind)
  show ?case by (rule single_entry) (auto simp: entry_at_leafless)
next
  case (3 sha pre name)
  show ?case by (rule single_entry) (auto simp: entry_at_leafless)
qed

lemma manifest_iff:
  assumes "entries_ok es"
  shows "(q, JStr d) \<in> set (manifest sha es) \<longleftrightarrow> (\<exists>ps. entry_at sha es ps = Some d \<and> q = join ''/'' ps)"
proof -
  note single = entry_at_single[OF assms, of sha _ d]
  have "(q, JStr d) \<in> set (manifest sha es) \<longleftrightarrow> (\<exists>(p, x) \<in> set es. (q, d) \<in> set (manifest_of sha [] p x))"
    by (fastforce simp: manifest_def image_iff)
  also have "\<dots> \<longleftrightarrow> (\<exists>(p, x) \<in> set es. \<exists>ps. entry_at sha [(p, x)] ps = Some d \<and> q = join ''/'' ps)"
    using assms manifest_of_iff[of _ _ q d sha "[]"] by (fastforce simp: list_all_iff)
  also have "\<dots> \<longleftrightarrow> (\<exists>ps. entry_at sha es ps = Some d \<and> q = join ''/'' ps)"
    using single by blast
  finally show ?thesis .
qed

lemma manifest_JStr: "(q, v) \<in> set (manifest sha es) \<Longrightarrow> \<exists>d. v = JStr d"
  by (auto simp: manifest_def)

text \<open>Looking a path up in the manifest is looking at the tree.\<close>

lemma map_of_set_unique:
  assumes "\<And>v w. (k, v) \<in> set xs \<Longrightarrow> (k, w) \<in> set xs \<Longrightarrow> v = w"
  shows "map_of xs k = Some v \<longleftrightarrow> (k, v) \<in> set xs"
proof
  assume "(k, v) \<in> set xs"
  then obtain w where "map_of xs k = Some w" by (metis weak_map_of_SomeI)
  with assms \<open>(k, v) \<in> set xs\<close> show "map_of xs k = Some v" by (metis map_of_SomeD)
qed (rule map_of_SomeD)

lemma manifest_lookup:
  assumes es: "entries_ok es" and ps: "path_ok ps"
  shows "map_of (manifest sha es) (join ''/'' ps) = map_option JStr (entry_at sha es ps)"
proof -
  have mem: "(join ''/'' ps, JStr d) \<in> set (manifest sha es) \<longleftrightarrow> entry_at sha es ps = Some d" for d
    unfolding manifest_iff[OF es] using entry_at_path[OF es] join_inject ps by metis
  have "map_of (manifest sha es) (join ''/'' ps) = Some v \<longleftrightarrow> (join ''/'' ps, v) \<in> set (manifest sha es)" for v
    by (rule map_of_set_unique) (metis manifest_JStr mem option.inject)
  note found = this
  show ?thesis
  proof (cases "map_of (manifest sha es) (join ''/'' ps)")
    case None
    with found mem have "entry_at sha es ps \<noteq> Some d" for d by (metis option.distinct(1))
    with None show ?thesis by (cases "entry_at sha es ps") auto
  next
    case (Some v)
    then have v: "(join ''/'' ps, v) \<in> set (manifest sha es)" by (rule map_of_SomeD)
    from manifest_JStr[OF this] obtain d where "v = JStr d" by blast
    with v mem Some show ?thesis by simp
  qed
qed

lemma manifest_keys:
  assumes "entries_ok es" and "q \<in> fst ` set (manifest sha es)"
  shows "\<exists>ps. path_ok ps \<and> q = join ''/'' ps"
proof -
  from assms(2) obtain v where "(q, v) \<in> set (manifest sha es)" by auto
  moreover from manifest_JStr[OF this] obtain d where "v = JStr d" by blast
  ultimately show ?thesis using manifest_iff[OF assms(1)] entry_at_path[OF assms(1)] by blast
qed

lemma manifest_absent: "entries_ok es \<Longrightarrow> \<nexists>ps. path_ok ps \<and> q = join ''/'' ps \<Longrightarrow> map_of (manifest sha es) q = None"
  using manifest_keys by (metis map_of_eq_None_iff)

section \<open>Changing one path\<close>

fun is_leaf :: "node \<Rightarrow> bool" where
  "is_leaf (Dir es) = False"
| "is_leaf _ = True"

definition leaf_at :: "entries \<Rightarrow> string list \<Rightarrow> node option" where
  "leaf_at es ps = (case lookup_path es ps of Some n \<Rightarrow> if is_leaf n then Some n else None | None \<Rightarrow> None)"

lemma leaf_at_Nil [simp]: "leaf_at es [] = None" "ps \<noteq> [] \<Longrightarrow> leaf_at [] ps = None"
  by (cases ps; simp add: leaf_at_def)+

lemma leaf_at_Cons:
  "leaf_at es (p # ps) =
     (case map_of es p of
        None \<Rightarrow> None
      | Some n \<Rightarrow> (case n of Dir inner \<Rightarrow> leaf_at inner ps | _ \<Rightarrow> if ps = [] then Some n else None))"
  by (auto simp: leaf_at_def split: option.split node.split)

lemma leaf_at_path: "entries_ok es \<Longrightarrow> leaf_at es ps \<noteq> None \<Longrightarrow> path_ok ps"
proof (induction ps arbitrary: es)
  case (Cons p ps)
  from Cons.prems(2) obtain n where n: "map_of es p = Some n" by (auto simp: leaf_at_Cons split: option.splits)
  then have "(p, n) \<in> set es" by (rule map_of_SomeD)
  with Cons.prems(1) have ok: "name_ok p" "node_ok n" by (auto simp: list_all_iff)
  show ?case
  proof (cases n)
    case (Dir inner)
    with Cons n ok show ?thesis by (auto simp: leaf_at_Cons path_ok_Cons)
  qed (use Cons n ok in \<open>auto simp: leaf_at_Cons path_ok_Cons split: if_splits\<close>)
qed simp

lemma entry_at_leaf:
  "entry_at sha es ps =
     (if ''.git'' \<in> set (butlast ps) then None
      else case leaf_at es ps of None \<Rightarrow> None | Some n \<Rightarrow> leaf_digest sha (last ps) n)"
proof (cases "lookup_path es ps")
  case None
  then show ?thesis by (simp add: entry_at_def leaf_at_def)
next
  case (Some n)
  then show ?thesis by (cases n; cases ps) (simp_all add: entry_at_def leaf_at_def)
qed

lemma map_of_update: "map_of (AList.update k v xs) q = (if q = k then Some v else map_of xs q)"
  by (simp add: update_conv')

lemma map_of_delete: "map_of (AList.delete k xs) q = (if q = k then None else map_of xs q)"
  by (simp add: delete_conv')

lemma case_leaf [simp]:
  "is_leaf n \<Longrightarrow> (case n of Dir inner \<Rightarrow> f inner | _ \<Rightarrow> x) = x"
  by (cases n) simp_all

lemma put_node_last:
  "put_node es [p] n = Inr es' \<Longrightarrow>
   es' = AList.update p n es \<and> (map_of es p = None \<or> (\<exists>b. map_of es p = Some (File b)))"
  by (auto split: option.splits node.splits)

lemma put_node_leaf:
  "put_node es ps n = Inr es' \<Longrightarrow> is_leaf n \<Longrightarrow> leaf_at es' qs = (if qs = ps then Some n else leaf_at es qs)"
proof (induction es ps n arbitrary: es' qs rule: put_node.induct)
  case (2 es p ps n)
  show ?case
  proof (cases qs)
    case Nil
    then show ?thesis by simp
  next
    case (Cons q rest)
    show ?thesis
    proof (cases "ps = []")
      case True
      with put_node_last[of es p n es'] 2(3) have es': "es' = AList.update p n es"
        and old: "map_of es p = None \<or> (\<exists>b. map_of es p = Some (File b))" by simp_all
      from old 2(4) show ?thesis
        unfolding Cons True es' by (elim disjE exE) (simp_all add: leaf_at_Cons map_of_update)
    next
      case False
      show ?thesis
      proof (cases "map_of es p")
        case None
        with 2(3) False obtain inner where inner: "put_node [] ps n = Inr inner" "es' = AList.update p (Dir inner) es"
          by auto
        have "leaf_at inner rest = (if rest = ps then Some n else None)"
          using 2(1)[OF False None inner(1) 2(4), of rest] False by (cases "rest = []") auto
        with inner(2) None Cons show ?thesis
          by (cases "q = p") (simp_all add: leaf_at_Cons map_of_update)
      next
        case (Some x)
        with 2(3) False obtain old inner where x: "x = Dir old" and
          inner: "put_node old ps n = Inr inner" "es' = AList.update p (Dir inner) es"
          by (auto split: node.splits)
        with 2(2)[OF False Some x inner(1) 2(4)] Some Cons show ?thesis
          by (auto simp: leaf_at_Cons map_of_update)
      qed
    qed
  qed
qed simp

lemma remove_path_leaf:
  "leaf_at es ps \<noteq> None \<Longrightarrow> leaf_at (remove_path es ps) qs = (if qs = ps then None else leaf_at es qs)"
proof (induction es ps arbitrary: qs rule: remove_path.induct)
  case (2 es p ps)
  show ?case
  proof (cases qs)
    case Nil
    then show ?thesis by simp
  next
    case (Cons q rest)
    show ?thesis
    proof (cases "ps = []")
      case True
      with 2(2) Cons show ?thesis
        by (auto simp: leaf_at_Cons map_of_delete split: option.splits node.splits)
    next
      case False
      with 2(2) obtain inner where x: "map_of es p = Some (Dir inner)" "leaf_at inner ps \<noteq> None"
        by (auto simp: leaf_at_Cons split: option.splits node.splits if_splits)
      with 2(1)[OF False x(1) refl x(2)] False Cons show ?thesis
        by (auto simp: leaf_at_Cons map_of_update)
    qed
  qed
qed simp

text \<open>Both keep a tree well formed.\<close>

lemma update_entries_ok: "entries_ok es \<Longrightarrow> name_ok p \<Longrightarrow> node_ok n \<Longrightarrow> entries_ok (AList.update p n es)"
  by (induction es) (auto simp: dom_update)

lemma delete_entries_ok: "entries_ok es \<Longrightarrow> entries_ok (AList.delete p es)"
  by (auto simp: AList.delete_eq list_all_iff distinct_map_filter)

lemma entries_ok_inner: "entries_ok es \<Longrightarrow> map_of es p = Some (Dir inner) \<Longrightarrow> entries_ok inner \<and> name_ok p"
proof -
  assume es: "entries_ok es" and "map_of es p = Some (Dir inner)"
  from es have "\<forall>(p, n) \<in> set es. name_ok p \<and> node_ok n" by (simp add: list_all_iff)
  from bspec[OF this map_of_SomeD[OF \<open>map_of es p = Some (Dir inner)\<close>]] show ?thesis by (simp del: node_ok.simps)
qed

lemma put_node_ok: "put_node es ps n = Inr es' \<Longrightarrow> entries_ok es \<Longrightarrow> path_ok ps \<Longrightarrow> node_ok n \<Longrightarrow> entries_ok es'"
proof (induction es ps n arbitrary: es' rule: put_node.induct)
  case (2 es p ps n)
  have name: "name_ok p" using 2(5) by (simp add: path_ok_Cons)
  show ?case
  proof (cases "ps = []")
    case True
    with 2(3) have "es' = AList.update p n es" by (auto split: option.splits node.splits)
    with update_entries_ok[OF 2(4) name 2(6)] show ?thesis by simp
  next
    case False
    with 2(5) have ps: "path_ok ps" by (simp add: path_ok_Cons)
    show ?thesis
    proof (cases "map_of es p")
      case None
      with 2(3) False obtain inner where inner: "put_node [] ps n = Inr inner" "es' = AList.update p (Dir inner) es"
        by auto
      with 2(1)[OF False None inner(1) _ ps 2(6)] update_entries_ok[OF 2(4) name] show ?thesis by simp
    next
      case (Some x)
      with 2(3) False obtain old inner where x: "x = Dir old" and
        inner: "put_node old ps n = Inr inner" "es' = AList.update p (Dir inner) es"
        by (auto split: node.splits)
      with entries_ok_inner[OF 2(4)] Some have "entries_ok old" by blast
      with 2(2)[OF False Some x inner(1) _ ps 2(6)] inner update_entries_ok[OF 2(4) name] show ?thesis by simp
    qed
  qed
qed simp

lemma remove_path_ok: "entries_ok es \<Longrightarrow> entries_ok (remove_path es ps)"
proof (induction es ps rule: remove_path.induct)
  case (2 es p ps)
  show ?case
  proof (cases "ps = []")
    case True
    with 2 show ?thesis using delete_entries_ok by simp
  next
    case False
    show ?thesis
    proof (cases "\<exists>inner. map_of es p = Some (Dir inner)")
      case True
      then obtain inner where inner: "map_of es p = Some (Dir inner)" by blast
      with entries_ok_inner[OF 2(2)] have ok: "entries_ok inner" "name_ok p" by blast+
      with 2(1)[OF False inner refl] update_entries_ok[OF 2(2)] False inner show ?thesis by simp
    next
      case no: False
      then have "remove_path es (p # ps) = es" using False by (auto split: option.split node.split)
      with 2(2) show ?thesis by simp
    qed
  qed
qed simp

lemma relink_ok: "entries_ok es \<Longrightarrow> entries_ok (relink es ps)"
proof (induction es ps rule: relink.induct)
  case (2 es p ps)
  show ?case
  proof (cases "map_of es p")
    case None
    with 2(2) show ?thesis by simp
  next
    case (Some n)
    from 2(2) have "\<forall>(p, n) \<in> set es. name_ok p \<and> node_ok n" by (simp add: list_all_iff)
    from bspec[OF this map_of_SomeD[OF Some]] have ok: "name_ok p" "node_ok n" by simp_all
    show ?thesis
    proof (cases n)
      case (Dir inner)
      with 2(1)[OF Some Dir] ok update_entries_ok[OF 2(2) ok(1)] 2(2) Some show ?thesis
        by (simp del: node_ok.simps(1))
    qed (use 2(2) Some update_entries_ok[OF 2(2) ok(1)] in \<open>simp_all del: node_ok.simps(1)\<close>)
  qed
qed simp

end
