(* ===== verification/Sandbox_Laws.thy ===== *)
theory Sandbox_Laws
  imports Sandbox Sandbox_Trees
begin

text \<open>
  What a workspace promises. Seen as a map from paths to files and links, a tree is changed by
  \<open>apply_changes\<close> exactly as the list of changes says; the snapshot names exactly the visible paths that
  differ from the prepared tree; nothing outside the workspace is touched as long as the copied tree has no
  link that leads nowhere.
\<close>

declare node_ok.simps(1) [simp del]

section \<open>The abstract workspace\<close>

definition change_path :: "file_change \<Rightarrow> string list" where
  "change_path c = split_on (CHR ''/'') (fc_path c)"

definition change_result :: "file_change \<Rightarrow> node option" where
  "change_result c =
     (case fc_operation c of
        OP_WRITE \<Rightarrow> Some (File (utf8_text (case fc_content c of None \<Rightarrow> [] | Some t \<Rightarrow> t)))
      | OP_DELETE \<Rightarrow> None)"

definition change_map :: "file_change list \<Rightarrow> (string list \<Rightarrow> node option) \<Rightarrow> string list \<Rightarrow> node option" where
  "change_map cs m = fold (\<lambda>c m. m(change_path c := change_result c)) cs m"

text \<open>What a manifest records of a path.\<close>

definition recorded :: "(string \<Rightarrow> string) \<Rightarrow> (string list \<Rightarrow> node option) \<Rightarrow> string list \<Rightarrow> string option" where
  "recorded sha m ps =
     (if ''.git'' \<in> set (butlast ps) then None
      else case m ps of None \<Rightarrow> None | Some n \<Rightarrow> leaf_digest sha (last ps) n)"

lemma entry_at_recorded: "entry_at sha es = recorded sha (leaf_at es)"
  by (rule ext) (simp add: entry_at_leaf recorded_def)

definition settled :: "entries \<Rightarrow> bool" where
  "settled es \<longleftrightarrow> (\<forall>ps t k. leaf_at es ps \<noteq> Some (Link t (Dangling k)))"

lemma change_map_simps [simp]:
  "change_map [] m = m" "change_map (c # cs) m = change_map cs (m(change_path c := change_result c))"
  by (simp_all add: change_map_def)

lemma change_map_other: "ps \<notin> change_path ` set cs \<Longrightarrow> change_map cs m ps = m ps"
  by (induction cs arbitrary: m) auto

lemma change_result_no_link: "change_result c \<noteq> Some (Link t k)"
  by (cases "fc_operation c") (simp_all add: change_result_def)

section \<open>The state around a tree\<close>

lemma tree_of_set_tree [simp]: "tree_of w (set_tree wid es s) = (if w = wid then es else tree_of w s)"
  by (simp add: tree_of_def set_tree_def update_conv')

lemma set_tree_fields [simp]:
  "sd_states (set_tree wid es s) = sd_states s" "sd_host (set_tree wid es s) = sd_host s"
  "sd_through (set_tree wid es s) = sd_through s"
  by (simp_all add: set_tree_def)

lemma set_workspace_fields [simp]:
  "sd_trees (set_workspace wid st s) = sd_trees s" "sd_host (set_workspace wid st s) = sd_host s"
  "sd_through (set_workspace wid st s) = sd_through s" "tree_of w (set_workspace wid st s) = tree_of w s"
  "map_of (sd_states (set_workspace wid st s)) w = (if w = wid then Some st else map_of (sd_states s) w)"
  by (simp_all add: set_workspace_def tree_of_def update_conv')

lemma host_fields [simp]:
  "tree_of w (s\<lparr>sd_host := x\<rparr>) = tree_of w s" "tree_of w (s\<lparr>sd_through := y\<rparr>) = tree_of w s"
  by (simp_all add: tree_of_def)

text \<open>Only the tree of one workspace, and what is written through its links, differs.\<close>

definition tree_only :: "string \<Rightarrow> ('w, 'a) sandbox_db_scheme \<Rightarrow> ('w, 'a) sandbox_db_scheme \<Rightarrow> bool" where
  "tree_only wid s t \<longleftrightarrow>
     sd_states t = sd_states s \<and> sd_host t = sd_host s \<and> (\<forall>w. w \<noteq> wid \<longrightarrow> tree_of w t = tree_of w s)"

lemma tree_only_refl [simp, intro]: "tree_only wid s s"
  by (simp add: tree_only_def)

lemma tree_only_trans: "tree_only wid s t \<Longrightarrow> tree_only wid t u \<Longrightarrow> tree_only wid s u"
  by (simp add: tree_only_def)

lemma transp_tree_only: "transp (tree_only wid)"
  by (rule transpI) (rule tree_only_trans)

lemma apply_change_tree_only: "tree_only wid s (snd (apply_change env wid c s))"
proof (cases "safe_target (sx_escapes env) (tree_of wid s) (fc_path c)")
  case (Inl e)
  then show ?thesis by (simp add: apply_change_def bindE_def)
next
  case (Inr ps)
  show ?thesis
    by (auto simp: apply_change_def bindE_def Inr write_change_def delete_change_def tree_only_def
             split: file_operation.split option.split node.split link_kind.split sum.split)
qed

lemma apply_each_tree_only: "tree_only wid s (snd (apply_each env wid cs s))"
proof (induction cs arbitrary: s)
  case (Cons c cs)
  show ?case
  proof (cases "apply_change env wid c s")
    case (Pair r s1)
    with apply_change_tree_only[of wid s env c] Cons[of s1] show ?thesis
      by (cases r) (auto simp: bindE_def intro: tree_only_trans)
  qed
qed simp

section \<open>Applying changes\<close>

lemma leaf_at_dir: "leaf_at es ps = None \<longleftrightarrow> (\<forall>n. lookup_path es ps = Some n \<longrightarrow> \<not> is_leaf n)"
  by (auto simp: leaf_at_def split: option.split)

lemma apply_change_tree:
  assumes run: "apply_change env wid c s = (Inr u, t)" and settled: "settled (tree_of wid s)"
  shows "leaf_at (tree_of wid t) = (leaf_at (tree_of wid s))(change_path c := change_result c) \<and>
         sd_through t = sd_through s \<and> (entries_ok (tree_of wid s) \<longrightarrow> entries_ok (tree_of wid t))"
proof -
  let ?es = "tree_of wid s"
  from run obtain ps where ps: "safe_target (sx_escapes env) ?es (fc_path c) = Inr ps"
    by (auto simp: apply_change_def bindE_def split: sum.splits)
  from safe_target_path[OF ps] have path: "ps = change_path c" "path_ok ps" by (simp_all add: change_path_def)
  have no_dangling: "lookup_path ?es ps \<noteq> Some (Link x (Dangling k))" for x k
  proof
    assume "lookup_path ?es ps = Some (Link x (Dangling k))"
    then have "leaf_at ?es ps = Some (Link x (Dangling k))" by (simp add: leaf_at_def)
    with settled show False by (simp add: settled_def)
  qed
  show ?thesis
  proof (cases "fc_operation c")
    case OP_WRITE
    define n where "n = File (utf8_text (case fc_content c of None \<Rightarrow> [] | Some t \<Rightarrow> t))"
    from run ps OP_WRITE have "write_change wid ps (case fc_content c of None \<Rightarrow> [] | Some t \<Rightarrow> t) s = (Inr u, t)"
      by (simp add: apply_change_def bindE_def)
    then obtain es' where es': "put_node ?es ps n = Inr es'" "t = set_tree wid es' s"
      using no_dangling
      by (auto simp: write_change_def n_def split: option.splits node.splits link_kind.splits sum.splits)
    have "is_leaf n" "node_ok n" "change_result c = Some n" by (simp_all add: n_def change_result_def OP_WRITE)
    with put_node_leaf[OF es'(1)] put_node_ok[OF es'(1) _ path(2)] es'(2) path(1) show ?thesis by (auto simp: fun_eq_iff)
  next
    case OP_DELETE
    then have none: "change_result c = None" by (simp add: change_result_def)
    from run ps OP_DELETE have "delete_change wid ps s = (Inr u, t)" by (simp add: apply_change_def bindE_def)
    then have "(lookup_path ?es ps = None \<and> t = s) \<or>
        (\<exists>b. lookup_path ?es ps = Some (File b) \<and> t = set_tree wid (remove_path ?es ps) s)"
      using no_dangling by (auto simp: delete_change_def split: option.splits node.splits link_kind.splits)
    then consider (absent) "leaf_at ?es ps = None" "t = s"
      | (present) b where "leaf_at ?es ps = Some (File b)" "t = set_tree wid (remove_path ?es ps) s"
      by (auto simp: leaf_at_def)
    then show ?thesis
    proof cases
      case absent
      then show ?thesis using path(1) none by (auto simp: fun_eq_iff)
    next
      case present
      with remove_path_leaf[of ?es ps] remove_path_ok[of ?es ps] path(1) none
      show ?thesis by (simp add: fun_eq_iff)
    qed
  qed
qed

lemma apply_change_error:
  assumes "apply_change env wid c s = (r, t)" and "r = Inl e"
  shows "t = s"
proof (cases "safe_target (sx_escapes env) (tree_of wid s) (fc_path c)")
  case (Inl x)
  with assms show ?thesis by (simp add: apply_change_def bindE_def)
next
  case (Inr ps)
  with assms show ?thesis
    by (auto simp: apply_change_def bindE_def write_change_def delete_change_def
             split: sum.splits file_operation.splits option.splits node.splits link_kind.splits if_splits)
qed

lemma apply_change_ok:
  assumes "apply_change env wid c s = (r, t)" and "entries_ok (tree_of wid s)"
  shows "entries_ok (tree_of wid t)"
proof (cases "safe_target (sx_escapes env) (tree_of wid s) (fc_path c)")
  case (Inl x)
  with assms show ?thesis by (simp add: apply_change_def bindE_def)
next
  case (Inr ps)
  note path = safe_target_path(2)[OF Inr]
  from assms Inr show ?thesis
    by (auto simp: apply_change_def bindE_def write_change_def delete_change_def relink_ok remove_path_ok
             dest: put_node_ok[OF _ _ path]
             split: sum.splits file_operation.splits option.splits node.splits link_kind.splits if_splits)
qed

lemma settled_change: "settled es \<Longrightarrow> leaf_at es' = (leaf_at es)(change_path c := change_result c) \<Longrightarrow> settled es'"
  by (auto simp: settled_def change_result_no_link)

lemma apply_each_tree:
  "apply_each env wid cs s = (Inr u, t) \<Longrightarrow> settled (tree_of wid s) \<Longrightarrow>
   leaf_at (tree_of wid t) = change_map cs (leaf_at (tree_of wid s)) \<and> settled (tree_of wid t) \<and>
   sd_through t = sd_through s \<and> (entries_ok (tree_of wid s) \<longrightarrow> entries_ok (tree_of wid t))"
proof (induction cs arbitrary: s)
  case (Cons c cs)
  from Cons.prems(1) obtain v s1 where c: "apply_change env wid c s = (Inr v, s1)" and rest: "apply_each env wid cs s1 = (Inr u, t)"
    by (auto elim: bindE_InrE)
  note first = apply_change_tree[OF c Cons.prems(2)]
  from first have "settled (tree_of wid s1)" by (intro settled_change[OF Cons.prems(2)]) simp
  with first Cons.IH[OF rest] show ?case by (simp del: node_ok.simps fun_upd_apply)
qed simp

lemma apply_each_ok:
  "entries_ok (tree_of wid s) \<Longrightarrow> entries_ok (tree_of wid (snd (apply_each env wid cs s)))"
proof (induction cs arbitrary: s)
  case (Cons c cs)
  obtain r s1 where c: "apply_change env wid c s = (r, s1)" by (cases "apply_change env wid c s")
  from Cons.prems c have "entries_ok (tree_of wid s1)" using apply_change_ok by blast
  with Cons.IH[of s1] c show ?case by (cases r) (simp_all add: bindE_def)
qed simp

text \<open>Nothing is written through a link even when a later change is refused.\<close>

lemma apply_each_through:
  "settled (tree_of wid s) \<Longrightarrow> sd_through (snd (apply_each env wid cs s)) = sd_through s \<and> settled (tree_of wid (snd (apply_each env wid cs s)))"
proof (induction cs arbitrary: s)
  case (Cons c cs)
  obtain r s1 where c: "apply_change env wid c s = (r, s1)" by (cases "apply_change env wid c s")
  show ?case
  proof (cases r)
    case (Inl e)
    have "s1 = s" using c Inl by (rule apply_change_error)
    with c Inl Cons.prems show ?thesis by (simp add: bindE_def)
  next
    case (Inr v)
    with apply_change_tree[of env wid c s] c Cons.prems settled_change[OF Cons.prems]
    have "sd_through s1 = sd_through s" "settled (tree_of wid s1)" by auto
    with Cons.IH[of s1] c Inr show ?thesis by (simp add: bindE_def)
  qed
qed simp

section \<open>Snapshots\<close>

lemma state_for_Inr:
  "state_for ws s = (Inr st, t) \<longleftrightarrow>
     t = s \<and> map_of (sd_states s) (ws_id ws) = Some st \<and> ws_repository ws = rp_key (wt_profile st) \<and>
     ws_base_ref ws = rp_base_ref (wt_profile st) \<and> ws_base_commit ws = wt_base_commit st"
  by (auto simp: state_for_def guards.simps split: option.splits if_splits)

lemma state_for_snd [simp]: "snd (state_for ws s) = s"
  by (simp add: state_for_def split: option.split)

lemma changed_paths_set: "set (changed_paths base now) = {p. map_of base p \<noteq> map_of now p}"
proof -
  have "p \<in> fst ` set base \<union> fst ` set now" if "map_of base p \<noteq> map_of now p" for p
    using that by (metis UnCI map_of_eq_None_iff)
  then show ?thesis by (auto simp: changed_paths_def)
qed

lemma changed_paths_sorted: "sorted (changed_paths base now)" "distinct (changed_paths base now)"
  by (simp_all add: changed_paths_def sorted_filter[of id, simplified])

lemma changed_paths_eq:
  assumes "finite A" and "\<And>p. map_of base p \<noteq> map_of now p \<longleftrightarrow> p \<in> A"
  shows "changed_paths base now = sorted_list_of_set A"
proof -
  have "set (changed_paths base now) = A" using assms(2) by (auto simp: changed_paths_set)
  then show ?thesis
    using changed_paths_sorted[of base now] by (metis sorted_list_of_set.idem_if_sorted_distinct)
qed

lemma change_paths_ok:
  "apply_each env wid cs s = (Inr u, t) \<Longrightarrow> c \<in> set cs \<Longrightarrow> path_ok (change_path c) \<and> join ''/'' (change_path c) = fc_path c"
proof (induction cs arbitrary: s)
  case (Cons d cs)
  from Cons.prems(1) obtain v s1 where d: "apply_change env wid d s = (Inr v, s1)" and rest: "apply_each env wid cs s1 = (Inr u, t)"
    by (auto elim: bindE_InrE)
  from d obtain ps where "safe_target (sx_escapes env) (tree_of wid s) (fc_path d) = Inr ps"
    by (auto simp: apply_change_def bindE_def split: sum.splits)
  from safe_target_path[OF this] have "path_ok (change_path d)" by (simp add: change_path_def)
  with Cons.IH[OF rest] Cons.prems(2) show ?case by (auto simp: change_path_def join_split)
qed simp

text \<open>
  The files a snapshot reports after \<open>cs\<close> was applied to a tree with the leaves \<open>m\<close>: the paths of
  the list at which what the manifest shows has changed, sorted and without repetition.
\<close>

definition reported_files :: "(string \<Rightarrow> string) \<Rightarrow> file_change list \<Rightarrow> (string list \<Rightarrow> node option) \<Rightarrow> string list" where
  "reported_files sha cs m =
     sort (remdups (map fc_path
       (filter (\<lambda>c. recorded sha m (change_path c) \<noteq> recorded sha (change_map cs m) (change_path c)) cs)))"

lemma JStr_map_eq: "map_option JStr x = map_option JStr y \<longleftrightarrow> x = y"
  by (cases x; cases y) simp_all

lemma applied_changed_paths:
  assumes run: "apply_each env wid cs s = (Inr u, t)" and settled: "settled (tree_of wid s)" and ok: "entries_ok (tree_of wid s)"
  shows "changed_paths (manifest sha (tree_of wid s)) (manifest sha (tree_of wid t)) = reported_files sha cs (leaf_at (tree_of wid s))"
proof -
  let ?m = "leaf_at (tree_of wid s)"
  let ?A = "fc_path ` {c \<in> set cs. recorded sha ?m (change_path c) \<noteq> recorded sha (change_map cs ?m) (change_path c)}"
  from apply_each_tree[OF run settled] ok have after: "leaf_at (tree_of wid t) = change_map cs ?m" "entries_ok (tree_of wid t)"
    by simp_all
  have "map_of (manifest sha (tree_of wid s)) q \<noteq> map_of (manifest sha (tree_of wid t)) q \<longleftrightarrow> q \<in> ?A" for q
  proof (cases "\<exists>ps. path_ok ps \<and> q = join ''/'' ps")
    case True
    then obtain ps where ps: "path_ok ps" "q = join ''/'' ps" by blast
    have "map_of (manifest sha (tree_of wid s)) q \<noteq> map_of (manifest sha (tree_of wid t)) q \<longleftrightarrow>
        recorded sha ?m ps \<noteq> recorded sha (change_map cs ?m) ps"
      unfolding ps(2) manifest_lookup[OF ok ps(1)] manifest_lookup[OF after(2) ps(1)] entry_at_recorded after(1)
      by (simp add: JStr_map_eq)
    also have "\<dots> \<longleftrightarrow> (\<exists>c \<in> set cs. change_path c = ps \<and> recorded sha ?m ps \<noteq> recorded sha (change_map cs ?m) ps)"
    proof (cases "ps \<in> change_path ` set cs")
      case no: False
      then have "recorded sha ?m ps = recorded sha (change_map cs ?m) ps" by (simp add: recorded_def change_map_other)
      with no show ?thesis by blast
    qed blast
    also have "\<dots> \<longleftrightarrow> q \<in> ?A"
    proof -
      have "q = fc_path c \<longleftrightarrow> change_path c = ps" if "c \<in> set cs" for c
        using change_paths_ok[OF run that] ps join_inject by metis
      then show ?thesis by blast
    qed
    finally show ?thesis .
  next
    case False
    with manifest_absent[OF ok] manifest_absent[OF after(2)] have
      "map_of (manifest sha (tree_of wid s)) q = map_of (manifest sha (tree_of wid t)) q" by simp
    moreover have "q \<noteq> fc_path c" if "c \<in> set cs" for c
      using False change_paths_ok[OF run that] by metis
    ultimately show ?thesis by blast
  qed
  then have "changed_paths (manifest sha (tree_of wid s)) (manifest sha (tree_of wid t)) = sorted_list_of_set ?A"
    by (intro changed_paths_eq) simp_all
  also have "\<dots> = reported_files sha cs ?m"
    by (simp add: reported_files_def sorted_list_of_set_sort_remdups[symmetric])
  finally show ?thesis .
qed

section \<open>Preparing\<close>

lemma git_read_keeps: "keeps (same (\<lambda>s. (sd_states s, sd_trees s, sd_through s))) (git_read env args)"
  by (auto simp: keeps_def git_read_def same_def split: prod.split option.split)

lemma resolve_base_commit_keeps: "keeps (same (\<lambda>s. (sd_states s, sd_trees s, sd_through s))) (resolve_base_commit env ref)"
  unfolding resolve_base_commit_def
  by (intro keeps_intros git_read_keeps keeps_same_bindE keeps_if | simp add: split_beta
      | rule keeps_same_bindE keeps_if keeps_same_basic git_read_keeps)+

lemma link_dependencies_ok:
  "link_dependencies es links = Inr es' \<Longrightarrow> \<forall>l \<in> set links. path_ok (fst l) \<Longrightarrow> entries_ok es \<Longrightarrow> settled es \<Longrightarrow>
   entries_ok es' \<and> settled es'"
proof (induction es links rule: link_dependencies.induct)
  case (2 es relative target rest)
  let ?n = "Link (''/'' @ join ''/'' target) ToDir"
  from 2(2) obtain es1 where es1: "put_node es relative ?n = Inr es1" "link_dependencies es1 rest = Inr es'"
    by (cases "put_node es relative ?n") auto
  have "leaf_at es1 qs = (if qs = relative then Some ?n else leaf_at es qs)" for qs
    using put_node_leaf[OF es1(1)] by simp
  with 2(5) have "settled es1" by (auto simp: settled_def)
  moreover have "entries_ok es1" using put_node_ok[OF es1(1) 2(4)] 2(3) by simp
  ultimately show ?case using 2(1)[OF es1(2)] 2(3) by simp
qed simp

text \<open>What the host answers when the source is copied, and what the profile links.\<close>

definition copies_well :: "'w sandbox_env \<Rightarrow> bool" where
  "copies_well env \<longleftrightarrow>
     (\<forall>w copied w'. sx_copytree env w = (Inr copied, w') \<longrightarrow> entries_ok copied \<and> settled copied) \<and>
     (\<forall>l \<in> set (rp_links (sx_profile env)). path_ok (fst l))"

lemma copies_wellD:
  "copies_well env \<Longrightarrow> sx_copytree env w = (Inr copied, w') \<Longrightarrow> entries_ok copied \<and> settled copied"
  "copies_well env \<Longrightarrow> link_dependencies es (rp_links (sx_profile env)) = Inr es' \<Longrightarrow> entries_ok es \<Longrightarrow> settled es \<Longrightarrow>
   entries_ok es' \<and> settled es'"
  unfolding copies_well_def by (blast, metis link_dependencies_ok)

text \<open>The profiles of the registry link only relative paths without dots.\<close>

lemma profile_links_path_ok:
  "profile_links facts links = Inr ls \<Longrightarrow> l \<in> set ls \<Longrightarrow> path_ok (fst l)"
proof (induction facts links arbitrary: ls rule: profile_links.induct)
  case (2 facts relative target rest)
  from 2(2) obtain rs where rs: "profile_links facts rest = Inr rs" "ls = (pure_parts relative, pf_resolve facts target) # rs"
    and rel: "take 1 relative \<noteq> ''/''" "pure_parts relative \<noteq> []"
    by (auto simp: Let_def unless_def andThen_def split: if_splits sum.splits)
  from rel have "path_ok (pure_parts relative)"
    using split_on_no_sep[of _ "CHR ''/''" relative] by (auto simp: pure_parts_def path_ok_def name_ok_def list_all_iff)
  with rs 2 show ?case by (auto simp: Let_def unless_def split: if_splits)
qed simp

lemma make_profile_links:
  "make_profile facts key source ref commands description timeout excludes links = Inr p \<Longrightarrow>
   \<forall>l \<in> set (rp_links p). path_ok (fst l)"
  by (auto simp: make_profile_def unless_def andThen_def split: if_splits sum.splits dest: profile_links_path_ok)

lemma sandbox_prepare_Inr:
  assumes "sandbox_prepare env wid mid s = (Inr ws, t)"
  obtains copied es base w w' where
    "sx_copytree env w = (Inr copied, w')" "link_dependencies copied (rp_links (sx_profile env)) = Inr es"
    "tree_of wid t = es" "ws_id ws = strip wid" "\<And>v. v \<noteq> wid \<Longrightarrow> tree_of v t = tree_of v s"
    "map_of (sd_states t) wid = Some \<lparr>wt_profile = sx_profile env, wt_base_manifest = manifest (sx_sha env) es,
                                      wt_base_commit = base, wt_fingerprint = None, wt_diff = None\<rparr>"
    "\<And>v. v \<noteq> wid \<Longrightarrow> map_of (sd_states t) v = map_of (sd_states s) v" "sd_through t = sd_through s"
proof -
  from assms obtain base s1 where base: "resolve_base_commit env (rp_base_ref (sx_profile env)) s = (Inr base, s1)"
    and rest: "(case sx_copytree env (sd_host s1) of
        (Inl e, w) \<Rightarrow> (Inl e, s1\<lparr>sd_host := w\<rparr>)
      | (Inr copied, w) \<Rightarrow>
          (case link_dependencies copied (rp_links (sx_profile env)) of
             Inl e \<Rightarrow> (Inl e, set_tree wid copied (s1\<lparr>sd_host := w\<rparr>))
           | Inr es \<Rightarrow>
               (make_workspace \<lparr>ws_mission = mid, ws_repository = rp_key (sx_profile env),
                                ws_base_ref = rp_base_ref (sx_profile env), ws_id = wid, ws_base_commit = base\<rparr>,
                set_workspace wid \<lparr>wt_profile = sx_profile env, wt_base_manifest = manifest (sx_sha env) es,
                               wt_base_commit = base, wt_fingerprint = None, wt_diff = None\<rparr>
                  (set_tree wid es (s1\<lparr>sd_host := w\<rparr>))))) = (Inr ws, t)"
    unfolding sandbox_prepare_def by (auto split: if_splits elim!: bindE_InrE)
  from keepsD'[OF resolve_base_commit_keeps base]
  have s1: "sd_states s1 = sd_states s" "sd_trees s1 = sd_trees s" "sd_through s1 = sd_through s" by (simp_all add: same_def)
  from rest obtain copied w' es where
    copied: "sx_copytree env (sd_host s1) = (Inr copied, w')" "link_dependencies copied (rp_links (sx_profile env)) = Inr es"
    and ws: "make_workspace \<lparr>ws_mission = mid, ws_repository = rp_key (sx_profile env),
                             ws_base_ref = rp_base_ref (sx_profile env), ws_id = wid, ws_base_commit = base\<rparr> = Inr ws"
    and t: "t = set_workspace wid \<lparr>wt_profile = sx_profile env, wt_base_manifest = manifest (sx_sha env) es,
                               wt_base_commit = base, wt_fingerprint = None, wt_diff = None\<rparr>
                  (set_tree wid es (s1\<lparr>sd_host := w'\<rparr>))"
    by (auto split: prod.splits sum.splits)
  from ws have "ws_id ws = strip wid"
    by (auto simp: make_workspace_def andThen_def required_def unless_def split: sum.splits if_splits)
  moreover have "tree_of v s1 = tree_of v s" for v by (simp add: tree_of_def s1)
  ultimately show thesis using that[OF copied] by (simp add: t s1)
qed

section \<open>The calls of a workspace\<close>

lemma sandbox_apply_changes_Inr:
  assumes "sandbox_apply_changes env ws cs s = (Inr sn, t)"
  obtains st t1 diff where
    "state_for ws s = (Inr st, s)" "apply_each env (ws_id ws) cs s = (Inr (), t1)"
    "sandbox_snapshot env ws (set_workspace (ws_id ws) (st\<lparr>wt_diff := Some diff\<rparr>) t1) = (Inr sn, t)"
  using assms unfolding sandbox_apply_changes_def set_diff_def
  by (auto elim!: bindE_InrE simp: state_for_Inr)

lemma make_snapshot_files:
  "make_snapshot x = Inr sn \<Longrightarrow> sn_changed_files sn = map strip (sn_changed_files x)"
  by (auto simp: make_snapshot_def andThen_def unless_def split: sum.splits if_splits)

lemma sandbox_snapshot_Inr:
  assumes "sandbox_snapshot env ws s = (Inr sn, t)"
  obtains st where "state_for ws s = (Inr st, s)"
    "t = set_workspace (ws_id ws) (st\<lparr>wt_fingerprint := Some (tree_digest env (tree_of (ws_id ws) s))\<rparr>) s"
    "sn_changed_files sn = map strip (changed_paths (wt_base_manifest st) (manifest (sx_sha env) (tree_of (ws_id ws) s)))"
proof -
  from assms obtain st s1 where st: "state_for ws s = (Inr st, s1)"
    and rest: "(make_snapshot
             \<lparr>sn_workspace_id = ws_id ws, sn_repository = ws_repository ws, sn_base_ref = ws_base_ref ws,
              sn_changed_files = changed_paths (wt_base_manifest st) (manifest (sx_sha env) (tree_of (ws_id ws) s1)),
              sn_diff_digest = canonical_digest (sx_sha env) (diff_material (wt_base_manifest st) (manifest (sx_sha env) (tree_of (ws_id ws) s1))),
              sn_content_digest = tree_digest env (tree_of (ws_id ws) s1), sn_base_commit = wt_base_commit st\<rparr>,
           set_workspace (ws_id ws) (st\<lparr>wt_fingerprint := Some (tree_digest env (tree_of (ws_id ws) s1))\<rparr>) s1) = (Inr sn, t)"
    unfolding sandbox_snapshot_def Let_def by (rule bindE_InrE)
  from st have "s1 = s" by (simp add: state_for_Inr)
  from rest[THEN arg_cong[of _ _ fst]] have "make_snapshot
             \<lparr>sn_workspace_id = ws_id ws, sn_repository = ws_repository ws, sn_base_ref = ws_base_ref ws,
              sn_changed_files = changed_paths (wt_base_manifest st) (manifest (sx_sha env) (tree_of (ws_id ws) s1)),
              sn_diff_digest = canonical_digest (sx_sha env) (diff_material (wt_base_manifest st) (manifest (sx_sha env) (tree_of (ws_id ws) s1))),
              sn_content_digest = tree_digest env (tree_of (ws_id ws) s1), sn_base_commit = wt_base_commit st\<rparr> = Inr sn"
    by (simp only: fst_conv)
  from make_snapshot_files[OF this] have files: "sn_changed_files sn =
      map strip (changed_paths (wt_base_manifest st) (manifest (sx_sha env) (tree_of (ws_id ws) s)))"
    by (simp only: \<open>s1 = s\<close> snapshot.simps)
  from rest[THEN arg_cong[of _ _ snd]] have t: "t = set_workspace (ws_id ws) (st\<lparr>wt_fingerprint := Some (tree_digest env (tree_of (ws_id ws) s))\<rparr>) s"
    by (simp only: snd_conv \<open>s1 = s\<close>)
  from st \<open>s1 = s\<close> have "state_for ws s = (Inr st, s)" by simp
  then show thesis using t files by (rule that)
qed

text \<open>Preparing a workspace and applying a list of changes to it.\<close>

lemma prepared_candidate:
  assumes env: "copies_well env" and wid: "strip wid = wid"
    and prepare: "sandbox_prepare env wid mid s = (Inr ws, s1)"
    and run: "sandbox_apply_changes env ws cs s1 = (Inr sn, s2)"
  shows "leaf_at (tree_of wid s2) = change_map cs (leaf_at (tree_of wid s1))"
    and "sn_changed_files sn = map strip (reported_files (sx_sha env) cs (leaf_at (tree_of wid s1)))"
    and "sd_through s2 = sd_through s"
    and "v \<noteq> wid \<Longrightarrow> tree_of v s2 = tree_of v s"
    and "v \<noteq> wid \<Longrightarrow> map_of (sd_states s2) v = map_of (sd_states s) v"
proof -
  obtain copied es base w w' where
    copied: "sx_copytree env w = (Inr copied, w')" "link_dependencies copied (rp_links (sx_profile env)) = Inr es"
    and p: "tree_of wid s1 = es" "ws_id ws = strip wid" "\<And>v. v \<noteq> wid \<Longrightarrow> tree_of v s1 = tree_of v s"
      "map_of (sd_states s1) wid = Some \<lparr>wt_profile = sx_profile env, wt_base_manifest = manifest (sx_sha env) es,
                                        wt_base_commit = base, wt_fingerprint = None, wt_diff = None\<rparr>"
      "\<And>v. v \<noteq> wid \<Longrightarrow> map_of (sd_states s1) v = map_of (sd_states s) v" "sd_through s1 = sd_through s"
    by (rule sandbox_prepare_Inr[OF prepare], rule that)
  from copies_wellD(1)[OF env copied(1)] copies_wellD(2)[OF env copied(2)] p(1)
  have tree: "settled (tree_of wid s1)" "entries_ok (tree_of wid s1)" by simp_all
  have id: "ws_id ws = wid" using p(2) wid by simp
  obtain st t1 diff where st: "state_for ws s1 = (Inr st, s1)"
    and each: "apply_each env wid cs s1 = (Inr (), t1)"
    and snap: "sandbox_snapshot env ws (set_workspace wid (st\<lparr>wt_diff := Some diff\<rparr>) t1) = (Inr sn, s2)"
    by (rule sandbox_apply_changes_Inr[OF run, unfolded id])
  from st p(4) id have base: "wt_base_manifest st = manifest (sx_sha env) (tree_of wid s1)"
    by (auto simp: state_for_Inr p(1))
  let ?t2 = "set_workspace wid (st\<lparr>wt_diff := Some diff\<rparr>) t1"
  obtain st2 where st2: "state_for ws ?t2 = (Inr st2, ?t2)"
    and s2: "s2 = set_workspace wid (st2\<lparr>wt_fingerprint := Some (tree_digest env (tree_of wid ?t2))\<rparr>) ?t2"
    and files: "sn_changed_files sn = map strip (changed_paths (wt_base_manifest st2) (manifest (sx_sha env) (tree_of wid ?t2)))"
    by (rule sandbox_snapshot_Inr[OF snap, unfolded id])
  from st2 id have "st2 = st\<lparr>wt_diff := Some diff\<rparr>" by (simp add: state_for_Inr)
  with files base applied_changed_paths[OF each tree]
  show "sn_changed_files sn = map strip (reported_files (sx_sha env) cs (leaf_at (tree_of wid s1)))" by simp
  note after = apply_each_tree[OF each tree(1)]
  from after show "leaf_at (tree_of wid s2) = change_map cs (leaf_at (tree_of wid s1))" by (simp add: s2)
  from after p(6) show "sd_through s2 = sd_through s" by (simp add: s2)
  have frame: "tree_only wid s1 t1" using apply_each_tree_only[of wid s1 env cs] each by simp
  show "v \<noteq> wid \<Longrightarrow> tree_of v s2 = tree_of v s" using frame p(3) by (simp add: s2 tree_only_def)
  show "v \<noteq> wid \<Longrightarrow> map_of (sd_states s2) v = map_of (sd_states s) v" using frame p(5) by (simp add: s2 tree_only_def)
qed

section \<open>Running the tests\<close>

text \<open>The codes in the records of a run: the report fails with the first code that is not zero and stops there.\<close>

definition record_code :: "json \<Rightarrow> int" where
  "record_code r = (case r of JObj d \<Rightarrow> (case dict_get d ''returncode'' of JInt c \<Rightarrow> c | _ \<Rightarrow> 0) | _ \<Rightarrow> 0)"

lemma record_code_command [simp]: "record_code (command_record i c out err) = c"
  by (simp add: record_code_def command_record_def dict_get_def)

lemma run_commands_report:
  "run_commands env wid i cmds s = (Inr (recs, parts, code), t) \<Longrightarrow>
   length recs \<le> length cmds \<and> length parts = length recs \<and>
   (if code = 0 then length recs = length cmds \<and> (\<forall>r \<in> set recs. record_code r = 0)
    else recs \<noteq> [] \<and> record_code (last recs) = code \<and> (\<forall>r \<in> set (butlast recs). record_code r = 0))"
proof (induction cmds arbitrary: i s recs parts code t)
  case (Cons c cs)
  obtain run es w where run: "sx_run_command env c (tree_of wid s) (sd_host s) = (run, es, w)"
    by (cases "sx_run_command env c (tree_of wid s) (sd_host s)")
  let ?s1 = "set_tree wid es (s\<lparr>sd_host := w\<rparr>)"
  show ?case
  proof (cases run)
    case (Finished k out err)
    show ?thesis
    proof (cases "k = 0")
      case False
      with Cons.prems run Finished show ?thesis by (auto simp: Let_def)
    next
      case True
      with Cons.prems run Finished obtain recs' parts' where rest: "run_commands env wid (Suc i) cs ?s1 = (Inr (recs', parts', code), t)"
        and cons: "recs = command_record i k (output_text out) (output_text err) # recs'"
          "parts = command_summary i k (output_text out) (output_text err) # parts'"
        by (auto simp: Let_def split: prod.splits sum.splits)
      have "length recs' \<le> length cs \<and> length parts' = length recs' \<and>
        (if code = 0 then length recs' = length cs \<and> (\<forall>r \<in> set recs'. record_code r = 0)
         else recs' \<noteq> [] \<and> record_code (last recs') = code \<and> (\<forall>r \<in> set (butlast recs'). record_code r = 0))"
        by (rule Cons.IH[OF rest])
      with cons True show ?thesis by auto
    qed
  qed (use Cons.prems run in \<open>simp_all add: Let_def\<close>)
qed simp

lemma run_commands_frame:
  "run_commands env wid i cmds s = (r, t) \<Longrightarrow>
   sd_states t = sd_states s \<and> sd_through t = sd_through s \<and> (\<forall>v. v \<noteq> wid \<longrightarrow> tree_of v t = tree_of v s)"
proof (induction cmds arbitrary: i s r t)
  case (Cons c cs)
  obtain run es w where run: "sx_run_command env c (tree_of wid s) (sd_host s) = (run, es, w)"
    by (cases "sx_run_command env c (tree_of wid s) (sd_host s)")
  let ?s1 = "set_tree wid es (s\<lparr>sd_host := w\<rparr>)"
  show ?case
  proof (cases "\<exists>out err. run = Finished 0 out err")
    case True
    then obtain out err where fin: "run = Finished 0 out err" by blast
    obtain r' t' where rest: "run_commands env wid (Suc i) cs ?s1 = (r', t')"
      by (cases "run_commands env wid (Suc i) cs ?s1")
    with Cons.prems run fin have "t = t'" by (auto simp: Let_def split: sum.splits prod.splits)
    moreover have "sd_states t' = sd_states ?s1 \<and> sd_through t' = sd_through ?s1 \<and> (\<forall>v. v \<noteq> wid \<longrightarrow> tree_of v t' = tree_of v ?s1)"
      by (rule Cons.IH[OF rest])
    ultimately show ?thesis by simp
  next
    case False
    with Cons.prems run have "t = ?s1" by (cases run) (auto simp: Let_def split: if_splits)
    then show ?thesis by simp
  qed
qed simp

lemma require_current_Inr:
  "require_current_snapshot env wid st s = (Inr u, t) \<longleftrightarrow> t = s \<and> wt_fingerprint st = Some (tree_digest env (tree_of wid s))"
  by (auto simp: require_current_snapshot_def split: option.splits)

lemma require_current_snd [simp]: "snd (require_current_snapshot env wid st s) = s"
  by (simp add: require_current_snapshot_def split: option.split)

lemma make_test_evidence_Inr:
  "make_test_evidence te = Inr ev \<Longrightarrow>
   te_passed ev = te_passed te \<and> te_exit_code ev = te_exit_code te \<and> te_summary ev = strip (te_summary te) \<and> length (te_summary ev) \<le> 4000"
  by (auto simp: make_test_evidence_def required_def andThen_def unless_def split: sum.splits if_splits)

lemma sandbox_run_tests_Inr:
  assumes "sandbox_run_tests env ws s = (Inr ev, t)"
  obtains st recs parts code where
    "state_for ws s = (Inr st, s)" "wt_fingerprint st = Some (tree_digest env (tree_of (ws_id ws) s))"
    "run_commands env (ws_id ws) 1 (rp_test_commands (wt_profile st)) s = (Inr (recs, parts, code), t)"
    "te_passed ev = (code = 0)" "te_exit_code ev = code" "length (te_summary ev) \<le> 4000"
proof -
  from assms obtain st where st: "state_for ws s = (Inr st, s)" "wt_fingerprint st = Some (tree_digest env (tree_of (ws_id ws) s))"
    and rest: "bindE (run_commands env (ws_id ws) 1 (rp_test_commands (wt_profile st))) (\<lambda>(recs, parts, code).
       liftE (make_test_evidence
         \<lparr>te_passed = (code = 0), te_exit_code = code, te_summary = evidence_summary parts,
          te_digest = canonical_digest (sx_sha env) (JList recs)\<rparr>)) s = (Inr ev, t)"
    unfolding sandbox_run_tests_def by (auto elim!: bindE_InrE simp: state_for_Inr require_current_Inr)
  from rest obtain recs parts code where run: "run_commands env (ws_id ws) 1 (rp_test_commands (wt_profile st)) s = (Inr (recs, parts, code), t)"
    and ev: "make_test_evidence \<lparr>te_passed = (code = 0), te_exit_code = code, te_summary = evidence_summary parts,
          te_digest = canonical_digest (sx_sha env) (JList recs)\<rparr> = Inr ev"
    by (auto elim!: bindE_InrE)
  from make_test_evidence_Inr[OF ev] have "te_passed ev = (code = 0)" "te_exit_code ev = code" "length (te_summary ev) \<le> 4000"
    by (elim conjE, simp)+
  then show thesis by (rule that[OF st run])
qed

lemma current_snapshot_state:
  "state_for ws s = (Inr st, s) \<Longrightarrow> sd_states t = sd_states s \<Longrightarrow> state_for ws t = (Inr st, t)"
  by (simp add: state_for_Inr)

text \<open>A stale workspace is refused: nothing more is reviewed or tested.\<close>

lemma stale_refused:
  assumes "state_for ws s = (Inr st, s)" and "wt_fingerprint st = Some f" and "tree_digest env (tree_of (ws_id ws) s) \<noteq> f"
  shows "sandbox_review_diff env ws s = (Inl (RuntimeError ''repository workspace snapshot is stale''), s)"
    and "sandbox_run_tests env ws s = (Inl (RuntimeError ''repository workspace snapshot is stale''), s)"
  using assms by (simp_all add: sandbox_review_diff_def sandbox_run_tests_def bindE_def require_current_snapshot_def)

lemma tests_leave_traces:
  assumes run: "sandbox_run_tests env ws s = (Inr ev, t)"
    and changed: "tree_digest env (tree_of (ws_id ws) t) \<noteq> tree_digest env (tree_of (ws_id ws) s)"
  shows "sandbox_review_diff env ws t = (Inl (RuntimeError ''repository workspace snapshot is stale''), t)"
    and "sandbox_run_tests env ws t = (Inl (RuntimeError ''repository workspace snapshot is stale''), t)"
proof -
  from sandbox_run_tests_Inr[OF run] obtain st recs parts code where
    st: "state_for ws s = (Inr st, s)" "wt_fingerprint st = Some (tree_digest env (tree_of (ws_id ws) s))"
    and cmds: "run_commands env (ws_id ws) 1 (rp_test_commands (wt_profile st)) s = (Inr (recs, parts, code), t)"
    by metis
  from run_commands_frame[OF cmds] have "sd_states t = sd_states s" by blast
  with st(1) have "state_for ws t = (Inr st, t)" by (rule current_snapshot_state)
  from stale_refused[OF this st(2) changed] show
    "sandbox_review_diff env ws t = (Inl (RuntimeError ''repository workspace snapshot is stale''), t)"
    "sandbox_run_tests env ws t = (Inl (RuntimeError ''repository workspace snapshot is stale''), t)" .
qed

section \<open>Sequences of calls\<close>

datatype sandbox_call =
    SPrepare string string
  | SApply workspace "file_change list"
  | SSnapshot workspace
  | SReview workspace
  | STests workspace

primrec sandbox_step :: "'w sandbox_env \<Rightarrow> sandbox_call \<Rightarrow> 'w sandbox_db \<Rightarrow> 'w sandbox_db" where
  "sandbox_step env (SPrepare wid mid) s = snd (sandbox_prepare env wid mid s)"
| "sandbox_step env (SApply ws cs) s = snd (sandbox_apply_changes env ws cs s)"
| "sandbox_step env (SSnapshot ws) s = snd (sandbox_snapshot env ws s)"
| "sandbox_step env (SReview ws) s = snd (sandbox_review_diff env ws s)"
| "sandbox_step env (STests ws) s = snd (sandbox_run_tests env ws s)"

definition sandbox_run :: "'w sandbox_env \<Rightarrow> sandbox_call list \<Rightarrow> 'w sandbox_db \<Rightarrow> 'w sandbox_db" where
  "sandbox_run env calls s = fold (sandbox_step env) calls s"

text \<open>Every tree is well formed without a link that leads nowhere, and nothing was written through a link.\<close>

definition tree_good :: "entries \<Rightarrow> bool" where
  "tree_good es \<longleftrightarrow> entries_ok es \<and> settled es"

definition contained :: "('w, 'a) sandbox_db_scheme \<Rightarrow> bool" where
  "contained s \<longleftrightarrow> sd_through s = [] \<and> (\<forall>wid. tree_good (tree_of wid s))"

text \<open>The test commands leave such trees behind.\<close>

definition runs_well :: "'w sandbox_env \<Rightarrow> bool" where
  "runs_well env \<longleftrightarrow>
     (\<forall>c es w run es' w'. sx_run_command env c es w = (run, es', w') \<longrightarrow> tree_good es \<longrightarrow> tree_good es')"

lemma settled_Nil [simp]: "settled []"
proof -
  have "leaf_at [] ps = None" for ps by (cases ps) simp_all
  then show ?thesis by (simp add: settled_def)
qed

lemma containedI: "sd_through t = [] \<Longrightarrow> (\<And>v. tree_good (tree_of v t)) \<Longrightarrow> contained t"
  by (simp add: contained_def)

lemma contained_state [simp]: "contained (set_workspace wid st s) = contained s"
  by (simp add: contained_def)

lemma contained_host [simp]: "contained (s\<lparr>sd_host := w\<rparr>) = contained s"
  by (simp add: contained_def)

lemma contained_set_tree: "contained s \<Longrightarrow> tree_good es \<Longrightarrow> contained (set_tree wid es s)"
  by (simp add: contained_def)

lemma prepare_contained:
  assumes env: "copies_well env" and s: "contained s"
  shows "contained (snd (sandbox_prepare env wid mid s))"
proof (cases "strip mid = []")
  case True
  with s show ?thesis by (simp add: sandbox_prepare_def)
next
  case False
  obtain r s1 where base: "resolve_base_commit env (rp_base_ref (sx_profile env)) s = (r, s1)"
    by (cases "resolve_base_commit env (rp_base_ref (sx_profile env)) s")
  from keepsD'[OF resolve_base_commit_keeps base] s have s1: "contained s1"
    by (simp add: same_def contained_def tree_of_def)
  obtain copy w where copy: "sx_copytree env (sd_host s1) = (copy, w)" by (cases "sx_copytree env (sd_host s1)")
  show ?thesis
  proof (cases r)
    case (Inl e)
    with False base s1 show ?thesis by (simp add: sandbox_prepare_def bindE_def)
  next
    case (Inr commit)
    show ?thesis
    proof (cases copy)
      case (Inl e)
      with False base s1 copy Inr show ?thesis by (simp add: sandbox_prepare_def bindE_def)
    next
      case copied: (Inr copied)
      with copies_wellD(1)[OF env] copy have good: "tree_good copied" by (simp add: tree_good_def)
      show ?thesis
      proof (cases "link_dependencies copied (rp_links (sx_profile env))")
        case (Inl e)
        with False base s1 copy Inr copied good show ?thesis
          by (simp add: sandbox_prepare_def bindE_def contained_set_tree)
      next
        case linked: (Inr es)
        with copies_wellD(2)[OF env linked] good have "tree_good es" by (simp add: tree_good_def)
        with False base s1 copy Inr copied linked show ?thesis
          by (simp add: sandbox_prepare_def bindE_def contained_set_tree)
      qed
    qed
  qed
qed

lemma apply_each_contained:
  assumes "contained s"
  shows "contained (snd (apply_each env wid cs s))"
proof (rule containedI)
  let ?t = "snd (apply_each env wid cs s)"
  from assms have s: "sd_through s = []" "settled (tree_of wid s)" "entries_ok (tree_of wid s)"
    by (simp_all add: contained_def tree_good_def)
  from apply_each_through[OF s(2)] s(1) show "sd_through ?t = []" by simp
  show "tree_good (tree_of v ?t)" for v
  proof (cases "v = wid")
    case True
    with apply_each_through[OF s(2)] apply_each_ok[OF s(3)] show ?thesis by (simp add: tree_good_def)
  next
    case False
    with apply_each_tree_only[of wid s env cs] assms show ?thesis by (simp add: tree_only_def contained_def)
  qed
qed

lemma snapshot_contained: "contained s \<Longrightarrow> contained (snd (sandbox_snapshot env ws s))"
  unfolding sandbox_snapshot_def
  by (rule ensures_snd[where P = contained], rule ensures_bindE[where R = "\<lambda>_. contained"])
     (auto simp: ensures_def Let_def split: prod.split sum.split dest: arg_cong[of _ _ snd])

lemma apply_contained:
  assumes "contained s"
  shows "contained (snd (sandbox_apply_changes env ws cs s))"
proof (cases "fst (state_for ws s)")
  case (Inl e)
  then have "state_for ws s = (Inl e, s)" by (metis prod.collapse state_for_snd)
  with assms show ?thesis by (simp add: sandbox_apply_changes_def)
next
  case (Inr st)
  then have st: "state_for ws s = (Inr st, s)" by (metis prod.collapse state_for_snd)
  let ?before = "texts_before env (tree_of (ws_id ws) s) [] cs"
  obtain r t where each: "apply_each env (ws_id ws) cs s = (r, t)" by (cases "apply_each env (ws_id ws) cs s")
  with apply_each_contained[OF assms, of env "ws_id ws" cs] have t: "contained t" by simp
  show ?thesis
  proof (cases ?before)
    case (Inl e)
    with st assms show ?thesis by (simp add: sandbox_apply_changes_def)
  next
    case before: (Inr b)
    show ?thesis
    proof (cases r)
      case (Inl e)
      with st before each t show ?thesis by (simp add: sandbox_apply_changes_def)
    next
      case r: (Inr u)
      show ?thesis
      proof (cases "texts_after env (tree_of (ws_id ws) t) (map fst b)")
        case (Inl e)
        with st before each t r show ?thesis by (simp add: sandbox_apply_changes_def)
      next
        case after: (Inr a)
        with st before each t r show ?thesis
          by (cases "build_review_diff env b a") (simp_all add: sandbox_apply_changes_def set_diff_def snapshot_contained)
      qed
    qed
  qed
qed

lemma run_commands_good:
  "runs_well env \<Longrightarrow> tree_good (tree_of wid s) \<Longrightarrow> tree_good (tree_of wid (snd (run_commands env wid i cmds s)))"
proof (induction cmds arbitrary: i s)
  case (Cons c cs)
  obtain run es w where run: "sx_run_command env c (tree_of wid s) (sd_host s) = (run, es, w)"
    by (cases "sx_run_command env c (tree_of wid s) (sd_host s)")
  with Cons.prems have es: "tree_good es" unfolding runs_well_def by blast
  let ?s1 = "set_tree wid es (s\<lparr>sd_host := w\<rparr>)"
  from es Cons.IH[OF Cons.prems(1), of ?s1 "Suc i"] have "tree_good (tree_of wid (snd (run_commands env wid (Suc i) cs ?s1)))"
    by simp
  with run es show ?case by (cases run) (auto simp: Let_def split: prod.split sum.split)
qed simp

lemma run_tests_contained:
  assumes env: "runs_well env" and s: "contained s"
  shows "contained (snd (sandbox_run_tests env ws s))"
proof (cases "fst (state_for ws s)")
  case (Inl e)
  then have "state_for ws s = (Inl e, s)" by (metis prod.collapse state_for_snd)
  with s show ?thesis by (simp add: sandbox_run_tests_def)
next
  case (Inr st)
  then have st: "state_for ws s = (Inr st, s)" by (metis prod.collapse state_for_snd)
  obtain q where cur: "require_current_snapshot env (ws_id ws) st s = (q, s)"
    by (metis prod.collapse require_current_snd)
  obtain r t where run: "run_commands env (ws_id ws) 1 (rp_test_commands (wt_profile st)) s = (r, t)"
    by (cases "run_commands env (ws_id ws) 1 (rp_test_commands (wt_profile st)) s")
  have t: "contained t"
  proof (rule containedI)
    from run_commands_frame[OF run] s show "sd_through t = []" by (simp add: contained_def)
    show "tree_good (tree_of v t)" for v
      using run_commands_frame[OF run] s run_commands_good[OF env, of "ws_id ws" s 1 "rp_test_commands (wt_profile st)"] run
      by (cases "v = ws_id ws") (simp_all add: contained_def)
  qed
  from st cur run s t show ?thesis
    by (cases q; cases r) (simp_all add: sandbox_run_tests_def bindE_def split: prod.split)
qed

lemma review_contained: "contained s \<Longrightarrow> contained (snd (sandbox_review_diff env ws s))"
proof -
  assume s: "contained s"
  have "snd (sandbox_review_diff env ws s) = s"
  proof (cases "fst (state_for ws s)")
    case (Inl e)
    then have "state_for ws s = (Inl e, s)" by (metis prod.collapse state_for_snd)
    then show ?thesis by (simp add: sandbox_review_diff_def)
  next
    case (Inr st)
    then have st: "state_for ws s = (Inr st, s)" by (metis prod.collapse state_for_snd)
    obtain q where cur: "require_current_snapshot env (ws_id ws) st s = (q, s)"
      by (metis prod.collapse require_current_snd)
    from st cur show ?thesis by (cases q) (simp_all add: sandbox_review_diff_def split: option.split)
  qed
  with s show ?thesis by simp
qed

lemma sandbox_step_contained:
  "copies_well env \<Longrightarrow> runs_well env \<Longrightarrow> contained s \<Longrightarrow> contained (sandbox_step env call s)"
  by (cases call) (simp_all add: prepare_contained apply_contained snapshot_contained review_contained run_tests_contained)

lemma sandbox_run_contained:
  "copies_well env \<Longrightarrow> runs_well env \<Longrightarrow> contained s \<Longrightarrow> contained (sandbox_run env calls s)"
  unfolding sandbox_run_def by (induction calls arbitrary: s) (simp_all add: sandbox_step_contained)

end
