(* ===== verification/Service_Properties.thy ===== *)
theory Service_Properties
  imports Chat_Runs Knowledge_Laws Sandbox_Laws Change_Properties
begin

text \<open>
  The properties of the services around the delivery core: the chat, the Knowledge Core and the isolated
  repository workspace, each with an instance on sample values.
\<close>

section \<open>Sequences of chat requests\<close>

datatype chat_action =
    OpenChat string int string string
  | Say chat_call string
  | Poll chat_call string

primrec chat_action_step ::
  "'w chat_env \<Rightarrow> chat_action \<Rightarrow> ('w, 'a) chat_db_scheme \<Rightarrow> ('w, 'a) chat_db_scheme" where
  "chat_action_step env (OpenChat i t0 owner agent) s = snd (create_conversation i t0 owner agent s)"
| "chat_action_step env (Say call raw) s = snd (chat_submit env call raw s)"
| "chat_action_step env (Poll call mid) s = snd (chat_refresh env call mid s)"

definition chat_run ::
  "'w chat_env \<Rightarrow> chat_action list \<Rightarrow> ('w, 'a) chat_db_scheme \<Rightarrow> ('w, 'a) chat_db_scheme" where
  "chat_run env acts s = fold (chat_action_step env) acts s"

text \<open>Who speaks where.\<close>

fun speaks_in :: "string \<Rightarrow> string \<Rightarrow> chat_action \<Rightarrow> bool" where
  "speaks_in owner cid (OpenChat i t0 o1 a) \<longleftrightarrow> False"
| "speaks_in owner cid (Say call raw) \<longleftrightarrow> ch_owner call = owner \<and> ch_conversation call = cid"
| "speaks_in owner cid (Poll call mid) \<longleftrightarrow> ch_owner call = owner \<and> ch_conversation call = cid"

definition chat_grows :: "('w, 'a) chat_db_scheme \<Rightarrow> ('w, 'a) chat_db_scheme \<Rightarrow> bool" where
  "chat_grows s t \<longleftrightarrow>
     (\<exists>cs. conversations t = conversations s @ cs) \<and> (\<exists>ms. chat_messages t = chat_messages s @ ms)"

lemma chat_grows_refl [simp]: "chat_grows s s"
  by (simp add: chat_grows_def)

lemma chat_grows_trans: "chat_grows s t \<Longrightarrow> chat_grows t u \<Longrightarrow> chat_grows s u"
  by (auto simp: chat_grows_def)

lemma speaks_grows: "speaks cid s t \<Longrightarrow> chat_grows s t"
  by (auto simp: speaks_def chat_grows_def)

lemma create_conversation_cases:
  "snd (create_conversation i t0 owner agent s) = s \<or>
   (\<exists>c. snd (create_conversation i t0 owner agent s) = s\<lparr>conversations := conversations s @ [c]\<rparr> \<and>
        cv_id c \<notin> cv_id ` set (conversations s))"
  by (auto simp: create_conversation_def insert_row_def Let_def)

lemma create_conversation_inv: "chat_inv s \<Longrightarrow> chat_inv (snd (create_conversation i t0 owner agent s))"
  using create_conversation_cases[of i t0 owner agent s] by (auto simp: chat_inv_def)

lemma chat_action_step_grows: "chat_grows s (chat_action_step env a s)"
proof (cases a)
  case (OpenChat i t0 owner agent)
  with create_conversation_cases[of i t0 owner agent s] show ?thesis by (auto simp: chat_grows_def)
qed (simp_all add: speaks_grows[OF keepsD[OF chat_submit_speaks]] speaks_grows[OF keepsD[OF chat_refresh_speaks]])

lemma chat_action_step_inv: "chat_inv s \<Longrightarrow> chat_inv (chat_action_step env a s)"
proof (cases a)
  case (Say call raw)
  then show "chat_inv s \<Longrightarrow> ?thesis" using keepsD[OF chat_submit_speaks, of call s env raw] by (simp add: speaks_def)
next
  case (Poll call mid)
  then show "chat_inv s \<Longrightarrow> ?thesis" using keepsD[OF chat_refresh_speaks, of call s env mid] by (simp add: speaks_def)
qed (simp add: create_conversation_inv)

lemma speaks_elsewhere: "speaks cid' s t \<Longrightarrow> cid' \<noteq> cid \<Longrightarrow> in_conversation cid (chat_messages t) = in_conversation cid (chat_messages s)"
  by (auto simp: speaks_def in_conversation_def filter_empty_conv)

lemma sole_owner:
  "chat_inv s \<Longrightarrow> c \<in> set (conversations s) \<Longrightarrow> owner \<noteq> cv_owner c \<Longrightarrow> \<not> owns owner (cv_id c) s"
  by (auto simp: owns_def chat_inv_def distinct_map dest: inj_onD)

lemma submit_blank: "strip raw = [] \<Longrightarrow> snd (chat_submit env call raw s) = s"
  by (simp add: chat_submit_def)

lemma chat_action_step_private:
  assumes inv: "chat_inv s" and c: "c \<in> set (conversations s)" and a: "\<not> speaks_in (cv_owner c) (cv_id c) a"
  shows "in_conversation (cv_id c) (chat_messages (chat_action_step env a s)) = in_conversation (cv_id c) (chat_messages s)"
proof (cases a)
  case (OpenChat i t0 owner agent)
  with create_conversation_cases[of i t0 owner agent s] show ?thesis by auto
next
  case (Say call raw)
  show ?thesis
  proof (cases "ch_conversation call = cv_id c")
    case True
    with a Say sole_owner[OF inv c, of "ch_owner call"] have "\<not> owns (ch_owner call) (ch_conversation call) s" by auto
    from stranger_refused(3)[OF this, of raw env] submit_blank[of raw env call s] have "snd (chat_submit env call raw s) = s"
      by (cases "strip raw = []") (simp_all add: denied_def)
    with Say show ?thesis by simp
  next
    case False
    with speaks_elsewhere[OF keepsD[OF chat_submit_speaks]] Say show ?thesis by simp
  qed
next
  case (Poll call mid)
  show ?thesis
  proof (cases "ch_conversation call = cv_id c")
    case True
    with a Poll sole_owner[OF inv c, of "ch_owner call"] have "\<not> owns (ch_owner call) (ch_conversation call) s" by auto
    from stranger_refused(2)[OF this, of env mid] have "snd (chat_refresh env call mid s) = s" by (simp add: denied_def)
    with Poll show ?thesis by simp
  next
    case False
    with speaks_elsewhere[OF keepsD[OF chat_refresh_speaks]] Poll show ?thesis by simp
  qed
qed

lemma chat_run_simps [simp]:
  "chat_run env [] s = s" "chat_run env (a # acts) s = chat_run env acts (chat_action_step env a s)"
  by (simp_all add: chat_run_def)

lemma chat_run_inv: "chat_inv s \<Longrightarrow> chat_inv (chat_run env acts s) \<and> chat_grows s (chat_run env acts s)"
  by (induction acts arbitrary: s) (auto intro: chat_action_step_inv chat_grows_trans[OF chat_action_step_grows])

lemma chat_run_private:
  "chat_inv s \<Longrightarrow> c \<in> set (conversations s) \<Longrightarrow> \<forall>a \<in> set acts. \<not> speaks_in (cv_owner c) (cv_id c) a \<Longrightarrow>
   in_conversation (cv_id c) (chat_messages (chat_run env acts s)) = in_conversation (cv_id c) (chat_messages s)"
proof (induction acts arbitrary: s)
  case (Cons a acts)
  let ?t = "chat_action_step env a s"
  from chat_action_step_grows[of s env a] Cons.prems(2) have "c \<in> set (conversations ?t)" by (auto simp: chat_grows_def)
  with Cons.IH[of ?t] Cons.prems chat_action_step_inv[OF Cons.prems(1)] chat_action_step_private[OF Cons.prems(1,2)]
  show ?case by simp
qed simp

section \<open>Sample values\<close>

definition sample_session :: string where
  "sample_session = ''session-a''"

definition sample_talk :: conversation where
  "sample_talk = \<lparr>cv_id = ''c1'', cv_owner = sample_session, cv_agent_key = ''sysadmin'', cv_created = 0\<rparr>"

definition chat_sample :: "nat chat_db" where
  "chat_sample =
     \<lparr>ledger = [], missions = [], mission_steps = [], approval_requests = [], scoped_rules = [], system_row = None,
      agents = [], notifications = [], incidents = [], attempts = [], world = 0, deliveries = [],
      conversations = [sample_talk], chat_messages = []\<rparr>"

definition chat_sample_env :: "nat chat_env" where
  "chat_sample_env =
     \<lparr>ch_resolve = validation_resolve, ch_model = None, ch_changes = None, ch_general_prompt = [],
      ch_grounded_prompt = [], ch_dash = ''-''\<rparr>"

definition chat_sample_call :: "string \<Rightarrow> chat_call" where
  "chat_sample_call owner =
     \<lparr>ch_owner = owner, ch_conversation = ''c1'', ch_user_id = ''u1'', ch_user_at = 1, ch_reply_id = ''r1'',
      ch_reply_at = 2, ch_mission_id = ''m1'', ch_mission_at = 1, ch_step_ids = (\<lambda>i. nat_repr i),
      ch_change_call = sample_change_call\<rparr>"

lemma chat_sample_inv: "chat_inv chat_sample"
  by (simp add: chat_inv_def chat_sample_def)

section \<open>The chat\<close>

text \<open>
  C2: over any sequence of chat requests, conversations and messages are only added, the messages of each
  conversation stay numbered from one without gaps, and a conversation gets no message from requests that
  do not come from the session that owns it.
\<close>

theorem chat_history_private:
  assumes inv: "chat_inv s" and c: "c \<in> set (conversations s)"
  shows "chat_inv (chat_run env acts s) \<and> chat_grows s (chat_run env acts s) \<and>
    ((\<forall>a \<in> set acts. \<not> speaks_in (cv_owner c) (cv_id c) a) \<longrightarrow>
     in_conversation (cv_id c) (chat_messages (chat_run env acts s)) = in_conversation (cv_id c) (chat_messages s))"
  using chat_run_inv[OF inv] chat_run_private[OF inv c] by blast

theorem chat_history_private_witness:
  "in_conversation ''c1'' (chat_messages (chat_run chat_sample_env
     [Say (chat_sample_call ''session-b'') ''hello'', Poll (chat_sample_call ''session-b'') ''m1''] chat_sample)) = []"
proof -
  let ?acts = "[Say (chat_sample_call ''session-b'') ''hello'', Poll (chat_sample_call ''session-b'') ''m1'']"
  have c: "sample_talk \<in> set (conversations chat_sample)" by (simp add: chat_sample_def)
  have "\<forall>a \<in> set ?acts. \<not> speaks_in (cv_owner sample_talk) (cv_id sample_talk) a"
    by (simp add: chat_sample_call_def sample_talk_def sample_session_def)
  with chat_history_private[OF chat_sample_inv c, of chat_sample_env ?acts]
  have "in_conversation (cv_id sample_talk) (chat_messages (chat_run chat_sample_env ?acts chat_sample)) =
      in_conversation (cv_id sample_talk) (chat_messages chat_sample)" by blast
  moreover have "cv_id sample_talk = ''c1''" "chat_messages chat_sample = []"
    by (simp_all add: sample_talk_def chat_sample_def)
  ultimately show ?thesis by (simp only: in_conversation_simps)
qed

text \<open>
  C13: whatever a message says, it creates at most one mission, an inspection whose steps only read or a
  queued code change; agents, permissions, approvals, rules, deliveries, incidents and the system state keep
  their values, and without a model client the outside world is not touched.
\<close>

theorem chat_confined:
  "adds_work s (snd (chat_submit env call raw s)) \<and>
   guarded_part (snd (chat_submit env call raw s)) = guarded_part s \<and>
   (ch_model env = None \<longrightarrow> world (snd (chat_submit env call raw s)) = world s)"
  using chat_submit_work[of s env call raw] keepsD[OF chat_submit_guarded, of s env call raw]
    keepsD[OF chat_submit_world, of env s call raw]
  by (simp add: same_def)

theorem chat_confined_witness:
  "world (snd (chat_submit chat_sample_env (chat_sample_call sample_session) ''Check AI HQ health'' chat_sample)) = 0"
  using chat_confined[of chat_sample chat_sample_env "chat_sample_call sample_session" "''Check AI HQ health''"]
  by (simp add: chat_sample_env_def chat_sample_def)

text \<open>
  The words of a message are looked for anywhere in it: \<open>quickly\<close> holds \<open>ui\<close>, so that a question that starts
  with \<open>update me\<close> queues a code change.
\<close>

lemma question_queues_change:
  "plan_sysadmin_intent ''Update me on AI HQ health quickly'' = Inr (intent_code_change ''ai-hq'')"
  by code_simp

section \<open>The Knowledge Core\<close>

text \<open>
  C15: over any sequence of calls the stored memories stay well formed (no secret, no confirmed inference,
  confidence between zero and one, expiry for temporary ones), none is ever removed, and each moves only by
  locking, correction with a new revision, or deletion - a locked one only by the first, a deleted one not at all.
\<close>

theorem knowledge_keeps_memories:
  assumes "knowledge_inv s"
  shows "knowledge_inv (knowledge_run cs s) \<and> memories_follow s (knowledge_run cs s)"
  using knowledge_run_inv[OF assms] memories_follow_run[OF assms] by blast

definition sample_memory :: memory where
  "sample_memory =
     \<lparr>k_id = ''k1'', k_category = PREFERENCE, k_content = ''tea'', k_owner_scope = ''user'', k_provenance = [],
      k_confidence = 1, k_verification = UNVERIFIED, k_sensitivity = SENS_NORMAL, k_visibility = VIS_SHARED,
      k_allowed_agents = [], k_pinned = False, k_locked = True, k_temporary = False, k_expires_at = None,
      k_contradicts = None, k_revision = 1, k_verified_at = None, k_deleted_at = None, k_created_at = 0\<rparr>"

definition knowledge_sample :: "nat knowledge_db" where
  "knowledge_sample =
     \<lparr>ledger = [], missions = [], mission_steps = [], approval_requests = [], scoped_rules = [], system_row = None,
      agents = [], notifications = [], incidents = [], attempts = [], world = 0, deliveries = [],
      conversations = [], chat_messages = [], memories = [sample_memory]\<rparr>"

lemma sample_memory_ok: "memory_ok sample_memory"
  by (simp add: memory_ok_def sample_memory_def strip_def is_space_def)

lemma knowledge_sample_inv: "knowledge_inv knowledge_sample"
  by (simp add: knowledge_inv_def knowledge_sample_def sample_memory_ok) (simp add: sample_memory_def)

theorem knowledge_keeps_memories_witness:
  "\<exists>k. row_of k_id ''k1'' (memories (knowledge_run [DeleteMemory ''k1'' 5] knowledge_sample)) = Some k \<and> memory_ok k"
proof -
  have row: "row_of k_id ''k1'' (memories knowledge_sample) = Some sample_memory"
    by (simp add: knowledge_sample_def row_of_def sample_memory_def)
  from knowledge_keeps_memories[OF knowledge_sample_inv, of "[DeleteMemory ''k1'' 5]"] row obtain k where
    "row_of k_id ''k1'' (memories (knowledge_run [DeleteMemory ''k1'' 5] knowledge_sample)) = Some k" "memory_step\<^sup>*\<^sup>* sample_memory k"
    by (auto simp: memories_follow_def)
  moreover have "memory_ok k" if "memory_step\<^sup>*\<^sup>* sample_memory k" for k
    using that sample_memory_ok by (induction rule: rtranclp_induct) (auto intro: memory_step_ok)
  ultimately show ?thesis by blast
qed

section \<open>Isolated workspaces\<close>

definition sample_repository :: profile where
  "sample_repository =
     \<lparr>rp_key = ''ai-hq'', rp_source = [''src''], rp_base_ref = ''main'', rp_test_commands = [[''test'']],
      rp_description = [], rp_test_timeout = 60, rp_copy_excludes = [], rp_links = []\<rparr>"

definition sample_checkout :: entries where
  "sample_checkout = [(''a.txt'', File ''old''), (''b.txt'', File ''b'')]"

definition sample_sx :: "unit sandbox_env" where
  "sample_sx =
     \<lparr>sx_sha = (\<lambda>t. zeros 63 @ (if t = ''old'' then ''1'' else ''0'')), sx_profile = sample_repository, sx_has_git = (\<lambda>_. False),
      sx_git = (\<lambda>_ w. (None, w)), sx_copytree = (\<lambda>w. (Inr sample_checkout, w)), sx_escapes = (\<lambda>_ _. False),
      sx_decode = Some, sx_unified_diff = (\<lambda>_ _ _ _. ''diff''),
      sx_run_command = (\<lambda>_ es w. (Finished 0 None None, es, w))\<rparr>"















text \<open>
  C27: a test report says that the tests passed exactly when every command of the profile ran and returned
  zero; otherwise its code is that of the last command run, which is the first that failed. The report is
  only made of the snapshot's tree; when the commands change that tree, review and tests refuse it from then on.
\<close>

theorem test_report_exact:
  assumes "sandbox_run_tests env ws s = (Inr ev, t)"
  shows "(\<exists>st recs parts. state_for ws s = (Inr st, s) \<and>
      run_commands env (ws_id ws) 1 (rp_test_commands (wt_profile st)) s = (Inr (recs, parts, te_exit_code ev), t) \<and>
      (te_passed ev \<longleftrightarrow> length recs = length (rp_test_commands (wt_profile st)) \<and> (\<forall>r \<in> set recs. record_code r = 0)) \<and>
      (\<not> te_passed ev \<longrightarrow> record_code (last recs) = te_exit_code ev \<and> (\<forall>r \<in> set (butlast recs). record_code r = 0))) \<and>
    (tree_digest env (tree_of (ws_id ws) t) \<noteq> tree_digest env (tree_of (ws_id ws) s) \<longrightarrow>
      fst (sandbox_review_diff env ws t) = Inl (RuntimeError ''repository workspace snapshot is stale''))"
proof -
  from sandbox_run_tests_Inr[OF assms] obtain st recs parts where st: "state_for ws s = (Inr st, s)"
    and run: "run_commands env (ws_id ws) 1 (rp_test_commands (wt_profile st)) s = (Inr (recs, parts, te_exit_code ev), t)"
    and passed: "te_passed ev = (te_exit_code ev = 0)" by metis
  note rep = run_commands_report[OF run]
  have zero: "record_code (last recs) = 0" if "\<forall>r \<in> set recs. record_code r = 0" "recs \<noteq> []"
    using that last_in_set by blast
  have "te_passed ev \<longleftrightarrow> length recs = length (rp_test_commands (wt_profile st)) \<and> (\<forall>r \<in> set recs. record_code r = 0)"
  proof (cases "te_exit_code ev = 0")
    case True
    with rep passed show ?thesis by simp
  next
    case False
    with rep have "recs \<noteq> []" "record_code (last recs) \<noteq> 0" by simp_all
    with zero passed False show ?thesis by blast
  qed
  moreover have "\<not> te_passed ev \<longrightarrow> record_code (last recs) = te_exit_code ev \<and> (\<forall>r \<in> set (butlast recs). record_code r = 0)"
    using rep passed by (auto split: if_splits)
  ultimately show ?thesis using st run tests_leave_traces(1)[OF assms] by auto
qed

definition sample_workspace :: workspace where
  "sample_workspace =
     \<lparr>ws_mission = ''m1'', ws_repository = ''ai-hq'', ws_base_ref = ''main'', ws_id = ''w1'', ws_base_commit = zeros 40\<rparr>"

definition sample_opened :: workspace_state where
  "sample_opened =
     \<lparr>wt_profile = sample_repository, wt_base_manifest = [], wt_base_commit = zeros 40,
      wt_fingerprint = Some (tree_digest sample_sx sample_checkout), wt_diff = Some []\<rparr>"

definition sample_open :: "unit sandbox_db" where
  "sample_open =
     \<lparr>sd_states = [(''w1'', sample_opened)], sd_trees = [(''w1'', sample_checkout)], sd_through = [], sd_host = ()\<rparr>"

lemma sample_tested:
  "case sandbox_run_tests sample_sx sample_workspace sample_open of
     (Inr ev, t) \<Rightarrow> te_passed ev \<and> te_exit_code ev = 0 | (Inl e, t) \<Rightarrow> False"
  by code_simp

theorem test_report_exact_witness:
  "\<exists>ev t recs parts. sandbox_run_tests sample_sx sample_workspace sample_open = (Inr ev, t) \<and> te_passed ev \<and>
     fst (run_commands sample_sx ''w1'' 1 [[''test'']] sample_open) = Inr (recs, parts, 0) \<and> length recs = 1"
proof -
  from sample_tested obtain ev t where run: "sandbox_run_tests sample_sx sample_workspace sample_open = (Inr ev, t)"
    and ev: "te_passed ev" "te_exit_code ev = 0" by (auto split: prod.splits sum.splits)
  have "st = sample_opened" if "state_for sample_workspace sample_open = (Inr st, sample_open)" for st
    using that by (simp add: state_for_Inr) (simp add: sample_open_def sample_workspace_def)
  moreover have "ws_id sample_workspace = ''w1''" "rp_test_commands (wt_profile sample_opened) = [[''test'']]"
    by (simp_all add: sample_workspace_def sample_opened_def sample_repository_def)
  ultimately show ?thesis using test_report_exact[OF run] ev run by fastforce
qed

text \<open>
  A repository that holds a link to a file that does not exist yet: writing to the link's path creates that
  file, wherever it is, before the second check of the path refuses the candidate.
\<close>

definition linking_checkout :: entries where
  "linking_checkout = [(''notes'', Link ''/outside'' (Dangling True))]"

definition linking_db :: "unit sandbox_db" where
  "linking_db = sample_open\<lparr>sd_trees := [(''w1'', linking_checkout)]\<rparr>"

lemma dangling_link_escapes:
  "sandbox_apply_changes sample_sx sample_workspace [\<lparr>fc_path = ''notes'', fc_operation = OP_WRITE, fc_content = Some ''x''\<rparr>] linking_db =
     (Inl (ValueError ''repository path cannot traverse a symlink escape''),
      linking_db\<lparr>sd_trees := [(''w1'', [(''notes'', Link ''/outside'' ToFile)])], sd_through := [([''notes''], ''x'')]\<rparr>)"
  by code_simp

section \<open>Inspections under the registry of the first phase\<close>

definition sample_inspection :: mission where
  "sample_inspection = mission_row ''m1'' 1 (sysadmin_mission ''Check AI HQ health'')"

definition sample_read :: mission_step where
  "sample_read =
     \<lparr>st_id = ''s1'', st_mission = ''m1'', st_position = 1, st_description = [], st_tool_name = ''system.health.read'',
      st_tool_arguments = [(''target'', JStr ''ai-hq-vps'')], st_status = STEP_PENDING, st_result = None,
      st_error_state = None, st_approval_reference = None\<rparr>"

definition unseeded :: "nat gateway_db" where
  "unseeded =
     \<lparr>ledger = [], missions = [], mission_steps = [], approval_requests = [], scoped_rules = [], system_row = None,
      agents = [], notifications = [], incidents = [], attempts = [], world = 0\<rparr>"

definition seeded :: "nat gateway_db" where
  "seeded = unseeded\<lparr>agents := agents (snd (ensure_phase1_agents (\<lambda>k. k) unseeded)),
                    missions := [sample_inspection], mission_steps := [sample_read]\<rparr>"

text \<open>
  C28: under the agents the first-phase registry creates, an inspection of AI HQ that the chat has queued
  fails when the executor runs its first step, whatever adapters, approvals and system state there are: the
  gateway blocks it, because the registry grants SysAdmin no permission for the capabilities of the plan.
\<close>

theorem chat_inspection_blocked:
  fixes s :: "('w, 'a) gateway_db_scheme"
  assumes "agents s0 = []" and "agents s = agents (snd (ensure_phase1_agents ids s0))"
    and "executor_inv s" and "row_of m_id mid (missions s) = Some m" and "inspection m"
    and "first_incomplete mid s = Some st" and "read_step mid st"
    and "st_tool_name st \<in> {''system.health.read'', ''service.status.read'', ''service.logs.read''}"
  shows "mission_failed mid (snd (run_next l (gateway_execute env call) mid s))"
  using assms(8) by (intro inspection_blocked[OF assms(1-7)]) (simp add: own_reads_def)

lemma seeded_simps [simp]:
  "agents unseeded = []" "agents seeded = agents (snd (ensure_phase1_agents (\<lambda>k. k) unseeded))"
  "missions seeded = [sample_inspection]" "mission_steps seeded = [sample_read]"
  by (simp_all add: unseeded_def seeded_def)

lemma seeded_inspection:
  "executor_inv seeded" "inspection sample_inspection" "m_id sample_inspection = ''m1''"
  "first_incomplete ''m1'' seeded = Some sample_read" "read_step ''m1'' sample_read"
  by (auto simp: executor_inv_def plans_in_order_def sample_inspection_def sample_read_def first_incomplete_def first_by_def
      plan_statuses_def plan_of_def read_step_def read_tools_def intro!: in_order_pending)
     (simp_all add: inspection_def mission_row_def sysadmin_mission_def)

theorem chat_inspection_blocked_witness:
  "\<forall>env call. mission_failed ''m1'' (snd (run_next False (gateway_execute env call) ''m1'' seeded))"
  by (intro allI, rule chat_inspection_blocked[of unseeded seeded "\<lambda>k. k" "''m1''" sample_inspection sample_read])
     (simp_all add: seeded_inspection row_of_def, simp_all add: sample_read_def)

end
