(* ===== verification/Web_Api.thy ===== *)
theory Web_Api
  imports Web_Sessions
begin

text \<open>
  The HTTP routes: \<open>web.py\<close>, \<open>missions/api.py\<close>, \<open>approvals/api.py\<close>, \<open>notifications/api.py\<close>, \<open>knowledge/api.py\<close>
  and \<open>chat/api.py\<close>. A route gets the request and its path and body parameters as the framework has parsed
  them; a body that does not parse is given as the text of the error. Replies carry a status and what the
  body is made of. An exception no handler catches is the result \<open>Inl\<close>.
\<close>

section \<open>Replies and clock readings\<close>

datatype http_body =
    ErrorBody string
  | DetailBody string
  | TextBody string
  | LoginForm "string option"
  | HomePage string operating_mode bool
  | ApprovalsPage string operating_mode bool "approval_request list"
  | RedirectBody string "string option"
  | SessionBody int stamp
  | MissionsBody "mission list"
  | MissionBody mission
  | PlanBody mission "mission_step list"
  | ApprovalsBody "approval_request list"
  | ApprovalBody approval_request
  | NotificationsBody "notification list"
  | NotificationBody notification
  | CountBody nat
  | MemoriesBody "memory list"
  | MemoryBody memory
  | EmptyBody
  | ConversationsBody "conversation list"
  | ConversationBody conversation
  | MessagesBody "chat_message list"
  | ChatBody chat_result

datatype web_reply = Reply int http_body

record web_call =
  wc_now :: int
  wc_token :: string
  wc_csrf :: string
  wc_session_id :: int
  wc_session_now :: int
  wc_revoked_at :: int
  wc_expiry_now :: int
  wc_new_id :: string
  wc_created :: int
  wc_operation_now :: int
  wc_chat :: chat_call

definition json_error :: "int \<Rightarrow> string \<Rightarrow> web_reply" where
  "json_error code text_out = Reply code (ErrorBody text_out)"

definition forbidden_page :: web_reply where
  "forbidden_page = Reply 403 (TextBody ''Forbidden'')"

definition auth_required :: web_reply where
  "auth_required = json_error 401 ''Authentication required''"

text \<open>A \<open>try\<close> block: \<open>f\<close> gives the reply for the exceptions it catches.\<close>

definition handleE :: "('s, 'b) op \<Rightarrow> (exn \<Rightarrow> 'b option) \<Rightarrow> ('s, 'b) op" where
  "handleE m f s =
     (case m s of
        (Inl e, t) \<Rightarrow> (case f e of None \<Rightarrow> (Inl e, t) | Some r \<Rightarrow> (Inr r, t))
      | (Inr r, t) \<Rightarrow> (Inr r, t))"

definition missing :: "string \<Rightarrow> exn \<Rightarrow> web_reply option" where
  "missing what e = (case e of KeyError _ \<Rightarrow> Some (json_error 404 what) | _ \<Rightarrow> None)"

definition invalid :: "exn \<Rightarrow> web_reply option" where
  "invalid e = (case e of ValueError m \<Rightarrow> Some (json_error 422 m) | _ \<Rightarrow> None)"

text \<open>The first handler that catches.\<close>

definition orElse :: "(exn \<Rightarrow> web_reply option) \<Rightarrow> (exn \<Rightarrow> web_reply option) \<Rightarrow> exn \<Rightarrow> web_reply option" where
  "orElse f g e = (case f e of None \<Rightarrow> g e | Some r \<Rightarrow> Some r)"

text \<open>The session of a request, or the reply without one.\<close>

definition with_session ::
  "'w web_env \<Rightarrow> web_call \<Rightarrow> http_request \<Rightarrow> web_reply \<Rightarrow>
   (string \<times> admin_session \<Rightarrow> (('w, 'a) web_db_scheme, web_reply) op) \<Rightarrow> (('w, 'a) web_db_scheme, web_reply) op" where
  "with_session env call req denied f =
     bindE (resolve_request_session env req (wc_now call)) (\<lambda>r.
       case r of None \<Rightarrow> returnE denied | Some x \<Rightarrow> f x)"

text \<open>The token check of the mission, notification and knowledge routes.\<close>

definition with_csrf ::
  "http_request \<Rightarrow> admin_session \<Rightarrow> (('w, 'a) web_db_scheme, web_reply) op \<Rightarrow> (('w, 'a) web_db_scheme, web_reply) op" where
  "with_csrf req rec m =
     bindE (liftE (compare_digest (header_or ''x-csrf-token'' [] req) (as_csrf rec))) (\<lambda>same.
       if same then m else returnE (json_error 403 ''Forbidden''))"

text \<open>\<open>headers.get("x-csrf-token") or headers.get("x-csrf")\<close>.\<close>

definition supplied_csrf :: "http_request \<Rightarrow> string" where
  "supplied_csrf req =
     (let first = header_or ''x-csrf-token'' [] req in
      if first \<noteq> [] then first else header_or ''x-csrf'' [] req)"

definition csrf_matches :: "http_request \<Rightarrow> admin_session \<Rightarrow> exn + bool" where
  "csrf_matches req rec =
     (if as_csrf rec = [] \<or> supplied_csrf req = [] then Inr False
      else compare_digest (as_csrf rec) (supplied_csrf req))"

section \<open>Login, logout and pages\<close>

definition login_route ::
  "'w web_env \<Rightarrow> web_call \<Rightarrow> http_request \<Rightarrow> string \<Rightarrow> (('w, 'a) web_db_scheme, web_reply) op" where
  "login_route env call req password =
     (let ws = we_settings env; identity = client_identity req;
          unavailable = returnE (Reply 503 (TextBody ''Authentication temporarily unavailable'')) in
      bindE (liftE (origin_is_allowed ws req)) (\<lambda>allowed.
        if \<not> allowed then returnE forbidden_page
        else bindE (is_blocked env identity) (\<lambda>blocked.
          case blocked of
            None \<Rightarrow> unavailable
          | Some True \<Rightarrow> returnE (Reply 200 (LoginForm (Some ''Too many attempts. Try again later.'')))
          | Some False \<Rightarrow>
              if \<not> we_verify env password (case ws_password_hash ws of None \<Rightarrow> [] | Some h \<Rightarrow> h)
              then bindE (record_failure env identity) (\<lambda>r.
                     case r of
                       None \<Rightarrow> unavailable
                     | Some _ \<Rightarrow> returnE (Reply 401 (LoginForm (Some ''Invalid credentials''))))
              else bindE (clear_failures env identity) (\<lambda>r.
                     case r of
                       None \<Rightarrow> unavailable
                     | Some _ \<Rightarrow>
                         bindE (create_session env (wc_token call) (wc_csrf call) (wc_session_now call) (wc_session_id call)) (\<lambda>_.
                           returnE (Reply 303 (RedirectBody (external_path ws ''/'')
                             (Some (encode_session_cookie env (wc_token call)
                                      (case ws_secret ws of None \<Rightarrow> [] | Some k \<Rightarrow> k))))))))))"

definition to_login :: "'w web_env \<Rightarrow> web_reply" where
  "to_login env = Reply 303 (RedirectBody (external_path (we_settings env) ''/login'') None)"

definition home_route ::
  "'w web_env \<Rightarrow> web_call \<Rightarrow> http_request \<Rightarrow> (('w, 'a) web_db_scheme, web_reply) op" where
  "home_route env call req =
     with_session env call req (to_login env) (\<lambda>(_, rec).
       readE (\<lambda>s. case read_system_state s of
                    (mode, simulation, _) \<Rightarrow> Reply 200 (HomePage (as_csrf rec) mode simulation)))"

definition session_info_route ::
  "'w web_env \<Rightarrow> web_call \<Rightarrow> http_request \<Rightarrow> (('w, 'a) web_db_scheme, web_reply) op" where
  "session_info_route env call req =
     with_session env call req auth_required (\<lambda>(_, rec). returnE (Reply 200 (SessionBody (as_id rec) (as_expires rec))))"

definition logout_route ::
  "'w web_env \<Rightarrow> web_call \<Rightarrow> http_request \<Rightarrow> string \<Rightarrow> (('w, 'a) web_db_scheme, web_reply) op" where
  "logout_route env call req csrf =
     bindE (liftE (origin_is_allowed (we_settings env) req)) (\<lambda>allowed.
       if \<not> allowed then returnE forbidden_page
       else with_session env call req auth_required (\<lambda>(token, rec).
         bindE (liftE (compare_digest csrf (as_csrf rec))) (\<lambda>same.
           if \<not> same then returnE forbidden_page
           else bindE (revoke_session env token (wc_revoked_at call)) (\<lambda>_. returnE (to_login env)))))"

text \<open>\<open>_approval_rows\<close>: the pending requests first.\<close>

definition approval_rows :: "('w, 'a) web_db_scheme \<Rightarrow> approval_request list" where
  "approval_rows s =
     (let rows = list_requests None s in
      filter (\<lambda>r. ar_state r = APPROVAL_PENDING) rows @ filter (\<lambda>r. ar_state r \<noteq> APPROVAL_PENDING) rows)"

definition approvals_page_route ::
  "'w web_env \<Rightarrow> web_call \<Rightarrow> http_request \<Rightarrow> (('w, 'a) web_db_scheme, web_reply) op" where
  "approvals_page_route env call req =
     with_session env call req (to_login env) (\<lambda>(_, rec).
       readE (\<lambda>s. case read_system_state s of
                    (mode, simulation, _) \<Rightarrow>
                      Reply 200 (ApprovalsPage (as_csrf rec) mode simulation (approval_rows s))))"

definition approval_is_expired :: "approval_request \<Rightarrow> int \<Rightarrow> bool" where
  "approval_is_expired r now \<longleftrightarrow> stamp_instant (ar_expires_at r) \<le> now"

text \<open>What follows the checks of the form's decision.\<close>

definition decide_page ::
  "'w web_env \<Rightarrow> web_call \<Rightarrow> string \<Rightarrow> string \<Rightarrow> (('w, 'a) web_db_scheme, web_reply) op" where
  "decide_page env call rid decision =
     (case map_of [(''approve'', APPROVED), (''deny'', DENIED)] decision of
        None \<Rightarrow> returnE (Reply 422 (TextBody ''Invalid decision''))
      | Some mapped \<Rightarrow>
          handleE (bindE (get_request rid) (\<lambda>existing.
            if approval_is_expired existing (wc_expiry_now call)
            then returnE (Reply 410 (TextBody ''Approval request has expired''))
            else handleE (bindE (decide rid mapped (wc_operation_now call)) (\<lambda>_.
                           returnE (Reply 303 (RedirectBody (external_path (we_settings env) ''/approvals'') None))))
                   (\<lambda>e. case e of
                      ValueError _ \<Rightarrow> Some (Reply 409 (TextBody ''Approval request already decided''))
                    | _ \<Rightarrow> None)))
            (\<lambda>e. case e of KeyError _ \<Rightarrow> Some (Reply 404 (TextBody ''Approval not found'')) | _ \<Rightarrow> None))"

definition decide_page_route ::
  "'w web_env \<Rightarrow> web_call \<Rightarrow> http_request \<Rightarrow> string \<Rightarrow> string \<Rightarrow> string \<Rightarrow> (('w, 'a) web_db_scheme, web_reply) op" where
  "decide_page_route env call req rid decision csrf =
     bindE (liftE (origin_is_allowed (we_settings env) req)) (\<lambda>allowed.
       if \<not> allowed then returnE forbidden_page
       else with_session env call req auth_required (\<lambda>(_, rec).
         bindE (liftE (if as_csrf rec = [] then Inr False else compare_digest csrf (as_csrf rec))) (\<lambda>same.
           if \<not> same then returnE forbidden_page else decide_page env call rid decision)))"

section \<open>Missions\<close>

record mission_body =
  mb_title :: string
  mb_description :: string
  mb_owner_agent :: string
  mb_source :: string
  mb_priority :: string
  mb_risk :: string
  mb_objectives :: "json list"
  mb_dependencies :: "json list"
  mb_xp_reward :: int

definition mission_body_ok :: "mission_body \<Rightarrow> bool" where
  "mission_body_ok b \<longleftrightarrow>
     1 \<le> length (mb_title b) \<and> length (mb_title b) \<le> 200 \<and> 1 \<le> length (mb_description b) \<and>
     1 \<le> length (mb_owner_agent b) \<and> length (mb_owner_agent b) \<le> 64 \<and>
     1 \<le> length (mb_source b) \<and> length (mb_source b) \<le> 64 \<and> 0 \<le> mb_xp_reward b"

definition priority_of :: "string \<Rightarrow> exn + mission_priority" where
  "priority_of = enum_of ''MissionPriority''
     [(''low'', PRIO_LOW), (''normal'', PRIO_NORMAL), (''high'', PRIO_HIGH), (''critical'', PRIO_CRITICAL)]"

definition risk_of :: "string \<Rightarrow> exn + mission_risk" where
  "risk_of = enum_of ''MissionRisk'' [(''green'', GREEN), (''amber'', AMBER), (''blue'', BLUE), (''red'', RED)]"

definition create_mission_from ::
  "web_call \<Rightarrow> mission_body \<Rightarrow> (('w, 'a) web_db_scheme, mission) op" where
  "create_mission_from call b =
     bindE (liftE (priority_of (mb_priority b))) (\<lambda>priority.
     bindE (liftE (risk_of (mb_risk b))) (\<lambda>risk.
       create_mission True (wc_new_id call) (wc_created call)
         \<lparr>nm_title = mb_title b, nm_description = mb_description b, nm_owner_agent = mb_owner_agent b,
          nm_source = mb_source b, nm_priority = priority, nm_risk = risk, nm_objectives = Some (mb_objectives b),
          nm_dependencies = Some (mb_dependencies b), nm_xp_reward = mb_xp_reward b\<rparr>))"

definition list_missions_route ::
  "'w web_env \<Rightarrow> web_call \<Rightarrow> http_request \<Rightarrow> (('w, 'a) web_db_scheme, web_reply) op" where
  "list_missions_route env call req =
     with_session env call req auth_required (\<lambda>_. readE (\<lambda>s. Reply 200 (MissionsBody (list_missions s))))"

definition mission_detail_route ::
  "'w web_env \<Rightarrow> web_call \<Rightarrow> http_request \<Rightarrow> string \<Rightarrow> (('w, 'a) web_db_scheme, web_reply) op" where
  "mission_detail_route env call req mid =
     with_session env call req auth_required (\<lambda>_ s.
       case get_mission mid s of
         (Inl e, t) \<Rightarrow> (case missing ''Mission not found'' e of None \<Rightarrow> (Inl e, t) | Some r \<Rightarrow> (Inr r, t))
       | (Inr m, t) \<Rightarrow> bindE (list_plan_steps (m_id m)) (\<lambda>steps. returnE (Reply 200 (PlanBody m steps))) t)"

definition create_mission_route ::
  "'w web_env \<Rightarrow> web_call \<Rightarrow> http_request \<Rightarrow> mission_body option \<Rightarrow> (('w, 'a) web_db_scheme, web_reply) op" where
  "create_mission_route env call req body =
     with_session env call req auth_required (\<lambda>(_, rec). with_csrf req rec (
       case body of
         None \<Rightarrow> returnE (json_error 422 ''Invalid mission payload'')
       | Some b \<Rightarrow>
           if \<not> mission_body_ok b then returnE (json_error 422 ''Invalid mission payload'')
           else handleE (bindE (create_mission_from call b) (\<lambda>m. returnE (Reply 201 (MissionBody m)))) invalid))"

section \<open>Approvals\<close>

definition list_approvals_route ::
  "'w web_env \<Rightarrow> web_call \<Rightarrow> http_request \<Rightarrow> string option \<Rightarrow> (('w, 'a) web_db_scheme, web_reply) op" where
  "list_approvals_route env call req mission =
     with_session env call req auth_required (\<lambda>_. readE (\<lambda>s. Reply 200 (ApprovalsBody (list_requests mission s))))"

definition approval_detail_route ::
  "'w web_env \<Rightarrow> web_call \<Rightarrow> http_request \<Rightarrow> string \<Rightarrow> (('w, 'a) web_db_scheme, web_reply) op" where
  "approval_detail_route env call req rid =
     with_session env call req auth_required (\<lambda>_.
       handleE (bindE (get_request rid) (\<lambda>r. returnE (Reply 200 (ApprovalBody r)))) (missing ''Approval not found''))"

definition decide_approval ::
  "web_call \<Rightarrow> string \<Rightarrow> string \<Rightarrow> (('w, 'a) web_db_scheme, web_reply) op" where
  "decide_approval call rid decision =
     (case map_of [(''approved'', APPROVED), (''denied'', DENIED)] decision of
        None \<Rightarrow> returnE (json_error 422
                  (''decision must be '' @ CHR 0x27 # ''approved'' @ CHR 0x27 # '' or '' @ CHR 0x27 # ''denied'' @ [CHR 0x27]))
      | Some mapped \<Rightarrow>
          handleE (bindE (get_request rid) (\<lambda>existing.
            if approval_is_expired existing (wc_expiry_now call)
            then returnE (json_error 410 ''Approval request has expired'')
            else handleE (bindE (decide rid mapped (wc_operation_now call)) (\<lambda>r. returnE (Reply 200 (ApprovalBody r))))
                   (\<lambda>e. case e of
                      ValueError _ \<Rightarrow> Some (json_error 409 ''Approval request already decided'')
                    | _ \<Rightarrow> None)))
            (missing ''Approval not found''))"

definition decide_approval_route ::
  "'w web_env \<Rightarrow> web_call \<Rightarrow> http_request \<Rightarrow> string \<Rightarrow> string \<Rightarrow> (('w, 'a) web_db_scheme, web_reply) op" where
  "decide_approval_route env call req rid decision =
     with_session env call req auth_required (\<lambda>(_, rec).
       bindE (liftE (origin_is_allowed (we_settings env) req)) (\<lambda>allowed.
         if \<not> allowed then returnE (json_error 403 ''Origin not allowed'')
         else bindE (liftE (csrf_matches req rec)) (\<lambda>same.
           if \<not> same then returnE (json_error 403 ''Invalid CSRF token'') else decide_approval call rid decision)))"

section \<open>Notifications\<close>

definition severity_of :: "string \<Rightarrow> exn + notification_severity" where
  "severity_of = enum_of ''NotificationSeverity''
     [(''information'', INFORMATION), (''attention'', ATTENTION), (''approval_required'', APPROVAL_REQUIRED),
      (''critical'', CRITICAL)]"

definition list_notifications_route ::
  "'w web_env \<Rightarrow> web_call \<Rightarrow> http_request \<Rightarrow> bool \<Rightarrow> string option \<Rightarrow> bool \<Rightarrow> (('w, 'a) web_db_scheme, web_reply) op" where
  "list_notifications_route env call req unread severity include_dismissed =
     with_session env call req auth_required (\<lambda>_.
       handleE (bindE (liftE (case severity of None \<Rightarrow> Inr None | Some v \<Rightarrow> andThen (severity_of v) (\<lambda>x. Inr (Some x))))
                (\<lambda>wanted. readE (\<lambda>s. Reply 200 (NotificationsBody (list_notifications include_dismissed unread wanted s)))))
         invalid)"

definition unread_count_route ::
  "'w web_env \<Rightarrow> web_call \<Rightarrow> http_request \<Rightarrow> (('w, 'a) web_db_scheme, web_reply) op" where
  "unread_count_route env call req =
     with_session env call req auth_required (\<lambda>_. readE (\<lambda>s. Reply 200 (CountBody (unread_count s))))"

definition read_all_route ::
  "'w web_env \<Rightarrow> web_call \<Rightarrow> http_request \<Rightarrow> (('w, 'a) web_db_scheme, web_reply) op" where
  "read_all_route env call req =
     with_session env call req auth_required (\<lambda>(_, rec). with_csrf req rec
       (bindE (mark_all_read (wc_operation_now call)) (\<lambda>n. returnE (Reply 200 (CountBody n)))))"

definition notification_detail_route ::
  "'w web_env \<Rightarrow> web_call \<Rightarrow> http_request \<Rightarrow> string \<Rightarrow> (('w, 'a) web_db_scheme, web_reply) op" where
  "notification_detail_route env call req nid =
     with_session env call req auth_required (\<lambda>_.
       handleE (bindE (get_notification nid) (\<lambda>n. returnE (Reply 200 (NotificationBody n)))) (missing ''Notification not found''))"

definition read_notification_route ::
  "'w web_env \<Rightarrow> web_call \<Rightarrow> http_request \<Rightarrow> string \<Rightarrow> (('w, 'a) web_db_scheme, web_reply) op" where
  "read_notification_route env call req nid =
     with_session env call req auth_required (\<lambda>(_, rec). with_csrf req rec
       (handleE (bindE (mark_read nid (wc_operation_now call)) (\<lambda>n. returnE (Reply 200 (NotificationBody n))))
          (missing ''Notification not found'')))"

definition dismiss_notification_route ::
  "'w web_env \<Rightarrow> web_call \<Rightarrow> http_request \<Rightarrow> string \<Rightarrow> (('w, 'a) web_db_scheme, web_reply) op" where
  "dismiss_notification_route env call req nid =
     with_session env call req auth_required (\<lambda>(_, rec). with_csrf req rec
       (handleE (bindE (dismiss nid (wc_operation_now call)) (\<lambda>n. returnE (Reply 200 (NotificationBody n))))
          (missing ''Notification not found'')))"

section \<open>Knowledge\<close>

text \<open>
  A body is the text of the framework's error or the typed fields, whose limits are then checked.
\<close>

type_synonym 'b body = "string + 'b"

text \<open>The fields outside their limits, in the order of the class.\<close>

definition knowledge_create_violations :: "new_memory \<Rightarrow> string list" where
  "knowledge_create_violations n =
     (if nk_content n = [] then [''content''] else []) @
     (if nk_owner_scope n = [] \<or> length (nk_owner_scope n) > 128 then [''owner_scope''] else []) @
     (if \<not> (0 \<le> nk_confidence n \<and> nk_confidence n \<le> 1) then [''confidence''] else [])"

definition knowledge_update_violations :: "memory_update \<Rightarrow> string list" where
  "knowledge_update_violations u =
     (case mu_confidence u of None \<Rightarrow> [] | Some c \<Rightarrow> if \<not> (0 \<le> c \<and> c \<le> 1) then [''confidence''] else [])"

definition contradiction_violations :: "string \<Rightarrow> rat \<Rightarrow> string list" where
  "contradiction_violations content confidence =
     (if content = [] then [''content''] else []) @
     (if \<not> (0 \<le> confidence \<and> confidence \<le> 1) then [''confidence''] else [])"

text \<open>\<open>model_validate\<close>: the framework's error, or the error it makes for the violated fields (\<open>explain\<close>).\<close>

definition validated :: "(string list \<Rightarrow> string) \<Rightarrow> ('b \<Rightarrow> string list) \<Rightarrow> 'b body \<Rightarrow> exn + 'b" where
  "validated explain violations body =
     (case body of
        Inl e \<Rightarrow> Inl (ValueError e)
      | Inr b \<Rightarrow> unless (violations b \<noteq> []) (ValueError (explain (violations b))) (Inr b))"

definition locked_or_invalid :: "exn \<Rightarrow> web_reply option" where
  "locked_or_invalid e =
     (case e of
        ValueError m \<Rightarrow> Some (json_error (if is_infix ''locked'' (lower_text m) then 409 else 422) m)
      | _ \<Rightarrow> None)"

definition list_knowledge_route ::
  "'w web_env \<Rightarrow> web_call \<Rightarrow> http_request \<Rightarrow> string \<Rightarrow> string option \<Rightarrow> (('w, 'a) web_db_scheme, web_reply) op" where
  "list_knowledge_route env call req q category =
     with_session env call req auth_required (\<lambda>_.
       handleE (bindE (search_memories q None category (wc_operation_now call)) (\<lambda>ms. returnE (Reply 200 (MemoriesBody ms)))) invalid)"

definition knowledge_detail_route ::
  "'w web_env \<Rightarrow> web_call \<Rightarrow> http_request \<Rightarrow> string \<Rightarrow> (('w, 'a) web_db_scheme, web_reply) op" where
  "knowledge_detail_route env call req kid =
     with_session env call req auth_required (\<lambda>_.
       handleE (bindE (get_memory kid False) (\<lambda>k. returnE (Reply 200 (MemoryBody k)))) (missing ''Knowledge memory not found''))"

definition create_knowledge_route ::
  "'w web_env \<Rightarrow> web_call \<Rightarrow> http_request \<Rightarrow> (string list \<Rightarrow> string) \<Rightarrow> new_memory body \<Rightarrow> (('w, 'a) web_db_scheme, web_reply) op" where
  "create_knowledge_route env call req explain body =
     with_session env call req auth_required (\<lambda>(_, rec). with_csrf req rec
       (handleE (bindE (liftE (validated explain knowledge_create_violations body)) (\<lambda>n.
                 bindE (create_memory (wc_new_id call) (wc_created call) (wc_operation_now call) n) (\<lambda>k.
                   returnE (Reply 201 (MemoryBody k))))) invalid))"

definition update_knowledge_route ::
  "'w web_env \<Rightarrow> web_call \<Rightarrow> http_request \<Rightarrow> (string list \<Rightarrow> string) \<Rightarrow> string \<Rightarrow> memory_update body \<Rightarrow> (('w, 'a) web_db_scheme, web_reply) op" where
  "update_knowledge_route env call req explain kid body =
     with_session env call req auth_required (\<lambda>(_, rec). with_csrf req rec
       (handleE (bindE (liftE (validated explain knowledge_update_violations body)) (\<lambda>u.
                 bindE (update_memory kid u (wc_operation_now call)) (\<lambda>k. returnE (Reply 200 (MemoryBody k)))))
          (orElse (missing ''Knowledge memory not found'') locked_or_invalid)))"

definition lock_knowledge_route ::
  "'w web_env \<Rightarrow> web_call \<Rightarrow> http_request \<Rightarrow> string \<Rightarrow> bool body \<Rightarrow> (('w, 'a) web_db_scheme, web_reply) op" where
  "lock_knowledge_route env call req kid body =
     with_session env call req auth_required (\<lambda>(_, rec). with_csrf req rec
       (handleE (bindE (liftE (validated (\<lambda>_. []) (\<lambda>_. []) body)) (\<lambda>b.
                 bindE (set_lock kid b) (\<lambda>k. returnE (Reply 200 (MemoryBody k)))))
          (orElse (missing ''Knowledge memory not found'') invalid)))"

definition contradict_knowledge_route ::
  "'w web_env \<Rightarrow> web_call \<Rightarrow> http_request \<Rightarrow> (string list \<Rightarrow> string) \<Rightarrow> string \<Rightarrow> (string \<times> dict \<times> rat) body \<Rightarrow>
   (('w, 'a) web_db_scheme, web_reply) op" where
  "contradict_knowledge_route env call req explain kid body =
     with_session env call req auth_required (\<lambda>(_, rec). with_csrf req rec
       (handleE (bindE (liftE (validated explain (\<lambda>(content, _, confidence). contradiction_violations content confidence) body))
                 (\<lambda>(content, provenance, confidence).
                   bindE (record_contradiction (wc_new_id call) (wc_created call) (wc_operation_now call) kid content provenance confidence)
                     (\<lambda>k. returnE (Reply 201 (MemoryBody k)))))
          (orElse (missing ''Knowledge memory not found'') invalid)))"

definition delete_knowledge_route ::
  "'w web_env \<Rightarrow> web_call \<Rightarrow> http_request \<Rightarrow> string \<Rightarrow> (('w, 'a) web_db_scheme, web_reply) op" where
  "delete_knowledge_route env call req kid =
     with_session env call req auth_required (\<lambda>(_, rec). with_csrf req rec
       (handleE (bindE (delete_memory kid (wc_operation_now call)) (\<lambda>_. returnE (Reply 204 EmptyBody)))
          (orElse (missing ''Knowledge memory not found'') locked_or_invalid)))"

section \<open>Chat\<close>

definition detail :: "int \<Rightarrow> string \<Rightarrow> web_reply" where
  "detail code text_out = Reply code (DetailBody text_out)"

text \<open>\<open>_require_session\<close>: the identifier of the session as text; an identifier of zero counts as none.\<close>

definition with_chat_session ::
  "'w web_env \<Rightarrow> web_call \<Rightarrow> http_request \<Rightarrow> (string \<times> admin_session \<Rightarrow> (('w, 'a) web_db_scheme, web_reply) op) \<Rightarrow>
   (('w, 'a) web_db_scheme, web_reply) op" where
  "with_chat_session env call req f =
     with_session env call req (detail 401 ''Authentication required'') (\<lambda>(_, rec).
       if as_id rec = 0 then returnE (detail 401 ''Authentication required'') else f (int_repr (as_id rec), rec))"

definition with_write_security ::
  "'w web_env \<Rightarrow> http_request \<Rightarrow> admin_session \<Rightarrow> (('w, 'a) web_db_scheme, web_reply) op \<Rightarrow>
   (('w, 'a) web_db_scheme, web_reply) op" where
  "with_write_security env req rec m =
     bindE (liftE (origin_is_allowed (we_settings env) req)) (\<lambda>allowed.
       if \<not> allowed then returnE (detail 403 ''Origin not allowed'')
       else bindE (liftE (csrf_matches req rec)) (\<lambda>same.
         if same then m else returnE (detail 403 ''Invalid CSRF token'')))"

definition no_conversation :: "exn \<Rightarrow> web_reply option" where
  "no_conversation e = (case e of ChatAccessDenied _ \<Rightarrow> Some (detail 404 ''Conversation not found'') | _ \<Rightarrow> None)"

definition chat_of :: "web_call \<Rightarrow> string \<Rightarrow> string \<Rightarrow> chat_call" where
  "chat_of call owner cid = (wc_chat call)\<lparr>ch_owner := owner, ch_conversation := cid\<rparr>"

definition list_conversations_route ::
  "'w web_env \<Rightarrow> web_call \<Rightarrow> http_request \<Rightarrow> (('w, 'a) web_db_scheme, web_reply) op" where
  "list_conversations_route env call req =
     with_chat_session env call req (\<lambda>(owner, _). readE (\<lambda>s. Reply 200 (ConversationsBody (list_conversations owner s))))"

definition create_conversation_route ::
  "'w web_env \<Rightarrow> web_call \<Rightarrow> http_request \<Rightarrow> (('w, 'a) web_db_scheme, web_reply) op" where
  "create_conversation_route env call req =
     with_chat_session env call req (\<lambda>(owner, rec). with_write_security env req rec
       (bindE (create_conversation (wc_new_id call) (wc_created call) owner ''sysadmin'') (\<lambda>c.
          returnE (Reply 200 (ConversationBody c)))))"

definition list_messages_route ::
  "'w web_env \<Rightarrow> web_call \<Rightarrow> http_request \<Rightarrow> string \<Rightarrow> (('w, 'a) web_db_scheme, web_reply) op" where
  "list_messages_route env call req cid =
     with_chat_session env call req (\<lambda>(owner, _).
       handleE (bindE (list_messages cid owner) (\<lambda>ms. returnE (Reply 200 (MessagesBody ms)))) no_conversation)"

definition submit_message_route ::
  "'w web_env \<Rightarrow> 'w chat_env \<Rightarrow> web_call \<Rightarrow> http_request \<Rightarrow> string \<Rightarrow> string \<Rightarrow> (('w, 'a) web_db_scheme, web_reply) op" where
  "submit_message_route env chat call req cid body =
     with_chat_session env call req (\<lambda>(owner, rec). with_write_security env req rec
       (let t = strip body in
        if t = [] then returnE (detail 422 ''Chat message cannot be empty'')
        else handleE (bindE (chat_submit chat (chat_of call owner cid) t) (\<lambda>r. returnE (Reply 200 (ChatBody r)))) no_conversation))"

definition refresh_mission_route ::
  "'w web_env \<Rightarrow> 'w chat_env \<Rightarrow> web_call \<Rightarrow> http_request \<Rightarrow> string \<Rightarrow> string \<Rightarrow> (('w, 'a) web_db_scheme, web_reply) op" where
  "refresh_mission_route env chat call req cid mid =
     with_chat_session env call req (\<lambda>(owner, _).
       handleE (bindE (chat_refresh chat (chat_of call owner cid) mid) (\<lambda>r. returnE (Reply 200 (ChatBody r)))) no_conversation)"

section \<open>The application\<close>

datatype route =
    GetLogin | PostLogin string | GetHome | GetSession | PostLogout string | GetApprovalsPage
  | PostDecision string string string
  | GetMissions | GetMission string | PostMission "mission_body option"
  | GetApprovals "string option" | GetApproval string | PostApproval string string
  | GetNotifications bool "string option" bool | GetUnread | PostReadAll | GetNotification string
  | PostRead string | PostDismiss string
  | GetMemories string "string option" | GetMemory string | PostMemory "new_memory body"
  | PatchMemory string "memory_update body" | PostLock string "bool body"
  | PostContradiction string "(string \<times> dict \<times> rat) body" | DeleteMemoryRoute string
  | GetConversations | PostConversation | GetMessages string | PostMessage string string
  | GetChatMission string string

record 'w app =
  ap_web :: "'w web_env"
  ap_chat :: "'w chat_env"
  ap_explain :: "string list \<Rightarrow> string"

definition app_handle ::
  "'w app \<Rightarrow> web_call \<Rightarrow> http_request \<Rightarrow> route \<Rightarrow> (('w, 'a) web_db_scheme, web_reply) op" where
  "app_handle app call req r =
     (let env = ap_web app; explain = ap_explain app in
      case r of
        GetLogin \<Rightarrow> returnE (Reply 200 (LoginForm None))
      | PostLogin password \<Rightarrow> login_route env call req password
      | GetHome \<Rightarrow> home_route env call req
      | GetSession \<Rightarrow> session_info_route env call req
      | PostLogout csrf \<Rightarrow> logout_route env call req csrf
      | GetApprovalsPage \<Rightarrow> approvals_page_route env call req
      | PostDecision rid decision csrf \<Rightarrow> decide_page_route env call req rid decision csrf
      | GetMissions \<Rightarrow> list_missions_route env call req
      | GetMission mid \<Rightarrow> mission_detail_route env call req mid
      | PostMission body \<Rightarrow> create_mission_route env call req body
      | GetApprovals mission \<Rightarrow> list_approvals_route env call req mission
      | GetApproval rid \<Rightarrow> approval_detail_route env call req rid
      | PostApproval rid decision \<Rightarrow> decide_approval_route env call req rid decision
      | GetNotifications unread severity dismissed \<Rightarrow> list_notifications_route env call req unread severity dismissed
      | GetUnread \<Rightarrow> unread_count_route env call req
      | PostReadAll \<Rightarrow> read_all_route env call req
      | GetNotification nid \<Rightarrow> notification_detail_route env call req nid
      | PostRead nid \<Rightarrow> read_notification_route env call req nid
      | PostDismiss nid \<Rightarrow> dismiss_notification_route env call req nid
      | GetMemories q category \<Rightarrow> list_knowledge_route env call req q category
      | GetMemory kid \<Rightarrow> knowledge_detail_route env call req kid
      | PostMemory body \<Rightarrow> create_knowledge_route env call req explain body
      | PatchMemory kid body \<Rightarrow> update_knowledge_route env call req explain kid body
      | PostLock kid body \<Rightarrow> lock_knowledge_route env call req kid body
      | PostContradiction kid body \<Rightarrow> contradict_knowledge_route env call req explain kid body
      | DeleteMemoryRoute kid \<Rightarrow> delete_knowledge_route env call req kid
      | GetConversations \<Rightarrow> list_conversations_route env call req
      | PostConversation \<Rightarrow> create_conversation_route env call req
      | GetMessages cid \<Rightarrow> list_messages_route env call req cid
      | PostMessage cid body \<Rightarrow> submit_message_route env (ap_chat app) call req cid body
      | GetChatMission cid mid \<Rightarrow> refresh_mission_route env (ap_chat app) call req cid mid)"

end
