(* ===== verification/Web_Laws.thy ===== *)
theory Web_Laws
  imports Web_Api Chat_Laws
begin

text \<open>
  Who may change what over HTTP: a session is what its cookie, its row and the clock say; outside the
  login no request changes anything without one; a session that was revoked stays revoked.
\<close>

section \<open>The session of a request\<close>

definition session_of ::
  "'w web_env \<Rightarrow> http_request \<Rightarrow> int \<Rightarrow> ('w, 'a) web_db_scheme \<Rightarrow> (string \<times> admin_session) option" where
  "session_of env req now s = (case fst (resolve_request_session env req now s) of Inl e \<Rightarrow> None | Inr r \<Rightarrow> r)"

lemma resolve_request_session_snd [simp]: "snd (resolve_request_session env req now s) = s"
  by (auto simp: resolve_request_session_def bindE_def split: option.split sum.split)

lemma resolve_request_session_cases:
  obtains (error) e where "resolve_request_session env req now s = (Inl e, s)" "session_of env req now s = None"
  | (none) "resolve_request_session env req now s = (Inr None, s)" "session_of env req now s = None"
  | (some) x where "resolve_request_session env req now s = (Inr (Some x), s)" "session_of env req now s = Some x"
proof (cases "resolve_request_session env req now s")
  case (Pair r t)
  with resolve_request_session_snd[of env req now s] have t: "t = s" by simp
  show thesis
  proof (cases r)
    case (Inl e)
    with Pair t error show ?thesis by (simp add: session_of_def)
  next
    case (Inr x)
    with Pair t none some show ?thesis by (cases x) (simp_all add: session_of_def)
  qed
qed

lemma compare_digest_eq: "compare_digest a b = Inr True \<longleftrightarrow> is_ascii a \<and> a = b"
  by (auto simp: compare_digest_def)

text \<open>\<open>rsplit\<close> and its inverse.\<close>

lemma split_last_Some: "split_last c v = Some (x, y) \<longleftrightarrow> v = x @ c # y \<and> c \<notin> set y"
proof
  assume s: "split_last c v = Some (x, y)"
  then have c: "c \<in> set (rev v)" and xy: "x = rev (tl (dropWhile (\<lambda>z. z \<noteq> c) (rev v)))" "y = rev (takeWhile (\<lambda>z. z \<noteq> c) (rev v))"
    by (auto simp: split_last_def split: if_splits)
  from c obtain d ds where d: "dropWhile (\<lambda>z. z \<noteq> c) (rev v) = d # ds" by (cases "dropWhile (\<lambda>z. z \<noteq> c) (rev v)") auto
  from hd_dropWhile[of "\<lambda>z. z \<noteq> c" "rev v"] d have "d = c" by simp
  have "rev v = takeWhile (\<lambda>z. z \<noteq> c) (rev v) @ d # ds" using takeWhile_dropWhile_id[of "\<lambda>z. z \<noteq> c" "rev v"] d by simp
  then have "v = rev ds @ d # rev (takeWhile (\<lambda>z. z \<noteq> c) (rev v))"
    by (metis rev_rev_ident rev_append rev.simps(2) append_assoc append_Cons append_Nil)
  with xy d \<open>d = c\<close> have "v = x @ c # y" by simp
  moreover have "c \<notin> set y" using xy(2) by (auto dest: set_takeWhileD)
  ultimately show "v = x @ c # y \<and> c \<notin> set y" ..
next
  assume v: "v = x @ c # y \<and> c \<notin> set y"
  then have no: "\<And>z. z \<in> set (rev y) \<Longrightarrow> z \<noteq> c" by auto
  have "takeWhile (\<lambda>z. z \<noteq> c) (rev y @ c # rev x) = rev y"
    using takeWhile_append2[of "rev y" "\<lambda>z. z \<noteq> c" "c # rev x", OF no] by simp
  moreover have "dropWhile (\<lambda>z. z \<noteq> c) (rev y @ c # rev x) = c # rev x"
    using dropWhile_append2[of "rev y" "\<lambda>z. z \<noteq> c" "c # rev x", OF no] by simp
  ultimately show "split_last c v = Some (x, y)"
    using v by (simp add: split_last_def)
qed

text \<open>The signatures are hexadecimal.\<close>

definition hex_hmac :: "'w web_env \<Rightarrow> bool" where
  "hex_hmac env \<longleftrightarrow> (\<forall>k t. is_ascii (we_hmac env k t) \<and> CHR ''.'' \<notin> set (we_hmac env k t))"

lemma session_of_iff:
  assumes "hex_hmac env"
  shows "session_of env req now s = Some (token, r) \<longleftrightarrow>
    (\<exists>secret. ws_secret (we_settings env) = Some secret \<and> secret \<noteq> [] \<and>
       hr_cookie req = Some (encode_session_cookie env token secret)) \<and>
    token \<noteq> [] \<and> row_of as_digest (we_sha env token) (admin_sessions s) = Some r \<and>
    as_revoked r = None \<and> now < stamp_instant (as_expires r)" (is "?L \<longleftrightarrow> ?R")
proof
  assume L: ?L
  then obtain cookie secret where c: "hr_cookie req = Some cookie" "ws_secret (we_settings env) = Some secret"
    and ne: "cookie \<noteq> []" "secret \<noteq> []"
    and dec: "decode_session_cookie env cookie secret = Inr (Some token)" and res: "resolve_session env token now s = Some r"
    by (auto simp: session_of_def resolve_request_session_def bindE_def split: option.splits if_splits sum.splits)
  from dec obtain sig where "split_last (CHR ''.'') cookie = Some (token, sig)" "compare_digest sig (we_hmac env secret token) = Inr True"
    by (auto simp: decode_session_cookie_def andThen_def split: option.splits sum.splits if_splits)
  then have "cookie = encode_session_cookie env token secret"
    by (simp add: split_last_Some compare_digest_eq encode_session_cookie_def)
  with c ne res show ?R by (auto simp: resolve_session_def split: if_splits option.splits)
next
  assume R: ?R
  then obtain secret where s: "ws_secret (we_settings env) = Some secret" "secret \<noteq> []"
    "hr_cookie req = Some (encode_session_cookie env token secret)" by blast
  have "split_last (CHR ''.'') (encode_session_cookie env token secret) = Some (token, we_hmac env secret token)"
    using assms by (simp add: split_last_Some encode_session_cookie_def hex_hmac_def)
  moreover have "compare_digest (we_hmac env secret token) (we_hmac env secret token) = Inr True"
    using assms by (simp add: compare_digest_eq hex_hmac_def)
  ultimately have "decode_session_cookie env (encode_session_cookie env token secret) secret = Inr (Some token)"
    by (simp add: decode_session_cookie_def)
  moreover have "resolve_session env token now s = Some r" using R by (simp add: resolve_session_def)
  moreover have "encode_session_cookie env token secret \<noteq> []" by (simp add: encode_session_cookie_def)
  ultimately show ?L using s by (simp add: session_of_def resolve_request_session_def)
qed

section \<open>Guards\<close>

lemma with_session_cases:
  "snd (with_session env call req denied f s) = s \<or>
   (\<exists>x. session_of env req (wc_now call) s = Some x \<and> with_session env call req denied f s = f x s)"
  by (rule resolve_request_session_cases[of env req "wc_now call" s]) (auto simp: with_session_def)

lemma with_csrf_cases:
  "snd (with_csrf req rec m s) = s \<or> (header_or ''x-csrf-token'' [] req = as_csrf rec \<and> with_csrf req rec m s = m s)"
  by (cases "compare_digest (header_or ''x-csrf-token'' [] req) (as_csrf rec)")
     (auto simp: with_csrf_def compare_digest_def split: if_splits)

lemma csrf_matches_True: "csrf_matches req rec = Inr True \<longleftrightarrow> as_csrf rec \<noteq> [] \<and> is_ascii (as_csrf rec) \<and> supplied_csrf req = as_csrf rec"
  by (auto simp: csrf_matches_def compare_digest_eq)

lemma with_write_security_cases:
  "snd (with_write_security env req rec m s) = s \<or>
   (origin_is_allowed (we_settings env) req = Inr True \<and> supplied_csrf req = as_csrf rec \<and>
    with_write_security env req rec m s = m s)"
proof (cases "origin_is_allowed (we_settings env) req = Inr True \<and> csrf_matches req rec = Inr True")
  case True
  then have o': "origin_is_allowed (we_settings env) req = Inr True" and m': "csrf_matches req rec = Inr True" by auto
  from o' m' have "with_write_security env req rec m s = m s" by (simp add: with_write_security_def)
  with o' m' show ?thesis by (simp add: csrf_matches_True)
next
  case False
  have "snd (with_write_security env req rec m s) = s"
  proof (cases "origin_is_allowed (we_settings env) req")
    case (Inl e)
    then show ?thesis by (simp add: with_write_security_def)
  next
    case (Inr b)
    with False show ?thesis
      by (cases b; cases "csrf_matches req rec") (auto simp: with_write_security_def)
  qed
  then show ?thesis ..
qed

lemma handleE_snd [simp]: "snd (handleE m f s) = snd (m s)"
  by (auto simp: handleE_def split: prod.split sum.split option.split)

section \<open>Requests that only read\<close>

definition reads_only :: "('s, 'x) op \<Rightarrow> bool" where
  "reads_only m \<longleftrightarrow> (\<forall>s. snd (m s) = s)"

named_theorems reads_intros \<open>operations that leave the state as it is\<close>

lemma reads_onlyD: "reads_only m \<Longrightarrow> snd (m s) = s"
  by (simp add: reads_only_def)

lemma reads_bindE [reads_intros]: "reads_only m \<Longrightarrow> (\<And>x. reads_only (f x)) \<Longrightarrow> reads_only (bindE m f)"
  by (auto simp: reads_only_def bindE_def split: prod.splits sum.split) (metis snd_conv)+

lemma reads_basic [reads_intros]:
  "reads_only (returnE x)" "reads_only (readE g)" "reads_only (liftE r)"
  "reads_only (resolve_request_session env req now)" "reads_only (get_request rid)" "reads_only (get_mission mid)"
  "reads_only (get_notification nid)" "reads_only (get_memory kid b)"
  by (auto simp: reads_only_def get_request_def get_mission_def get_notification_def get_memory_def split: option.split)

lemma reads_handleE [reads_intros]: "reads_only m \<Longrightarrow> reads_only (handleE m f)"
  by (simp add: reads_only_def)

lemma reads_if [reads_intros]: "reads_only m \<Longrightarrow> reads_only n \<Longrightarrow> reads_only (if b then m else n)"
  by simp

lemma reads_option [reads_intros]: "reads_only m \<Longrightarrow> (\<And>x. reads_only (f x)) \<Longrightarrow> reads_only (case v of None \<Rightarrow> m | Some x \<Rightarrow> f x)"
  by (cases v) simp_all

lemma reads_pair [reads_intros]: "(\<And>x y. reads_only (f x y)) \<Longrightarrow> reads_only (case v of (x, y) \<Rightarrow> f x y)"
  by (cases v) simp

lemma reads_session [reads_intros]: "(\<And>x. reads_only (f x)) \<Longrightarrow> reads_only (with_session env call req denied f)"
  unfolding with_session_def by (intro reads_intros)

lemma reads_chat_session [reads_intros]: "(\<And>x. reads_only (f x)) \<Longrightarrow> reads_only (with_chat_session env call req f)"
  unfolding with_chat_session_def by (intro reads_intros)

lemma reads_listings [reads_intros]:
  "reads_only (search_memories q agent category now)" "reads_only (list_messages cid owner)"
  "reads_only (list_plan_steps mid)"
  unfolding search_memories_def list_messages_def list_plan_steps_def Let_def
  by (intro reads_intros | simp add: reads_only_def)+

lemma mission_detail_reads: "reads_only (mission_detail_route env call req mid)"
proof -
  have "snd (case get_mission mid s of
         (Inl e, t) \<Rightarrow> (case missing ''Mission not found'' e of None \<Rightarrow> (Inl e, t) | Some r \<Rightarrow> (Inr r, t))
       | (Inr m, t) \<Rightarrow> bindE (list_plan_steps (m_id m)) (\<lambda>steps. returnE (Reply 200 (PlanBody m steps))) t) = s" for s
    using reads_onlyD[OF reads_basic(6), of mid s]
      reads_onlyD[OF reads_bindE[OF reads_listings(3) reads_basic(1)]]
    by (cases "get_mission mid s"; cases "fst (get_mission mid s)") (auto split: option.split)
  then have "reads_only (\<lambda>s. case get_mission mid s of
         (Inl e, t) \<Rightarrow> (case missing ''Mission not found'' e of None \<Rightarrow> (Inl e, t) | Some r \<Rightarrow> (Inr r, t))
       | (Inr m, t) \<Rightarrow> bindE (list_plan_steps (m_id m)) (\<lambda>steps. returnE (Reply 200 (PlanBody m steps))) t)"
    unfolding reads_only_def by (rule allI)
  then show ?thesis unfolding mission_detail_route_def by (intro reads_session)
qed

fun reading :: "route \<Rightarrow> bool" where
  "reading GetLogin = True" | "reading GetHome = True" | "reading GetSession = True" | "reading GetApprovalsPage = True"
| "reading GetMissions = True" | "reading (GetMission mid) = True" | "reading (GetApprovals m) = True"
| "reading (GetApproval rid) = True" | "reading (GetNotifications u v d) = True" | "reading GetUnread = True"
| "reading (GetNotification nid) = True" | "reading (GetMemories q c) = True" | "reading (GetMemory kid) = True"
| "reading GetConversations = True" | "reading (GetMessages cid) = True"
| "reading _ = False"

lemma reading_routes: "reading r \<Longrightarrow> reads_only (app_handle app call req r)"
  by (cases r)
     (simp_all add: app_handle_def Let_def home_route_def session_info_route_def approvals_page_route_def list_missions_route_def
        mission_detail_reads list_approvals_route_def approval_detail_route_def list_notifications_route_def unread_count_route_def
        notification_detail_route_def list_knowledge_route_def knowledge_detail_route_def list_conversations_route_def
        list_messages_route_def reads_intros)

section \<open>Requests that write\<close>

text \<open>The token a writing request presents, and whether its origin is looked at.\<close>

fun presented :: "route \<Rightarrow> http_request \<Rightarrow> string option" where
  "presented (PostLogout csrf) req = Some csrf"
| "presented (PostDecision rid decision csrf) req = Some csrf"
| "presented (PostApproval rid decision) req = Some (supplied_csrf req)"
| "presented PostConversation req = Some (supplied_csrf req)"
| "presented (PostMessage cid body) req = Some (supplied_csrf req)"
| "presented (GetChatMission cid mid) req = None"
| "presented _ req = Some (header_or ''x-csrf-token'' [] req)"

fun same_origin :: "route \<Rightarrow> bool" where
  "same_origin (PostLogout csrf) = True"
| "same_origin (PostDecision rid decision csrf) = True"
| "same_origin (PostApproval rid decision) = True"
| "same_origin PostConversation = True"
| "same_origin (PostMessage cid body) = True"
| "same_origin (PostLogin password) = True"
| "same_origin _ = False"

fun is_login :: "route \<Rightarrow> bool" where
  "is_login (PostLogin password) = True" | "is_login _ = False"

fun is_logout :: "route \<Rightarrow> bool" where
  "is_logout (PostLogout csrf) = True" | "is_logout _ = False"

lemma with_session_writes:
  assumes "snd (with_session env call req denied f s) \<noteq> s"
  obtains token rec where "session_of env req (wc_now call) s = Some (token, rec)" and "snd (f (token, rec) s) \<noteq> s"
  using with_session_cases[of env call req denied f s] assms by fastforce

lemma with_csrf_writes:
  assumes "snd (with_session env call req denied (\<lambda>(token, rec). with_csrf req rec m) s) \<noteq> s"
  obtains token rec where "session_of env req (wc_now call) s = Some (token, rec)"
    and "header_or ''x-csrf-token'' [] req = as_csrf rec" and "snd (m s) \<noteq> s"
proof -
  from with_session_writes[OF assms] obtain token rec where
    "session_of env req (wc_now call) s = Some (token, rec)" "snd (with_csrf req rec m s) \<noteq> s" by auto
  with with_csrf_cases[of req rec m s] that show thesis by auto
qed

lemma with_write_security_writes:
  assumes w: "snd (with_chat_session env call req (\<lambda>(owner, rec). with_write_security env req rec (m owner)) s) \<noteq> s"
  obtains token rec where "session_of env req (wc_now call) s = Some (token, rec)"
    and "supplied_csrf req = as_csrf rec" and "origin_is_allowed (we_settings env) req = Inr True"
proof (rule with_session_writes[OF w[unfolded with_chat_session_def]])
  fix token rec
  assume t: "session_of env req (wc_now call) s = Some (token, rec)"
  assume "snd ((\<lambda>(_, rec). if as_id rec = 0 then returnE (detail 401 ''Authentication required'')
     else (\<lambda>(owner, rec). with_write_security env req rec (m owner)) (int_repr (as_id rec), rec)) (token, rec) s) \<noteq> s"
  then have "snd (with_write_security env req rec (m (int_repr (as_id rec))) s) \<noteq> s" by (auto split: if_splits)
  with with_write_security_cases[of env req rec "m (int_repr (as_id rec))" s] that t show thesis by auto
qed

lemma origin_writes:
  assumes "snd (bindE (liftE (origin_is_allowed ws req)) (\<lambda>allowed. if \<not> allowed then returnE x else m) s) \<noteq> s"
  shows "origin_is_allowed ws req = Inr True" and "snd (m s) \<noteq> s"
  using assms by (cases "origin_is_allowed ws req"; auto split: if_splits)+

lemma token_writes:
  assumes "snd (bindE (liftE check) (\<lambda>same. if \<not> same then returnE x else m) s) \<noteq> s"
  shows "check = Inr True" and "snd (m s) \<noteq> s"
  using assms by (cases check; auto split: if_splits)+

lemma logout_writes:
  assumes "snd (logout_route env call req csrf s) \<noteq> s"
  shows "origin_is_allowed (we_settings env) req = Inr True \<and>
    (\<exists>token rec. session_of env req (wc_now call) s = Some (token, rec) \<and> csrf = as_csrf rec)"
proof -
  note o' = origin_writes[OF assms[unfolded logout_route_def]]
  from with_session_writes[OF o'(2)] obtain token rec where
    "session_of env req (wc_now call) s = Some (token, rec)"
    "snd (bindE (liftE (compare_digest csrf (as_csrf rec))) (\<lambda>same.
           if \<not> same then returnE forbidden_page
           else bindE (revoke_session env token (wc_revoked_at call)) (\<lambda>_. returnE (to_login env))) s) \<noteq> s" by auto
  with o'(1) token_writes(1) show ?thesis by (fastforce simp: compare_digest_eq)
qed

lemma decide_page_writes:
  assumes "snd (decide_page_route env call req rid decision csrf s) \<noteq> s"
  shows "origin_is_allowed (we_settings env) req = Inr True \<and>
    (\<exists>token rec. session_of env req (wc_now call) s = Some (token, rec) \<and> csrf = as_csrf rec)"
proof -
  note o' = origin_writes[OF assms[unfolded decide_page_route_def]]
  from with_session_writes[OF o'(2)] obtain token rec where t: "session_of env req (wc_now call) s = Some (token, rec)"
    and w: "snd (bindE (liftE (if as_csrf rec = [] then Inr False else compare_digest csrf (as_csrf rec))) (\<lambda>same.
           if \<not> same then returnE forbidden_page else decide_page env call rid decision) s) \<noteq> s"
    by auto
  from token_writes(1)[OF w] have "csrf = as_csrf rec" by (auto simp: compare_digest_eq split: if_splits)
  with o'(1) t show ?thesis by blast
qed

lemma decide_approval_writes:
  assumes "snd (decide_approval_route env call req rid decision s) \<noteq> s"
  shows "origin_is_allowed (we_settings env) req = Inr True \<and>
    (\<exists>token rec. session_of env req (wc_now call) s = Some (token, rec) \<and> supplied_csrf req = as_csrf rec)"
proof (rule with_session_writes[OF assms[unfolded decide_approval_route_def]])
  fix token rec
  assume t: "session_of env req (wc_now call) s = Some (token, rec)"
  assume w: "snd ((\<lambda>(_, rec). bindE (liftE (origin_is_allowed (we_settings env) req)) (\<lambda>allowed.
         if \<not> allowed then returnE (json_error 403 ''Origin not allowed'')
         else bindE (liftE (csrf_matches req rec)) (\<lambda>same.
           if \<not> same then returnE (json_error 403 ''Invalid CSRF token'') else decide_approval call rid decision)))
     (token, rec) s) \<noteq> s"
  note o' = origin_writes[OF w[unfolded prod.case]]
  from token_writes(1)[OF o'(2)] have "supplied_csrf req = as_csrf rec" by (simp add: csrf_matches_True)
  with o'(1) t show ?thesis by blast
qed

text \<open>The routes whose token is a header.\<close>

lemmas header_routes = create_mission_route_def read_all_route_def read_notification_route_def dismiss_notification_route_def
  create_knowledge_route_def update_knowledge_route_def lock_knowledge_route_def contradict_knowledge_route_def
  delete_knowledge_route_def

definition admitted :: "'w app \<Rightarrow> web_call \<Rightarrow> http_request \<Rightarrow> route \<Rightarrow> ('w, 'a) web_db_scheme \<Rightarrow> bool" where
  "admitted app call req r s \<longleftrightarrow>
     (\<exists>token rec. session_of (ap_web app) req (wc_now call) s = Some (token, rec) \<and>
        (presented r req = None \<or> presented r req = Some (as_csrf rec))) \<and>
     (same_origin r \<longrightarrow> origin_is_allowed (we_settings (ap_web app)) req = Inr True)"

lemma app_handle_admitted:
  assumes w: "snd (app_handle app call req r s) \<noteq> s" and l: "\<not> is_login r"
  shows "admitted app call req r s"
proof (cases "reading r")
  case True
  with reads_onlyD[OF reading_routes] w show ?thesis by blast
next
  case False
  note w' = w[unfolded app_handle_def Let_def]
  show ?thesis
  proof (cases r)
    case (PostLogout csrf)
    with w' logout_writes show ?thesis by (fastforce simp: admitted_def)
  next
    case (PostDecision rid decision csrf)
    with w' decide_page_writes show ?thesis by (fastforce simp: admitted_def)
  next
    case (PostApproval rid decision)
    with w' decide_approval_writes show ?thesis by (fastforce simp: admitted_def)
  next
    case PostConversation
    with w' show ?thesis
      by (simp only: create_conversation_route_def route.case) (erule with_write_security_writes, simp add: admitted_def)
  next
    case (PostMessage cid body)
    with w' show ?thesis
      by (simp only: submit_message_route_def Let_def route.case) (erule with_write_security_writes, simp add: admitted_def)
  next
    case (GetChatMission cid mid)
    with w' show ?thesis
      by (simp only: refresh_mission_route_def with_chat_session_def route.case) (erule with_session_writes, auto simp: admitted_def)
  next
    case (PostMission body)
    with w' show ?thesis
      by (simp only: header_routes route.case) (erule with_csrf_writes, simp add: admitted_def)
  next
    case PostReadAll
    with w' show ?thesis
      by (simp only: header_routes route.case) (erule with_csrf_writes, simp add: admitted_def)
  next
    case (PostRead nid)
    with w' show ?thesis
      by (simp only: header_routes route.case) (erule with_csrf_writes, simp add: admitted_def)
  next
    case (PostDismiss nid)
    with w' show ?thesis
      by (simp only: header_routes route.case) (erule with_csrf_writes, simp add: admitted_def)
  next
    case (PostMemory body)
    with w' show ?thesis
      by (simp only: header_routes route.case) (erule with_csrf_writes, simp add: admitted_def)
  next
    case (PatchMemory kid body)
    with w' show ?thesis
      by (simp only: header_routes route.case) (erule with_csrf_writes, simp add: admitted_def)
  next
    case (PostLock kid body)
    with w' show ?thesis
      by (simp only: header_routes route.case) (erule with_csrf_writes, simp add: admitted_def)
  next
    case (PostContradiction kid body)
    with w' show ?thesis
      by (simp only: header_routes route.case) (erule with_csrf_writes, simp add: admitted_def)
  next
    case (DeleteMemoryRoute kid)
    with w' show ?thesis
      by (simp only: header_routes route.case) (erule with_csrf_writes, simp add: admitted_def)
  qed (use False l in simp_all)
qed

section \<open>What touches the sessions\<close>

lemma session_frames [keeps_intros]:
  "keeps (same admin_sessions) (create_mission l i t0 n)" "keeps (same admin_sessions) (create_plan reg ids mid es)"
  "keeps (same admin_sessions) (get_mission mid)" "keeps (same admin_sessions) (list_plan_steps mid)"
  "keeps (same (admin_sessions :: ('w, 'a) web_db_scheme \<Rightarrow> admin_session list)) (ask_model client prompt history)"
  "keeps (same (admin_sessions :: ('w, 'a) web_db_scheme \<Rightarrow> admin_session list)) (add_message i t0 cid owner role content m)"
  "keeps (same (admin_sessions :: ('w, 'a) web_db_scheme \<Rightarrow> admin_session list)) (create_conversation i t0 owner agent)"
  by (auto simp: keeps_def same_def create_mission_def create_plan_def get_mission_def Let_def create_conversation_def
      list_plan_steps_def bindE_def add_to_session_def ask_model_snd add_message_def owned_conversation_cases
      split: sum.split option.split)

lemma queue_candidate_sessions [keeps_intros]: "keeps (same admin_sessions) (queue_candidate env c r t)"
  unfolding queue_candidate_def create_code_change_def by (intro keeps_intros)

lemma reply_sessions [keeps_intros]:
  "keeps (same (admin_sessions :: ('w, 'a) web_db_scheme \<Rightarrow> admin_session list)) (reply call st content mid)"
  unfolding reply_def by (intro keeps_intros)

lemma chat_submit_sessions [keeps_intros]:
  "keeps (same (admin_sessions :: ('w, 'a) web_db_scheme \<Rightarrow> admin_session list)) (chat_submit env call raw)"
  unfolding chat_submit_def conversation_reply_def submit_code_change_def submit_inspection_def Let_def
  by (intro keeps_intros)

lemma chat_refresh_sessions [keeps_intros]:
  "keeps (same (admin_sessions :: ('w, 'a) web_db_scheme \<Rightarrow> admin_session list)) (chat_refresh env call mid)"
  unfolding chat_refresh_def completed_code_change_def completed_inspection_def summarize_inspection_def failed_inspection_def Let_def
  by (intro keeps_intros)

lemma memory_sessions [keeps_intros]:
  "keeps (same (admin_sessions :: ('w, 'a) web_db_scheme \<Rightarrow> admin_session list)) (get_memory kid b)"
  "keeps (same (admin_sessions :: ('w, 'a) web_db_scheme \<Rightarrow> admin_session list)) (insert_memory k)"
  "keeps (same (admin_sessions :: ('w, 'a) web_db_scheme \<Rightarrow> admin_session list)) (change_memory kid f)"
  by (auto simp: keeps_def same_def get_memory_def insert_memory_def change_memory_def bindE_def split: option.split sum.split)

lemma knowledge_sessions [keeps_intros]:
  "keeps (same (admin_sessions :: ('w, 'a) web_db_scheme \<Rightarrow> admin_session list)) (create_memory i t0 now n)"
  "keeps (same (admin_sessions :: ('w, 'a) web_db_scheme \<Rightarrow> admin_session list)) (update_memory kid u now)"
  "keeps (same (admin_sessions :: ('w, 'a) web_db_scheme \<Rightarrow> admin_session list)) (set_lock kid b)"
  "keeps (same (admin_sessions :: ('w, 'a) web_db_scheme \<Rightarrow> admin_session list)) (delete_memory kid now)"
  unfolding create_memory_def update_memory_def set_lock_def delete_memory_def by (intro keeps_intros)+

lemma contradiction_sessions [keeps_intros]:
  "keeps (same (admin_sessions :: ('w, 'a) web_db_scheme \<Rightarrow> admin_session list)) (record_contradiction i t0 now kid content p c)"
  unfolding record_contradiction_def by (intro keeps_intros)

lemma work_sessions [keeps_intros]:
  "keeps (same admin_sessions) (decide rid d now)" "keeps (same admin_sessions) (mark_read nid now)"
  "keeps (same admin_sessions) (mark_all_read now)" "keeps (same admin_sessions) (dismiss nid now)"
  by (auto simp: keeps_def same_def decide_def mark_read_def mark_all_read_def dismiss_def Let_def split: option.split)

lemma reads_keep: "reads_only m \<Longrightarrow> keeps (same g) m"
  by (simp add: reads_only_def keeps_def same_def)

lemma handleE_keeps [keeps_intros]: "keeps R m \<Longrightarrow> keeps R (handleE m f)"
  by (simp add: keeps_def)

lemma resolve_keeps [keeps_intros]: "keeps (same g) (resolve_request_session env req now)"
  by (simp add: keeps_def same_def)

lemma with_session_keeps [keeps_intros]:
  "(\<And>x. keeps (same g) (f x)) \<Longrightarrow> keeps (same g) (with_session env call req denied f)"
  unfolding with_session_def by (intro keeps_intros)

lemma with_csrf_keeps [keeps_intros]: "keeps (same g) m \<Longrightarrow> keeps (same g) (with_csrf req rec m)"
  unfolding with_csrf_def by (intro keeps_intros)

lemma with_chat_session_keeps [keeps_intros]:
  "(\<And>x. keeps (same g) (f x)) \<Longrightarrow> keeps (same g) (with_chat_session env call req f)"
  unfolding with_chat_session_def by (intro keeps_intros)

lemma with_write_security_keeps [keeps_intros]:
  "keeps (same g) m \<Longrightarrow> keeps (same g) (with_write_security env req rec m)"
  unfolding with_write_security_def by (intro keeps_intros)

lemma get_request_keeps [keeps_intros]: "keeps (same g) (get_request rid)"
  by (rule reads_keep) (rule reads_basic)

lemmas body_routes = create_mission_from_def decide_page_route_def decide_page_def decide_approval_route_def decide_approval_def
  create_conversation_route_def submit_message_route_def refresh_mission_route_def

lemma header_routes_keep_sessions [keeps_intros]:
  "keeps (same (admin_sessions :: ('w, 'a) web_db_scheme \<Rightarrow> admin_session list)) (create_mission_route env call req body)"
  "keeps (same (admin_sessions :: ('w, 'a) web_db_scheme \<Rightarrow> admin_session list)) (read_all_route env call req)"
  "keeps (same (admin_sessions :: ('w, 'a) web_db_scheme \<Rightarrow> admin_session list)) (read_notification_route env call req nid)"
  "keeps (same (admin_sessions :: ('w, 'a) web_db_scheme \<Rightarrow> admin_session list)) (dismiss_notification_route env call req nid)"
  "keeps (same (admin_sessions :: ('w, 'a) web_db_scheme \<Rightarrow> admin_session list)) (create_knowledge_route env call req explain body1)"
  "keeps (same (admin_sessions :: ('w, 'a) web_db_scheme \<Rightarrow> admin_session list)) (update_knowledge_route env call req explain kid body2)"
  "keeps (same (admin_sessions :: ('w, 'a) web_db_scheme \<Rightarrow> admin_session list)) (lock_knowledge_route env call req kid body3)"
  "keeps (same (admin_sessions :: ('w, 'a) web_db_scheme \<Rightarrow> admin_session list)) (contradict_knowledge_route env call req explain kid body4)"
  "keeps (same (admin_sessions :: ('w, 'a) web_db_scheme \<Rightarrow> admin_session list)) (delete_knowledge_route env call req kid)"
  unfolding header_routes create_mission_from_def Let_def by (intro keeps_intros)+

lemma body_routes_keep_sessions [keeps_intros]:
  "keeps (same (admin_sessions :: ('w, 'a) web_db_scheme \<Rightarrow> admin_session list)) (decide_page_route env call req rid decision csrf)"
  "keeps (same (admin_sessions :: ('w, 'a) web_db_scheme \<Rightarrow> admin_session list)) (decide_approval_route env call req rid decision)"
  "keeps (same (admin_sessions :: ('w, 'a) web_db_scheme \<Rightarrow> admin_session list)) (create_conversation_route env call req)"
  "keeps (same (admin_sessions :: ('w, 'a) web_db_scheme \<Rightarrow> admin_session list)) (submit_message_route env chat call req cid body5)"
  "keeps (same (admin_sessions :: ('w, 'a) web_db_scheme \<Rightarrow> admin_session list)) (refresh_mission_route env chat call req cid mid)"
  unfolding body_routes Let_def by (intro keeps_intros)+

lemma other_routes_keep_sessions:
  fixes app :: "'w app"
  assumes "\<not> is_login r" and "\<not> is_logout r"
  shows "keeps (same (admin_sessions :: ('w, 'a) web_db_scheme \<Rightarrow> admin_session list)) (app_handle app call req r)"
proof (cases "reading r")
  case True
  then show ?thesis by (rule reading_routes[THEN reads_keep])
next
  case False
  then show ?thesis using assms unfolding app_handle_def Let_def
    by (cases r) (simp_all add: header_routes_keep_sessions body_routes_keep_sessions)
qed

lemma redis_step_keeps [keeps_intros]:
  "keeps (same (admin_sessions :: ('w, 'a) web_db_scheme \<Rightarrow> admin_session list)) (redis_step f)"
  by (auto simp: keeps_def same_def redis_step_def split: prod.split)

lemma limiter_keeps [keeps_intros]:
  "keeps (same (admin_sessions :: ('w, 'a) web_db_scheme \<Rightarrow> admin_session list)) (is_blocked env identity)"
  "keeps (same (admin_sessions :: ('w, 'a) web_db_scheme \<Rightarrow> admin_session list)) (record_failure env identity)"
  "keeps (same (admin_sessions :: ('w, 'a) web_db_scheme \<Rightarrow> admin_session list)) (clear_failures env identity)"
  unfolding is_blocked_def record_failure_def clear_failures_def Let_def by (intro keeps_intros)+

section \<open>Sessions end for good\<close>

text \<open>\<open>ends_only\<close>: rows are added with new digests, and a revoked row stays as it is.\<close>

definition revoked :: "string \<Rightarrow> ('w, 'a) web_db_scheme \<Rightarrow> bool" where
  "revoked d s \<longleftrightarrow> (\<exists>r. row_of as_digest d (admin_sessions s) = Some r \<and> as_revoked r \<noteq> None)"

definition ends_only :: "('w, 'a) web_db_scheme \<Rightarrow> ('w, 'a) web_db_scheme \<Rightarrow> bool" where
  "ends_only s t \<longleftrightarrow> (\<forall>d. revoked d s \<longrightarrow> revoked d t)"

lemma ends_only_rel [simp]: "reflp ends_only" "transp ends_only"
  by (auto simp: reflp_def transp_def ends_only_def)

lemma ends_bindE [keeps_intros]:
  "keeps ends_only m \<Longrightarrow> (\<And>x. keeps ends_only (f x)) \<Longrightarrow> keeps ends_only (bindE m f)"
  by (rule keeps_bindE) simp_all

lemma ends_basic [keeps_intros]:
  "keeps ends_only (returnE x)" "keeps ends_only (raiseE e)" "keeps ends_only (liftE v)"
  by (simp_all add: keeps_returnE keeps_raiseE keeps_liftE)

lemma same_ends: "keeps (same admin_sessions) m \<Longrightarrow> keeps ends_only m"
  by (auto simp: keeps_def same_def ends_only_def revoked_def)

lemma create_session_ends [keeps_intros]: "keeps ends_only (create_session env token csrf now i)"
  by (auto simp: keeps_def ends_only_def revoked_def create_session_def Let_def insert_row_def row_of_append)

lemma revoke_session_cases:
  "snd (revoke_session env token now s) = s \<or>
   (\<exists>r. row_of as_digest (we_sha env token) (admin_sessions s) = Some r \<and>
        snd (revoke_session env token now s) =
          s\<lparr>admin_sessions := save_row as_digest (r\<lparr>as_revoked := Some (Aware now)\<rparr>) (admin_sessions s)\<rparr>)"
  by (auto simp: revoke_session_def split: option.split)

lemma revoke_session_ends [keeps_intros]: "keeps ends_only (revoke_session env token now)"
proof (rule keepsI)
  fix s
  let ?t = "snd (revoke_session env token now s)"
  show "ends_only s ?t"
  proof (rule disjE[OF revoke_session_cases[of env token now s]])
    assume "?t = s"
    then show ?thesis by (simp add: ends_only_def)
  next
    assume "\<exists>r. row_of as_digest (we_sha env token) (admin_sessions s) = Some r \<and>
        ?t = s\<lparr>admin_sessions := save_row as_digest (r\<lparr>as_revoked := Some (Aware now)\<rparr>) (admin_sessions s)\<rparr>"
    then obtain r where t: "?t = s\<lparr>admin_sessions := save_row as_digest (r\<lparr>as_revoked := Some (Aware now)\<rparr>) (admin_sessions s)\<rparr>"
      by blast
    show ?thesis unfolding t by (auto simp: ends_only_def revoked_def row_of_save_row split: if_splits)
  qed
qed

lemma revoke_session_revokes:
  assumes "resolve_session env token now s = Some r"
  shows "revoked (we_sha env token) (snd (revoke_session env token t0 s))"
  using assms row_of_SomeD[of as_digest "we_sha env token" "admin_sessions s" r]
  by (auto simp: resolve_session_def revoke_session_def revoked_def row_of_save_row split: if_splits option.splits)

lemma keeps_bool [keeps_intros]: "keeps R m \<Longrightarrow> keeps R n \<Longrightarrow> keeps R (case b of True \<Rightarrow> m | False \<Rightarrow> n)"
  by (cases b) simp_all

lemma app_handle_ends: "keeps ends_only (app_handle app call req r)"
proof (cases "is_login r \<or> is_logout r")
  case False
  then show ?thesis using same_ends[OF other_routes_keep_sessions] by blast
next
  case True
  show ?thesis
  proof (cases r)
    case (PostLogin password)
    then show ?thesis unfolding app_handle_def Let_def login_route_def
      by (simp only: route.case) (intro keeps_intros limiter_keeps[THEN same_ends])
  next
    case (PostLogout csrf)
    then show ?thesis unfolding app_handle_def Let_def logout_route_def with_session_def
      by (simp only: route.case) (intro keeps_intros resolve_keeps[THEN same_ends])
  qed (use True in simp_all)
qed

definition web_run :: "'w app \<Rightarrow> (web_call \<times> http_request \<times> route) list \<Rightarrow> ('w, 'a) web_db_scheme \<Rightarrow> ('w, 'a) web_db_scheme" where
  "web_run app reqs s = fold (\<lambda>(call, req, r) s. snd (app_handle app call req r s)) reqs s"

lemma web_run_ends: "ends_only s (web_run app reqs s)"
proof (induction reqs arbitrary: s)
  case Nil
  then show ?case by (simp add: web_run_def ends_only_def)
next
  case (Cons x reqs)
  obtain call req r where x: "x = (call, req, r)" by (cases x)
  from keepsD[OF app_handle_ends, of s app call req r] Cons.IH[of "snd (app_handle app call req r s)"]
  show ?case by (simp add: x web_run_def ends_only_def)
qed

lemma revoked_no_session:
  assumes "revoked (we_sha env token) s"
  shows "session_of env req now s \<noteq> Some (token, rec)"
  using assms
  by (auto simp: session_of_def resolve_request_session_def bindE_def resolve_session_def revoked_def
      split: option.splits if_splits sum.splits)

end
