(* ===== verification/Web_Properties.thy ===== *)
theory Web_Properties
  imports Web_Laws Service_Properties
begin

text \<open>
  The properties of the web application, each with an instance on sample values.
\<close>

section \<open>A sample application\<close>

text \<open>The world holds the Redis counters; the digests are readable.\<close>

definition counters_env :: "(string \<Rightarrow> int) web_env" where
  "counters_env =
     \<lparr>we_settings = \<lparr>ws_production = True, ws_secret = Some ''k'', ws_lifetime_hours = 1, ws_password_hash = Some ''pw'',
                      ws_root_path = ''/hq''\<rparr>,
      we_sha = (\<lambda>t. t), we_hmac = (\<lambda>k t. ''ab''), we_verify = (\<lambda>p h. p = h),
      we_redis_get = (\<lambda>k w. (Some (if w k = 0 then None else Some (w k)), w)),
      we_redis_incr = (\<lambda>k w. (Some (w k + 1), w(k := w k + 1))),
      we_redis_expire = (\<lambda>k t w. (Some (), w)),
      we_redis_delete = (\<lambda>k w. (Some (), w(k := 0)))\<rparr>"

section \<open>The login limit\<close>

text \<open>
  What Redis documents, while no key expires: \<open>GET\<close> reads the counter, \<open>INCR\<close> adds one and answers the
  new value, \<open>EXPIRE\<close> and \<open>GET\<close> leave the counters as they are.
\<close>

definition counting :: "'w web_env \<Rightarrow> ('w \<Rightarrow> string \<Rightarrow> int) \<Rightarrow> bool" where
  "counting env cnt \<longleftrightarrow>
     (\<forall>k w. (\<exists>w'. we_redis_get env k w = (Some (if cnt w k = 0 then None else Some (cnt w k)), w') \<and> cnt w' = cnt w) \<and>
            (\<exists>w'. we_redis_incr env k w = (Some (cnt w k + 1), w') \<and> cnt w' = (cnt w)(k := cnt w k + 1)) \<and>
            (\<forall>t. \<exists>w'. we_redis_expire env k t w = (Some (), w') \<and> cnt w' = cnt w))"

lemma counting_get:
  assumes "counting env cnt"
  obtains w' where "we_redis_get env k w = (Some (if cnt w k = 0 then None else Some (cnt w k)), w')" "cnt w' = cnt w"
  using assms unfolding counting_def by blast

lemma counting_incr:
  assumes "counting env cnt"
  obtains w' where "we_redis_incr env k w = (Some (cnt w k + 1), w')" "cnt w' = (cnt w)(k := cnt w k + 1)"
  using assms unfolding counting_def by blast

lemma counting_expire:
  assumes "counting env cnt"
  obtains w' where "we_redis_expire env k t w = (Some (), w')" "cnt w' = cnt w"
  using assms unfolding counting_def by blast

lemma is_blocked_counting:
  assumes c: "counting env cnt"
  obtains w' where "is_blocked env who s = (Inr (Some (cnt (world s) (limiter_key env who) \<ge> max_attempts)), s\<lparr>world := w'\<rparr>)"
    and "cnt w' = cnt (world s)"
proof -
  let ?k = "limiter_key env who"
  obtain w' where w: "we_redis_get env ?k (world s) = (Some (if cnt (world s) ?k = 0 then None else Some (cnt (world s) ?k)), w')"
    "cnt w' = cnt (world s)" by (rule counting_get[OF c])
  have "is_blocked env who s = (Inr (Some (cnt (world s) ?k \<ge> max_attempts)), s\<lparr>world := w'\<rparr>)"
    by (simp add: is_blocked_def redis_step_def bindE_def w(1) max_attempts_def)
  with w(2) show thesis by (intro that)
qed

lemma record_failure_counting:
  assumes c: "counting env cnt"
  obtains w' where "record_failure env who s = (Inr (Some ()), s\<lparr>world := w'\<rparr>)"
    and "cnt w' = (cnt (world s))(limiter_key env who := cnt (world s) (limiter_key env who) + 1)"
proof -
  let ?k = "limiter_key env who"
  obtain w1 where w1: "we_redis_incr env ?k (world s) = (Some (cnt (world s) ?k + 1), w1)"
    "cnt w1 = (cnt (world s))(?k := cnt (world s) ?k + 1)" by (rule counting_incr[OF c])
  obtain w2 where w2: "we_redis_expire env ?k attempt_window w1 = (Some (), w2)" "cnt w2 = cnt w1"
    by (rule counting_expire[OF c])
  show thesis
  proof (cases "cnt (world s) ?k + 1 = 1")
    case True
    with w1 w2 show ?thesis by (intro that[of w2]) (simp_all add: record_failure_def redis_step_def bindE_def Let_def)
  next
    case False
    with w1 show ?thesis by (intro that[of w1]) (simp_all add: record_failure_def redis_step_def bindE_def Let_def)
  qed
qed

definition wrong_guess :: "'w web_env \<Rightarrow> string \<Rightarrow> web_call \<times> http_request \<times> string \<Rightarrow> bool" where
  "wrong_guess env who g \<longleftrightarrow>
     (case g of (call, req, password) \<Rightarrow>
        client_identity req = who \<and> origin_is_allowed (we_settings env) req = Inr True \<and>
        \<not> we_verify env password (case ws_password_hash (we_settings env) of None \<Rightarrow> [] | Some h \<Rightarrow> h))"

definition wrong_password :: "exn + web_reply" where
  "wrong_password = Inr (Reply 401 (LoginForm (Some ''Invalid credentials'')))"

definition too_many :: "exn + web_reply" where
  "too_many = Inr (Reply 200 (LoginForm (Some ''Too many attempts. Try again later.'')))"

primrec login_answers ::
  "'w web_env \<Rightarrow> (web_call \<times> http_request \<times> string) list \<Rightarrow> ('w, 'a) web_db_scheme \<Rightarrow> (exn + web_reply) list" where
  "login_answers env [] s = []"
| "login_answers env (g # gs) s =
     (case g of (call, req, password) \<Rightarrow>
        (case login_route env call req password s of (r, t) \<Rightarrow> r # login_answers env gs t))"

lemma login_blocked:
  assumes c: "counting env cnt" and o': "origin_is_allowed (we_settings env) req = Inr True"
    and full: "cnt (world s) (limiter_key env (client_identity req)) \<ge> max_attempts"
  obtains w' where "login_route env call req password s = (too_many, s\<lparr>world := w'\<rparr>)" "cnt w' = cnt (world s)"
proof (rule is_blocked_counting[OF c, of "client_identity req" s])
  fix w'
  assume b: "is_blocked env (client_identity req) s =
    (Inr (Some (cnt (world s) (limiter_key env (client_identity req)) \<ge> max_attempts)), s\<lparr>world := w'\<rparr>)"
    and w: "cnt w' = cnt (world s)"
  have "login_route env call req password s = (too_many, s\<lparr>world := w'\<rparr>)"
    using b full by (simp add: login_route_def too_many_def o' Let_def)
  then show thesis using w by (rule that)
qed

lemma login_wrong:
  assumes c: "counting env cnt" and g: "wrong_guess env who (call, req, password)"
    and few: "cnt (world s) (limiter_key env who) < max_attempts"
  obtains w' where "login_route env call req password s = (wrong_password, s\<lparr>world := w'\<rparr>)"
    "cnt w' = (cnt (world s))(limiter_key env who := cnt (world s) (limiter_key env who) + 1)"
proof (rule is_blocked_counting[OF c, of who s])
  fix w1
  assume b: "is_blocked env who s = (Inr (Some (cnt (world s) (limiter_key env who) \<ge> max_attempts)), s\<lparr>world := w1\<rparr>)"
    and w1: "cnt w1 = cnt (world s)"
  show thesis
  proof (rule record_failure_counting[OF c, of who "s\<lparr>world := w1\<rparr>"])
    fix w2
    assume r: "record_failure env who (s\<lparr>world := w1\<rparr>) = (Inr (Some ()), s\<lparr>world := w1\<rparr>\<lparr>world := w2\<rparr>)"
      and w2: "cnt w2 = (cnt (world (s\<lparr>world := w1\<rparr>)))(limiter_key env who := cnt (world (s\<lparr>world := w1\<rparr>)) (limiter_key env who) + 1)"
    have "login_route env call req password s = (wrong_password, s\<lparr>world := w2\<rparr>)"
      using b r few g by (simp add: login_route_def wrong_password_def wrong_guess_def Let_def)
    moreover have "cnt w2 = (cnt (world s))(limiter_key env who := cnt (world s) (limiter_key env who) + 1)"
      using w2 w1 by simp
    ultimately show ?thesis by (rule that)
  qed
qed

definition room :: "int \<Rightarrow> nat" where
  "room n = nat (max_attempts - n)"

lemma login_answers_limited:
  assumes c: "counting env cnt"
  shows "list_all (wrong_guess env who) gs \<Longrightarrow>
    login_answers env gs s =
      (let k = room (cnt (world s) (limiter_key env who))
       in replicate (min k (length gs)) wrong_password @ replicate (length gs - k) too_many)"
proof (induction gs arbitrary: s)
  case Nil
  then show ?case by simp
next
  case (Cons g gs)
  obtain call req password where g: "g = (call, req, password)" by (cases g)
  from Cons.prems have guess: "wrong_guess env who (call, req, password)" and rest: "list_all (wrong_guess env who) gs"
    by (simp_all add: g)
  let ?n = "cnt (world s) (limiter_key env who)"
  show ?case
  proof (cases "?n < max_attempts")
    case True
    obtain w' where w: "login_route env call req password s = (wrong_password, s\<lparr>world := w'\<rparr>)"
      "cnt w' = (cnt (world s))(limiter_key env who := ?n + 1)" by (rule login_wrong[OF c guess True])
    from True have "room ?n = Suc (room (?n + 1))" by (simp add: room_def)
    with w Cons.IH[OF rest, of "s\<lparr>world := w'\<rparr>"] show ?thesis by (simp add: g Let_def)
  next
    case False
    from guess have o': "origin_is_allowed (we_settings env) req = Inr True" "client_identity req = who"
      by (simp_all add: wrong_guess_def)
    from False have full: "cnt (world s) (limiter_key env (client_identity req)) \<ge> max_attempts" by (simp add: o')
    obtain w' where w: "login_route env call req password s = (too_many, s\<lparr>world := w'\<rparr>)" "cnt w' = cnt (world s)"
      by (rule login_blocked[OF c o'(1) full])
    from False have "room ?n = 0" by (simp add: room_def)
    with w Cons.IH[OF rest, of "s\<lparr>world := w'\<rparr>"] show ?thesis by (simp add: g Let_def)
  qed
qed

text \<open>What a login that redirects has checked and done.\<close>

lemma login_redirect:
  assumes l: "login_route env call req password s = (Inr (Reply 303 (RedirectBody p (Some cookie))), t)"
  shows "origin_is_allowed (we_settings env) req = Inr True"
    and "we_verify env password (case ws_password_hash (we_settings env) of None \<Rightarrow> [] | Some h \<Rightarrow> h)"
    and "cookie = encode_session_cookie env (wc_token call) (case ws_secret (we_settings env) of None \<Rightarrow> [] | Some k \<Rightarrow> k)"
    and "\<exists>u r. create_session env (wc_token call) (wc_csrf call) (wc_session_now call) (wc_session_id call) u = (Inr r, t)"
proof -
  let ?who = "client_identity req"
  from l have o': "origin_is_allowed (we_settings env) req = Inr True"
    by (cases "origin_is_allowed (we_settings env) req") (auto simp: login_route_def Let_def forbidden_page_def split: if_splits)
  obtain rb s1 where b: "is_blocked env ?who s = (rb, s1)" by (cases "is_blocked env ?who s")
  from l o' b have b': "rb = Inr (Some False)"
    by (cases rb) (auto simp: login_route_def Let_def split: option.splits bool.splits)
  have v: "we_verify env password (case ws_password_hash (we_settings env) of None \<Rightarrow> [] | Some h \<Rightarrow> h)"
  proof (rule ccontr)
    assume n: "\<not> ?thesis"
    obtain rf s2 where f: "record_failure env ?who s1 = (rf, s2)" by (cases "record_failure env ?who s1")
    from l o' b b' n f show False by (cases rf) (auto simp: login_route_def Let_def split: option.splits)
  qed
  obtain rc s2 where c: "clear_failures env ?who s1 = (rc, s2)" by (cases "clear_failures env ?who s1")
  from l o' b b' v c have c': "rc = Inr (Some ())"
    by (cases rc) (auto simp: login_route_def Let_def split: option.splits)
  obtain rr s3 where k: "create_session env (wc_token call) (wc_csrf call) (wc_session_now call) (wc_session_id call) s2 = (rr, s3)"
    by (cases "create_session env (wc_token call) (wc_csrf call) (wc_session_now call) (wc_session_id call) s2")
  from l o' b b' v c c' k obtain r where "rr = Inr r" "s3 = t"
    "cookie = encode_session_cookie env (wc_token call) (case ws_secret (we_settings env) of None \<Rightarrow> [] | Some k \<Rightarrow> k)"
    by (cases rr) (auto simp: login_route_def Let_def)
  with o' v k show "origin_is_allowed (we_settings env) req = Inr True"
    and "we_verify env password (case ws_password_hash (we_settings env) of None \<Rightarrow> [] | Some h \<Rightarrow> h)"
    and "cookie = encode_session_cookie env (wc_token call) (case ws_secret (we_settings env) of None \<Rightarrow> [] | Some k \<Rightarrow> k)"
    and "\<exists>u r. create_session env (wc_token call) (wc_csrf call) (wc_session_now call) (wc_session_id call) u = (Inr r, t)"
    by blast+
qed

lemma created_session_row:
  assumes "create_session env token csrf now i s = (Inr r, t)"
  shows "row_of as_digest (we_sha env token) (admin_sessions t) = Some r"
    and "as_csrf r = csrf" "as_revoked r = None" "as_expires r = Aware (now + hours (ws_lifetime_hours (we_settings env)))"
  using assms row_of_None_iff[of as_digest "we_sha env token" "admin_sessions s"]
  by (auto simp: create_session_def Let_def insert_row_def row_of_append split: if_splits)

lemma logout_redirect:
  assumes l: "logout_route env call req csrf s = (Inr (to_login env), t)"
    and x: "session_of env req (wc_now call) s = Some (token, rec)"
  shows "revoked (we_sha env token) t"
proof -
  from l have o': "origin_is_allowed (we_settings env) req = Inr True"
    by (cases "origin_is_allowed (we_settings env) req")
       (auto simp: logout_route_def forbidden_page_def to_login_def split: if_splits)
  obtain r where r: "resolve_request_session env req (wc_now call) s = (Inr (Some (token, rec)), s)"
    "resolve_session env token (wc_now call) s = Some r"
    using x by (auto simp: session_of_def resolve_request_session_def bindE_def split: option.splits if_splits sum.splits)
  have e: "bindE (liftE (compare_digest csrf (as_csrf rec))) (\<lambda>same.
           if \<not> same then returnE forbidden_page
           else bindE (revoke_session env token (wc_revoked_at call)) (\<lambda>_. returnE (to_login env))) s = (Inr (to_login env), t)"
    using l o' r(1) by (simp add: logout_route_def with_session_def)
  then have "snd (revoke_session env token (wc_revoked_at call) s) = t"
    by (cases "compare_digest csrf (as_csrf rec)"; cases "revoke_session env token (wc_revoked_at call) s")
       (auto simp: forbidden_page_def to_login_def bindE_def split: if_splits sum.splits)
  with revoke_session_revokes[OF r(2), of "wc_revoked_at call"] show ?thesis by simp
qed

section \<open>Properties\<close>


text \<open>
  C29: a log-out is final. Once the log-out route has answered with the redirect to the login page, no
  request with any cookie, at any clock reading and after any further requests, logins included, is taken
  for that session again.
\<close>

theorem logout_is_final:
  assumes "session_of (ap_web app) req (wc_now call) s = Some (token, rec)"
    and "app_handle app call req (PostLogout csrf) s = (Inr (to_login (ap_web app)), t)"
  shows "session_of (ap_web app) req' now' (web_run app reqs t) \<noteq> Some (token, rec')"
proof -
  have "revoked (we_sha (ap_web app) token) t"
    using assms by (intro logout_redirect) (simp_all add: app_handle_def)
  with web_run_ends[of t app reqs] show ?thesis by (intro revoked_no_session) (simp add: ends_only_def)
qed

text \<open>
  C31: guessing is limited. However many wrong passwords one client sends, with a counting Redis whose
  counter for it stands at \<open>n\<close>, exactly the first \<open>5 - n\<close> are looked at; every later attempt is told that
  there were too many.
\<close>

theorem guesses_limited:
  assumes "counting env cnt" and "list_all (wrong_guess env who) gs" and "0 \<le> cnt (world s) (limiter_key env who)"
  shows "\<exists>k \<le> 5. k = nat (5 - cnt (world s) (limiter_key env who)) \<and>
    login_answers env gs s = replicate (min k (length gs)) wrong_password @ replicate (length gs - k) too_many"
  using login_answers_limited[OF assms(1,2), of s] assms(3) by (simp add: Let_def room_def max_attempts_def)

text \<open>
  C22: what a login gives. A login that redirects came from the allowed origin with the right password,
  and the cookie it sets names the new session, with its token, until the session expires.
\<close>

theorem login_opens_session:
  assumes "hex_hmac env" and "ws_secret (we_settings env) = Some secret" "secret \<noteq> []" "wc_token call \<noteq> []"
    and "login_route env call req password s = (Inr (Reply 303 (RedirectBody p (Some cookie))), t)"
    and "hr_cookie req' = Some cookie" and "now' < wc_session_now call + hours (ws_lifetime_hours (we_settings env))"
  shows "origin_is_allowed (we_settings env) req = Inr True \<and>
    we_verify env password (case ws_password_hash (we_settings env) of None \<Rightarrow> [] | Some h \<Rightarrow> h) \<and>
    (\<exists>rec. session_of env req' now' t = Some (wc_token call, rec) \<and> as_csrf rec = wc_csrf call)"
proof -
  note l = login_redirect[OF assms(5)]
  from l(4) obtain u r where
    "create_session env (wc_token call) (wc_csrf call) (wc_session_now call) (wc_session_id call) u = (Inr r, t)" by blast
  note k = created_session_row[OF this]
  have "session_of env req' now' t = Some (wc_token call, r)"
    using assms(2-4,6,7) l(3) k by (simp add: session_of_iff[OF assms(1)])
  with l(1,2) k(2) show ?thesis by blast
qed

section \<open>Instances\<close>

definition sample_web_call :: "string \<Rightarrow> int \<Rightarrow> web_call" where
  "sample_web_call token i =
     \<lparr>wc_now = 10, wc_token = token, wc_csrf = ''c1'', wc_session_id = i, wc_session_now = 0, wc_revoked_at = 11,
      wc_expiry_now = 10, wc_new_id = ''m1'', wc_created = 10, wc_operation_now = 10,
      wc_chat = chat_sample_call ''m1''\<rparr>"

definition sample_admin :: admin_session where
  "sample_admin = \<lparr>as_id = 7, as_digest = ''t1'', as_csrf = ''c1'', as_created = 0,
                   as_expires = Aware 1000, as_revoked = None\<rparr>"

definition web_sample :: "(string \<Rightarrow> int) web_db" where
  "web_sample =
     \<lparr>ledger = [], missions = [], mission_steps = [], approval_requests = [], scoped_rules = [], system_row = None,
      agents = [], notifications = [], incidents = [], attempts = [], world = (\<lambda>_. 0), deliveries = [],
      conversations = [], chat_messages = [], memories = [sample_memory], admin_sessions = [sample_admin]\<rparr>"

definition web_request :: http_request where
  "web_request =
     \<lparr>hr_cookie = Some ''t1.ab'',
      hr_headers = [(''host'', ''h''), (''origin'', ''https://h''), (''x-csrf-token'', ''c1'')],
      hr_client = Some ''1.2.3.4'', hr_scheme = ''https''\<rparr>"

definition sample_app :: "(string \<Rightarrow> int) app" where
  "sample_app =
     \<lparr>ap_web = counters_env,
      ap_chat = \<lparr>ch_resolve = (\<lambda>_. Inr False), ch_model = None, ch_changes = None, ch_general_prompt = [],
                 ch_grounded_prompt = [], ch_dash = ''-''\<rparr>,
      ap_explain = concat\<rparr>"

lemma sample_hex: "hex_hmac counters_env"
  by (simp add: hex_hmac_def counters_env_def is_ascii_def)

lemma sample_settings [simp]:
  "ws_production (we_settings counters_env)" "ws_secret (we_settings counters_env) = Some ''k''"
  "ws_password_hash (we_settings counters_env) = Some ''pw''" "ws_lifetime_hours (we_settings counters_env) = 1"
  "we_sha counters_env t = t" "we_hmac counters_env k t = ''ab''" "ap_web sample_app = counters_env"
  "we_verify counters_env p h = (p = h)"
  "we_redis_get counters_env key w = (Some (if w key = 0 then None else Some (w key)), w)"
  "we_redis_delete counters_env key w = (Some (), w(key := 0))"
  by (simp_all add: counters_env_def sample_app_def)

lemma sample_origin [simp]: "origin_is_allowed (we_settings counters_env) web_request = Inr True"
  by (simp add: origin_is_allowed_def web_request_def header_def header_or_def expected_origin_def strip_slashes_def
      compare_digest_eq is_ascii_def)

lemma sample_session: "session_of counters_env web_request 10 web_sample = Some (''t1'', sample_admin)"
  by (simp add: session_of_iff[OF sample_hex] web_request_def encode_session_cookie_def web_sample_def sample_admin_def row_of_def)


lemma sample_resolved: "resolve_request_session counters_env web_request 10 web_sample = (Inr (Some (''t1'', sample_admin)), web_sample)"
  using sample_session resolve_request_session_snd[of counters_env web_request 10 web_sample]
  by (cases "resolve_request_session counters_env web_request 10 web_sample")
     (auto simp: session_of_def split: sum.splits)

lemma sample_token [simp]: "header_or ''x-csrf-token'' [] web_request = ''c1''" "as_csrf sample_admin = ''c1''"
  by (simp_all add: header_or_def header_def web_request_def sample_admin_def)




definition sample_logout :: "(exn + web_reply) \<times> (string \<Rightarrow> int) web_db" where
  "sample_logout = app_handle sample_app (sample_web_call ''t2'' 8) web_request (PostLogout ''c1'') web_sample"

lemma sample_logout_reply: "fst sample_logout = Inr (to_login counters_env)"
  by (simp add: sample_logout_def app_handle_def Let_def logout_route_def with_session_def sample_web_call_def
      sample_resolved sample_admin_def compare_digest_def is_ascii_def revoke_session_def bindE_def split: option.split)

theorem logout_is_final_witness:
  "session_of counters_env web_request 12
     (web_run sample_app [(sample_web_call ''t1'' 8, web_request, PostLogin ''pw'')] (snd sample_logout)) \<noteq>
   Some (''t1'', sample_admin)"
proof -
  have s: "session_of (ap_web sample_app) web_request (wc_now (sample_web_call ''t2'' 8)) web_sample = Some (''t1'', sample_admin)"
    using sample_session by (simp add: sample_web_call_def)
  have l: "app_handle sample_app (sample_web_call ''t2'' 8) web_request (PostLogout ''c1'') web_sample =
    (Inr (to_login (ap_web sample_app)), snd sample_logout)"
    using sample_logout_reply by (simp add: sample_logout_def prod_eq_iff)
  from logout_is_final[OF s l] show ?thesis by simp
qed

definition sample_guess :: "web_call \<times> http_request \<times> string" where
  "sample_guess = (sample_web_call ''t2'' 8, web_request, ''guess'')"

theorem guesses_limited_witness:
  "login_answers counters_env (replicate 7 sample_guess) web_sample = replicate 5 wrong_password @ replicate 2 too_many"
proof -
  have "counting counters_env (\<lambda>w. w)"
    by (auto simp: counting_def counters_env_def)
  moreover have "list_all (wrong_guess counters_env ''1.2.3.4'') (replicate 7 sample_guess)"
    by (simp add: list_all_iff wrong_guess_def sample_guess_def client_identity_def header_def)
       (simp add: web_request_def)
  moreover have "world web_sample (limiter_key counters_env ''1.2.3.4'') = 0" by (simp add: web_sample_def)
  ultimately show ?thesis
    using guesses_limited[of counters_env "\<lambda>w. w" "''1.2.3.4''" "replicate 7 sample_guess" web_sample] by simp
qed

definition sample_login :: "(exn + web_reply) \<times> (string \<Rightarrow> int) web_db" where
  "sample_login = login_route counters_env (sample_web_call ''t2'' 8) web_request ''pw'' web_sample"

lemma sample_login_reply:
  "fst sample_login = Inr (Reply 303 (RedirectBody (external_path (we_settings counters_env) ''/'') (Some ''t2.ab'')))"
  by (simp add: sample_login_def login_route_def Let_def is_blocked_def clear_failures_def redis_step_def bindE_def
      max_attempts_def web_sample_def create_session_def insert_row_def sample_admin_def encode_session_cookie_def
      sample_web_call_def)

theorem login_opens_session_witness:
  "\<exists>rec. session_of counters_env (web_request\<lparr>hr_cookie := Some ''t2.ab''\<rparr>) 99 (snd sample_login) = Some (''t2'', rec)"
proof -
  have l: "login_route counters_env (sample_web_call ''t2'' 8) web_request ''pw'' web_sample =
    (Inr (Reply 303 (RedirectBody (external_path (we_settings counters_env) ''/'') (Some ''t2.ab''))), snd sample_login)"
    using sample_login_reply by (simp add: sample_login_def prod_eq_iff)
  show ?thesis
    using login_opens_session[OF sample_hex _ _ _ l, of "''k''" "web_request\<lparr>hr_cookie := Some ''t2.ab''\<rparr>" 99]
    by (auto simp: sample_web_call_def hours_def seconds_def)
qed

end
