(* ===== verification/Model_Agents.thy ===== *)
theory Model_Agents
  imports Chat Json_Parse
begin

text \<open>
  The reasoning agents behind a language model: \<open>delivery/model_agents.py\<close>. The model is a client that answers a
  prompt and messages with a text; what it answers is parsed and checked before it becomes a candidate or a review.
  The prompts are texts without influence on the checks; they are arguments.
\<close>

section \<open>JSON as the agents write it\<close>

text \<open>\<open>json.dumps(..., sort_keys=True)\<close> with its default separators.\<close>

fun json_text_wide :: "json \<Rightarrow> string" where
  "json_text_wide (JList xs) = ''['' @ join '', '' (map json_text_wide xs) @ '']''"
| "json_text_wide (JObj d) =
     ''{'' @ join '', '' (map (\<lambda>(k, v). quote k @ '': '' @ json_text_wide v) d) @ ''}''"
| "json_text_wide v = json_text v"

definition json_dumps_wide :: "json \<Rightarrow> string" where
  "json_dumps_wide v = json_text_wide (json_canon v)"

section \<open>Parsing an answer\<close>

definition parse_json_object :: "string \<Rightarrow> string \<Rightarrow> exn + dict" where
  "parse_json_object source raw =
     (case json_loads raw of
        None \<Rightarrow> Inl (ValueError (source @ '' must return valid JSON''))
      | Some (JObj d) \<Rightarrow> Inr d
      | Some _ \<Rightarrow> Inl (ValueError (source @ '' JSON must be an object'')))"

text \<open>
  \<^verbatim>\<open>\s*```(?:json)?[ \t]*\r?\n(?P<body>.*?)\r?\n?[ \t]*```\s*\<close>, matched against the whole text: the opening line,
  then the shortest body after which only a line end, blanks, the closing fence and spaces are left.
\<close>

definition fence :: string where "fence = ''```''"

definition after_prefix :: "string \<Rightarrow> string \<Rightarrow> string option" where
  "after_prefix p t = (if take (length p) t = p then Some (drop (length p) t) else None)"

definition drop_optional :: "string \<Rightarrow> string \<Rightarrow> string" where
  "drop_optional p t = (case after_prefix p t of None \<Rightarrow> t | Some u \<Rightarrow> u)"

definition drop_tabs :: "string \<Rightarrow> string" where
  "drop_tabs t = dropWhile (\<lambda>c. c = CHR '' '' \<or> c = CHR 0x09) t"

definition fence_open :: "string \<Rightarrow> string option" where
  "fence_open t =
     (case after_prefix fence (dropWhile is_space t) of
        None \<Rightarrow> None
      | Some u \<Rightarrow> after_prefix [CHR 0x0A] (drop_optional [CHR 0x0D] (drop_tabs (drop_optional ''json'' u))))"

definition fence_closes :: "string \<Rightarrow> bool" where
  "fence_closes t =
     (case after_prefix fence (drop_tabs (drop_optional [CHR 0x0A] (drop_optional [CHR 0x0D] t))) of
        None \<Rightarrow> False
      | Some u \<Rightarrow> list_all is_space u)"

definition fence_body :: "string \<Rightarrow> string option" where
  "fence_body t =
     (case fence_open t of
        None \<Rightarrow> None
      | Some u \<Rightarrow> map_option (\<lambda>k. take k u) (find (\<lambda>k. fence_closes (drop k u)) [0..<Suc (length u)]))"

definition parse_json_envelope :: "string \<Rightarrow> string \<Rightarrow> exn + dict" where
  "parse_json_envelope source raw =
     (case parse_json_object source raw of
        Inr d \<Rightarrow> Inr d
      | Inl e \<Rightarrow>
          (case fence_body raw of
             None \<Rightarrow> Inl (ValueError (source @ '' must return valid JSON''))
           | Some body \<Rightarrow> parse_json_object source body))"

section \<open>The developer\<close>

fun is_jstr :: "json \<Rightarrow> bool" where
  "is_jstr (JStr t) = True" | "is_jstr _ = False"

text \<open>\<open>value in {...}\<close> for a value of any type: a list or a dict cannot be hashed.\<close>

definition unhashable :: exn where "unhashable = TypeError ''unhashable type''"

definition hashed_in :: "json \<Rightarrow> string list \<Rightarrow> exn + bool" where
  "hashed_in v names =
     (case v of
        JStr x \<Rightarrow> Inr (x \<in> set names)
      | JList _ \<Rightarrow> Inl unhashable
      | JObj _ \<Rightarrow> Inl unhashable
      | _ \<Rightarrow> Inr False)"

definition forbidden_fields :: "string list" where
  "forbidden_fields =
     [''argv'', ''command'', ''cwd'', ''deploy'', ''deployment'', ''environment'', ''executable'', ''merge'', ''push'', ''shell'']"

definition developer_change_error :: "nat \<Rightarrow> string \<Rightarrow> exn" where
  "developer_change_error i msg = ValueError (''Developer change '' @ nat_repr i @ msg)"

definition validate_developer_change :: "nat \<Rightarrow> json \<Rightarrow> exn + dict" where
  "validate_developer_change i raw =
     (case raw of
        JObj d \<Rightarrow>
          unless (dict_keys d \<noteq> {''path'', ''operation'', ''content''})
            (developer_change_error i '' must contain exactly path, operation, and content'')
          (case dict_get d ''path'' of
             JStr path \<Rightarrow>
               unless (strip path = []) (developer_change_error i '' requires a path'')
               (andThen (hashed_in (dict_get d ''operation'') [''write'', ''delete'']) (\<lambda>known.
                unless (\<not> known) (developer_change_error i '' has invalid operation'')
                (let operation = dict_get d ''operation''; content = dict_get d ''content'' in
                 unless (operation = JStr ''write'' \<and> \<not> is_jstr content)
                   (developer_change_error i '' write content must be a string'')
                 (unless (operation = JStr ''delete'' \<and> content \<noteq> JNull)
                   (developer_change_error i '' delete content must be null'')
                   (Inr [(''path'', JStr (strip path)), (''operation'', operation), (''content'', content)])))))
           | _ \<Rightarrow> Inl (developer_change_error i '' requires a path''))
      | _ \<Rightarrow> Inl (developer_change_error i '' must be an object''))"

fun validate_developer_changes :: "nat \<Rightarrow> json list \<Rightarrow> exn + dict list" where
  "validate_developer_changes i [] = Inr []"
| "validate_developer_changes i (raw # raws) =
     andThen (validate_developer_change i raw) (\<lambda>c.
     andThen (validate_developer_changes (Suc i) raws) (\<lambda>cs. Inr (c # cs)))"

text \<open>The supplied context: the files given completely.\<close>

definition context_file_error :: "nat \<Rightarrow> string \<Rightarrow> exn" where
  "context_file_error i msg = ValueError (''Developer context file '' @ nat_repr i @ msg)"

fun complete_files :: "nat \<Rightarrow> json list \<Rightarrow> exn + (string \<times> string) list" where
  "complete_files i [] = Inr []"
| "complete_files i (item # items) =
     (case item of
        JObj d \<Rightarrow>
          (case (dict_get d ''path'', dict_get d ''content'') of
             (JStr path, JStr content) \<Rightarrow>
               unless (strip path = []) (context_file_error i '' is invalid'')
               (andThen (complete_files (Suc i) items) (\<lambda>files.
                  Inr (if dict_get d ''complete'' = JBool True then (strip path, content) # files else files)))
           | _ \<Rightarrow> Inl (context_file_error i '' is invalid''))
      | _ \<Rightarrow> Inl (context_file_error i '' must be an object''))"

definition context_file :: "string \<times> string \<Rightarrow> json" where
  "context_file f = JObj [(''path'', JStr (fst f)), (''content'', JStr (snd f)), (''complete'', JBool True)]"

definition writable_paths :: "(string \<times> string) list \<Rightarrow> string list" where
  "writable_paths files = sort (remdups (map fst files))"

definition developer_context :: "json \<Rightarrow> exn + dict \<times> (string \<times> string) list" where
  "developer_context supplied =
     (case supplied of
        JObj d \<Rightarrow>
          andThen (hashed_in (dict_get d ''repository'') [''ai-hq'', ''dripvid'']) (\<lambda>trusted.
          unless (\<not> trusted) (ValueError ''Developer context requires trusted repository'')
          (case dict_get d ''instruction'' of
             JStr instruction \<Rightarrow>
               unless (strip instruction = []) (ValueError ''Developer context requires instruction'')
               (case dict_get d ''files'' of
                  JList items \<Rightarrow>
                    andThen (complete_files 0 items) (\<lambda>files.
                      Inr ([(''repository'', dict_get d ''repository''), (''instruction'', JStr (strip instruction)),
                            (''files'', JList (map context_file files)),
                            (''writable_paths'', JList (map JStr (writable_paths files)))], files))
                | _ \<Rightarrow> Inl (ValueError ''Developer context files must be a list''))
           | _ \<Rightarrow> Inl (ValueError ''Developer context requires instruction'')))
      | _ \<Rightarrow> Inl (ValueError ''Developer context provider must return a mapping''))"

definition developer_message :: "string \<Rightarrow> dict \<Rightarrow> string" where
  "developer_message mid context =
     json_dumps_wide (JObj
       [(''mission_id'', JStr mid),
        (''instruction'', JStr ''Produce the structured Developer repository file changes for this mission.''),
        (''repository_context'', JObj context)])"

text \<open>The checks of a parsed candidate; \<open>paths\<close> are the writable ones, when a context was supplied.\<close>

definition check_paths :: "string list option \<Rightarrow> dict list \<Rightarrow> exn + unit" where
  "check_paths paths changes =
     (case paths of
        None \<Rightarrow> Inr ()
      | Some ps \<Rightarrow>
          (case find (\<lambda>c. dict_get c ''path'' \<notin> JStr ` set ps) changes of
             None \<Rightarrow> Inr ()
           | Some c \<Rightarrow>
               Inl (ValueError (''Developer change path was not supplied with complete trusted context: '' @
                      (case dict_get c ''path'' of JStr p \<Rightarrow> p | _ \<Rightarrow> [])))))"

definition developer_candidate :: "string list option \<Rightarrow> dict \<Rightarrow> exn + json" where
  "developer_candidate paths candidate =
     (case filter (\<lambda>f. f \<in> dict_keys candidate) forbidden_fields of
        f # _ \<Rightarrow> Inl (ValueError (''Developer JSON contains prohibited command authority field: '' @ f))
      | [] \<Rightarrow>
          (case dict_get candidate ''summary'' of
             JStr summary \<Rightarrow>
               unless (strip summary = []) (ValueError ''Developer JSON requires summary'')
               (case dict_get candidate ''changes'' of
                  JList raws \<Rightarrow>
                    andThen (validate_developer_changes 0 raws) (\<lambda>changes.
                    andThen (check_paths paths changes) (\<lambda>_.
                      Inr (JObj [(''summary'', JStr (strip summary)), (''changes'', JList (map JObj changes))])))
                | _ \<Rightarrow> Inl (ValueError ''Developer changes must be a list''))
           | _ \<Rightarrow> Inl (ValueError ''Developer JSON requires summary'')))"

record 'w model_developer =
  md_client :: "'w model_client"
  md_context :: "(string \<Rightarrow> ('w, json) op) option"
  md_prompt :: string
  md_retry :: string

definition ask_developer :: "'w model_developer \<Rightarrow> string \<Rightarrow> dict \<Rightarrow> ('w, dict) op" where
  "ask_developer dev mid context =
     (let messages = [(''user'', developer_message mid context)] in
      bindE (md_client dev (md_prompt dev) messages) (\<lambda>raw.
        case parse_json_envelope ''Developer'' raw of
          Inr d \<Rightarrow> returnE d
        | Inl e \<Rightarrow>
            bindE (md_client dev (md_prompt dev) (messages @ [(''user'', md_retry dev)])) (\<lambda>again.
              liftE (parse_json_envelope ''Developer'' again))))"

definition developer_execute :: "'w model_developer \<Rightarrow> string \<Rightarrow> ('w, json) op" where
  "developer_execute dev mid =
     (case md_context dev of
        None \<Rightarrow> bindE (ask_developer dev mid []) (\<lambda>d. liftE (developer_candidate None d))
      | Some provide \<Rightarrow>
          bindE (provide mid) (\<lambda>supplied.
          bindE (liftE (developer_context supplied)) (\<lambda>(context, files).
          bindE (ask_developer dev mid context) (\<lambda>d.
            liftE (developer_candidate (Some (map fst files)) d)))))"

section \<open>QA\<close>

definition qa_message :: "string \<Rightarrow> string \<Rightarrow> string \<Rightarrow> json list \<Rightarrow> dict \<Rightarrow> string" where
  "qa_message mid change_ref summary changed_files evidence =
     json_dumps_wide (JObj
       [(''mission_id'', JStr mid), (''change_ref'', JStr change_ref), (''summary'', JStr summary),
        (''changed_files'', JList changed_files), (''developer_evidence'', JObj evidence)])"

definition checked_review :: "dict \<Rightarrow> exn + json" where
  "checked_review review =
     (case qa_result_of (dict_get review ''result'') of
        None \<Rightarrow> Inl (ValueError ''QA result must be PASSED or FAILED'')
      | Some verdict \<Rightarrow>
          (case dict_get review ''evidence'' of
             JObj evidence \<Rightarrow>
               unless (evidence = []) (ValueError ''QA JSON requires evidence'')
                 (Inr (JObj [(''result'', dict_get review ''result''), (''evidence'', JObj evidence)]))
           | _ \<Rightarrow> Inl (ValueError ''QA JSON requires evidence'')))"

definition qa_review ::
  "'w model_client \<Rightarrow> string \<Rightarrow> string \<Rightarrow> string \<Rightarrow> string \<Rightarrow> json list \<Rightarrow> dict \<Rightarrow> ('w, json) op" where
  "qa_review client prompt mid change_ref summary changed_files evidence =
     bindE (client prompt [(''user'', qa_message mid change_ref summary changed_files evidence)]) (\<lambda>raw.
       liftE (andThen (parse_json_object ''QA'' raw) checked_review))"

end
