(* ===== verification/Model_Laws.thy ===== *)
theory Model_Laws
  imports Model_Agents Source_Context Candidate_Laws
begin

text \<open>
  What the model's answers can lead to: the context holds only eligible files without secrets, within the limits;
  the developer returns only changes of those files; both agents return what the delivery runner accepts.
\<close>

section \<open>The context\<close>

definition chars :: "(string \<times> string) list \<Rightarrow> int" where
  "chars files = sum_list (map (\<lambda>f. int (length (snd f))) files)"

lemma chars_simps [simp]: "chars [] = 0" "chars (f # fs) = int (length (snd f)) + chars fs"
  by (simp_all add: chars_def)

lemma select_files_from: "set (select_files cp ranked taken used) \<subseteq> snd ` set ranked"
  by (induction cp ranked taken used rule: select_files.induct) auto

lemma select_files_limits:
  "taken \<le> cp_max_files cp \<Longrightarrow> used \<le> cp_max_total cp \<Longrightarrow>
   taken + int (length (select_files cp ranked taken used)) \<le> cp_max_files cp \<and>
   used + chars (select_files cp ranked taken used) \<le> cp_max_total cp \<and>
   (\<forall>f \<in> set (select_files cp ranked taken used). int (length (snd f)) \<le> cp_max_chars cp)"
  by (induction cp ranked taken used rule: select_files.induct) (auto simp: Let_def)

text \<open>What is left out had no room.\<close>

definition no_room :: "context_provider \<Rightarrow> int \<Rightarrow> int \<Rightarrow> string \<Rightarrow> bool" where
  "no_room cp taken used content \<longleftrightarrow>
     taken \<ge> cp_max_files cp \<or> used \<ge> cp_max_total cp \<or> int (length content) > cp_max_chars cp \<or>
     int (length content) > cp_max_total cp - used"

lemma chars_nonneg: "0 \<le> chars fs"
  by (induction fs) auto

lemma no_room_more: "no_room cp taken used c \<Longrightarrow> taken \<le> taken' \<Longrightarrow> used \<le> used' \<Longrightarrow> no_room cp taken' used' c"
  by (auto simp: no_room_def)

lemma select_files_full:
  "(score, path, content) \<in> set ranked \<Longrightarrow>
   (path, content) \<in> set (select_files cp ranked taken used) \<or>
   no_room cp (taken + int (length (select_files cp ranked taken used)))
     (used + chars (select_files cp ranked taken used)) content"
proof (induction cp ranked taken used rule: select_files.induct)
  case (1 cp taken used)
  then show ?case by simp
next
  case (2 cp k p c ranked taken used)
  have more: "no_room cp (taken + int (length fs)) (used + chars fs) x" if "no_room cp taken used x" for fs x
    using that by (rule no_room_more) (simp_all add: chars_nonneg)
  show ?case
  proof (cases "taken \<ge> cp_max_files cp \<or> cp_max_total cp - used \<le> 0")
    case True
    then show ?thesis by (auto simp: no_room_def)
  next
    case open': False
    show ?thesis
    proof (cases "int (length c) > cp_max_chars cp \<or> int (length c) > cp_max_total cp - used")
      case True
      then have "no_room cp taken used c" by (auto simp: no_room_def)
      with open' True 2 more show ?thesis by auto
    next
      case False
      with open' 2 show ?thesis by (auto simp: algebra_simps)
    qed
  qed
qed

lemma ranked_entry_Some:
  "ranked_entry tokens e = Some (k, path, content) \<longleftrightarrow>
     eligible e \<and> se_text e = Some content \<and> \<not> sensitive_content content \<and> path = relative_path e \<and>
     k = - relevance path content tokens \<and> 0 < relevance path content tokens"
  by (auto simp: ranked_entry_def Let_def split: option.splits)

lemma map_filter_set: "x \<in> set (List.map_filter f xs) \<longleftrightarrow> (\<exists>y \<in> set xs. f y = Some x)"
  by (induction xs) (auto simp: List.map_filter_def)

lemma context_files_eligible:
  assumes "(path, content) \<in> set (context_files cp entries instruction)"
  shows "\<exists>e \<in> set entries. eligible e \<and> relative_path e = path \<and> se_text e = Some content \<and>
    \<not> sensitive_content content \<and> 0 < relevance path content (instruction_tokens instruction)"
proof -
  from assms select_files_from obtain k where
    "(k, path, content) \<in> set (List.map_filter (ranked_entry (instruction_tokens instruction)) entries)"
    unfolding context_files_def by (metis (no_types, lifting) image_iff prod.collapse set_sort subsetD)
  then show ?thesis by (auto simp: map_filter_set ranked_entry_Some)
qed

section \<open>The developer's answer\<close>

fun checked_change :: "dict \<Rightarrow> bool" where
  "checked_change c \<longleftrightarrow>
     (\<exists>p k content. c = [(''path'', JStr p), (''operation'', k), (''content'', content)] \<and> strip p = p \<and> p \<noteq> [] \<and>
        (k = JStr ''write'' \<and> is_jstr content \<or> k = JStr ''delete'' \<and> content = JNull))"

lemma hashed_in_True: "hashed_in v names = Inr True \<longleftrightarrow> (\<exists>x \<in> set names. v = JStr x)"
  by (cases v) (auto simp: hashed_in_def unhashable_def)

lemma validate_developer_change_Inr: "validate_developer_change i raw = Inr c \<Longrightarrow> checked_change c"
  by (cases raw)
     (auto simp: validate_developer_change_def Let_def unhashable_def hashed_in_True
       split: json.splits if_splits)

lemma validate_developer_changes_Inr: "validate_developer_changes i raws = Inr cs \<Longrightarrow> list_all checked_change cs"
  by (induction raws arbitrary: i cs) (auto simp del: checked_change.simps dest: validate_developer_change_Inr)

lemma check_paths_Inr: "check_paths (Some ps) cs = Inr u \<Longrightarrow> c \<in> set cs \<Longrightarrow> dict_get c ''path'' \<in> JStr ` set ps"
  by (auto simp: check_paths_def find_None_iff split: option.splits)

definition developer_answer :: "string \<Rightarrow> dict list \<Rightarrow> json" where
  "developer_answer summary changes = JObj [(''summary'', JStr summary), (''changes'', JList (map JObj changes))]"

lemma developer_candidate_Inr:
  assumes "developer_candidate paths d = Inr v"
  obtains summary changes where "v = developer_answer summary changes" "strip summary = summary" "summary \<noteq> []"
    "list_all checked_change changes" "check_paths paths changes = Inr ()"
    "\<And>f. f \<in> set forbidden_fields \<Longrightarrow> f \<notin> dict_keys d"
proof -
  from assms have none: "filter (\<lambda>f. f \<in> dict_keys d) forbidden_fields = []"
    by (simp add: developer_candidate_def split: list.splits)
  with assms obtain s raws changes where s: "dict_get d ''summary'' = JStr s" "strip s \<noteq> []"
    and c: "validate_developer_changes 0 raws = Inr changes" "check_paths paths changes = Inr ()"
    and v: "v = developer_answer (strip s) changes"
    by (auto simp: developer_candidate_def developer_answer_def split: json.splits)
  show thesis
    using that[OF v _ s(2) validate_developer_changes_Inr[OF c(1)] c(2)] none by (auto simp: filter_empty_conv)
qed

lemma checked_change_accepted:
  assumes "checked_change c"
  shows "\<exists>f. candidate_file_change i (JObj c) = Inr f \<and> JStr (fc_path f) = dict_get c ''path''"
proof -
  from assms obtain p k content where c: "c = [(''path'', JStr p), (''operation'', k), (''content'', content)]"
    and p: "strip p = p" "p \<noteq> []"
    and k: "k = JStr ''write'' \<and> is_jstr content \<or> k = JStr ''delete'' \<and> content = JNull" by auto
  from k show ?thesis
    by (cases content)
       (auto simp: c p candidate_file_change_def file_operation_of_def make_file_change_def required_stripped dict_keys_def)
qed

lemma checked_changes_accepted:
  "list_all checked_change cs \<Longrightarrow>
   \<exists>fs. candidate_changes_from i (map JObj cs) = Inr fs \<and> map (\<lambda>f. JStr (fc_path f)) fs = map (\<lambda>c. dict_get c ''path'') cs"
proof (induction cs arbitrary: i)
  case Nil
  then show ?case by simp
next
  case (Cons c cs)
  then have c: "checked_change c" and cs: "list_all checked_change cs" by (simp_all del: checked_change.simps)
  from checked_change_accepted[OF c, of i] obtain f where "candidate_file_change i (JObj c) = Inr f" "JStr (fc_path f) = dict_get c ''path''" by blast
  moreover from Cons.IH[OF cs, of "Suc i"] obtain fs where "candidate_changes_from (Suc i) (map JObj cs) = Inr fs"
    "map (\<lambda>f. JStr (fc_path f)) fs = map (\<lambda>c. dict_get c ''path'') cs" by blast
  ultimately show ?case by simp
qed

section \<open>The agents\<close>

lemma ask_developer_parses:
  "ask_developer dev mid context w = (Inr d, w') \<Longrightarrow> \<exists>raw. parse_json_envelope ''Developer'' raw = Inr d"
  by (auto simp: ask_developer_def Let_def bindE_def split: prod.splits sum.splits)

lemma developer_execute_context:
  assumes "developer_execute dev mid w = (Inr v, w')" and "md_context dev = Some provide"
  obtains supplied w1 ctx files d where "provide mid w = (Inr supplied, w1)"
    "developer_context supplied = Inr (ctx, files)" "developer_candidate (Some (map fst files)) d = Inr v"
  using assms by (auto simp: developer_execute_def elim!: bindE_InrE)

lemma developer_execute_checked:
  assumes "developer_execute dev mid w = (Inr v, w')"
  obtains paths d where "developer_candidate paths d = Inr v"
  using assms by (auto simp: developer_execute_def elim!: bindE_InrE split: option.splits)

text \<open>The files of a context are those the provider marked as complete.\<close>

lemma complete_files_from:
  "complete_files i items = Inr files \<Longrightarrow> f \<in> set files \<Longrightarrow>
   \<exists>d p. JObj d \<in> set items \<and> dict_get d ''path'' = JStr p \<and> fst f = strip p \<and>
     dict_get d ''content'' = JStr (snd f) \<and> dict_get d ''complete'' = JBool True"
proof (induction items arbitrary: i files)
  case Nil
  then show ?case by simp
next
  case (Cons item items)
  from Cons.prems(1) obtain d p c fs where d: "item = JObj d" "dict_get d ''path'' = JStr p" "dict_get d ''content'' = JStr c"
    and fs: "complete_files (Suc i) items = Inr fs"
    and files: "files = (if dict_get d ''complete'' = JBool True then (strip p, c) # fs else fs)"
    by (auto split: json.splits)
  note IH = Cons.IH[OF fs]
  show ?case
  proof (cases "f \<in> set fs")
    case True
    with IH show ?thesis by fastforce
  next
    case False
    with Cons.prems(2) files have "f = (strip p, c)" "dict_get d ''complete'' = JBool True" by (auto split: if_splits)
    with d show ?thesis by auto
  qed
qed

lemma built_context_files:
  assumes "build_context cp entries instruction = Inr supplied" and "developer_context supplied = Inr (ctx, files)"
    and "f \<in> set files"
  shows "\<exists>path. fst f = strip path \<and> (path, snd f) \<in> set (context_files cp entries (strip instruction))"
proof -
  from assms(1,2) have "complete_files 0 (map (\<lambda>(path, content). JObj [(''path'', JStr path), (''content'', JStr content),
      (''complete'', JBool True)]) (context_files cp entries (strip instruction))) = Inr files"
    by (auto simp: build_context_def developer_context_def Let_def split: json.splits)
  from complete_files_from[OF this assms(3)] show ?thesis by auto
qed

end
