(* ===== verification/Model_Properties.thy ===== *)
theory Model_Properties
  imports Model_Laws
begin

text \<open>
  The properties of the agents behind a language model, each with an instance on sample values.
\<close>

text \<open>\<open>provide_context\<close> of \<open>code_changes/runtime.py\<close>: the instruction of the mission, and the source as it is now.\<close>

definition provide_context ::
  "context_provider \<Rightarrow> ('w \<Rightarrow> source_entry list) \<Rightarrow> (string \<Rightarrow> exn + string) \<Rightarrow> string \<Rightarrow> ('w, json) op" where
  "provide_context cp listing instruction mid w = (andThen (instruction mid) (build_context cp (listing w)), w)"

text \<open>
  C40: the model changes only what it may see. Whatever the model answers, a candidate the developer agent
  returns is accepted by the runner's own checks, and each of its changes is for an eligible file of the
  trusted source whose text carries nothing that looks like a secret.
\<close>

theorem model_changes_confined:
  assumes "md_context dev = Some (provide_context cp listing instruction)"
    and "developer_execute dev mid w = (Inr v, w')"
  shows "\<exists>d changes. v = JObj d \<and> candidate_file_changes d = Inr changes \<and>
    (\<forall>c \<in> set changes. \<exists>e \<in> set (listing w). \<exists>content.
       fc_path c = strip (relative_path e) \<and> eligible e \<and> se_text e = Some content \<and> \<not> sensitive_content content)"
proof -
  from developer_execute_context[OF assms(2,1)] obtain supplied w1 ctx files d where
    s: "provide_context cp listing instruction mid w = (Inr supplied, w1)" and
    f: "developer_context supplied = Inr (ctx, files)" and d: "developer_candidate (Some (map fst files)) d = Inr v" by metis
  from s obtain instr where b: "build_context cp (listing w) instr = Inr supplied" by (auto simp: provide_context_def)
  from developer_candidate_Inr[OF d] obtain summary cs where v: "v = developer_answer summary cs"
    and ok: "list_all checked_change cs" and paths: "check_paths (Some (map fst files)) cs = Inr ()" by metis
  from checked_changes_accepted[OF ok, of 0] obtain changes where ch: "candidate_changes_from 0 (map JObj cs) = Inr changes"
    and p: "map (\<lambda>f. JStr (fc_path f)) changes = map (\<lambda>c. dict_get c ''path'') cs" by blast
  have "\<exists>e \<in> set (listing w). \<exists>content. fc_path c = strip (relative_path e) \<and> eligible e \<and>
      se_text e = Some content \<and> \<not> sensitive_content content" if c: "c \<in> set changes" for c
  proof -
    from c p have "JStr (fc_path c) \<in> (\<lambda>c. dict_get c ''path'') ` set cs" by (metis image_eqI list.set_map)
    with check_paths_Inr[OF paths] obtain f' where "f' \<in> set files" "fst f' = fc_path c" by fastforce
    with built_context_files[OF b f] context_files_eligible show ?thesis by metis
  qed
  with v ch show ?thesis by (auto simp: developer_answer_def candidate_file_changes_def)
qed

text \<open>
  C10: what the model sees is bounded, complete and clean. The context holds at most 12 whole files of at
  most 12,000 characters each and 48,000 together, all eligible, relevant and free of what looks like a secret;
  and a relevant clean file is left out only when it does not fit those limits.
\<close>

theorem context_exact:
  assumes "make_provider repository is_dir = Inr cp" and "files = context_files cp entries instruction"
  shows "length files \<le> 12 \<and> chars files \<le> 48000 \<and> (\<forall>f \<in> set files. length (snd f) \<le> 12000) \<and>
    (\<forall>(path, content) \<in> set files. \<exists>e \<in> set entries. eligible e \<and> relative_path e = path \<and> se_text e = Some content \<and>
       \<not> sensitive_content content \<and> 0 < relevance path content (instruction_tokens instruction)) \<and>
    (\<forall>e \<in> set entries. \<forall>content. eligible e \<and> se_text e = Some content \<and> \<not> sensitive_content content \<and>
       0 < relevance (relative_path e) content (instruction_tokens instruction) \<longrightarrow>
       (relative_path e, content) \<in> set files \<or> length files = 12 \<or> chars files = 48000 \<or> length content > 12000 \<or>
       chars files + int (length content) > 48000)"
proof -
  let ?ranked = "sort (List.map_filter (ranked_entry (instruction_tokens instruction)) entries)"
  from assms(1) have cp: "cp_max_files cp = 12" "cp_max_chars cp = 12000" "cp_max_total cp = 48000"
    by (auto simp: make_provider_def)
  have files: "files = select_files cp ?ranked 0 0" by (simp add: assms(2) context_files_def)
  from select_files_limits[of 0 cp 0 ?ranked] have lim: "int (length files) \<le> 12" "chars files \<le> 48000"
    "\<forall>f \<in> set files. int (length (snd f)) \<le> 12000" unfolding files by (simp_all add: cp)
  have clean: "\<forall>(path, content) \<in> set files. \<exists>e \<in> set entries. eligible e \<and> relative_path e = path \<and> se_text e = Some content \<and>
       \<not> sensitive_content content \<and> 0 < relevance path content (instruction_tokens instruction)"
    using context_files_eligible[of _ _ cp entries instruction] by (auto simp: assms(2))
  have full: "(relative_path e, content) \<in> set files \<or> length files = 12 \<or> chars files = 48000 \<or> length content > 12000 \<or>
       chars files + int (length content) > 48000"
    if e: "e \<in> set entries" "eligible e" "se_text e = Some content" "\<not> sensitive_content content"
      "0 < relevance (relative_path e) content (instruction_tokens instruction)" for e content
  proof -
    have "(- relevance (relative_path e) content (instruction_tokens instruction), relative_path e, content) \<in> set ?ranked"
      using e by (simp add: map_filter_set ranked_entry_Some) blast
    from select_files_full[OF this, of cp 0 0] show ?thesis
      unfolding files[symmetric] using lim by (auto simp: no_room_def cp)
  qed
  from lim clean full show ?thesis by auto
qed

text \<open>
  C39: what the agents return is of the form the delivery takes. A value the developer agent returns carries a
  summary and changes that the runner's own parsing accepts; a review of the QA agent carries
  one of the two results and evidence.
\<close>

theorem model_answers_typed:
  "(developer_execute dev mid w = (Inr v, w') \<longrightarrow>
      (\<exists>d changes summary. v = JObj d \<and> dict_get d ''summary'' = JStr summary \<and> strip summary \<noteq> [] \<and>
         candidate_file_changes d = Inr changes)) \<and>
   (qa_review client prompt mid change_ref summary0 files evidence u = (Inr r, u') \<longrightarrow>
      (\<exists>d verdict found. r = JObj d \<and> qa_result_of (dict_get d ''result'') = Some verdict \<and>
         dict_get d ''evidence'' = JObj found \<and> found \<noteq> []))"
proof (intro conjI impI)
  assume "developer_execute dev mid w = (Inr v, w')"
  then obtain paths d where "developer_candidate paths d = Inr v" by (rule developer_execute_checked)
  then obtain summary cs where v: "v = developer_answer summary cs" "strip summary = summary" "summary \<noteq> []"
    and ok: "list_all checked_change cs" by (rule developer_candidate_Inr)
  from checked_changes_accepted[OF ok, of 0] obtain changes where "candidate_changes_from 0 (map JObj cs) = Inr changes" by blast
  with v show "\<exists>d changes summary. v = JObj d \<and> dict_get d ''summary'' = JStr summary \<and> strip summary \<noteq> [] \<and>
      candidate_file_changes d = Inr changes"
    by (auto simp: developer_answer_def candidate_file_changes_def)
next
  assume "qa_review client prompt mid change_ref summary0 files evidence u = (Inr r, u')"
  then show "\<exists>d verdict found. r = JObj d \<and> qa_result_of (dict_get d ''result'') = Some verdict \<and>
      dict_get d ''evidence'' = JObj found \<and> found \<noteq> []"
    by (auto simp: qa_review_def checked_review_def elim!: bindE_InrE split: option.splits json.splits)
qed

section \<open>Instances\<close>

definition sample_entry :: source_entry where
  "sample_entry = \<lparr>se_parts = [''src'', ''a.py''], se_file = True, se_size = Some 5, se_text = Some ''x = 1''\<rparr>"

definition sample_cp :: context_provider where
  "sample_cp = \<lparr>cp_repository = ''ai-hq'', cp_max_files = 12, cp_max_chars = 12000, cp_max_total = 48000\<rparr>"

definition sample_answer :: string where
  "sample_answer = ''{\"summary\":\"s\",\"changes\":[{\"path\":\"src/a.py\",\"operation\":\"write\",\"content\":\"x = 2\"}]}''"

definition sample_developer :: "unit model_developer" where
  "sample_developer =
     \<lparr>md_client = (\<lambda>prompt messages w. (Inr sample_answer, w)),
      md_context = Some (provide_context sample_cp (\<lambda>_. [sample_entry]) (\<lambda>_. Inr ''go'')),
      md_prompt = [], md_retry = []\<rparr>"

definition sample_returned :: dict where
  "sample_returned =
     [(''summary'', JStr ''s''),
      (''changes'', JList [JObj [(''path'', JStr ''src/a.py''), (''operation'', JStr ''write''), (''content'', JStr ''x = 2'')]])]"

lemma sample_context: "context_files sample_cp [sample_entry] ''go'' = [(''src/a.py'', ''x = 1'')]"
  by code_simp

lemma sample_parsed: "parse_json_envelope ''Developer'' sample_answer = Inr sample_returned"
  by code_simp

lemma sample_supplied:
  "developer_context (JObj [(''repository'', JStr ''ai-hq''), (''instruction'', JStr ''go''),
     (''files'', JList [JObj [(''path'', JStr ''src/a.py''), (''content'', JStr ''x = 1''), (''complete'', JBool True)]])]) =
   Inr ([(''repository'', JStr ''ai-hq''), (''instruction'', JStr ''go''),
         (''files'', JList [context_file (''src/a.py'', ''x = 1'')]), (''writable_paths'', JList [JStr ''src/a.py''])],
        [(''src/a.py'', ''x = 1'')])"
  by code_simp

lemma sample_checked: "developer_candidate (Some [''src/a.py'']) sample_returned = Inr (JObj sample_returned)"
  by code_simp

lemma sample_execute: "developer_execute sample_developer ''m1'' () = (Inr (JObj sample_returned), ())"
proof -
  have "strip ''go'' = ''go''" by code_simp
  then have "provide_context sample_cp (\<lambda>_. [sample_entry]) (\<lambda>_. Inr ''go'') ''m1'' () =
     (Inr (JObj [(''repository'', JStr ''ai-hq''), (''instruction'', JStr ''go''),
     (''files'', JList [JObj [(''path'', JStr ''src/a.py''), (''content'', JStr ''x = 1''), (''complete'', JBool True)]])]), ())"
    by (simp add: provide_context_def build_context_def sample_context Let_def) (simp add: sample_cp_def)
  then show ?thesis
    by (simp add: developer_execute_def sample_developer_def sample_supplied ask_developer_def Let_def sample_parsed sample_checked)
qed

theorem model_changes_confined_witness:
  "\<exists>changes. candidate_file_changes sample_returned = Inr changes \<and>
    (\<forall>c \<in> set changes. fc_path c = strip ''src/a.py'')"
proof -
  have "md_context sample_developer = Some (provide_context sample_cp (\<lambda>_. [sample_entry]) (\<lambda>_. Inr ''go''))"
    by (simp add: sample_developer_def)
  from model_changes_confined[OF this sample_execute] show ?thesis
    by (auto simp: sample_entry_def relative_path_def)
qed

theorem context_exact_witness:
  "length (context_files sample_cp [sample_entry] ''go'') \<le> 12 \<and> chars (context_files sample_cp [sample_entry] ''go'') \<le> 48000"
proof -
  have "make_provider ''ai-hq'' True = Inr sample_cp"
    by (simp add: make_provider_def sample_cp_def trusted_repositories_def)
  from context_exact[OF this refl, of "[sample_entry]" "''go''"] show ?thesis by blast
qed

theorem model_answers_typed_witness:
  "\<exists>summary. dict_get sample_returned ''summary'' = JStr summary \<and> strip summary \<noteq> []"
  using model_answers_typed[THEN conjunct1, rule_format, OF sample_execute] by auto

end
