(* ===== verification/Departments.thy ===== *)
theory Departments
  imports Text_Search Delivery_Agents Host_Link
begin

text \<open>
  The departments: \<open>departments/commander.py\<close>, \<open>departments/sysadmin.py\<close> and \<open>departments/runner.py\<close>. The commander maps
  the title of a queued mission to one of five read-only actions, the system administrator asks the safety service
  and the host helper, and the runner moves the mission. The helper client acts on the outside world.
\<close>

section \<open>The commander\<close>

record routed_action =
  ra_owner :: string
  ra_capability :: host_capability
  ra_goal :: "string option"
  ra_params :: dict
  ra_level :: mission_risk

definition mutation_words :: "string list" where
  "mutation_words =
     [''fix'', ''restart'', ''stop'', ''start'', ''delete'', ''remove'', ''write'', ''edit'', ''update'', ''deploy'',
      ''install'', ''uninstall'', ''run'', ''execute'', ''kill'']"

definition mutation_pattern :: pattern where
  "mutation_pattern = seqs [Edge, one_of (Lit ''fix'') (map Lit (tl mutation_words)), Edge]"

definition department_routes :: "(string \<times> host_capability \<times> string option \<times> dict) list" where
  "department_routes =
     [(''check ai hq health'', HOST_HEALTH, None, []),
      (''check disk and memory'', HOST_RESOURCES, None, []),
      (''is nginx running?'', SERVICE_STATUS, Some ''nginx'', []),
      (''show recent dripvid logs'', LOGS_RECENT, Some ''dripvid'', [(''lines'', JInt 100)]),
      (''check ai hq web container'', CONTAINER_STATUS, Some ''ai-hq-web'', [])]"

definition normalize_title :: "string \<Rightarrow> string" where
  "normalize_title title = squeeze (casefold title)"

text \<open>\<open>None\<close> is \<open>UnsupportedMission\<close>.\<close>

definition route_sysadmin_mission :: "string \<Rightarrow> routed_action option" where
  "route_sysadmin_mission title =
     (let normalized = normalize_title title in
      if searches mutation_pattern normalized then None
      else case map_of department_routes normalized of
             None \<Rightarrow> None
           | Some (capability, target, params) \<Rightarrow>
               Some \<lparr>ra_owner = ''sysadmin'', ra_capability = capability, ra_goal = target, ra_params = params,
                     ra_level = GREEN\<rparr>)"

section \<open>The system administrator\<close>

record execution =
  ex_status :: mission_status
  ex_simulated :: bool
  ex_data :: dict
  ex_error :: "string option"

record 'w department_env =
  de_sha :: "string \<Rightarrow> string"
  de_lifetime :: int
  de_helper :: "helper_request \<Rightarrow> ('w, helper_response) op"
  de_allow :: allow_lists

record department_call =
  dc_clock :: safety_clock
  dc_approval_id :: string
  dc_approval_at :: int

definition record_department_result ::
  "string \<Rightarrow> routed_action \<Rightarrow> mission_status \<Rightarrow> bool \<Rightarrow> string option \<Rightarrow> (('w, 'a) gateway_db_scheme, unit) op" where
  "record_department_result mid action status simulated error =
     bindE (record_event mid (Some ''sysadmin'') RESULT_RECORDED (''SysAdmin result: '' @ status_value status)
              [(''capability'', JStr (capability_value (ra_capability action))), (''target'', opt_str (ra_goal action)),
               (''status'', JStr (status_value status)), (''simulated'', JBool simulated), (''error'', opt_str error)])
       (\<lambda>_. returnE ())"

definition department_failure :: "string \<Rightarrow> routed_action \<Rightarrow> string \<Rightarrow> (('w, 'a) gateway_db_scheme, execution) op" where
  "department_failure mid action error =
     bindE (record_department_result mid action FAILED False (Some error)) (\<lambda>_.
       returnE \<lparr>ex_status = FAILED, ex_simulated = False, ex_data = [], ex_error = Some error\<rparr>)"

definition action_request :: "routed_action \<Rightarrow> json" where
  "action_request action =
     JObj [(''capability'', JStr (capability_value (ra_capability action))), (''target'', opt_str (ra_goal action)),
           (''params'', JObj (ra_params action))]"

definition department_question :: "string \<Rightarrow> routed_action \<Rightarrow> helper_request \<Rightarrow> safety_request" where
  "department_question mid action request =
     \<lparr>sq_mission = mid, sq_agent = ''sysadmin'', sq_action = capability_value (hr_capability request),
      sq_target = (case hr_target request of None \<Rightarrow> ''host'' | Some t \<Rightarrow> if t = [] then ''host'' else t),
      sq_risk = ra_level action,
      sq_plan = [(''capability'', JStr (capability_value (hr_capability request))), (''target'', opt_str (hr_target request)),
                 (''params'', JObj (hr_params request))],
      sq_conditions = [], sq_mutates = False, sq_authorized = True\<rparr>"

text \<open>The call of the helper and what it answers; \<open>HostHelperError\<close> is caught, anything else is not.\<close>

definition ask_helper ::
  "'w department_env \<Rightarrow> string \<Rightarrow> routed_action \<Rightarrow> helper_request \<Rightarrow> (('w, 'a) gateway_db_scheme, execution) op" where
  "ask_helper env mid action request s =
     (case on_world (de_helper env request) s of
        (Inl (HostHelperError e), t) \<Rightarrow>
          department_failure mid action (if e = [] then ''helper_failed'' else take 128 e) t
      | (Inl e, t) \<Rightarrow> (Inl e, t)
      | (Inr response, t) \<Rightarrow>
          bindE (record_event mid (Some ''sysadmin'') TOOL_EXECUTED
                   (''Host helper executed: '' @ capability_value (hr_capability request))
                   [(''capability'', JStr (capability_value (hr_capability request))), (''target'', opt_str (hr_target request)),
                    (''ok'', JBool (hp_ok response))]) (\<lambda>_.
            if \<not> hp_ok response
            then department_failure mid action
                   (take 128 (case hp_error response of None \<Rightarrow> ''helper_failed'' | Some e \<Rightarrow> if e = [] then ''helper_failed'' else e))
            else bindE (record_department_result mid action COMPLETED False None) (\<lambda>_.
                   returnE \<lparr>ex_status = COMPLETED, ex_simulated = False, ex_data = hp_data response, ex_error = None\<rparr>)) t)"

definition sysadmin_execute ::
  "'w department_env \<Rightarrow> department_call \<Rightarrow> string \<Rightarrow> routed_action \<Rightarrow> (('w, 'a) gateway_db_scheme, execution) op" where
  "sysadmin_execute env call mid action =
     (case validate_request (action_request action) (de_allow env) of
        Inl e \<Rightarrow> department_failure mid action ''invalid_action''
      | Inr request \<Rightarrow>
          bindE (evaluate (de_sha env) (de_lifetime env) (dc_clock call) (dc_approval_id call) (dc_approval_at call)
                   (department_question mid action request)) (\<lambda>r.
            if sf_decision r = REQUIRE_APPROVAL
            then returnE \<lparr>ex_status = WAITING_APPROVAL, ex_simulated = False, ex_data = [], ex_error = None\<rparr>
            else if sf_decision r = BLOCK then department_failure mid action ''blocked''
            else if sf_simulation_mode r \<or> sf_decision r = SIMULATE_ONLY
            then bindE (record_department_result mid action COMPLETED True None) (\<lambda>_.
                   returnE \<lparr>ex_status = COMPLETED, ex_simulated = True, ex_data = [], ex_error = None\<rparr>)
            else if sf_decision r \<noteq> ALLOW then department_failure mid action ''blocked''
            else ask_helper env mid action request))"

section \<open>The runner\<close>

text \<open>\<open>try ... finally\<close>: the second operation runs in any case, and what it raises replaces what the first raised.\<close>

definition finallyE :: "('s, 'b) op \<Rightarrow> ('s, 'c) op \<Rightarrow> ('s, 'b) op" where
  "finallyE m f s =
     (case m s of (r, t) \<Rightarrow> (case f t of (Inl e, u) \<Rightarrow> (Inl e, u) | (Inr _, u) \<Rightarrow> (r, u)))"

definition error_code :: "string \<Rightarrow> dict" where
  "error_code code = [(''code'', JStr code)]"

definition settle_department :: "string \<Rightarrow> execution \<Rightarrow> (('w, 'a) gateway_db_scheme, mission) op" where
  "settle_department mid r =
     (if ex_status r = COMPLETED then transition True mid COMPLETED (Some (ex_data r)) None
      else if ex_status r = WAITING_APPROVAL then transition True mid WAITING_APPROVAL None None
      else transition True mid FAILED None
             (Some (error_code (case ex_error r of None \<Rightarrow> ''sysadmin_failed'' | Some e \<Rightarrow> if e = [] then ''sysadmin_failed'' else e))))"

definition work_department ::
  "'w department_env \<Rightarrow> department_call \<Rightarrow> string \<Rightarrow> routed_action \<Rightarrow> (('w, 'a) gateway_db_scheme, bool) op" where
  "work_department env call mid action =
     bindE (assign_owner mid (ra_owner action)) (\<lambda>_.
     bindE (transition True mid RUNNING None None) (\<lambda>_.
     bindE (set_state ''sysadmin'' AG_WORKING (Some mid)) (\<lambda>_.
     finallyE
       (bindE (sysadmin_execute env call mid action) (\<lambda>r. bindE (settle_department mid r) (\<lambda>_. returnE True)))
       (set_state ''sysadmin'' AG_IDLE None))))"

text \<open>The routing part: \<open>None\<close> when the mission was failed as unsupported.\<close>

definition route_mission ::
  "(string \<Rightarrow> routed_action option) \<Rightarrow> mission \<Rightarrow> (('w, 'a) gateway_db_scheme, routed_action option) op" where
  "route_mission router m =
     finallyE
       (case router (m_title m) of
          None \<Rightarrow> bindE (transition True (m_id m) FAILED None (Some (error_code ''unsupported_mission''))) (\<lambda>_. returnE None)
        | Some action \<Rightarrow> returnE (Some action))
       (set_state ''commander'' AG_IDLE None)"

definition department_run_once ::
  "'w department_env \<Rightarrow> department_call \<Rightarrow> (string \<Rightarrow> routed_action option) \<Rightarrow> (('w, 'a) gateway_db_scheme, bool) op" where
  "department_run_once env call router =
     bindE (readE oldest_queued) (\<lambda>found.
       case found of
         None \<Rightarrow> returnE False
       | Some m \<Rightarrow>
           bindE (set_state ''commander'' AG_WORKING (Some (m_id m))) (\<lambda>_.
           bindE (route_mission router m) (\<lambda>routed.
             case routed of
               None \<Rightarrow> returnE True
             | Some action \<Rightarrow> work_department env call (m_id m) action)))"

end
