(* ===== verification/Worker.thy ===== *)
theory Worker
  imports Recovery_Status Departments Mission_Executor Chat Operations
begin

text \<open>
  The worker process: \<open>worker.py\<close>. One iteration observes recovery when it is due, then does at most one unit of
  work: a step of a planned mission, else a queued code change, else a department mission. A failure of the
  code-change runner is logged and dropped.
\<close>

definition execution_allowed :: "operating_mode \<Rightarrow> bool" where
  "execution_allowed mode \<longleftrightarrow> mode \<noteq> MODE_FREEZE"

text \<open>The \<open>try\<close> block around the code-change runner: whether it returned something.\<close>

definition isolated :: "('s, 'r option) op option \<Rightarrow> ('s, bool) op" where
  "isolated m s =
     (case m of
        None \<Rightarrow> (Inr False, s)
      | Some f \<Rightarrow> (case f s of (Inl e, t) \<Rightarrow> (Inr False, t) | (Inr r, t) \<Rightarrow> (Inr (r \<noteq> None), t)))"

definition run_worker_iteration ::
  "('s, bool) op option \<Rightarrow> ('s, execution_result option) op \<Rightarrow> (execution_result \<Rightarrow> ('s, unit) op) option \<Rightarrow>
   ('s, 'r option) op option \<Rightarrow> ('s, bool) op \<Rightarrow> ('s, bool) op" where
  "run_worker_iteration recover autonomous feedback change department =
     bindE (case recover of None \<Rightarrow> returnE False | Some r \<Rightarrow> r) (\<lambda>recovery_worked.
     bindE autonomous (\<lambda>result.
       case result of
         Some r \<Rightarrow> bindE (case feedback of None \<Rightarrow> returnE () | Some f \<Rightarrow> f r) (\<lambda>_. returnE True)
       | None \<Rightarrow>
           bindE (isolated change) (\<lambda>changed.
             if changed then returnE True
             else bindE department (\<lambda>worked. returnE (if worked then True else recovery_worked)))))"

section \<open>The parts the worker is built from\<close>

text \<open>The targets and adapters of \<open>build_autonomous_mission_runner\<close>; the MCP adapters are given.\<close>

definition worker_targets :: "operational_target list" where
  "worker_targets =
     [\<lparr>ot_key = ''ai-hq'', ot_service_unit = ''ai-hq'',
       ot_capabilities = [''system.health.read'', ''service.status.read'', ''service.logs.read''],
       ot_health_url = None, ot_log_unit = Some ''ai-hq'', ot_deploy_entrypoint = None, ot_rollback_entrypoint = None,
       ot_helper_service = None, ot_helper_log = None\<rparr>,
      \<lparr>ot_key = ''dripvid'', ot_service_unit = ''dripvid.service'', ot_capabilities = [''service.recover''],
       ot_health_url = None, ot_log_unit = Some ''dripvid.service'', ot_deploy_entrypoint = None,
       ot_rollback_entrypoint = None, ot_helper_service = None, ot_helper_log = None\<rparr>]"

definition worker_adapters :: "target_registry \<Rightarrow> 'w helper_client \<Rightarrow> 'w registry" where
  "worker_adapters reg client =
     [(''system.health.read'', system_health_adapter reg client),
      (''service.status.read'', service_status_adapter reg client),
      (''service.logs.read'', service_logs_adapter reg client),
      (''service.recover'', service_recover_adapter reg client)]"

definition worker_registry :: "'w helper_client option \<Rightarrow> 'w registry option \<Rightarrow> exn + 'w registry" where
  "worker_registry helper mcp =
     (case (case helper of
              None \<Rightarrow> Inr []
            | Some client \<Rightarrow> map_sum id (\<lambda>reg. worker_adapters reg client) (target_registry [] worker_targets)) of
        Inl e \<Rightarrow> Inl e
      | Inr adapters \<Rightarrow> build_registry [] (adapters @ (case mcp of None \<Rightarrow> [] | Some extra \<Rightarrow> extra)))"

text \<open>What \<open>build_department_runner\<close> gives the departments.\<close>

definition unavailable_helper :: "'w helper_client" where
  "unavailable_helper request = raiseE (HostHelperError ''helper_not_configured'')"

definition department_lists :: allow_lists where
  "department_lists =
     \<lparr>al_services = {''ai-hq'', ''nginx'', ''dripvid''}, al_containers = {''ai-hq-web'', ''ai-hq-worker'', ''dripvid''},
      al_logs = {''ai-hq'', ''nginx'', ''dripvid''}, al_diagnostic_services = {}, al_diagnostic_logs = {}\<rparr>"

definition worker_department :: "(string \<Rightarrow> string) \<Rightarrow> int \<Rightarrow> 'w helper_client option \<Rightarrow> 'w department_env" where
  "worker_department sha lifetime helper =
     \<lparr>de_sha = sha, de_lifetime = lifetime,
      de_helper = (case helper of None \<Rightarrow> unavailable_helper | Some client \<Rightarrow> client), de_allow = department_lists\<rparr>"

record 'w worker_parts =
  wp_gateway :: "'w gateway_env"
  wp_observer :: "observer option"
  wp_changes :: "'w code_change_env option"
  wp_department :: "'w department_env"

record worker_call =
  wl_gateway :: gateway_call
  wl_tick :: cycle_tick
  wl_feedback :: observer_call
  wl_change :: code_change_call
  wl_worker :: string
  wl_change_now :: int
  wl_department :: department_call

definition lease_seconds :: int where "lease_seconds = 900"

text \<open>
  The iteration on the modelled services. The runner's hand-off of delivery candidates is left out: a result of the
  executor never carries one.
\<close>

definition worker_iteration :: "'w worker_parts \<Rightarrow> worker_settings \<Rightarrow> worker_call \<Rightarrow> (('w, 'a) site_db_scheme, bool) op" where
  "worker_iteration parts ws call =
     run_worker_iteration
       (map_option (\<lambda>ob. run_if_due ob ws (wl_tick call)) (wp_observer parts))
       (run_once True (gateway_execute (wp_gateway parts) (wl_gateway call)) None (\<lambda>_. None))
       (map_option (\<lambda>ob r. handle_execution_result ob (wl_feedback call) (xr_mission r) (xr_outcome r)) (wp_observer parts))
       (map_option (\<lambda>env. code_change_run_once env (wl_change call) (wl_worker call) lease_seconds (wl_change_now call))
          (wp_changes parts))
       (department_run_once (wp_department parts) (wl_department call) route_sysadmin_mission)"

text \<open>One turn of the loop of \<open>run_worker\<close>: in \<open>FREEZE\<close> it only sleeps.\<close>

definition worker_turn :: "'w worker_parts \<Rightarrow> worker_settings \<Rightarrow> worker_call \<Rightarrow> (('w, 'a) site_db_scheme, bool) op" where
  "worker_turn parts ws call =
     (if \<not> execution_allowed (wr_mode ws) then returnE False else worker_iteration parts ws call)"

end
