(* ===== verification/Recovery_Runs.thy ===== *)
theory Recovery_Runs
  imports Recovery_Status Observer_Laws
begin

text \<open>
  What the recovery loop leaves alone, how far apart its cycles are, and what the drill does.
\<close>

section \<open>What a cycle leaves alone\<close>

definition outside_recovery where
  "outside_recovery s =
     (approval_requests s, scoped_rules s, system_row s, agents s, attempts s, world s, deliveries s, conversations s,
      chat_messages s, memories s, admin_sessions s, last_cycle s)"

lemma outside_service [keeps_intros]:
  "keeps (same outside_recovery) (change_incident iid f)"
  by (rule keepsI) (simp add: same_def outside_recovery_def change_incident_def save_incident_def split: option.split sum.split)

lemma outside_more [keeps_intros]:
  "keeps (same outside_recovery) (get_incident iid)" "keeps (same outside_recovery) (active_incident k)"
  "keeps (same outside_recovery) (observe_failure c n k now v)"
  "keeps (same outside_recovery) (resolve_if_healthy k now v)"
  "keeps (same outside_recovery) (can_recover c iid now)"
  "keeps (same outside_recovery) (attach_mission iid mid)"
  by (rule keepsI; simp add: same_def outside_recovery_def get_incident_def active_incident_def observe_failure_def can_recover_def
      attach_mission_def resolve_if_healthy_def save_incident_def Let_def split: option.split sum.split)+

lemma outside_missions [keeps_intros]:
  "keeps (same outside_recovery) (create_mission l i c n)" "keeps (same outside_recovery) (create_plan reg ids mid es)"
  by (rule keepsI; simp add: same_def outside_recovery_def create_mission_def create_plan_def add_to_session_def Let_def
      split: option.split sum.split)+

lemma outside_notify [keeps_intros]: "keeps (same outside_recovery) (observer_notify ob i c now v x g t m)"
proof -
  have "keeps (same outside_recovery) (notify i c now q)" for q
    by (rule keepsI) (simp add: same_def outside_recovery_def notify_def Let_def split: sum.split option.split)
  then show ?thesis unfolding observer_notify_def by (intro keeps_intros)
qed

lemma outside_create [keeps_intros]: "keeps (same outside_recovery) (create_recovery_mission ob call iid r ss)"
  unfolding create_recovery_mission_def file_mission_def mark_recovery_pending_def escalate_def Let_def by (intro keeps_intros)

lemma outside_component [keeps_intros]: "keeps (same outside_recovery) (cycle_component ob ci k fl)"
  unfolding cycle_component_def cycle_failure_def after_failure_def capture_diagnostics_def
    update_diagnostics_def handle_policy_escalation_def escalate_def verify_recovery_def
    resolve_incident_def Let_def
  by (intro keeps_intros)

lemma outside_components [keeps_intros]: "keeps (same outside_recovery) (cycle_components ob ci ks fl)"
proof (induction ob ci ks fl rule: cycle_components.induct)
  case (2 ob ci k ks fl)
  then show ?case unfolding cycle_components.simps by (intro keeps_intros)
qed (simp only: cycle_components.simps, intro keeps_intros)

lemma outside_cycle: "keeps (same outside_recovery) (cycle_run_once ob ci b)"
  unfolding cycle_run_once_def handle_policy_escalation_def escalate_def Let_def by (intro keeps_intros)

section \<open>The interval between cycles\<close>

definition cycle_due :: "worker_settings \<Rightarrow> cycle_tick \<Rightarrow> ('w, 'a) site_db_scheme \<Rightarrow> bool" where
  "cycle_due ws tick s \<longleftrightarrow>
     wr_recovery_enabled ws \<and> wr_mode ws \<noteq> MODE_FREEZE \<and>
     (case last_cycle s of None \<Rightarrow> True | Some t \<Rightarrow> seconds (wr_observation_seconds ws) \<le> ct_clock tick - t)"

lemma record_fields [simp]:
  "last_cycle (snd (record_successful_cycle k a b s)) = last_cycle s"
  "last_cycle (snd (record_cycle_error k a s)) = last_cycle s"
  by (simp_all add: record_successful_cycle_def record_cycle_error_def put_status_def Let_def split_beta)

lemma run_if_due_not_due: "\<not> cycle_due ws tick s \<Longrightarrow> run_if_due ob ws tick s = (Inr False, s)"
  by (auto simp: run_if_due_def cycle_due_def split: option.splits)

lemma run_if_due_clock:
  assumes "cycle_due ws tick s"
  shows "last_cycle (snd (run_if_due ob ws tick s)) = Some (ct_clock tick)"
proof -
  let ?s = "s\<lparr>last_cycle := Some (ct_clock tick)\<rparr>"
  have kept: "last_cycle (snd (cycle_run_once ob (ct_input tick) (wr_observe_only ws) ?s)) = Some (ct_clock tick)"
    using keepsD[OF outside_cycle, of ?s ob "ct_input tick" "wr_observe_only ws"] by (simp add: same_def outside_recovery_def)
  have go: "\<not> (case last_cycle s of None \<Rightarrow> False | Some t \<Rightarrow> ct_clock tick - t < seconds (wr_observation_seconds ws))"
    using assms by (auto simp: cycle_due_def split: option.splits)
  from assms have on: "wr_recovery_enabled ws" "wr_mode ws \<noteq> MODE_FREEZE" by (simp_all add: cycle_due_def)
  show ?thesis using kept go on
    by (cases "cycle_run_once ob (ct_input tick) (wr_observe_only ws) ?s")
       (simp add: run_if_due_def split: sum.split)
qed

text \<open>The clock readings at which a cycle ran, over a sequence of calls.\<close>

fun cycles_run :: "observer \<Rightarrow> (worker_settings \<times> cycle_tick) list \<Rightarrow> ('w, 'a) site_db_scheme \<Rightarrow> int list" where
  "cycles_run ob [] s = []"
| "cycles_run ob ((ws, tick) # ticks) s =
     (let rest = cycles_run ob ticks (snd (run_if_due ob ws tick s)) in
      if cycle_due ws tick s then ct_clock tick # rest else rest)"

lemma cycles_run_spaced:
  assumes "\<forall>(ws, tick) \<in> set ticks. n \<le> wr_observation_seconds ws"
  shows "successively (\<lambda>a b. seconds n \<le> b - a) (cycles_run ob ticks s) \<and>
    (\<forall>t b bs. last_cycle s = Some t \<longrightarrow> cycles_run ob ticks s = b # bs \<longrightarrow> seconds n \<le> b - t)"
  using assms
proof (induction ticks arbitrary: s)
  case Nil
  then show ?case by simp
next
  case (Cons x ticks)
  obtain ws tick where x: "x = (ws, tick)" by (cases x)
  let ?t = "snd (run_if_due ob ws tick s)" and ?rest = "cycles_run ob ticks (snd (run_if_due ob ws tick s))"
  have IH: "successively (\<lambda>a b. seconds n \<le> b - a) ?rest"
    "\<And>t b bs. last_cycle ?t = Some t \<Longrightarrow> ?rest = b # bs \<Longrightarrow> seconds n \<le> b - t"
    using Cons by auto
  show ?case
  proof (cases "cycle_due ws tick s")
    case True
    from run_if_due_clock[OF True] IH(2) have "\<And>b bs. ?rest = b # bs \<Longrightarrow> seconds n \<le> b - ct_clock tick" by blast
    with IH(1) have "successively (\<lambda>a b. seconds n \<le> b - a) (ct_clock tick # ?rest)"
      by (cases ?rest) simp_all
    moreover have "seconds n \<le> ct_clock tick - t" if "last_cycle s = Some t" for t
      using True that Cons.prems by (auto simp: x cycle_due_def seconds_def)
    ultimately show ?thesis using True by (simp add: x Let_def)
  next
    case False
    with IH show ?thesis by (simp add: x Let_def run_if_due_not_due)
  qed
qed

section \<open>The drill\<close>

lemma active_for_append:
  "active_for k (s\<lparr>incidents := incidents s @ [i]\<rparr>) =
     active_for k s @ (if ri_target i = k \<and> ri_active_key i \<noteq> None then [i] else [])"
  by (simp add: active_for_def)

lemma status_snapshot_put:
  "status_snapshot (rs_target r) (put_status r s) = r\<lparr>rs_last_probe := map_option utc_stamp (rs_last_probe r)\<rparr>"
proof (cases "rs_target r \<in> rs_target ` set (recovery_statuses s)")
  case True
  then have "row_of rs_target (rs_target r) (recovery_statuses s) \<noteq> None" by (simp add: row_of_None_iff)
  with True show ?thesis by (auto simp: status_snapshot_def put_status_def row_of_save_row split: option.split)
next
  case False
  then have "row_of rs_target (rs_target r) (recovery_statuses s) = None" by (simp add: row_of_None_iff)
  with False show ?thesis by (simp add: status_snapshot_def put_status_def row_of_append)
qed

definition drilled :: "worker_settings \<Rightarrow> int \<Rightarrow> string \<Rightarrow> ('w, 'a) site_db_scheme \<Rightarrow> ('w, 'a) site_db_scheme" where
  "drilled ws now new_id s =
     (let s1 = s\<lparr>incidents := incidents s @ [drill_incident new_id now (wr_threshold ws)]\<rparr>
      in put_status (cycle_status ''dripvid'' (Aware now) unhealthy_summary s1) s1)"

lemma drilled_incidents: "incidents (drilled ws now new_id s) = incidents s @ [drill_incident new_id now (wr_threshold ws)]"
  by (simp add: drilled_def put_status_def Let_def)

lemma drill_status:
  assumes "active_for ''dripvid'' s = []"
  shows "status_snapshot ''dripvid'' (drilled ws now new_id s) =
    \<lparr>rs_target = ''dripvid'', rs_last_probe = Some (Aware now), rs_result = RS_UNHEALTHY, rs_reachable = Some True,
     rs_status_code = Some 503, rs_ready = Some False, rs_failures = wr_threshold ws, rs_incident = Some new_id,
     rs_incident_state = Some SUSPECT\<rparr>"
proof -
  let ?s1 = "s\<lparr>incidents := incidents s @ [drill_incident new_id now (wr_threshold ws)]\<rparr>"
  have "latest_active ''dripvid'' ?s1 = Some (drill_incident new_id now (wr_threshold ws))"
    using assms by (simp add: latest_active_def active_for_append) (simp add: drill_incident_def)
  then have c: "cycle_status ''dripvid'' (Aware now) unhealthy_summary ?s1 =
    \<lparr>rs_target = ''dripvid'', rs_last_probe = Some (Aware now), rs_result = RS_UNHEALTHY, rs_reachable = Some True,
     rs_status_code = Some 503, rs_ready = Some False, rs_failures = wr_threshold ws, rs_incident = Some new_id,
     rs_incident_state = Some SUSPECT\<rparr>"
    by (simp add: cycle_status_def incident_projection_def unhealthy_summary_def bounded_bool_def bounded_status_code_def
        drill_incident_def utc_stamp_def)
  show ?thesis
    using status_snapshot_put[of "cycle_status ''dripvid'' (Aware now) unhealthy_summary ?s1" ?s1]
    by (simp add: drilled_def Let_def c utc_stamp_def)
qed

lemma drill_run_cases:
  assumes "drill_run ws now new_id s = (r, t)"
  obtains (refused) code where "t = s" "r = Inr (DrillFailed code)"
  | (done') "wr_recovery_enabled ws" "wr_observe_only ws" "wr_mode ws \<noteq> MODE_FREEZE" "active_for ''dripvid'' s = []"
      "unfresh now (status_snapshot ''dripvid'' s) = None" "new_id \<notin> ri_id ` set (incidents s)"
      "t = drilled ws now new_id s"
      "r = Inr (if drill_verified ws new_id (status_snapshot ''dripvid'' t) t then DrillOk new_id (wr_threshold ws)
                else DrillFailed ''status_verification_failed'')"
proof -
  consider (a) "\<not> wr_recovery_enabled ws \<or> \<not> wr_observe_only ws \<or> wr_mode ws = MODE_FREEZE \<or> active_for ''dripvid'' s \<noteq> []"
    | (b) code where "wr_recovery_enabled ws" "wr_observe_only ws" "wr_mode ws \<noteq> MODE_FREEZE" "active_for ''dripvid'' s = []"
        "unfresh now (status_snapshot ''dripvid'' s) = Some code"
    | (c) "wr_recovery_enabled ws" "wr_observe_only ws" "wr_mode ws \<noteq> MODE_FREEZE" "active_for ''dripvid'' s = []"
        "unfresh now (status_snapshot ''dripvid'' s) = None" by (cases "unfresh now (status_snapshot ''dripvid'' s)") auto
  then show thesis
  proof cases
    case a
    with assms show ?thesis by (auto simp: drill_run_def split: if_splits intro: refused)
  next
    case b
    with assms show ?thesis by (auto simp: drill_run_def intro: refused)
  next
    case c
    let ?i = "drill_incident new_id now (wr_threshold ws)"
    show ?thesis
    proof (cases "ri_active_key ?i \<in> ri_active_key ` set (incidents s) \<or> ri_id ?i \<in> ri_id ` set (incidents s)")
      case True
      then have "insert_drill_incident new_id now (wr_threshold ws) s = (Inr (Inl ''drill_conflict''), s)"
        using c(4) by (auto simp: insert_drill_incident_def insert_row_def Let_def)
      with assms c show ?thesis by (auto simp: drill_run_def intro: refused)
    next
      case False
      then have i: "insert_drill_incident new_id now (wr_threshold ws) s = (Inr (Inr ?i), s\<lparr>incidents := incidents s @ [?i]\<rparr>)"
        using c(4) by (auto simp: insert_drill_incident_def insert_row_def Let_def)
      have id': "ri_id ?i = new_id" by (simp add: drill_incident_def)
      have rec: "record_successful_cycle ''dripvid'' (Aware now) unhealthy_summary (s\<lparr>incidents := incidents s @ [?i]\<rparr>) =
        (Inr (status_snapshot ''dripvid'' (drilled ws now new_id s)), drilled ws now new_id s)"
        by (simp add: record_successful_cycle_def drilled_def Let_def)
      from assms c i rec have "t = drilled ws now new_id s"
        "r = Inr (if drill_verified ws new_id (status_snapshot ''dripvid'' t) t then DrillOk new_id (wr_threshold ws)
                else DrillFailed ''status_verification_failed'')"
        by (auto simp: drill_run_def id')
      with c False id' show ?thesis by (intro done') auto
    qed
  qed
qed

lemma drilled_verified:
  assumes "active_for ''dripvid'' s = []" and "new_id \<notin> ri_id ` set (incidents s)"
  shows "drill_verified ws new_id (status_snapshot ''dripvid'' (drilled ws now new_id s)) (drilled ws now new_id s) \<longleftrightarrow>
    (\<forall>a \<in> set (attempts s). at_incident a \<noteq> new_id)"
proof -
  have "row_of ri_id new_id (incidents s) = None" using assms(2) by (simp add: row_of_None_iff)
  then have "row_of ri_id new_id (incidents (drilled ws now new_id s)) = Some (drill_incident new_id now (wr_threshold ws))"
    by (simp add: drilled_incidents row_of_append) (simp add: drill_incident_def)
  moreover have "attempts (drilled ws now new_id s) = attempts s"
    by (simp add: drilled_def put_status_def Let_def)
  ultimately show ?thesis
    by (simp add: drill_verified_def drill_status[OF assms(1)] no_mutation_artifacts_def rowcount_0_iff)
       (simp add: drill_incident_def)
qed

end
