(* ===== verification/Department_Laws.thy ===== *)
theory Department_Laws
  imports Departments Host_Laws
begin

text \<open>
  What the departments do: they ask the host helper for nothing but readings, only when the stored system state
  allows it, and they settle every mission they take.
\<close>

section \<open>The request\<close>

lemma validate_params_capability:
  assumes r: "validate_params c t params = Inr r" and c: "c \<notin> {HOST_HEALTH, HOST_RESOURCES, DRIPVID_READINESS}"
  shows "hr_capability r = c"
proof -
  consider "c = SERVICE_RECOVER" | "c = LOGS_RECENT" |
    "c \<in> {SERVICE_STATUS, SERVICE_RESTART, DEPLOYMENT_DEPLOY, DEPLOYMENT_ROLLBACK, CONTAINER_STATUS}"
    using capability_cases[of c] c by blast
  then show ?thesis
  proof cases
    case 1
    from validate_params_recover[OF r[unfolded 1]] 1 show ?thesis by (elim bexE conjE) simp
  next
    case 2
    from validate_params_logs[OF r[unfolded 2]] 2 show ?thesis by auto
  next
    case 3
    from r[unfolded validate_params_plain[OF 3]] show ?thesis by (auto split: if_splits)
  qed
qed

lemma action_request_capability:
  assumes "validate_request (action_request action) al = Inr request"
  shows "hr_capability request = ra_capability action"
proof -
  let ?c = "ra_capability action"
  let ?d = "[(''capability'', JStr (capability_value ?c)), (''target'', opt_str (ra_goal action)), (''params'', JObj (ra_params action))]"
  have c: "capability_of (dict_get ?d ''capability'') = Some ?c"
    by (cases ?c) (simp_all add: capability_of_def all_capabilities_def)
  have k: "dict_keys ?d - {''capability'', ''target'', ''params''} = {}" by (auto simp: dict_keys_def)
  have p: "dict_get_default ?d ''params'' (JObj []) = JObj (ra_params action)" by (simp add: dict_get_default_def)
  note v = assms[unfolded validate_request_def action_request_def json.case c option.case k p]
  show ?thesis
  proof (cases "?c = HOST_HEALTH \<or> ?c = HOST_RESOURCES \<or> ?c = DRIPVID_READINESS")
    case True
    with v show ?thesis by (simp split: if_split_asm del: dict_get_Cons) auto
  next
    case False
    then have plain: "?c \<notin> {HOST_HEALTH, HOST_RESOURCES, DRIPVID_READINESS}" by simp
    from False v show ?thesis
      by (cases "validate_target ?c (dict_get ?d ''target'') al")
         (simp_all add: validate_params_capability[OF _ plain] del: dict_get_Cons)
  qed
qed

lemma routed_read_only:
  assumes "route_sysadmin_mission title = Some action"
  shows "read_only_capability (ra_capability action)" and "ra_level action = GREEN"
  using assms
  by (auto simp: route_sysadmin_mission_def department_routes_def read_only_capability_def Let_def split: if_splits option.splits)

section \<open>Effects\<close>

text \<open>The part of the state the effects depend on, and the effect of at most one call of the helper.\<close>

definition outer_part where
  "outer_part s = (world s, system_row s)"

definition asks_helper ::
  "'w department_env \<Rightarrow> helper_request \<Rightarrow> ('w, 'a) gateway_db_scheme \<Rightarrow> ('w, 'a) gateway_db_scheme \<Rightarrow> bool" where
  "asks_helper env request s t \<longleftrightarrow>
     system_row t = system_row s \<and>
     (world t = world s \<or>
      world t = snd (de_helper env request (world s)) \<and> fst (read_system_state s) \<noteq> MODE_FREEZE \<and>
        \<not> fst (snd (read_system_state s)))"

lemma record_event_outer [keeps_intros]: "keeps (same outer_part) (record_event m a ty u d)"
  by (simp add: keeps_def same_def outer_part_def record_event_def add_to_session_def Let_def)

lemma department_ops_outer [keeps_intros]:
  "keeps (same outer_part) (transition l mid target res err)" "keeps (same outer_part) (set_state k st m)"
  "keeps (same outer_part) (assign_owner mid owner)"
  by (rule keepsI; simp add: same_def outer_part_def transition_def set_state_def assign_owner_def add_to_session_def Let_def
      split: option.split)+

lemma record_result_outer [keeps_intros]: "keeps (same outer_part) (record_department_result mid action st b e)"
  unfolding record_department_result_def by (intro keeps_intros)

lemma department_failure_outer [keeps_intros]: "keeps (same outer_part) (department_failure mid action e)"
  unfolding department_failure_def by (intro keeps_intros)

lemma evaluate_outer [keeps_intros]: "keeps (same outer_part) (evaluate sha l ck i t q)"
proof -
  have "keeps (same outer_part) (create_request sha i t u)" for u
    by (rule keepsI) (simp add: same_def outer_part_def create_request_def Let_def split: sum.split)
  then show ?thesis
    unfolding evaluate_def file_approval_def Let_def by (intro keeps_intros)
qed

text \<open>An operation that asks the helper may be preceded and followed by operations that do not.\<close>

lemma asks_cong:
  "outer_part s1 = outer_part s \<Longrightarrow> asks_helper env q s1 t \<longleftrightarrow> asks_helper env q s t"
  "outer_part t1 = outer_part t \<Longrightarrow> asks_helper env q s t1 \<longleftrightarrow> asks_helper env q s t"
  by (simp_all add: outer_part_def asks_helper_def read_system_state_def)

lemma asks_refl: "outer_part t = outer_part s \<Longrightarrow> asks_helper env q s t"
  by (simp add: outer_part_def asks_helper_def)

lemma same_asks: "keeps (same outer_part) m \<Longrightarrow> keeps (asks_helper env q) m"
  unfolding keeps_def same_def by (blast intro: asks_refl)

lemma asks_after:
  assumes m: "keeps (same outer_part) m" and f: "\<And>x. keeps (asks_helper env q) (f x)"
  shows "keeps (asks_helper env q) (bindE m f)"
proof (rule keepsI)
  fix s
  obtain r s1 where e: "m s = (r, s1)" by (cases "m s")
  have o': "outer_part s1 = outer_part s" using keepsD'[OF m e] by (simp add: same_def)
  show "asks_helper env q s (snd (bindE m f s))"
  proof (cases r)
    case (Inl x)
    with e o' show ?thesis by (simp add: asks_refl)
  next
    case (Inr x)
    with e keepsD[OF f, of s1 x] asks_cong(1)[OF o'] show ?thesis by simp
  qed
qed

lemma asks_before:
  assumes m: "keeps (asks_helper env q) m" and f: "\<And>x. keeps (same outer_part) (f x)"
  shows "keeps (asks_helper env q) (bindE m f)"
proof (rule keepsI)
  fix s
  obtain r s1 where e: "m s = (r, s1)" by (cases "m s")
  have a: "asks_helper env q s s1" using keepsD'[OF m e] .
  show "asks_helper env q s (snd (bindE m f s))"
  proof (cases r)
    case (Inl x)
    with e a show ?thesis by simp
  next
    case (Inr x)
    have "outer_part (snd (f x s1)) = outer_part s1" using keepsD[OF f, of s1 x] by (simp add: same_def)
    from asks_cong(2)[OF this] e a Inr show ?thesis by simp
  qed
qed

lemma finally_outer:
  assumes f: "keeps (same g) f"
  shows "g (snd (finallyE m f s)) = g (snd (m s))"
proof -
  obtain r t where e: "m s = (r, t)" by (cases "m s")
  obtain v u where u: "f t = (v, u)" by (cases "f t")
  from keepsD'[OF f u] show ?thesis by (cases v) (simp_all add: e u finallyE_def same_def)
qed

lemma asks_finally:
  assumes m: "keeps (asks_helper env q) m" and f: "keeps (same outer_part) f"
  shows "keeps (asks_helper env q) (finallyE m f)"
  using keepsD[OF m] asks_cong(2)[OF finally_outer[OF f]] by (intro keepsI) blast

lemma same_finally [keeps_intros]: "keeps (same g) m \<Longrightarrow> keeps (same g) f \<Longrightarrow> keeps (same g) (finallyE m f)"
  by (rule keepsI) (metis finally_outer keepsD same_def)

section \<open>One reading at most\<close>

lemma ask_helper_asks:
  assumes "fst (read_system_state s) \<noteq> MODE_FREEZE" and "\<not> fst (snd (read_system_state s))"
  shows "asks_helper env q s (snd (ask_helper env mid action q s))"
proof -
  obtain r w where h: "de_helper env q (world s) = (r, w)" by (cases "de_helper env q (world s)")
  let ?t = "s\<lparr>world := w\<rparr>"
  have t: "asks_helper env q s ?t" using assms h by (simp add: asks_helper_def)
  have "outer_part (snd (ask_helper env mid action q s)) = outer_part ?t"
  proof (cases r)
    case (Inl e)
    have "outer_part (snd (department_failure mid action x ?t)) = outer_part ?t" for x
      using keepsD[OF department_failure_outer, of ?t mid action x] by (simp add: same_def)
    with Inl h show ?thesis by (cases e) (simp_all add: ask_helper_def on_world_def)
  next
    case (Inr response)
    have "keeps (same outer_part) (bindE (record_event mid (Some ''sysadmin'') TOOL_EXECUTED
                   (''Host helper executed: '' @ capability_value (hr_capability q))
                   [(''capability'', JStr (capability_value (hr_capability q))), (''target'', opt_str (hr_target q)),
                    (''ok'', JBool (hp_ok response))]) (\<lambda>_.
            if \<not> hp_ok response
            then department_failure mid action
                   (take 128 (case hp_error response of None \<Rightarrow> ''helper_failed'' | Some e \<Rightarrow> if e = [] then ''helper_failed'' else e))
            else bindE (record_department_result mid action COMPLETED False None) (\<lambda>_.
                   returnE \<lparr>ex_status = COMPLETED, ex_simulated = False, ex_data = hp_data response, ex_error = None\<rparr>)))"
      by (intro keeps_intros)
    from keepsD[OF this, of ?t] Inr h show ?thesis by (simp add: ask_helper_def on_world_def same_def)
  qed
  with t asks_cong(2) show ?thesis by blast
qed

lemma evaluate_allowed:
  assumes "evaluate sha l ck i t q s = (Inr res, s')" and "sf_decision res = ALLOW" and "\<not> sf_simulation_mode res"
  shows "fst (read_system_state s) \<noteq> MODE_FREEZE \<and> \<not> fst (snd (read_system_state s))"
proof -
  obtain mode sim app rule av where c: "permission_context sha ck q s = (mode, sim, app, rule, av)"
    by (cases "permission_context sha ck q s")
  then have m: "mode = fst (read_system_state s)" "sim = fst (snd (read_system_state s))"
    by (auto simp: permission_context_def Let_def split: prod.splits)
  have "sf_simulation_mode res = sim"
    using assms(1) c by (auto simp: evaluate_def record_event_def Let_def elim!: bindE_InrE split: if_splits)
  moreover have "evaluate_action (intent_of q app rule av) mode sim = ALLOW"
    using evaluate_Inr[OF assms(1)] assms(2) c by (simp add: safety_decision_def)
  ultimately show ?thesis using assms(3) by (simp add: evaluate_action_allow flip: m)
qed

lemma sysadmin_execute_asks:
  fixes env :: "'w department_env"
  assumes "validate_request (action_request action) (de_allow env) = Inr q"
  shows "keeps (asks_helper env q) (sysadmin_execute env call mid action :: (('w, 'a) gateway_db_scheme, execution) op)"
proof (rule keepsI)
  fix s :: "('w, 'a) gateway_db_scheme"
  let ?ev = "evaluate (de_sha env) (de_lifetime env) (dc_clock call) (dc_approval_id call) (dc_approval_at call)
    (department_question mid action q)"
  obtain res s1 where e: "?ev s = (res, s1)" by (cases "?ev s")
  have o': "outer_part s1 = outer_part s" using keepsD'[OF evaluate_outer e] by (simp add: same_def)
  show "asks_helper env q s (snd (sysadmin_execute env call mid action s))"
  proof (cases res)
    case (Inl x)
    with e o' assms show ?thesis by (simp add: sysadmin_execute_def asks_refl)
  next
    case (Inr r)
    let ?rest = "(if sf_decision r = REQUIRE_APPROVAL
            then returnE \<lparr>ex_status = WAITING_APPROVAL, ex_simulated = False, ex_data = [], ex_error = None\<rparr>
            else if sf_decision r = BLOCK then department_failure mid action ''blocked''
            else if sf_simulation_mode r \<or> sf_decision r = SIMULATE_ONLY
            then bindE (record_department_result mid action COMPLETED True None) (\<lambda>_.
                   returnE \<lparr>ex_status = COMPLETED, ex_simulated = True, ex_data = [], ex_error = None\<rparr>)
            else if sf_decision r \<noteq> ALLOW then department_failure mid action ''blocked''
            else ask_helper env mid action q)"
    have run: "sysadmin_execute env call mid action s = ?rest s1"
      using e Inr assms by (simp add: sysadmin_execute_def)
    show ?thesis
    proof (cases "sf_decision r = ALLOW \<and> \<not> sf_simulation_mode r")
      case True
      have "asks_helper env q s1 (snd (ask_helper env mid action q s1))"
        using evaluate_allowed[OF e[unfolded Inr]] True o'
        by (intro ask_helper_asks) (simp_all add: outer_part_def read_system_state_def)
      with True run asks_cong(1)[OF o'] show ?thesis by simp
    next
      case False
      have "keeps (same outer_part) (if sf_decision r = REQUIRE_APPROVAL
            then returnE \<lparr>ex_status = WAITING_APPROVAL, ex_simulated = False, ex_data = [], ex_error = None\<rparr>
            else if sf_decision r = BLOCK then department_failure mid action ''blocked''
            else if sf_simulation_mode r \<or> sf_decision r = SIMULATE_ONLY
            then bindE (record_department_result mid action COMPLETED True None) (\<lambda>_.
                   returnE \<lparr>ex_status = COMPLETED, ex_simulated = True, ex_data = [], ex_error = None\<rparr>)
            else department_failure mid action ''blocked'')" by (intro keeps_intros)
      from keepsD[OF this, of s1] False run o' show ?thesis
        by (intro asks_refl) (auto simp: same_def split: if_splits)
    qed
  qed
qed

lemma work_department_asks:
  assumes "validate_request (action_request action) (de_allow env) = Inr q"
  shows "keeps (asks_helper env q) (work_department env call mid action)"
  unfolding work_department_def settle_department_def
  by (intro asks_after asks_finally asks_before[OF sysadmin_execute_asks[OF assms]] keeps_intros)

lemma work_department_invalid:
  assumes "validate_request (action_request action) (de_allow env) = Inl e"
  shows "keeps (same outer_part) (work_department env call mid action)"
proof -
  have "keeps (same outer_part) (sysadmin_execute env call mid action)"
    unfolding sysadmin_execute_def assms sum.case by (intro keeps_intros)
  then show ?thesis unfolding work_department_def settle_department_def by (intro keeps_intros)
qed

lemma route_mission_outer [keeps_intros]: "keeps (same outer_part) (route_mission router m)"
  unfolding route_mission_def by (intro keeps_intros)

end
