(* ===== verification/Worker_Properties.thy ===== *)
theory Worker_Properties
  imports Worker Recovery_Runs Department_Laws
begin

text \<open>
  The properties of the worker's parts: departments, drill and recovery gate, each with an instance on sample values.
\<close>

section \<open>The iteration\<close>

text \<open>Whatever the code-change runner raises, an iteration raises only what another part raised.\<close>

lemma isolated_fst: "\<exists>b. fst (isolated m s) = Inr b"
  by (auto simp: isolated_def split: option.split prod.split sum.split)

lemma iteration_error:
  assumes "run_worker_iteration recover autonomous feedback change department s = (Inl e, t)"
  shows "\<exists>u. (\<exists>m. recover = Some m \<and> fst (m u) = Inl e) \<or> fst (autonomous u) = Inl e \<or>
    (\<exists>f r. feedback = Some f \<and> fst (f r u) = Inl e) \<or> fst (department u) = Inl e"
  using assms unfolding run_worker_iteration_def
proof (subst (asm) bindE_def)
  assume a: "(case (case recover of None \<Rightarrow> returnE False | Some r \<Rightarrow> r) s of
    (r, s1) \<Rightarrow> (case r of Inl e \<Rightarrow> (Inl e, s1) | Inr w \<Rightarrow> bindE autonomous (\<lambda>result. case result of
         Some r \<Rightarrow> bindE (case feedback of None \<Rightarrow> returnE () | Some f \<Rightarrow> f r) (\<lambda>_. returnE True)
       | None \<Rightarrow> bindE (isolated change) (\<lambda>changed. if changed then returnE True
             else bindE department (\<lambda>worked. returnE (if worked then True else w)))) s1)) = (Inl e, t)"
  obtain r s1 where r: "(case recover of None \<Rightarrow> returnE False | Some r \<Rightarrow> r) s = (r, s1)"
    by (cases "(case recover of None \<Rightarrow> returnE False | Some r \<Rightarrow> r) s")
  show ?thesis
  proof (cases r)
    case (Inl x)
    with a r show ?thesis by (cases recover) (auto intro!: exI[of _ s])
  next
    case (Inr w)
    obtain q s2 where q: "autonomous s1 = (q, s2)" by (cases "autonomous s1")
    show ?thesis
    proof (cases q)
      case (Inl x)
      with a r Inr q have "fst (autonomous s1) = Inl e" by simp
      then show ?thesis by blast
    next
      case q': (Inr result)
      show ?thesis
      proof (cases result)
        case (Some res)
        have "\<exists>f. feedback = Some f \<and> fst (f res s2) = Inl e"
        proof (cases feedback)
          case None
          with a r Inr q q' Some show ?thesis by simp
        next
          case f: (Some f)
          obtain v s3 where "f res s2 = (v, s3)" by (cases "f res s2")
          with a r Inr q q' Some f show ?thesis by (cases v) auto
        qed
        then show ?thesis by blast
      next
        case None
        obtain b s3 where i: "isolated change s2 = (Inr b, s3)" using isolated_fst[of change s2] by (metis prod.collapse)
        with a r Inr q q' None have "fst (department s3) = Inl e"
          by (cases b; cases "department s3"; cases "fst (department s3)") auto
        then show ?thesis by blast
      qed
    qed
  qed
qed

section \<open>What the worker may ask of the host\<close>

definition worker_request :: "tool_request \<Rightarrow> helper_request \<Rightarrow> bool" where
  "worker_request req r \<longleftrightarrow>
     read_only_capability (hr_capability r) \<or>
     tr_mutates req \<and> (\<exists>k c. map_of recovery_components k = Some c \<and>
       r = helper_request_of SERVICE_RECOVER (Some ''dripvid'') [(''component'', JStr k)])"

lemma worker_adapters_send:
  assumes "(c, ad) \<in> set (worker_adapters reg (logging_client ans))"
  shows "sends_only (worker_request req) (ad req)"
proof -
  have "sends_only (worker_request req) (system_health_adapter reg (logging_client ans) req)"
    "sends_only (worker_request req) (service_status_adapter reg (logging_client ans) req)"
    unfolding system_health_adapter_def transport_system_health_def service_status_adapter_def transport_service_status_def
    by (intro sends_only_lift sends_only_transport; simp add: worker_request_def)+
  moreover have "sends_only (worker_request req) (service_logs_adapter reg (logging_client ans) req)"
    unfolding service_logs_adapter_def transport_service_logs_def
    by (intro sends_only_lift sends_only_if sends_json_case sends_only_transport sends_only_raise; simp add: worker_request_def)
  moreover have "sends_only (worker_request req) (service_recover_adapter reg (logging_client ans) req)"
    unfolding service_recover_adapter_def transport_service_recover_def
    by (intro sends_only_lift sends_only_if sends_json_case sends_only_transport sends_only_raise)
       (auto simp: worker_request_def)
  ultimately show ?thesis using assms by (auto simp: worker_adapters_def)
qed

text \<open>The registry is always built, and of the helper it asks readings and recoveries of DripVid only.\<close>

lemma worker_registry_built:
  "\<exists>reg. target_registry [] worker_targets = Inr reg \<and>
     worker_registry (Some client) None = Inr (worker_adapters reg client)"
proof -
  have "target_registry [] worker_targets = Inr [(''ai-hq'', hd worker_targets), (''dripvid'', worker_targets ! 1)]"
    by code_simp
  then show ?thesis by (simp add: worker_registry_def worker_adapters_def)
qed

theorem worker_registry_recovers_only:
  assumes "worker_registry (Some (logging_client ans)) None = Inr tools" and "(c, ad) \<in> set tools"
  shows "snd (ad req sent) = sent \<or> (\<exists>r. snd (ad req sent) = sent @ [r] \<and> worker_request req r)"
proof -
  obtain reg where "tools = worker_adapters reg (logging_client ans)"
    using worker_registry_built[of "logging_client ans"] assms(1) by auto
  with assms(2) have "sends_only (worker_request req) (ad req)" by (simp add: worker_adapters_send)
  then show ?thesis by (auto simp: sends_only_def keeps_def sends_def)
qed

section \<open>Departments\<close>

text \<open>
  C9: the departments only read. A run of the department runner that changes anything outside the database has
  asked the host helper exactly one question: a validated request, of a read-only capability, that the commander's
  table gives for the title of the oldest queued mission; and the stored system state was neither frozen nor simulating.
\<close>

theorem department_reads_only:
  assumes "department_run_once env call route_sysadmin_mission s = (r, t)" and "world t \<noteq> world s"
  shows "\<exists>m action request. oldest_queued s = Some m \<and> route_sysadmin_mission (m_title m) = Some action \<and>
    validate_request (action_request action) (de_allow env) = Inr request \<and> read_only_capability (hr_capability request) \<and>
    world t = snd (de_helper env request (world s)) \<and>
    fst (read_system_state s) \<noteq> MODE_FREEZE \<and> \<not> fst (snd (read_system_state s))"
proof -
  have same_world: "False" if "outer_part t = outer_part s" using that assms(2) by (simp add: outer_part_def)
  obtain m where m: "oldest_queued s = Some m"
  proof (cases "oldest_queued s")
    case None
    with assms show ?thesis by (simp add: department_run_once_def)
  qed
  obtain w s1 where c: "set_state ''commander'' AG_WORKING (Some (m_id m)) s = (w, s1)"
    by (cases "set_state ''commander'' AG_WORKING (Some (m_id m)) s")
  have o1: "outer_part s1 = outer_part s" using keepsD'[OF department_ops_outer(2) c] by (simp add: same_def)
  obtain q s2 where q: "route_mission route_sysadmin_mission m s1 = (q, s2)"
    by (cases "route_mission route_sysadmin_mission m s1")
  have o2: "outer_part s2 = outer_part s" using keepsD'[OF route_mission_outer q] o1 by (simp add: same_def)
  have run: "(case w of Inl e \<Rightarrow> (Inl e, s1) | Inr _ \<Rightarrow> (case q of Inl e \<Rightarrow> (Inl e, s2)
    | Inr None \<Rightarrow> (Inr True, s2) | Inr (Some action) \<Rightarrow> work_department env call (m_id m) action s2)) = (r, t)"
    using assms(1) m c q by (cases w; cases q) (auto simp: department_run_once_def split: option.splits)
  from run o1 o2 same_world obtain action where a: "q = Inr (Some action)"
    and work: "work_department env call (m_id m) action s2 = (r, t)"
    by (auto split: sum.splits option.splits)
  have routed: "route_sysadmin_mission (m_title m) = Some action"
    using q a by (auto simp: route_mission_def finallyE_def split: option.splits prod.splits sum.splits elim!: bindE_InrE)
  obtain request where v: "validate_request (action_request action) (de_allow env) = Inr request"
  proof (cases "validate_request (action_request action) (de_allow env)")
    case (Inl e)
    from keepsD'[OF work_department_invalid[OF Inl] work] o2 same_world show ?thesis by (simp add: same_def)
  qed
  have "asks_helper env request s t" using keepsD'[OF work_department_asks[OF v] work] asks_cong(1)[OF o2] by simp
  with assms(2) m routed v routed_read_only(1)[OF routed] action_request_capability[OF v] show ?thesis
    by (auto simp: asks_helper_def)
qed


section \<open>The drill\<close>

lemma drilled_frame:
  "drilled ws now new_id s = s\<lparr>incidents := incidents (drilled ws now new_id s),
     recovery_statuses := recovery_statuses (drilled ws now new_id s)\<rparr>"
  by (simp add: drilled_def put_status_def Let_def)

lemma drill_refused_while_active:
  "active_for ''dripvid'' s \<noteq> [] \<Longrightarrow> \<exists>code. drill_run ws now new_id s = (Inr (DrillFailed code), s)"
  by (auto simp: drill_run_def)

text \<open>
  C30: the recovery drill is refused without any change unless recovery is enabled, observe-only and not frozen, no
  incident of the target is active and the last status is healthy and fresh. Otherwise it adds one suspect incident
  that names itself a drill and the status row showing it, and nothing else; it succeeds exactly when no recovery
  attempt carries the incident's identifier; and no further drill runs while that incident is active.
\<close>

theorem drill_guarded:
  assumes "drill_run ws now new_id s = (r, t)"
  shows "t = s \<and> (\<exists>code. r = Inr (DrillFailed code)) \<or>
    wr_recovery_enabled ws \<and> wr_observe_only ws \<and> wr_mode ws \<noteq> MODE_FREEZE \<and> active_for ''dripvid'' s = [] \<and>
    unfresh now (status_snapshot ''dripvid'' s) = None \<and>
    incidents t = incidents s @ [drill_incident new_id now (wr_threshold ws)] \<and>
    rs_result (status_snapshot ''dripvid'' t) = RS_UNHEALTHY \<and> rs_incident (status_snapshot ''dripvid'' t) = Some new_id \<and>
    t = s\<lparr>incidents := incidents t, recovery_statuses := recovery_statuses t\<rparr> \<and>
    (r = Inr (DrillOk new_id (wr_threshold ws)) \<longleftrightarrow> (\<forall>a \<in> set (attempts s). at_incident a \<noteq> new_id)) \<and>
    (\<forall>ws' now' id'. \<exists>code. drill_run ws' now' id' t = (Inr (DrillFailed code), t))"
  using assms
proof (cases rule: drill_run_cases)
  case (refused code)
  then show ?thesis by simp
next
  case done'
  have more_active: "active_for ''dripvid'' t \<noteq> []"
    using done'(7) by (simp add: active_for_def drilled_incidents drill_incident_def)
  have snap: "rs_result (status_snapshot ''dripvid'' t) = RS_UNHEALTHY" "rs_incident (status_snapshot ''dripvid'' t) = Some new_id"
    using drill_status[OF done'(4), of ws now new_id] done'(7) by simp_all
  have ok: "r = Inr (DrillOk new_id (wr_threshold ws)) \<longleftrightarrow> (\<forall>a \<in> set (attempts s). at_incident a \<noteq> new_id)"
    using done'(8) drilled_verified[OF done'(4,6), of ws now] done'(7) by auto
  have frame: "t = s\<lparr>incidents := incidents t, recovery_statuses := recovery_statuses t\<rparr>"
    using done'(7) drilled_frame[of ws now new_id s] by simp
  have "incidents t = incidents s @ [drill_incident new_id now (wr_threshold ws)]"
    using done'(7) drilled_incidents by simp
  with done'(1-5) snap ok frame drill_refused_while_active[OF more_active] show ?thesis by blast
qed

section \<open>Instances\<close>

definition department_agent :: "string \<Rightarrow> agent" where
  "department_agent k =
     \<lparr>ag_id = k, ag_key = k, ag_display_name = k, ag_role = ''r'', ag_status = AG_IDLE, ag_level = 1, ag_xp = 0,
      ag_current_mission = None, ag_capabilities = [], ag_permissions = [''host.health'']\<rparr>"

definition department_mission :: mission where
  "department_mission = mission_row ''m1'' 0
     \<lparr>nm_title = ''Check AI HQ  health'', nm_description = ''d'', nm_owner_agent = ''commander'', nm_source = ''api'',
      nm_priority = PRIO_NORMAL, nm_risk = GREEN, nm_objectives = None, nm_dependencies = None, nm_xp_reward = 0\<rparr>"

definition department_sample :: "nat gateway_db" where
  "department_sample =
     \<lparr>ledger = [], missions = [department_mission], mission_steps = [], approval_requests = [], scoped_rules = [],
      system_row = Some \<lparr>ss_operating_mode = ''normal'', ss_simulation_mode = False\<rparr>,
      agents = [department_agent ''commander'', department_agent ''sysadmin''], notifications = [], incidents = [],
      attempts = [], world = 0\<rparr>"

definition healthy_reply :: helper_response where
  "healthy_reply = \<lparr>hp_ok = True, hp_capability = HOST_HEALTH, hp_target = None, hp_data = [], hp_error = None\<rparr>"

definition sample_department :: "nat department_env" where
  "sample_department =
     \<lparr>de_sha = id, de_lifetime = 0, de_helper = (\<lambda>req w. (Inr healthy_reply, Suc w)),
      de_allow = default_allow_lists\<rparr>"

definition sample_department_call :: department_call where
  "sample_department_call =
     \<lparr>dc_clock = \<lparr>ck_approved = 0, ck_rule = 0, ck_pending = 0, ck_request = 0\<rparr>, dc_approval_id = ''r1'', dc_approval_at = 0\<rparr>"

definition sample_department_run :: "(exn + bool) \<times> nat gateway_db" where
  "sample_department_run = department_run_once sample_department sample_department_call route_sysadmin_mission department_sample"

definition health_action :: routed_action where
  "health_action =
     \<lparr>ra_owner = ''sysadmin'', ra_capability = HOST_HEALTH, ra_goal = None, ra_params = [], ra_level = GREEN\<rparr>"

lemma department_routed_once:
  assumes "oldest_queued s = Some m" and "router (m_title m) = Some action"
  shows "department_run_once env call router s = department_run_once env call (\<lambda>_. Some action) s"
  using assms by (simp add: department_run_once_def bindE_def route_mission_def)

lemma sample_department_oldest: "oldest_queued department_sample = Some department_mission"
  by code_simp

lemma sample_department_routed: "route_sysadmin_mission (m_title department_mission) = Some health_action"
  by code_simp

lemma sample_department_world: "world (snd sample_department_run) \<noteq> world department_sample"
  unfolding sample_department_run_def department_routed_once[where router = route_sysadmin_mission, OF sample_department_oldest sample_department_routed]
  by code_simp

theorem department_reads_only_witness:
  "world (snd sample_department_run) \<noteq> world department_sample \<and>
   (\<exists>m action request. oldest_queued department_sample = Some m \<and> route_sysadmin_mission (m_title m) = Some action \<and>
      validate_request (action_request action) (de_allow sample_department) = Inr request \<and>
      read_only_capability (hr_capability request) \<and>
      world (snd sample_department_run) = snd (de_helper sample_department request (world department_sample)))"
  using department_reads_only[of sample_department sample_department_call department_sample "fst sample_department_run"
      "snd sample_department_run"] sample_department_world
  unfolding sample_department_run_def prod.collapse by blast

definition drill_settings :: worker_settings where
  "drill_settings =
     \<lparr>wr_recovery_enabled = True, wr_observe_only = True, wr_mode = MODE_NORMAL, wr_threshold = 3,
      wr_observation_seconds = 60\<rparr>"

definition drill_sample :: "nat site_db" where
  "drill_sample =
     \<lparr>ledger = [], missions = [], mission_steps = [], approval_requests = [], scoped_rules = [], system_row = None,
      agents = [], notifications = [], incidents = [], attempts = [], world = 0, deliveries = [], conversations = [],
      chat_messages = [], memories = [], admin_sessions = [],
      recovery_statuses = [\<lparr>rs_target = ''dripvid'', rs_last_probe = Some (Aware 0), rs_result = RS_HEALTHY,
        rs_reachable = Some True, rs_status_code = Some 200, rs_ready = Some True, rs_failures = 0, rs_incident = None,
        rs_incident_state = None\<rparr>], last_cycle = None\<rparr>"

definition sample_drill :: "(exn + drill_reply) \<times> nat site_db" where
  "sample_drill = drill_run drill_settings 1 ''i1'' drill_sample"

lemma sample_drill_fst: "fst sample_drill = Inr (DrillOk ''i1'' 3)"
  by code_simp

theorem drill_guarded_witness:
  "fst sample_drill = Inr (DrillOk ''i1'' 3) \<and>
   incidents (snd sample_drill) = [drill_incident ''i1'' 1 3] \<and>
   (\<exists>code. drill_run drill_settings 2 ''i2'' (snd sample_drill) = (Inr (DrillFailed code), snd sample_drill))"
proof -
  have "drill_run drill_settings 1 ''i1'' drill_sample = (fst sample_drill, snd sample_drill)"
    by (simp add: sample_drill_def)
  from drill_guarded[OF this] sample_drill_fst show ?thesis by (auto simp: drill_settings_def drill_sample_def)
qed

end
