(* ===== verification/Spec2Isabelle.thy ===== *)
theory Spec2Isabelle
  imports Mcp_Laws HQ_State AI_Router Settings Executor_Runs Gateway_Laws Recovery_Probe Observer_Laws Change_Properties Service_Properties Web_Properties Model_Properties Worker_Properties
begin

text \<open>
  A verification of AI HQ (\<open>src/src/ai_hq\<close>), a control plane in which agents propose actions on a
  host, a safety policy and human approvals decide on them, and an executor carries them out.

  \<^bold>\<open>The program.\<close> Missions with plans of steps live in a database. \<open>MissionExecutor\<close> claims one step at a
  time, builds a tool request and hands it to \<open>ToolGateway\<close>, the only way to an effect. The gateway checks
  the agent's permission, asks \<open>SafetyService\<close> (policy, stored system state, approval requests, scoped
  rules), and calls an adapter. Operational adapters talk over a Unix socket to a privileged host helper that
  runs commands of a fixed catalogue. A recovery observer watches a service, keeps incidents, and
  files recovery missions that take the same guarded path. Every decision is written to a ledger.

  \<^bold>\<open>How it is modelled.\<close> An operation is a function of type \<open>('s, 'a) op\<close>, from a state to a result (\<open>Inl\<close> an
  exception, \<open>Inr\<close> a value) and a new state (\<^verbatim>\<open>Prelude\<close>); a raise after a commit leaves the committed state.
  The database is a record of tables, each a list of rows, extended component by component: ledger, missions
  and steps, approval requests and scoped rules, system state, agents, notifications, incidents and
  attempts, and the outside world. Rows are found, updated and counted by the functions of \<^verbatim>\<open>Store\<close>, which follow
  the SQL the services issue (\<open>UPDATE ... WHERE\<close> with its row count). Clock readings and fresh identifiers are
  arguments, in the order the code takes them, so that claims hold for every clock. Times are
  integers in microseconds. SHA-256, the adapters, subprocesses and the HTTP transport are arguments.

  \<^bold>\<open>Theories.\<close>
  \<^item> \<^verbatim>\<open>Prelude\<close>, \<^verbatim>\<open>Store\<close>, \<^verbatim>\<open>Json\<close>, \<^verbatim>\<open>Json_Parse\<close>: operations with errors and their frame rules, tables, JSON values with
    Python's equality, the canonical encoder and a decoder that inverts it.
  \<^item> \<^verbatim>\<open>Ledger\<close>, \<^verbatim>\<open>Missions\<close>, \<^verbatim>\<open>Mission_Laws\<close>, \<^verbatim>\<open>Plan_Order\<close>, \<^verbatim>\<open>Mission_Claims\<close>, \<^verbatim>\<open>Mission_History\<close>: \<open>ledger/\<close>,
    \<open>missions/models.py\<close>, \<open>missions/service.py\<close>. Life cycles as a locale interpreted on both transition tables, plans
    worked in order, interleaved claims, leases, and arbitrary call sequences.
  \<^item> \<^verbatim>\<open>Approvals\<close>, \<^verbatim>\<open>Safety\<close>, \<^verbatim>\<open>Agents\<close>, \<^verbatim>\<open>Notifications\<close>: \<open>approvals/\<close>, \<open>safety/\<close>, \<open>system_state.py\<close>, \<open>agents/\<close>,
    \<open>notifications/\<close>.
  \<^item> \<^verbatim>\<open>Tool_Gateway\<close>, \<^verbatim>\<open>Gateway_Laws\<close>, \<^verbatim>\<open>Mission_Executor\<close>, \<^verbatim>\<open>Executor_Laws\<close>, \<^verbatim>\<open>Executor_Runs\<close>: \<open>tool_gateway/\<close>,
    \<open>missions/executor.py\<close>, \<open>missions/worker.py\<close>. The executor is verified against the interface \<open>action_gate\<close>,
    which the gateway's model is shown to meet.
  \<^item> \<^verbatim>\<open>Host_Contracts\<close>, \<^verbatim>\<open>Host_Text\<close>, \<^verbatim>\<open>Host_Executor\<close>, \<^verbatim>\<open>Host_Laws\<close>, \<^verbatim>\<open>Host_Link\<close>, \<^verbatim>\<open>Operations\<close>: \<open>host_helper/\<close>,
    \<open>operations/\<close>, \<open>tool_gateway/host_adapter.py\<close>.
  \<^item> \<^verbatim>\<open>Recovery_Policy\<close>, \<^verbatim>\<open>Recovery_Service\<close>, \<^verbatim>\<open>Recovery_Limits\<close>, \<^verbatim>\<open>Recovery_Probe\<close>, \<^verbatim>\<open>Recovery_Observer\<close>,
    \<^verbatim>\<open>Observer_Laws\<close>: \<open>recovery/\<close>.

  \<^item> \<^verbatim>\<open>Candidates\<close>, \<^verbatim>\<open>Candidate_Laws\<close>, \<^verbatim>\<open>Delivery\<close>, \<^verbatim>\<open>Delivery_Agents\<close>, \<^verbatim>\<open>Delivery_Laws\<close>: \<open>delivery/\<close>. File trees and their
    manifests, candidate verification and storage, and the delivery process as a refinement of a
    state machine of phases.
  \<^item> \<^verbatim>\<open>Publication\<close>, \<^verbatim>\<open>Publication_Laws\<close>, \<^verbatim>\<open>Code_Changes\<close>, \<^verbatim>\<open>Code_Change_Laws\<close>, \<^verbatim>\<open>Code_Change_Runs\<close>,
    \<^verbatim>\<open>Change_Properties\<close>: \<open>code_changes/\<close>. From the queued request to the published, deployed or rolled back
    release, with the HTTP calls to GitHub and to the host helper as steps on the world.

  \<^item> \<^verbatim>\<open>Text_Search\<close>, \<^verbatim>\<open>Chat_Intents\<close>, \<^verbatim>\<open>Chat\<close>, \<^verbatim>\<open>Chat_Laws\<close>, \<^verbatim>\<open>Chat_Runs\<close>: \<open>chat/\<close>. Substrings and regular
    expressions as an executable matcher, the intents of a message, conversations, and the controller on the
    mission and code-change services above.
  \<^item> \<^verbatim>\<open>Knowledge\<close>, \<^verbatim>\<open>Knowledge_Laws\<close>: \<open>knowledge/\<close>. Memories and the state machine they follow.
  \<^item> \<^verbatim>\<open>Sandbox\<close>, \<^verbatim>\<open>Sandbox_Trees\<close>, \<^verbatim>\<open>Sandbox_Laws\<close>, \<^verbatim>\<open>Service_Properties\<close>: \<open>delivery/repository_sandbox.py\<close>,
    \<open>delivery/repository_profiles.py\<close>, \<open>repository_source_policy.py\<close>. Isolated workspaces on directory trees with links,
    refined to maps from paths to files; the properties of chat, knowledge and workspaces.
  \<^item> \<^verbatim>\<open>Web_Sessions\<close>, \<^verbatim>\<open>Web_Api\<close>, \<^verbatim>\<open>Web_Laws\<close>, \<^verbatim>\<open>Web_Properties\<close>: \<open>auth/\<close>, \<open>web.py\<close> and the \<open>api.py\<close> of missions,
    approvals, notifications, knowledge and chat. Sessions behind a signed cookie, the login limit, and every
    route with its checks, composed into one handler of requests.
  \<^item> \<^verbatim>\<open>Source_Context\<close>, \<^verbatim>\<open>Model_Agents\<close>, \<^verbatim>\<open>Model_Laws\<close>, \<^verbatim>\<open>Model_Properties\<close>: \<open>code_changes/context.py\<close>,
    \<open>delivery/model_agents.py\<close>. The source files a model is shown, and the agents that check what it answers.
  \<^item> \<^verbatim>\<open>Departments\<close>, \<^verbatim>\<open>Department_Laws\<close>, \<^verbatim>\<open>Recovery_Status\<close>, \<^verbatim>\<open>Recovery_Runs\<close>, \<^verbatim>\<open>Worker\<close>, \<^verbatim>\<open>Worker_Properties\<close>:
    \<open>departments/\<close>, \<open>recovery/status.py\<close>, \<open>recovery/drill.py\<close>, \<open>worker.py\<close>. The worker's iteration on the services
    above, with the adapters and targets it registers.
  \<^item> \<^verbatim>\<open>Mcp_Client\<close>, \<^verbatim>\<open>Mcp_Laws\<close>: \<open>dripvid_mcp/\<close>. The client of an MCP server as a refinement of its protocol.
  \<^item> \<^verbatim>\<open>HQ_State\<close>, \<^verbatim>\<open>AI_Router\<close>: \<open>hq/\<close>, \<open>ai_router/\<close>. The view of the operations floor; the choice of a
    model and its budget.
  \<^item> \<^verbatim>\<open>Model_Client\<close>, \<^verbatim>\<open>Settings\<close>: \<open>chat/model_client.py\<close>, \<open>chat/free_model_router.py\<close>, \<open>config.py\<close>,
    \<open>code_changes/runtime.py\<close>. The clients of the language models; the settings, their checks, and what they give the parts.

  \<^bold>\<open>What is shown.\<close> C1, C3, C5 to C7: missions, plans, executor, claims and leases. C8, C11, C12 and C14: gateway,
  approvals, scoped rules and the safety policy. C17 to C19, C21: the host helper, from payload to command
  and back. C23 to C25: automatic recovery. C32 to C38
  (\<^verbatim>\<open>Change_Properties\<close>): code changes. C2, C13, C28: the chat. C15: knowledge. C16, C20, C27: workspaces.
  C22, C26, C29, C31 (\<^verbatim>\<open>Web_Properties\<close>): logins, sessions, and who may write over HTTP.
  C10, C39, C40 (\<^verbatim>\<open>Model_Properties\<close>): what the language model sees and what its answers may change.
  C9, C30 (\<^verbatim>\<open>Worker_Properties\<close>): the departments and the recovery drill. C4 (\<^verbatim>\<open>Mcp_Laws\<close>): the
  protocol of the MCP client.

  \<^bold>\<open>Bounds.\<close> Loops over lists are structural recursion. The receive loops recurse over the list of chunk sizes
  the kernel delivers, of any length. \<open>bounded_value\<close> ends at depth four. The decoder's fuel is the length
  of its input plus one, which is proved enough for every encoded value.

  \<^bold>\<open>Not modelled.\<close> The construction of services from one another, and the
  rendering of pages and JSON replies; floating point numbers and characters beyond Latin-1; SQL isolation anomalies other than the
  interleaving of step claims; the socket's accept loop, subprocesses and logging, which are I/O.
\<close>

section \<open>Sample values\<close>

text \<open>A small database, gateway and plan, on which the properties below are instantiated.\<close>

definition sample_mission :: mission where
  "sample_mission = mission_row ''m1'' 0
     \<lparr>nm_title = ''t'', nm_description = ''d'', nm_owner_agent = ''sysadmin'', nm_source = ''api'',
      nm_priority = PRIO_NORMAL, nm_risk = GREEN, nm_objectives = None, nm_dependencies = None,
      nm_xp_reward = 0\<rparr>"

definition sample_step :: "string \<Rightarrow> nat \<Rightarrow> dict \<Rightarrow> mission_step" where
  "sample_step i p args =
     \<lparr>st_id = i, st_mission = ''m1'', st_position = p, st_description = ''d'',
      st_tool_name = ''host.health'', st_tool_arguments = args, st_status = STEP_PENDING,
      st_result = None, st_error_state = None, st_approval_reference = None\<rparr>"

definition sample_agent :: agent where
  "sample_agent =
     \<lparr>ag_id = ''a1'', ag_key = ''sysadmin'', ag_display_name = ''SysAdmin'', ag_role = ''r'',
      ag_status = AG_IDLE, ag_level = 1, ag_xp = 0, ag_current_mission = None,
      ag_capabilities = [], ag_permissions = [''host.health'']\<rparr>"

definition sample_db :: "mission_step list \<Rightarrow> scoped_rule list \<Rightarrow> nat gateway_db" where
  "sample_db steps rules =
     \<lparr>ledger = [], missions = [sample_mission], mission_steps = steps, approval_requests = [],
      scoped_rules = rules,
      system_row = Some \<lparr>ss_operating_mode = ''normal'', ss_simulation_mode = False\<rparr>,
      agents = [sample_agent], notifications = [], incidents = [], attempts = [], world = 0\<rparr>"

definition two_steps :: "mission_step list" where
  "two_steps = [sample_step ''s1'' 1 [], sample_step ''s2'' 2 []]"

definition sample_env :: "nat gateway_env" where
  "sample_env =
     \<lparr>ge_sha = (\<lambda>s. s), ge_lifetime = 0,
      ge_registry = [(''host.health'', \<lambda>req w. (Inr [], Suc w))]\<rparr>"

definition sample_call :: gateway_call where
  "sample_call =
     \<lparr>gc_clock = \<lparr>ck_approved = 0, ck_rule = 0, ck_pending = 0, ck_request = 0\<rparr>,
      gc_consume_at = 0, gc_new_id = ''r1'', gc_created = 0\<rparr>"

definition sample_request :: "mission_risk \<Rightarrow> bool \<Rightarrow> tool_request" where
  "sample_request risk mutates =
     \<lparr>tr_mission = ''m1'', tr_agent = ''sysadmin'', tr_capability = ''host.health'', tr_target = ''m1'',
      tr_risk = risk, tr_params = [], tr_conditions = [], tr_mutates = mutates\<rparr>"

lemma sample_mission_simps [simp]:
  "m_id sample_mission = ''m1''" "m_status sample_mission = QUEUED"
  by (simp_all add: sample_mission_def mission_row_def)

lemma sample_step_simps [simp]:
  "st_id (sample_step i p args) = i" "st_mission (sample_step i p args) = ''m1''"
  "st_position (sample_step i p args) = p" "st_status (sample_step i p args) = STEP_PENDING"
  "st_tool_arguments (sample_step i p args) = args"
  by (simp_all add: sample_step_def)

lemma sample_db_simps [simp]:
  "missions (sample_db steps rules) = [sample_mission]"
  "mission_steps (sample_db steps rules) = steps"
  "scoped_rules (sample_db steps rules) = rules"
  by (simp_all add: sample_db_def)

lemma plans_in_order_pending:
  "unique_keys st_id steps \<Longrightarrow> \<forall>st \<in> set steps. st_status st = STEP_PENDING \<Longrightarrow>
   mission_steps s = steps \<Longrightarrow> plans_in_order s"
  by (auto simp: plans_in_order_def plan_statuses_def plan_of_set intro: in_order_pending)

lemma sample_inv:
  "unique_keys st_id steps \<Longrightarrow> \<forall>st \<in> set steps. st_status st = STEP_PENDING \<Longrightarrow>
   executor_inv (sample_db steps rules)"
  by (simp add: executor_inv_def plans_in_order_pending)

lemma two_steps_inv [simp]: "executor_inv (sample_db two_steps rules)"
  by (rule sample_inv) (simp_all add: two_steps_def)

lemma two_steps_first [simp]: "first_incomplete ''m1'' (sample_db two_steps rules) = Some (sample_step ''s1'' 1 [])"
  unfolding first_incomplete_def
  by (rule first_by_min) (auto simp: two_steps_def less_prod_def)

lemma two_steps_rows:
  "row_of st_id ''s1'' two_steps = Some (sample_step ''s1'' 1 [])"
  "row_of st_id ''s2'' two_steps = Some (sample_step ''s2'' 2 [])"
  by (simp_all add: two_steps_def)

lemma two_steps_ready: "ready ''m1'' (Suc 1) (sample_db two_steps rules)"
proof -
  have "rowcount (unfinished ''m1'') two_steps = Suc 1"
    by (simp add: rowcount_def two_steps_def unfinished_def)
  moreover have "\<exists>req. request_for m (sample_step i p []) = Inr req" for m i p
    by (simp add: request_for_def dict_get_default_def)
  then have "\<forall>st \<in> set two_steps. st_mission st = ''m1'' \<longrightarrow>
      st_status st \<in> {STEP_PENDING, STEP_SUCCEEDED} \<and> (\<forall>m. \<exists>req. request_for m st = Inr req)"
    by (simp add: two_steps_def)
  ultimately show ?thesis by (simp add: ready_def)
qed

section \<open>Missions, plans and the executor\<close>

text \<open>
  C1: whatever the tool gateway answers, \<open>MissionExecutor.run_next\<close> and \<open>resume_approved\<close> keep the
  executor's invariant: every plan is worked strictly in order, identifiers stay unique, and a
  mission is completed only when its plan is non-empty and every step of it has succeeded.
\<close>

theorem executor_keeps_plans:
  assumes "executor_inv s"
  shows "executor_inv (snd (run_next l (gateway_execute env call) mid s)) \<and>
         executor_inv (snd (resume_approved l (gateway_execute env call) mid s))"
  using assms by (simp add: tool_gate.run_next_inv tool_gate.resume_approved_inv)

theorem executor_keeps_plans_witness:
  "executor_inv (sample_db two_steps []) \<and>
   executor_inv (snd (run_next True (gateway_execute sample_env sample_call) ''m1'' (sample_db two_steps [])))"
  using executor_keeps_plans[of "sample_db two_steps []" True sample_env sample_call "''m1''"] by simp

text \<open>
  One call of \<open>run_next\<close> touches at most one step, the first unfinished step of the mission;
  every other step of every mission is left exactly as it was.
\<close>

theorem run_next_touches_first_unfinished:
  assumes "executor_inv s" and "map_option st_id (first_incomplete mid s) \<noteq> Some k"
  shows "row_of st_id k (mission_steps (snd (run_next l (gateway_execute env call) mid s))) =
         row_of st_id k (mission_steps s)"
  using assms by (rule tool_gate.run_next_one_step)

theorem run_next_touches_first_unfinished_witness:
  "row_of st_id ''s2'' (mission_steps (snd (run_next True (gateway_execute sample_env sample_call) ''m1''
     (sample_db two_steps [])))) = Some (sample_step ''s2'' 2 [])"
  using run_next_touches_first_unfinished[of "sample_db two_steps []" "''m1''" "''s2''" True sample_env sample_call]
    two_steps_rows by simp

text \<open>
  C3: a plan is finished by as many calls of \<open>run_next\<close> as it has unfinished steps. If no step of a
  queued or running mission is started, each has usable arguments, and the gateway executes or
  simulates every request without touching the mission tables, then after exactly that many
  calls the mission is completed.
\<close>

theorem plan_completes:
  assumes "ready mid (Suc n) s"
    and "\<And>i req u. \<exists>oc v. gates i req u = (Inr oc, v) \<and> missions v = missions u \<and>
           mission_steps v = mission_steps u \<and> to_state oc \<in> {OUT_EXECUTED, OUT_SIMULATED}"
  shows "mission_completed mid (run_times (Suc n) l gates mid s)"
proof (rule run_times_completes[OF assms(1)])
  fix i
  show "action_gate (gates i)"
  proof
    fix req s
    show "missions (snd (gates i req s)) = missions s" "mission_steps (snd (gates i req s)) = mission_steps s"
      using assms(2)[of i req s] by auto
  qed
  show "\<exists>oc v. gates i req u = (Inr oc, v) \<and> to_state oc \<in> {OUT_EXECUTED, OUT_SIMULATED}" for req u
    using assms(2)[of i req u] by blast
qed

theorem plan_completes_witness:
  "mission_completed ''m1''
     (run_times 2 True (\<lambda>i req u. (Inr (outcome req OUT_EXECUTED (Some []) None None), u)) ''m1''
        (sample_db two_steps []))"
  using plan_completes[OF two_steps_ready[of "[]"],
      of "\<lambda>i req u. (Inr (outcome req OUT_EXECUTED (Some []) None None), u)" True]
  by (simp add: outcome_def numeral_2_eq_2)

text \<open>
  A step whose arguments make no request. \<open>run_next\<close> claims the step before it builds the
  request, so when \<open>_request_for\<close> raises, the error reaches the caller, the step stays \<open>RUNNING\<close>
  and every later call returns without doing anything: the mission is stuck.
\<close>

theorem bad_arguments_strand_mission:
  assumes "executor_inv s" and "row_of m_id mid (missions s) = Some m"
    and "m_status m \<in> {QUEUED, RUNNING}"
    and "first_incomplete mid s = Some st" and "st_status st = STEP_PENDING"
    and "request_for m st = Inl e"
  shows "fst (run_next l (gateway_execute env call) mid s) = Inl e \<and>
         (let t = snd (run_next l (gateway_execute env call) mid s) in
          \<forall>call'. snd (run_next l (gateway_execute env call') mid t) = t)"
proof -
  let ?t = "snd (run_next l (gateway_execute env call) mid s)"
  from run_next_bad_conditions[OF assms, of l "gateway_execute env call"]
  have r: "fst (run_next l (gateway_execute env call) mid s) = Inl e"
    and steps: "mission_steps ?t = save_row st_id (st\<lparr>st_status := STEP_RUNNING\<rparr>) (mission_steps s)"
    and row: "row_of m_id mid (missions ?t) = Some (started_mission m)" by blast+
  have inv: "executor_inv ?t" using assms(1) by (rule tool_gate.run_next_inv)
  have live: "m_status (started_mission m) \<in> {QUEUED, RUNNING}"
    using assms(3) by (auto simp: started_mission_def)
  obtain st' where fi: "first_incomplete mid ?t = Some st'" "st_status st' \<noteq> STEP_PENDING"
    using first_incomplete_started[OF assms(1,4,5) steps] by blast
  have "run_next l (gateway_execute env call') mid ?t = (Inr (mission_result (started_mission m)), ?t)" for call'
    by (rule run_next_stuck[OF inv row live fi])
  then show ?thesis using r by (simp add: Let_def)
qed

theorem bad_arguments_strand_mission_witness:
  "fst (run_next True (gateway_execute sample_env sample_call) ''m1''
      (sample_db [sample_step ''s1'' 1 [(''conditions'', JNull)]] [])) =
    Inl (ValueError ''mission step conditions must be an object'')"
proof -
  let ?st = "sample_step ''s1'' 1 [(''conditions'', JNull)]"
  have "executor_inv (sample_db [?st] [])" by (rule sample_inv) simp_all
  moreover have "first_incomplete ''m1'' (sample_db [?st] []) = Some ?st"
    by (simp add: first_incomplete_def first_by_def)
  ultimately show ?thesis
    using bad_arguments_strand_mission[of "sample_db [?st] []" "''m1''" sample_mission ?st
        "ValueError ''mission step conditions must be an object''" True sample_env sample_call]
    by (simp add: request_for_def dict_get_default_def)
qed



text \<open>
  C6: any number of workers that select and claim steps in two separate statements, interleaved in
  any way with each other and with the steps' progress, never claim the same step twice.
\<close>

theorem step_claimed_once:
  assumes "unique_keys st_id (mission_steps db)" and "claim_reach (claim_start db) c"
  shows "distinct (map snd (cs_log c))"
  using claim_reach_inv[OF assms(2) claim_start_inv[OF assms(1)]] by (simp add: claim_inv_def)

theorem step_claimed_once_witness:
  "\<exists>c. claim_reach (claim_start (missions_db.truncate (sample_db two_steps []))) c \<and>
       cs_log c = [(0, ''s1'')] \<and> cs_phase c 1 = Selected ''s1'' \<and> distinct (map snd (cs_log c))"
proof -
  let ?db = "missions_db.truncate (sample_db two_steps [])"
  let ?c0 = "claim_start ?db"
  let ?c1 = "?c0\<lparr>cs_phase := (cs_phase ?c0)(0 := Selected ''s1'')\<rparr>"
  let ?c2 = "?c1\<lparr>cs_phase := (cs_phase ?c1)(1 := Selected ''s1'')\<rparr>"
  let ?won = "(sample_step ''s1'' 1 [])\<lparr>st_status := STEP_RUNNING\<rparr>"
  have steps: "mission_steps ?db = two_steps"
    by (simp add: missions_db.defs sample_db_def)
  have first: "first_incomplete ''m1'' ?db = Some (sample_step ''s1'' 1 [])"
    using two_steps_first[of "[]"] steps by (simp add: first_incomplete_def)
  obtain db' where won: "claim_step_row ''s1'' ?db = (Inr (Some ?won), db')"
    using steps by (simp add: claim_step_row_def Let_def two_steps_def rowcount_def update_where_def)
  let ?c3 = "?c2\<lparr>cs_db := db', cs_phase := (cs_phase ?c2)(0 := Looking), cs_log := cs_log ?c2 @ [(0, ''s1'')]\<rparr>"
  have "claim_move ?c0 ?c1" using claim_move.select[of ?c0 0 "''m1''"] first by (simp add: claim_start_def)
  moreover have "claim_move ?c1 ?c2" using claim_move.select[of ?c1 1 "''m1''"] first by (simp add: claim_start_def)
  moreover have "claim_move ?c2 ?c3" using claim_move.win[of ?c2 0 "''s1''"] won by (simp add: claim_start_def)
  ultimately have reach: "claim_reach ?c0 ?c3" by (blast intro: claim_reach.intros)
  have "distinct (map snd (cs_log ?c3))"
    by (rule step_claimed_once[OF _ reach]) (unfold steps, simp add: two_steps_def)
  with reach show ?thesis by (intro exI[of _ ?c3]) (simp add: claim_start_def)
qed

text \<open>
  C7: leases are exclusive. As long as the lease of a worker on a code-change mission has not
  expired, \<open>claim_oldest_code_change\<close> of any worker leaves that lease in place and never returns that mission.
\<close>

theorem lease_is_exclusive:
  assumes "holds_lease v expires mid s" and "now \<le> expires" and "unique_keys m_id (missions s)"
  shows "holds_lease v expires mid (snd (claim_oldest_code_change w secs now s)) \<and>
         (\<forall>m'. fst (claim_oldest_code_change w secs now s) = Inr (Some m') \<longrightarrow> m_id m' \<noteq> mid)"
  using assms claim_first_respects_lease[OF assms] by (simp add: claim_oldest_code_change_def Let_def)

definition leased_mission :: mission where
  "leased_mission = sample_mission
     \<lparr>m_source := ''hq_chat_code_change'', m_owner_agent := ''developer'', m_status := RUNNING,
      m_lease_owner := Some ''w1'', m_lease_expires_at := Some (Aware 100)\<rparr>"

theorem lease_is_exclusive_witness:
  "holds_lease ''w1'' 100 ''m1'' (snd (claim_oldest_code_change ''w2'' 60 50
     ((sample_db [] [])\<lparr>missions := [leased_mission]\<rparr>)))"
  using lease_is_exclusive[of "''w1''" 100 "''m1''" "(sample_db [] [])\<lparr>missions := [leased_mission]\<rparr>" 50 "''w2''" 60]
  by (simp add: holds_lease_def leased_mission_def)

section \<open>The tool gateway, approvals and the safety policy\<close>

text \<open>
  C8: the outside world changes only through the gateway's guard. If a call of \<open>ToolGateway.execute\<close>
  changed anything outside the database, then an adapter is registered for exactly the requested
  capability, the agent holds exactly that permission, the stored system state is present and its
  mode valid and not frozen, the risk is not red, a mutating action runs only in normal mode with simulation off,
  a blue action has a matching scoped rule or an approval, and amber actions and mutating green
  ones have an unexpired approval of their fingerprint.
\<close>

theorem gateway_guards_world:
  assumes "world (snd (gateway_execute env call req s)) \<noteq> world s"
  shows "resolve (ge_registry env) (tr_capability req) \<noteq> None \<and>
    has_exact_permission (tr_agent req) (tr_capability req) s \<and>
    (\<exists>mode simulation. read_system_state s = (mode, simulation, True) \<and> mode \<noteq> MODE_FREEZE \<and>
       (tr_mutates req \<longrightarrow> mode = MODE_NORMAL \<and> \<not> simulation)) \<and>
    tr_risk req \<noteq> RED \<and>
    (let approved = is_approved (tr_mission req)
           (canonical_action_fingerprint (ge_sha env) (tr_capability req) (tr_target req)
              [(''capability'', JStr (tr_capability req)), (''target'', JStr (tr_target req)),
               (''params'', JObj (tr_params req))]) (ck_approved (gc_clock call)) s in
     (tr_risk req = BLUE \<longrightarrow> gateway_rule call req s \<noteq> None \<or> approved) \<and>
     (tr_risk req = AMBER \<longrightarrow> approved) \<and>
     (tr_risk req = GREEN \<longrightarrow> tr_mutates req \<longrightarrow> approved))"
proof -
  from gateway_world_guard[OF assms] have reg: "resolve (ge_registry env) (tr_capability req) \<noteq> None"
    and allow: "gateway_decision env call req s = ALLOW" by auto
  obtain mode sim ok where st: "read_system_state s = (mode, sim, ok)" by (cases "read_system_state s")
  from allow st show ?thesis
    by (simp add: reg gateway_decision_def safety_decision_def permission_context_def Let_def
        safety_request_of_def evaluate_action_allow intent_of_def gateway_rule_def)
qed

lemma sample_db_reads [simp]:
  "has_exact_permission ''sysadmin'' ''host.health'' (sample_db steps rules)"
  "read_system_state (sample_db steps rules) = (MODE_NORMAL, False, True)"
  "is_approved mid fp now (sample_db steps rules) \<longleftrightarrow> False"
  "world (sample_db steps rules) = 0"
  "approval_requests (sample_db steps rules) = []"
  by (simp_all add: sample_db_def has_exact_permission_def sample_agent_def read_system_state_def
      mode_of_def is_approved_def matching_requests_def)

lemma sample_resolve [simp]:
  "resolve (ge_registry sample_env) ''host.health'' = Some (\<lambda>req w. (Inr [], Suc w))"
  by (simp add: sample_env_def resolve_def)

lemma sample_request_simps [simp]:
  "tr_capability (sample_request k mu) = ''host.health''" "tr_agent (sample_request k mu) = ''sysadmin''"
  "tr_risk (sample_request k mu) = k" "tr_mutates (sample_request k mu) = mu"
  "tr_mission (sample_request k mu) = ''m1''" "tr_target (sample_request k mu) = ''m1''"
  "tr_conditions (sample_request k mu) = []"
  by (simp_all add: sample_request_def)

lemma sample_run:
  assumes "gateway_decision sample_env sample_call (sample_request risk mutates) (sample_db steps rules) = ALLOW"
    and "mutates \<longrightarrow> gateway_rule sample_call (sample_request risk mutates) (sample_db steps rules) = None"
  shows "world (snd (gateway_execute sample_env sample_call (sample_request risk mutates) (sample_db steps rules))) = 1"
  using gateway_allowed[OF _ assms(1), of "\<lambda>req w. (Inr [], Suc w)"] assms(2)
  by (auto simp: gateway_act_def bindE_def run_tool_executed split: option.splits)

theorem gateway_guards_world_witness:
  "world (snd (gateway_execute sample_env sample_call (sample_request GREEN False) (sample_db [] []))) \<noteq>
     world (sample_db [] []) \<and>
   has_exact_permission ''sysadmin'' ''host.health'' (sample_db [] [])"
proof -
  have "gateway_decision sample_env sample_call (sample_request GREEN False) (sample_db [] []) = ALLOW"
    by (simp add: gateway_decision_def safety_decision_def permission_context_def Let_def
        safety_request_of_def evaluate_action_allow intent_of_def)
  then have "world (snd (gateway_execute sample_env sample_call (sample_request GREEN False) (sample_db [] [])))
      \<noteq> world (sample_db [] [])"
    by (simp add: sample_run)
  with gateway_guards_world[OF this] show ?thesis by simp
qed

text \<open>
  A mutating run under a scoped rule costs exactly one use of it. If the outside world changed
  and a scoped rule matched the request, the rule was unexpired and below its limit when it
  was consumed, and its counter is one higher afterwards.
\<close>

theorem mutation_consumes_rule:
  assumes "unique_keys sr_id (scoped_rules s)" and "tr_mutates req"
    and "gateway_rule call req s = Some r"
    and "world (snd (gateway_execute env call req s)) \<noteq> world s"
  shows "sr_risk r \<noteq> RED \<and> stamp_instant (sr_expires_at r) > gc_consume_at call \<and>
         (\<forall>n. sr_max_count r = Some n \<longrightarrow> sr_count r < n) \<and>
         row_of sr_id (sr_id r) (scoped_rules (snd (gateway_execute env call req s))) =
           Some (r\<lparr>sr_count := sr_count r + 1\<rparr>)"
  using gateway_uses_rule[OF assms] by (auto simp: rule_consumable_def split: option.splits)

definition sample_rule :: scoped_rule where
  "sample_rule = \<lparr>sr_id = ''r1'', sr_action = ''host.health'', sr_target = ''m1'', sr_risk = BLUE,
     sr_conditions = [], sr_expires_at = Aware 10, sr_max_count = Some 1, sr_count = 0\<rparr>"

lemma sample_rule_matches:
  "gateway_rule sample_call (sample_request BLUE True) (sample_db [] [sample_rule]) = Some sample_rule"
  by (simp add: gateway_rule_def matching_scoped_rule_def sample_rule_def sample_call_def
      utc_instant_def rule_exhausted_def)

lemma sample_blue_run:
  "world (snd (gateway_execute sample_env sample_call (sample_request BLUE True) (sample_db [] [sample_rule]))) = 1"
proof -
  let ?req = "sample_request BLUE True" and ?s = "sample_db [] [sample_rule]"
  have "gateway_decision sample_env sample_call ?req ?s = ALLOW"
    using sample_rule_matches
    by (simp add: gateway_decision_def safety_decision_def permission_context_def Let_def
        safety_request_of_def evaluate_action_allow intent_of_def gateway_rule_def)
  from gateway_allowed[OF _ this, of "\<lambda>req w. (Inr [], Suc w)"] obtain t where
    t: "world t = 0" "scoped_rules t = [sample_rule]"
    and run: "gateway_execute sample_env sample_call ?req ?s =
      gateway_act (\<lambda>req w. (Inr [], Suc w)) sample_call ?req (Some sample_rule) t"
    by (auto simp: sample_rule_matches)
  obtain u where "consume_rule ''r1'' 0 t = (Inr (sample_rule\<lparr>sr_count := 1\<rparr>), u)" "world u = 0"
    using t by (simp add: consume_rule_def Let_def rowcount_def rule_consumable_def sample_rule_def
        update_where_def)
  then have "try_consume (sr_id sample_rule) (gc_consume_at sample_call) t = (Inr True, u)" "world u = 0"
    by (simp_all add: try_consume_def sample_rule_def sample_call_def)
  then show ?thesis
    unfolding run by (simp add: gateway_act_def bindE_def run_tool_executed)
qed

theorem mutation_consumes_rule_witness:
  "row_of sr_id ''r1'' (scoped_rules (snd (gateway_execute sample_env sample_call
      (sample_request BLUE True) (sample_db [] [sample_rule])))) = Some (sample_rule\<lparr>sr_count := 1\<rparr>)"
  using mutation_consumes_rule[of "sample_db [] [sample_rule]" "sample_request BLUE True" sample_call
      sample_rule sample_env] sample_rule_matches sample_blue_run
  by (simp add: sample_rule_def)

text \<open>
  An allowed request is carried out. If an adapter is registered, the policy allows the
  request, and no rule has to be consumed, the adapter runs on the world exactly once and its
  result, or its adapter error, is the outcome; the evaluation before it cannot prevent that.
\<close>

theorem allowed_request_runs:
  assumes "resolve (ge_registry env) (tr_capability req) = Some ad"
    and "gateway_decision env call req s = ALLOW"
    and "tr_mutates req \<longrightarrow> gateway_rule call req s = None"
  shows "world (snd (gateway_execute env call req s)) = snd (ad req (world s)) \<and>
     fst (gateway_execute env call req s) =
       (case fst (ad req (world s)) of
          Inr result \<Rightarrow> Inr (outcome req OUT_EXECUTED (Some result) None None)
        | Inl (ToolAdapterError _) \<Rightarrow> Inr (outcome req OUT_FAILED None (Some ''adapter_failed'') None)
        | Inl e \<Rightarrow> Inl e)"
proof -
  from gateway_allowed[OF assms(1,2)] obtain t where t: "world t = world s"
    and run: "gateway_execute env call req s = gateway_act ad call req (gateway_rule call req s) t"
    by blast
  have "gateway_act ad call req (gateway_rule call req s) t = run_tool ad req t"
    using assms(3) by (auto simp: gateway_act_def bindE_def split: option.splits)
  with t show ?thesis
    by (cases "ad req (world s)")
       (auto simp: run run_tool_def run_adapter_def bindE_def tool_record_result_def record_event_def
          add_to_session_def Let_def split: sum.splits exn.splits)
qed

theorem allowed_request_runs_witness:
  "fst (gateway_execute sample_env sample_call (sample_request GREEN False) (sample_db [] [])) =
     Inr (outcome (sample_request GREEN False) OUT_EXECUTED (Some []) None None)"
  using allowed_request_runs[of sample_env "sample_request GREEN False" "\<lambda>req w. (Inr [], Suc w)"
      sample_call "sample_db [] []"]
  by (simp add: gateway_decision_def safety_decision_def permission_context_def Let_def
      safety_request_of_def evaluate_action_allow intent_of_def)

text \<open>
  C11: a limited scoped rule is never used beyond its limit. However often and whenever
  \<open>consume_rule\<close> is called, the successful calls are exactly counted, and together with the uses
  before never exceed \<open>max_execution_count\<close>.
\<close>

theorem rule_budget_respected:
  assumes "unique_keys sr_id (scoped_rules s)" and "row_of sr_id rid (scoped_rules s) = Some r"
    and "sr_max_count r = Some limit" and "sr_count r \<le> limit"
    and "consume_many rid nows s = (n, s')"
  shows "sr_count r + int n \<le> limit \<and>
         (\<exists>r'. row_of sr_id rid (scoped_rules s') = Some r' \<and> sr_count r' = sr_count r + int n)"
  using consume_many_count[OF assms(1,2,5)] assms(3,4) by auto

theorem rule_budget_respected_witness:
  "fst (consume_many ''r1'' [0, 1, 2] (sample_db [] [sample_rule])) \<le> 1"
proof -
  obtain n s' where c: "consume_many ''r1'' [0, 1, 2] (sample_db [] [sample_rule]) = (n, s')"
    by (cases "consume_many ''r1'' [0, 1, 2] (sample_db [] [sample_rule])")
  have "sr_count sample_rule + int n \<le> 1"
    by (rule rule_budget_respected[OF _ _ _ _ c, THEN conjunct1]) (simp_all add: sample_rule_def)
  then show ?thesis unfolding c by (simp add: sample_rule_def)
qed

text \<open>
  C12: an approval covers one action on one target with one plan. When \<open>is_approved\<close> accepts the
  fingerprint of an action, a stored approved and unexpired request of that mission asked for the same
  action, the same target and the same plan up to the order of keys, unless SHA-256 collides
  on two different payloads.
\<close>

theorem approval_binds_action:
  assumes "fingerprints_match sha s"
    and "is_approved mid (canonical_action_fingerprint sha action target plan) now s"
  shows "\<exists>r \<in> set (approval_requests s).
    ar_mission r = mid \<and> ar_state r = APPROVED \<and> now < utc_instant (ar_expires_at r) \<and>
    (ar_action r = action \<and> ar_target r = target \<and> json_canon (JObj (ar_plan r)) = json_canon (JObj plan) \<or>
     (\<exists>x y. x \<noteq> y \<and> sha x = sha y))"
proof -
  from assms(2) obtain r where r: "r \<in> set (approval_requests s)" "ar_mission r = mid"
      "ar_state r = APPROVED" "now < utc_instant (ar_expires_at r)"
      "ar_fingerprint r = canonical_action_fingerprint sha action target plan"
    by (auto simp: is_approved_def matching_requests_def list_ex_iff)
  with assms(1) have "sha (json_dumps (action_payload (ar_action r) (ar_target r) (ar_plan r))) =
      sha (json_dumps (action_payload action target plan))"
    by (auto simp: fingerprints_match_def canonical_action_fingerprint_def)
  with r show ?thesis
    using payload_canon_eq[of "ar_action r" "ar_target r" "ar_plan r" action target plan] by blast
qed

definition approved_request :: approval_request where
  "approved_request = \<lparr>ar_id = ''q1'', ar_mission = ''m1'', ar_requester = ''sysadmin'', ar_action = ''a'',
     ar_target = ''t'', ar_risk = AMBER, ar_plan = [],
     ar_fingerprint = canonical_action_fingerprint (\<lambda>x. x) ''a'' ''t'' [], ar_state = APPROVED,
     ar_expires_at = Aware 10, ar_decided_at = Some (Aware 1), ar_created_at = 0\<rparr>"

theorem approval_binds_action_witness:
  "\<exists>r \<in> set (approval_requests ((sample_db [] [])\<lparr>approval_requests := [approved_request]\<rparr>)).
     ar_action r = ''a'' \<and> ar_target r = ''t''"
  using approval_binds_action[of "\<lambda>x. x" "(sample_db [] [])\<lparr>approval_requests := [approved_request]\<rparr>"
      "''m1''" "''a''" "''t''" "[]" 5]
  by (simp add: fingerprints_match_def is_approved_def matching_requests_def approved_request_def
      utc_instant_def)

text \<open>
  A decision on an approval request is final. Once \<open>decide\<close> has succeeded, every further
  decision on the same request raises \<open>ValueError\<close> and changes nothing.
\<close>

theorem decided_once:
  assumes "decide rid d now s = (Inr r, s')"
  shows "ar_state r = d \<and> row_of ar_id rid (approval_requests s') = Some r \<and>
         (\<exists>msg. decide rid d' now' s' = (Inl (ValueError msg), s'))"
  using assms
  by (auto simp: decide_def Let_def table_simps split: if_splits option.splits dest: row_of_SomeD)

theorem decided_once_witness:
  "\<exists>r s' msg. decide ''q1'' DENIED 1
       ((sample_db [] [])\<lparr>approval_requests := [approved_request\<lparr>ar_state := APPROVAL_PENDING\<rparr>]\<rparr>) = (Inr r, s') \<and>
     decide ''q1'' APPROVED 2 s' = (Inl (ValueError msg), s')"
proof -
  let ?s = "(sample_db [] [])\<lparr>approval_requests := [approved_request\<lparr>ar_state := APPROVAL_PENDING\<rparr>]\<rparr>"
  obtain r s' where d: "decide ''q1'' DENIED 1 ?s = (Inr r, s')"
    by (simp add: decide_def Let_def approved_request_def)
  with decided_once[OF d, of APPROVED 2] show ?thesis by blast
qed



text \<open>
  The safety service fails closed. Without a system-state row, or with one whose mode is not
  a known value, every request is blocked, whatever it asks and whatever was approved, and no
  approval request is filed.
\<close>

theorem missing_state_blocks:
  assumes "case system_row s of None \<Rightarrow> True | Some st \<Rightarrow> ss_operating_mode st \<notin> {''normal'', ''safe'', ''freeze''}"
  shows "\<exists>res s'. evaluate sha lifetime ck new_id created q s = (Inr res, s') \<and> sf_decision res = BLOCK \<and>
           sf_approval_request_id res = None \<and> approval_requests s' = approval_requests s"
proof -
  have "read_system_state s = (MODE_FREEZE, True, False)"
    using assms by (auto simp: read_system_state_def mode_of_def split: option.splits)
  then have b: "safety_decision sha ck q s = BLOCK"
    by (simp add: safety_decision_def permission_context_def Let_def evaluate_action_def)
  with evaluate_no_approval[of sha ck q s lifetime new_id created] obtain res s' where
    ev: "evaluate sha lifetime ck new_id created q s = (Inr res, s')"
    and same: "approval_requests s' = approval_requests s" by auto
  from evaluate_Inr[OF ev] b same show ?thesis by (auto simp: ev)
qed

theorem missing_state_blocks_witness:
  "\<exists>res s'. evaluate (\<lambda>x. x) 0 (gc_clock sample_call) ''q'' 0 (safety_request_of (sample_request GREEN False) True)
      ((sample_db [] [])\<lparr>system_row := None\<rparr>) = (Inr res, s') \<and> sf_decision res = BLOCK"
  using missing_state_blocks[of "(sample_db [] [])\<lparr>system_row := None\<rparr>" "\<lambda>x. x" 0 "gc_clock sample_call"
      "''q''" 0 "safety_request_of (sample_request GREEN False) True"] by auto

text \<open>
  Asking twice files one request. After an evaluation that required approval and named a
  pending request, evaluating the same action again before that request expires
  adds no request to the table.
\<close>

theorem pending_request_reused:
  assumes "evaluate sha lifetime ck new_id created q s = (Inr res, s')"
    and "sf_approval_request_id res = Some rid"
    and "\<forall>r \<in> set (approval_requests s'). ar_id r = rid \<longrightarrow> ck_pending ck' < utc_instant (ar_expires_at r)"
  shows "approval_requests (snd (evaluate sha lifetime ck' new_id' created' q s')) = approval_requests s'"
proof -
  let ?fp = "canonical_action_fingerprint sha (sq_action q) (sq_target q) (sq_plan q)"
  obtain r where r: "r \<in> set (approval_requests s')" "ar_id r = rid" "ar_mission r = sq_mission q"
      "ar_fingerprint r = ?fp" "ar_state r = APPROVAL_PENDING"
    using evaluate_names_pending[OF assms(1,2)] by blast
  with assms(3) have "\<exists>r'. pending_for_fingerprint (sq_mission q) ?fp (ck_pending ck') s' = Some r'"
    by (auto simp: pending_for_fingerprint_def matching_requests_def find_None_iff
        simp flip: not_None_eq)
  then obtain r' where "pending_for_fingerprint (sq_mission q) ?fp (ck_pending ck') s' = Some r'" by blast
  then show ?thesis by (rule evaluate_reuses)
qed

theorem pending_request_reused_witness:
  "\<exists>res s'. evaluate (\<lambda>x. x) 10 (gc_clock sample_call) ''q1'' 0 (safety_request_of (sample_request AMBER False) True)
       (sample_db [] []) = (Inr res, s') \<and>
     approval_requests (snd (evaluate (\<lambda>x. x) 10 (gc_clock sample_call) ''q2'' 1
       (safety_request_of (sample_request AMBER False) True) s')) = approval_requests s'"
proof -
  let ?q = "safety_request_of (sample_request AMBER False) True" and ?ck = "gc_clock sample_call"
  have ck: "ck_pending ?ck = 0" "ck_request ?ck = 0" by (simp_all add: sample_call_def)
  have d: "evaluate_action (intent_of ?q False None True) MODE_NORMAL False = REQUIRE_APPROVAL"
    by (simp add: evaluate_action_def intent_of_def safety_request_of_def)
  obtain res s' where ev: "evaluate (\<lambda>x. x) 10 ?ck ''q1'' 0 ?q (sample_db [] []) = (Inr res, s')"
      and rid: "sf_approval_request_id res = Some ''q1''"
      and rows: "\<forall>r \<in> set (approval_requests s'). ar_expires_at r = Aware 10"
    using d
    by (simp add: evaluate_def record_event_def Let_def permission_context_def file_approval_def
        pending_for_fingerprint_def matching_requests_def create_request_def insert_row_def ck
        safety_request_of_def matching_scoped_rule_def)
  show ?thesis
    using ev pending_request_reused[OF ev rid, of ?ck "''q2''" 1] rows
    by (auto simp: utc_instant_def ck)
qed

section \<open>The host helper\<close>



text \<open>
  C18: the host executor runs only catalogued commands. Whatever the request, every command line it
  adds to the ones run so far is a read-only probe of a fixed form, a restart of a known unit, the
  deploy entry point, or a rollback entry point with one release id; and a read-only
  capability runs read-only commands only.
\<close>

theorem host_commands_catalogued:
  "\<exists>new. snd (host_execute al env req run) = run @ new \<and>
     list_all (if read_only_capability (hr_capability req) then argv_readonly
               else (\<lambda>a. argv_readonly a \<or> argv_mutating a)) new"
  using keepsD[OF host_execute_catalogued, of run al env req]
    keepsD[OF host_execute_readonly, of req run al env]
  by (cases "read_only_capability (hr_capability req)") (auto simp: extends_def argv_any_def list_all_iff)

text \<open>
  C19: client and helper understand each other. For every well-formed request, every ASCII
  credential and every way the kernel cuts the two byte streams, what the client returns is
  exactly the response of the host executor, provided both messages fit their size limits.
\<close>

theorem helper_roundtrip:
  assumes wf: "request_wf al r" "hr_target r \<noteq> Some []" and cred: "is_ascii credential"
    and run: "host_execute al env r s = (Inr resp, s')" "json_wf (JObj (hp_data resp))"
    and fits: "length (json_text (client_payload credential r)) < max_request_bytes"
      "length (json_text (JObj (response_dict resp))) < client_max_response_bytes"
    and cut: "\<forall>k \<in> set ks1. 0 < k" "length (client_encode credential r) \<le> length ks1"
    and cut': "\<forall>k \<in> set ks2. 0 < k" "length (json_text (JObj (response_dict resp))) < length ks2"
  shows "client_execute json_loads credential (helper_wire json_loads credential al (host_execute al env) ks1 ks2) r s =
    (Inr resp, s')"
proof (rule client_server_roundtrip[where execute = "host_execute al env", OF wf cred run(1) _ _ _ fits cut cut'])
  show "answers r resp" using host_execute_answers[OF wf(1)] run(1) unfolding yields_def by blast
  show "json_loads (json_text (client_payload credential r)) = Some (client_payload credential r)"
    using client_payload_wf[OF wf(1)] by (rule json_loads_text)
  show "json_loads (json_text (JObj (response_dict resp))) = Some (JObj (response_dict resp))"
    using response_wf[OF run(2)] by (rule json_loads_text)
qed

definition sample_host_env :: host_env where
  "sample_host_env =
     \<lparr>he_run = (\<lambda>run argv. Completed 0 ''0 0 0'' []), he_ready = ReadyTimeout, he_now = ''now'', he_loads = json_loads\<rparr>"

theorem helper_roundtrip_witness:
  "client_execute json_loads ''key'' (helper_wire json_loads ''key'' default_allow_lists
       (host_execute default_allow_lists sample_host_env) (replicate 200 1) (replicate 300 7))
     (helper_request_of HOST_HEALTH None []) [] =
   host_execute default_allow_lists sample_host_env (helper_request_of HOST_HEALTH None []) []"
proof -
  let ?r = "helper_request_of HOST_HEALTH None []"
  let ?resp = "success ?r None
     [(''uptime'', JStr ''0 0 0''), (''load_1m'', JStr ''0''), (''load_5m'', JStr ''0''),
      (''load_15m'', JStr ''0''), (''timestamp'', JStr ''now'')]"
  have run: "host_execute default_allow_lists sample_host_env ?r [] =
      (Inr ?resp, [[''uptime'', ''-p''], [''cat'', ''/proc/loadavg'']])"
    by (simp add: host_execute_def helper_request_of_def host_health_def run_then_def command_def
        sample_host_env_def bindE_def Let_def nth_or_null_def strip_def is_space_def split_ws_def)
  have t: "length (json_text (client_payload ''key'' ?r)) = 73"
    "length (json_text (JObj (response_dict ?resp))) = 152"
    by (simp_all add: client_payload_def helper_request_of_def str_or_null_def quote_def esc_char_def
        response_dict_def success_def)
  have wf: "request_wf default_allow_lists ?r" "hr_target ?r \<noteq> Some []" "is_ascii ''key''"
    by (simp_all add: request_wf_def helper_request_of_def is_ascii_def)
  have data: "json_wf (JObj (hp_data ?resp))" by (simp add: success_def)
  show ?thesis
    unfolding run
    by (rule helper_roundtrip[OF wf run data])
       (simp_all add: t client_encode_def max_request_bytes_def client_max_response_bytes_def
          del: json_text.simps)
qed

text \<open>
  Reading is bounded and never cuts a message. However the bytes arrive, the reader keeps at
  most one byte more than the limit, and a line within the limit, sent with its newline, is
  read exactly when the peer delivers it in non-empty pieces.
\<close>

theorem reader_bounded_and_exact:
  "length (read_loop limit ks stream []) \<le> limit + 1 \<and>
   (newline \<notin> set line \<longrightarrow> length line \<le> limit \<longrightarrow> (\<forall>k \<in> set ks. 0 < k) \<longrightarrow> length line < length ks \<longrightarrow>
      read_loop limit ks (line @ [newline]) [] = line @ [newline] \<and>
      first_line (read_loop limit ks (line @ [newline]) []) = line)"
  using read_loop_bound[of "[]" limit ks stream] read_loop_line[of "[]" "line @ [newline]" line limit ks]
  by auto

theorem reader_bounded_and_exact_witness:
  "first_line (read_loop 10 [1, 2, 9] (''ab'' @ [newline]) []) = ''ab''"
  using reader_bounded_and_exact[of 10 "[1, 2, 9]" "[]" "''ab''"] by (simp add: first_line_def del: read_loop.simps)



text \<open>
  A rollback never reaches the host. Whatever the adapter sends for \<open>deployment.rollback\<close>
  carries a release id, and \<open>validate_request\<close> rejects every parameter of that capability, so
  the helper refuses it for every target, release and allow list.
\<close>

theorem rollback_always_refused:
  "snd (deployment_rollback_adapter reg (logging_client ans) req sent) = sent \<or>
   (\<exists>r e. snd (deployment_rollback_adapter reg (logging_client ans) req sent) = sent @ [r] \<and>
      validate_request (request_payload r) al = Inl (ValueError e))"
proof -
  have "sends (\<lambda>r. \<exists>t x. r = helper_request_of DEPLOYMENT_ROLLBACK (Some t) [(''release_id'', JStr x)])
      sent (snd (deployment_rollback_adapter reg (logging_client ans) req sent))"
    using rollback_sends[of reg ans req] unfolding sends_only_def by (rule keepsD)
  then show ?thesis unfolding sends_def using rollback_refused[of _ _ al] by blast
qed

section \<open>Automatic recovery\<close>


definition pending_incident :: incident where
  "pending_incident =
     \<lparr>ri_id = ''i1'', ri_active_key = Some ''dripvid:app'', ri_target = ''dripvid'', ri_component = ''app'',
      ri_state = RECOVERY_PENDING, ri_failures = 3, ri_first_failure_at = Aware 0,
      ri_last_failure_at = Aware 0, ri_last_observed_at = Aware 0, ri_diagnostics = [],
      ri_verification = [], ri_mission = None, ri_last_attempt_at = None,
      ri_escalation_reason = None, ri_resolved_at = None\<rparr>"

definition sample_config :: recovery_config where
  "sample_config = \<lparr>rv_failure_threshold = 2, rv_observation_seconds = 1, rv_cooldown_seconds = 60,
     rv_attempt_budget = 1, rv_window_seconds = 600\<rparr>"

definition sample_recovery :: recovery_db where
  "sample_recovery = recovery_db.truncate (sample_db [] [])\<lparr>incidents := [pending_incident]\<rparr>"

lemma sample_recovery_simps [simp]:
  "incidents sample_recovery = [pending_incident]" "attempts sample_recovery = []"
  "ri_id pending_incident = ''i1''"
  by (simp_all add: sample_recovery_def recovery_db.defs sample_db_def pending_incident_def)


text \<open>
  C24: the incident table stays consistent. Every cycle of the recovery observer and every report of
  a mission's outcome keeps identifiers unique, an incident active exactly while its state is not
  terminal, and at most one active incident per component.
\<close>

theorem recovery_keeps_incidents:
  assumes "incidents_inv s"
  shows "incidents_inv (snd (cycle_run_once ob ci observe_only s)) \<and>
         incidents_inv (snd (handle_execution_result ob call mid oc s))"
  using assms keepsD[OF cycle_run_once_keeps_inv, of s ob ci observe_only]
    keepsD[OF handle_execution_result_keeps_inv, of s ob call mid oc]
  by (simp add: inv_kept_def)

definition sample_observer :: observer where
  "sample_observer =
     \<lparr>ob_config = sample_config, ob_threshold = 2, ob_observe_only = False, ob_notifications = True,
      ob_ledger = True, ob_registry = None\<rparr>"

definition sample_observer_call :: observer_call where
  "sample_observer_call = \<lparr>oc_id = (\<lambda>n. if n = 0 then ''m2'' else ''n''), oc_now = (\<lambda>n. 1000)\<rparr>"

lemma pending_incident_inv: "incidents_inv sample_recovery"
  by (simp add: incidents_inv_def incident_ok_def rowcount_def) (simp add: pending_incident_def terminal_def)

theorem recovery_keeps_incidents_witness:
  "incidents_inv (snd (handle_execution_result sample_observer sample_observer_call ''m1''
     (Some (outcome (sample_request AMBER True) OUT_FAILED None None None)) sample_recovery))"
  using recovery_keeps_incidents[OF pending_incident_inv, of sample_observer _ _ sample_observer_call "''m1''"
      "Some (outcome (sample_request AMBER True) OUT_FAILED None None None)"]
  by blast

text \<open>
  C25: a recovery mission is filed only for a reason. When the observer files one, the incident is
  active, not terminal and has no mission yet, the observer is not in observe-only mode, the
  failures reached the threshold, the service is really down, and the attempt budget and the
  cool-down both allow another attempt at that time.
\<close>

theorem recovery_mission_justified:
  assumes "create_recovery_mission ob call iid readiness service_state s = (Inr (Some m), t)"
  shows "\<exists>i. row_of ri_id iid (incidents s) = Some i \<and> ri_active_key i \<noteq> None \<and>
     ri_state i \<in> {SUSPECT, DIAGNOSING, RECOVERY_PENDING} \<and> \<not> has_mission i \<and>
     \<not> ob_observe_only ob \<and> ob_threshold ob \<le> ri_failures i \<and> service_down service_state \<and>
     int (rowcount (counts_for i (oc_now call 1 - seconds (rv_window_seconds (ob_config ob)))) (attempts s))
       < rv_attempt_budget (ob_config ob) \<and>
     (\<forall>w. ri_last_attempt_at i = Some w \<longrightarrow>
        seconds (rv_cooldown_seconds (ob_config ob)) \<le> oc_now call 1 - stamp_instant w) \<and>
     m = mission_row (oc_id call 0) (oc_now call 2) (recovery_mission (ri_component i))"
  by (rule create_recovery_mission_Some[OF assms])

theorem recovery_mission_justified_witness:
  "\<exists>m t. create_recovery_mission sample_observer sample_observer_call ''i1'' [] (Some ''failed'') sample_recovery =
       (Inr (Some m), t) \<and> m_title m = ''Recover DripVid app'' \<and> m_id m = ''m2'' \<and>
     0 < rv_attempt_budget (ob_config sample_observer)"
proof -
  have down: "service_down (Some ''failed'')" by (simp add: service_down_def casefold_def fold_char_def)
  have d: "decide_recovery (Some ''app'') (Some ''failed'') 3 2 [] =
      decision_of Recover (Some ''app'') ''service_inactive_or_failed''"
    by (simp add: decide_recovery_def storage_decision_def down recovery_components_def component_entry_def)
  obtain m t where f: "create_recovery_mission sample_observer sample_observer_call ''i1'' [] (Some ''failed'')
      sample_recovery = (Inr (Some m), t)"
    by (simp add: create_recovery_mission_def get_incident_def bindE_def has_mission_def pending_incident_def
        sample_observer_def sample_observer_call_def d decision_of_def mark_recovery_pending_def change_incident_def save_incident_def
        can_recover_def sample_config_def rowcount_def Let_def save_row_def update_where_def
        file_mission_def create_mission_def sample_recovery_def recovery_db.defs sample_db_def insert_row_def
        mission_row_def sample_mission_def recovery_mission_def add_to_session_def create_plan_def
        recovery_plan_def attach_mission_def)
  from recovery_mission_justified[OF f]
  have "m = mission_row ''m2'' 1000 (recovery_mission ''app'')"
    "0 < rv_attempt_budget (ob_config sample_observer)"
    by (simp_all add: pending_incident_def sample_observer_call_def rowcount_def)
  with f show ?thesis by (auto simp: mission_row_def recovery_mission_def)
qed

text \<open>
  Observing does nothing else. A cycle in observe-only mode leaves the missions exactly as they
  were, whatever the readiness payload, the service states and the stored incidents.
\<close>

theorem observe_only_files_no_mission:
  "missions (snd (cycle_run_once ob ci True s)) = missions s"
  using keepsD[OF observe_only_cycle, of s ob ci] by (simp add: same_def)

text \<open>
  When recovery is decided. The policy decides to recover exactly when storage is not the
  problem, readiness does not report healthy, the failures have reached the threshold, the service is
  down, and the component is one of the known recoverable ones.
\<close>

theorem recover_decided_iff:
  "rd_action (decide_recovery component service_state failures threshold readiness) = Recover \<longleftrightarrow>
     storage_decision readiness = None \<and> dict_get readiness ''ok'' \<noteq> JBool True \<and>
     threshold \<le> failures \<and> service_down service_state \<and>
     (\<exists>x rc. component = Some x \<and> map_of recovery_components x = Some rc)"
  by (rule decide_recovery_recover)

text \<open>
  Stored evidence is bounded. Whatever value is recorded, what is stored has at most four
  levels, 32 entries and distinct keys of at most 128 characters per object, 20 elements per list and 1024 characters per
  string, and bounding it again changes nothing.
\<close>

theorem evidence_bounded:
  "small 0 (bounded_value 0 v) \<and> bounded_value 0 (bounded_value 0 v) = bounded_value 0 v"
  using bounded_value_small[of 0 v] bounded_value_id[OF bounded_value_small] by simp

section \<open>Notifications, ledger and encodings\<close>

text \<open>
  One open notification per group. Every operation of the notification service keeps at most
  one unread and undismissed notification per group key, when keys carry no surrounding blanks.
\<close>

theorem one_open_notification:
  assumes "groups_open_once s" and "strip (nt_group_key q) = nt_group_key q"
  shows "groups_open_once (snd (notify i c now q s)) \<and> groups_open_once (snd (mark_read nid now s)) \<and>
         groups_open_once (snd (dismiss nid now s)) \<and> groups_open_once (snd (mark_all_read now s))"
  using notify_open_once[OF assms] mark_read_open_once[OF assms(1)] by blast

definition sample_notice :: notice where
  "sample_notice = \<lparr>nt_severity = CRITICAL, nt_title = ''t'', nt_message = ''m'', nt_group_key = ''g'',
     nt_source_type = None, nt_source_id = None\<rparr>"

theorem one_open_notification_witness:
  "groups_open_once (snd (notify ''n2'' 0 2 sample_notice (snd (notify ''n1'' 0 1 sample_notice (sample_db [] [])))))"
proof -
  have "groups_open_once (sample_db [] [])"
    by (simp add: groups_open_once_def sample_db_def rowcount_def)
  then show ?thesis
    by (rule one_open_notification[THEN conjunct1, OF one_open_notification[THEN conjunct1]])
       (simp_all add: sample_notice_def strip_def is_space_def)
qed

text \<open>
  No stored notification looks like a secret: \<open>notify\<close> rejects titles and messages
  that do, so the table stays free of them.
\<close>

theorem notifications_stay_clean:
  assumes "notifications_clean s"
  shows "notifications_clean (snd (notify i c now q s))"
  using assms by (rule notify_clean)

text \<open>
  What the notification service keeps. Every operation keeps at most one unread and undismissed
  notification per group key, when keys carry no surrounding blanks, and no title or message that looks like
  a secret is ever stored.
\<close>

theorem notification_table_kept:
  assumes "groups_open_once s" and "notifications_clean s" and "strip (nt_group_key q) = nt_group_key q"
  shows "groups_open_once (snd (notify i c now q s)) \<and> notifications_clean (snd (notify i c now q s)) \<and>
         groups_open_once (snd (mark_read nid now s)) \<and> groups_open_once (snd (dismiss nid now s)) \<and>
         groups_open_once (snd (mark_all_read now s))"
  using one_open_notification[OF assms(1,3)] notifications_stay_clean[OF assms(2)] by blast

theorem notification_table_kept_witness:
  "groups_open_once (snd (notify ''n1'' 0 1 sample_notice (sample_db [] []))) \<and>
   notifications_clean (snd (notify ''n1'' 0 1 sample_notice (sample_db [] [])))"
proof -
  have "groups_open_once (sample_db [] [])" and "notifications_clean (sample_db [] [])"
    by (simp_all add: groups_open_once_def notifications_clean_def sample_db_def rowcount_def)
  then show ?thesis
    using notification_table_kept[of "sample_db [] []" sample_notice] by (simp add: sample_notice_def strip_def is_space_def)
qed

text \<open>
  The ledger only grows. Whatever a call of the gateway does, including when it raises, the
  events recorded before are still there, in the same order.
\<close>

theorem gateway_ledger_append_only:
  "\<exists>evs. ledger (snd (gateway_execute env call req s)) = ledger s @ evs"
  using keepsD[OF gateway_keeps(3), of s env call req] by (simp add: ledger_grows_def)

end
